(* ===== verification/Prelude.thy ===== *)
theory Prelude
  imports "HOL-Library.Word"
begin

text \<open>
  Shared vocabulary of the development: the machine integer types of the Rust code, the
  collections of automation rules the component theories fill, the decimal rendering of
  integers, and generic lemmas on lists, options and words.

  A Rust \<open>usize\<close> that counts bytes or elements of a buffer is a \<^typ>\<open>nat\<close>: every such
  value is the length of a slice or a sum of a few of them, far below the word size.
  A \<open>u8\<close>, \<open>u16\<close> or \<open>u32\<close> is a machine word.
\<close>

unbundle bit_operations_syntax

text \<open>Sizes and offsets of one byte are written \<^term>\<open>1 :: nat\<close> and stay so.\<close>

declare One_nat_def [simp del]

type_synonym u8 = "8 word"
type_synonym u16 = "16 word"
type_synonym u32 = "32 word"

text \<open>
  Automation collections. The locale of encodable operands declares its consequences
  into these, so that every interpretation adds the facts of its type.
  \<open>codec\<close>: rewriting (encoders and decoders on explicit bytes);
  \<open>codec_panic\<close>: elimination rules for a decoder step that panicked;
  \<open>codec_inv\<close>: elimination rules for a decoder step that succeeded;
  \<open>codec_rt\<close>: elimination rules that turn well-formedness into bytes that decode back.
\<close>

named_theorems codec
named_theorems codec_panic
named_theorems codec_inv
named_theorems codec_rt

subsection \<open>Decimal rendering of integers\<close>

text \<open>\<open>to_string\<close> and \<open>{:?}\<close> of an unsigned integer.\<close>

fun show_nat :: "nat \<Rightarrow> string" where
  "show_nat n =
     (if n < 10 then [''0123456789'' ! n]
      else show_nat (n div 10) @ [''0123456789'' ! (n mod 10)])"

declare show_nat.simps [simp del]

lemma show_nat_digit [simp]: "n < 10 \<Longrightarrow> show_nat n = [''0123456789'' ! n]"
  by (simp add: show_nat.simps)

lemma show_nat_step: "10 \<le> n \<Longrightarrow> show_nat n = show_nat (n div 10) @ [''0123456789'' ! (n mod 10)]"
  by (subst show_nat.simps) simp

definition show_u8 :: "u8 \<Rightarrow> string" where
  "show_u8 b = show_nat (unat b)"

subsection \<open>Output buffers\<close>

text \<open>
  An encoder appends to a growable buffer (\<open>impl Extend<u8>\<close>); the model returns the bytes
  it appends, and \<^term>\<open>None\<close> where the Rust code panics. \<open>emit\<close> runs encoders one after the
  other into the same buffer.
\<close>

definition emit :: "u8 list option list \<Rightarrow> u8 list option" where
  "emit bss = map_option concat (those bss)"

lemma emit_Nil [simp]: "emit [] = Some []"
  by (simp add: emit_def)

lemma emit_Cons_Some [simp]: "emit (Some b # bss) = map_option ((@) b) (emit bss)"
  by (simp add: emit_def option.map_comp comp_def)

lemma emit_Cons_None [simp]: "emit (None # bss) = None"
  by (simp add: emit_def)

lemma emit_all_Some:
  "(\<And>x. x \<in> set xs \<Longrightarrow> f x = Some (g x)) \<Longrightarrow> emit (map f xs) = Some (concat (map g xs))"
  by (induction xs) auto

subsection \<open>Options\<close>

lemma pred_option_True [simp]: "pred_option (\<lambda>_. True) x"
  by (cases x) simp_all

subsection \<open>Words\<close>

lemma u8_split [simp]:
  "push_bit 8 (ucast (ucast (drop_bit 8 (w :: u16)) :: u8)) OR ucast (ucast w :: u8) = w"
  by (rule bit_word_eqI) (auto simp: bit_simps)

text \<open>The comparison of numerals of a word type computes with these equations, stated for \<open>1\<close>.\<close>

lemma take_bit_num_one [simp]:
  "take_bit_num 1 num.One = Some num.One"
  "take_bit_num 1 (num.Bit0 n) = None"
  "take_bit_num 1 (num.Bit1 n) = Some num.One"
  by (simp_all add: One_nat_def)

lemma shift_one [simp]:
  "drop_bit 1 = drop_bit (Suc 0)" "push_bit 1 = push_bit (Suc 0)" "take_bit 1 = take_bit (Suc 0)"
  "bit w 1 = bit w (Suc 0)"
  by (simp_all add: One_nat_def)

lemma drop_one_Cons [simp]: "drop 1 (x # xs) = xs"
  by (simp add: One_nat_def)

lemma drop_add_Cons [simp]:
  "drop (numeral k + n) (x # xs) = drop (pred_numeral k + n) xs"
  "drop (1 + n) (x # xs) = drop n xs"
  by (simp_all add: numeral_eq_Suc One_nat_def)

lemma drop_bit_8_u16_le: "drop_bit 8 (w :: u16) \<le> 0xFF"
proof -
  have "unat (drop_bit 8 w) = unat w div 256"
    by (simp add: drop_bit_eq_div unat_div)
  also have "\<dots> \<le> 255"
    using unsigned_less [of w, where ?'a = nat] by simp
  finally show ?thesis by (simp add: word_le_nat_alt)
qed

lemma and_mask_8_u16_le: "(w :: u16) AND 0xFF \<le> 0xFF"
  by (rule word_and_le1)

lemma ucast_and_mask_8 [simp]: "(ucast ((w :: u16) AND 0xFF) :: u8) = ucast w"
proof -
  have m: "(0xFF :: u16) = mask 8"
    by (simp add: mask_eq_exp_minus_1)
  show ?thesis
    unfolding m by (rule bit_word_eqI) (auto simp: bit_simps)
qed

end
