(* ===== verification/CecError.thy ===== *)
theory CecError
  imports Prelude
begin

text \<open>
  Ranges, errors and results: \<open>linux-cec/src/lib.rs\<close>, the types \<open>Range\<close>, \<open>Error\<close>, \<open>TxError\<close>
  and \<open>RxError\<close>, with the range check and the offset adjustment every decoder uses.

  A Rust call has three outcomes: it returns \<open>Ok\<close>, it returns \<open>Err\<close>, or it panics (a slice or
  an index out of range, an \<open>unwrap\<close> of an error, \<open>unreachable!\<close>, \<open>todo!\<close>). The type \<open>result\<close>
  below has the three as constructors, so that the absence of panics is a theorem and not
  an assumption of the model.
\<close>

subsection \<open>Ranges\<close>

datatype 'a Range =
    AtMost 'a
  | AtLeast 'a
  | Exact 'a
  | Only "'a list"
  | Interval 'a 'a

subsection \<open>Errors\<close>

text \<open>
  \<open>Errno\<close> is the error number type of the nix crate; the code distinguishes five values of it
  and passes every other one through.
\<close>

datatype Errno = EINVAL | ETIMEDOUT | ENODEV | ENONET | ENOTTY | Errno_other int

datatype TxError =
    ArbLost
  | Nack
  | LowDrive
  | UnknownError
  | MaxRetries
  | Aborted
  | Timeout

datatype RxError =
    Timeout
  | FeatureAbort
  | Aborted

datatype Error =
    OutOfRange "nat Range" nat string
  | InvalidValueForType string string
  | InvalidData
  | Timeout
  | Abort
  | NoLogicalAddress
  | Disconnected
  | Unsupported
  | SystemError Errno
  | TxError TxError
  | RxError RxError
  | UnknownError string

subsection \<open>Results\<close>

datatype 'a result = Ok 'a | Err Error | Panic

text \<open>The \<open>?\<close> operator and \<open>map_err\<close>.\<close>

primrec and_then :: "'a result \<Rightarrow> ('a \<Rightarrow> 'b result) \<Rightarrow> 'b result" where
  "and_then (Ok x) f = f x"
| "and_then (Err e) f = Err e"
| "and_then Panic f = Panic"

primrec map_err :: "(Error \<Rightarrow> Error) \<Rightarrow> 'a result \<Rightarrow> 'a result" where
  "map_err g (Ok x) = Ok x"
| "map_err g (Err e) = Err (g e)"
| "map_err g Panic = Panic"

text \<open>\<open>unwrap\<close> on an option.\<close>

primrec unwrap_option :: "'a option \<Rightarrow> 'a result" where
  "unwrap_option None = Panic"
| "unwrap_option (Some x) = Ok x"

text \<open>\<open>bytes[n..]\<close> and \<open>bytes[i]\<close>: both panic out of range.\<close>

definition slice_from :: "'a list \<Rightarrow> nat \<Rightarrow> 'a list result" where
  "slice_from bs n = (if n \<le> length bs then Ok (drop n bs) else Panic)"

definition index :: "'a list \<Rightarrow> nat \<Rightarrow> 'a result" where
  "index bs i = (if i < length bs then Ok (bs ! i) else Panic)"

lemma and_then_eq_Ok [simp]: "and_then r f = Ok y \<longleftrightarrow> (\<exists>x. r = Ok x \<and> f x = Ok y)"
  by (cases r) auto

lemma and_then_eq_Panic [simp]:
  "and_then r f = Panic \<longleftrightarrow> r = Panic \<or> (\<exists>x. r = Ok x \<and> f x = Panic)"
  by (cases r) auto

lemma and_then_assoc: "and_then (and_then r f) g = and_then r (\<lambda>x. and_then (f x) g)"
  by (cases r) auto

lemma and_then_cong [fundef_cong]:
  "r = r' \<Longrightarrow> (\<And>x. r' = Ok x \<Longrightarrow> f x = f' x) \<Longrightarrow> and_then r f = and_then r' f'"
  by (cases r') auto

lemma map_err_eq_Ok [simp]: "map_err g r = Ok x \<longleftrightarrow> r = Ok x"
  by (cases r) auto

lemma map_err_eq_Panic [simp]: "map_err g r = Panic \<longleftrightarrow> r = Panic"
  by (cases r) auto

lemma map_err_comp: "map_err f (map_err g r) = map_err (f \<circ> g) r"
  by (cases r) auto

lemma slice_from_Ok [simp]: "n \<le> length bs \<Longrightarrow> slice_from bs n = Ok (drop n bs)"
  by (simp add: slice_from_def)

lemma slice_from_eq_Ok: "slice_from bs n = Ok s \<longleftrightarrow> n \<le> length bs \<and> s = drop n bs"
  by (auto simp: slice_from_def)

lemma slice_from_eq_Panic [simp]: "slice_from bs n = Panic \<longleftrightarrow> length bs < n"
  by (auto simp: slice_from_def)

lemma index_Ok [simp]: "i < length bs \<Longrightarrow> index bs i = Ok (bs ! i)"
  by (simp add: index_def)

lemma index_eq_Ok: "index bs i = Ok b \<longleftrightarrow> i < length bs \<and> b = bs ! i"
  by (auto simp: index_def)

lemma index_eq_Panic [simp]: "index bs i = Panic \<longleftrightarrow> length bs \<le> i"
  by (auto simp: index_def)

subsection \<open>Checking and shifting ranges\<close>

primrec in_range :: "nat Range \<Rightarrow> nat \<Rightarrow> bool" where
  "in_range (AtMost mx) v = (v \<le> mx)"
| "in_range (AtLeast mn) v = (v \<ge> mn)"
| "in_range (Exact x) v = (v = x)"
| "in_range (Only list) v = (v \<in> set list)"
| "in_range (Interval mn mx) v = (v \<ge> mn \<and> v \<le> mx)"

definition check :: "nat Range \<Rightarrow> nat \<Rightarrow> string \<Rightarrow> unit result" where
  "check r v q = (if in_range r v then Ok () else Err (OutOfRange r v q))"

primrec add_range :: "nat Range \<Rightarrow> nat \<Rightarrow> nat Range" where
  "add_range (AtMost mx) rhs = AtMost (mx + rhs)"
| "add_range (AtLeast mn) rhs = AtLeast (mn + rhs)"
| "add_range (Exact x) rhs = Exact (x + rhs)"
| "add_range (Only list) rhs = Only (map (\<lambda>v. v + rhs) list)"
| "add_range (Interval mn mx) rhs = Interval (mn + rhs) (mx + rhs)"

definition range_inclusive :: "'a \<Rightarrow> 'a \<Rightarrow> 'a Range" where
  "range_inclusive start stop = Interval start stop"

text \<open>\<open>Error::add_offset\<close>: only byte counts are shifted.\<close>

fun add_offset :: "nat \<Rightarrow> Error \<Rightarrow> Error" where
  "add_offset offset (OutOfRange r g q) =
     (if q = ''bytes'' then OutOfRange (add_range r offset) (g + offset) q
      else OutOfRange r g q)"
| "add_offset offset e = e"

text \<open>\<open>Display\<close> of a range of numbers.\<close>

fun join_comma :: "string \<Rightarrow> string list \<Rightarrow> string" where
  "join_comma a [] = a"
| "join_comma a (b # bs) = join_comma (if a = [] then b else a @ '', '' @ b) bs"

primrec show_range :: "nat Range \<Rightarrow> string" where
  "show_range (AtMost mx) = ''at most '' @ show_nat mx"
| "show_range (AtLeast mn) = ''at least '' @ show_nat mn"
| "show_range (Exact x) = show_nat x"
| "show_range (Only list) = ''one of '' @ join_comma [] (map show_nat list)"
| "show_range (Interval mn mx) = ''between '' @ show_nat mn @ '' and '' @ show_nat mx"

lemma check_eq_Ok [simp]: "check r v q = Ok u \<longleftrightarrow> in_range r v"
  by (simp add: check_def)

lemma check_Ok: "in_range r v \<Longrightarrow> check r v q = Ok ()"
  by (simp add: check_def)

lemma check_Err: "\<not> in_range r v \<Longrightarrow> check r v q = Err (OutOfRange r v q)"
  by (simp add: check_def)

lemma check_not_Panic [simp]: "check r v q \<noteq> Panic"
  by (simp add: check_def)

lemma in_range_add_range [simp]: "in_range (add_range r n) (v + n) \<longleftrightarrow> in_range r v"
  by (cases r) auto

lemma add_range_add_range [simp]: "add_range (add_range r a) b = add_range r (a + b)"
  by (cases r) (auto simp: add.assoc)

lemma add_offset_add_offset: "add_offset a (add_offset b e) = add_offset (b + a) e"
  by (cases e) (auto simp: add.assoc)

subsection \<open>Conversions into errors\<close>

primrec from_errno :: "Errno \<Rightarrow> Error" where
  "from_errno EINVAL = InvalidData"
| "from_errno ETIMEDOUT = Error.Timeout"
| "from_errno ENODEV = Disconnected"
| "from_errno ENONET = NoLogicalAddress"
| "from_errno ENOTTY = Unsupported"
| "from_errno (Errno_other n) = SystemError (Errno_other n)"

definition CEC_TX_STATUS_OK :: u8 where "CEC_TX_STATUS_OK = 1"
definition CEC_TX_STATUS_ARB_LOST :: u8 where "CEC_TX_STATUS_ARB_LOST = 2"
definition CEC_TX_STATUS_NACK :: u8 where "CEC_TX_STATUS_NACK = 4"
definition CEC_TX_STATUS_LOW_DRIVE :: u8 where "CEC_TX_STATUS_LOW_DRIVE = 8"
definition CEC_TX_STATUS_ERROR :: u8 where "CEC_TX_STATUS_ERROR = 16"
definition CEC_TX_STATUS_MAX_RETRIES :: u8 where "CEC_TX_STATUS_MAX_RETRIES = 32"
definition CEC_TX_STATUS_ABORTED :: u8 where "CEC_TX_STATUS_ABORTED = 64"
definition CEC_TX_STATUS_TIMEOUT :: u8 where "CEC_TX_STATUS_TIMEOUT = 128"

lemmas tx_status_consts = CEC_TX_STATUS_OK_def CEC_TX_STATUS_ARB_LOST_def CEC_TX_STATUS_NACK_def
  CEC_TX_STATUS_LOW_DRIVE_def CEC_TX_STATUS_ERROR_def CEC_TX_STATUS_MAX_RETRIES_def
  CEC_TX_STATUS_ABORTED_def CEC_TX_STATUS_TIMEOUT_def

text \<open>\<open>contains\<close> of a bitflags value: every bit of the argument is set.\<close>

definition contains :: "'a::len word \<Rightarrow> 'a word \<Rightarrow> bool" where
  "contains flags f \<longleftrightarrow> flags AND f = f"

text \<open>
  The text of the last error is the debug rendering of the flags, which the bitflags crate
  produces: it is the argument \<open>debug\<close>.
\<close>

definition from_tx_status :: "(u8 \<Rightarrow> string) \<Rightarrow> u8 \<Rightarrow> Error" where
  "from_tx_status debug s =
     (if contains s CEC_TX_STATUS_TIMEOUT then Error.Timeout
      else if contains s CEC_TX_STATUS_ABORTED then Error.Abort
      else if contains s CEC_TX_STATUS_ARB_LOST then TxError ArbLost
      else if contains s CEC_TX_STATUS_NACK then TxError Nack
      else if contains s CEC_TX_STATUS_LOW_DRIVE then TxError LowDrive
      else if contains s CEC_TX_STATUS_MAX_RETRIES then TxError MaxRetries
      else Error.UnknownError (debug s))"

end
