(* ===== verification/Operand.thy ===== *)
theory Operand
  imports CecError
begin

text \<open>
  The trait \<open>OperandEncodable\<close> of \<open>linux-cec/src/operand.rs\<close>, its implementations for the
  basic types, and the implementations that the derive macro \<open>Operand\<close> of
  \<open>linux-cec-macros/src/lib.rs\<close> generates.

  An implementation of the trait is four functions: \<open>to_bytes\<close> (the bytes it appends to the
  buffer, \<^term>\<open>None\<close> where it panics), \<open>try_from_bytes\<close>, \<open>len\<close> and \<open>expected_len\<close>. The locale
  \<open>operand\<close> states what a client of the trait relies on; \<open>prefix_operand\<close> adds that the encoding
  is self-delimiting, which is what an operand that is not the last one of a message needs.
  Every implementation of the trait is an interpretation of one of the two.

  \<open>len\<close> is a total function here: for the two types whose \<open>len\<close> slices a buffer the value is
  the Rust one on well-formed values, the only ones that the crate can construct.
\<close>

section \<open>The trait\<close>

text \<open>
  One step of a generated decoder: decode a field from \<open>bytes[offset..]\<close>, shift the byte
  counts of an error by the offset, and go on behind the field.
\<close>

definition with_field ::
  "(u8 list \<Rightarrow> 'a result) \<Rightarrow> ('a \<Rightarrow> nat) \<Rightarrow> u8 list \<Rightarrow> nat \<Rightarrow> ('a \<Rightarrow> nat \<Rightarrow> 'b result) \<Rightarrow> 'b result"
where
  "with_field dec ln bs offset k =
     and_then (slice_from bs offset) (\<lambda>s.
     and_then (map_err (add_offset offset) (dec s)) (\<lambda>x.
     k x (offset + ln x)))"

lemma with_field_Ok:
  "offset \<le> length bs \<Longrightarrow> dec (drop offset bs) = Ok x \<Longrightarrow>
   with_field dec ln bs offset k = k x (offset + ln x)"
  by (simp add: with_field_def)

locale operand =
  fixes valid :: "'a \<Rightarrow> bool"
    and to_bytes :: "'a \<Rightarrow> u8 list option"
    and try_from_bytes :: "u8 list \<Rightarrow> 'a result"
    and len :: "'a \<Rightarrow> nat"
    and expected_len :: "nat Range"
  assumes enc_defined: "valid x \<Longrightarrow> \<exists>b. to_bytes x = Some b"
    and enc_len: "valid x \<Longrightarrow> to_bytes x = Some b \<Longrightarrow> length b = len x"
    and dec_enc: "valid x \<Longrightarrow> to_bytes x = Some b \<Longrightarrow> try_from_bytes b = Ok x"
    and dec_total [simp]: "try_from_bytes bs \<noteq> Panic"
    and dec_valid: "try_from_bytes bs = Ok x \<Longrightarrow> valid x"
    and dec_len: "try_from_bytes bs = Ok x \<Longrightarrow> len x \<le> length bs"
    and dec_range: "try_from_bytes bs = Ok x \<Longrightarrow> in_range expected_len (length bs)"
begin

lemma enc_cases [codec_rt]:
  assumes "valid x"
  obtains b where "to_bytes x = Some b" "length b = len x" "try_from_bytes b = Ok x"
  using assms enc_defined enc_len dec_enc by blast

lemma enc_range: "valid x \<Longrightarrow> in_range expected_len (len x)"
  using enc_cases dec_range by metis

lemma with_field_PanicE [codec_panic]:
  assumes "with_field try_from_bytes len bs offset k = Panic" "offset \<le> length bs"
  obtains x where "valid x" "offset + len x \<le> length bs" "k x (offset + len x) = Panic"
  using assms dec_total dec_valid dec_len
  by (fastforce simp: with_field_def)

lemma with_field_OkE [codec_inv]:
  assumes "with_field try_from_bytes len bs offset k = Ok y"
  obtains x where "valid x" "offset + len x \<le> length bs" "k x (offset + len x) = Ok y"
proof -
  from assms obtain x where d: "offset \<le> length bs" "try_from_bytes (drop offset bs) = Ok x"
    and k: "k x (offset + len x) = Ok y"
    by (auto simp: with_field_def slice_from_eq_Ok)
  have "offset + len x \<le> length bs"
    using d dec_len [OF d(2)] by simp
  with d k that show thesis
    using dec_valid by blast
qed

text \<open>Decoding normalises: what a decoder accepts encodes to bytes that decode to it again.\<close>

lemma dec_enc_dec:
  assumes "try_from_bytes bs = Ok x"
  obtains b where "to_bytes x = Some b" "try_from_bytes b = Ok x" "length b \<le> length bs"
  using assms dec_valid dec_len enc_cases by metis

end

locale prefix_operand = operand +
  assumes dec_prefix: "valid x \<Longrightarrow> to_bytes x = Some b \<Longrightarrow> try_from_bytes (b @ rest) = Ok x"
begin

lemma prefix_cases [codec_rt]:
  assumes "valid x"
  obtains b where "to_bytes x = Some b" "length b = len x" "try_from_bytes b = Ok x"
    "\<And>rest. try_from_bytes (b @ rest) = Ok x"
  using assms enc_defined enc_len dec_enc dec_prefix by blast

end

text \<open>The usual way to show that an implementation is self-delimiting.\<close>

lemma prefix_operandI:
  assumes "\<And>x. valid x \<Longrightarrow> \<exists>b. to_bytes x = Some b \<and> length b = len x \<and>
             (\<forall>rest. try_from_bytes (b @ rest) = Ok x)"
    and "\<And>bs. try_from_bytes bs \<noteq> Panic"
    and "\<And>bs x. try_from_bytes bs = Ok x \<Longrightarrow>
           valid x \<and> len x \<le> length bs \<and> in_range expected_len (length bs)"
  shows "prefix_operand valid to_bytes try_from_bytes len expected_len"
proof
  fix x assume "valid x"
  from assms(1) [OF this] show "\<exists>b. to_bytes x = Some b" by blast
next
  fix x b assume "valid x" "to_bytes x = Some b"
  with assms(1) [OF \<open>valid x\<close>] show "length b = len x" by auto
next
  fix x b assume "valid x" "to_bytes x = Some b"
  with assms(1) [OF \<open>valid x\<close>] show "try_from_bytes b = Ok x"
    by (metis append_Nil2 option.inject)
next
  fix x b rest assume "valid x" "to_bytes x = Some b"
  with assms(1) [OF \<open>valid x\<close>] show "try_from_bytes (b @ rest) = Ok x" by auto
qed (use assms(2,3) in auto)

section \<open>Integers, booleans and arrays\<close>

abbreviation (input) one_byte :: "'a \<Rightarrow> nat" where
  "one_byte \<equiv> \<lambda>_. 1"

definition u8_to_bytes :: "u8 \<Rightarrow> u8 list option" where
  "u8_to_bytes x = Some [x]"

definition u8_try_from_bytes :: "u8 list \<Rightarrow> u8 result" where
  "u8_try_from_bytes bs = and_then (check (AtLeast 1) (length bs) ''bytes'') (\<lambda>_. index bs 0)"

lemma u8_codec [codec]:
  "u8_to_bytes x = Some [x]"
  "u8_try_from_bytes (x # rest) = Ok x"
  by (simp_all add: u8_to_bytes_def u8_try_from_bytes_def check_Ok)

interpretation u8: prefix_operand "\<lambda>_. True" u8_to_bytes u8_try_from_bytes "\<lambda>_. 1" "AtLeast 1"
  by (rule prefix_operandI) (auto simp: codec u8_try_from_bytes_def)

definition bool_to_bytes :: "bool \<Rightarrow> u8 list option" where
  "bool_to_bytes x = Some [if x then 1 else 0]"

definition bool_try_from_bytes :: "u8 list \<Rightarrow> bool result" where
  "bool_try_from_bytes bs =
     and_then (check (AtLeast 1) (length bs) ''bytes'') (\<lambda>_.
     and_then (index bs 0) (\<lambda>b. Ok (b \<noteq> 0)))"

lemma bool_codec [codec]:
  "bool_to_bytes x = Some [if x then 1 else 0]"
  "bool_try_from_bytes (b # rest) = Ok (b \<noteq> 0)"
  by (simp_all add: bool_to_bytes_def bool_try_from_bytes_def check_Ok)

interpretation bool: prefix_operand "\<lambda>_. True" bool_to_bytes bool_try_from_bytes "\<lambda>_. 1" "AtLeast 1"
  by (rule prefix_operandI) (auto simp: codec bool_try_from_bytes_def)

text \<open>\<open>u8::try_from(w).unwrap()\<close>, as the single byte that is appended.\<close>

definition narrow_u8 :: "u16 \<Rightarrow> u8 list option" where
  "narrow_u8 w = (if w \<le> 0xFF then Some [ucast w] else None)"

definition u16_to_bytes :: "u16 \<Rightarrow> u8 list option" where
  "u16_to_bytes w = emit [narrow_u8 (drop_bit 8 w), narrow_u8 (w AND 0xFF)]"

definition u16_try_from_bytes :: "u8 list \<Rightarrow> u16 result" where
  "u16_try_from_bytes bs =
     and_then (check (AtLeast 2) (length bs) ''bytes'') (\<lambda>_.
     and_then (index bs 0) (\<lambda>hi.
     and_then (index bs 1) (\<lambda>lo.
     Ok (push_bit 8 (ucast hi) OR ucast lo))))"

lemma u16_codec [codec]:
  "u16_to_bytes w = Some [ucast (drop_bit 8 w), ucast w]"
  "u16_try_from_bytes (hi # lo # rest) = Ok (push_bit 8 (ucast hi) OR ucast lo)"
  using drop_bit_8_u16_le [of w] and_mask_8_u16_le [of w]
  by (simp_all add: u16_to_bytes_def narrow_u8_def u16_try_from_bytes_def check_Ok)

interpretation u16: prefix_operand "\<lambda>_. True" u16_to_bytes u16_try_from_bytes "\<lambda>_. 2" "AtLeast 2"
  by (rule prefix_operandI) (auto simp: codec u16_try_from_bytes_def)

text \<open>\<open>[u8; S]\<close>: a list whose length is the constant \<open>S\<close> of the type.\<close>

definition array_valid :: "nat \<Rightarrow> u8 list \<Rightarrow> bool" where
  "array_valid S xs \<longleftrightarrow> length xs = S"

definition array_to_bytes :: "u8 list \<Rightarrow> u8 list option" where
  "array_to_bytes xs = Some xs"

definition array_try_from_bytes :: "nat \<Rightarrow> u8 list \<Rightarrow> u8 list result" where
  "array_try_from_bytes S bs =
     and_then (check (AtLeast S) (length bs) ''bytes'') (\<lambda>_.
     unwrap_option (if S \<le> length bs then Some (take S bs) else None))"

interpretation array: prefix_operand "array_valid S" array_to_bytes "array_try_from_bytes S"
    "\<lambda>_. S" "AtLeast S" for S
  by (rule prefix_operandI)
    (auto simp: array_valid_def array_to_bytes_def array_try_from_bytes_def check_Ok)

end
