(* ===== verification/OperandBasic.thy ===== *)
theory OperandBasic
  imports Operand
begin

text \<open>
  The generic implementations of \<open>OperandEncodable\<close>: the derive macros for one-byte types
  (\<open>linux-cec-macros/src/lib.rs\<close>), \<open>Option<T>\<close>, \<open>BoundedBufferOperand<S, T>\<close> and the blanket
  implementation for \<open>TaggedLengthBuffer\<close>, and the checked one-byte numbers \<open>Delay\<close>,
  \<open>AudioVolumeLevel\<close> and \<open>BcdByte\<close> (\<open>linux-cec/src/operand.rs\<close>).
\<close>

section \<open>Derived implementations of one-byte types\<close>

text \<open>
  An enum with explicit discriminants: \<open>into\<close> gives the discriminant and
  \<open>try_from_primitive\<close> finds the variant with a given one (the derives \<open>IntoPrimitive\<close> and
  \<open>TryFromPrimitive\<close>), which fails with the name of the type and the number.
\<close>

definition try_from_primitive :: "string \<Rightarrow> 'a list \<Rightarrow> ('a \<Rightarrow> u8) \<Rightarrow> u8 \<Rightarrow> 'a result" where
  "try_from_primitive name variants into n =
     (case List.find (\<lambda>v. into v = n) variants of
        Some v \<Rightarrow> Ok v
      | None \<Rightarrow> Err (InvalidValueForType name (show_u8 n)))"

definition enum_to_bytes :: "('a \<Rightarrow> u8) \<Rightarrow> 'a \<Rightarrow> u8 list option" where
  "enum_to_bytes into x = u8_to_bytes (into x)"

definition enum_try_from_bytes ::
  "string \<Rightarrow> 'a list \<Rightarrow> ('a \<Rightarrow> u8) \<Rightarrow> u8 list \<Rightarrow> 'a result" where
  "enum_try_from_bytes name variants into bs =
     and_then (check (AtLeast 1) (length bs) ''bytes'') (\<lambda>_.
     and_then (index bs 0) (\<lambda>b. try_from_primitive name variants into b))"

lemma try_from_primitive_not_Panic [simp]: "try_from_primitive name variants into n \<noteq> Panic"
  by (simp add: try_from_primitive_def split: option.split)

locale byte_enum =
  fixes name :: string
    and variants :: "'a list"
    and into :: "'a \<Rightarrow> u8"
  assumes distinct_codes: "distinct (map into variants)"
    and all_variants: "x \<in> set variants"
begin

lemma into_inj: "into x = into y \<Longrightarrow> x = y"
  using distinct_codes all_variants by (auto simp: distinct_map inj_on_def)

lemma find_into: "List.find (\<lambda>v. into v = into x) variants = Some x"
proof -
  have "List.find (\<lambda>v. into v = into x) variants \<noteq> None"
    using all_variants by (auto simp: find_None_iff)
  then obtain y where y: "List.find (\<lambda>v. into v = into x) variants = Some y" by blast
  then have "into y = into x" by (auto simp: find_Some_iff)
  then show ?thesis using y into_inj by blast
qed

lemma from_into [codec]: "try_from_primitive name variants into (into x) = Ok x"
  by (simp add: try_from_primitive_def find_into)

lemma from_eq_Ok: "try_from_primitive name variants into n = Ok x \<longleftrightarrow> n = into x"
proof
  assume "try_from_primitive name variants into n = Ok x"
  then show "n = into x"
    by (auto simp: try_from_primitive_def find_Some_iff split: option.splits)
qed (simp add: from_into)

lemma from_eq_Err:
  "try_from_primitive name variants into n = Err e \<longleftrightarrow>
     n \<notin> range into \<and> e = InvalidValueForType name (show_u8 n)"
proof (cases "n \<in> range into")
  case True
  then obtain x where "n = into x" by blast
  then show ?thesis by (simp add: from_into)
next
  case False
  then have "List.find (\<lambda>v. into v = n) variants = None"
    by (auto simp: find_None_iff)
  with False show ?thesis by (auto simp: try_from_primitive_def)
qed

lemma enum_codec [codec]:
  "enum_to_bytes into x = Some [into x]"
  "enum_try_from_bytes name variants into (into x # rest) = Ok x"
  by (simp_all add: enum_to_bytes_def enum_try_from_bytes_def codec check_Ok from_into)

end

sublocale byte_enum \<subseteq> prefix_operand "\<lambda>_. True" "enum_to_bytes into"
    "enum_try_from_bytes name variants into" "\<lambda>_. 1" "AtLeast 1"
  by (rule prefix_operandI) (auto simp: enum_codec enum_try_from_bytes_def from_into)

text \<open>
  A struct around one byte whose every bit pattern is a value: the \<open>bitflags!\<close> types, whose
  \<open>from_bits_retain\<close> keeps all bits, and the \<open>#[bitfield(u8)]\<close> types, whose \<open>From<u8>\<close> does.
  The derived decoders differ only in how they write the length test.
\<close>

definition bits_to_bytes :: "('a \<Rightarrow> u8) \<Rightarrow> 'a \<Rightarrow> u8 list option" where
  "bits_to_bytes bits x = u8_to_bytes (bits x)"

definition bits_try_from_bytes :: "(u8 \<Rightarrow> 'a) \<Rightarrow> u8 list \<Rightarrow> 'a result" where
  "bits_try_from_bytes from_bits_retain bs =
     and_then (check (AtLeast 1) (length bs) ''bytes'') (\<lambda>_.
     and_then (index bs 0) (\<lambda>b. Ok (from_bits_retain b)))"

definition bitfield_to_bytes :: "('a \<Rightarrow> u8) \<Rightarrow> 'a \<Rightarrow> u8 list option" where
  "bitfield_to_bytes into x = u8_to_bytes (into x)"

definition bitfield_try_from_bytes :: "(u8 \<Rightarrow> 'a) \<Rightarrow> u8 list \<Rightarrow> 'a result" where
  "bitfield_try_from_bytes from_u8 bs =
     (if bs = [] then Err (OutOfRange (AtLeast 1) (length bs) ''bytes'')
      else and_then (index bs 0) (\<lambda>b. Ok (from_u8 b)))"

locale byte_struct =
  fixes into :: "'a \<Rightarrow> u8"
    and from_u8 :: "u8 \<Rightarrow> 'a"
  assumes from_into: "from_u8 (into x) = x"
    and into_from: "into (from_u8 b) = b"
begin

lemma struct_codec [codec]:
  "bits_to_bytes into x = Some [into x]"
  "bits_try_from_bytes from_u8 (b # rest) = Ok (from_u8 b)"
  "bitfield_to_bytes into x = Some [into x]"
  "bitfield_try_from_bytes from_u8 (b # rest) = Ok (from_u8 b)"
  "from_u8 (into x) = x"
  by (simp_all add: bits_to_bytes_def bits_try_from_bytes_def bitfield_to_bytes_def
      bitfield_try_from_bytes_def codec check_Ok from_into)

end

sublocale byte_struct \<subseteq> bits: prefix_operand "\<lambda>_. True" "bits_to_bytes into"
    "bits_try_from_bytes from_u8" "\<lambda>_. 1" "AtLeast 1"
  by (rule prefix_operandI) (auto simp: struct_codec bits_try_from_bytes_def)

sublocale byte_struct \<subseteq> bitfield: prefix_operand "\<lambda>_. True" "bitfield_to_bytes into"
    "bitfield_try_from_bytes from_u8" "\<lambda>_. 1" "AtLeast 1"
  by (rule prefix_operandI)
    (auto simp: struct_codec bitfield_try_from_bytes_def neq_Nil_conv split: if_splits)

section \<open>Optional operands\<close>

definition option_to_bytes :: "('a \<Rightarrow> u8 list option) \<Rightarrow> 'a option \<Rightarrow> u8 list option" where
  "option_to_bytes enc x = (case x of Some data \<Rightarrow> enc data | None \<Rightarrow> Some [])"

definition option_try_from_bytes :: "(u8 list \<Rightarrow> 'a result) \<Rightarrow> u8 list \<Rightarrow> 'a option result" where
  "option_try_from_bytes dec bs =
     (if length bs < 1 then Ok None
      else and_then (dec bs) (\<lambda>x. Ok (Some x)))"

definition option_len :: "('a \<Rightarrow> nat) \<Rightarrow> 'a option \<Rightarrow> nat" where
  "option_len ln x = (case x of Some data \<Rightarrow> ln data | None \<Rightarrow> 0)"

lemma option_codec [simp]:
  "option_to_bytes enc None = Some []"
  "option_to_bytes enc (Some x) = enc x"
  "option_len ln None = 0"
  "option_len ln (Some x) = ln x"
  "option_try_from_bytes dec [] = Ok None"
  "bs \<noteq> [] \<Longrightarrow> option_try_from_bytes dec bs = and_then (dec bs) (\<lambda>x. Ok (Some x))"
  by (cases bs; simp add: option_to_bytes_def option_len_def option_try_from_bytes_def)+

text \<open>
  An operand that encodes to at least one byte can be made optional at the end of a message:
  \<open>None\<close> is the absence of any byte.
\<close>

locale nonempty_operand = operand +
  assumes len_pos: "valid x \<Longrightarrow> 0 < len x"

sublocale nonempty_operand \<subseteq> opt: operand "pred_option valid" "option_to_bytes to_bytes"
    "option_try_from_bytes try_from_bytes" "option_len len" "AtLeast 0"
proof
  fix x :: "'a option" and b
  assume v: "pred_option valid x" and b: "option_to_bytes to_bytes x = Some b"
  show "length b = option_len len x"
    using v b enc_len by (cases x) auto
  show "option_try_from_bytes try_from_bytes b = Ok x"
  proof (cases x)
    case None
    then show ?thesis using b by simp
  next
    case (Some y)
    then have y: "valid y" "to_bytes y = Some b"
      using v b by auto
    have "b \<noteq> []"
      using len_pos [OF y(1)] enc_len [OF y] by auto
    then show ?thesis
      using Some dec_enc [OF y] by simp
  qed
next
  fix x :: "'a option"
  assume "pred_option valid x"
  then show "\<exists>b. option_to_bytes to_bytes x = Some b"
    using enc_defined by (cases x) auto
next
  fix bs
  show "option_try_from_bytes try_from_bytes bs \<noteq> Panic"
    using dec_total by (simp add: option_try_from_bytes_def)
next
  fix bs x
  assume "option_try_from_bytes try_from_bytes bs = Ok x"
  then show "pred_option valid x" "option_len len x \<le> length bs" "in_range (AtLeast 0) (length bs)"
    using dec_valid dec_len by (auto simp: option_try_from_bytes_def split: if_splits)
qed

interpretation u8: nonempty_operand "\<lambda>_. True" u8_to_bytes u8_try_from_bytes "\<lambda>_. 1" "AtLeast 1"
  by unfold_locales simp

sublocale byte_enum \<subseteq> nonempty_operand "\<lambda>_. True" "enum_to_bytes into"
    "enum_try_from_bytes name variants into" "\<lambda>_. 1" "AtLeast 1"
  by unfold_locales simp

end
