(* ===== verification/OperandNumbers.thy ===== *)
theory OperandNumbers
  imports OperandBasic
begin

text \<open>
  The operands that are numbers with a restricted range: \<open>PhysicalAddress\<close>, \<open>Delay\<close>,
  \<open>AudioVolumeLevel\<close> and \<open>BcdByte<MIN, MAX>\<close> with its instances \<open>DurationHours\<close>, \<open>Hour\<close> and
  \<open>Minute\<close> (\<open>linux-cec/src/operand.rs\<close>).
\<close>

section \<open>Physical addresses\<close>

datatype PhysicalAddress = PhysicalAddress (the_u16: u16)

primrec PhysicalAddress_to_bytes :: "PhysicalAddress \<Rightarrow> u8 list option" where
  "PhysicalAddress_to_bytes (PhysicalAddress w) = u16_to_bytes w"

definition PhysicalAddress_try_from_bytes :: "u8 list \<Rightarrow> PhysicalAddress result" where
  "PhysicalAddress_try_from_bytes bs = and_then (u16_try_from_bytes bs) (\<lambda>w. Ok (PhysicalAddress w))"

lemma PhysicalAddress_codec [codec]:
  "PhysicalAddress_to_bytes x = Some [ucast (drop_bit 8 (the_u16 x)), ucast (the_u16 x)]"
  "PhysicalAddress_try_from_bytes (hi # lo # rest) =
     Ok (PhysicalAddress (push_bit 8 (ucast hi) OR ucast lo))"
  by (cases x; simp add: PhysicalAddress_try_from_bytes_def codec)+

interpretation PhysicalAddress: prefix_operand "\<lambda>_. True" PhysicalAddress_to_bytes
    PhysicalAddress_try_from_bytes "\<lambda>_. 2" "AtLeast 2"
proof (rule prefix_operandI)
  fix x
  show "\<exists>b. PhysicalAddress_to_bytes x = Some b \<and> length b = 2 \<and>
      (\<forall>rest. PhysicalAddress_try_from_bytes (b @ rest) = Ok x)"
    by (simp add: codec)
next
  fix bs show "PhysicalAddress_try_from_bytes bs \<noteq> Panic"
    using u16.dec_total by (simp add: PhysicalAddress_try_from_bytes_def)
next
  fix bs x assume "PhysicalAddress_try_from_bytes bs = Ok x"
  then show "True \<and> 2 \<le> length bs \<and> in_range (AtLeast 2) (length bs)"
    using u16.dec_len by (auto simp: PhysicalAddress_try_from_bytes_def)
qed

section \<open>Delays\<close>

datatype Delay = Delay u8

definition Delay_MIN :: u8 where "Delay_MIN = 1"
definition Delay_MAX :: u8 where "Delay_MAX = 251"

primrec Delay_into :: "Delay \<Rightarrow> u8" where
  "Delay_into (Delay v) = v"

definition Delay_is_valid :: "Delay \<Rightarrow> bool" where
  "Delay_is_valid d =
     in_range (Interval (unat Delay_MIN) (unat Delay_MAX)) (unat (Delay_into d))"

definition Delay_try_from :: "u8 \<Rightarrow> Delay result" where
  "Delay_try_from v =
     and_then (check (Interval (unat Delay_MIN) (unat Delay_MAX)) (unat v) ''value'') (\<lambda>_.
     Ok (Delay v))"

definition Delay_to_bytes :: "Delay \<Rightarrow> u8 list option" where
  "Delay_to_bytes d = Some [Delay_into d]"

definition Delay_try_from_bytes :: "u8 list \<Rightarrow> Delay result" where
  "Delay_try_from_bytes bs =
     and_then (check (AtLeast 1) (length bs) ''bytes'') (\<lambda>_.
     and_then (index bs 0) (\<lambda>b. Delay_try_from b))"

lemma Delay_try_from_eq_Ok: "Delay_try_from v = Ok d \<longleftrightarrow> d = Delay v \<and> Delay_is_valid d"
  by (auto simp: Delay_try_from_def Delay_is_valid_def)

interpretation Delay: prefix_operand Delay_is_valid Delay_to_bytes Delay_try_from_bytes
    "\<lambda>_. 1" "AtLeast 1"
proof (rule prefix_operandI)
  fix d assume "Delay_is_valid d"
  then show "\<exists>b. Delay_to_bytes d = Some b \<and> length b = 1 \<and>
      (\<forall>rest. Delay_try_from_bytes (b @ rest) = Ok d)"
    by (cases d)
      (simp add: Delay_to_bytes_def Delay_try_from_bytes_def check_Ok Delay_try_from_eq_Ok)
next
  fix bs show "Delay_try_from_bytes bs \<noteq> Panic"
    by (auto simp: Delay_try_from_bytes_def Delay_try_from_def)
next
  fix bs d assume "Delay_try_from_bytes bs = Ok d"
  then show "Delay_is_valid d \<and> 1 \<le> length bs \<and> in_range (AtLeast 1) (length bs)"
    by (auto simp: Delay_try_from_bytes_def Delay_try_from_eq_Ok)
qed

interpretation Delay: nonempty_operand Delay_is_valid Delay_to_bytes Delay_try_from_bytes
    "\<lambda>_. 1" "AtLeast 1"
  by unfold_locales simp

section \<open>Audio volume levels\<close>

datatype AudioVolumeLevel = AudioVolumeLevel u8

definition AudioVolumeLevel_MIN :: u8 where "AudioVolumeLevel_MIN = 0"
definition AudioVolumeLevel_MAX :: u8 where "AudioVolumeLevel_MAX = 100"
definition AudioVolumeLevel_NO_CHANGE_VAL :: u8 where "AudioVolumeLevel_NO_CHANGE_VAL = 0x7F"

primrec AudioVolumeLevel_into :: "AudioVolumeLevel \<Rightarrow> u8" where
  "AudioVolumeLevel_into (AudioVolumeLevel v) = v"

definition AudioVolumeLevel_is_valid :: "AudioVolumeLevel \<Rightarrow> bool" where
  "AudioVolumeLevel_is_valid a =
     (if AudioVolumeLevel_into a = AudioVolumeLevel_NO_CHANGE_VAL then True
      else in_range (Interval (unat AudioVolumeLevel_MIN) (unat AudioVolumeLevel_MAX))
             (unat (AudioVolumeLevel_into a)))"

definition AudioVolumeLevel_try_from :: "u8 \<Rightarrow> AudioVolumeLevel result" where
  "AudioVolumeLevel_try_from v =
     and_then (check (Interval (unat AudioVolumeLevel_MIN) (unat AudioVolumeLevel_MAX))
                 (unat v) ''value'') (\<lambda>_.
     Ok (AudioVolumeLevel v))"

definition AudioVolumeLevel_to_bytes :: "AudioVolumeLevel \<Rightarrow> u8 list option" where
  "AudioVolumeLevel_to_bytes a = Some [AudioVolumeLevel_into a]"

definition AudioVolumeLevel_try_from_bytes :: "u8 list \<Rightarrow> AudioVolumeLevel result" where
  "AudioVolumeLevel_try_from_bytes bs =
     and_then (check (AtLeast 1) (length bs) ''bytes'') (\<lambda>_.
     and_then (index bs 0) (\<lambda>b.
     if b = AudioVolumeLevel_NO_CHANGE_VAL then Ok (AudioVolumeLevel b)
     else AudioVolumeLevel_try_from b))"

interpretation AudioVolumeLevel: prefix_operand AudioVolumeLevel_is_valid
    AudioVolumeLevel_to_bytes AudioVolumeLevel_try_from_bytes "\<lambda>_. 1" "AtLeast 1"
proof (rule prefix_operandI)
  fix a assume "AudioVolumeLevel_is_valid a"
  then show "\<exists>b. AudioVolumeLevel_to_bytes a = Some b \<and> length b = 1 \<and>
      (\<forall>rest. AudioVolumeLevel_try_from_bytes (b @ rest) = Ok a)"
    by (cases a)
      (auto simp: AudioVolumeLevel_to_bytes_def AudioVolumeLevel_try_from_bytes_def check_Ok
        AudioVolumeLevel_try_from_def AudioVolumeLevel_is_valid_def split: if_splits)
next
  fix bs show "AudioVolumeLevel_try_from_bytes bs \<noteq> Panic"
    by (auto simp: AudioVolumeLevel_try_from_bytes_def AudioVolumeLevel_try_from_def split: if_splits)
next
  fix bs a assume "AudioVolumeLevel_try_from_bytes bs = Ok a"
  then show "AudioVolumeLevel_is_valid a \<and> 1 \<le> length bs \<and> in_range (AtLeast 1) (length bs)"
    by (auto simp: AudioVolumeLevel_try_from_bytes_def AudioVolumeLevel_try_from_def
        AudioVolumeLevel_is_valid_def split: if_splits)
qed

section \<open>Binary coded decimals\<close>

text \<open>
  \<open>BcdByte<MIN, MAX>\<close>: the bounds are the first two arguments of the operations. The
  arithmetic is on \<open>u8\<close>; \<open>(byte >> 4) * 10 + (byte & 0xF)\<close> is at most 165, so it cannot
  overflow.
\<close>

datatype BcdByte = BcdByte u8

primrec BcdByte_to_bytes :: "BcdByte \<Rightarrow> u8 list option" where
  "BcdByte_to_bytes (BcdByte b) = Some [b]"

definition BcdByte_try_from_bytes :: "u8 \<Rightarrow> u8 \<Rightarrow> u8 list \<Rightarrow> BcdByte result" where
  "BcdByte_try_from_bytes mn mx bs =
     and_then (check (AtLeast 1) (length bs) ''bytes'') (\<lambda>_.
     and_then (index bs 0) (\<lambda>byte.
     and_then (check (range_inclusive 0 9) (unat (byte AND 0xF)) ''low bits'') (\<lambda>_.
     and_then (check (range_inclusive 0 9) (unat (drop_bit 4 byte)) ''high bits'') (\<lambda>_.
     and_then (check (Interval (unat mn) (unat mx))
                 (unat (drop_bit 4 byte * 10 + (byte AND 0xF))) ''value'') (\<lambda>_.
     Ok (BcdByte byte))))))"

primrec BcdByte_into :: "BcdByte \<Rightarrow> u8" where
  "BcdByte_into (BcdByte b) = drop_bit 4 b * 10 + (b AND 0xF)"

definition BcdByte_try_from :: "u8 \<Rightarrow> u8 \<Rightarrow> u8 \<Rightarrow> BcdByte result" where
  "BcdByte_try_from mn mx byte =
     and_then (check (Interval (unat mn) (unat mx)) (unat byte) ''value'') (\<lambda>_.
     Ok (BcdByte (push_bit 4 (byte div 10) + byte mod 10)))"

primrec BcdByte_valid :: "u8 \<Rightarrow> u8 \<Rightarrow> BcdByte \<Rightarrow> bool" where
  "BcdByte_valid mn mx (BcdByte b) \<longleftrightarrow>
     unat (b AND 0xF) \<le> 9 \<and> unat (drop_bit 4 b) \<le> 9 \<and>
     unat mn \<le> unat (BcdByte_into (BcdByte b)) \<and> unat (BcdByte_into (BcdByte b)) \<le> unat mx"

interpretation BcdByte: prefix_operand "BcdByte_valid mn mx" BcdByte_to_bytes
    "BcdByte_try_from_bytes mn mx" "\<lambda>_. 1" "AtLeast 1" for mn mx
proof (rule prefix_operandI)
  fix x assume "BcdByte_valid mn mx x"
  then show "\<exists>b. BcdByte_to_bytes x = Some b \<and> length b = 1 \<and>
      (\<forall>rest. BcdByte_try_from_bytes mn mx (b @ rest) = Ok x)"
    by (cases x) (auto simp: BcdByte_try_from_bytes_def check_Ok range_inclusive_def)
next
  fix bs show "BcdByte_try_from_bytes mn mx bs \<noteq> Panic"
    by (auto simp: BcdByte_try_from_bytes_def)
next
  fix bs x assume "BcdByte_try_from_bytes mn mx bs = Ok x"
  then show "BcdByte_valid mn mx x \<and> 1 \<le> length bs \<and> in_range (AtLeast 1) (length bs)"
    by (auto simp: BcdByte_try_from_bytes_def range_inclusive_def)
qed

text \<open>The two instances of the bounds that the crate uses besides \<open>0..=99\<close>.\<close>

abbreviation "DurationHours_valid \<equiv> BcdByte_valid 0 99"
abbreviation "Hour_valid \<equiv> BcdByte_valid 0 23"
abbreviation "Minute_valid \<equiv> BcdByte_valid 0 59"

lemma u8_cases_below:
  assumes "unat (v :: u8) < n"
  obtains k where "k < n" "v = of_nat k"
  using assms by (metis of_nat_unat ucast_id)

text \<open>
  Converting a number up to 99 to BCD and back gives the number, and the result satisfies the
  invariant of the type.
\<close>

lemma bcd_digits:
  assumes "unat (v :: u8) \<le> 99"
  shows "BcdByte_into (BcdByte (push_bit 4 (v div 10) + v mod 10)) = v"
    and "unat ((push_bit 4 (v div 10) + v mod 10) AND 0xF) \<le> 9"
    and "unat (drop_bit 4 (push_bit 4 (v div 10) + v mod 10)) \<le> 9"
proof -
  have all: "list_all (\<lambda>k. let v = (of_nat k :: u8); b = push_bit 4 (v div 10) + v mod 10 in
      BcdByte_into (BcdByte b) = v \<and> unat (b AND 0xF) \<le> 9 \<and> unat (drop_bit 4 b) \<le> 9) [0..<100]"
    by code_simp
  from assms have "unat v < 100" by simp
  then obtain k where k: "k < 100" "v = of_nat k" by (rule u8_cases_below)
  from all k(1) have "let v = (of_nat k :: u8); b = push_bit 4 (v div 10) + v mod 10 in
      BcdByte_into (BcdByte b) = v \<and> unat (b AND 0xF) \<le> 9 \<and> unat (drop_bit 4 b) \<le> 9"
    by (auto simp: list_all_iff)
  with k(2) show "BcdByte_into (BcdByte (push_bit 4 (v div 10) + v mod 10)) = v"
    "unat ((push_bit 4 (v div 10) + v mod 10) AND 0xF) \<le> 9"
    "unat (drop_bit 4 (push_bit 4 (v div 10) + v mod 10)) \<le> 9"
    by (auto simp: Let_def)
qed

lemma BcdByte_try_from_valid:
  assumes "unat mx \<le> 99" "BcdByte_try_from mn mx v = Ok x"
  shows "BcdByte_valid mn mx x" "BcdByte_into x = v"
proof -
  from assms(2) have r: "unat mn \<le> unat v" "unat v \<le> unat mx"
    and x: "x = BcdByte (push_bit 4 (v div 10) + v mod 10)"
    by (auto simp: BcdByte_try_from_def)
  from r assms(1) have v: "unat v \<le> 99" by simp
  show "BcdByte_into x = v"
    using bcd_digits(1) [OF v] x by simp
  then show "BcdByte_valid mn mx x"
    using bcd_digits(2,3) [OF v] r x by (simp del: BcdByte_into.simps)
qed

end
