(* ===== verification/OperandBuffers.thy ===== *)
theory OperandBuffers
  imports OperandNumbers
begin

text \<open>
  Variable-length operands of \<open>linux-cec/src/operand.rs\<close>: \<open>BoundedBufferOperand<S, T>\<close>, an array
  of \<open>S\<close> elements of which a prefix is in use, and the blanket implementation of
  \<open>OperandEncodable\<close> for \<open>TaggedLengthBuffer\<close>, whose bytes carry a continuation bit.

  The type parameters of the Rust code are arguments here: \<open>S\<close>, the size \<open>size_of::<T>()\<close> of an
  element, the codec of the elements and their default value.
\<close>

section \<open>Bounded buffers\<close>

record 'a BoundedBufferOperand =
  buffer :: "'a list"
  used :: nat

text \<open>\<open>&self.buffer[..self.len]\<close>, which panics when the length is out of range.\<close>

definition buffer_slice :: "'a BoundedBufferOperand \<Rightarrow> 'a list option" where
  "buffer_slice x = (if used x \<le> length (buffer x) then Some (take (used x) (buffer x)) else None)"

definition buffer_to_bytes ::
  "('a \<Rightarrow> u8 list option) \<Rightarrow> 'a BoundedBufferOperand \<Rightarrow> u8 list option" where
  "buffer_to_bytes enc x =
     (case buffer_slice x of
        Some elems \<Rightarrow> emit (map enc elems)
      | None \<Rightarrow> None)"

function buffer_loop ::
  "(u8 list \<Rightarrow> 'a result) \<Rightarrow> nat \<Rightarrow> nat \<Rightarrow> u8 list \<Rightarrow> nat \<Rightarrow> 'a list \<Rightarrow> nat \<Rightarrow> ('a list \<times> nat) result"
where
  "buffer_loop dec sz S bs offset buf n =
     (if offset < S * sz \<and> offset + sz \<le> length bs then
        and_then (slice_from bs offset) (\<lambda>s.
        and_then (map_err (add_offset offset) (dec s)) (\<lambda>x.
        buffer_loop dec sz S bs (offset + sz) (buf @ [x]) (n + 1)))
      else Ok (buf, n))"
  by pat_completeness auto
termination
proof (relation "measure (\<lambda>(dec, sz, S, bs, offset, buf, n). S * sz - offset)", goal_cases)
  case (2 dec sz S bs offset buf n s x)
  then have "offset < S * sz" by simp
  moreover from this have "0 < sz" by (cases sz) auto
  ultimately show ?case by simp
qed simp

declare buffer_loop.simps [simp del]

text \<open>\<open>buf.resize(S, default)\<close> and \<open>first_chunk().unwrap()\<close>.\<close>

definition resize :: "'a list \<Rightarrow> nat \<Rightarrow> 'a \<Rightarrow> 'a list" where
  "resize xs n d = take n xs @ replicate (n - length xs) d"

definition first_chunk :: "nat \<Rightarrow> 'a list \<Rightarrow> 'a list option" where
  "first_chunk S xs = (if S \<le> length xs then Some (take S xs) else None)"

definition buffer_try_from_bytes ::
  "(u8 list \<Rightarrow> 'a result) \<Rightarrow> nat \<Rightarrow> 'a \<Rightarrow> nat \<Rightarrow> u8 list \<Rightarrow> 'a BoundedBufferOperand result"
where
  "buffer_try_from_bytes dec sz dflt S bs =
     and_then (buffer_loop dec sz S bs 0 [] 0) (\<lambda>(buf, n).
     and_then (unwrap_option (first_chunk S (resize buf S dflt))) (\<lambda>chunk.
     Ok \<lparr>buffer = chunk, used = n\<rparr>))"

definition buffer_len :: "nat \<Rightarrow> nat \<Rightarrow> 'a BoundedBufferOperand \<Rightarrow> nat" where
  "buffer_len sz S x = min (used x) S * sz"

definition buffer_default :: "'a \<Rightarrow> nat \<Rightarrow> 'a BoundedBufferOperand" where
  "buffer_default dflt S = \<lparr>buffer = replicate S dflt, used = 0\<rparr>"

text \<open>
  \<open>TryFrom<&[T]>\<close>, and \<open>FromStr\<close> on the bytes of the string. \<open>copy_from_slice\<close> into
  \<open>buffer[..n]\<close> is the update of the first \<open>n\<close> elements.
\<close>

definition buffer_from_slice :: "'a \<Rightarrow> nat \<Rightarrow> 'a list \<Rightarrow> 'a BoundedBufferOperand result" where
  "buffer_from_slice dflt S arr =
     and_then (check (AtMost S) (length arr) ''elements'') (\<lambda>_.
     Ok \<lparr>buffer = arr @ drop (length arr) (replicate S dflt), used = length arr\<rparr>)"

definition buffer_from_str :: "nat \<Rightarrow> u8 list \<Rightarrow> u8 BoundedBufferOperand result" where
  "buffer_from_str S bytes =
     and_then (check (AtMost S) (length bytes) ''bytes'') (\<lambda>_.
     Ok \<lparr>buffer = bytes @ drop (length bytes) (replicate S 0), used = length bytes\<rparr>)"

definition buffer_as_bytes :: "'a BoundedBufferOperand \<Rightarrow> 'a list option" where
  "buffer_as_bytes x = buffer_slice x"

text \<open>
  The invariant of the type: the array has \<open>S\<close> elements, the length in use is at most \<open>S\<close>, and
  the elements behind it have the default value.
\<close>

definition buffer_valid ::
  "('a \<Rightarrow> bool) \<Rightarrow> 'a \<Rightarrow> nat \<Rightarrow> 'a BoundedBufferOperand \<Rightarrow> bool" where
  "buffer_valid valid dflt S x \<longleftrightarrow>
     (\<exists>xs. list_all valid xs \<and> length xs \<le> S \<and>
        x = \<lparr>buffer = xs @ replicate (S - length xs) dflt, used = length xs\<rparr>)"

lemma buffer_slice_valid [simp]:
  "buffer_slice \<lparr>buffer = xs @ ys, used = length xs\<rparr> = Some xs"
  by (simp add: buffer_slice_def)

lemma buffer_valid_default: "buffer_valid valid dflt S (buffer_default dflt S)"
  unfolding buffer_valid_def buffer_default_def by (rule exI [of _ "[]"]) simp

lemma buffer_valid_from_slice:
  "buffer_from_slice dflt S arr = Ok x \<Longrightarrow> list_all valid arr \<Longrightarrow> buffer_valid valid dflt S x"
  by (auto simp: buffer_from_slice_def buffer_valid_def)

lemma buffer_valid_from_str:
  "buffer_from_str S bytes = Ok x \<Longrightarrow> buffer_valid (\<lambda>_. True) 0 S x"
  by (auto simp: buffer_from_str_def buffer_valid_def list_all_iff)

lemma first_chunk_resize [simp]: "first_chunk S (resize buf S d) = Some (resize buf S d)"
  by (cases "S \<le> length buf") (simp_all add: first_chunk_def resize_def)

lemma buffer_loop_not_Panic:
  "(\<And>bs. dec bs \<noteq> Panic) \<Longrightarrow> buffer_loop dec sz S bs offset buf n \<noteq> Panic"
proof (induction dec sz S bs offset buf n rule: buffer_loop.induct)
  case (1 dec sz S bs offset buf n)
  then show ?case
    by (subst buffer_loop.simps) auto
qed

lemma resize_short: "length xs \<le> S \<Longrightarrow> resize xs S d = xs @ replicate (S - length xs) d"
  by (simp add: resize_def)

locale buffer_element =
  prefix_operand valid to_bytes try_from_bytes len expected_len
  for valid :: "'a \<Rightarrow> bool" and to_bytes try_from_bytes len expected_len +
  fixes sz :: nat
    and dflt :: 'a
  assumes size_pos: "0 < sz"
    and len_size: "valid x \<Longrightarrow> len x = sz"
begin

lemma loop_valid:
  assumes "buffer_loop try_from_bytes sz S bs offset buf n = Ok (buf', n')"
    and "list_all valid buf" "length buf = n" "offset = n * sz" "n \<le> S" "n * sz \<le> length bs"
  shows "list_all valid buf' \<and> length buf' = n' \<and> n' \<le> S \<and> n' * sz \<le> length bs"
  using assms
proof (induction "S - n" arbitrary: offset buf n)
  case 0
  then have "\<not> offset < S * sz" by simp
  with 0 show ?case by (subst (asm) buffer_loop.simps) simp
next
  case (Suc m)
  show ?case
  proof (cases "offset < S * sz \<and> offset + sz \<le> length bs")
    case True
    with Suc.prems(1) obtain x where x: "try_from_bytes (drop offset bs) = Ok x"
      and rest: "buffer_loop try_from_bytes sz S bs (offset + sz) (buf @ [x]) (n + 1) = Ok (buf', n')"
      by (subst (asm) buffer_loop.simps) auto
    show ?thesis
      using Suc.hyps(1) [OF _ rest] Suc.hyps(2) Suc.prems True dec_valid [OF x]
      by (simp add: One_nat_def algebra_simps)
  next
    case False
    then have "buffer_loop try_from_bytes sz S bs offset buf n = Ok (buf, n)"
      by (subst buffer_loop.simps) (rule if_not_P)
    with Suc.prems show ?thesis by simp
  qed
qed

lemma loop_decodes:
  assumes "list_all valid xs" "emit (map to_bytes xs) = Some b"
    and "offset = length pre" "offset = k * sz" "k + length xs \<le> S"
  shows "buffer_loop try_from_bytes sz S (pre @ b) offset buf n = Ok (buf @ xs, n + length xs)"
  using assms
proof (induction xs arbitrary: pre offset buf n k b)
  case Nil
  then show ?case
    using size_pos by (subst buffer_loop.simps) simp
next
  case (Cons x xs)
  from Cons.prems(1) obtain e where e: "to_bytes x = Some e" "length e = len x"
    "\<And>rest. try_from_bytes (e @ rest) = Ok x"
    by (auto elim: prefix_cases)
  from Cons.prems(2) e(1) obtain b' where b': "emit (map to_bytes xs) = Some b'" "b = e @ b'"
    by (cases "emit (map to_bytes xs)") auto
  have sz: "length e = sz"
    using e(2) Cons.prems(1) len_size by simp
  have "offset < S * sz"
    using Cons.prems(4,5) size_pos by simp
  moreover have "offset + sz \<le> length (pre @ b)"
    using Cons.prems(3) b'(2) sz by simp
  ultimately have "buffer_loop try_from_bytes sz S (pre @ b) offset buf n =
      buffer_loop try_from_bytes sz S ((pre @ e) @ b') (offset + sz) (buf @ [x]) (n + 1)"
    using Cons.prems(3) b'(2) e(3) by (subst buffer_loop.simps) simp
  also have "\<dots> = Ok ((buf @ [x]) @ xs, n + 1 + length xs)"
    using Cons.prems b'(1) sz
    by (intro Cons.IH [where k = "Suc k"]) auto
  finally show ?case by simp
qed

lemma emit_elements:
  assumes "list_all valid xs"
  obtains b where "emit (map to_bytes xs) = Some b" "length b = length xs * sz"
  using assms
proof (induction xs arbitrary: thesis)
  case (Cons x xs)
  from Cons.prems(2) have v: "valid x" by simp
  then obtain e where e: "to_bytes x = Some e" "length e = sz"
    using enc_defined enc_len len_size by metis
  from Cons.prems(2) obtain b where "emit (map to_bytes xs) = Some b" "length b = length xs * sz"
    using Cons.IH by auto
  with e Cons.prems(1) show ?case by auto
qed auto

lemma buffer_decodes:
  assumes "list_all valid xs" "emit (map to_bytes xs) = Some b" "length xs \<le> S"
  shows "buffer_try_from_bytes try_from_bytes sz dflt S b =
    Ok \<lparr>buffer = xs @ replicate (S - length xs) dflt, used = length xs\<rparr>"
  using loop_decodes [OF assms(1,2), of 0 "[]" 0 S] assms(3)
  by (simp add: buffer_try_from_bytes_def resize_short)

end

sublocale buffer_element \<subseteq> buf: operand "buffer_valid valid dflt S" "buffer_to_bytes to_bytes"
    "buffer_try_from_bytes try_from_bytes sz dflt S" "buffer_len sz S" "AtLeast 0" for S
proof
  fix x assume "buffer_valid valid dflt S x"
  then show "\<exists>b. buffer_to_bytes to_bytes x = Some b"
    by (auto simp: buffer_valid_def buffer_to_bytes_def elim: emit_elements)
next
  fix x b
  assume "buffer_valid valid dflt S x" and b: "buffer_to_bytes to_bytes x = Some b"
  then obtain xs where xs: "list_all valid xs" "length xs \<le> S"
    "x = \<lparr>buffer = xs @ replicate (S - length xs) dflt, used = length xs\<rparr>"
    by (auto simp: buffer_valid_def)
  with b have b': "emit (map to_bytes xs) = Some b"
    by (simp add: buffer_to_bytes_def)
  show "length b = buffer_len sz S x"
    using xs b' by (auto simp: buffer_len_def elim: emit_elements)
  show "buffer_try_from_bytes try_from_bytes sz dflt S b = Ok x"
    using buffer_decodes [OF xs(1) b' xs(2)] xs(3) by simp
next
  fix bs
  show "buffer_try_from_bytes try_from_bytes sz dflt S bs \<noteq> Panic"
    using buffer_loop_not_Panic [of try_from_bytes, OF dec_total] by (auto simp: buffer_try_from_bytes_def)
next
  fix bs x
  assume "buffer_try_from_bytes try_from_bytes sz dflt S bs = Ok x"
  then obtain buf n where l: "buffer_loop try_from_bytes sz S bs 0 [] 0 = Ok (buf, n)"
    and x: "x = \<lparr>buffer = resize buf S dflt, used = n\<rparr>"
    by (auto simp: buffer_try_from_bytes_def)
  have inv: "list_all valid buf \<and> length buf = n \<and> n \<le> S \<and> n * sz \<le> length bs"
    using loop_valid [OF l] by simp
  then show "buffer_valid valid dflt S x"
    unfolding buffer_valid_def using x by (intro exI [of _ buf]) (auto simp: resize_short)
  show "buffer_len sz S x \<le> length bs"
    using inv x by (simp add: buffer_len_def)
  show "in_range (AtLeast 0) (length bs)" by simp
qed

end
