(* ===== verification/OperandTagged.thy ===== *)
theory OperandTagged
  imports OperandBuffers
begin

text \<open>
  Buffers of bytes, and the blanket implementation of \<open>OperandEncodable\<close> for every
  \<open>TaggedLengthBuffer\<close> (\<open>linux-cec/src/operand.rs\<close>): a fixed parameter of seven bits and
  further bytes of seven bits, where the top bit of a byte says that another byte follows.
\<close>

section \<open>Buffers of bytes\<close>

interpretation u8_buffer: buffer_element "\<lambda>_. True" u8_to_bytes u8_try_from_bytes "\<lambda>_. 1"
    "AtLeast 1" 1 0
  by unfold_locales simp_all

definition byte_buffer :: "nat \<Rightarrow> u8 list \<Rightarrow> u8 BoundedBufferOperand" where
  "byte_buffer S xs = \<lparr>buffer = xs @ replicate (S - length xs) 0, used = length xs\<rparr>"

lemma byte_buffer_sel [simp]:
  "buffer_slice (byte_buffer S xs) = Some xs"
  "used (byte_buffer S xs) = length xs"
  by (simp_all add: byte_buffer_def)

lemma byte_buffer_inject: "byte_buffer S xs = byte_buffer S ys \<Longrightarrow> xs = ys"
  by (metis byte_buffer_sel(1) option.inject)

lemma byte_buffer_valid [simp]:
  "buffer_valid (\<lambda>_. True) 0 S x \<longleftrightarrow> (\<exists>xs. length xs \<le> S \<and> x = byte_buffer S xs)"
  by (auto simp: buffer_valid_def byte_buffer_def list_all_iff)

lemma byte_loop:
  "n \<le> S \<Longrightarrow> n \<le> length bs \<Longrightarrow>
   buffer_loop u8_try_from_bytes 1 S bs n buf n =
     Ok (buf @ take (S - n) (drop n bs), n + length (take (S - n) (drop n bs)))"
proof (induction "S - n" arbitrary: n buf)
  case 0
  then show ?case by (subst buffer_loop.simps) simp
next
  case (Suc m)
  show ?case
  proof (cases "n < length bs")
    case True
    then have d: "drop n bs = bs ! n # drop (Suc n) bs"
      by (rule Cons_nth_drop_Suc [symmetric])
    have s: "S - n = Suc (S - Suc n)"
      using Suc.hyps(2) by simp
    have "buffer_loop u8_try_from_bytes 1 S bs n buf n =
        buffer_loop u8_try_from_bytes 1 S bs (Suc n) (buf @ [bs ! n]) (Suc n)"
      using True s Suc.hyps(2) d by (subst buffer_loop.simps) (auto simp: codec One_nat_def)
    also have "\<dots> = Ok ((buf @ [bs ! n]) @ take (S - Suc n) (drop (Suc n) bs),
        Suc n + length (take (S - Suc n) (drop (Suc n) bs)))"
      using True Suc.hyps(2) by (intro Suc.hyps(1)) auto
    finally show ?thesis
      unfolding d s by simp
  next
    case False
    with Suc.prems show ?thesis by (subst buffer_loop.simps) simp
  qed
qed

lemma byte_buffer_decode:
  "buffer_try_from_bytes u8_try_from_bytes 1 0 S bs = Ok (byte_buffer S (take S bs))"
  using byte_loop [of 0 S bs "[]"]
  by (simp add: buffer_try_from_bytes_def resize_short byte_buffer_def)

lemma emit_bytes [simp]: "emit (map u8_to_bytes xs) = Some xs"
  by (induction xs) (auto simp: codec)

lemma byte_buffer_codec [codec]:
  "buffer_to_bytes u8_to_bytes (byte_buffer S xs) = Some xs"
  "length xs \<le> S \<Longrightarrow> buffer_try_from_bytes u8_try_from_bytes 1 0 S xs = Ok (byte_buffer S xs)"
  "length xs \<le> S \<Longrightarrow> buffer_len 1 S (byte_buffer S xs) = length xs"
  by (simp_all add: buffer_to_bytes_def byte_buffer_decode buffer_len_def)

section \<open>Tagged buffers\<close>

definition tagged_to_bytes ::
  "('a \<Rightarrow> 'p) \<Rightarrow> ('p \<Rightarrow> u8) \<Rightarrow> ('a \<Rightarrow> u8 list option) \<Rightarrow> 'a \<Rightarrow> u8 list option" where
  "tagged_to_bytes fixed_param into extra_params x =
     (let head = into (fixed_param x) in
      case extra_params x of
        None \<Rightarrow> None
      | Some extra \<Rightarrow>
          if extra = [] then Some [head AND 0x7F]
          else emit [Some [head OR 0x80],
                     Some (map (\<lambda>b. b OR 0x80) (take (length extra - 1) extra)),
                     Some [last extra AND 0x7F]])"

function tagged_loop :: "u8 list \<Rightarrow> nat \<Rightarrow> u8 list \<Rightarrow> u8 list" where
  "tagged_loop bs offset extra =
     (if offset < length bs then
        let byte = bs ! offset; extra' = extra @ [byte AND 0x7F] in
        if byte AND 0x80 = 0 then extra' else tagged_loop bs (offset + 1) extra'
      else extra)"
  by pat_completeness auto
termination
  by (relation "measure (\<lambda>(bs, offset, extra). length bs - offset)") auto

declare tagged_loop.simps [simp del]

definition tagged_try_from_bytes ::
  "(u8 \<Rightarrow> 'p result) \<Rightarrow> ('p \<Rightarrow> u8 list \<Rightarrow> 'a result) \<Rightarrow> u8 list \<Rightarrow> 'a result" where
  "tagged_try_from_bytes try_from try_new bs =
     and_then (check (AtLeast 1) (length bs) ''bytes'') (\<lambda>_.
     and_then (index bs 0) (\<lambda>head.
     and_then (try_from (head AND 0x7F)) (\<lambda>first.
     let extra = (if head AND 0x80 = 0x80 then tagged_loop bs 1 [] else []) in
     try_new first extra)))"

definition tagged_len :: "('a \<Rightarrow> u8 list option) \<Rightarrow> 'a \<Rightarrow> nat" where
  "tagged_len extra_params x =
     1 + (case extra_params x of Some extra \<Rightarrow> length extra | None \<Rightarrow> 0)"

text \<open>Facts on the top bit of a byte.\<close>

lemma top_bit:
  "(b AND 0x7F) AND 0x7F = b AND (0x7F :: u8)"
  "(b AND 0x7F) AND 0x80 = (0 :: u8)"
  "(b OR 0x80) AND 0x7F = b AND (0x7F :: u8)"
  "(b OR 0x80) AND 0x80 = (0x80 :: u8)"
  by (simp_all add: and.assoc bit.conj_disj_distrib2 word_ao_absorbs)

lemma clear_top_bit: "b AND 0x80 = 0 \<Longrightarrow> b AND 0x7F = (b :: u8)"
proof -
  assume "b AND 0x80 = 0"
  moreover have "(0x7F OR 0x80 :: u8) = - 1"
    by code_simp
  then have "b = b AND (0x7F OR 0x80)"
    by (simp only: and.right_neutral)
  ultimately show ?thesis
    by (metis bit.conj_disj_distrib or.right_neutral)
qed

lemma tagged_loop_decodes:
  assumes "list_all (\<lambda>b. b AND 0x80 = 0) xs" "l AND 0x80 = 0"
  shows "tagged_loop (pre @ map (\<lambda>b. b OR 0x80) xs @ (l AND 0x7F) # rest) (length pre) acc =
    acc @ xs @ [l]"
  using assms(1)
proof (induction xs arbitrary: pre acc)
  case Nil
  then show ?case
    using assms(2) by (subst tagged_loop.simps) (simp add: top_bit clear_top_bit Let_def)
next
  case (Cons x xs)
  have "tagged_loop (pre @ map (\<lambda>b. b OR 0x80) (x # xs) @ (l AND 0x7F) # rest) (length pre) acc =
      tagged_loop ((pre @ [x OR 0x80]) @ map (\<lambda>b. b OR 0x80) xs @ (l AND 0x7F) # rest)
        (length (pre @ [x OR 0x80])) (acc @ [x])"
    using Cons.prems
    by (subst tagged_loop.simps) (simp add: top_bit clear_top_bit Let_def One_nat_def)
  also have "\<dots> = (acc @ [x]) @ xs @ [l]"
    using Cons.prems by (intro Cons.IH) simp
  finally show ?case by simp
qed

lemma tagged_loop_bounds:
  "offset \<le> length bs \<Longrightarrow> list_all (\<lambda>b. b AND 0x80 = 0) extra \<Longrightarrow>
   list_all (\<lambda>b. b AND 0x80 = 0) (tagged_loop bs offset extra) \<and>
   length (tagged_loop bs offset extra) \<le> length extra + (length bs - offset)"
proof (induction bs offset extra rule: tagged_loop.induct)
  case (1 bs offset extra)
  show ?case
  proof (cases "offset < length bs \<and> (bs ! offset) AND 0x80 \<noteq> 0")
    case True
    then have "tagged_loop bs offset extra =
        tagged_loop bs (offset + 1) (extra @ [(bs ! offset) AND 0x7F])"
      by (subst tagged_loop.simps) (simp add: Let_def)
    moreover have "list_all (\<lambda>b. b AND 0x80 = 0) (extra @ [(bs ! offset) AND 0x7F])"
      using "1.prems" by (simp add: top_bit)
    ultimately show ?thesis
      using "1.IH" [OF _ refl refl] True by fastforce
  next
    case False
    with "1.prems" show ?thesis
      by (subst (1 2) tagged_loop.simps) (auto simp: Let_def top_bit)
  qed
qed

text \<open>
  Both tagged buffers of the crate are a struct of the fixed parameter and a
  \<open>BoundedBufferOperand<14, u8>\<close>; \<open>mk\<close> is that struct.
\<close>

definition tagged_valid ::
  "('p \<Rightarrow> bool) \<Rightarrow> ('a \<Rightarrow> 'p) \<Rightarrow> ('a \<Rightarrow> u8 BoundedBufferOperand) \<Rightarrow> 'a \<Rightarrow> bool" where
  "tagged_valid pvalid fixed_param rest x \<longleftrightarrow> pvalid (fixed_param x) \<and>
     (\<exists>ex. length ex \<le> 14 \<and> list_all (\<lambda>b. b AND 0x80 = 0) ex \<and> rest x = byte_buffer 14 ex)"

locale tagged_buffer =
  fixes pvalid :: "'p \<Rightarrow> bool"
    and into :: "'p \<Rightarrow> u8"
    and try_from :: "u8 \<Rightarrow> 'p result"
    and mk :: "'p \<Rightarrow> u8 BoundedBufferOperand \<Rightarrow> 'a"
    and fixed_param :: "'a \<Rightarrow> 'p"
    and rest :: "'a \<Rightarrow> u8 BoundedBufferOperand"
    and extra_params :: "'a \<Rightarrow> u8 list option"
    and try_new :: "'p \<Rightarrow> u8 list \<Rightarrow> 'a result"
  assumes p_total: "try_from b \<noteq> Panic"
    and p_valid: "try_from (b AND 0x7F) = Ok p \<Longrightarrow> pvalid p"
    and p_rt: "pvalid p \<Longrightarrow> try_from (into p AND 0x7F) = Ok p"
    and mk_sel: "fixed_param (mk p r) = p" "rest (mk p r) = r" "mk (fixed_param x) (rest x) = x"
    and extra_rest: "extra_params x = buffer_slice (rest x)"
    and new_mk: "try_new p ex =
      and_then (buffer_try_from_bytes u8_try_from_bytes 1 0 14 ex) (\<lambda>r. Ok (mk p r))"
begin

lemma tagged_decodes:
  assumes "tagged_valid pvalid fixed_param rest x"
  obtains b where "tagged_to_bytes fixed_param into extra_params x = Some b"
    "length b = tagged_len extra_params x"
    "\<And>tail. tagged_try_from_bytes try_from try_new (b @ tail) = Ok x"
proof -
  from assms obtain ex where p: "pvalid (fixed_param x)" and ex: "length ex \<le> 14"
    "list_all (\<lambda>b. b AND 0x80 = 0) ex" "rest x = byte_buffer 14 ex"
    by (auto simp: tagged_valid_def)
  have e: "extra_params x = Some ex"
    using ex(3) by (simp add: extra_rest)
  have new: "try_new (fixed_param x) ex = Ok x"
    using ex mk_sel(3) [of x] by (simp add: new_mk codec)
  show thesis
  proof (cases ex rule: rev_cases)
    case Nil
    show thesis
      by (rule that [of "[into (fixed_param x) AND 0x7F]"])
        (use e Nil new p_rt [OF p] in \<open>simp_all add: tagged_to_bytes_def tagged_len_def
          tagged_try_from_bytes_def check_Ok top_bit\<close>)
  next
    case (snoc xs l)
    let ?head = "into (fixed_param x) OR 0x80"
    let ?b = "?head # map (\<lambda>b. b OR 0x80) xs @ [l AND 0x7F]"
    have loop: "tagged_loop (?b @ tail) 1 [] = ex" for tail
      using tagged_loop_decodes [of xs l "[?head]" tail "[]"] ex(2) snoc by (simp add: One_nat_def)
    show thesis
    proof (rule that [of ?b])
      show "tagged_to_bytes fixed_param into extra_params x = Some ?b"
        using e snoc by (simp add: tagged_to_bytes_def)
      show "length ?b = tagged_len extra_params x"
        using e snoc by (simp add: tagged_len_def)
      show "tagged_try_from_bytes try_from try_new (?b @ tail) = Ok x" for tail
        using new p_rt [OF p] loop [of tail]
        by (simp add: tagged_try_from_bytes_def check_Ok top_bit)
    qed
  qed
qed

lemma tagged_Ok:
  assumes "tagged_try_from_bytes try_from try_new bs = Ok x"
  shows "tagged_valid pvalid fixed_param rest x" "tagged_len extra_params x \<le> length bs" "bs \<noteq> []"
proof -
  from assms obtain p ex where ne: "bs \<noteq> []" and p: "try_from (bs ! 0 AND 0x7F) = Ok p"
    and new: "try_new p ex = Ok x"
    and ex: "ex = (if bs ! 0 AND 0x80 = 0x80 then tagged_loop bs 1 [] else [])"
    by (auto simp: tagged_try_from_bytes_def Let_def index_eq_Ok One_nat_def Suc_le_eq)
  have len: "1 \<le> length bs"
    using ne by (cases bs) auto
  have b: "list_all (\<lambda>b. b AND 0x80 = 0) ex" "length ex \<le> length bs - 1"
    using tagged_loop_bounds [OF len, of "[]"] ex by auto
  from new have x: "x = mk p (byte_buffer 14 (take 14 ex))"
    by (auto simp: new_mk byte_buffer_decode)
  have "list_all (\<lambda>b. b AND 0x80 = 0) (take 14 ex)"
    using b(1) by (auto simp: list_all_iff dest: in_set_takeD)
  then show "tagged_valid pvalid fixed_param rest x"
    unfolding tagged_valid_def using p_valid [OF p] x mk_sel
    by (intro conjI exI [of _ "take 14 ex"]) auto
  show "tagged_len extra_params x \<le> length bs"
    using b(2) len x by (auto simp: tagged_len_def extra_rest mk_sel)
  show "bs \<noteq> []" by (rule ne)
qed

end

sublocale tagged_buffer \<subseteq> prefix_operand "tagged_valid pvalid fixed_param rest"
    "tagged_to_bytes fixed_param into extra_params" "tagged_try_from_bytes try_from try_new"
    "tagged_len extra_params" "AtLeast 1"
proof (rule prefix_operandI)
  fix x assume "tagged_valid pvalid fixed_param rest x"
  then show "\<exists>b. tagged_to_bytes fixed_param into extra_params x = Some b \<and>
      length b = tagged_len extra_params x \<and>
      (\<forall>tail. tagged_try_from_bytes try_from try_new (b @ tail) = Ok x)"
    by (metis tagged_decodes)
next
  fix bs show "tagged_try_from_bytes try_from try_new bs \<noteq> Panic"
    using p_total by (auto simp: tagged_try_from_bytes_def Let_def new_mk byte_buffer_decode)
next
  fix bs x assume "tagged_try_from_bytes try_from try_new bs = Ok x"
  then show "tagged_valid pvalid fixed_param rest x \<and> tagged_len extra_params x \<le> length bs \<and>
      in_range (AtLeast 1) (length bs)"
    using tagged_Ok [of bs x] by (cases bs) auto
qed

end
