(* ===== verification/OperandEnums.thy ===== *)
theory OperandEnums
  imports OperandTagged
begin

text \<open>
  The one-byte operands of \<open>linux-cec/src/operand.rs\<close> that are enums, sets of flags or bit
  fields. For an enum \<open>X\<close>, \<open>X_into\<close> is the discriminant of a variant (the constants of
  \<open>linux-cec-sys/src/constants.rs\<close>, written out), \<open>X_variants\<close> lists the variants, and the
  interpretation of \<open>byte_enum\<close> shows that the discriminants are distinct and the list is
  complete. The derived \<open>OperandEncodable\<close> of the enum is \<open>X_to_bytes\<close> and \<open>X_try_from_bytes\<close>.
\<close>

section \<open>Enums\<close>

datatype AbortReason =
  UnrecognizedOp | IncorrectMode | NoSource | InvalidOp | Refused | Undetermined

primrec AbortReason_into :: "AbortReason \<Rightarrow> u8" where
  "AbortReason_into AbortReason.UnrecognizedOp = 0" |
  "AbortReason_into AbortReason.IncorrectMode = 1" |
  "AbortReason_into AbortReason.NoSource = 2" |
  "AbortReason_into AbortReason.InvalidOp = 3" |
  "AbortReason_into AbortReason.Refused = 4" |
  "AbortReason_into AbortReason.Undetermined = 5"

definition AbortReason_variants :: "AbortReason list" where
  "AbortReason_variants =
    [AbortReason.UnrecognizedOp, AbortReason.IncorrectMode, AbortReason.NoSource,
     AbortReason.InvalidOp, AbortReason.Refused, AbortReason.Undetermined]"

interpretation AbortReason: byte_enum "''AbortReason''" AbortReason_variants AbortReason_into
  by (unfold_locales, simp add: AbortReason_variants_def, induct_tac x) (simp_all add: AbortReason_variants_def)

abbreviation "AbortReason_to_bytes \<equiv> enum_to_bytes AbortReason_into"
abbreviation "AbortReason_try_from_bytes \<equiv>
  enum_try_from_bytes ''AbortReason'' AbortReason_variants AbortReason_into"

datatype AnalogueBroadcastType =
  Cable | Satellite | Terrestrial

primrec AnalogueBroadcastType_into :: "AnalogueBroadcastType \<Rightarrow> u8" where
  "AnalogueBroadcastType_into AnalogueBroadcastType.Cable = 0" |
  "AnalogueBroadcastType_into AnalogueBroadcastType.Satellite = 1" |
  "AnalogueBroadcastType_into AnalogueBroadcastType.Terrestrial = 2"

definition AnalogueBroadcastType_variants :: "AnalogueBroadcastType list" where
  "AnalogueBroadcastType_variants =
    [AnalogueBroadcastType.Cable, AnalogueBroadcastType.Satellite,
     AnalogueBroadcastType.Terrestrial]"

interpretation AnalogueBroadcastType: byte_enum "''AnalogueBroadcastType''" AnalogueBroadcastType_variants AnalogueBroadcastType_into
  by (unfold_locales, simp add: AnalogueBroadcastType_variants_def, induct_tac x) (simp_all add: AnalogueBroadcastType_variants_def)

abbreviation "AnalogueBroadcastType_to_bytes \<equiv> enum_to_bytes AnalogueBroadcastType_into"
abbreviation "AnalogueBroadcastType_try_from_bytes \<equiv>
  enum_try_from_bytes ''AnalogueBroadcastType'' AnalogueBroadcastType_variants AnalogueBroadcastType_into"

datatype AudioRate =
  Off | WideStandard | WideFast | WideSlow | NarrowStandard | NarrowFast | NarrowSlow

primrec AudioRate_into :: "AudioRate \<Rightarrow> u8" where
  "AudioRate_into AudioRate.Off = 0" |
  "AudioRate_into AudioRate.WideStandard = 1" |
  "AudioRate_into AudioRate.WideFast = 2" |
  "AudioRate_into AudioRate.WideSlow = 3" |
  "AudioRate_into AudioRate.NarrowStandard = 4" |
  "AudioRate_into AudioRate.NarrowFast = 5" |
  "AudioRate_into AudioRate.NarrowSlow = 6"

definition AudioRate_variants :: "AudioRate list" where
  "AudioRate_variants =
    [AudioRate.Off, AudioRate.WideStandard, AudioRate.WideFast, AudioRate.WideSlow,
     AudioRate.NarrowStandard, AudioRate.NarrowFast, AudioRate.NarrowSlow]"

interpretation AudioRate: byte_enum "''AudioRate''" AudioRate_variants AudioRate_into
  by (unfold_locales, simp add: AudioRate_variants_def, induct_tac x) (simp_all add: AudioRate_variants_def)

abbreviation "AudioRate_to_bytes \<equiv> enum_to_bytes AudioRate_into"
abbreviation "AudioRate_try_from_bytes \<equiv>
  enum_try_from_bytes ''AudioRate'' AudioRate_variants AudioRate_into"

datatype BroadcastSystem =
  PalBG | SecamLq | PalM | NtscM | PalI | SecamDK | SecamBG | SecamL | PalDK | Other

primrec BroadcastSystem_into :: "BroadcastSystem \<Rightarrow> u8" where
  "BroadcastSystem_into BroadcastSystem.PalBG = 0" |
  "BroadcastSystem_into BroadcastSystem.SecamLq = 1" |
  "BroadcastSystem_into BroadcastSystem.PalM = 2" |
  "BroadcastSystem_into BroadcastSystem.NtscM = 3" |
  "BroadcastSystem_into BroadcastSystem.PalI = 4" |
  "BroadcastSystem_into BroadcastSystem.SecamDK = 5" |
  "BroadcastSystem_into BroadcastSystem.SecamBG = 6" |
  "BroadcastSystem_into BroadcastSystem.SecamL = 7" |
  "BroadcastSystem_into BroadcastSystem.PalDK = 8" |
  "BroadcastSystem_into BroadcastSystem.Other = 0x1F"

definition BroadcastSystem_variants :: "BroadcastSystem list" where
  "BroadcastSystem_variants =
    [BroadcastSystem.PalBG, BroadcastSystem.SecamLq, BroadcastSystem.PalM,
     BroadcastSystem.NtscM, BroadcastSystem.PalI, BroadcastSystem.SecamDK,
     BroadcastSystem.SecamBG, BroadcastSystem.SecamL, BroadcastSystem.PalDK,
     BroadcastSystem.Other]"

interpretation BroadcastSystem: byte_enum "''BroadcastSystem''" BroadcastSystem_variants BroadcastSystem_into
  by (unfold_locales, simp add: BroadcastSystem_variants_def, induct_tac x) (simp_all add: BroadcastSystem_variants_def)

abbreviation "BroadcastSystem_to_bytes \<equiv> enum_to_bytes BroadcastSystem_into"
abbreviation "BroadcastSystem_try_from_bytes \<equiv>
  enum_try_from_bytes ''BroadcastSystem'' BroadcastSystem_variants BroadcastSystem_into"

datatype (plugins only: code size) DayOfMonth =
  Day1 | Day2 | Day3 | Day4 | Day5 | Day6 | Day7 | Day8 | Day9 | Day10 | Day11 | Day12 |
  Day13 | Day14 | Day15 | Day16 | Day17 | Day18 | Day19 | Day20 | Day21 | Day22 | Day23 |
  Day24 | Day25 | Day26 | Day27 | Day28 | Day29 | Day30 | Day31

primrec DayOfMonth_into :: "DayOfMonth \<Rightarrow> u8" where
  "DayOfMonth_into DayOfMonth.Day1 = 1" |
  "DayOfMonth_into DayOfMonth.Day2 = 2" |
  "DayOfMonth_into DayOfMonth.Day3 = 3" |
  "DayOfMonth_into DayOfMonth.Day4 = 4" |
  "DayOfMonth_into DayOfMonth.Day5 = 5" |
  "DayOfMonth_into DayOfMonth.Day6 = 6" |
  "DayOfMonth_into DayOfMonth.Day7 = 7" |
  "DayOfMonth_into DayOfMonth.Day8 = 8" |
  "DayOfMonth_into DayOfMonth.Day9 = 9" |
  "DayOfMonth_into DayOfMonth.Day10 = 0x0A" |
  "DayOfMonth_into DayOfMonth.Day11 = 0x0B" |
  "DayOfMonth_into DayOfMonth.Day12 = 0x0C" |
  "DayOfMonth_into DayOfMonth.Day13 = 0x0D" |
  "DayOfMonth_into DayOfMonth.Day14 = 0x0E" |
  "DayOfMonth_into DayOfMonth.Day15 = 0x0F" |
  "DayOfMonth_into DayOfMonth.Day16 = 0x10" |
  "DayOfMonth_into DayOfMonth.Day17 = 0x11" |
  "DayOfMonth_into DayOfMonth.Day18 = 0x12" |
  "DayOfMonth_into DayOfMonth.Day19 = 0x13" |
  "DayOfMonth_into DayOfMonth.Day20 = 0x14" |
  "DayOfMonth_into DayOfMonth.Day21 = 0x15" |
  "DayOfMonth_into DayOfMonth.Day22 = 0x16" |
  "DayOfMonth_into DayOfMonth.Day23 = 0x17" |
  "DayOfMonth_into DayOfMonth.Day24 = 0x18" |
  "DayOfMonth_into DayOfMonth.Day25 = 0x19" |
  "DayOfMonth_into DayOfMonth.Day26 = 0x1A" |
  "DayOfMonth_into DayOfMonth.Day27 = 0x1B" |
  "DayOfMonth_into DayOfMonth.Day28 = 0x1C" |
  "DayOfMonth_into DayOfMonth.Day29 = 0x1D" |
  "DayOfMonth_into DayOfMonth.Day30 = 0x1E" |
  "DayOfMonth_into DayOfMonth.Day31 = 0x1F"

definition DayOfMonth_variants :: "DayOfMonth list" where
  "DayOfMonth_variants =
    [DayOfMonth.Day1, DayOfMonth.Day2, DayOfMonth.Day3, DayOfMonth.Day4, DayOfMonth.Day5,
     DayOfMonth.Day6, DayOfMonth.Day7, DayOfMonth.Day8, DayOfMonth.Day9, DayOfMonth.Day10,
     DayOfMonth.Day11, DayOfMonth.Day12, DayOfMonth.Day13, DayOfMonth.Day14, DayOfMonth.Day15,
     DayOfMonth.Day16, DayOfMonth.Day17, DayOfMonth.Day18, DayOfMonth.Day19, DayOfMonth.Day20,
     DayOfMonth.Day21, DayOfMonth.Day22, DayOfMonth.Day23, DayOfMonth.Day24, DayOfMonth.Day25,
     DayOfMonth.Day26, DayOfMonth.Day27, DayOfMonth.Day28, DayOfMonth.Day29, DayOfMonth.Day30,
     DayOfMonth.Day31]"

interpretation DayOfMonth: byte_enum "''DayOfMonth''" DayOfMonth_variants DayOfMonth_into
  by (unfold_locales, simp add: DayOfMonth_variants_def, induct_tac x) (simp_all add: DayOfMonth_variants_def)

abbreviation "DayOfMonth_to_bytes \<equiv> enum_to_bytes DayOfMonth_into"
abbreviation "DayOfMonth_try_from_bytes \<equiv>
  enum_try_from_bytes ''DayOfMonth'' DayOfMonth_variants DayOfMonth_into"

datatype DeckControlMode =
  SkipForward | SkipReverse | Stop | Eject

primrec DeckControlMode_into :: "DeckControlMode \<Rightarrow> u8" where
  "DeckControlMode_into DeckControlMode.SkipForward = 1" |
  "DeckControlMode_into DeckControlMode.SkipReverse = 2" |
  "DeckControlMode_into DeckControlMode.Stop = 3" |
  "DeckControlMode_into DeckControlMode.Eject = 4"

definition DeckControlMode_variants :: "DeckControlMode list" where
  "DeckControlMode_variants =
    [DeckControlMode.SkipForward, DeckControlMode.SkipReverse, DeckControlMode.Stop,
     DeckControlMode.Eject]"

interpretation DeckControlMode: byte_enum "''DeckControlMode''" DeckControlMode_variants DeckControlMode_into
  by (unfold_locales, simp add: DeckControlMode_variants_def, induct_tac x) (simp_all add: DeckControlMode_variants_def)

abbreviation "DeckControlMode_to_bytes \<equiv> enum_to_bytes DeckControlMode_into"
abbreviation "DeckControlMode_try_from_bytes \<equiv>
  enum_try_from_bytes ''DeckControlMode'' DeckControlMode_variants DeckControlMode_into"

datatype DeckInfo =
  Play | Record | PlayReverse | Still | Slow | SlowReverse | FastForward | FastReverse |
  NoMedia | Stop | SkipForward | SkipReverse | IndexSearchForward | IndexSearchReverse | Other

primrec DeckInfo_into :: "DeckInfo \<Rightarrow> u8" where
  "DeckInfo_into DeckInfo.Play = 0x11" |
  "DeckInfo_into DeckInfo.Record = 0x12" |
  "DeckInfo_into DeckInfo.PlayReverse = 0x13" |
  "DeckInfo_into DeckInfo.Still = 0x14" |
  "DeckInfo_into DeckInfo.Slow = 0x15" |
  "DeckInfo_into DeckInfo.SlowReverse = 0x16" |
  "DeckInfo_into DeckInfo.FastForward = 0x17" |
  "DeckInfo_into DeckInfo.FastReverse = 0x18" |
  "DeckInfo_into DeckInfo.NoMedia = 0x19" |
  "DeckInfo_into DeckInfo.Stop = 0x1A" |
  "DeckInfo_into DeckInfo.SkipForward = 0x1B" |
  "DeckInfo_into DeckInfo.SkipReverse = 0x1C" |
  "DeckInfo_into DeckInfo.IndexSearchForward = 0x1D" |
  "DeckInfo_into DeckInfo.IndexSearchReverse = 0x1E" |
  "DeckInfo_into DeckInfo.Other = 0x1F"

definition DeckInfo_variants :: "DeckInfo list" where
  "DeckInfo_variants =
    [DeckInfo.Play, DeckInfo.Record, DeckInfo.PlayReverse, DeckInfo.Still, DeckInfo.Slow,
     DeckInfo.SlowReverse, DeckInfo.FastForward, DeckInfo.FastReverse, DeckInfo.NoMedia,
     DeckInfo.Stop, DeckInfo.SkipForward, DeckInfo.SkipReverse, DeckInfo.IndexSearchForward,
     DeckInfo.IndexSearchReverse, DeckInfo.Other]"

interpretation DeckInfo: byte_enum "''DeckInfo''" DeckInfo_variants DeckInfo_into
  by (unfold_locales, simp add: DeckInfo_variants_def, induct_tac x) (simp_all add: DeckInfo_variants_def)

abbreviation "DeckInfo_to_bytes \<equiv> enum_to_bytes DeckInfo_into"
abbreviation "DeckInfo_try_from_bytes \<equiv>
  enum_try_from_bytes ''DeckInfo'' DeckInfo_variants DeckInfo_into"

datatype DigitalServiceBroadcastSystem =
  AribGeneric | AtscGeneric | DvbGeneric | AribBs | AribCs | AribT | AtscCable |
  AtscSatellite | AtscTerrestrial | DvbC | DvbS | DvbS2 | DvbT

primrec DigitalServiceBroadcastSystem_into :: "DigitalServiceBroadcastSystem \<Rightarrow> u8" where
  "DigitalServiceBroadcastSystem_into DigitalServiceBroadcastSystem.AribGeneric = 0" |
  "DigitalServiceBroadcastSystem_into DigitalServiceBroadcastSystem.AtscGeneric = 1" |
  "DigitalServiceBroadcastSystem_into DigitalServiceBroadcastSystem.DvbGeneric = 2" |
  "DigitalServiceBroadcastSystem_into DigitalServiceBroadcastSystem.AribBs = 8" |
  "DigitalServiceBroadcastSystem_into DigitalServiceBroadcastSystem.AribCs = 9" |
  "DigitalServiceBroadcastSystem_into DigitalServiceBroadcastSystem.AribT = 0x0A" |
  "DigitalServiceBroadcastSystem_into DigitalServiceBroadcastSystem.AtscCable = 0x10" |
  "DigitalServiceBroadcastSystem_into DigitalServiceBroadcastSystem.AtscSatellite = 0x11" |
  "DigitalServiceBroadcastSystem_into DigitalServiceBroadcastSystem.AtscTerrestrial = 0x12" |
  "DigitalServiceBroadcastSystem_into DigitalServiceBroadcastSystem.DvbC = 0x18" |
  "DigitalServiceBroadcastSystem_into DigitalServiceBroadcastSystem.DvbS = 0x19" |
  "DigitalServiceBroadcastSystem_into DigitalServiceBroadcastSystem.DvbS2 = 0x1A" |
  "DigitalServiceBroadcastSystem_into DigitalServiceBroadcastSystem.DvbT = 0x1B"

definition DigitalServiceBroadcastSystem_variants :: "DigitalServiceBroadcastSystem list" where
  "DigitalServiceBroadcastSystem_variants =
    [DigitalServiceBroadcastSystem.AribGeneric, DigitalServiceBroadcastSystem.AtscGeneric,
     DigitalServiceBroadcastSystem.DvbGeneric, DigitalServiceBroadcastSystem.AribBs,
     DigitalServiceBroadcastSystem.AribCs, DigitalServiceBroadcastSystem.AribT,
     DigitalServiceBroadcastSystem.AtscCable, DigitalServiceBroadcastSystem.AtscSatellite,
     DigitalServiceBroadcastSystem.AtscTerrestrial, DigitalServiceBroadcastSystem.DvbC,
     DigitalServiceBroadcastSystem.DvbS, DigitalServiceBroadcastSystem.DvbS2,
     DigitalServiceBroadcastSystem.DvbT]"

interpretation DigitalServiceBroadcastSystem: byte_enum "''DigitalServiceBroadcastSystem''" DigitalServiceBroadcastSystem_variants DigitalServiceBroadcastSystem_into
  by (unfold_locales, simp add: DigitalServiceBroadcastSystem_variants_def, induct_tac x) (simp_all add: DigitalServiceBroadcastSystem_variants_def)

abbreviation "DigitalServiceBroadcastSystem_to_bytes \<equiv> enum_to_bytes DigitalServiceBroadcastSystem_into"
abbreviation "DigitalServiceBroadcastSystem_try_from_bytes \<equiv>
  enum_try_from_bytes ''DigitalServiceBroadcastSystem'' DigitalServiceBroadcastSystem_variants DigitalServiceBroadcastSystem_into"

datatype DisplayControl =
  Default | UntilCleared | Clear

primrec DisplayControl_into :: "DisplayControl \<Rightarrow> u8" where
  "DisplayControl_into DisplayControl.Default = 0" |
  "DisplayControl_into DisplayControl.UntilCleared = 0x40" |
  "DisplayControl_into DisplayControl.Clear = 0x80"

definition DisplayControl_variants :: "DisplayControl list" where
  "DisplayControl_variants =
    [DisplayControl.Default, DisplayControl.UntilCleared, DisplayControl.Clear]"

interpretation DisplayControl: byte_enum "''DisplayControl''" DisplayControl_variants DisplayControl_into
  by (unfold_locales, simp add: DisplayControl_variants_def, induct_tac x) (simp_all add: DisplayControl_variants_def)

abbreviation "DisplayControl_to_bytes \<equiv> enum_to_bytes DisplayControl_into"
abbreviation "DisplayControl_try_from_bytes \<equiv>
  enum_try_from_bytes ''DisplayControl'' DisplayControl_variants DisplayControl_into"

datatype ExternalSourceSpecifier =
  ExternalPlug | ExternalPhysicalAddress

primrec ExternalSourceSpecifier_into :: "ExternalSourceSpecifier \<Rightarrow> u8" where
  "ExternalSourceSpecifier_into ExternalSourceSpecifier.ExternalPlug = 4" |
  "ExternalSourceSpecifier_into ExternalSourceSpecifier.ExternalPhysicalAddress = 5"

definition ExternalSourceSpecifier_variants :: "ExternalSourceSpecifier list" where
  "ExternalSourceSpecifier_variants =
    [ExternalSourceSpecifier.ExternalPlug, ExternalSourceSpecifier.ExternalPhysicalAddress]"

interpretation ExternalSourceSpecifier: byte_enum "''ExternalSourceSpecifier''" ExternalSourceSpecifier_variants ExternalSourceSpecifier_into
  by (unfold_locales, simp add: ExternalSourceSpecifier_variants_def, induct_tac x) (simp_all add: ExternalSourceSpecifier_variants_def)

abbreviation "ExternalSourceSpecifier_to_bytes \<equiv> enum_to_bytes ExternalSourceSpecifier_into"
abbreviation "ExternalSourceSpecifier_try_from_bytes \<equiv>
  enum_try_from_bytes ''ExternalSourceSpecifier'' ExternalSourceSpecifier_variants ExternalSourceSpecifier_into"

datatype MediaInfo =
  UnprotectedMedia | ProtectedMedia | NoMedia

primrec MediaInfo_into :: "MediaInfo \<Rightarrow> u8" where
  "MediaInfo_into MediaInfo.UnprotectedMedia = 0" |
  "MediaInfo_into MediaInfo.ProtectedMedia = 1" |
  "MediaInfo_into MediaInfo.NoMedia = 2"

definition MediaInfo_variants :: "MediaInfo list" where
  "MediaInfo_variants =
    [MediaInfo.UnprotectedMedia, MediaInfo.ProtectedMedia, MediaInfo.NoMedia]"

interpretation MediaInfo: byte_enum "''MediaInfo''" MediaInfo_variants MediaInfo_into
  by (unfold_locales, simp add: MediaInfo_variants_def, induct_tac x) (simp_all add: MediaInfo_variants_def)

abbreviation "MediaInfo_to_bytes \<equiv> enum_to_bytes MediaInfo_into"
abbreviation "MediaInfo_try_from_bytes \<equiv>
  enum_try_from_bytes ''MediaInfo'' MediaInfo_variants MediaInfo_into"

datatype MenuRequestType =
  Activate | Deactivate | Query

primrec MenuRequestType_into :: "MenuRequestType \<Rightarrow> u8" where
  "MenuRequestType_into MenuRequestType.Activate = 0" |
  "MenuRequestType_into MenuRequestType.Deactivate = 1" |
  "MenuRequestType_into MenuRequestType.Query = 2"

definition MenuRequestType_variants :: "MenuRequestType list" where
  "MenuRequestType_variants =
    [MenuRequestType.Activate, MenuRequestType.Deactivate, MenuRequestType.Query]"

interpretation MenuRequestType: byte_enum "''MenuRequestType''" MenuRequestType_variants MenuRequestType_into
  by (unfold_locales, simp add: MenuRequestType_variants_def, induct_tac x) (simp_all add: MenuRequestType_variants_def)

abbreviation "MenuRequestType_to_bytes \<equiv> enum_to_bytes MenuRequestType_into"
abbreviation "MenuRequestType_try_from_bytes \<equiv>
  enum_try_from_bytes ''MenuRequestType'' MenuRequestType_variants MenuRequestType_into"

datatype MenuState =
  Activated | Deactivated

primrec MenuState_into :: "MenuState \<Rightarrow> u8" where
  "MenuState_into MenuState.Activated = 0" |
  "MenuState_into MenuState.Deactivated = 1"

definition MenuState_variants :: "MenuState list" where
  "MenuState_variants =
    [MenuState.Activated, MenuState.Deactivated]"

interpretation MenuState: byte_enum "''MenuState''" MenuState_variants MenuState_into
  by (unfold_locales, simp add: MenuState_variants_def, induct_tac x) (simp_all add: MenuState_variants_def)

abbreviation "MenuState_to_bytes \<equiv> enum_to_bytes MenuState_into"
abbreviation "MenuState_try_from_bytes \<equiv>
  enum_try_from_bytes ''MenuState'' MenuState_variants MenuState_into"

datatype MonthOfYear =
  January | February | March | April | May | June | July | August | September | October |
  November | December

primrec MonthOfYear_into :: "MonthOfYear \<Rightarrow> u8" where
  "MonthOfYear_into MonthOfYear.January = 1" |
  "MonthOfYear_into MonthOfYear.February = 2" |
  "MonthOfYear_into MonthOfYear.March = 3" |
  "MonthOfYear_into MonthOfYear.April = 4" |
  "MonthOfYear_into MonthOfYear.May = 5" |
  "MonthOfYear_into MonthOfYear.June = 6" |
  "MonthOfYear_into MonthOfYear.July = 7" |
  "MonthOfYear_into MonthOfYear.August = 8" |
  "MonthOfYear_into MonthOfYear.September = 9" |
  "MonthOfYear_into MonthOfYear.October = 0x0A" |
  "MonthOfYear_into MonthOfYear.November = 0x0B" |
  "MonthOfYear_into MonthOfYear.December = 0x0C"

definition MonthOfYear_variants :: "MonthOfYear list" where
  "MonthOfYear_variants =
    [MonthOfYear.January, MonthOfYear.February, MonthOfYear.March, MonthOfYear.April,
     MonthOfYear.May, MonthOfYear.June, MonthOfYear.July, MonthOfYear.August,
     MonthOfYear.September, MonthOfYear.October, MonthOfYear.November, MonthOfYear.December]"

interpretation MonthOfYear: byte_enum "''MonthOfYear''" MonthOfYear_variants MonthOfYear_into
  by (unfold_locales, simp add: MonthOfYear_variants_def, induct_tac x) (simp_all add: MonthOfYear_variants_def)

abbreviation "MonthOfYear_to_bytes \<equiv> enum_to_bytes MonthOfYear_into"
abbreviation "MonthOfYear_try_from_bytes \<equiv>
  enum_try_from_bytes ''MonthOfYear'' MonthOfYear_variants MonthOfYear_into"

datatype PlayMode =
  Forward | Reverse | Still | FastForwardMinimum | FastForwardMedium | FastForwardMaximum |
  FastReverseMinimum | FastReverseMedium | FastReverseMaximum | SlowForwardMinimum |
  SlowForwardMedium | SlowForwardMaximum | SlowReverseMinimum | SlowReverseMedium |
  SlowReverseMaximum

primrec PlayMode_into :: "PlayMode \<Rightarrow> u8" where
  "PlayMode_into PlayMode.Forward = 0x24" |
  "PlayMode_into PlayMode.Reverse = 0x20" |
  "PlayMode_into PlayMode.Still = 0x25" |
  "PlayMode_into PlayMode.FastForwardMinimum = 5" |
  "PlayMode_into PlayMode.FastForwardMedium = 6" |
  "PlayMode_into PlayMode.FastForwardMaximum = 7" |
  "PlayMode_into PlayMode.FastReverseMinimum = 9" |
  "PlayMode_into PlayMode.FastReverseMedium = 0x0A" |
  "PlayMode_into PlayMode.FastReverseMaximum = 0x0B" |
  "PlayMode_into PlayMode.SlowForwardMinimum = 0x15" |
  "PlayMode_into PlayMode.SlowForwardMedium = 0x16" |
  "PlayMode_into PlayMode.SlowForwardMaximum = 0x17" |
  "PlayMode_into PlayMode.SlowReverseMinimum = 0x19" |
  "PlayMode_into PlayMode.SlowReverseMedium = 0x1A" |
  "PlayMode_into PlayMode.SlowReverseMaximum = 0x1B"

definition PlayMode_variants :: "PlayMode list" where
  "PlayMode_variants =
    [PlayMode.Forward, PlayMode.Reverse, PlayMode.Still, PlayMode.FastForwardMinimum,
     PlayMode.FastForwardMedium, PlayMode.FastForwardMaximum, PlayMode.FastReverseMinimum,
     PlayMode.FastReverseMedium, PlayMode.FastReverseMaximum, PlayMode.SlowForwardMinimum,
     PlayMode.SlowForwardMedium, PlayMode.SlowForwardMaximum, PlayMode.SlowReverseMinimum,
     PlayMode.SlowReverseMedium, PlayMode.SlowReverseMaximum]"

interpretation PlayMode: byte_enum "''PlayMode''" PlayMode_variants PlayMode_into
  by (unfold_locales, simp add: PlayMode_variants_def, induct_tac x) (simp_all add: PlayMode_variants_def)

abbreviation "PlayMode_to_bytes \<equiv> enum_to_bytes PlayMode_into"
abbreviation "PlayMode_try_from_bytes \<equiv>
  enum_try_from_bytes ''PlayMode'' PlayMode_variants PlayMode_into"

datatype PowerStatus =
  On | Standby | ToOn | ToStandby

primrec PowerStatus_into :: "PowerStatus \<Rightarrow> u8" where
  "PowerStatus_into PowerStatus.On = 0" |
  "PowerStatus_into PowerStatus.Standby = 1" |
  "PowerStatus_into PowerStatus.ToOn = 2" |
  "PowerStatus_into PowerStatus.ToStandby = 3"

definition PowerStatus_variants :: "PowerStatus list" where
  "PowerStatus_variants =
    [PowerStatus.On, PowerStatus.Standby, PowerStatus.ToOn, PowerStatus.ToStandby]"

interpretation PowerStatus: byte_enum "''PowerStatus''" PowerStatus_variants PowerStatus_into
  by (unfold_locales, simp add: PowerStatus_variants_def, induct_tac x) (simp_all add: PowerStatus_variants_def)

abbreviation "PowerStatus_to_bytes \<equiv> enum_to_bytes PowerStatus_into"
abbreviation "PowerStatus_try_from_bytes \<equiv>
  enum_try_from_bytes ''PowerStatus'' PowerStatus_variants PowerStatus_into"

datatype PrimaryDeviceType =
  Tv | Recording | Tuner | Playback | Audio | Switch | Processor

primrec PrimaryDeviceType_into :: "PrimaryDeviceType \<Rightarrow> u8" where
  "PrimaryDeviceType_into PrimaryDeviceType.Tv = 0" |
  "PrimaryDeviceType_into PrimaryDeviceType.Recording = 1" |
  "PrimaryDeviceType_into PrimaryDeviceType.Tuner = 3" |
  "PrimaryDeviceType_into PrimaryDeviceType.Playback = 4" |
  "PrimaryDeviceType_into PrimaryDeviceType.Audio = 5" |
  "PrimaryDeviceType_into PrimaryDeviceType.Switch = 6" |
  "PrimaryDeviceType_into PrimaryDeviceType.Processor = 7"

definition PrimaryDeviceType_variants :: "PrimaryDeviceType list" where
  "PrimaryDeviceType_variants =
    [PrimaryDeviceType.Tv, PrimaryDeviceType.Recording, PrimaryDeviceType.Tuner,
     PrimaryDeviceType.Playback, PrimaryDeviceType.Audio, PrimaryDeviceType.Switch,
     PrimaryDeviceType.Processor]"

interpretation PrimaryDeviceType: byte_enum "''PrimaryDeviceType''" PrimaryDeviceType_variants PrimaryDeviceType_into
  by (unfold_locales, simp add: PrimaryDeviceType_variants_def, induct_tac x) (simp_all add: PrimaryDeviceType_variants_def)

abbreviation "PrimaryDeviceType_to_bytes \<equiv> enum_to_bytes PrimaryDeviceType_into"
abbreviation "PrimaryDeviceType_try_from_bytes \<equiv>
  enum_try_from_bytes ''PrimaryDeviceType'' PrimaryDeviceType_variants PrimaryDeviceType_into"

datatype RecordSourceType =
  Own | Digital | Analogue | ExternalPlug | ExternalPhysicalAddress

primrec RecordSourceType_into :: "RecordSourceType \<Rightarrow> u8" where
  "RecordSourceType_into RecordSourceType.Own = 1" |
  "RecordSourceType_into RecordSourceType.Digital = 2" |
  "RecordSourceType_into RecordSourceType.Analogue = 3" |
  "RecordSourceType_into RecordSourceType.ExternalPlug = 4" |
  "RecordSourceType_into RecordSourceType.ExternalPhysicalAddress = 5"

definition RecordSourceType_variants :: "RecordSourceType list" where
  "RecordSourceType_variants =
    [RecordSourceType.Own, RecordSourceType.Digital, RecordSourceType.Analogue,
     RecordSourceType.ExternalPlug, RecordSourceType.ExternalPhysicalAddress]"

interpretation RecordSourceType: byte_enum "''RecordSourceType''" RecordSourceType_variants RecordSourceType_into
  by (unfold_locales, simp add: RecordSourceType_variants_def, induct_tac x) (simp_all add: RecordSourceType_variants_def)

abbreviation "RecordSourceType_to_bytes \<equiv> enum_to_bytes RecordSourceType_into"
abbreviation "RecordSourceType_try_from_bytes \<equiv>
  enum_try_from_bytes ''RecordSourceType'' RecordSourceType_variants RecordSourceType_into"

datatype (plugins only: code size) RecordStatusInfo =
  CurrentSource | DigitalService | AnalogueService | ExternalInput | NoDigitalService |
  NoAnalogueService | NoService | InvalidExternalPlug | InvalidExternalPhysicalAddress |
  CaUnsupported | InsufficientCaEntitlements | DisallowedCopySource | NoFurtherCopies |
  NoMedia | Playing | AlreadyRecording | MediaProtected | NoSignal | MediaProblem |
  NotEnoughSpace | ParentalLock | TerminatedOk | AlreadyTerminated | Other

primrec RecordStatusInfo_into :: "RecordStatusInfo \<Rightarrow> u8" where
  "RecordStatusInfo_into RecordStatusInfo.CurrentSource = 1" |
  "RecordStatusInfo_into RecordStatusInfo.DigitalService = 2" |
  "RecordStatusInfo_into RecordStatusInfo.AnalogueService = 3" |
  "RecordStatusInfo_into RecordStatusInfo.ExternalInput = 4" |
  "RecordStatusInfo_into RecordStatusInfo.NoDigitalService = 5" |
  "RecordStatusInfo_into RecordStatusInfo.NoAnalogueService = 6" |
  "RecordStatusInfo_into RecordStatusInfo.NoService = 7" |
  "RecordStatusInfo_into RecordStatusInfo.InvalidExternalPlug = 9" |
  "RecordStatusInfo_into RecordStatusInfo.InvalidExternalPhysicalAddress = 0x0A" |
  "RecordStatusInfo_into RecordStatusInfo.CaUnsupported = 0x0B" |
  "RecordStatusInfo_into RecordStatusInfo.InsufficientCaEntitlements = 0x0C" |
  "RecordStatusInfo_into RecordStatusInfo.DisallowedCopySource = 0x0D" |
  "RecordStatusInfo_into RecordStatusInfo.NoFurtherCopies = 0x0E" |
  "RecordStatusInfo_into RecordStatusInfo.NoMedia = 0x10" |
  "RecordStatusInfo_into RecordStatusInfo.Playing = 0x11" |
  "RecordStatusInfo_into RecordStatusInfo.AlreadyRecording = 0x12" |
  "RecordStatusInfo_into RecordStatusInfo.MediaProtected = 0x13" |
  "RecordStatusInfo_into RecordStatusInfo.NoSignal = 0x14" |
  "RecordStatusInfo_into RecordStatusInfo.MediaProblem = 0x15" |
  "RecordStatusInfo_into RecordStatusInfo.NotEnoughSpace = 0x16" |
  "RecordStatusInfo_into RecordStatusInfo.ParentalLock = 0x17" |
  "RecordStatusInfo_into RecordStatusInfo.TerminatedOk = 0x1A" |
  "RecordStatusInfo_into RecordStatusInfo.AlreadyTerminated = 0x1B" |
  "RecordStatusInfo_into RecordStatusInfo.Other = 0x1F"

definition RecordStatusInfo_variants :: "RecordStatusInfo list" where
  "RecordStatusInfo_variants =
    [RecordStatusInfo.CurrentSource, RecordStatusInfo.DigitalService,
     RecordStatusInfo.AnalogueService, RecordStatusInfo.ExternalInput,
     RecordStatusInfo.NoDigitalService, RecordStatusInfo.NoAnalogueService,
     RecordStatusInfo.NoService, RecordStatusInfo.InvalidExternalPlug,
     RecordStatusInfo.InvalidExternalPhysicalAddress, RecordStatusInfo.CaUnsupported,
     RecordStatusInfo.InsufficientCaEntitlements, RecordStatusInfo.DisallowedCopySource,
     RecordStatusInfo.NoFurtherCopies, RecordStatusInfo.NoMedia, RecordStatusInfo.Playing,
     RecordStatusInfo.AlreadyRecording, RecordStatusInfo.MediaProtected,
     RecordStatusInfo.NoSignal, RecordStatusInfo.MediaProblem,
     RecordStatusInfo.NotEnoughSpace, RecordStatusInfo.ParentalLock,
     RecordStatusInfo.TerminatedOk, RecordStatusInfo.AlreadyTerminated, RecordStatusInfo.Other]"

interpretation RecordStatusInfo: byte_enum "''RecordStatusInfo''" RecordStatusInfo_variants RecordStatusInfo_into
  by (unfold_locales, simp add: RecordStatusInfo_variants_def, induct_tac x) (simp_all add: RecordStatusInfo_variants_def)

abbreviation "RecordStatusInfo_to_bytes \<equiv> enum_to_bytes RecordStatusInfo_into"
abbreviation "RecordStatusInfo_try_from_bytes \<equiv>
  enum_try_from_bytes ''RecordStatusInfo'' RecordStatusInfo_variants RecordStatusInfo_into"

datatype RcProfileId =
  ProfileNone | Profile1 | Profile2 | Profile3 | Profile4

primrec RcProfileId_into :: "RcProfileId \<Rightarrow> u8" where
  "RcProfileId_into RcProfileId.ProfileNone = 0" |
  "RcProfileId_into RcProfileId.Profile1 = 2" |
  "RcProfileId_into RcProfileId.Profile2 = 6" |
  "RcProfileId_into RcProfileId.Profile3 = 0x0A" |
  "RcProfileId_into RcProfileId.Profile4 = 0x0E"

definition RcProfileId_variants :: "RcProfileId list" where
  "RcProfileId_variants =
    [RcProfileId.ProfileNone, RcProfileId.Profile1, RcProfileId.Profile2,
     RcProfileId.Profile3, RcProfileId.Profile4]"

interpretation RcProfileId: byte_enum "''RcProfileId''" RcProfileId_variants RcProfileId_into
  by (unfold_locales, simp add: RcProfileId_variants_def, induct_tac x) (simp_all add: RcProfileId_variants_def)

abbreviation "RcProfileId_to_bytes \<equiv> enum_to_bytes RcProfileId_into"
abbreviation "RcProfileId_try_from_bytes \<equiv>
  enum_try_from_bytes ''RcProfileId'' RcProfileId_variants RcProfileId_into"

datatype StatusRequest =
  On | Off | Once

primrec StatusRequest_into :: "StatusRequest \<Rightarrow> u8" where
  "StatusRequest_into StatusRequest.On = 1" |
  "StatusRequest_into StatusRequest.Off = 2" |
  "StatusRequest_into StatusRequest.Once = 3"

definition StatusRequest_variants :: "StatusRequest list" where
  "StatusRequest_variants =
    [StatusRequest.On, StatusRequest.Off, StatusRequest.Once]"

interpretation StatusRequest: byte_enum "''StatusRequest''" StatusRequest_variants StatusRequest_into
  by (unfold_locales, simp add: StatusRequest_variants_def, induct_tac x) (simp_all add: StatusRequest_variants_def)

abbreviation "StatusRequest_to_bytes \<equiv> enum_to_bytes StatusRequest_into"
abbreviation "StatusRequest_try_from_bytes \<equiv>
  enum_try_from_bytes ''StatusRequest'' StatusRequest_variants StatusRequest_into"

datatype TimerClearedStatusData =
  Recording | NoMatching | NoInfo | Cleared

primrec TimerClearedStatusData_into :: "TimerClearedStatusData \<Rightarrow> u8" where
  "TimerClearedStatusData_into TimerClearedStatusData.Recording = 0" |
  "TimerClearedStatusData_into TimerClearedStatusData.NoMatching = 1" |
  "TimerClearedStatusData_into TimerClearedStatusData.NoInfo = 2" |
  "TimerClearedStatusData_into TimerClearedStatusData.Cleared = 0x80"

definition TimerClearedStatusData_variants :: "TimerClearedStatusData list" where
  "TimerClearedStatusData_variants =
    [TimerClearedStatusData.Recording, TimerClearedStatusData.NoMatching,
     TimerClearedStatusData.NoInfo, TimerClearedStatusData.Cleared]"

interpretation TimerClearedStatusData: byte_enum "''TimerClearedStatusData''" TimerClearedStatusData_variants TimerClearedStatusData_into
  by (unfold_locales, simp add: TimerClearedStatusData_variants_def, induct_tac x) (simp_all add: TimerClearedStatusData_variants_def)

abbreviation "TimerClearedStatusData_to_bytes \<equiv> enum_to_bytes TimerClearedStatusData_into"
abbreviation "TimerClearedStatusData_try_from_bytes \<equiv>
  enum_try_from_bytes ''TimerClearedStatusData'' TimerClearedStatusData_variants TimerClearedStatusData_into"

datatype TunerDisplayInfo =
  Digital | NoneInfo | Analogue

primrec TunerDisplayInfo_into :: "TunerDisplayInfo \<Rightarrow> u8" where
  "TunerDisplayInfo_into TunerDisplayInfo.Digital = 0" |
  "TunerDisplayInfo_into TunerDisplayInfo.NoneInfo = 1" |
  "TunerDisplayInfo_into TunerDisplayInfo.Analogue = 2"

definition TunerDisplayInfo_variants :: "TunerDisplayInfo list" where
  "TunerDisplayInfo_variants =
    [TunerDisplayInfo.Digital, TunerDisplayInfo.NoneInfo, TunerDisplayInfo.Analogue]"

interpretation TunerDisplayInfo: byte_enum "''TunerDisplayInfo''" TunerDisplayInfo_variants TunerDisplayInfo_into
  by (unfold_locales, simp add: TunerDisplayInfo_variants_def, induct_tac x) (simp_all add: TunerDisplayInfo_variants_def)

abbreviation "TunerDisplayInfo_to_bytes \<equiv> enum_to_bytes TunerDisplayInfo_into"
abbreviation "TunerDisplayInfo_try_from_bytes \<equiv>
  enum_try_from_bytes ''TunerDisplayInfo'' TunerDisplayInfo_variants TunerDisplayInfo_into"

datatype UiBroadcastType =
  ToggleAll | ToggleDigitalAnalogue | Analogue | AnalogueTerrestrial | AnalogueCable |
  AnalogueSatellite | Digital | DigitalTerrestrial | DigitalCable | DigitalSatellite |
  DigitalCommsSatellite | DigitalCommsSatellite2 | Ip

primrec UiBroadcastType_into :: "UiBroadcastType \<Rightarrow> u8" where
  "UiBroadcastType_into UiBroadcastType.ToggleAll = 0" |
  "UiBroadcastType_into UiBroadcastType.ToggleDigitalAnalogue = 1" |
  "UiBroadcastType_into UiBroadcastType.Analogue = 0x10" |
  "UiBroadcastType_into UiBroadcastType.AnalogueTerrestrial = 0x20" |
  "UiBroadcastType_into UiBroadcastType.AnalogueCable = 0x30" |
  "UiBroadcastType_into UiBroadcastType.AnalogueSatellite = 0x40" |
  "UiBroadcastType_into UiBroadcastType.Digital = 0x50" |
  "UiBroadcastType_into UiBroadcastType.DigitalTerrestrial = 0x60" |
  "UiBroadcastType_into UiBroadcastType.DigitalCable = 0x70" |
  "UiBroadcastType_into UiBroadcastType.DigitalSatellite = 0x80" |
  "UiBroadcastType_into UiBroadcastType.DigitalCommsSatellite = 0x90" |
  "UiBroadcastType_into UiBroadcastType.DigitalCommsSatellite2 = 0x91" |
  "UiBroadcastType_into UiBroadcastType.Ip = 0xA0"

definition UiBroadcastType_variants :: "UiBroadcastType list" where
  "UiBroadcastType_variants =
    [UiBroadcastType.ToggleAll, UiBroadcastType.ToggleDigitalAnalogue,
     UiBroadcastType.Analogue, UiBroadcastType.AnalogueTerrestrial,
     UiBroadcastType.AnalogueCable, UiBroadcastType.AnalogueSatellite,
     UiBroadcastType.Digital, UiBroadcastType.DigitalTerrestrial,
     UiBroadcastType.DigitalCable, UiBroadcastType.DigitalSatellite,
     UiBroadcastType.DigitalCommsSatellite, UiBroadcastType.DigitalCommsSatellite2,
     UiBroadcastType.Ip]"

interpretation UiBroadcastType: byte_enum "''UiBroadcastType''" UiBroadcastType_variants UiBroadcastType_into
  by (unfold_locales, simp add: UiBroadcastType_variants_def, induct_tac x) (simp_all add: UiBroadcastType_variants_def)

abbreviation "UiBroadcastType_to_bytes \<equiv> enum_to_bytes UiBroadcastType_into"
abbreviation "UiBroadcastType_try_from_bytes \<equiv>
  enum_try_from_bytes ''UiBroadcastType'' UiBroadcastType_variants UiBroadcastType_into"

datatype Version =
  V1_1 | V1_2 | V1_2a | V1_3 | V1_3a | V1_4 | V2_0

primrec Version_into :: "Version \<Rightarrow> u8" where
  "Version_into Version.V1_1 = 0" |
  "Version_into Version.V1_2 = 1" |
  "Version_into Version.V1_2a = 2" |
  "Version_into Version.V1_3 = 3" |
  "Version_into Version.V1_3a = 4" |
  "Version_into Version.V1_4 = 5" |
  "Version_into Version.V2_0 = 6"

definition Version_variants :: "Version list" where
  "Version_variants =
    [Version.V1_1, Version.V1_2, Version.V1_2a, Version.V1_3, Version.V1_3a, Version.V1_4,
     Version.V2_0]"

interpretation Version: byte_enum "''Version''" Version_variants Version_into
  by (unfold_locales, simp add: Version_variants_def, induct_tac x) (simp_all add: Version_variants_def)

abbreviation "Version_to_bytes \<equiv> enum_to_bytes Version_into"
abbreviation "Version_try_from_bytes \<equiv>
  enum_try_from_bytes ''Version'' Version_variants Version_into"

datatype UiSoundPresentationControl =
  DualMono | Karaoke | Downmix | Reverb | Equalizer | BassUp | BassNeutral | BassDown |
  TrebleUp | TrebleNeutral | TrebleDown

primrec UiSoundPresentationControl_into :: "UiSoundPresentationControl \<Rightarrow> u8" where
  "UiSoundPresentationControl_into UiSoundPresentationControl.DualMono = 0x10" |
  "UiSoundPresentationControl_into UiSoundPresentationControl.Karaoke = 0x20" |
  "UiSoundPresentationControl_into UiSoundPresentationControl.Downmix = 0x80" |
  "UiSoundPresentationControl_into UiSoundPresentationControl.Reverb = 0x90" |
  "UiSoundPresentationControl_into UiSoundPresentationControl.Equalizer = 0xA0" |
  "UiSoundPresentationControl_into UiSoundPresentationControl.BassUp = 0xB1" |
  "UiSoundPresentationControl_into UiSoundPresentationControl.BassNeutral = 0xB2" |
  "UiSoundPresentationControl_into UiSoundPresentationControl.BassDown = 0xB3" |
  "UiSoundPresentationControl_into UiSoundPresentationControl.TrebleUp = 0xC1" |
  "UiSoundPresentationControl_into UiSoundPresentationControl.TrebleNeutral = 0xC2" |
  "UiSoundPresentationControl_into UiSoundPresentationControl.TrebleDown = 0xC3"

definition UiSoundPresentationControl_variants :: "UiSoundPresentationControl list" where
  "UiSoundPresentationControl_variants =
    [UiSoundPresentationControl.DualMono, UiSoundPresentationControl.Karaoke,
     UiSoundPresentationControl.Downmix, UiSoundPresentationControl.Reverb,
     UiSoundPresentationControl.Equalizer, UiSoundPresentationControl.BassUp,
     UiSoundPresentationControl.BassNeutral, UiSoundPresentationControl.BassDown,
     UiSoundPresentationControl.TrebleUp, UiSoundPresentationControl.TrebleNeutral,
     UiSoundPresentationControl.TrebleDown]"

interpretation UiSoundPresentationControl: byte_enum "''UiSoundPresentationControl''" UiSoundPresentationControl_variants UiSoundPresentationControl_into
  by (unfold_locales, simp add: UiSoundPresentationControl_variants_def, induct_tac x) (simp_all add: UiSoundPresentationControl_variants_def)

abbreviation "UiSoundPresentationControl_to_bytes \<equiv> enum_to_bytes UiSoundPresentationControl_into"
abbreviation "UiSoundPresentationControl_try_from_bytes \<equiv>
  enum_try_from_bytes ''UiSoundPresentationControl'' UiSoundPresentationControl_variants UiSoundPresentationControl_into"

text \<open>Two enums that are private to the module and have no codec of their own.\<close>

datatype ChannelNumberFormat =
  Fmt1Part | Fmt2Part

primrec ChannelNumberFormat_into :: "ChannelNumberFormat \<Rightarrow> u8" where
  "ChannelNumberFormat_into ChannelNumberFormat.Fmt1Part = 1" |
  "ChannelNumberFormat_into ChannelNumberFormat.Fmt2Part = 2"

definition ChannelNumberFormat_variants :: "ChannelNumberFormat list" where
  "ChannelNumberFormat_variants =
    [ChannelNumberFormat.Fmt1Part, ChannelNumberFormat.Fmt2Part]"

interpretation ChannelNumberFormat: byte_enum "''ChannelNumberFormat''" ChannelNumberFormat_variants ChannelNumberFormat_into
  by (unfold_locales, simp add: ChannelNumberFormat_variants_def, induct_tac x) (simp_all add: ChannelNumberFormat_variants_def)

abbreviation "ChannelNumberFormat_try_from \<equiv> try_from_primitive ''ChannelNumberFormat'' ChannelNumberFormat_variants ChannelNumberFormat_into"

datatype ServiceIdMethod =
  ByDigitalId | ByChannel

primrec ServiceIdMethod_into :: "ServiceIdMethod \<Rightarrow> u8" where
  "ServiceIdMethod_into ServiceIdMethod.ByDigitalId = 0" |
  "ServiceIdMethod_into ServiceIdMethod.ByChannel = 1"

definition ServiceIdMethod_variants :: "ServiceIdMethod list" where
  "ServiceIdMethod_variants =
    [ServiceIdMethod.ByDigitalId, ServiceIdMethod.ByChannel]"

interpretation ServiceIdMethod: byte_enum "''ServiceIdMethod''" ServiceIdMethod_variants ServiceIdMethod_into
  by (unfold_locales, simp add: ServiceIdMethod_variants_def, induct_tac x) (simp_all add: ServiceIdMethod_variants_def)

abbreviation "ServiceIdMethod_try_from \<equiv> try_from_primitive ''ServiceIdMethod'' ServiceIdMethod_variants ServiceIdMethod_into"

text \<open>The derived orders on days and months compare the variants by position.\<close>

instantiation DayOfMonth :: linorder
begin

definition less_eq_DayOfMonth :: "DayOfMonth \<Rightarrow> DayOfMonth \<Rightarrow> bool" where
  "less_eq_DayOfMonth x y \<longleftrightarrow> DayOfMonth_into x \<le> DayOfMonth_into y"

definition less_DayOfMonth :: "DayOfMonth \<Rightarrow> DayOfMonth \<Rightarrow> bool" where
  "less_DayOfMonth x y \<longleftrightarrow> DayOfMonth_into x < DayOfMonth_into y"

instance
  by standard (auto simp: less_eq_DayOfMonth_def less_DayOfMonth_def intro: DayOfMonth.into_inj)

end

instantiation MonthOfYear :: linorder
begin

definition less_eq_MonthOfYear :: "MonthOfYear \<Rightarrow> MonthOfYear \<Rightarrow> bool" where
  "less_eq_MonthOfYear x y \<longleftrightarrow> MonthOfYear_into x \<le> MonthOfYear_into y"

definition less_MonthOfYear :: "MonthOfYear \<Rightarrow> MonthOfYear \<Rightarrow> bool" where
  "less_MonthOfYear x y \<longleftrightarrow> MonthOfYear_into x < MonthOfYear_into y"

instance
  by standard (auto simp: less_eq_MonthOfYear_def less_MonthOfYear_def intro: MonthOfYear.into_inj)

end

section \<open>Sets of flags\<close>

text \<open>
  A \<open>bitflags!\<close> type is a struct around its bits. \<open>from_bits_retain\<close> is the constructor;
  \<open>contains\<close>, \<open>|\<close> and \<open>is_empty\<close> work on the bits.
\<close>

datatype AllDeviceTypes = AllDeviceTypes (AllDeviceTypes_bits: u8)

definition AllDeviceTypes_TV :: AllDeviceTypes where
  "AllDeviceTypes_TV = AllDeviceTypes 0x80"

definition AllDeviceTypes_RECORDING :: AllDeviceTypes where
  "AllDeviceTypes_RECORDING = AllDeviceTypes 0x40"

definition AllDeviceTypes_TUNER :: AllDeviceTypes where
  "AllDeviceTypes_TUNER = AllDeviceTypes 0x20"

definition AllDeviceTypes_PLAYBACK :: AllDeviceTypes where
  "AllDeviceTypes_PLAYBACK = AllDeviceTypes 0x10"

definition AllDeviceTypes_AUDIOSYSTEM :: AllDeviceTypes where
  "AllDeviceTypes_AUDIOSYSTEM = AllDeviceTypes 8"

definition AllDeviceTypes_SWITCH :: AllDeviceTypes where
  "AllDeviceTypes_SWITCH = AllDeviceTypes 4"

interpretation AllDeviceTypes: byte_struct AllDeviceTypes_bits AllDeviceTypes
  by unfold_locales simp_all

abbreviation "AllDeviceTypes_to_bytes \<equiv> bits_to_bytes AllDeviceTypes_bits"
abbreviation "AllDeviceTypes_try_from_bytes \<equiv> bits_try_from_bytes AllDeviceTypes"

datatype DeviceFeatures1 = DeviceFeatures1 (DeviceFeatures1_bits: u8)

definition DeviceFeatures1_HAS_RECORD_TV_SCREEN :: DeviceFeatures1 where
  "DeviceFeatures1_HAS_RECORD_TV_SCREEN = DeviceFeatures1 0x40"

definition DeviceFeatures1_HAS_SET_OSD_STRING :: DeviceFeatures1 where
  "DeviceFeatures1_HAS_SET_OSD_STRING = DeviceFeatures1 0x20"

definition DeviceFeatures1_HAS_DECK_CONTROL :: DeviceFeatures1 where
  "DeviceFeatures1_HAS_DECK_CONTROL = DeviceFeatures1 0x10"

definition DeviceFeatures1_HAS_SET_AUDIO_RATE :: DeviceFeatures1 where
  "DeviceFeatures1_HAS_SET_AUDIO_RATE = DeviceFeatures1 8"

definition DeviceFeatures1_SINK_HAS_ARC_TX :: DeviceFeatures1 where
  "DeviceFeatures1_SINK_HAS_ARC_TX = DeviceFeatures1 4"

definition DeviceFeatures1_SOURCE_HAS_ARC_RX :: DeviceFeatures1 where
  "DeviceFeatures1_SOURCE_HAS_ARC_RX = DeviceFeatures1 2"

definition DeviceFeatures1_HAS_SET_AUDIO_VOLUME_LEVEL :: DeviceFeatures1 where
  "DeviceFeatures1_HAS_SET_AUDIO_VOLUME_LEVEL = DeviceFeatures1 1"

interpretation DeviceFeatures1: byte_struct DeviceFeatures1_bits DeviceFeatures1
  by unfold_locales simp_all

abbreviation "DeviceFeatures1_to_bytes \<equiv> bits_to_bytes DeviceFeatures1_bits"
abbreviation "DeviceFeatures1_try_from_bytes \<equiv> bits_try_from_bytes DeviceFeatures1"

datatype RcProfileSource = RcProfileSource (RcProfileSource_bits: u8)

definition RcProfileSource_HAS_DEV_ROOT_MENU :: RcProfileSource where
  "RcProfileSource_HAS_DEV_ROOT_MENU = RcProfileSource 0x50"

definition RcProfileSource_HAS_DEV_SETUP_MENU :: RcProfileSource where
  "RcProfileSource_HAS_DEV_SETUP_MENU = RcProfileSource 0x48"

definition RcProfileSource_HAS_CONTENTS_MENU :: RcProfileSource where
  "RcProfileSource_HAS_CONTENTS_MENU = RcProfileSource 0x44"

definition RcProfileSource_HAS_MEDIA_TOP_MENU :: RcProfileSource where
  "RcProfileSource_HAS_MEDIA_TOP_MENU = RcProfileSource 0x42"

definition RcProfileSource_HAS_MEDIA_CONTEXT_MENU :: RcProfileSource where
  "RcProfileSource_HAS_MEDIA_CONTEXT_MENU = RcProfileSource 0x41"

interpretation RcProfileSource: byte_struct RcProfileSource_bits RcProfileSource
  by unfold_locales simp_all

abbreviation "RcProfileSource_to_bytes \<equiv> bits_to_bytes RcProfileSource_bits"
abbreviation "RcProfileSource_try_from_bytes \<equiv> bits_try_from_bytes RcProfileSource"

datatype RecordingSequence = RecordingSequence (RecordingSequence_bits: u8)

definition RecordingSequence_SUNDAY :: RecordingSequence where
  "RecordingSequence_SUNDAY = RecordingSequence 1"

definition RecordingSequence_MONDAY :: RecordingSequence where
  "RecordingSequence_MONDAY = RecordingSequence 2"

definition RecordingSequence_TUESDAY :: RecordingSequence where
  "RecordingSequence_TUESDAY = RecordingSequence 4"

definition RecordingSequence_WEDNESDAY :: RecordingSequence where
  "RecordingSequence_WEDNESDAY = RecordingSequence 8"

definition RecordingSequence_THURSDAY :: RecordingSequence where
  "RecordingSequence_THURSDAY = RecordingSequence 0x10"

definition RecordingSequence_FRIDAY :: RecordingSequence where
  "RecordingSequence_FRIDAY = RecordingSequence 0x20"

definition RecordingSequence_SATURDAY :: RecordingSequence where
  "RecordingSequence_SATURDAY = RecordingSequence 0x40"

interpretation RecordingSequence: byte_struct RecordingSequence_bits RecordingSequence
  by unfold_locales simp_all

abbreviation "RecordingSequence_to_bytes \<equiv> bits_to_bytes RecordingSequence_bits"
abbreviation "RecordingSequence_try_from_bytes \<equiv> bits_try_from_bytes RecordingSequence"

definition RecordingSequence_ONCE_ONLY :: RecordingSequence where
  "RecordingSequence_ONCE_ONLY = RecordingSequence 0"

definition RecordingSequence_is_once_only :: "RecordingSequence \<Rightarrow> bool" where
  "RecordingSequence_is_once_only x \<longleftrightarrow> RecordingSequence_bits x = 0"

text \<open>\<open>From<DeviceFeatures1> for u8\<close> and \<open>TryFrom<u8> for DeviceFeatures1\<close>, the parameter of a tagged buffer.\<close>

definition DeviceFeatures1_into :: "DeviceFeatures1 \<Rightarrow> u8" where
  "DeviceFeatures1_into flags = DeviceFeatures1_bits flags"

definition DeviceFeatures1_try_from :: "u8 \<Rightarrow> DeviceFeatures1 result" where
  "DeviceFeatures1_try_from flags = Ok (DeviceFeatures1 flags)"

section \<open>Bit fields\<close>

text \<open>
  A \<open>#[bitfield(u8)]\<close> struct is a byte whose fields are read and written at fixed positions, the
  first field at the least significant bits. The enums of a field of two bits have \<open>into_bits\<close>
  and \<open>from_bits\<close> from the derive macro \<open>BitfieldSpecifier\<close> of \<open>linux-cec-macros\<close>;
  \<open>bits & ((1 << 2) - 1)\<close> is \<open>bits AND 3\<close>.
\<close>

datatype AudioFormatId = CEA861 | CEA861Cxt | Invalid u8

primrec AudioFormatId_into_bits :: "AudioFormatId \<Rightarrow> u8" where
  "AudioFormatId_into_bits CEA861 = 0" |
  "AudioFormatId_into_bits CEA861Cxt = 1" |
  "AudioFormatId_into_bits (Invalid x) = x"

definition AudioFormatId_from_bits :: "u8 \<Rightarrow> AudioFormatId" where
  "AudioFormatId_from_bits bits =
     (let x = bits AND 3 in
      if x = 0 then CEA861 else if x = 1 then CEA861Cxt else Invalid x)"

datatype AudioOutputCompensated = NotApplicable | Delay | NoDelay | PartialDelay

primrec AudioOutputCompensated_into_bits :: "AudioOutputCompensated \<Rightarrow> u8" where
  "AudioOutputCompensated_into_bits NotApplicable = 0" |
  "AudioOutputCompensated_into_bits AudioOutputCompensated.Delay = 1" |
  "AudioOutputCompensated_into_bits NoDelay = 2" |
  "AudioOutputCompensated_into_bits PartialDelay = 3"

text \<open>The last arm of the generated match is \<open>unreachable!()\<close>; \<^term>\<open>None\<close> stands for it.\<close>

definition AudioOutputCompensated_from_bits :: "u8 \<Rightarrow> AudioOutputCompensated option" where
  "AudioOutputCompensated_from_bits bits =
     (let x = bits AND 3 in
      if x = 0 then Some NotApplicable
      else if x = 1 then Some AudioOutputCompensated.Delay
      else if x = 2 then Some NoDelay
      else if x = 3 then Some PartialDelay
      else None)"

lemma two_bits: "(x :: u8) AND 3 \<in> {0, 1, 2, 3}"
proof -
  have "x AND 3 = x mod 4"
    using take_bit_eq_mod [of 2 x] take_bit_eq_mask [of 2 x] by (simp add: mask_eq_exp_minus_1)
  moreover have "unat (x mod 4) = unat x mod 4"
    by (simp add: unat_mod)
  ultimately have "unat (x AND 3) < 4"
    by simp
  then have "unat (x AND 3) = 0 \<or> unat (x AND 3) = 1 \<or> unat (x AND 3) = 2 \<or> unat (x AND 3) = 3"
    by linarith
  then show ?thesis
    by (simp add: word_unat_eq_iff)
qed

lemma AudioOutputCompensated_from_bits_total: "AudioOutputCompensated_from_bits x \<noteq> None"
  using two_bits [of x] by (auto simp: AudioOutputCompensated_from_bits_def Let_def)

lemma two_bit_codec [simp]:
  "AudioOutputCompensated_from_bits (AudioOutputCompensated_into_bits a) = Some a"
  "AudioFormatId_from_bits (AudioFormatId_into_bits CEA861) = CEA861"
  "AudioFormatId_from_bits (AudioFormatId_into_bits CEA861Cxt) = CEA861Cxt"
  by (cases a; simp add: AudioOutputCompensated_from_bits_def AudioFormatId_from_bits_def)+

datatype AudioFormatIdAndCode = AudioFormatIdAndCode (AudioFormatIdAndCode_into: u8)

definition AudioFormatIdAndCode_code :: "AudioFormatIdAndCode \<Rightarrow> nat" where
  "AudioFormatIdAndCode_code x = unat (AudioFormatIdAndCode_into x AND 0x3F)"

definition AudioFormatIdAndCode_id :: "AudioFormatIdAndCode \<Rightarrow> AudioFormatId" where
  "AudioFormatIdAndCode_id x = AudioFormatId_from_bits (drop_bit 6 (AudioFormatIdAndCode_into x))"

interpretation AudioFormatIdAndCode: byte_struct AudioFormatIdAndCode_into AudioFormatIdAndCode
  by unfold_locales simp_all

abbreviation "AudioFormatIdAndCode_to_bytes \<equiv> bitfield_to_bytes AudioFormatIdAndCode_into"
abbreviation "AudioFormatIdAndCode_try_from_bytes \<equiv> bitfield_try_from_bytes AudioFormatIdAndCode"

datatype AudioStatus = AudioStatus (AudioStatus_into: u8)

definition AudioStatus_volume :: "AudioStatus \<Rightarrow> nat" where
  "AudioStatus_volume x = unat (AudioStatus_into x AND 0x7F)"

definition AudioStatus_mute :: "AudioStatus \<Rightarrow> bool" where
  "AudioStatus_mute x \<longleftrightarrow> drop_bit 7 (AudioStatus_into x) AND 1 \<noteq> 0"

interpretation AudioStatus: byte_struct AudioStatus_into AudioStatus
  by unfold_locales simp_all

abbreviation "AudioStatus_to_bytes \<equiv> bitfield_to_bytes AudioStatus_into"
abbreviation "AudioStatus_try_from_bytes \<equiv> bitfield_try_from_bytes AudioStatus"

datatype LatencyFlags = LatencyFlags (LatencyFlags_into: u8)

definition LatencyFlags_audio_out_compensated :: "LatencyFlags \<Rightarrow> AudioOutputCompensated option" where
  "LatencyFlags_audio_out_compensated x = AudioOutputCompensated_from_bits (LatencyFlags_into x)"

definition LatencyFlags_low_latency_mode :: "LatencyFlags \<Rightarrow> bool" where
  "LatencyFlags_low_latency_mode x \<longleftrightarrow> drop_bit 2 (LatencyFlags_into x) AND 1 \<noteq> 0"

interpretation LatencyFlags: byte_struct LatencyFlags_into LatencyFlags
  by unfold_locales simp_all

abbreviation "LatencyFlags_to_bytes \<equiv> bitfield_to_bytes LatencyFlags_into"
abbreviation "LatencyFlags_try_from_bytes \<equiv> bitfield_try_from_bytes LatencyFlags"

end
