(* ===== verification/OperandServices.thy ===== *)
theory OperandServices
  imports OperandEnums
begin

text \<open>
  Services, channels and their identification (\<open>linux-cec/src/operand.rs\<close>): \<open>AribData\<close>,
  \<open>AtscData\<close>, \<open>DvbData\<close>, \<open>ChannelId\<close>, \<open>AnalogueServiceId\<close>, \<open>DigitalServiceId\<close> and
  \<open>ServiceId\<close>.

  The derive macro \<open>Operand\<close> (\<open>linux-cec-macros/src/lib.rs\<close>) makes the codec of a struct with
  named fields: it encodes the fields in order, checks that there are \<open>size_of\<close> the struct
  bytes, and decodes the fields one behind the other. The structs hold only integers of one and
  two bytes, so \<open>size_of\<close> is the sum of the sizes of the fields.
\<close>

section \<open>Data of the three digital broadcast families\<close>

record AribData =
  transport_stream_id :: u16
  service_id :: u16
  original_network_id :: u16

definition AribData_to_bytes :: "AribData \<Rightarrow> u8 list option" where
  "AribData_to_bytes x = emit [u16_to_bytes (AribData.transport_stream_id x),
     u16_to_bytes (AribData.service_id x), u16_to_bytes (AribData.original_network_id x)]"

definition AribData_try_from_bytes :: "u8 list \<Rightarrow> AribData result" where
  "AribData_try_from_bytes bs =
     and_then (check (AtLeast 6) (length bs) ''bytes'') (\<lambda>_.
     with_field u16_try_from_bytes (\<lambda>_. 2) bs 0 (\<lambda>transport_stream_id offset.
     with_field u16_try_from_bytes (\<lambda>_. 2) bs offset (\<lambda>service_id offset.
     with_field u16_try_from_bytes (\<lambda>_. 2) bs offset (\<lambda>original_network_id offset.
     Ok \<lparr>AribData.transport_stream_id = transport_stream_id, service_id = service_id,
         original_network_id = original_network_id\<rparr>))))"

interpretation AribData: prefix_operand "\<lambda>_. True" AribData_to_bytes AribData_try_from_bytes
    "\<lambda>_. 6" "AtLeast 6"
proof (rule prefix_operandI)
  fix x
  show "\<exists>b. AribData_to_bytes x = Some b \<and> length b = 6 \<and>
      (\<forall>rest. AribData_try_from_bytes (b @ rest) = Ok x)"
    by (cases x)
      (simp add: AribData_to_bytes_def AribData_try_from_bytes_def codec check_Ok with_field_def)
next
  fix bs show "AribData_try_from_bytes bs \<noteq> Panic"
    by (auto simp: AribData_try_from_bytes_def elim!: codec_panic)
next
  fix bs x assume "AribData_try_from_bytes bs = Ok x"
  then show "True \<and> 6 \<le> length bs \<and> in_range (AtLeast 6) (length bs)"
    by (simp add: AribData_try_from_bytes_def)
qed

record DvbData =
  transport_stream_id :: u16
  service_id :: u16
  original_network_id :: u16

definition DvbData_to_bytes :: "DvbData \<Rightarrow> u8 list option" where
  "DvbData_to_bytes x = emit [u16_to_bytes (DvbData.transport_stream_id x),
     u16_to_bytes (DvbData.service_id x), u16_to_bytes (DvbData.original_network_id x)]"

definition DvbData_try_from_bytes :: "u8 list \<Rightarrow> DvbData result" where
  "DvbData_try_from_bytes bs =
     and_then (check (AtLeast 6) (length bs) ''bytes'') (\<lambda>_.
     with_field u16_try_from_bytes (\<lambda>_. 2) bs 0 (\<lambda>transport_stream_id offset.
     with_field u16_try_from_bytes (\<lambda>_. 2) bs offset (\<lambda>service_id offset.
     with_field u16_try_from_bytes (\<lambda>_. 2) bs offset (\<lambda>original_network_id offset.
     Ok \<lparr>DvbData.transport_stream_id = transport_stream_id, service_id = service_id,
         original_network_id = original_network_id\<rparr>))))"

interpretation DvbData: prefix_operand "\<lambda>_. True" DvbData_to_bytes DvbData_try_from_bytes
    "\<lambda>_. 6" "AtLeast 6"
proof (rule prefix_operandI)
  fix x
  show "\<exists>b. DvbData_to_bytes x = Some b \<and> length b = 6 \<and>
      (\<forall>rest. DvbData_try_from_bytes (b @ rest) = Ok x)"
    by (cases x)
      (simp add: DvbData_to_bytes_def DvbData_try_from_bytes_def codec check_Ok with_field_def)
next
  fix bs show "DvbData_try_from_bytes bs \<noteq> Panic"
    by (auto simp: DvbData_try_from_bytes_def elim!: codec_panic)
next
  fix bs x assume "DvbData_try_from_bytes bs = Ok x"
  then show "True \<and> 6 \<le> length bs \<and> in_range (AtLeast 6) (length bs)"
    by (simp add: DvbData_try_from_bytes_def)
qed

record AtscData =
  transport_stream_id :: u16
  program_number :: u16

definition AtscData_to_bytes :: "AtscData \<Rightarrow> u8 list option" where
  "AtscData_to_bytes x = emit [u16_to_bytes (AtscData.transport_stream_id x),
     u16_to_bytes (AtscData.program_number x), u16_to_bytes 0]"

definition AtscData_try_from_bytes :: "u8 list \<Rightarrow> AtscData result" where
  "AtscData_try_from_bytes bs =
     and_then (check (AtLeast 6) (length bs) ''bytes'') (\<lambda>_.
     and_then (u16_try_from_bytes bs) (\<lambda>transport_stream_id.
     with_field u16_try_from_bytes (\<lambda>_. 2) bs 2 (\<lambda>program_number _.
     with_field u16_try_from_bytes (\<lambda>_. 2) bs 4 (\<lambda>reserved _.
     if reserved \<noteq> 0 then Err InvalidData
     else Ok \<lparr>AtscData.transport_stream_id = transport_stream_id,
         program_number = program_number\<rparr>))))"

interpretation AtscData: prefix_operand "\<lambda>_. True" AtscData_to_bytes AtscData_try_from_bytes
    "\<lambda>_. 6" "AtLeast 6"
proof (rule prefix_operandI)
  fix x
  show "\<exists>b. AtscData_to_bytes x = Some b \<and> length b = 6 \<and>
      (\<forall>rest. AtscData_try_from_bytes (b @ rest) = Ok x)"
    by (cases x)
      (simp add: AtscData_to_bytes_def AtscData_try_from_bytes_def codec check_Ok with_field_def)
next
  fix bs show "AtscData_try_from_bytes bs \<noteq> Panic"
    by (auto simp: AtscData_try_from_bytes_def elim!: codec_panic split: if_splits)
next
  fix bs x assume "AtscData_try_from_bytes bs = Ok x"
  then show "True \<and> 6 \<le> length bs \<and> in_range (AtLeast 6) (length bs)"
    by (simp add: AtscData_try_from_bytes_def)
qed

section \<open>Channels\<close>

datatype ChannelId = OnePart u16 | TwoPart u16 u16

definition ChannelId_to_bytes :: "ChannelId \<Rightarrow> u8 list option" where
  "ChannelId_to_bytes x =
     (let (number_format, high, low) =
        (case x of
           OnePart part \<Rightarrow> (ChannelNumberFormat.Fmt1Part, 0, part)
         | TwoPart major minor \<Rightarrow> (ChannelNumberFormat.Fmt2Part, major, minor));
        number_format = push_bit 10 (ucast (ChannelNumberFormat_into number_format));
        high = number_format OR high
      in emit [u16_to_bytes high, u16_to_bytes low])"

definition ChannelId_try_from_bytes :: "u8 list \<Rightarrow> ChannelId result" where
  "ChannelId_try_from_bytes bs =
     and_then (check (AtLeast 4) (length bs) ''bytes'') (\<lambda>_.
     and_then (u16_try_from_bytes bs) (\<lambda>high.
     with_field u16_try_from_bytes (\<lambda>_. 2) bs 2 (\<lambda>low _.
     and_then (unwrap_option (if drop_bit 10 high \<le> 0xFF then Some (ucast (drop_bit 10 high)) else None))
       (\<lambda>number_format.
     and_then (ChannelNumberFormat_try_from number_format) (\<lambda>number_format.
     case number_format of
       ChannelNumberFormat.Fmt1Part \<Rightarrow> Ok (OnePart low)
     | ChannelNumberFormat.Fmt2Part \<Rightarrow> Ok (TwoPart (high AND 0x3FF) low))))))"

text \<open>The major number has ten bits on the wire; a larger one would overwrite the format.\<close>

primrec ChannelId_valid :: "ChannelId \<Rightarrow> bool" where
  "ChannelId_valid (OnePart _) \<longleftrightarrow> True" |
  "ChannelId_valid (TwoPart major _) \<longleftrightarrow> major < 0x400"

lemma ChannelNumberFormat_case_Ok [simp]:
  "(case f of ChannelNumberFormat.Fmt1Part \<Rightarrow> Ok a | ChannelNumberFormat.Fmt2Part \<Rightarrow> Ok b) =
     Ok (if f = ChannelNumberFormat.Fmt1Part then a else b)"
  by (cases f) simp_all

lemma drop_bit_10_u16_le: "drop_bit 10 (w :: u16) \<le> 0xFF"
proof -
  have "unat (drop_bit 10 w) \<le> unat w div 1024"
    by (simp add: drop_bit_eq_div unat_div)
  also have "\<dots> \<le> 255"
    using unsigned_less [of w, where ?'a = nat] by simp
  finally show ?thesis by (simp add: word_le_nat_alt)
qed

lemma and_3FF_less: "(w :: u16) AND 0x3FF < 0x400"
  using word_and_le1 [of w "0x3FF"] by (rule order.strict_trans1) simp

lemma ten_bits:
  assumes "(m :: u16) < 0x400"
  shows "drop_bit 10 m = 0" "m AND 0x3FF = m"
proof -
  have m: "m = take_bit 10 m"
    using assms by (simp add: word_unat_eq_iff word_less_nat_alt unsigned_take_bit_eq take_bit_nat_eq_self)
  show "drop_bit 10 m = 0"
    by (subst m) (simp add: drop_bit_take_bit)
  show "m AND 0x3FF = m"
    using m by (simp add: take_bit_eq_mask mask_eq_exp_minus_1)
qed

lemma channel_high:
  assumes "(m :: u16) < 0x400"
  shows "drop_bit 10 (0x800 OR m) = 2" "(0x800 OR m) AND 0x3FF = m"
  by (simp_all add: drop_bit_or bit.conj_disj_distrib2 ten_bits [OF assms])

interpretation ChannelId: prefix_operand ChannelId_valid ChannelId_to_bytes
    ChannelId_try_from_bytes "\<lambda>_. 4" "AtLeast 4"
proof (rule prefix_operandI)
  fix x assume "ChannelId_valid x"
  then show "\<exists>b. ChannelId_to_bytes x = Some b \<and> length b = 4 \<and>
      (\<forall>rest. ChannelId_try_from_bytes (b @ rest) = Ok x)"
    using ChannelNumberFormat.from_into [of ChannelNumberFormat.Fmt1Part]
      ChannelNumberFormat.from_into [of ChannelNumberFormat.Fmt2Part]
    by (cases x) (simp_all add: ChannelId_to_bytes_def ChannelId_try_from_bytes_def codec check_Ok
        with_field_def channel_high Let_def del: drop_bit_or)
next
  fix bs show "ChannelId_try_from_bytes bs \<noteq> Panic"
    using drop_bit_10_u16_le
    by (auto simp: ChannelId_try_from_bytes_def elim!: codec_panic split: if_splits)
next
  fix bs x assume "ChannelId_try_from_bytes bs = Ok x"
  then show "ChannelId_valid x \<and> 4 \<le> length bs \<and> in_range (AtLeast 4) (length bs)"
    using and_3FF_less
    by (auto simp: ChannelId_try_from_bytes_def elim!: codec_inv)
qed

section \<open>Services\<close>

record AnalogueServiceId =
  broadcast_type :: AnalogueBroadcastType
  frequency :: u16
  broadcast_system :: BroadcastSystem

definition AnalogueServiceId_to_bytes :: "AnalogueServiceId \<Rightarrow> u8 list option" where
  "AnalogueServiceId_to_bytes x = emit [AnalogueBroadcastType_to_bytes (broadcast_type x),
     u16_to_bytes (frequency x), BroadcastSystem_to_bytes (broadcast_system x)]"

definition AnalogueServiceId_try_from_bytes :: "u8 list \<Rightarrow> AnalogueServiceId result" where
  "AnalogueServiceId_try_from_bytes bs =
     and_then (check (AtLeast 4) (length bs) ''bytes'') (\<lambda>_.
     with_field AnalogueBroadcastType_try_from_bytes (\<lambda>_. 1) bs 0 (\<lambda>broadcast_type offset.
     with_field u16_try_from_bytes (\<lambda>_. 2) bs offset (\<lambda>frequency offset.
     with_field BroadcastSystem_try_from_bytes (\<lambda>_. 1) bs offset (\<lambda>broadcast_system offset.
     Ok \<lparr>broadcast_type = broadcast_type, frequency = frequency,
         broadcast_system = broadcast_system\<rparr>))))"

lemma AnalogueServiceId_codec [codec]:
  "AnalogueServiceId_to_bytes x =
     Some [AnalogueBroadcastType_into (broadcast_type x), ucast (drop_bit 8 (frequency x)),
       ucast (frequency x), BroadcastSystem_into (broadcast_system x)]"
  "AnalogueServiceId_try_from_bytes (AnalogueBroadcastType_into (broadcast_type x) #
     ucast (drop_bit 8 (frequency x)) # ucast (frequency x) #
     BroadcastSystem_into (broadcast_system x) # rest) = Ok x"
  by (simp_all add: AnalogueServiceId_to_bytes_def AnalogueServiceId_try_from_bytes_def codec
      check_Ok with_field_def)

interpretation AnalogueServiceId: prefix_operand "\<lambda>_. True" AnalogueServiceId_to_bytes
    AnalogueServiceId_try_from_bytes "\<lambda>_. 4" "AtLeast 4"
proof (rule prefix_operandI)
  fix x
  show "\<exists>b. AnalogueServiceId_to_bytes x = Some b \<and> length b = 4 \<and>
      (\<forall>rest. AnalogueServiceId_try_from_bytes (b @ rest) = Ok x)"
    by (simp add: codec)
next
  fix bs show "AnalogueServiceId_try_from_bytes bs \<noteq> Panic"
    by (auto simp: AnalogueServiceId_try_from_bytes_def elim!: codec_panic)
next
  fix bs x assume "AnalogueServiceId_try_from_bytes bs = Ok x"
  then show "True \<and> 4 \<le> length bs \<and> in_range (AtLeast 4) (length bs)"
    by (simp add: AnalogueServiceId_try_from_bytes_def)
qed

datatype DigitalServiceId =
  AribGeneric AribData | AtscGeneric AtscData | DvbGeneric DvbData |
  AribBs AribData | AribCs AribData | AribT AribData |
  AtscCable AtscData | AtscSatellite AtscData | AtscTerrestrial AtscData |
  DvbC DvbData | DvbS DvbData | DvbS2 DvbData |
  DvbT DvbData |
  Channel DigitalServiceBroadcastSystem ChannelId u16

definition DigitalServiceId_arib_data :: "DigitalServiceId \<Rightarrow> AribData option" where
  "DigitalServiceId_arib_data x =
     (case x of
       DigitalServiceId.AribGeneric data \<Rightarrow> Some data
     | DigitalServiceId.AribBs data \<Rightarrow> Some data
     | DigitalServiceId.AribCs data \<Rightarrow> Some data
     | DigitalServiceId.AribT data \<Rightarrow> Some data
     | _ \<Rightarrow> None)"

definition DigitalServiceId_atsc_data :: "DigitalServiceId \<Rightarrow> AtscData option" where
  "DigitalServiceId_atsc_data x =
     (case x of
       DigitalServiceId.AtscGeneric data \<Rightarrow> Some data
     | DigitalServiceId.AtscCable data \<Rightarrow> Some data
     | DigitalServiceId.AtscSatellite data \<Rightarrow> Some data
     | DigitalServiceId.AtscTerrestrial data \<Rightarrow> Some data
     | _ \<Rightarrow> None)"

definition DigitalServiceId_dvb_data :: "DigitalServiceId \<Rightarrow> DvbData option" where
  "DigitalServiceId_dvb_data x =
     (case x of
       DigitalServiceId.DvbGeneric data \<Rightarrow> Some data
     | DigitalServiceId.DvbC data \<Rightarrow> Some data
     | DigitalServiceId.DvbS data \<Rightarrow> Some data
     | DigitalServiceId.DvbS2 data \<Rightarrow> Some data
     | DigitalServiceId.DvbT data \<Rightarrow> Some data
     | _ \<Rightarrow> None)"

primrec DigitalServiceId_broadcast_system :: "DigitalServiceId \<Rightarrow> DigitalServiceBroadcastSystem" where
  "DigitalServiceId_broadcast_system (DigitalServiceId.AribGeneric _) = DigitalServiceBroadcastSystem.AribGeneric" |
  "DigitalServiceId_broadcast_system (DigitalServiceId.AtscGeneric _) = DigitalServiceBroadcastSystem.AtscGeneric" |
  "DigitalServiceId_broadcast_system (DigitalServiceId.DvbGeneric _) = DigitalServiceBroadcastSystem.DvbGeneric" |
  "DigitalServiceId_broadcast_system (DigitalServiceId.AribBs _) = DigitalServiceBroadcastSystem.AribBs" |
  "DigitalServiceId_broadcast_system (DigitalServiceId.AribCs _) = DigitalServiceBroadcastSystem.AribCs" |
  "DigitalServiceId_broadcast_system (DigitalServiceId.AribT _) = DigitalServiceBroadcastSystem.AribT" |
  "DigitalServiceId_broadcast_system (DigitalServiceId.AtscCable _) = DigitalServiceBroadcastSystem.AtscCable" |
  "DigitalServiceId_broadcast_system (DigitalServiceId.AtscSatellite _) = DigitalServiceBroadcastSystem.AtscSatellite" |
  "DigitalServiceId_broadcast_system (DigitalServiceId.AtscTerrestrial _) = DigitalServiceBroadcastSystem.AtscTerrestrial" |
  "DigitalServiceId_broadcast_system (DigitalServiceId.DvbC _) = DigitalServiceBroadcastSystem.DvbC" |
  "DigitalServiceId_broadcast_system (DigitalServiceId.DvbS _) = DigitalServiceBroadcastSystem.DvbS" |
  "DigitalServiceId_broadcast_system (DigitalServiceId.DvbS2 _) = DigitalServiceBroadcastSystem.DvbS2" |
  "DigitalServiceId_broadcast_system (DigitalServiceId.DvbT _) = DigitalServiceBroadcastSystem.DvbT" |
  "DigitalServiceId_broadcast_system (Channel system _ _) = system"

definition DigitalServiceId_service_id_method :: "DigitalServiceId \<Rightarrow> ServiceIdMethod" where
  "DigitalServiceId_service_id_method x =
     (case x of Channel _ _ _ \<Rightarrow> ServiceIdMethod.ByChannel | _ \<Rightarrow> ServiceIdMethod.ByDigitalId)"

primrec DigitalServiceId_data_to_bytes :: "DigitalServiceId \<Rightarrow> u8 list option" where
  "DigitalServiceId_data_to_bytes (DigitalServiceId.AribGeneric data) = AribData_to_bytes data" |
  "DigitalServiceId_data_to_bytes (DigitalServiceId.AtscGeneric data) = AtscData_to_bytes data" |
  "DigitalServiceId_data_to_bytes (DigitalServiceId.DvbGeneric data) = DvbData_to_bytes data" |
  "DigitalServiceId_data_to_bytes (DigitalServiceId.AribBs data) = AribData_to_bytes data" |
  "DigitalServiceId_data_to_bytes (DigitalServiceId.AribCs data) = AribData_to_bytes data" |
  "DigitalServiceId_data_to_bytes (DigitalServiceId.AribT data) = AribData_to_bytes data" |
  "DigitalServiceId_data_to_bytes (DigitalServiceId.AtscCable data) = AtscData_to_bytes data" |
  "DigitalServiceId_data_to_bytes (DigitalServiceId.AtscSatellite data) = AtscData_to_bytes data" |
  "DigitalServiceId_data_to_bytes (DigitalServiceId.AtscTerrestrial data) = AtscData_to_bytes data" |
  "DigitalServiceId_data_to_bytes (DigitalServiceId.DvbC data) = DvbData_to_bytes data" |
  "DigitalServiceId_data_to_bytes (DigitalServiceId.DvbS data) = DvbData_to_bytes data" |
  "DigitalServiceId_data_to_bytes (DigitalServiceId.DvbS2 data) = DvbData_to_bytes data" |
  "DigitalServiceId_data_to_bytes (DigitalServiceId.DvbT data) = DvbData_to_bytes data" |
  "DigitalServiceId_data_to_bytes (Channel _ channel_id reserved) =
     emit [ChannelId_to_bytes channel_id, u16_to_bytes reserved]"

definition DigitalServiceId_to_bytes :: "DigitalServiceId \<Rightarrow> u8 list option" where
  "DigitalServiceId_to_bytes x =
     emit [Some [DigitalServiceBroadcastSystem_into (DigitalServiceId_broadcast_system x) OR
             push_bit 7 (ServiceIdMethod_into (DigitalServiceId_service_id_method x))],
           DigitalServiceId_data_to_bytes x]"

definition DigitalServiceId_data_try_from_bytes ::
  "DigitalServiceBroadcastSystem \<Rightarrow> u8 list \<Rightarrow> DigitalServiceId result" where
  "DigitalServiceId_data_try_from_bytes system bs =
     (let arib = (\<lambda>mk. with_field AribData_try_from_bytes (\<lambda>_. 6) bs 1 (\<lambda>data _. Ok (mk data)));
          atsc = (\<lambda>mk. with_field AtscData_try_from_bytes (\<lambda>_. 6) bs 1 (\<lambda>data _. Ok (mk data)));
          dvb = (\<lambda>mk. with_field DvbData_try_from_bytes (\<lambda>_. 6) bs 1 (\<lambda>data _. Ok (mk data)))
      in case system of
           DigitalServiceBroadcastSystem.AribGeneric \<Rightarrow> arib DigitalServiceId.AribGeneric
         | DigitalServiceBroadcastSystem.AtscGeneric \<Rightarrow> atsc DigitalServiceId.AtscGeneric
         | DigitalServiceBroadcastSystem.DvbGeneric \<Rightarrow> dvb DigitalServiceId.DvbGeneric
         | DigitalServiceBroadcastSystem.AribCs \<Rightarrow> arib DigitalServiceId.AribCs
         | DigitalServiceBroadcastSystem.AribBs \<Rightarrow> arib DigitalServiceId.AribBs
         | DigitalServiceBroadcastSystem.AribT \<Rightarrow> arib DigitalServiceId.AribT
         | DigitalServiceBroadcastSystem.AtscCable \<Rightarrow> atsc DigitalServiceId.AtscCable
         | DigitalServiceBroadcastSystem.AtscSatellite \<Rightarrow> atsc DigitalServiceId.AtscSatellite
         | DigitalServiceBroadcastSystem.AtscTerrestrial \<Rightarrow> atsc DigitalServiceId.AtscTerrestrial
         | DigitalServiceBroadcastSystem.DvbC \<Rightarrow> dvb DigitalServiceId.DvbC
         | DigitalServiceBroadcastSystem.DvbS \<Rightarrow> dvb DigitalServiceId.DvbS
         | DigitalServiceBroadcastSystem.DvbS2 \<Rightarrow> dvb DigitalServiceId.DvbS2
         | DigitalServiceBroadcastSystem.DvbT \<Rightarrow> dvb DigitalServiceId.DvbT)"

definition DigitalServiceId_try_from_bytes :: "u8 list \<Rightarrow> DigitalServiceId result" where
  "DigitalServiceId_try_from_bytes bs =
     and_then (check (AtLeast 7) (length bs) ''bytes'') (\<lambda>_.
     and_then (index bs 0) (\<lambda>head.
     and_then (ServiceIdMethod_try_from (drop_bit 7 head)) (\<lambda>service_id_method.
     and_then (try_from_primitive ''DigitalServiceBroadcastSystem''
         DigitalServiceBroadcastSystem_variants DigitalServiceBroadcastSystem_into (head AND 0x7F)) (\<lambda>broadcast_system.
     if service_id_method = ServiceIdMethod.ByChannel then
       with_field ChannelId_try_from_bytes (\<lambda>_. 4) bs 1 (\<lambda>channel_id _.
       with_field u16_try_from_bytes (\<lambda>_. 2) bs 5 (\<lambda>reserved _.
       Ok (Channel broadcast_system channel_id reserved)))
     else DigitalServiceId_data_try_from_bytes broadcast_system bs))))"

definition DigitalServiceId_valid :: "DigitalServiceId \<Rightarrow> bool" where
  "DigitalServiceId_valid x =
     (case x of Channel _ channel_id _ \<Rightarrow> ChannelId_valid channel_id | _ \<Rightarrow> True)"

text \<open>The first byte: the broadcast system in seven bits, the method in the top bit.\<close>

lemma digital_service_head:
  "drop_bit 7 (DigitalServiceBroadcastSystem_into s OR push_bit 7 (ServiceIdMethod_into m)) = ServiceIdMethod_into m"
  "(DigitalServiceBroadcastSystem_into s OR push_bit 7 (ServiceIdMethod_into m)) AND 0x7F = DigitalServiceBroadcastSystem_into s"
  by (cases s; cases m; simp)+

lemma DigitalServiceId_data_rt:
  assumes "DigitalServiceId_service_id_method x = ServiceIdMethod.ByDigitalId"
  shows "\<exists>b. DigitalServiceId_data_to_bytes x = Some b \<and> length b = 6 \<and>
    (\<forall>h rest. DigitalServiceId_data_try_from_bytes (DigitalServiceId_broadcast_system x)
      (h # b @ rest) = Ok x)"
proof -
  have arib: "\<exists>b. AribData_to_bytes d = Some b \<and> length b = 6 \<and>
      (\<forall>rest. AribData_try_from_bytes (b @ rest) = Ok d)" for d
    by (metis AribData.prefix_cases)
  have atsc: "\<exists>b. AtscData_to_bytes d = Some b \<and> length b = 6 \<and>
      (\<forall>rest. AtscData_try_from_bytes (b @ rest) = Ok d)" for d
    by (metis AtscData.prefix_cases)
  have dvb: "\<exists>b. DvbData_to_bytes d = Some b \<and> length b = 6 \<and>
      (\<forall>rest. DvbData_try_from_bytes (b @ rest) = Ok d)" for d
    by (metis DvbData.prefix_cases)
  show ?thesis
    using assms arib atsc dvb
    by (cases x) (fastforce simp: DigitalServiceId_data_try_from_bytes_def with_field_def
        DigitalServiceId_service_id_method_def)+
qed

lemma DigitalServiceId_data_panic:
  "7 \<le> length bs \<Longrightarrow> DigitalServiceId_data_try_from_bytes s bs \<noteq> Panic"
  by (cases s; auto simp: DigitalServiceId_data_try_from_bytes_def elim!: codec_panic)

lemma DigitalServiceId_data_Ok:
  "DigitalServiceId_data_try_from_bytes s bs = Ok x \<Longrightarrow> DigitalServiceId_valid x"
  by (cases s; auto simp: DigitalServiceId_data_try_from_bytes_def DigitalServiceId_valid_def
      elim!: codec_inv)

interpretation DigitalServiceId: prefix_operand DigitalServiceId_valid DigitalServiceId_to_bytes
    DigitalServiceId_try_from_bytes "\<lambda>_. 7" "AtLeast 7"
proof (rule prefix_operandI)
  fix x assume v: "DigitalServiceId_valid x"
  show "\<exists>b. DigitalServiceId_to_bytes x = Some b \<and> length b = 7 \<and>
      (\<forall>rest. DigitalServiceId_try_from_bytes (b @ rest) = Ok x)"
  proof (cases "DigitalServiceId_service_id_method x")
    case ByDigitalId
    then show ?thesis
      using DigitalServiceId_data_rt [OF ByDigitalId] ServiceIdMethod.from_into [of ServiceIdMethod.ByDigitalId]
        digital_service_head [of "DigitalServiceId_broadcast_system x" ServiceIdMethod.ByDigitalId]
      by (auto simp: DigitalServiceId_to_bytes_def DigitalServiceId_try_from_bytes_def check_Ok
          DigitalServiceBroadcastSystem.from_into)
  next
    case ByChannel
    then obtain s c r where x: "x = Channel s c r"
      by (cases x) (auto simp: DigitalServiceId_service_id_method_def)
    with v have "ChannelId_valid c"
      by (simp add: DigitalServiceId_valid_def)
    then obtain b where "ChannelId_to_bytes c = Some b" "length b = 4"
      "\<And>rest. ChannelId_try_from_bytes (b @ rest) = Ok c"
      by (metis ChannelId.prefix_cases)
    with x ByChannel show ?thesis
      using ServiceIdMethod.from_into [of ServiceIdMethod.ByChannel]
        digital_service_head [of s ServiceIdMethod.ByChannel]
      by (auto simp: DigitalServiceId_to_bytes_def DigitalServiceId_try_from_bytes_def check_Ok
          DigitalServiceBroadcastSystem.from_into with_field_def codec)
  qed
next
  fix bs show "DigitalServiceId_try_from_bytes bs \<noteq> Panic"
    using DigitalServiceId_data_panic
    by (auto simp: DigitalServiceId_try_from_bytes_def elim!: codec_panic split: if_splits)
next
  fix bs x assume "DigitalServiceId_try_from_bytes bs = Ok x"
  then show "DigitalServiceId_valid x \<and> 7 \<le> length bs \<and> in_range (AtLeast 7) (length bs)"
    using DigitalServiceId_data_Ok
    by (auto simp: DigitalServiceId_try_from_bytes_def DigitalServiceId_valid_def elim!: codec_inv
        split: if_splits)
qed

datatype ServiceId = Digital DigitalServiceId | Analogue AnalogueServiceId

end
