(* ===== verification/OperandTimers.thy ===== *)
theory OperandTimers
  imports OperandServices
begin

text \<open>
  Times, durations and the state of a timer (\<open>linux-cec/src/operand.rs\<close>): \<open>Duration\<close>, \<open>Time\<close>,
  \<open>ProgrammedInfo\<close>, \<open>NotProgrammedErrorInfo\<close>, \<open>TimerProgrammedInfo\<close> and \<open>TimerStatusData\<close>,
  which packs an enum with optional data into a byte and an optional duration.
\<close>

section \<open>Durations and times of day\<close>

record Duration =
  hours :: BcdByte
  minutes :: BcdByte

definition Duration_to_bytes :: "Duration \<Rightarrow> u8 list option" where
  "Duration_to_bytes x = emit [BcdByte_to_bytes (hours x), BcdByte_to_bytes (minutes x)]"

definition Duration_try_from_bytes :: "u8 list \<Rightarrow> Duration result" where
  "Duration_try_from_bytes bs =
     and_then (check (AtLeast 2) (length bs) ''bytes'') (\<lambda>_.
     with_field (BcdByte_try_from_bytes 0 99) (\<lambda>_. 1) bs 0 (\<lambda>hours offset.
     with_field (BcdByte_try_from_bytes 0 59) (\<lambda>_. 1) bs offset (\<lambda>minutes offset.
     Ok \<lparr>hours = hours, minutes = minutes\<rparr>)))"

definition Duration_valid :: "Duration \<Rightarrow> bool" where
  "Duration_valid x \<longleftrightarrow> DurationHours_valid (hours x) \<and> Minute_valid (minutes x)"

interpretation Duration: prefix_operand Duration_valid Duration_to_bytes Duration_try_from_bytes
    "\<lambda>_. 2" "AtLeast 2"
proof (rule prefix_operandI)
  fix x assume "Duration_valid x"
  then show "\<exists>b. Duration_to_bytes x = Some b \<and> length b = 2 \<and>
      (\<forall>rest. Duration_try_from_bytes (b @ rest) = Ok x)"
    unfolding Duration_valid_def
    by (elim conjE BcdByte.prefix_cases) (simp add: Duration_to_bytes_def Duration_try_from_bytes_def
        check_Ok with_field_def)
next
  fix bs show "Duration_try_from_bytes bs \<noteq> Panic"
    by (auto simp: Duration_try_from_bytes_def elim!: codec_panic)
next
  fix bs x assume "Duration_try_from_bytes bs = Ok x"
  then show "Duration_valid x \<and> 2 \<le> length bs \<and> in_range (AtLeast 2) (length bs)"
    by (auto simp: Duration_try_from_bytes_def Duration_valid_def elim!: codec_inv)
qed

interpretation Duration: nonempty_operand Duration_valid Duration_to_bytes Duration_try_from_bytes
    "\<lambda>_. 2" "AtLeast 2"
  by unfold_locales simp

record Time =
  hour :: BcdByte
  minute :: BcdByte

definition Time_to_bytes :: "Time \<Rightarrow> u8 list option" where
  "Time_to_bytes x = emit [BcdByte_to_bytes (hour x), BcdByte_to_bytes (minute x)]"

definition Time_try_from_bytes :: "u8 list \<Rightarrow> Time result" where
  "Time_try_from_bytes bs =
     and_then (check (AtLeast 2) (length bs) ''bytes'') (\<lambda>_.
     with_field (BcdByte_try_from_bytes 0 23) (\<lambda>_. 1) bs 0 (\<lambda>hour offset.
     with_field (BcdByte_try_from_bytes 0 59) (\<lambda>_. 1) bs offset (\<lambda>minute offset.
     Ok \<lparr>hour = hour, minute = minute\<rparr>)))"

definition Time_valid :: "Time \<Rightarrow> bool" where
  "Time_valid x \<longleftrightarrow> Hour_valid (hour x) \<and> Minute_valid (minute x)"

interpretation Time: prefix_operand Time_valid Time_to_bytes Time_try_from_bytes
    "\<lambda>_. 2" "AtLeast 2"
proof (rule prefix_operandI)
  fix x assume "Time_valid x"
  then show "\<exists>b. Time_to_bytes x = Some b \<and> length b = 2 \<and>
      (\<forall>rest. Time_try_from_bytes (b @ rest) = Ok x)"
    unfolding Time_valid_def
    by (elim conjE BcdByte.prefix_cases) (simp add: Time_to_bytes_def Time_try_from_bytes_def
        check_Ok with_field_def)
next
  fix bs show "Time_try_from_bytes bs \<noteq> Panic"
    by (auto simp: Time_try_from_bytes_def elim!: codec_panic)
next
  fix bs x assume "Time_try_from_bytes bs = Ok x"
  then show "Time_valid x \<and> 2 \<le> length bs \<and> in_range (AtLeast 2) (length bs)"
    by (auto simp: Time_try_from_bytes_def Time_valid_def elim!: codec_inv)
qed

section \<open>Timer status\<close>

datatype ProgrammedInfo =
  EnoughSpace | NotEnoughSpace "Duration option" | MayNotBeEnoughSpace "Duration option" |
  NoneAvailable

datatype NotProgrammedErrorInfo =
  NoFreeTimer | DateOutOfRange | RecordingSequenceError | InvalidExternalPlug |
  InvalidExternalPhysicalAddress | CaUnsupported | InsufficientCaEntitlements |
  ResolutionUnsupported | ParentalLock | ClockFailure | Duplicate "Duration option"

datatype TimerProgrammedInfo =
  Programmed ProgrammedInfo | NotProgrammed NotProgrammedErrorInfo

definition ProgrammedInfo_duration_available :: "ProgrammedInfo \<Rightarrow> Duration option" where
  "ProgrammedInfo_duration_available x =
     (case x of
        NotEnoughSpace duration_available \<Rightarrow> duration_available
      | MayNotBeEnoughSpace duration_available \<Rightarrow> duration_available
      | _ \<Rightarrow> None)"

definition NotProgrammedErrorInfo_duration_available ::
  "NotProgrammedErrorInfo \<Rightarrow> Duration option" where
  "NotProgrammedErrorInfo_duration_available x =
     (case x of Duplicate duration_available \<Rightarrow> duration_available | _ \<Rightarrow> None)"

record TimerStatusData =
  overlap_warning :: bool
  media_info :: MediaInfo
  programmed_info :: TimerProgrammedInfo

text \<open>The code of the low four bits and the duration that follows the byte.\<close>

primrec programmed_code :: "ProgrammedInfo \<Rightarrow> u8 \<times> Duration option" where
  "programmed_code EnoughSpace = (8, None)" |
  "programmed_code (NotEnoughSpace duration_available) = (9, duration_available)" |
  "programmed_code (MayNotBeEnoughSpace duration_available) = (0xB, duration_available)" |
  "programmed_code NoneAvailable = (0xA, None)"

primrec not_programmed_code :: "NotProgrammedErrorInfo \<Rightarrow> u8 \<times> Duration option" where
  "not_programmed_code NotProgrammedErrorInfo.NoFreeTimer = (1, None)" |
  "not_programmed_code NotProgrammedErrorInfo.DateOutOfRange = (2, None)" |
  "not_programmed_code NotProgrammedErrorInfo.RecordingSequenceError = (3, None)" |
  "not_programmed_code NotProgrammedErrorInfo.InvalidExternalPlug = (4, None)" |
  "not_programmed_code NotProgrammedErrorInfo.InvalidExternalPhysicalAddress = (5, None)" |
  "not_programmed_code NotProgrammedErrorInfo.CaUnsupported = (6, None)" |
  "not_programmed_code NotProgrammedErrorInfo.InsufficientCaEntitlements = (7, None)" |
  "not_programmed_code NotProgrammedErrorInfo.ResolutionUnsupported = (8, None)" |
  "not_programmed_code NotProgrammedErrorInfo.ParentalLock = (9, None)" |
  "not_programmed_code NotProgrammedErrorInfo.ClockFailure = (0xA, None)" |
  "not_programmed_code (Duplicate duration_available) = (0xE, duration_available)"

definition TimerStatusData_to_bytes :: "TimerStatusData \<Rightarrow> u8 list option" where
  "TimerStatusData_to_bytes x =
     (let byte = (if overlap_warning x then 0x80 else 0);
          byte = byte OR push_bit 5 (MediaInfo_into (media_info x));
          (byte, duration) =
            (case programmed_info x of
               Programmed programmed \<Rightarrow>
                 (let (code, duration) = programmed_code programmed
                  in (byte OR 0x10 OR code, duration))
             | NotProgrammed not_programmed \<Rightarrow>
                 (let (code, duration) = not_programmed_code not_programmed
                  in (byte OR code, duration)))
      in emit [Some [byte], option_to_bytes Duration_to_bytes duration])"

text \<open>\<open>if bytes.len() >= 3\<close> a duration is decoded behind the byte.\<close>

definition duration_available_from :: "u8 list \<Rightarrow> Duration option result" where
  "duration_available_from bs =
     (if 3 \<le> length bs then with_field Duration_try_from_bytes (\<lambda>_. 2) bs 1 (\<lambda>d _. Ok (Some d))
      else Ok None)"

definition programmed_try_from :: "u8 list \<Rightarrow> u8 \<Rightarrow> ProgrammedInfo result" where
  "programmed_try_from bs v =
     (if v = 8 then Ok EnoughSpace
      else if v = 9 then and_then (duration_available_from bs) (\<lambda>d. Ok (NotEnoughSpace d))
      else if v = 0xB then and_then (duration_available_from bs) (\<lambda>d. Ok (MayNotBeEnoughSpace d))
      else if v = 0xA then Ok NoneAvailable
      else Err (InvalidValueForType ''ProgrammedInfo'' (show_u8 v)))"

definition not_programmed_try_from :: "u8 list \<Rightarrow> u8 \<Rightarrow> NotProgrammedErrorInfo result" where
  "not_programmed_try_from bs v =
     (if v = 1 then Ok NotProgrammedErrorInfo.NoFreeTimer
      else if v = 2 then Ok NotProgrammedErrorInfo.DateOutOfRange
      else if v = 3 then Ok NotProgrammedErrorInfo.RecordingSequenceError
      else if v = 4 then Ok NotProgrammedErrorInfo.InvalidExternalPlug
      else if v = 5 then Ok NotProgrammedErrorInfo.InvalidExternalPhysicalAddress
      else if v = 6 then Ok NotProgrammedErrorInfo.CaUnsupported
      else if v = 7 then Ok NotProgrammedErrorInfo.InsufficientCaEntitlements
      else if v = 8 then Ok NotProgrammedErrorInfo.ResolutionUnsupported
      else if v = 9 then Ok NotProgrammedErrorInfo.ParentalLock
      else if v = 0xA then Ok NotProgrammedErrorInfo.ClockFailure
      else if v = 0xE then and_then (duration_available_from bs) (\<lambda>d. Ok (Duplicate d))
      else Err (InvalidValueForType ''NotProgrammedErrorInfo'' (show_u8 v)))"

definition TimerStatusData_try_from_bytes :: "u8 list \<Rightarrow> TimerStatusData result" where
  "TimerStatusData_try_from_bytes bs =
     and_then (check (AtLeast 1) (length bs) ''bytes'') (\<lambda>_.
     and_then (index bs 0) (\<lambda>byte.
     let overlap_warning = (byte AND 0x80 = 0x80) in
     and_then (try_from_primitive ''MediaInfo'' MediaInfo_variants MediaInfo_into
         (drop_bit 5 byte AND 3)) (\<lambda>media_info.
     and_then (if byte AND 0x10 = 0x10
               then and_then (programmed_try_from bs (byte AND 0xF)) (\<lambda>p. Ok (Programmed p))
               else and_then (not_programmed_try_from bs (byte AND 0xF)) (\<lambda>p. Ok (NotProgrammed p)))
       (\<lambda>programmed_info.
     Ok \<lparr>overlap_warning = overlap_warning, media_info = media_info,
         programmed_info = programmed_info\<rparr>))))"

definition timer_duration :: "TimerProgrammedInfo \<Rightarrow> Duration option" where
  "timer_duration x =
     (case x of
        Programmed p \<Rightarrow> ProgrammedInfo_duration_available p
      | NotProgrammed p \<Rightarrow> NotProgrammedErrorInfo_duration_available p)"

definition TimerStatusData_len :: "TimerStatusData \<Rightarrow> nat" where
  "TimerStatusData_len x =
     (case programmed_info x of
        Programmed programmed \<Rightarrow>
          (case programmed of
             NotEnoughSpace duration_available \<Rightarrow> if duration_available \<noteq> None then 3 else 1
           | MayNotBeEnoughSpace duration_available \<Rightarrow> if duration_available \<noteq> None then 3 else 1
           | _ \<Rightarrow> 1)
      | NotProgrammed not_programmed \<Rightarrow>
          (case not_programmed of
             Duplicate duration_available \<Rightarrow> if duration_available \<noteq> None then 3 else 1
           | _ \<Rightarrow> 1))"

definition TimerStatusData_valid :: "TimerStatusData \<Rightarrow> bool" where
  "TimerStatusData_valid x \<longleftrightarrow> pred_option Duration_valid (timer_duration (programmed_info x))"

text \<open>The fields of the first byte can be read back.\<close>

lemma programmed_byte:
  fixes ov :: bool and m :: MediaInfo
  assumes "programmed_code p = (c, d)"
  defines "byte \<equiv> (if ov then 0x80 else 0) OR push_bit 5 (MediaInfo_into m) OR 0x10 OR c"
  shows "byte AND 0x80 = 0x80 \<longleftrightarrow> ov" "drop_bit 5 byte AND 3 = MediaInfo_into m"
    "byte AND 0x10 = 0x10" "byte AND 0xF = c"
  using assms(1) unfolding byte_def by (cases p; cases ov; cases m; auto)+

lemma not_programmed_byte:
  fixes ov :: bool and m :: MediaInfo
  assumes "not_programmed_code p = (c, d)"
  defines "byte \<equiv> (if ov then 0x80 else 0) OR push_bit 5 (MediaInfo_into m) OR c"
  shows "byte AND 0x80 = 0x80 \<longleftrightarrow> ov" "drop_bit 5 byte AND 3 = MediaInfo_into m"
    "byte AND 0x10 \<noteq> 0x10" "byte AND 0xF = c"
  using assms(1) unfolding byte_def by (cases p; cases ov; cases m; auto)+

lemma duration_available_rt:
  assumes "pred_option Duration_valid d"
  obtains b where "option_to_bytes Duration_to_bytes d = Some b"
    "length b = (if d = None then 0 else 2)" "\<And>h. duration_available_from (h # b) = Ok d"
proof (cases d)
  case None
  with that [of "[]"] show thesis by (simp add: duration_available_from_def)
next
  case (Some x)
  with assms have "Duration_valid x" by simp
  then obtain b where "Duration_to_bytes x = Some b" "length b = 2" "Duration_try_from_bytes b = Ok x"
    by (rule Duration.enc_cases)
  with Some that [of b] show thesis
    by (simp add: duration_available_from_def with_field_def)
qed

lemma duration_available_from_not_Panic [simp]: "duration_available_from bs \<noteq> Panic"
  by (auto simp: duration_available_from_def elim!: codec_panic split: if_splits)

lemma duration_available_from_Ok:
  assumes "duration_available_from bs = Ok d"
  shows "pred_option Duration_valid d" "d \<noteq> None \<Longrightarrow> 3 \<le> length bs"
  using assms by (auto simp: duration_available_from_def elim!: codec_inv split: if_splits)

lemma programmed_rt:
  assumes "programmed_code p = (c, d)"
    and "option_to_bytes Duration_to_bytes d = Some b" "duration_available_from (h # b) = Ok d"
  shows "programmed_try_from (h # b) c = Ok p"
  using assms by (cases p) (auto simp: programmed_try_from_def)

lemma not_programmed_rt:
  assumes "not_programmed_code p = (c, d)"
    and "option_to_bytes Duration_to_bytes d = Some b" "duration_available_from (h # b) = Ok d"
  shows "not_programmed_try_from (h # b) c = Ok p"
  using assms by (cases p) (auto simp: not_programmed_try_from_def)

lemma timer_codes:
  "programmed_code p = (c, d) \<Longrightarrow> timer_duration (Programmed p) = d"
  "not_programmed_code q = (c, d) \<Longrightarrow> timer_duration (NotProgrammed q) = d"
  by (cases p; auto simp: timer_duration_def ProgrammedInfo_duration_available_def)
    (cases q; auto simp: timer_duration_def NotProgrammedErrorInfo_duration_available_def)

lemma TimerStatusData_len:
  "TimerStatusData_len x = (if timer_duration (programmed_info x) = None then 1 else 3)"
  by (simp add: TimerStatusData_len_def timer_duration_def ProgrammedInfo_duration_available_def
      NotProgrammedErrorInfo_duration_available_def
      split: TimerProgrammedInfo.split ProgrammedInfo.split NotProgrammedErrorInfo.split)

interpretation TimerStatusData: operand TimerStatusData_valid TimerStatusData_to_bytes
    TimerStatusData_try_from_bytes TimerStatusData_len "AtLeast 1"
proof
  fix x assume v: "TimerStatusData_valid x"
  let ?d = "timer_duration (programmed_info x)"
  let ?ov = "overlap_warning x" and ?m = "media_info x"
  from v have "pred_option Duration_valid ?d"
    by (simp add: TimerStatusData_valid_def)
  then obtain b where b: "option_to_bytes Duration_to_bytes ?d = Some b"
    "length b = (if ?d = None then 0 else 2)" "\<And>h. duration_available_from (h # b) = Ok ?d"
    by (rule duration_available_rt) (rule that)
  have "\<exists>h. TimerStatusData_to_bytes x = Some (h # b) \<and> TimerStatusData_try_from_bytes (h # b) = Ok x"
  proof (cases "programmed_info x")
    case (Programmed p)
    obtain c d where c: "programmed_code p = (c, d)" by fastforce
    then have d: "?d = d"
      using timer_codes(1) Programmed by simp
    define h where "h = (if ?ov then 0x80 else 0) OR push_bit 5 (MediaInfo_into ?m) OR 0x10 OR c"
    note bits = programmed_byte [OF c, of ?ov ?m, folded h_def]
      and rt = programmed_rt [OF c b(1) [unfolded d] b(3) [unfolded d]]
    have "TimerStatusData_to_bytes x = Some (h # b)"
      by (simp add: TimerStatusData_to_bytes_def Programmed c b(1) [unfolded d] or.assoc h_def Let_def)
    moreover have "TimerStatusData_try_from_bytes (h # b) = Ok x"
      by (simp add: TimerStatusData_try_from_bytes_def Programmed bits rt check_Ok MediaInfo.from_into)
    ultimately show ?thesis by blast
  next
    case (NotProgrammed p)
    obtain c d where c: "not_programmed_code p = (c, d)" by fastforce
    then have d: "?d = d"
      using timer_codes(2) NotProgrammed by simp
    define h where "h = (if ?ov then 0x80 else 0) OR push_bit 5 (MediaInfo_into ?m) OR c"
    note bits = not_programmed_byte [OF c, of ?ov ?m, folded h_def]
      and rt = not_programmed_rt [OF c b(1) [unfolded d] b(3) [unfolded d]]
    have "TimerStatusData_to_bytes x = Some (h # b)"
      by (simp add: TimerStatusData_to_bytes_def NotProgrammed c b(1) [unfolded d] or.assoc h_def Let_def)
    moreover have "TimerStatusData_try_from_bytes (h # b) = Ok x"
      by (simp add: TimerStatusData_try_from_bytes_def NotProgrammed bits rt check_Ok MediaInfo.from_into)
    ultimately show ?thesis by blast
  qed
  then obtain h where h: "TimerStatusData_to_bytes x = Some (h # b)"
    "TimerStatusData_try_from_bytes (h # b) = Ok x" by blast
  then show "\<exists>b. TimerStatusData_to_bytes x = Some b" by blast
  fix b' assume "TimerStatusData_to_bytes x = Some b'"
  with h have b': "b' = h # b" by simp
  with h show "TimerStatusData_try_from_bytes b' = Ok x" by simp
  show "length b' = TimerStatusData_len x"
    using b' b(2) by (simp add: TimerStatusData_len)
next
  fix bs show "TimerStatusData_try_from_bytes bs \<noteq> Panic"
    by (auto simp: TimerStatusData_try_from_bytes_def programmed_try_from_def
        not_programmed_try_from_def Let_def split: if_splits)
next
  fix bs x assume ok: "TimerStatusData_try_from_bytes bs = Ok x"
  then have "pred_option Duration_valid (timer_duration (programmed_info x)) \<and>
      (timer_duration (programmed_info x) \<noteq> None \<longrightarrow> 3 \<le> length bs)"
    by (auto simp: TimerStatusData_try_from_bytes_def programmed_try_from_def
        not_programmed_try_from_def Let_def timer_duration_def ProgrammedInfo_duration_available_def
        NotProgrammedErrorInfo_duration_available_def
        dest: duration_available_from_Ok split: if_splits)
  moreover have "1 \<le> length bs"
    using ok by (simp add: TimerStatusData_try_from_bytes_def)
  ultimately show "TimerStatusData_valid x" "TimerStatusData_len x \<le> length bs"
    "in_range (AtLeast 1) (length bs)"
    by (auto simp: TimerStatusData_valid_def TimerStatusData_len)
qed

end
