(* ===== verification/OperandFeatures.thy ===== *)
theory OperandFeatures
  imports OperandTimers
begin

text \<open>
  The two tagged buffers of \<open>linux-cec/src/operand.rs\<close>: \<open>DeviceFeatures\<close>, whose parameter is a
  set of flags, and \<open>RcProfile\<close>, whose parameter \<open>RcProfile1\<close> is either a set of flags or the
  identifier of a profile, told apart by the bit \<open>0x40\<close>.
\<close>

section \<open>Device features\<close>

record DeviceFeatures =
  device_features_1 :: DeviceFeatures1
  device_features_n :: "u8 BoundedBufferOperand"

definition DeviceFeatures_new :: "DeviceFeatures1 \<Rightarrow> DeviceFeatures" where
  "DeviceFeatures_new x = \<lparr>device_features_1 = x, device_features_n = buffer_default 0 14\<rparr>"

definition DeviceFeatures_try_new :: "DeviceFeatures1 \<Rightarrow> u8 list \<Rightarrow> DeviceFeatures result" where
  "DeviceFeatures_try_new first extra_params =
     and_then (buffer_try_from_bytes u8_try_from_bytes 1 0 14 extra_params) (\<lambda>device_features_n.
     Ok \<lparr>device_features_1 = first, device_features_n = device_features_n\<rparr>)"

definition DeviceFeatures_extra_params :: "DeviceFeatures \<Rightarrow> u8 list option" where
  "DeviceFeatures_extra_params x = buffer_slice (device_features_n x)"

abbreviation "DeviceFeatures_to_bytes \<equiv>
  tagged_to_bytes device_features_1 DeviceFeatures1_into DeviceFeatures_extra_params"
abbreviation "DeviceFeatures_try_from_bytes \<equiv>
  tagged_try_from_bytes DeviceFeatures1_try_from DeviceFeatures_try_new"
abbreviation "DeviceFeatures_len \<equiv> tagged_len DeviceFeatures_extra_params"

definition DeviceFeatures1_valid :: "DeviceFeatures1 \<Rightarrow> bool" where
  "DeviceFeatures1_valid flags \<longleftrightarrow> DeviceFeatures1_bits flags AND 0x80 = 0"

abbreviation "DeviceFeatures_valid \<equiv>
  tagged_valid DeviceFeatures1_valid device_features_1 device_features_n"

interpretation DeviceFeatures: tagged_buffer DeviceFeatures1_valid DeviceFeatures1_into
    DeviceFeatures1_try_from "\<lambda>p r. \<lparr>device_features_1 = p, device_features_n = r\<rparr>"
    device_features_1 device_features_n DeviceFeatures_extra_params DeviceFeatures_try_new
  by unfold_locales
    (auto simp: DeviceFeatures1_valid_def DeviceFeatures1_into_def DeviceFeatures1_try_from_def
      DeviceFeatures_extra_params_def DeviceFeatures_try_new_def top_bit clear_top_bit)

section \<open>Remote control profiles\<close>

datatype RcProfile1 = Source RcProfileSource | Tv RcProfileId

primrec RcProfile1_into :: "RcProfile1 \<Rightarrow> u8" where
  "RcProfile1_into (RcProfile1.Source profile_source) = RcProfileSource_bits profile_source" |
  "RcProfile1_into (Tv profile_id) = RcProfileId_into profile_id"

definition RcProfile1_try_from :: "u8 \<Rightarrow> RcProfile1 result" where
  "RcProfile1_try_from flags =
     (let flags = flags AND 0x7F in
      if flags AND 0x40 = 0x40 then Ok (RcProfile1.Source (RcProfileSource flags))
      else and_then (try_from_primitive ''RcProfileId'' RcProfileId_variants RcProfileId_into
               (flags AND 0xF)) (\<lambda>ident. Ok (Tv ident)))"

record RcProfile =
  rc_profile_1 :: RcProfile1
  rc_profile_n :: "u8 BoundedBufferOperand"

definition RcProfile_new :: "RcProfile1 \<Rightarrow> RcProfile" where
  "RcProfile_new x = \<lparr>rc_profile_1 = x, rc_profile_n = buffer_default 0 14\<rparr>"

definition RcProfile_try_new :: "RcProfile1 \<Rightarrow> u8 list \<Rightarrow> RcProfile result" where
  "RcProfile_try_new first extra_params =
     and_then (buffer_try_from_bytes u8_try_from_bytes 1 0 14 extra_params) (\<lambda>rc_profile_n.
     Ok \<lparr>rc_profile_1 = first, rc_profile_n = rc_profile_n\<rparr>)"

definition RcProfile_extra_params :: "RcProfile \<Rightarrow> u8 list option" where
  "RcProfile_extra_params x = buffer_slice (rc_profile_n x)"

abbreviation "RcProfile_to_bytes \<equiv>
  tagged_to_bytes rc_profile_1 RcProfile1_into RcProfile_extra_params"
abbreviation "RcProfile_try_from_bytes \<equiv>
  tagged_try_from_bytes RcProfile1_try_from RcProfile_try_new"
abbreviation "RcProfile_len \<equiv> tagged_len RcProfile_extra_params"

text \<open>
  The flags of a source have the bit \<open>0x40\<close>, which says that they are flags; the top bit is
  the continuation bit of the buffer.
\<close>

primrec RcProfile1_valid :: "RcProfile1 \<Rightarrow> bool" where
  "RcProfile1_valid (RcProfile1.Source flags) \<longleftrightarrow>
     RcProfileSource_bits flags AND 0x40 = 0x40 \<and> RcProfileSource_bits flags AND 0x80 = 0" |
  "RcProfile1_valid (Tv _) \<longleftrightarrow> True"

abbreviation "RcProfile_valid \<equiv> tagged_valid RcProfile1_valid rc_profile_1 rc_profile_n"

lemma RcProfileId_bits:
  "RcProfileId_into i AND 0x7F = RcProfileId_into i" "RcProfileId_into i AND 0x40 \<noteq> 0x40"
  "RcProfileId_into i AND 0xF = RcProfileId_into i"
  by (cases i; simp)+

interpretation RcProfile: tagged_buffer RcProfile1_valid RcProfile1_into RcProfile1_try_from
    "\<lambda>p r. \<lparr>rc_profile_1 = p, rc_profile_n = r\<rparr>" rc_profile_1 rc_profile_n
    RcProfile_extra_params RcProfile_try_new
proof
  fix b show "RcProfile1_try_from b \<noteq> Panic"
    by (simp add: RcProfile1_try_from_def Let_def)
next
  fix b p assume "RcProfile1_try_from (b AND 0x7F) = Ok p"
  then show "RcProfile1_valid p"
    by (auto simp: RcProfile1_try_from_def Let_def top_bit split: if_splits)
next
  fix p assume "RcProfile1_valid p"
  then show "RcProfile1_try_from (RcProfile1_into p AND 0x7F) = Ok p"
    by (cases p) (simp_all add: RcProfile1_try_from_def Let_def top_bit clear_top_bit
        RcProfileId_bits RcProfileId.from_into)
qed (simp_all add: RcProfile_extra_params_def RcProfile_try_new_def)

end
