(* ===== verification/OperandSources.thy ===== *)
theory OperandSources
  imports OperandFeatures
begin

text \<open>
  Operands that are told apart by their length or by a leading tag
  (\<open>linux-cec/src/operand.rs\<close>): \<open>TunerDeviceInfo\<close>, \<open>ExternalSource\<close> and \<open>RecordSource\<close>.
  The \<open>unreachable!()\<close> arms are \<^term>\<open>Panic\<close>.
\<close>

section \<open>Tuner device information\<close>

record TunerDeviceInfo =
  recording :: bool
  tuner_display_info :: TunerDisplayInfo
  service_id :: ServiceId

definition TunerDeviceInfo_to_bytes :: "TunerDeviceInfo \<Rightarrow> u8 list option" where
  "TunerDeviceInfo_to_bytes x =
     (let recording = (if recording x then 0x80 else 0);
          display_info = TunerDisplayInfo_into (tuner_display_info x)
      in case TunerDeviceInfo.service_id x of
           Analogue s \<Rightarrow>
             emit [u8_to_bytes (recording OR display_info), AnalogueServiceId_to_bytes s]
         | Digital s \<Rightarrow>
             emit [u8_to_bytes (recording OR display_info), DigitalServiceId_to_bytes s])"

definition TunerDeviceInfo_try_from_bytes :: "u8 list \<Rightarrow> TunerDeviceInfo result" where
  "TunerDeviceInfo_try_from_bytes bs =
     and_then (check (Only [5, 8]) (length bs) ''bytes'') (\<lambda>_.
     and_then (index bs 0) (\<lambda>head.
     let recording = (head AND 0x80 = 0x80) in
     and_then (try_from_primitive ''TunerDisplayInfo'' TunerDisplayInfo_variants
         TunerDisplayInfo_into (head AND 0x7F)) (\<lambda>tuner_display_info.
     and_then
       (if length bs = 5 then
          and_then (slice_from bs 1) (\<lambda>s.
          and_then (AnalogueServiceId_try_from_bytes s) (\<lambda>x. Ok (Analogue x)))
        else if length bs = 8 then
          and_then (slice_from bs 1) (\<lambda>s.
          and_then (DigitalServiceId_try_from_bytes s) (\<lambda>x. Ok (Digital x)))
        else Panic) (\<lambda>service_id.
     Ok \<lparr>recording = recording, tuner_display_info = tuner_display_info,
         service_id = service_id\<rparr>))))"

definition TunerDeviceInfo_len :: "TunerDeviceInfo \<Rightarrow> nat" where
  "TunerDeviceInfo_len x =
     (case TunerDeviceInfo.service_id x of Analogue _ \<Rightarrow> 5 | Digital _ \<Rightarrow> 8)"

primrec ServiceId_valid :: "ServiceId \<Rightarrow> bool" where
  "ServiceId_valid (Digital x) \<longleftrightarrow> DigitalServiceId_valid x" |
  "ServiceId_valid (Analogue x) \<longleftrightarrow> True"

definition TunerDeviceInfo_valid :: "TunerDeviceInfo \<Rightarrow> bool" where
  "TunerDeviceInfo_valid x \<longleftrightarrow> ServiceId_valid (TunerDeviceInfo.service_id x)"

lemma tuner_head:
  "((if r then 0x80 else 0) OR TunerDisplayInfo_into t) AND 0x7F = TunerDisplayInfo_into t"
  "((if r then 0x80 else 0) OR TunerDisplayInfo_into t) AND 0x80 = 0x80 \<longleftrightarrow> r"
  by (cases r; cases t; simp)+

interpretation TunerDeviceInfo: operand TunerDeviceInfo_valid TunerDeviceInfo_to_bytes
    TunerDeviceInfo_try_from_bytes TunerDeviceInfo_len "Only [5, 8]"
proof
  fix x assume v: "TunerDeviceInfo_valid x"
  define h where "h = (if recording x then 0x80 else 0) OR TunerDisplayInfo_into (tuner_display_info x)"
  note head = tuner_head [of "recording x" "tuner_display_info x", folded h_def]
  have "\<exists>b. TunerDeviceInfo_to_bytes x = Some b \<and> length b = TunerDeviceInfo_len x \<and>
      TunerDeviceInfo_try_from_bytes b = Ok x"
  proof (cases "TunerDeviceInfo.service_id x")
    case (Digital s)
    with v have "DigitalServiceId_valid s"
      by (simp add: TunerDeviceInfo_valid_def)
    then show ?thesis
      using Digital head
      by (elim DigitalServiceId.enc_cases) (simp add: TunerDeviceInfo_to_bytes_def Let_def
          u8_to_bytes_def h_def [symmetric] TunerDeviceInfo_try_from_bytes_def check_Ok
          TunerDisplayInfo.from_into TunerDeviceInfo_len_def)
  next
    case (Analogue s)
    obtain b where "AnalogueServiceId_to_bytes s = Some b" "length b = 4"
      "AnalogueServiceId_try_from_bytes b = Ok s"
      using AnalogueServiceId.enc_cases [OF TrueI] by metis
    then show ?thesis
      using Analogue head
      by (simp add: TunerDeviceInfo_to_bytes_def Let_def
          u8_to_bytes_def h_def [symmetric] TunerDeviceInfo_try_from_bytes_def check_Ok
          TunerDisplayInfo.from_into TunerDeviceInfo_len_def)
  qed
  then obtain b where b: "TunerDeviceInfo_to_bytes x = Some b" "length b = TunerDeviceInfo_len x"
    "TunerDeviceInfo_try_from_bytes b = Ok x" by blast
  then show "\<exists>b. TunerDeviceInfo_to_bytes x = Some b" by blast
  fix b' assume "TunerDeviceInfo_to_bytes x = Some b'"
  with b show "length b' = TunerDeviceInfo_len x" "TunerDeviceInfo_try_from_bytes b' = Ok x"
    by simp_all
next
  fix bs show "TunerDeviceInfo_try_from_bytes bs \<noteq> Panic"
    by (auto simp: TunerDeviceInfo_try_from_bytes_def Let_def split: if_splits)
next
  fix bs x assume "TunerDeviceInfo_try_from_bytes bs = Ok x"
  then show "TunerDeviceInfo_valid x" "TunerDeviceInfo_len x \<le> length bs"
    "in_range (Only [5, 8]) (length bs)"
    by (auto simp: TunerDeviceInfo_try_from_bytes_def TunerDeviceInfo_valid_def
        TunerDeviceInfo_len_def Let_def dest: DigitalServiceId.dec_valid split: if_splits)
qed

section \<open>External sources\<close>

datatype ExternalSource = Plug u8 | PhysicalAddress PhysicalAddress

primrec ExternalSource_to_bytes :: "ExternalSource \<Rightarrow> u8 list option" where
  "ExternalSource_to_bytes (Plug plug) = Some [plug]" |
  "ExternalSource_to_bytes (ExternalSource.PhysicalAddress phys_addr) =
     PhysicalAddress_to_bytes phys_addr"

definition ExternalSource_try_from_bytes :: "u8 list \<Rightarrow> ExternalSource result" where
  "ExternalSource_try_from_bytes bs =
     and_then (check (Only [1, 2]) (length bs) ''bytes'') (\<lambda>_.
     if length bs = 1 then and_then (index bs 0) (\<lambda>b. Ok (Plug b))
     else if length bs = 2 then
       and_then (PhysicalAddress_try_from_bytes bs) (\<lambda>a. Ok (ExternalSource.PhysicalAddress a))
     else Panic)"

primrec ExternalSource_len :: "ExternalSource \<Rightarrow> nat" where
  "ExternalSource_len (Plug _) = 1" |
  "ExternalSource_len (ExternalSource.PhysicalAddress _) = 2"

lemma ExternalSource_codec [codec]:
  "ExternalSource_try_from_bytes [b] = Ok (Plug b)"
  "ExternalSource_try_from_bytes [hi, lo] =
     Ok (ExternalSource.PhysicalAddress (PhysicalAddress.PhysicalAddress (push_bit 8 (ucast hi) OR ucast lo)))"
  by (simp_all add: ExternalSource_try_from_bytes_def codec check_Ok)

interpretation ExternalSource: operand "\<lambda>_. True" ExternalSource_to_bytes
    ExternalSource_try_from_bytes ExternalSource_len "Only [1, 2]"
proof
  fix x :: ExternalSource
  have b: "\<exists>b. ExternalSource_to_bytes x = Some b \<and> length b = ExternalSource_len x \<and>
      ExternalSource_try_from_bytes b = Ok x"
    by (cases x) (simp_all add: ExternalSource_try_from_bytes_def codec check_Ok)
  then show "\<exists>b. ExternalSource_to_bytes x = Some b" by blast
  fix b' assume "ExternalSource_to_bytes x = Some b'"
  with b show "length b' = ExternalSource_len x" "ExternalSource_try_from_bytes b' = Ok x"
    by auto
next
  fix bs show "ExternalSource_try_from_bytes bs \<noteq> Panic"
    by (auto simp: ExternalSource_try_from_bytes_def split: if_splits)
next
  fix bs x assume "ExternalSource_try_from_bytes bs = Ok x"
  then show "ExternalSource_len x \<le> length bs" "in_range (Only [1, 2]) (length bs)"
    by (auto simp: ExternalSource_try_from_bytes_def split: if_splits)
qed simp

section \<open>Record sources\<close>

datatype RecordSource =
  Own | DigitalService DigitalServiceId | AnalogueService AnalogueServiceId |
  External ExternalSource

definition RecordSource_to_bytes :: "RecordSource \<Rightarrow> u8 list option" where
  "RecordSource_to_bytes x =
     (case x of
        RecordSource.Own \<Rightarrow> RecordSourceType_to_bytes RecordSourceType.Own
      | DigitalService s \<Rightarrow>
          emit [RecordSourceType_to_bytes RecordSourceType.Digital,
                DigitalServiceId_to_bytes s]
      | AnalogueService s \<Rightarrow>
          emit [RecordSourceType_to_bytes RecordSourceType.Analogue,
                AnalogueServiceId_to_bytes s]
      | External source \<Rightarrow>
          emit [case source of
                  Plug _ \<Rightarrow> RecordSourceType_to_bytes RecordSourceType.ExternalPlug
                | ExternalSource.PhysicalAddress _ \<Rightarrow>
                    RecordSourceType_to_bytes RecordSourceType.ExternalPhysicalAddress,
                ExternalSource_to_bytes source])"

definition RecordSource_try_from_bytes :: "u8 list \<Rightarrow> RecordSource result" where
  "RecordSource_try_from_bytes bs =
     and_then (RecordSourceType_try_from_bytes bs) (\<lambda>record_source_type.
     case record_source_type of
       RecordSourceType.Own \<Rightarrow> Ok RecordSource.Own
     | RecordSourceType.Digital \<Rightarrow>
         with_field DigitalServiceId_try_from_bytes (\<lambda>_. 7) bs 1 (\<lambda>x _. Ok (DigitalService x))
     | RecordSourceType.Analogue \<Rightarrow>
         with_field AnalogueServiceId_try_from_bytes (\<lambda>_. 4) bs 1 (\<lambda>x _. Ok (AnalogueService x))
     | RecordSourceType.ExternalPlug \<Rightarrow>
         and_then (check (AtLeast 2) (length bs) ''bytes'') (\<lambda>_.
         and_then (index bs 1) (\<lambda>b. Ok (External (Plug b))))
     | RecordSourceType.ExternalPhysicalAddress \<Rightarrow>
         with_field PhysicalAddress_try_from_bytes (\<lambda>_. 2) bs 1 (\<lambda>a _.
         Ok (External (ExternalSource.PhysicalAddress a))))"

definition RecordSource_len :: "RecordSource \<Rightarrow> nat" where
  "RecordSource_len x =
     (case x of
        RecordSource.Own \<Rightarrow> 0
      | DigitalService _ \<Rightarrow> 7
      | AnalogueService _ \<Rightarrow> 4
      | External source \<Rightarrow> ExternalSource_len source) + 1"

definition RecordSource_valid :: "RecordSource \<Rightarrow> bool" where
  "RecordSource_valid x =
     (case x of DigitalService s \<Rightarrow> DigitalServiceId_valid s | _ \<Rightarrow> True)"

interpretation RecordSource: prefix_operand RecordSource_valid RecordSource_to_bytes
    RecordSource_try_from_bytes RecordSource_len "AtLeast 1"
proof (rule prefix_operandI)
  fix x assume v: "RecordSource_valid x"
  have analogue: "\<exists>b. AnalogueServiceId_to_bytes s = Some b \<and> length b = 4 \<and>
      (\<forall>rest. AnalogueServiceId_try_from_bytes (b @ rest) = Ok s)" for s
    by (metis AnalogueServiceId.prefix_cases)
  have digital: "DigitalServiceId_valid s \<Longrightarrow> \<exists>b. DigitalServiceId_to_bytes s = Some b \<and>
      length b = 7 \<and> (\<forall>rest. DigitalServiceId_try_from_bytes (b @ rest) = Ok s)" for s
    by (metis DigitalServiceId.prefix_cases)
  note simps = RecordSource_to_bytes_def RecordSource_try_from_bytes_def RecordSource_len_def
    RecordSource_valid_def RecordSourceType.enum_codec with_field_def check_Ok codec
  show "\<exists>b. RecordSource_to_bytes x = Some b \<and> length b = RecordSource_len x \<and>
      (\<forall>rest. RecordSource_try_from_bytes (b @ rest) = Ok x)"
  proof (cases x)
    case Own
    then show ?thesis using RecordSourceType.enum_codec(2) [of RecordSourceType.Own]
      by (simp add: simps del: RecordSourceType_into.simps)
  next
    case (DigitalService s)
    then show ?thesis using v digital [of s]
      by (auto simp add: simps simp del: RecordSourceType_into.simps)
  next
    case (AnalogueService s)
    then show ?thesis using analogue [of s]
      by (auto simp add: simps simp del: RecordSourceType_into.simps)
  next
    case (External s)
    then show ?thesis
      by (cases s) (simp_all add: simps del: RecordSourceType_into.simps)
  qed
next
  fix bs show "RecordSource_try_from_bytes bs \<noteq> Panic"
    by (auto simp: RecordSource_try_from_bytes_def dest: RecordSourceType.dec_len
        elim!: codec_panic split: RecordSourceType.splits)
next
  fix bs x assume "RecordSource_try_from_bytes bs = Ok x"
  then show "RecordSource_valid x \<and> RecordSource_len x \<le> length bs \<and>
      in_range (AtLeast 1) (length bs)"
    by (auto simp: RecordSource_try_from_bytes_def RecordSource_valid_def RecordSource_len_def
        dest: RecordSourceType.dec_len elim!: codec_inv split: RecordSourceType.splits)
      (metis RecordSourceType.exhaust)+
qed

end
