(* ===== verification/OperandUi.thy ===== *)
theory OperandUi
  imports OperandSources
begin

text \<open>
  \<open>UiCommand\<close> (\<open>linux-cec/src/operand.rs\<close>), the code of a key of the remote control, seven of
  which carry an optional operand. The match on the first byte compares it with distinct
  constants, so the arms without operand are a table here.
\<close>

datatype (plugins only: size) UiCommand =
  Select | Up | Down | Left | Right | RightUp | RightDown | LeftUp | LeftDown |
  DeviceRootMenu | DeviceSetupMenu | ContentsMenu | FavoriteMenu | Back | MediaTopMenu |
  MediaContextSensitiveMenu | NumberEntryMode | Number11 | Number12 | Number0OrNumber10 |
  Number1 | Number2 | Number3 | Number4 | Number5 | Number6 | Number7 | Number8 | Number9 |
  Dot | Enter | Clear | NextFavorite | ChannelUp | ChannelDown | PreviousChannel |
  SoundSelect | InputSelect | DisplayInformation | Help | PageUp | PageDown | Power |
  VolumeUp | VolumeDown | Mute | Play | Stop | Pause | Record | Rewind | FastForward | Eject |
  SkipForward | SkipBackward | StopRecord | PauseRecord | Angle | SubPicture | VideoOnDemand |
  ElectronicProgramGuide | TimerProgramming | InitialConfiguration |
  SelectBroadcastType "UiBroadcastType option" |
  SelectSoundPresentation "UiSoundPresentationControl option" | AudioDescription | Internet |
  ThreeDMode | PlayFunction "PlayMode option" | PausePlayFunction | RecordFunction |
  PauseRecordFunction | StopFunction | MuteFunction | RestoreVolumeFunction |
  TuneFunction "ChannelId option" | SelectMediaFunction "u8 option" |
  SelectAvInputFunction "u8 option" | SelectAudioInputFunction "u8 option" |
  PowerToggleFunction | PowerOffFunction | PowerOnFunction | F1Blue | F2Red | F3Green |
  F4Yellow | F5 | Data

text \<open>The discriminant of a variant, which \<open>to_bytes\<close> reads from the first byte of the value.\<close>

primrec UiCommand_discriminant :: "UiCommand \<Rightarrow> u8" where
  "UiCommand_discriminant UiCommand.Select = 0" |
  "UiCommand_discriminant UiCommand.Up = 1" |
  "UiCommand_discriminant UiCommand.Down = 2" |
  "UiCommand_discriminant UiCommand.Left = 3" |
  "UiCommand_discriminant UiCommand.Right = 4" |
  "UiCommand_discriminant UiCommand.RightUp = 5" |
  "UiCommand_discriminant UiCommand.RightDown = 6" |
  "UiCommand_discriminant UiCommand.LeftUp = 7" |
  "UiCommand_discriminant UiCommand.LeftDown = 8" |
  "UiCommand_discriminant UiCommand.DeviceRootMenu = 9" |
  "UiCommand_discriminant UiCommand.DeviceSetupMenu = 0x0A" |
  "UiCommand_discriminant UiCommand.ContentsMenu = 0x0B" |
  "UiCommand_discriminant UiCommand.FavoriteMenu = 0x0C" |
  "UiCommand_discriminant UiCommand.Back = 0x0D" |
  "UiCommand_discriminant UiCommand.MediaTopMenu = 0x10" |
  "UiCommand_discriminant UiCommand.MediaContextSensitiveMenu = 0x11" |
  "UiCommand_discriminant UiCommand.NumberEntryMode = 0x1D" |
  "UiCommand_discriminant UiCommand.Number11 = 0x1E" |
  "UiCommand_discriminant UiCommand.Number12 = 0x1F" |
  "UiCommand_discriminant UiCommand.Number0OrNumber10 = 0x20" |
  "UiCommand_discriminant UiCommand.Number1 = 0x21" |
  "UiCommand_discriminant UiCommand.Number2 = 0x22" |
  "UiCommand_discriminant UiCommand.Number3 = 0x23" |
  "UiCommand_discriminant UiCommand.Number4 = 0x24" |
  "UiCommand_discriminant UiCommand.Number5 = 0x25" |
  "UiCommand_discriminant UiCommand.Number6 = 0x26" |
  "UiCommand_discriminant UiCommand.Number7 = 0x27" |
  "UiCommand_discriminant UiCommand.Number8 = 0x28" |
  "UiCommand_discriminant UiCommand.Number9 = 0x29" |
  "UiCommand_discriminant UiCommand.Dot = 0x2A" |
  "UiCommand_discriminant UiCommand.Enter = 0x2B" |
  "UiCommand_discriminant UiCommand.Clear = 0x2C" |
  "UiCommand_discriminant UiCommand.NextFavorite = 0x2F" |
  "UiCommand_discriminant UiCommand.ChannelUp = 0x30" |
  "UiCommand_discriminant UiCommand.ChannelDown = 0x31" |
  "UiCommand_discriminant UiCommand.PreviousChannel = 0x32" |
  "UiCommand_discriminant UiCommand.SoundSelect = 0x33" |
  "UiCommand_discriminant UiCommand.InputSelect = 0x34" |
  "UiCommand_discriminant UiCommand.DisplayInformation = 0x35" |
  "UiCommand_discriminant UiCommand.Help = 0x36" |
  "UiCommand_discriminant UiCommand.PageUp = 0x37" |
  "UiCommand_discriminant UiCommand.PageDown = 0x38" |
  "UiCommand_discriminant UiCommand.Power = 0x40" |
  "UiCommand_discriminant UiCommand.VolumeUp = 0x41" |
  "UiCommand_discriminant UiCommand.VolumeDown = 0x42" |
  "UiCommand_discriminant UiCommand.Mute = 0x43" |
  "UiCommand_discriminant UiCommand.Play = 0x44" |
  "UiCommand_discriminant UiCommand.Stop = 0x45" |
  "UiCommand_discriminant UiCommand.Pause = 0x46" |
  "UiCommand_discriminant UiCommand.Record = 0x47" |
  "UiCommand_discriminant UiCommand.Rewind = 0x48" |
  "UiCommand_discriminant UiCommand.FastForward = 0x49" |
  "UiCommand_discriminant UiCommand.Eject = 0x4A" |
  "UiCommand_discriminant UiCommand.SkipForward = 0x4B" |
  "UiCommand_discriminant UiCommand.SkipBackward = 0x4C" |
  "UiCommand_discriminant UiCommand.StopRecord = 0x4D" |
  "UiCommand_discriminant UiCommand.PauseRecord = 0x4E" |
  "UiCommand_discriminant UiCommand.Angle = 0x50" |
  "UiCommand_discriminant UiCommand.SubPicture = 0x51" |
  "UiCommand_discriminant UiCommand.VideoOnDemand = 0x52" |
  "UiCommand_discriminant UiCommand.ElectronicProgramGuide = 0x53" |
  "UiCommand_discriminant UiCommand.TimerProgramming = 0x54" |
  "UiCommand_discriminant UiCommand.InitialConfiguration = 0x55" |
  "UiCommand_discriminant (UiCommand.SelectBroadcastType _) = 0x56" |
  "UiCommand_discriminant (UiCommand.SelectSoundPresentation _) = 0x57" |
  "UiCommand_discriminant UiCommand.AudioDescription = 0x58" |
  "UiCommand_discriminant UiCommand.Internet = 0x59" |
  "UiCommand_discriminant UiCommand.ThreeDMode = 0x5A" |
  "UiCommand_discriminant (UiCommand.PlayFunction _) = 0x60" |
  "UiCommand_discriminant UiCommand.PausePlayFunction = 0x61" |
  "UiCommand_discriminant UiCommand.RecordFunction = 0x62" |
  "UiCommand_discriminant UiCommand.PauseRecordFunction = 0x63" |
  "UiCommand_discriminant UiCommand.StopFunction = 0x64" |
  "UiCommand_discriminant UiCommand.MuteFunction = 0x65" |
  "UiCommand_discriminant UiCommand.RestoreVolumeFunction = 0x66" |
  "UiCommand_discriminant (UiCommand.TuneFunction _) = 0x67" |
  "UiCommand_discriminant (UiCommand.SelectMediaFunction _) = 0x68" |
  "UiCommand_discriminant (UiCommand.SelectAvInputFunction _) = 0x69" |
  "UiCommand_discriminant (UiCommand.SelectAudioInputFunction _) = 0x6A" |
  "UiCommand_discriminant UiCommand.PowerToggleFunction = 0x6B" |
  "UiCommand_discriminant UiCommand.PowerOffFunction = 0x6C" |
  "UiCommand_discriminant UiCommand.PowerOnFunction = 0x6D" |
  "UiCommand_discriminant UiCommand.F1Blue = 0x71" |
  "UiCommand_discriminant UiCommand.F2Red = 0x72" |
  "UiCommand_discriminant UiCommand.F3Green = 0x73" |
  "UiCommand_discriminant UiCommand.F4Yellow = 0x74" |
  "UiCommand_discriminant UiCommand.F5 = 0x75" |
  "UiCommand_discriminant UiCommand.Data = 0x76"

definition UiCommand_operand_to_bytes :: "UiCommand \<Rightarrow> u8 list option" where
  "UiCommand_operand_to_bytes cmd =
     (case cmd of
       UiCommand.SelectBroadcastType x \<Rightarrow> option_to_bytes UiBroadcastType_to_bytes x
     | UiCommand.SelectSoundPresentation x \<Rightarrow> option_to_bytes UiSoundPresentationControl_to_bytes x
     | UiCommand.PlayFunction x \<Rightarrow> option_to_bytes PlayMode_to_bytes x
     | UiCommand.TuneFunction x \<Rightarrow> option_to_bytes ChannelId_to_bytes x
     | UiCommand.SelectMediaFunction x \<Rightarrow> option_to_bytes u8_to_bytes x
     | UiCommand.SelectAvInputFunction x \<Rightarrow> option_to_bytes u8_to_bytes x
     | UiCommand.SelectAudioInputFunction x \<Rightarrow> option_to_bytes u8_to_bytes x
     | _ \<Rightarrow> Some [])"

definition UiCommand_to_bytes :: "UiCommand \<Rightarrow> u8 list option" where
  "UiCommand_to_bytes cmd =
     emit [Some [UiCommand_discriminant cmd], UiCommand_operand_to_bytes cmd]"

definition UiCommand_len :: "UiCommand \<Rightarrow> nat" where
  "UiCommand_len cmd =
     (case cmd of
       UiCommand.SelectBroadcastType x \<Rightarrow> option_len one_byte x
     | UiCommand.SelectSoundPresentation x \<Rightarrow> option_len one_byte x
     | UiCommand.PlayFunction x \<Rightarrow> option_len one_byte x
     | UiCommand.TuneFunction x \<Rightarrow> option_len (\<lambda>_. 4) x
     | UiCommand.SelectMediaFunction x \<Rightarrow> option_len one_byte x
     | UiCommand.SelectAvInputFunction x \<Rightarrow> option_len one_byte x
     | UiCommand.SelectAudioInputFunction x \<Rightarrow> option_len one_byte x
     | _ \<Rightarrow> 0) + 1"

definition UiCommand_simple :: "(u8 \<times> UiCommand) list" where
  "UiCommand_simple =
     [(0, UiCommand.Select), (1, UiCommand.Up), (2, UiCommand.Down), (3, UiCommand.Left),
      (4, UiCommand.Right), (5, UiCommand.RightUp), (6, UiCommand.RightDown),
      (7, UiCommand.LeftUp), (8, UiCommand.LeftDown), (9, UiCommand.DeviceRootMenu),
      (0x0A, UiCommand.DeviceSetupMenu), (0x0B, UiCommand.ContentsMenu),
      (0x0C, UiCommand.FavoriteMenu), (0x0D, UiCommand.Back), (0x10, UiCommand.MediaTopMenu),
      (0x11, UiCommand.MediaContextSensitiveMenu), (0x1D, UiCommand.NumberEntryMode),
      (0x1E, UiCommand.Number11), (0x1F, UiCommand.Number12),
      (0x20, UiCommand.Number0OrNumber10), (0x21, UiCommand.Number1),
      (0x22, UiCommand.Number2), (0x23, UiCommand.Number3), (0x24, UiCommand.Number4),
      (0x25, UiCommand.Number5), (0x26, UiCommand.Number6), (0x27, UiCommand.Number7),
      (0x28, UiCommand.Number8), (0x29, UiCommand.Number9), (0x2A, UiCommand.Dot),
      (0x2B, UiCommand.Enter), (0x2C, UiCommand.Clear), (0x2F, UiCommand.NextFavorite),
      (0x30, UiCommand.ChannelUp), (0x31, UiCommand.ChannelDown),
      (0x32, UiCommand.PreviousChannel), (0x33, UiCommand.SoundSelect),
      (0x34, UiCommand.InputSelect), (0x35, UiCommand.DisplayInformation),
      (0x36, UiCommand.Help), (0x37, UiCommand.PageUp), (0x38, UiCommand.PageDown),
      (0x40, UiCommand.Power), (0x41, UiCommand.VolumeUp), (0x42, UiCommand.VolumeDown),
      (0x43, UiCommand.Mute), (0x44, UiCommand.Play), (0x45, UiCommand.Stop),
      (0x46, UiCommand.Pause), (0x47, UiCommand.Record), (0x48, UiCommand.Rewind),
      (0x49, UiCommand.FastForward), (0x4A, UiCommand.Eject), (0x4B, UiCommand.SkipForward),
      (0x4C, UiCommand.SkipBackward), (0x4D, UiCommand.StopRecord),
      (0x4E, UiCommand.PauseRecord), (0x50, UiCommand.Angle), (0x51, UiCommand.SubPicture),
      (0x52, UiCommand.VideoOnDemand), (0x53, UiCommand.ElectronicProgramGuide),
      (0x54, UiCommand.TimerProgramming), (0x55, UiCommand.InitialConfiguration),
      (0x58, UiCommand.AudioDescription), (0x59, UiCommand.Internet),
      (0x5A, UiCommand.ThreeDMode), (0x61, UiCommand.PausePlayFunction),
      (0x62, UiCommand.RecordFunction), (0x63, UiCommand.PauseRecordFunction),
      (0x64, UiCommand.StopFunction), (0x65, UiCommand.MuteFunction),
      (0x66, UiCommand.RestoreVolumeFunction), (0x6B, UiCommand.PowerToggleFunction),
      (0x6C, UiCommand.PowerOffFunction), (0x6D, UiCommand.PowerOnFunction),
      (0x71, UiCommand.F1Blue), (0x72, UiCommand.F2Red), (0x73, UiCommand.F3Green),
      (0x74, UiCommand.F4Yellow), (0x75, UiCommand.F5), (0x76, UiCommand.Data)]"

definition UiCommand_try_from_bytes :: "u8 list \<Rightarrow> UiCommand result" where
  "UiCommand_try_from_bytes bs =
     and_then (check (AtLeast 1) (length bs) ''bytes'') (\<lambda>_.
     and_then (index bs 0) (\<lambda>b.
     if b = 0x56 then
       and_then (slice_from bs 1) (\<lambda>s.
       and_then (option_try_from_bytes UiBroadcastType_try_from_bytes s) (\<lambda>x. Ok (UiCommand.SelectBroadcastType x)))
     else if b = 0x57 then
       and_then (slice_from bs 1) (\<lambda>s.
       and_then (option_try_from_bytes UiSoundPresentationControl_try_from_bytes s) (\<lambda>x. Ok (UiCommand.SelectSoundPresentation x)))
     else if b = 0x60 then
       and_then (slice_from bs 1) (\<lambda>s.
       and_then (option_try_from_bytes PlayMode_try_from_bytes s) (\<lambda>x. Ok (UiCommand.PlayFunction x)))
     else if b = 0x67 then
       and_then (slice_from bs 1) (\<lambda>s.
       and_then (option_try_from_bytes ChannelId_try_from_bytes s) (\<lambda>x. Ok (UiCommand.TuneFunction x)))
     else if b = 0x68 then
       and_then (slice_from bs 1) (\<lambda>s.
       and_then (option_try_from_bytes u8_try_from_bytes s) (\<lambda>x. Ok (UiCommand.SelectMediaFunction x)))
     else if b = 0x69 then
       and_then (slice_from bs 1) (\<lambda>s.
       and_then (option_try_from_bytes u8_try_from_bytes s) (\<lambda>x. Ok (UiCommand.SelectAvInputFunction x)))
     else if b = 0x6A then
       and_then (slice_from bs 1) (\<lambda>s.
       and_then (option_try_from_bytes u8_try_from_bytes s) (\<lambda>x. Ok (UiCommand.SelectAudioInputFunction x)))
     else case map_of UiCommand_simple b of
       Some cmd \<Rightarrow> Ok cmd
     | None \<Rightarrow> Err (InvalidValueForType ''UiCommand'' (show_u8 b))))"

definition UiCommand_valid :: "UiCommand \<Rightarrow> bool" where
  "UiCommand_valid cmd =
     (case cmd of UiCommand.TuneFunction x \<Rightarrow> pred_option ChannelId_valid x | _ \<Rightarrow> True)"

definition UiCommand_operand_codes :: "u8 list" where
  "UiCommand_operand_codes = [0x56, 0x57, 0x60, 0x67, 0x68, 0x69, 0x6A]"

interpretation ChannelId: nonempty_operand ChannelId_valid ChannelId_to_bytes
    ChannelId_try_from_bytes "\<lambda>_. 4" "AtLeast 4"
  by unfold_locales simp

text \<open>The table is exactly the commands without operand, under their discriminants.\<close>

lemma UiCommand_simple_distinct: "distinct (map fst UiCommand_simple)"
  by (simp add: UiCommand_simple_def)

lemma UiCommand_simple_all:
  "list_all (\<lambda>(b, cmd). UiCommand_discriminant cmd = b \<and> UiCommand_operand_to_bytes cmd = Some [] \<and>
     UiCommand_len cmd = 1 \<and> UiCommand_valid cmd \<and> b \<notin> set UiCommand_operand_codes)
   UiCommand_simple"
  by (simp add: UiCommand_simple_def UiCommand_operand_to_bytes_def UiCommand_len_def
      UiCommand_valid_def UiCommand_operand_codes_def)

lemma UiCommand_simple_or_operand:
  "UiCommand_discriminant cmd \<notin> set UiCommand_operand_codes \<Longrightarrow>
   (UiCommand_discriminant cmd, cmd) \<in> set UiCommand_simple"
  by (cases cmd; simp add: UiCommand_simple_def UiCommand_operand_codes_def)

lemma UiCommand_simple_Ok:
  assumes "(b, cmd) \<in> set UiCommand_simple"
  shows "UiCommand_to_bytes cmd = Some [b]" "UiCommand_len cmd = 1" "UiCommand_valid cmd"
    "b \<notin> set UiCommand_operand_codes" "map_of UiCommand_simple b = Some cmd"
    "UiCommand_discriminant cmd = b"
  using assms UiCommand_simple_all UiCommand_simple_distinct
  by (auto simp: list_all_iff UiCommand_to_bytes_def map_of_eq_Some_iff)

lemma UiCommand_operand_cases:
  assumes "UiCommand_discriminant cmd \<in> set UiCommand_operand_codes"
  obtains (SelectBroadcastType) x where "cmd = SelectBroadcastType x"
    | (SelectSoundPresentation) x where "cmd = SelectSoundPresentation x"
    | (PlayFunction) x where "cmd = PlayFunction x"
    | (TuneFunction) x where "cmd = TuneFunction x"
    | (SelectMediaFunction) x where "cmd = SelectMediaFunction x"
    | (SelectAvInputFunction) x where "cmd = SelectAvInputFunction x"
    | (SelectAudioInputFunction) x where "cmd = SelectAudioInputFunction x"
  using assms by (cases cmd; simp add: UiCommand_operand_codes_def)

lemma UiCommand_operand_rt:
  assumes "UiCommand_valid cmd" "UiCommand_discriminant cmd \<in> set UiCommand_operand_codes"
  shows "\<exists>b. UiCommand_to_bytes cmd = Some b \<and> length b = UiCommand_len cmd \<and>
    UiCommand_try_from_bytes b = Ok cmd"
  using assms(2)
proof (cases cmd rule: UiCommand_operand_cases)
  case (SelectBroadcastType x)
  obtain b where "option_to_bytes UiBroadcastType_to_bytes x = Some b" "length b = option_len one_byte x"
    "option_try_from_bytes UiBroadcastType_try_from_bytes b = Ok x"
    by (rule UiBroadcastType.opt.enc_cases [OF pred_option_True]) (rule that)
  with SelectBroadcastType show ?thesis
    by (simp add: UiCommand_to_bytes_def UiCommand_operand_to_bytes_def UiCommand_len_def
        UiCommand_try_from_bytes_def check_Ok)
next
  case (SelectSoundPresentation x)
  obtain b where "option_to_bytes UiSoundPresentationControl_to_bytes x = Some b"
    "length b = option_len one_byte x"
    "option_try_from_bytes UiSoundPresentationControl_try_from_bytes b = Ok x"
    by (rule UiSoundPresentationControl.opt.enc_cases [OF pred_option_True]) (rule that)
  with SelectSoundPresentation show ?thesis
    by (simp add: UiCommand_to_bytes_def UiCommand_operand_to_bytes_def UiCommand_len_def
        UiCommand_try_from_bytes_def check_Ok)
next
  case (PlayFunction x)
  obtain b where "option_to_bytes PlayMode_to_bytes x = Some b" "length b = option_len one_byte x"
    "option_try_from_bytes PlayMode_try_from_bytes b = Ok x"
    by (rule PlayMode.opt.enc_cases [OF pred_option_True]) (rule that)
  with PlayFunction show ?thesis
    by (simp add: UiCommand_to_bytes_def UiCommand_operand_to_bytes_def UiCommand_len_def
        UiCommand_try_from_bytes_def check_Ok)
next
  case (TuneFunction x)
  with assms(1) have "pred_option ChannelId_valid x"
    by (simp add: UiCommand_valid_def)
  then obtain b where "option_to_bytes ChannelId_to_bytes x = Some b"
    "length b = option_len (\<lambda>_. 4) x" "option_try_from_bytes ChannelId_try_from_bytes b = Ok x"
    by (rule ChannelId.opt.enc_cases) (rule that)
  with TuneFunction show ?thesis
    by (simp add: UiCommand_to_bytes_def UiCommand_operand_to_bytes_def UiCommand_len_def
        UiCommand_try_from_bytes_def check_Ok)
next
  case (SelectMediaFunction x)
  obtain b where "option_to_bytes u8_to_bytes x = Some b" "length b = option_len one_byte x"
    "option_try_from_bytes u8_try_from_bytes b = Ok x"
    by (rule u8.opt.enc_cases [OF pred_option_True]) (rule that)
  with SelectMediaFunction show ?thesis
    by (simp add: UiCommand_to_bytes_def UiCommand_operand_to_bytes_def UiCommand_len_def
        UiCommand_try_from_bytes_def check_Ok)
next
  case (SelectAvInputFunction x)
  obtain b where "option_to_bytes u8_to_bytes x = Some b" "length b = option_len one_byte x"
    "option_try_from_bytes u8_try_from_bytes b = Ok x"
    by (rule u8.opt.enc_cases [OF pred_option_True]) (rule that)
  with SelectAvInputFunction show ?thesis
    by (simp add: UiCommand_to_bytes_def UiCommand_operand_to_bytes_def UiCommand_len_def
        UiCommand_try_from_bytes_def check_Ok)
next
  case (SelectAudioInputFunction x)
  obtain b where "option_to_bytes u8_to_bytes x = Some b" "length b = option_len one_byte x"
    "option_try_from_bytes u8_try_from_bytes b = Ok x"
    by (rule u8.opt.enc_cases [OF pred_option_True]) (rule that)
  with SelectAudioInputFunction show ?thesis
    by (simp add: UiCommand_to_bytes_def UiCommand_operand_to_bytes_def UiCommand_len_def
        UiCommand_try_from_bytes_def check_Ok)
qed

lemma UiCommand_simple_rt:
  assumes "UiCommand_discriminant cmd \<notin> set UiCommand_operand_codes"
  shows "UiCommand_to_bytes cmd = Some [UiCommand_discriminant cmd]" "UiCommand_len cmd = 1"
    "UiCommand_try_from_bytes [UiCommand_discriminant cmd] = Ok cmd"
  using UiCommand_simple_Ok [OF UiCommand_simple_or_operand [OF assms]]
  by (simp_all add: UiCommand_try_from_bytes_def check_Ok UiCommand_operand_codes_def)

interpretation UiCommand: operand UiCommand_valid UiCommand_to_bytes UiCommand_try_from_bytes
    UiCommand_len "AtLeast 1"
proof
  fix cmd assume v: "UiCommand_valid cmd"
  have "\<exists>b. UiCommand_to_bytes cmd = Some b \<and> length b = UiCommand_len cmd \<and>
      UiCommand_try_from_bytes b = Ok cmd"
    using UiCommand_operand_rt [OF v] UiCommand_simple_rt [of cmd]
    by (cases "UiCommand_discriminant cmd \<in> set UiCommand_operand_codes") auto
  then obtain b where b: "UiCommand_to_bytes cmd = Some b" "length b = UiCommand_len cmd"
    "UiCommand_try_from_bytes b = Ok cmd" by blast
  then show "\<exists>b. UiCommand_to_bytes cmd = Some b" by blast
  fix b' assume "UiCommand_to_bytes cmd = Some b'"
  with b show "length b' = UiCommand_len cmd" "UiCommand_try_from_bytes b' = Ok cmd" by simp_all
next
  fix bs show "UiCommand_try_from_bytes bs \<noteq> Panic"
    by (auto simp: UiCommand_try_from_bytes_def split: if_splits option.splits)
next
  fix bs cmd assume ok: "UiCommand_try_from_bytes bs = Ok cmd"
  have simple: "UiCommand_valid cmd" "UiCommand_len cmd = 1"
    if "map_of UiCommand_simple b = Some cmd" for b
    using that UiCommand_simple_Ok [of b cmd] by (auto dest: map_of_SomeD)
  from ok simple show "UiCommand_valid cmd"
    by (auto simp: UiCommand_try_from_bytes_def UiCommand_valid_def
        dest: ChannelId.opt.dec_valid split: if_splits option.splits)
  from ok show "in_range (AtLeast 1) (length bs)"
    by (simp add: UiCommand_try_from_bytes_def)
  from ok simple show "UiCommand_len cmd \<le> length bs"
    by (auto simp: UiCommand_try_from_bytes_def UiCommand_len_def slice_from_eq_Ok
        dest!: UiBroadcastType.opt.dec_len UiSoundPresentationControl.opt.dec_len PlayMode.opt.dec_len
          ChannelId.opt.dec_len u8.opt.dec_len split: if_splits option.splits)
qed

end
