(* ===== verification/Addresses.thy ===== *)
theory Addresses
  imports OperandUi
begin

text \<open>
  Vendor identifiers (\<open>linux-cec/src/lib.rs\<close>) as operands of messages, and the buffers and
  optional operands that messages contain.
\<close>

section \<open>Vendor identifiers\<close>

text \<open>\<open>VendorId([u8; 3])\<close>; the invariant is the length of the array.\<close>

datatype VendorId = VendorId (VendorId_octets: "u8 list")

definition VendorId_valid :: "VendorId \<Rightarrow> bool" where
  "VendorId_valid v \<longleftrightarrow> length (VendorId_octets v) = 3"

definition VendorId_to_bytes :: "VendorId \<Rightarrow> u8 list option" where
  "VendorId_to_bytes v = array_to_bytes (VendorId_octets v)"

definition VendorId_try_from_bytes :: "u8 list \<Rightarrow> VendorId result" where
  "VendorId_try_from_bytes bs =
     and_then (check (AtLeast 3) (length bs) ''bytes'') (\<lambda>_.
     and_then (unwrap_option (first_chunk 3 (take 3 bs))) (\<lambda>buf.
     Ok (VendorId buf)))"

interpretation VendorId: prefix_operand VendorId_valid VendorId_to_bytes VendorId_try_from_bytes
    "\<lambda>_. 3" "AtLeast 3"
proof (rule prefix_operandI)
  fix x assume "VendorId_valid x"
  then show "\<exists>b. VendorId_to_bytes x = Some b \<and> length b = 3 \<and>
      (\<forall>rest. VendorId_try_from_bytes (b @ rest) = Ok x)"
    by (cases x) (simp add: VendorId_valid_def VendorId_to_bytes_def array_to_bytes_def
        VendorId_try_from_bytes_def check_Ok first_chunk_def)
next
  fix bs show "VendorId_try_from_bytes bs \<noteq> Panic"
    by (auto simp: VendorId_try_from_bytes_def first_chunk_def)
next
  fix bs x assume "VendorId_try_from_bytes bs = Ok x"
  then show "VendorId_valid x \<and> 3 \<le> length bs \<and> in_range (AtLeast 3) (length bs)"
    by (auto simp: VendorId_try_from_bytes_def VendorId_valid_def first_chunk_def)
qed

section \<open>Buffers of other elements\<close>

text \<open>Buffers of addresses, of audio formats and of short audio descriptors.\<close>

interpretation PhysicalAddress_buffer: buffer_element "\<lambda>_. True" PhysicalAddress_to_bytes
    PhysicalAddress_try_from_bytes "\<lambda>_. 2" "AtLeast 2" 2 "PhysicalAddress.PhysicalAddress 0xFFFF"
  by unfold_locales simp_all

interpretation AudioFormat_buffer: buffer_element "\<lambda>_. True" AudioFormatIdAndCode_to_bytes
    AudioFormatIdAndCode_try_from_bytes "\<lambda>_. 1" "AtLeast 1" 1 "AudioFormatIdAndCode 0"
  by unfold_locales simp_all

interpretation descriptor_buffer: buffer_element "array_valid 3" array_to_bytes
    "array_try_from_bytes 3" "\<lambda>_. 3" "AtLeast 3" 3 "[0, 0, 0]"
  by unfold_locales simp_all

end
