(* ===== verification/Cdc.thy ===== *)
theory Cdc
  imports Addresses
begin

text \<open>
  Capability Discovery and Control (\<open>linux-cec/src/cdc.rs\<close>): the bit fields and the HDMI
  Ethernet channel field, and \<open>cdc::Message\<close> with its \<open>Opcode\<close>, here \<open>CdcMessage\<close> and
  \<open>CdcOpcode\<close>. The codec of the message is what the derive macro \<open>MessageEnum\<close>
  (\<open>linux-cec-macros/src/lib.rs\<close>) generates from the declaration; the functions \<open>_to_bytes\<close>,
  \<open>_len\<close>, \<open>_expected_len\<close> and \<open>_decode\<close> have an equation for each of its arms.
\<close>

section \<open>Bit fields\<close>

datatype CdcErrorCode = NoError | InitiatorNotCapable | InitiatorIncapableState | Other

primrec CdcErrorCode_into_bits :: "CdcErrorCode \<Rightarrow> u8" where
  "CdcErrorCode_into_bits CdcErrorCode.NoError = 0" |
  "CdcErrorCode_into_bits CdcErrorCode.InitiatorNotCapable = 1" |
  "CdcErrorCode_into_bits CdcErrorCode.InitiatorIncapableState = 2" |
  "CdcErrorCode_into_bits CdcErrorCode.Other = 3"

definition CdcErrorCode_from_bits :: "u8 \<Rightarrow> CdcErrorCode option" where
  "CdcErrorCode_from_bits bits =
     (let x = bits AND 3 in
      if x = 0 then Some CdcErrorCode.NoError
      else if x = 1 then Some CdcErrorCode.InitiatorNotCapable
      else if x = 2 then Some CdcErrorCode.InitiatorIncapableState
      else if x = 3 then Some CdcErrorCode.Other
      else None)"

datatype FunctionalityState = NotSupported | Inactive | Active | Invalid u8

primrec FunctionalityState_into_bits :: "FunctionalityState \<Rightarrow> u8" where
  "FunctionalityState_into_bits FunctionalityState.NotSupported = 0" |
  "FunctionalityState_into_bits FunctionalityState.Inactive = 1" |
  "FunctionalityState_into_bits FunctionalityState.Active = 2" |
  "FunctionalityState_into_bits (FunctionalityState.Invalid x) = x"

definition FunctionalityState_from_bits :: "u8 \<Rightarrow> FunctionalityState" where
  "FunctionalityState_from_bits bits =
     (let x = bits AND 3 in
      if x = 0 then FunctionalityState.NotSupported
      else if x = 1 then FunctionalityState.Inactive
      else if x = 2 then FunctionalityState.Active
      else FunctionalityState.Invalid x)"

datatype HecFunctionalityState = NotSupported | Inactive | Active | ActivationField

primrec HecFunctionalityState_into_bits :: "HecFunctionalityState \<Rightarrow> u8" where
  "HecFunctionalityState_into_bits HecFunctionalityState.NotSupported = 0" |
  "HecFunctionalityState_into_bits HecFunctionalityState.Inactive = 1" |
  "HecFunctionalityState_into_bits HecFunctionalityState.Active = 2" |
  "HecFunctionalityState_into_bits HecFunctionalityState.ActivationField = 3"

definition HecFunctionalityState_from_bits :: "u8 \<Rightarrow> HecFunctionalityState option" where
  "HecFunctionalityState_from_bits bits =
     (let x = bits AND 3 in
      if x = 0 then Some HecFunctionalityState.NotSupported
      else if x = 1 then Some HecFunctionalityState.Inactive
      else if x = 2 then Some HecFunctionalityState.Active
      else if x = 3 then Some HecFunctionalityState.ActivationField
      else None)"

datatype HecState = HecState (HecState_into: u8)

definition HecState_cdc_error :: "HecState \<Rightarrow> CdcErrorCode option" where
  "HecState_cdc_error x = CdcErrorCode_from_bits (HecState_into x)"

definition HecState_enc_functionality :: "HecState \<Rightarrow> FunctionalityState" where
  "HecState_enc_functionality x = FunctionalityState_from_bits (drop_bit 2 (HecState_into x))"

definition HecState_host_functionality :: "HecState \<Rightarrow> FunctionalityState" where
  "HecState_host_functionality x = FunctionalityState_from_bits (drop_bit 4 (HecState_into x))"

definition HecState_hec_functionality :: "HecState \<Rightarrow> HecFunctionalityState option" where
  "HecState_hec_functionality x = HecFunctionalityState_from_bits (drop_bit 6 (HecState_into x))"

interpretation HecState: byte_struct HecState_into HecState
  by unfold_locales simp_all

abbreviation "HecState_to_bytes \<equiv> bitfield_to_bytes HecState_into"
abbreviation "HecState_try_from_bytes \<equiv> bitfield_try_from_bytes HecState"

text \<open>The \<open>unreachable!()\<close> arms of the two-bit enums are unreachable.\<close>

lemma two_bit_fields_total:
  "CdcErrorCode_from_bits x \<noteq> None" "HecFunctionalityState_from_bits x \<noteq> None"
  using two_bits [of x]
  by (auto simp: CdcErrorCode_from_bits_def HecFunctionalityState_from_bits_def Let_def)

datatype HpdErrorCode =
  NoError | InitiatorNotCapable | InitiatorIncapableState | Other | NoVideo | Invalid u8

definition HpdErrorCode_from_bits :: "u8 \<Rightarrow> HpdErrorCode" where
  "HpdErrorCode_from_bits bits =
     (let x = bits AND 15 in
      if x = 0 then HpdErrorCode.NoError
      else if x = 1 then HpdErrorCode.InitiatorNotCapable
      else if x = 2 then HpdErrorCode.InitiatorIncapableState
      else if x = 3 then HpdErrorCode.Other
      else if x = 4 then HpdErrorCode.NoVideo
      else HpdErrorCode.Invalid x)"

primrec HpdErrorCode_into_bits :: "HpdErrorCode \<Rightarrow> u8" where
  "HpdErrorCode_into_bits HpdErrorCode.NoError = 0" |
  "HpdErrorCode_into_bits HpdErrorCode.InitiatorNotCapable = 1" |
  "HpdErrorCode_into_bits HpdErrorCode.InitiatorIncapableState = 2" |
  "HpdErrorCode_into_bits HpdErrorCode.Other = 3" |
  "HpdErrorCode_into_bits HpdErrorCode.NoVideo = 4" |
  "HpdErrorCode_into_bits (HpdErrorCode.Invalid x) = x"

datatype HpdState =
  CpAndEdidDisable | CpAndEdidEnable | CpAndEdidDisableEnable | EdidDisable | EdidEnable |
  EdidDisableEnable | Invalid u8

primrec HpdState_into_bits :: "HpdState \<Rightarrow> u8" where
  "HpdState_into_bits CpAndEdidDisable = 0" |
  "HpdState_into_bits CpAndEdidEnable = 1" |
  "HpdState_into_bits CpAndEdidDisableEnable = 2" |
  "HpdState_into_bits EdidDisable = 3" |
  "HpdState_into_bits EdidEnable = 4" |
  "HpdState_into_bits EdidDisableEnable = 5" |
  "HpdState_into_bits (HpdState.Invalid x) = x"

definition HpdState_from_bits :: "u8 \<Rightarrow> HpdState" where
  "HpdState_from_bits bits =
     (let x = bits AND 15 in
      if x = 0 then CpAndEdidDisable
      else if x = 1 then CpAndEdidEnable
      else if x = 2 then CpAndEdidDisableEnable
      else if x = 3 then EdidDisable
      else if x = 4 then EdidEnable
      else if x = 5 then EdidDisableEnable
      else HpdState.Invalid x)"

datatype InputPortHpdState = InputPortHpdState (InputPortHpdState_into: u8)

definition InputPortHpdState_state :: "InputPortHpdState \<Rightarrow> HpdState" where
  "InputPortHpdState_state x = HpdState_from_bits (InputPortHpdState_into x)"

definition InputPortHpdState_input_port :: "InputPortHpdState \<Rightarrow> nat" where
  "InputPortHpdState_input_port x = unat (drop_bit 4 (InputPortHpdState_into x) AND 15)"

interpretation InputPortHpdState: byte_struct InputPortHpdState_into InputPortHpdState
  by unfold_locales simp_all

abbreviation "InputPortHpdState_to_bytes \<equiv> bitfield_to_bytes InputPortHpdState_into"
abbreviation "InputPortHpdState_try_from_bytes \<equiv> bitfield_try_from_bytes InputPortHpdState"

datatype HpdStateErrorCode = HpdStateErrorCode (HpdStateErrorCode_into: u8)

definition HpdStateErrorCode_error_code :: "HpdStateErrorCode \<Rightarrow> HpdErrorCode" where
  "HpdStateErrorCode_error_code x = HpdErrorCode_from_bits (HpdStateErrorCode_into x)"

definition HpdStateErrorCode_state :: "HpdStateErrorCode \<Rightarrow> HpdState" where
  "HpdStateErrorCode_state x = HpdState_from_bits (drop_bit 4 (HpdStateErrorCode_into x))"

interpretation HpdStateErrorCode: byte_struct HpdStateErrorCode_into HpdStateErrorCode
  by unfold_locales simp_all

abbreviation "HpdStateErrorCode_to_bytes \<equiv> bitfield_to_bytes HpdStateErrorCode_into"
abbreviation "HpdStateErrorCode_try_from_bytes \<equiv> bitfield_try_from_bytes HpdStateErrorCode"

section \<open>The HDMI Ethernet channel field\<close>

text \<open>\<open>input\<close> and \<open>output\<close> of the code are \<open>inputs\<close> and \<open>output_on\<close>; the first is an array of 14 booleans; the invariant is its length.\<close>

record HecField =
  inputs :: "bool list"
  output_on :: bool

definition HecField_valid :: "HecField \<Rightarrow> bool" where
  "HecField_valid x \<longleftrightarrow> length (inputs x) = 14"

definition HecField_word :: "HecField \<Rightarrow> u16" where
  "HecField_word x =
     fold (\<lambda>(idx, bit) accum. accum OR push_bit idx (if bit then 1 else 0))
       (enumerate 0 (inputs x)) (if output_on x then 0x4000 else 0)"

definition HecField_to_bytes :: "HecField \<Rightarrow> u8 list option" where
  "HecField_to_bytes x = u16_to_bytes (HecField_word x)"

definition HecField_from_word :: "u16 \<Rightarrow> HecField" where
  "HecField_from_word word =
     \<lparr>inputs = map (\<lambda>idx. drop_bit idx word AND 1 = 1) [0..<14], output_on = (word AND 0x4000 \<noteq> 0)\<rparr>"

definition HecField_try_from_bytes :: "u8 list \<Rightarrow> HecField result" where
  "HecField_try_from_bytes bs = and_then (u16_try_from_bytes bs) (\<lambda>word. Ok (HecField_from_word word))"

text \<open>The fold sets the bits of the inputs that are true, and leaves the others.\<close>

lemma bit_fold_enumerate:
  "k + length xs \<le> 16 \<Longrightarrow>
   bit (fold (\<lambda>(idx, b) accum. accum OR push_bit idx (if b then 1 else 0)) (enumerate k xs) (w :: u16)) n
     \<longleftrightarrow> bit w n \<or> (k \<le> n \<and> n < k + length xs \<and> xs ! (n - k))"
proof (induction xs arbitrary: k w)
  case (Cons x xs)
  have "bit (w OR push_bit k (if x then 1 else 0)) n \<longleftrightarrow> bit w n \<or> (n = k \<and> x)"
    using Cons.prems by (auto simp: bit_simps)
  moreover have "(x # xs) ! (n - k) = (if n = k then x else xs ! (n - Suc k))" if "k \<le> n"
  proof (cases "n = k")
    case False
    with that obtain m where "n = Suc (k + m)"
      by (metis le_neq_implies_less less_iff_Suc_add)
    then show ?thesis by simp
  qed simp
  ultimately show ?case
    using Cons.IH [of "Suc k" "w OR push_bit k (if x then 1 else 0)"] Cons.prems
    by (auto split: if_splits)
qed auto

lemma HecField_word_bits:
  assumes "HecField_valid x"
  shows "i < 14 \<Longrightarrow> bit (HecField_word x) i = inputs x ! i"
    and "bit (HecField_word x) 14 = output_on x"
proof -
  have e: "bit (0x4000 :: u16) n \<longleftrightarrow> n = 14" for n
    using bit_exp_iff [where ?'a = "16 word", of 14 n] by auto
  have b: "bit (HecField_word x) n \<longleftrightarrow>
      bit (if output_on x then 0x4000 else (0 :: u16)) n \<or> (n < 14 \<and> inputs x ! n)" for n
    using bit_fold_enumerate [of 0 "inputs x" "if output_on x then 0x4000 else 0" n] assms
    by (simp add: HecField_word_def HecField_valid_def)
  show "i < 14 \<Longrightarrow> bit (HecField_word x) i = inputs x ! i"
    using e [of i] by (subst b) auto
  show "bit (HecField_word x) 14 = output_on x"
    using e [of 14] by (subst b) simp
qed

lemma HecField_from_word_word:
  assumes "HecField_valid x"
  shows "HecField_from_word (HecField_word x) = x"
proof -
  have "map (\<lambda>idx. drop_bit idx (HecField_word x) AND 1 = 1) [0..<14] = inputs x"
    using assms HecField_word_bits(1) [OF assms]
    by (intro nth_equalityI) (auto simp: HecField_valid_def simp flip: bit_iff_and_drop_bit_eq_1)
  moreover have "(HecField_word x AND 0x4000 \<noteq> 0) = output_on x"
    using HecField_word_bits(2) [OF assms] and_exp_eq_0_iff_not_bit [of "HecField_word x" 14]
    by simp
  ultimately show ?thesis
    by (simp add: HecField_from_word_def)
qed

interpretation HecField: prefix_operand HecField_valid HecField_to_bytes HecField_try_from_bytes
    "\<lambda>_. 2" "AtLeast 2"
proof (rule prefix_operandI)
  fix x assume "HecField_valid x"
  then show "\<exists>b. HecField_to_bytes x = Some b \<and> length b = 2 \<and>
      (\<forall>rest. HecField_try_from_bytes (b @ rest) = Ok x)"
    by (simp add: HecField_to_bytes_def HecField_try_from_bytes_def codec HecField_from_word_word)
next
  fix bs show "HecField_try_from_bytes bs \<noteq> Panic"
    by (simp add: HecField_try_from_bytes_def)
next
  fix bs x assume "HecField_try_from_bytes bs = Ok x"
  then show "HecField_valid x \<and> 2 \<le> length bs \<and> in_range (AtLeast 2) (length bs)"
    by (auto simp: HecField_try_from_bytes_def HecField_valid_def HecField_from_word_def
        dest: u16.dec_len)
qed

interpretation HecField: nonempty_operand HecField_valid HecField_to_bytes HecField_try_from_bytes
    "\<lambda>_. 2" "AtLeast 2"
  by unfold_locales simp

section \<open>Messages\<close>

text \<open>
  \<open>expected_len\<close> of a message with named fields folds the ranges of the fields; the two
  \<open>todo!()\<close> arms of the fold are \<^term>\<open>Panic\<close>.
\<close>

definition expected_step :: "nat Range \<Rightarrow> nat Range \<Rightarrow> nat Range result" where
  "expected_step accum new =
     (case (accum, new) of
        (AtLeast x, AtLeast y) \<Rightarrow> Ok (AtLeast (x + y))
      | (AtLeast x, Only ys) \<Rightarrow> Ok (Only (map (\<lambda>y. x + y) ys))
      | _ \<Rightarrow> Panic)"

definition expected_fold :: "nat Range list \<Rightarrow> nat Range result" where
  "expected_fold rs =
     foldl (\<lambda>accum r. and_then accum (\<lambda>a. expected_step a r)) (Ok (AtLeast 1)) rs"

lemma expected_fold_simps [simp]:
  "expected_fold [] = Ok (AtLeast 1)"
  "expected_fold (rs @ [r]) = and_then (expected_fold rs) (\<lambda>a. expected_step a r)"
  by (simp_all add: expected_fold_def)

lemma expected_step_simps [simp]:
  "expected_step (AtLeast x) (AtLeast y) = Ok (AtLeast (x + y))"
  "expected_step (AtLeast x) (Only ys) = Ok (Only (map (\<lambda>y. x + y) ys))"
  by (simp_all add: expected_step_def)

text \<open>
  A field that follows the bytes \<open>pre\<close>: what the codec proofs of the two message types use, field
  by field.
\<close>

lemma with_field_at:
  "length pre = offset \<Longrightarrow> dec b = Ok x \<Longrightarrow>
   with_field dec ln (pre @ b) offset k = k x (offset + ln x)"
  by (simp add: with_field_def)

datatype (plugins only: size) CdcOpcode =
  HecInquireState | HecReportState | HecSetStateAdjacent | HecSetState |
  HecRequestDeactivation | HecNotifyAlive | HecDiscover | HpdSetState | HpdReportState

primrec CdcOpcode_into :: "CdcOpcode \<Rightarrow> u8" where
  "CdcOpcode_into CdcOpcode.HecInquireState = 0" |
  "CdcOpcode_into CdcOpcode.HecReportState = 1" |
  "CdcOpcode_into CdcOpcode.HecSetStateAdjacent = 2" |
  "CdcOpcode_into CdcOpcode.HecSetState = 3" |
  "CdcOpcode_into CdcOpcode.HecRequestDeactivation = 4" |
  "CdcOpcode_into CdcOpcode.HecNotifyAlive = 5" |
  "CdcOpcode_into CdcOpcode.HecDiscover = 6" |
  "CdcOpcode_into CdcOpcode.HpdSetState = 0x10" |
  "CdcOpcode_into CdcOpcode.HpdReportState = 0x11"

definition CdcOpcode_variants :: "CdcOpcode list" where
  "CdcOpcode_variants =
     [CdcOpcode.HecInquireState, CdcOpcode.HecReportState, CdcOpcode.HecSetStateAdjacent,
      CdcOpcode.HecSetState, CdcOpcode.HecRequestDeactivation, CdcOpcode.HecNotifyAlive,
      CdcOpcode.HecDiscover, CdcOpcode.HpdSetState, CdcOpcode.HpdReportState]"

interpretation CdcOpcode: byte_enum "''Opcode''" CdcOpcode_variants CdcOpcode_into
  by (unfold_locales, simp add: CdcOpcode_variants_def, induct_tac x) (simp_all add: CdcOpcode_variants_def)

abbreviation "CdcOpcode_try_from_primitive \<equiv>
  try_from_primitive ''Opcode'' CdcOpcode_variants CdcOpcode_into"

datatype (plugins only: size) CdcMessage =
  HecInquireState PhysicalAddress PhysicalAddress |
  HecReportState PhysicalAddress HecState "HecField option" |
  HecSetStateAdjacent PhysicalAddress bool |
  HecSetState PhysicalAddress PhysicalAddress bool "PhysicalAddress BoundedBufferOperand" |
  HecRequestDeactivation PhysicalAddress PhysicalAddress PhysicalAddress |
  HecNotifyAlive |
  HecDiscover |
  HpdSetState InputPortHpdState |
  HpdReportState HpdStateErrorCode

primrec CdcMessage_discriminant :: "CdcMessage \<Rightarrow> u8" where
  "CdcMessage_discriminant (CdcMessage.HecInquireState _ _) = 0" |
  "CdcMessage_discriminant (CdcMessage.HecReportState _ _ _) = 1" |
  "CdcMessage_discriminant (CdcMessage.HecSetStateAdjacent _ _) = 2" |
  "CdcMessage_discriminant (CdcMessage.HecSetState _ _ _ _) = 3" |
  "CdcMessage_discriminant (CdcMessage.HecRequestDeactivation _ _ _) = 4" |
  "CdcMessage_discriminant CdcMessage.HecNotifyAlive = 5" |
  "CdcMessage_discriminant CdcMessage.HecDiscover = 6" |
  "CdcMessage_discriminant (CdcMessage.HpdSetState _) = 0x10" |
  "CdcMessage_discriminant (CdcMessage.HpdReportState _) = 0x11"

text \<open>The opcode of the same name, as a specification of the discriminants.\<close>

primrec CdcMessage_variant :: "CdcMessage \<Rightarrow> CdcOpcode" where
  "CdcMessage_variant (CdcMessage.HecInquireState _ _) = CdcOpcode.HecInquireState" |
  "CdcMessage_variant (CdcMessage.HecReportState _ _ _) = CdcOpcode.HecReportState" |
  "CdcMessage_variant (CdcMessage.HecSetStateAdjacent _ _) = CdcOpcode.HecSetStateAdjacent" |
  "CdcMessage_variant (CdcMessage.HecSetState _ _ _ _) = CdcOpcode.HecSetState" |
  "CdcMessage_variant (CdcMessage.HecRequestDeactivation _ _ _) = CdcOpcode.HecRequestDeactivation" |
  "CdcMessage_variant CdcMessage.HecNotifyAlive = CdcOpcode.HecNotifyAlive" |
  "CdcMessage_variant CdcMessage.HecDiscover = CdcOpcode.HecDiscover" |
  "CdcMessage_variant (CdcMessage.HpdSetState _) = CdcOpcode.HpdSetState" |
  "CdcMessage_variant (CdcMessage.HpdReportState _) = CdcOpcode.HpdReportState"

definition CdcMessage_opcode :: "CdcMessage \<Rightarrow> CdcOpcode result" where
  "CdcMessage_opcode m =
     (case CdcOpcode_try_from_primitive (CdcMessage_discriminant m) of
        Ok opcode \<Rightarrow> Ok opcode | _ \<Rightarrow> Panic)"

primrec CdcMessage_to_bytes :: "CdcMessage \<Rightarrow> u8 list option" where
  "CdcMessage_to_bytes (CdcMessage.HecInquireState terminating_address1 terminating_address2) =
     emit [Some [CdcOpcode_into CdcOpcode.HecInquireState],
       PhysicalAddress_to_bytes terminating_address1,
       PhysicalAddress_to_bytes terminating_address2]" |
  "CdcMessage_to_bytes (CdcMessage.HecReportState physical_address state field) =
     emit [Some [CdcOpcode_into CdcOpcode.HecReportState],
       PhysicalAddress_to_bytes physical_address, HecState_to_bytes state,
       (option_to_bytes HecField_to_bytes) field]" |
  "CdcMessage_to_bytes (CdcMessage.HecSetStateAdjacent terminating_address state) =
     emit [Some [CdcOpcode_into CdcOpcode.HecSetStateAdjacent],
       PhysicalAddress_to_bytes terminating_address, bool_to_bytes state]" |
  "CdcMessage_to_bytes (CdcMessage.HecSetState terminating_address1 terminating_address2 state terminating_addresses) =
     emit [Some [CdcOpcode_into CdcOpcode.HecSetState],
       PhysicalAddress_to_bytes terminating_address1,
       PhysicalAddress_to_bytes terminating_address2, bool_to_bytes state,
       (buffer_to_bytes PhysicalAddress_to_bytes) terminating_addresses]" |
  "CdcMessage_to_bytes (CdcMessage.HecRequestDeactivation terminating_address1 terminating_address2 terminating_address3) =
     emit [Some [CdcOpcode_into CdcOpcode.HecRequestDeactivation],
       PhysicalAddress_to_bytes terminating_address1,
       PhysicalAddress_to_bytes terminating_address2,
       PhysicalAddress_to_bytes terminating_address3]" |
  "CdcMessage_to_bytes CdcMessage.HecNotifyAlive = Some [CdcOpcode_into CdcOpcode.HecNotifyAlive]" |
  "CdcMessage_to_bytes CdcMessage.HecDiscover = Some [CdcOpcode_into CdcOpcode.HecDiscover]" |
  "CdcMessage_to_bytes (CdcMessage.HpdSetState x) =
     emit [Some [CdcOpcode_into CdcOpcode.HpdSetState], InputPortHpdState_to_bytes x]" |
  "CdcMessage_to_bytes (CdcMessage.HpdReportState x) =
     emit [Some [CdcOpcode_into CdcOpcode.HpdReportState], HpdStateErrorCode_to_bytes x]"

primrec CdcMessage_len :: "CdcMessage \<Rightarrow> nat" where
  "CdcMessage_len (CdcMessage.HecInquireState _ _) = 1 + 2 + 2" |
  "CdcMessage_len (CdcMessage.HecReportState _ _ field) = 1 + 2 + 1 + option_len (\<lambda>_. 2) field" |
  "CdcMessage_len (CdcMessage.HecSetStateAdjacent _ _) = 1 + 2 + 1" |
  "CdcMessage_len (CdcMessage.HecSetState _ _ _ terminating_addresses) = 1 + 2 + 2 + 1 + buffer_len 2 3 terminating_addresses" |
  "CdcMessage_len (CdcMessage.HecRequestDeactivation _ _ _) = 1 + 2 + 2 + 2" |
  "CdcMessage_len CdcMessage.HecNotifyAlive = 1" |
  "CdcMessage_len CdcMessage.HecDiscover = 1" |
  "CdcMessage_len (CdcMessage.HpdSetState _) = 1 + 1" |
  "CdcMessage_len (CdcMessage.HpdReportState _) = 1 + 1"

primrec CdcOpcode_expected_len :: "CdcOpcode \<Rightarrow> nat Range result" where
  "CdcOpcode_expected_len CdcOpcode.HecInquireState = expected_fold [AtLeast 2, AtLeast 2]" |
  "CdcOpcode_expected_len CdcOpcode.HecReportState = expected_fold [AtLeast 2, AtLeast 1, AtLeast 0]" |
  "CdcOpcode_expected_len CdcOpcode.HecSetStateAdjacent = expected_fold [AtLeast 2, AtLeast 1]" |
  "CdcOpcode_expected_len CdcOpcode.HecSetState =
     expected_fold [AtLeast 2, AtLeast 2, AtLeast 1, AtLeast 0]" |
  "CdcOpcode_expected_len CdcOpcode.HecRequestDeactivation = expected_fold [AtLeast 2, AtLeast 2, AtLeast 2]" |
  "CdcOpcode_expected_len CdcOpcode.HecNotifyAlive = Ok (AtLeast 1)" |
  "CdcOpcode_expected_len CdcOpcode.HecDiscover = Ok (AtLeast 1)" |
  "CdcOpcode_expected_len CdcOpcode.HpdSetState = Ok (add_range (AtLeast 1) 1)" |
  "CdcOpcode_expected_len CdcOpcode.HpdReportState = Ok (add_range (AtLeast 1) 1)"

primrec CdcMessage_decode :: "CdcOpcode \<Rightarrow> u8 list \<Rightarrow> CdcMessage result" where
  "CdcMessage_decode CdcOpcode.HecInquireState bs =
     with_field PhysicalAddress_try_from_bytes (\<lambda>_. 2) bs 1 (\<lambda>terminating_address1 offset.
     with_field PhysicalAddress_try_from_bytes (\<lambda>_. 2) bs offset (\<lambda>terminating_address2 offset.
     Ok (CdcMessage.HecInquireState terminating_address1 terminating_address2)))" |
  "CdcMessage_decode CdcOpcode.HecReportState bs =
     with_field PhysicalAddress_try_from_bytes (\<lambda>_. 2) bs 1 (\<lambda>physical_address offset.
     with_field HecState_try_from_bytes one_byte bs offset (\<lambda>state offset.
     with_field (option_try_from_bytes HecField_try_from_bytes) (option_len (\<lambda>_. 2)) bs offset (\<lambda>field offset.
     Ok (CdcMessage.HecReportState physical_address state field))))" |
  "CdcMessage_decode CdcOpcode.HecSetStateAdjacent bs =
     with_field PhysicalAddress_try_from_bytes (\<lambda>_. 2) bs 1 (\<lambda>terminating_address offset.
     with_field bool_try_from_bytes one_byte bs offset (\<lambda>state offset.
     Ok (CdcMessage.HecSetStateAdjacent terminating_address state)))" |
  "CdcMessage_decode CdcOpcode.HecSetState bs =
     with_field PhysicalAddress_try_from_bytes (\<lambda>_. 2) bs 1 (\<lambda>terminating_address1 offset.
     with_field PhysicalAddress_try_from_bytes (\<lambda>_. 2) bs offset (\<lambda>terminating_address2 offset.
     with_field bool_try_from_bytes one_byte bs offset (\<lambda>state offset.
     with_field (buffer_try_from_bytes PhysicalAddress_try_from_bytes 2 (PhysicalAddress.PhysicalAddress 0xFFFF) 3) (buffer_len 2 3) bs offset (\<lambda>terminating_addresses offset.
     Ok (CdcMessage.HecSetState terminating_address1 terminating_address2 state terminating_addresses)))))" |
  "CdcMessage_decode CdcOpcode.HecRequestDeactivation bs =
     with_field PhysicalAddress_try_from_bytes (\<lambda>_. 2) bs 1 (\<lambda>terminating_address1 offset.
     with_field PhysicalAddress_try_from_bytes (\<lambda>_. 2) bs offset (\<lambda>terminating_address2 offset.
     with_field PhysicalAddress_try_from_bytes (\<lambda>_. 2) bs offset (\<lambda>terminating_address3 offset.
     Ok (CdcMessage.HecRequestDeactivation terminating_address1 terminating_address2 terminating_address3))))" |
  "CdcMessage_decode CdcOpcode.HecNotifyAlive bs = Ok CdcMessage.HecNotifyAlive" |
  "CdcMessage_decode CdcOpcode.HecDiscover bs = Ok CdcMessage.HecDiscover" |
  "CdcMessage_decode CdcOpcode.HpdSetState bs =
     with_field InputPortHpdState_try_from_bytes one_byte bs 1 (\<lambda>x _. Ok (CdcMessage.HpdSetState x))" |
  "CdcMessage_decode CdcOpcode.HpdReportState bs =
     with_field HpdStateErrorCode_try_from_bytes one_byte bs 1 (\<lambda>x _. Ok (CdcMessage.HpdReportState x))"

primrec CdcMessage_valid :: "CdcMessage \<Rightarrow> bool" where
  "CdcMessage_valid (CdcMessage.HecInquireState _ _) \<longleftrightarrow> True" |
  "CdcMessage_valid (CdcMessage.HecReportState _ _ field) \<longleftrightarrow>
     pred_option HecField_valid field" |
  "CdcMessage_valid (CdcMessage.HecSetStateAdjacent _ _) \<longleftrightarrow> True" |
  "CdcMessage_valid (CdcMessage.HecSetState _ _ _ terminating_addresses) \<longleftrightarrow>
     buffer_valid (\<lambda>_. True) (PhysicalAddress.PhysicalAddress 0xFFFF) 3 terminating_addresses" |
  "CdcMessage_valid (CdcMessage.HecRequestDeactivation _ _ _) \<longleftrightarrow> True" |
  "CdcMessage_valid CdcMessage.HecNotifyAlive \<longleftrightarrow> True" |
  "CdcMessage_valid CdcMessage.HecDiscover \<longleftrightarrow> True" |
  "CdcMessage_valid (CdcMessage.HpdSetState _) \<longleftrightarrow> True" |
  "CdcMessage_valid (CdcMessage.HpdReportState _) \<longleftrightarrow> True"

definition CdcMessage_try_from_bytes :: "u8 list \<Rightarrow> CdcMessage result" where
  "CdcMessage_try_from_bytes bs =
     (if bs = [] then Err (OutOfRange (AtLeast 1) 0 ''bytes'')
      else
        and_then (index bs 0) (\<lambda>b.
        and_then (CdcOpcode_try_from_primitive b) (\<lambda>opcode.
        and_then (CdcOpcode_expected_len opcode) (\<lambda>expected.
        and_then (check expected (length bs) ''bytes'') (\<lambda>_.
        CdcMessage_decode opcode bs)))))"

lemma CdcOpcode_expected_len_Ok: "\<exists>r. CdcOpcode_expected_len oc = Ok r"
  by (cases oc; simp add: expected_fold_def)

lemma CdcOpcode_expected_len_not_Panic [simp]: "CdcOpcode_expected_len oc \<noteq> Panic"
  using CdcOpcode_expected_len_Ok [of oc] by auto

lemma CdcMessage_decode_not_Panic: "1 \<le> length bs \<Longrightarrow> CdcMessage_decode oc bs \<noteq> Panic"
  by (cases oc; auto elim!: codec_panic)

lemma CdcMessage_decode_Ok:
  "1 \<le> length bs \<Longrightarrow> CdcMessage_decode oc bs = Ok m \<Longrightarrow>
   CdcMessage_valid m \<and> CdcMessage_len m \<le> length bs"
  by (cases oc; auto elim!: codec_inv)

lemma CdcMessage_opcode_variant: "CdcMessage_opcode m = Ok (CdcMessage_variant m)"
proof -
  have "CdcMessage_discriminant m = CdcOpcode_into (CdcMessage_variant m)"
    by (cases m) simp_all
  then show ?thesis
    by (simp add: CdcMessage_opcode_def CdcOpcode.from_into)
qed

text \<open>What a variant encodes to is decoded under its opcode.\<close>

lemma CdcMessage_rt:
  assumes "CdcMessage_valid m"
  shows "\<exists>b. CdcMessage_to_bytes m = Some (CdcOpcode_into (CdcMessage_variant m) # b) \<and>
    1 + length b = CdcMessage_len m \<and>
    CdcMessage_decode (CdcMessage_variant m) (CdcOpcode_into (CdcMessage_variant m) # b) = Ok m \<and>
    (\<exists>r. CdcOpcode_expected_len (CdcMessage_variant m) = Ok r \<and> in_range r (CdcMessage_len m))"
  using assms
proof (cases m)
  case (HecReportState physical_address state field)
  with assms have "pred_option HecField_valid field" by simp
  then obtain b where "option_to_bytes HecField_to_bytes field = Some b"
    "length b = option_len (\<lambda>_. 2) field" "option_try_from_bytes HecField_try_from_bytes b = Ok field"
    by (rule HecField.opt.enc_cases) (rule that)
  with HecReportState show ?thesis
    by (simp add: codec with_field_def expected_fold_def del: CdcOpcode_into.simps)
next
  case (HecSetState address1 address2 state addresses)
  with assms have "buffer_valid (\<lambda>_. True) (PhysicalAddress.PhysicalAddress 0xFFFF) 3 addresses"
    by simp
  then obtain b where "buffer_to_bytes PhysicalAddress_to_bytes addresses = Some b"
    "length b = buffer_len 2 3 addresses"
    "buffer_try_from_bytes PhysicalAddress_try_from_bytes 2 (PhysicalAddress.PhysicalAddress 0xFFFF) 3 b =
      Ok addresses"
    by (rule PhysicalAddress_buffer.buf.enc_cases) (rule that)
  with HecSetState show ?thesis
    by (simp add: codec with_field_def expected_fold_def del: CdcOpcode_into.simps)
qed (simp_all add: codec with_field_def expected_fold_def del: CdcOpcode_into.simps)

interpretation CdcMessage: operand CdcMessage_valid CdcMessage_to_bytes CdcMessage_try_from_bytes
    CdcMessage_len "AtLeast 1"
proof
  fix m assume v: "CdcMessage_valid m"
  from CdcMessage_rt [OF v] obtain b where
    b: "CdcMessage_to_bytes m = Some (CdcOpcode_into (CdcMessage_variant m) # b)"
      "1 + length b = CdcMessage_len m"
    and d: "CdcMessage_decode (CdcMessage_variant m) (CdcOpcode_into (CdcMessage_variant m) # b) = Ok m"
      "\<exists>r. CdcOpcode_expected_len (CdcMessage_variant m) = Ok r \<and> in_range r (CdcMessage_len m)"
    by blast
  then show "\<exists>b. CdcMessage_to_bytes m = Some b" by blast
  fix b' assume "CdcMessage_to_bytes m = Some b'"
  with b have b': "b' = CdcOpcode_into (CdcMessage_variant m) # b" by simp
  with b show "length b' = CdcMessage_len m" by simp
  show "CdcMessage_try_from_bytes b' = Ok m"
    using b(2) d by (auto simp: b' CdcMessage_try_from_bytes_def CdcOpcode.from_into One_nat_def)
next
  fix bs show "CdcMessage_try_from_bytes bs \<noteq> Panic"
    using CdcMessage_decode_not_Panic
    by (cases bs) (auto simp: CdcMessage_try_from_bytes_def One_nat_def)
next
  fix bs m assume "CdcMessage_try_from_bytes bs = Ok m"
  then obtain oc where "1 \<le> length bs" "CdcMessage_decode oc bs = Ok m"
    by (cases bs) (auto simp: CdcMessage_try_from_bytes_def One_nat_def)
  with CdcMessage_decode_Ok show "CdcMessage_valid m" "CdcMessage_len m \<le> length bs"
    "in_range (AtLeast 1) (length bs)"
    by auto
qed

end
