(* ===== verification/Messages.thy ===== *)
theory Messages
  imports Cdc
begin

text \<open>
  CEC messages (\<open>linux-cec/src/message.rs\<close>): the enums \<open>Message\<close> and \<open>Opcode\<close>, and what the
  derive macro \<open>MessageEnum\<close> (\<open>linux-cec-macros/src/lib.rs\<close>) generates from the declaration
  of \<open>Message\<close>: \<open>to_bytes\<close>, \<open>try_from_bytes\<close>, \<open>len\<close>, \<open>expected_len\<close> and \<open>addressing_type\<close>. Each
  generated \<open>match\<close> is a function with one equation for each arm. The named fields of a variant
  are the arguments of the constructor, in the order of the declaration.
\<close>

datatype AddressingType = Direct | Broadcast | Either

section \<open>Opcodes\<close>

datatype (plugins only: size) Opcode =
  ActiveSource | ImageViewOn | TextViewOn | InactiveSource | RequestActiveSource |
  RoutingChange | RoutingInformation | SetStreamPath | Standby | RecordOff | RecordOn |
  RecordStatus | RecordTvScreen | ClearAnalogueTimer | ClearDigitalTimer | ClearExtTimer |
  SetAnalogueTimer | SetDigitalTimer | SetExtTimer | SetTimerProgramTitle |
  TimerClearedStatus | TimerStatus | CecVersion | GetCecVersion | GivePhysicalAddr |
  GetMenuLanguage | ReportPhysicalAddr | SetMenuLanguage | DeckControl | DeckStatus |
  GiveDeckStatus | Play | GiveTunerDeviceStatus | SelectAnalogueService |
  SelectDigitalService | TunerDeviceStatus | TunerStepDecrement | TunerStepIncrement |
  DeviceVendorId | GiveDeviceVendorId | VendorCommand | VendorCommandWithId |
  VendorRemoteButtonDown | VendorRemoteButtonUp | SetOsdString | GiveOsdName | SetOsdName |
  MenuRequest | MenuStatus | UserControlPressed | UserControlReleased | GiveDevicePowerStatus |
  ReportPowerStatus | FeatureAbort | Abort | GiveAudioStatus | GiveSystemAudioModeStatus |
  ReportAudioStatus | ReportShortAudioDescriptor | RequestShortAudioDescriptor |
  SetSystemAudioMode | SystemAudioModeRequest | SystemAudioModeStatus | SetAudioRate |
  InitiateArc | ReportArcInitiated | ReportArcTerminated | RequestArcInitiation |
  RequestArcTermination | TerminateArc | CdcMessage | ReportFeatures | GiveFeatures |
  RequestCurrentLatency | ReportCurrentLatency | SetAudioVolumeLevel

primrec Opcode_into :: "Opcode \<Rightarrow> u8" where
  "Opcode_into Opcode.ActiveSource = 0x82" |
  "Opcode_into Opcode.ImageViewOn = 4" |
  "Opcode_into Opcode.TextViewOn = 0x0D" |
  "Opcode_into Opcode.InactiveSource = 0x9D" |
  "Opcode_into Opcode.RequestActiveSource = 0x85" |
  "Opcode_into Opcode.RoutingChange = 0x80" |
  "Opcode_into Opcode.RoutingInformation = 0x81" |
  "Opcode_into Opcode.SetStreamPath = 0x86" |
  "Opcode_into Opcode.Standby = 0x36" |
  "Opcode_into Opcode.RecordOff = 0x0B" |
  "Opcode_into Opcode.RecordOn = 9" |
  "Opcode_into Opcode.RecordStatus = 0x0A" |
  "Opcode_into Opcode.RecordTvScreen = 0x0F" |
  "Opcode_into Opcode.ClearAnalogueTimer = 0x33" |
  "Opcode_into Opcode.ClearDigitalTimer = 0x99" |
  "Opcode_into Opcode.ClearExtTimer = 0xA1" |
  "Opcode_into Opcode.SetAnalogueTimer = 0x34" |
  "Opcode_into Opcode.SetDigitalTimer = 0x97" |
  "Opcode_into Opcode.SetExtTimer = 0xA2" |
  "Opcode_into Opcode.SetTimerProgramTitle = 0x67" |
  "Opcode_into Opcode.TimerClearedStatus = 0x43" |
  "Opcode_into Opcode.TimerStatus = 0x35" |
  "Opcode_into Opcode.CecVersion = 0x9E" |
  "Opcode_into Opcode.GetCecVersion = 0x9F" |
  "Opcode_into Opcode.GivePhysicalAddr = 0x83" |
  "Opcode_into Opcode.GetMenuLanguage = 0x91" |
  "Opcode_into Opcode.ReportPhysicalAddr = 0x84" |
  "Opcode_into Opcode.SetMenuLanguage = 0x32" |
  "Opcode_into Opcode.DeckControl = 0x42" |
  "Opcode_into Opcode.DeckStatus = 0x1B" |
  "Opcode_into Opcode.GiveDeckStatus = 0x1A" |
  "Opcode_into Opcode.Play = 0x41" |
  "Opcode_into Opcode.GiveTunerDeviceStatus = 8" |
  "Opcode_into Opcode.SelectAnalogueService = 0x92" |
  "Opcode_into Opcode.SelectDigitalService = 0x93" |
  "Opcode_into Opcode.TunerDeviceStatus = 7" |
  "Opcode_into Opcode.TunerStepDecrement = 6" |
  "Opcode_into Opcode.TunerStepIncrement = 5" |
  "Opcode_into Opcode.DeviceVendorId = 0x87" |
  "Opcode_into Opcode.GiveDeviceVendorId = 0x8C" |
  "Opcode_into Opcode.VendorCommand = 0x89" |
  "Opcode_into Opcode.VendorCommandWithId = 0xA0" |
  "Opcode_into Opcode.VendorRemoteButtonDown = 0x8A" |
  "Opcode_into Opcode.VendorRemoteButtonUp = 0x8B" |
  "Opcode_into Opcode.SetOsdString = 0x64" |
  "Opcode_into Opcode.GiveOsdName = 0x46" |
  "Opcode_into Opcode.SetOsdName = 0x47" |
  "Opcode_into Opcode.MenuRequest = 0x8D" |
  "Opcode_into Opcode.MenuStatus = 0x8E" |
  "Opcode_into Opcode.UserControlPressed = 0x44" |
  "Opcode_into Opcode.UserControlReleased = 0x45" |
  "Opcode_into Opcode.GiveDevicePowerStatus = 0x8F" |
  "Opcode_into Opcode.ReportPowerStatus = 0x90" |
  "Opcode_into Opcode.FeatureAbort = 0" |
  "Opcode_into Opcode.Abort = 0xFF" |
  "Opcode_into Opcode.GiveAudioStatus = 0x71" |
  "Opcode_into Opcode.GiveSystemAudioModeStatus = 0x7D" |
  "Opcode_into Opcode.ReportAudioStatus = 0x7A" |
  "Opcode_into Opcode.ReportShortAudioDescriptor = 0xA3" |
  "Opcode_into Opcode.RequestShortAudioDescriptor = 0xA4" |
  "Opcode_into Opcode.SetSystemAudioMode = 0x72" |
  "Opcode_into Opcode.SystemAudioModeRequest = 0x70" |
  "Opcode_into Opcode.SystemAudioModeStatus = 0x7E" |
  "Opcode_into Opcode.SetAudioRate = 0x9A" |
  "Opcode_into Opcode.InitiateArc = 0xC0" |
  "Opcode_into Opcode.ReportArcInitiated = 0xC1" |
  "Opcode_into Opcode.ReportArcTerminated = 0xC2" |
  "Opcode_into Opcode.RequestArcInitiation = 0xC3" |
  "Opcode_into Opcode.RequestArcTermination = 0xC4" |
  "Opcode_into Opcode.TerminateArc = 0xC5" |
  "Opcode_into Opcode.CdcMessage = 0xF8" |
  "Opcode_into Opcode.ReportFeatures = 0xA6" |
  "Opcode_into Opcode.GiveFeatures = 0xA5" |
  "Opcode_into Opcode.RequestCurrentLatency = 0xA7" |
  "Opcode_into Opcode.ReportCurrentLatency = 0xA8" |
  "Opcode_into Opcode.SetAudioVolumeLevel = 0x73"

definition Opcode_variants :: "Opcode list" where
  "Opcode_variants =
     [Opcode.ActiveSource, Opcode.ImageViewOn, Opcode.TextViewOn, Opcode.InactiveSource,
      Opcode.RequestActiveSource, Opcode.RoutingChange, Opcode.RoutingInformation,
      Opcode.SetStreamPath, Opcode.Standby, Opcode.RecordOff, Opcode.RecordOn,
      Opcode.RecordStatus, Opcode.RecordTvScreen, Opcode.ClearAnalogueTimer,
      Opcode.ClearDigitalTimer, Opcode.ClearExtTimer, Opcode.SetAnalogueTimer,
      Opcode.SetDigitalTimer, Opcode.SetExtTimer, Opcode.SetTimerProgramTitle,
      Opcode.TimerClearedStatus, Opcode.TimerStatus, Opcode.CecVersion, Opcode.GetCecVersion,
      Opcode.GivePhysicalAddr, Opcode.GetMenuLanguage, Opcode.ReportPhysicalAddr,
      Opcode.SetMenuLanguage, Opcode.DeckControl, Opcode.DeckStatus, Opcode.GiveDeckStatus,
      Opcode.Play, Opcode.GiveTunerDeviceStatus, Opcode.SelectAnalogueService,
      Opcode.SelectDigitalService, Opcode.TunerDeviceStatus, Opcode.TunerStepDecrement,
      Opcode.TunerStepIncrement, Opcode.DeviceVendorId, Opcode.GiveDeviceVendorId,
      Opcode.VendorCommand, Opcode.VendorCommandWithId, Opcode.VendorRemoteButtonDown,
      Opcode.VendorRemoteButtonUp, Opcode.SetOsdString, Opcode.GiveOsdName, Opcode.SetOsdName,
      Opcode.MenuRequest, Opcode.MenuStatus, Opcode.UserControlPressed,
      Opcode.UserControlReleased, Opcode.GiveDevicePowerStatus, Opcode.ReportPowerStatus,
      Opcode.FeatureAbort, Opcode.Abort, Opcode.GiveAudioStatus,
      Opcode.GiveSystemAudioModeStatus, Opcode.ReportAudioStatus,
      Opcode.ReportShortAudioDescriptor, Opcode.RequestShortAudioDescriptor,
      Opcode.SetSystemAudioMode, Opcode.SystemAudioModeRequest, Opcode.SystemAudioModeStatus,
      Opcode.SetAudioRate, Opcode.InitiateArc, Opcode.ReportArcInitiated,
      Opcode.ReportArcTerminated, Opcode.RequestArcInitiation, Opcode.RequestArcTermination,
      Opcode.TerminateArc, Opcode.CdcMessage, Opcode.ReportFeatures, Opcode.GiveFeatures,
      Opcode.RequestCurrentLatency, Opcode.ReportCurrentLatency, Opcode.SetAudioVolumeLevel]"

interpretation Opcode: byte_enum "''Opcode''" Opcode_variants Opcode_into
  by (unfold_locales, simp add: Opcode_variants_def, induct_tac x) (simp_all add: Opcode_variants_def)

abbreviation "Opcode_try_from_primitive \<equiv> try_from_primitive ''Opcode'' Opcode_variants Opcode_into"
abbreviation "Opcode_to_bytes \<equiv> enum_to_bytes Opcode_into"
abbreviation "Opcode_try_from_bytes \<equiv> enum_try_from_bytes ''Opcode'' Opcode_variants Opcode_into"

text \<open>\<open>impl PartialEq<u8> for Opcode\<close>.\<close>

definition Opcode_eq_u8 :: "Opcode \<Rightarrow> u8 \<Rightarrow> bool" where
  "Opcode_eq_u8 oc rhs \<longleftrightarrow> Opcode_into oc = rhs"

primrec Opcode_addressing_type :: "Opcode \<Rightarrow> AddressingType" where
  "Opcode_addressing_type Opcode.ActiveSource = AddressingType.Broadcast" |
  "Opcode_addressing_type Opcode.ImageViewOn = AddressingType.Direct" |
  "Opcode_addressing_type Opcode.TextViewOn = AddressingType.Direct" |
  "Opcode_addressing_type Opcode.InactiveSource = AddressingType.Direct" |
  "Opcode_addressing_type Opcode.RequestActiveSource = AddressingType.Broadcast" |
  "Opcode_addressing_type Opcode.RoutingChange = AddressingType.Broadcast" |
  "Opcode_addressing_type Opcode.RoutingInformation = AddressingType.Broadcast" |
  "Opcode_addressing_type Opcode.SetStreamPath = AddressingType.Broadcast" |
  "Opcode_addressing_type Opcode.Standby = AddressingType.Either" |
  "Opcode_addressing_type Opcode.RecordOff = AddressingType.Direct" |
  "Opcode_addressing_type Opcode.RecordOn = AddressingType.Direct" |
  "Opcode_addressing_type Opcode.RecordStatus = AddressingType.Direct" |
  "Opcode_addressing_type Opcode.RecordTvScreen = AddressingType.Direct" |
  "Opcode_addressing_type Opcode.ClearAnalogueTimer = AddressingType.Direct" |
  "Opcode_addressing_type Opcode.ClearDigitalTimer = AddressingType.Direct" |
  "Opcode_addressing_type Opcode.ClearExtTimer = AddressingType.Direct" |
  "Opcode_addressing_type Opcode.SetAnalogueTimer = AddressingType.Direct" |
  "Opcode_addressing_type Opcode.SetDigitalTimer = AddressingType.Direct" |
  "Opcode_addressing_type Opcode.SetExtTimer = AddressingType.Direct" |
  "Opcode_addressing_type Opcode.SetTimerProgramTitle = AddressingType.Direct" |
  "Opcode_addressing_type Opcode.TimerClearedStatus = AddressingType.Direct" |
  "Opcode_addressing_type Opcode.TimerStatus = AddressingType.Direct" |
  "Opcode_addressing_type Opcode.CecVersion = AddressingType.Direct" |
  "Opcode_addressing_type Opcode.GetCecVersion = AddressingType.Direct" |
  "Opcode_addressing_type Opcode.GivePhysicalAddr = AddressingType.Direct" |
  "Opcode_addressing_type Opcode.GetMenuLanguage = AddressingType.Direct" |
  "Opcode_addressing_type Opcode.ReportPhysicalAddr = AddressingType.Broadcast" |
  "Opcode_addressing_type Opcode.SetMenuLanguage = AddressingType.Broadcast" |
  "Opcode_addressing_type Opcode.DeckControl = AddressingType.Direct" |
  "Opcode_addressing_type Opcode.DeckStatus = AddressingType.Direct" |
  "Opcode_addressing_type Opcode.GiveDeckStatus = AddressingType.Direct" |
  "Opcode_addressing_type Opcode.Play = AddressingType.Direct" |
  "Opcode_addressing_type Opcode.GiveTunerDeviceStatus = AddressingType.Direct" |
  "Opcode_addressing_type Opcode.SelectAnalogueService = AddressingType.Direct" |
  "Opcode_addressing_type Opcode.SelectDigitalService = AddressingType.Direct" |
  "Opcode_addressing_type Opcode.TunerDeviceStatus = AddressingType.Direct" |
  "Opcode_addressing_type Opcode.TunerStepDecrement = AddressingType.Direct" |
  "Opcode_addressing_type Opcode.TunerStepIncrement = AddressingType.Direct" |
  "Opcode_addressing_type Opcode.DeviceVendorId = AddressingType.Broadcast" |
  "Opcode_addressing_type Opcode.GiveDeviceVendorId = AddressingType.Direct" |
  "Opcode_addressing_type Opcode.VendorCommand = AddressingType.Direct" |
  "Opcode_addressing_type Opcode.VendorCommandWithId = AddressingType.Either" |
  "Opcode_addressing_type Opcode.VendorRemoteButtonDown = AddressingType.Either" |
  "Opcode_addressing_type Opcode.VendorRemoteButtonUp = AddressingType.Either" |
  "Opcode_addressing_type Opcode.SetOsdString = AddressingType.Direct" |
  "Opcode_addressing_type Opcode.GiveOsdName = AddressingType.Direct" |
  "Opcode_addressing_type Opcode.SetOsdName = AddressingType.Direct" |
  "Opcode_addressing_type Opcode.MenuRequest = AddressingType.Direct" |
  "Opcode_addressing_type Opcode.MenuStatus = AddressingType.Direct" |
  "Opcode_addressing_type Opcode.UserControlPressed = AddressingType.Direct" |
  "Opcode_addressing_type Opcode.UserControlReleased = AddressingType.Direct" |
  "Opcode_addressing_type Opcode.GiveDevicePowerStatus = AddressingType.Direct" |
  "Opcode_addressing_type Opcode.ReportPowerStatus = AddressingType.Either" |
  "Opcode_addressing_type Opcode.FeatureAbort = AddressingType.Direct" |
  "Opcode_addressing_type Opcode.Abort = AddressingType.Direct" |
  "Opcode_addressing_type Opcode.GiveAudioStatus = AddressingType.Direct" |
  "Opcode_addressing_type Opcode.GiveSystemAudioModeStatus = AddressingType.Direct" |
  "Opcode_addressing_type Opcode.ReportAudioStatus = AddressingType.Direct" |
  "Opcode_addressing_type Opcode.ReportShortAudioDescriptor = AddressingType.Direct" |
  "Opcode_addressing_type Opcode.RequestShortAudioDescriptor = AddressingType.Direct" |
  "Opcode_addressing_type Opcode.SetSystemAudioMode = AddressingType.Either" |
  "Opcode_addressing_type Opcode.SystemAudioModeRequest = AddressingType.Direct" |
  "Opcode_addressing_type Opcode.SystemAudioModeStatus = AddressingType.Direct" |
  "Opcode_addressing_type Opcode.SetAudioRate = AddressingType.Direct" |
  "Opcode_addressing_type Opcode.InitiateArc = AddressingType.Direct" |
  "Opcode_addressing_type Opcode.ReportArcInitiated = AddressingType.Direct" |
  "Opcode_addressing_type Opcode.ReportArcTerminated = AddressingType.Direct" |
  "Opcode_addressing_type Opcode.RequestArcInitiation = AddressingType.Direct" |
  "Opcode_addressing_type Opcode.RequestArcTermination = AddressingType.Direct" |
  "Opcode_addressing_type Opcode.TerminateArc = AddressingType.Direct" |
  "Opcode_addressing_type Opcode.CdcMessage = AddressingType.Broadcast" |
  "Opcode_addressing_type Opcode.ReportFeatures = AddressingType.Broadcast" |
  "Opcode_addressing_type Opcode.GiveFeatures = AddressingType.Direct" |
  "Opcode_addressing_type Opcode.RequestCurrentLatency = AddressingType.Broadcast" |
  "Opcode_addressing_type Opcode.ReportCurrentLatency = AddressingType.Broadcast" |
  "Opcode_addressing_type Opcode.SetAudioVolumeLevel = AddressingType.Direct"

definition Opcode_can_directly_address :: "Opcode \<Rightarrow> bool" where
  "Opcode_can_directly_address oc =
     (case Opcode_addressing_type oc of
        AddressingType.Direct \<Rightarrow> True | AddressingType.Either \<Rightarrow> True | _ \<Rightarrow> False)"

definition Opcode_can_broadcast :: "Opcode \<Rightarrow> bool" where
  "Opcode_can_broadcast oc =
     (case Opcode_addressing_type oc of
        AddressingType.Broadcast \<Rightarrow> True | AddressingType.Either \<Rightarrow> True | _ \<Rightarrow> False)"

section \<open>Messages\<close>

datatype (plugins only: size) Message =
  ActiveSource PhysicalAddress |
  ImageViewOn |
  TextViewOn |
  InactiveSource PhysicalAddress |
  RequestActiveSource |
  RoutingChange PhysicalAddress PhysicalAddress |
  RoutingInformation PhysicalAddress |
  SetStreamPath PhysicalAddress |
  Standby |
  RecordOff |
  RecordOn RecordSource |
  RecordStatus RecordStatusInfo |
  RecordTvScreen |
  ClearAnalogueTimer DayOfMonth MonthOfYear Time Duration RecordingSequence AnalogueServiceId |
  ClearDigitalTimer DayOfMonth MonthOfYear Time Duration RecordingSequence DigitalServiceId |
  ClearExtTimer DayOfMonth MonthOfYear Time Duration RecordingSequence ExternalSource |
  SetAnalogueTimer DayOfMonth MonthOfYear Time Duration RecordingSequence AnalogueServiceId |
  SetDigitalTimer DayOfMonth MonthOfYear Time Duration RecordingSequence DigitalServiceId |
  SetExtTimer DayOfMonth MonthOfYear Time Duration RecordingSequence ExternalSource |
  SetTimerProgramTitle "u8 BoundedBufferOperand" |
  TimerClearedStatus TimerClearedStatusData |
  TimerStatus TimerStatusData |
  CecVersion Version |
  GetCecVersion |
  GivePhysicalAddr |
  GetMenuLanguage |
  ReportPhysicalAddr PhysicalAddress PrimaryDeviceType |
  SetMenuLanguage "u8 list" |
  DeckControl DeckControlMode |
  DeckStatus DeckInfo |
  GiveDeckStatus StatusRequest |
  Play PlayMode |
  GiveTunerDeviceStatus StatusRequest |
  SelectAnalogueService AnalogueServiceId |
  SelectDigitalService DigitalServiceId |
  TunerDeviceStatus TunerDeviceInfo |
  TunerStepDecrement |
  TunerStepIncrement |
  DeviceVendorId VendorId |
  GiveDeviceVendorId |
  VendorCommand "u8 BoundedBufferOperand" |
  VendorCommandWithId VendorId "u8 BoundedBufferOperand" |
  VendorRemoteButtonDown "u8 BoundedBufferOperand" |
  VendorRemoteButtonUp |
  SetOsdString DisplayControl "u8 BoundedBufferOperand" |
  GiveOsdName |
  SetOsdName "u8 BoundedBufferOperand" |
  MenuRequest MenuRequestType |
  MenuStatus MenuState |
  UserControlPressed UiCommand |
  UserControlReleased |
  GiveDevicePowerStatus |
  ReportPowerStatus PowerStatus |
  FeatureAbort u8 AbortReason |
  Abort |
  GiveAudioStatus |
  GiveSystemAudioModeStatus |
  ReportAudioStatus AudioStatus |
  ReportShortAudioDescriptor "u8 list BoundedBufferOperand" |
  RequestShortAudioDescriptor "AudioFormatIdAndCode BoundedBufferOperand" |
  SetSystemAudioMode bool |
  SystemAudioModeRequest PhysicalAddress |
  SystemAudioModeStatus bool |
  SetAudioRate AudioRate |
  InitiateArc |
  ReportArcInitiated |
  ReportArcTerminated |
  RequestArcInitiation |
  RequestArcTermination |
  TerminateArc |
  CdcMessage PhysicalAddress CdcMessage |
  ReportFeatures Version AllDeviceTypes RcProfile DeviceFeatures |
  GiveFeatures |
  RequestCurrentLatency PhysicalAddress |
  ReportCurrentLatency PhysicalAddress Delay LatencyFlags "Delay option" |
  SetAudioVolumeLevel AudioVolumeLevel

primrec Message_discriminant :: "Message \<Rightarrow> u8" where
  "Message_discriminant (Message.ActiveSource _) = 0x82" |
  "Message_discriminant Message.ImageViewOn = 4" |
  "Message_discriminant Message.TextViewOn = 0x0D" |
  "Message_discriminant (Message.InactiveSource _) = 0x9D" |
  "Message_discriminant Message.RequestActiveSource = 0x85" |
  "Message_discriminant (Message.RoutingChange _ _) = 0x80" |
  "Message_discriminant (Message.RoutingInformation _) = 0x81" |
  "Message_discriminant (Message.SetStreamPath _) = 0x86" |
  "Message_discriminant Message.Standby = 0x36" |
  "Message_discriminant Message.RecordOff = 0x0B" |
  "Message_discriminant (Message.RecordOn _) = 9" |
  "Message_discriminant (Message.RecordStatus _) = 0x0A" |
  "Message_discriminant Message.RecordTvScreen = 0x0F" |
  "Message_discriminant (Message.ClearAnalogueTimer _ _ _ _ _ _) = 0x33" |
  "Message_discriminant (Message.ClearDigitalTimer _ _ _ _ _ _) = 0x99" |
  "Message_discriminant (Message.ClearExtTimer _ _ _ _ _ _) = 0xA1" |
  "Message_discriminant (Message.SetAnalogueTimer _ _ _ _ _ _) = 0x34" |
  "Message_discriminant (Message.SetDigitalTimer _ _ _ _ _ _) = 0x97" |
  "Message_discriminant (Message.SetExtTimer _ _ _ _ _ _) = 0xA2" |
  "Message_discriminant (Message.SetTimerProgramTitle _) = 0x67" |
  "Message_discriminant (Message.TimerClearedStatus _) = 0x43" |
  "Message_discriminant (Message.TimerStatus _) = 0x35" |
  "Message_discriminant (Message.CecVersion _) = 0x9E" |
  "Message_discriminant Message.GetCecVersion = 0x9F" |
  "Message_discriminant Message.GivePhysicalAddr = 0x83" |
  "Message_discriminant Message.GetMenuLanguage = 0x91" |
  "Message_discriminant (Message.ReportPhysicalAddr _ _) = 0x84" |
  "Message_discriminant (Message.SetMenuLanguage _) = 0x32" |
  "Message_discriminant (Message.DeckControl _) = 0x42" |
  "Message_discriminant (Message.DeckStatus _) = 0x1B" |
  "Message_discriminant (Message.GiveDeckStatus _) = 0x1A" |
  "Message_discriminant (Message.Play _) = 0x41" |
  "Message_discriminant (Message.GiveTunerDeviceStatus _) = 8" |
  "Message_discriminant (Message.SelectAnalogueService _) = 0x92" |
  "Message_discriminant (Message.SelectDigitalService _) = 0x93" |
  "Message_discriminant (Message.TunerDeviceStatus _) = 7" |
  "Message_discriminant Message.TunerStepDecrement = 6" |
  "Message_discriminant Message.TunerStepIncrement = 5" |
  "Message_discriminant (Message.DeviceVendorId _) = 0x87" |
  "Message_discriminant Message.GiveDeviceVendorId = 0x8C" |
  "Message_discriminant (Message.VendorCommand _) = 0x89" |
  "Message_discriminant (Message.VendorCommandWithId _ _) = 0xA0" |
  "Message_discriminant (Message.VendorRemoteButtonDown _) = 0x8A" |
  "Message_discriminant Message.VendorRemoteButtonUp = 0x8B" |
  "Message_discriminant (Message.SetOsdString _ _) = 0x64" |
  "Message_discriminant Message.GiveOsdName = 0x46" |
  "Message_discriminant (Message.SetOsdName _) = 0x47" |
  "Message_discriminant (Message.MenuRequest _) = 0x8D" |
  "Message_discriminant (Message.MenuStatus _) = 0x8E" |
  "Message_discriminant (Message.UserControlPressed _) = 0x44" |
  "Message_discriminant Message.UserControlReleased = 0x45" |
  "Message_discriminant Message.GiveDevicePowerStatus = 0x8F" |
  "Message_discriminant (Message.ReportPowerStatus _) = 0x90" |
  "Message_discriminant (Message.FeatureAbort _ _) = 0" |
  "Message_discriminant Message.Abort = 0xFF" |
  "Message_discriminant Message.GiveAudioStatus = 0x71" |
  "Message_discriminant Message.GiveSystemAudioModeStatus = 0x7D" |
  "Message_discriminant (Message.ReportAudioStatus _) = 0x7A" |
  "Message_discriminant (Message.ReportShortAudioDescriptor _) = 0xA3" |
  "Message_discriminant (Message.RequestShortAudioDescriptor _) = 0xA4" |
  "Message_discriminant (Message.SetSystemAudioMode _) = 0x72" |
  "Message_discriminant (Message.SystemAudioModeRequest _) = 0x70" |
  "Message_discriminant (Message.SystemAudioModeStatus _) = 0x7E" |
  "Message_discriminant (Message.SetAudioRate _) = 0x9A" |
  "Message_discriminant Message.InitiateArc = 0xC0" |
  "Message_discriminant Message.ReportArcInitiated = 0xC1" |
  "Message_discriminant Message.ReportArcTerminated = 0xC2" |
  "Message_discriminant Message.RequestArcInitiation = 0xC3" |
  "Message_discriminant Message.RequestArcTermination = 0xC4" |
  "Message_discriminant Message.TerminateArc = 0xC5" |
  "Message_discriminant (Message.CdcMessage _ _) = 0xF8" |
  "Message_discriminant (Message.ReportFeatures _ _ _ _) = 0xA6" |
  "Message_discriminant Message.GiveFeatures = 0xA5" |
  "Message_discriminant (Message.RequestCurrentLatency _) = 0xA7" |
  "Message_discriminant (Message.ReportCurrentLatency _ _ _ _) = 0xA8" |
  "Message_discriminant (Message.SetAudioVolumeLevel _) = 0x73"

text \<open>The opcode of the same name, as a specification of the discriminants.\<close>

primrec Message_variant :: "Message \<Rightarrow> Opcode" where
  "Message_variant (Message.ActiveSource _) = Opcode.ActiveSource" |
  "Message_variant Message.ImageViewOn = Opcode.ImageViewOn" |
  "Message_variant Message.TextViewOn = Opcode.TextViewOn" |
  "Message_variant (Message.InactiveSource _) = Opcode.InactiveSource" |
  "Message_variant Message.RequestActiveSource = Opcode.RequestActiveSource" |
  "Message_variant (Message.RoutingChange _ _) = Opcode.RoutingChange" |
  "Message_variant (Message.RoutingInformation _) = Opcode.RoutingInformation" |
  "Message_variant (Message.SetStreamPath _) = Opcode.SetStreamPath" |
  "Message_variant Message.Standby = Opcode.Standby" |
  "Message_variant Message.RecordOff = Opcode.RecordOff" |
  "Message_variant (Message.RecordOn _) = Opcode.RecordOn" |
  "Message_variant (Message.RecordStatus _) = Opcode.RecordStatus" |
  "Message_variant Message.RecordTvScreen = Opcode.RecordTvScreen" |
  "Message_variant (Message.ClearAnalogueTimer _ _ _ _ _ _) = Opcode.ClearAnalogueTimer" |
  "Message_variant (Message.ClearDigitalTimer _ _ _ _ _ _) = Opcode.ClearDigitalTimer" |
  "Message_variant (Message.ClearExtTimer _ _ _ _ _ _) = Opcode.ClearExtTimer" |
  "Message_variant (Message.SetAnalogueTimer _ _ _ _ _ _) = Opcode.SetAnalogueTimer" |
  "Message_variant (Message.SetDigitalTimer _ _ _ _ _ _) = Opcode.SetDigitalTimer" |
  "Message_variant (Message.SetExtTimer _ _ _ _ _ _) = Opcode.SetExtTimer" |
  "Message_variant (Message.SetTimerProgramTitle _) = Opcode.SetTimerProgramTitle" |
  "Message_variant (Message.TimerClearedStatus _) = Opcode.TimerClearedStatus" |
  "Message_variant (Message.TimerStatus _) = Opcode.TimerStatus" |
  "Message_variant (Message.CecVersion _) = Opcode.CecVersion" |
  "Message_variant Message.GetCecVersion = Opcode.GetCecVersion" |
  "Message_variant Message.GivePhysicalAddr = Opcode.GivePhysicalAddr" |
  "Message_variant Message.GetMenuLanguage = Opcode.GetMenuLanguage" |
  "Message_variant (Message.ReportPhysicalAddr _ _) = Opcode.ReportPhysicalAddr" |
  "Message_variant (Message.SetMenuLanguage _) = Opcode.SetMenuLanguage" |
  "Message_variant (Message.DeckControl _) = Opcode.DeckControl" |
  "Message_variant (Message.DeckStatus _) = Opcode.DeckStatus" |
  "Message_variant (Message.GiveDeckStatus _) = Opcode.GiveDeckStatus" |
  "Message_variant (Message.Play _) = Opcode.Play" |
  "Message_variant (Message.GiveTunerDeviceStatus _) = Opcode.GiveTunerDeviceStatus" |
  "Message_variant (Message.SelectAnalogueService _) = Opcode.SelectAnalogueService" |
  "Message_variant (Message.SelectDigitalService _) = Opcode.SelectDigitalService" |
  "Message_variant (Message.TunerDeviceStatus _) = Opcode.TunerDeviceStatus" |
  "Message_variant Message.TunerStepDecrement = Opcode.TunerStepDecrement" |
  "Message_variant Message.TunerStepIncrement = Opcode.TunerStepIncrement" |
  "Message_variant (Message.DeviceVendorId _) = Opcode.DeviceVendorId" |
  "Message_variant Message.GiveDeviceVendorId = Opcode.GiveDeviceVendorId" |
  "Message_variant (Message.VendorCommand _) = Opcode.VendorCommand" |
  "Message_variant (Message.VendorCommandWithId _ _) = Opcode.VendorCommandWithId" |
  "Message_variant (Message.VendorRemoteButtonDown _) = Opcode.VendorRemoteButtonDown" |
  "Message_variant Message.VendorRemoteButtonUp = Opcode.VendorRemoteButtonUp" |
  "Message_variant (Message.SetOsdString _ _) = Opcode.SetOsdString" |
  "Message_variant Message.GiveOsdName = Opcode.GiveOsdName" |
  "Message_variant (Message.SetOsdName _) = Opcode.SetOsdName" |
  "Message_variant (Message.MenuRequest _) = Opcode.MenuRequest" |
  "Message_variant (Message.MenuStatus _) = Opcode.MenuStatus" |
  "Message_variant (Message.UserControlPressed _) = Opcode.UserControlPressed" |
  "Message_variant Message.UserControlReleased = Opcode.UserControlReleased" |
  "Message_variant Message.GiveDevicePowerStatus = Opcode.GiveDevicePowerStatus" |
  "Message_variant (Message.ReportPowerStatus _) = Opcode.ReportPowerStatus" |
  "Message_variant (Message.FeatureAbort _ _) = Opcode.FeatureAbort" |
  "Message_variant Message.Abort = Opcode.Abort" |
  "Message_variant Message.GiveAudioStatus = Opcode.GiveAudioStatus" |
  "Message_variant Message.GiveSystemAudioModeStatus = Opcode.GiveSystemAudioModeStatus" |
  "Message_variant (Message.ReportAudioStatus _) = Opcode.ReportAudioStatus" |
  "Message_variant (Message.ReportShortAudioDescriptor _) = Opcode.ReportShortAudioDescriptor" |
  "Message_variant (Message.RequestShortAudioDescriptor _) = Opcode.RequestShortAudioDescriptor" |
  "Message_variant (Message.SetSystemAudioMode _) = Opcode.SetSystemAudioMode" |
  "Message_variant (Message.SystemAudioModeRequest _) = Opcode.SystemAudioModeRequest" |
  "Message_variant (Message.SystemAudioModeStatus _) = Opcode.SystemAudioModeStatus" |
  "Message_variant (Message.SetAudioRate _) = Opcode.SetAudioRate" |
  "Message_variant Message.InitiateArc = Opcode.InitiateArc" |
  "Message_variant Message.ReportArcInitiated = Opcode.ReportArcInitiated" |
  "Message_variant Message.ReportArcTerminated = Opcode.ReportArcTerminated" |
  "Message_variant Message.RequestArcInitiation = Opcode.RequestArcInitiation" |
  "Message_variant Message.RequestArcTermination = Opcode.RequestArcTermination" |
  "Message_variant Message.TerminateArc = Opcode.TerminateArc" |
  "Message_variant (Message.CdcMessage _ _) = Opcode.CdcMessage" |
  "Message_variant (Message.ReportFeatures _ _ _ _) = Opcode.ReportFeatures" |
  "Message_variant Message.GiveFeatures = Opcode.GiveFeatures" |
  "Message_variant (Message.RequestCurrentLatency _) = Opcode.RequestCurrentLatency" |
  "Message_variant (Message.ReportCurrentLatency _ _ _ _) = Opcode.ReportCurrentLatency" |
  "Message_variant (Message.SetAudioVolumeLevel _) = Opcode.SetAudioVolumeLevel"

text \<open>
  \<open>opcode\<close> reads the discriminant from the first byte of the value and converts it with
  \<open>try_from_primitive\<close>; the \<open>unwrap\<close> is \<^term>\<open>Panic\<close> on an error.
\<close>

definition Message_opcode :: "Message \<Rightarrow> Opcode result" where
  "Message_opcode m =
     (case Opcode_try_from_primitive (Message_discriminant m) of
        Ok opcode \<Rightarrow> Ok opcode | _ \<Rightarrow> Panic)"

definition Message_addressing_type :: "Message \<Rightarrow> AddressingType result" where
  "Message_addressing_type m = and_then (Message_opcode m) (\<lambda>oc. Ok (Opcode_addressing_type oc))"

definition Message_can_directly_address :: "Message \<Rightarrow> bool result" where
  "Message_can_directly_address m =
     and_then (Message_opcode m) (\<lambda>oc. Ok (Opcode_can_directly_address oc))"

definition Message_can_broadcast :: "Message \<Rightarrow> bool result" where
  "Message_can_broadcast m = and_then (Message_opcode m) (\<lambda>oc. Ok (Opcode_can_broadcast oc))"

primrec Message_to_bytes :: "Message \<Rightarrow> u8 list option" where
  "Message_to_bytes (Message.ActiveSource address) =
     emit [Some [Opcode_into Opcode.ActiveSource], PhysicalAddress_to_bytes address]" |
  "Message_to_bytes Message.ImageViewOn = Some [Opcode_into Opcode.ImageViewOn]" |
  "Message_to_bytes Message.TextViewOn = Some [Opcode_into Opcode.TextViewOn]" |
  "Message_to_bytes (Message.InactiveSource address) =
     emit [Some [Opcode_into Opcode.InactiveSource], PhysicalAddress_to_bytes address]" |
  "Message_to_bytes Message.RequestActiveSource = Some [Opcode_into Opcode.RequestActiveSource]" |
  "Message_to_bytes (Message.RoutingChange original_address new_address) =
     emit [Some [Opcode_into Opcode.RoutingChange],
       PhysicalAddress_to_bytes original_address, PhysicalAddress_to_bytes new_address]" |
  "Message_to_bytes (Message.RoutingInformation address) =
     emit [Some [Opcode_into Opcode.RoutingInformation], PhysicalAddress_to_bytes address]" |
  "Message_to_bytes (Message.SetStreamPath address) =
     emit [Some [Opcode_into Opcode.SetStreamPath], PhysicalAddress_to_bytes address]" |
  "Message_to_bytes Message.Standby = Some [Opcode_into Opcode.Standby]" |
  "Message_to_bytes Message.RecordOff = Some [Opcode_into Opcode.RecordOff]" |
  "Message_to_bytes (Message.RecordOn source) =
     emit [Some [Opcode_into Opcode.RecordOn], RecordSource_to_bytes source]" |
  "Message_to_bytes (Message.RecordStatus status) =
     emit [Some [Opcode_into Opcode.RecordStatus], RecordStatusInfo_to_bytes status]" |
  "Message_to_bytes Message.RecordTvScreen = Some [Opcode_into Opcode.RecordTvScreen]" |
  "Message_to_bytes (Message.ClearAnalogueTimer day_of_month month_of_year start_time duration' recording_sequence service_id') =
     emit [Some [Opcode_into Opcode.ClearAnalogueTimer], DayOfMonth_to_bytes day_of_month,
       MonthOfYear_to_bytes month_of_year, Time_to_bytes start_time,
       Duration_to_bytes duration', RecordingSequence_to_bytes recording_sequence,
       AnalogueServiceId_to_bytes service_id']" |
  "Message_to_bytes (Message.ClearDigitalTimer day_of_month month_of_year start_time duration' recording_sequence service_id') =
     emit [Some [Opcode_into Opcode.ClearDigitalTimer], DayOfMonth_to_bytes day_of_month,
       MonthOfYear_to_bytes month_of_year, Time_to_bytes start_time,
       Duration_to_bytes duration', RecordingSequence_to_bytes recording_sequence,
       DigitalServiceId_to_bytes service_id']" |
  "Message_to_bytes (Message.ClearExtTimer day_of_month month_of_year start_time duration' recording_sequence external_source) =
     emit [Some [Opcode_into Opcode.ClearExtTimer], DayOfMonth_to_bytes day_of_month,
       MonthOfYear_to_bytes month_of_year, Time_to_bytes start_time,
       Duration_to_bytes duration', RecordingSequence_to_bytes recording_sequence,
       ExternalSource_to_bytes external_source]" |
  "Message_to_bytes (Message.SetAnalogueTimer day_of_month month_of_year start_time duration' recording_sequence service_id') =
     emit [Some [Opcode_into Opcode.SetAnalogueTimer], DayOfMonth_to_bytes day_of_month,
       MonthOfYear_to_bytes month_of_year, Time_to_bytes start_time,
       Duration_to_bytes duration', RecordingSequence_to_bytes recording_sequence,
       AnalogueServiceId_to_bytes service_id']" |
  "Message_to_bytes (Message.SetDigitalTimer day_of_month month_of_year start_time duration' recording_sequence service_id') =
     emit [Some [Opcode_into Opcode.SetDigitalTimer], DayOfMonth_to_bytes day_of_month,
       MonthOfYear_to_bytes month_of_year, Time_to_bytes start_time,
       Duration_to_bytes duration', RecordingSequence_to_bytes recording_sequence,
       DigitalServiceId_to_bytes service_id']" |
  "Message_to_bytes (Message.SetExtTimer day_of_month month_of_year start_time duration' recording_sequence external_source) =
     emit [Some [Opcode_into Opcode.SetExtTimer], DayOfMonth_to_bytes day_of_month,
       MonthOfYear_to_bytes month_of_year, Time_to_bytes start_time,
       Duration_to_bytes duration', RecordingSequence_to_bytes recording_sequence,
       ExternalSource_to_bytes external_source]" |
  "Message_to_bytes (Message.SetTimerProgramTitle title) =
     emit [Some [Opcode_into Opcode.SetTimerProgramTitle],
       (buffer_to_bytes u8_to_bytes) title]" |
  "Message_to_bytes (Message.TimerClearedStatus status) =
     emit [Some [Opcode_into Opcode.TimerClearedStatus],
       TimerClearedStatusData_to_bytes status]" |
  "Message_to_bytes (Message.TimerStatus status) =
     emit [Some [Opcode_into Opcode.TimerStatus], TimerStatusData_to_bytes status]" |
  "Message_to_bytes (Message.CecVersion version) =
     emit [Some [Opcode_into Opcode.CecVersion], Version_to_bytes version]" |
  "Message_to_bytes Message.GetCecVersion = Some [Opcode_into Opcode.GetCecVersion]" |
  "Message_to_bytes Message.GivePhysicalAddr = Some [Opcode_into Opcode.GivePhysicalAddr]" |
  "Message_to_bytes Message.GetMenuLanguage = Some [Opcode_into Opcode.GetMenuLanguage]" |
  "Message_to_bytes (Message.ReportPhysicalAddr physical_address device_type) =
     emit [Some [Opcode_into Opcode.ReportPhysicalAddr],
       PhysicalAddress_to_bytes physical_address, PrimaryDeviceType_to_bytes device_type]" |
  "Message_to_bytes (Message.SetMenuLanguage language) =
     emit [Some [Opcode_into Opcode.SetMenuLanguage], array_to_bytes language]" |
  "Message_to_bytes (Message.DeckControl mode) =
     emit [Some [Opcode_into Opcode.DeckControl], DeckControlMode_to_bytes mode]" |
  "Message_to_bytes (Message.DeckStatus info) =
     emit [Some [Opcode_into Opcode.DeckStatus], DeckInfo_to_bytes info]" |
  "Message_to_bytes (Message.GiveDeckStatus request) =
     emit [Some [Opcode_into Opcode.GiveDeckStatus], StatusRequest_to_bytes request]" |
  "Message_to_bytes (Message.Play mode) =
     emit [Some [Opcode_into Opcode.Play], PlayMode_to_bytes mode]" |
  "Message_to_bytes (Message.GiveTunerDeviceStatus request) =
     emit [Some [Opcode_into Opcode.GiveTunerDeviceStatus], StatusRequest_to_bytes request]" |
  "Message_to_bytes (Message.SelectAnalogueService service_id') =
     emit [Some [Opcode_into Opcode.SelectAnalogueService],
       AnalogueServiceId_to_bytes service_id']" |
  "Message_to_bytes (Message.SelectDigitalService service_id') =
     emit [Some [Opcode_into Opcode.SelectDigitalService],
       DigitalServiceId_to_bytes service_id']" |
  "Message_to_bytes (Message.TunerDeviceStatus info) =
     emit [Some [Opcode_into Opcode.TunerDeviceStatus], TunerDeviceInfo_to_bytes info]" |
  "Message_to_bytes Message.TunerStepDecrement = Some [Opcode_into Opcode.TunerStepDecrement]" |
  "Message_to_bytes Message.TunerStepIncrement = Some [Opcode_into Opcode.TunerStepIncrement]" |
  "Message_to_bytes (Message.DeviceVendorId vendor_id) =
     emit [Some [Opcode_into Opcode.DeviceVendorId], VendorId_to_bytes vendor_id]" |
  "Message_to_bytes Message.GiveDeviceVendorId = Some [Opcode_into Opcode.GiveDeviceVendorId]" |
  "Message_to_bytes (Message.VendorCommand command) =
     emit [Some [Opcode_into Opcode.VendorCommand], (buffer_to_bytes u8_to_bytes) command]" |
  "Message_to_bytes (Message.VendorCommandWithId vendor_id vendor_specific_data) =
     emit [Some [Opcode_into Opcode.VendorCommandWithId], VendorId_to_bytes vendor_id,
       (buffer_to_bytes u8_to_bytes) vendor_specific_data]" |
  "Message_to_bytes (Message.VendorRemoteButtonDown rc_code) =
     emit [Some [Opcode_into Opcode.VendorRemoteButtonDown],
       (buffer_to_bytes u8_to_bytes) rc_code]" |
  "Message_to_bytes Message.VendorRemoteButtonUp = Some [Opcode_into Opcode.VendorRemoteButtonUp]" |
  "Message_to_bytes (Message.SetOsdString display_control osd_string) =
     emit [Some [Opcode_into Opcode.SetOsdString], DisplayControl_to_bytes display_control,
       (buffer_to_bytes u8_to_bytes) osd_string]" |
  "Message_to_bytes Message.GiveOsdName = Some [Opcode_into Opcode.GiveOsdName]" |
  "Message_to_bytes (Message.SetOsdName name) =
     emit [Some [Opcode_into Opcode.SetOsdName], (buffer_to_bytes u8_to_bytes) name]" |
  "Message_to_bytes (Message.MenuRequest request_type) =
     emit [Some [Opcode_into Opcode.MenuRequest], MenuRequestType_to_bytes request_type]" |
  "Message_to_bytes (Message.MenuStatus state) =
     emit [Some [Opcode_into Opcode.MenuStatus], MenuState_to_bytes state]" |
  "Message_to_bytes (Message.UserControlPressed ui_command) =
     emit [Some [Opcode_into Opcode.UserControlPressed], UiCommand_to_bytes ui_command]" |
  "Message_to_bytes Message.UserControlReleased = Some [Opcode_into Opcode.UserControlReleased]" |
  "Message_to_bytes Message.GiveDevicePowerStatus = Some [Opcode_into Opcode.GiveDevicePowerStatus]" |
  "Message_to_bytes (Message.ReportPowerStatus status) =
     emit [Some [Opcode_into Opcode.ReportPowerStatus], PowerStatus_to_bytes status]" |
  "Message_to_bytes (Message.FeatureAbort opcode' abort_reason) =
     emit [Some [Opcode_into Opcode.FeatureAbort], u8_to_bytes opcode',
       AbortReason_to_bytes abort_reason]" |
  "Message_to_bytes Message.Abort = Some [Opcode_into Opcode.Abort]" |
  "Message_to_bytes Message.GiveAudioStatus = Some [Opcode_into Opcode.GiveAudioStatus]" |
  "Message_to_bytes Message.GiveSystemAudioModeStatus = Some [Opcode_into Opcode.GiveSystemAudioModeStatus]" |
  "Message_to_bytes (Message.ReportAudioStatus status) =
     emit [Some [Opcode_into Opcode.ReportAudioStatus], AudioStatus_to_bytes status]" |
  "Message_to_bytes (Message.ReportShortAudioDescriptor descriptors) =
     emit [Some [Opcode_into Opcode.ReportShortAudioDescriptor],
       (buffer_to_bytes array_to_bytes) descriptors]" |
  "Message_to_bytes (Message.RequestShortAudioDescriptor descriptors) =
     emit [Some [Opcode_into Opcode.RequestShortAudioDescriptor],
       (buffer_to_bytes AudioFormatIdAndCode_to_bytes) descriptors]" |
  "Message_to_bytes (Message.SetSystemAudioMode status) =
     emit [Some [Opcode_into Opcode.SetSystemAudioMode], bool_to_bytes status]" |
  "Message_to_bytes (Message.SystemAudioModeRequest physical_address) =
     emit [Some [Opcode_into Opcode.SystemAudioModeRequest],
       PhysicalAddress_to_bytes physical_address]" |
  "Message_to_bytes (Message.SystemAudioModeStatus status) =
     emit [Some [Opcode_into Opcode.SystemAudioModeStatus], bool_to_bytes status]" |
  "Message_to_bytes (Message.SetAudioRate audio_rate) =
     emit [Some [Opcode_into Opcode.SetAudioRate], AudioRate_to_bytes audio_rate]" |
  "Message_to_bytes Message.InitiateArc = Some [Opcode_into Opcode.InitiateArc]" |
  "Message_to_bytes Message.ReportArcInitiated = Some [Opcode_into Opcode.ReportArcInitiated]" |
  "Message_to_bytes Message.ReportArcTerminated = Some [Opcode_into Opcode.ReportArcTerminated]" |
  "Message_to_bytes Message.RequestArcInitiation = Some [Opcode_into Opcode.RequestArcInitiation]" |
  "Message_to_bytes Message.RequestArcTermination = Some [Opcode_into Opcode.RequestArcTermination]" |
  "Message_to_bytes Message.TerminateArc = Some [Opcode_into Opcode.TerminateArc]" |
  "Message_to_bytes (Message.CdcMessage initiator message) =
     emit [Some [Opcode_into Opcode.CdcMessage], PhysicalAddress_to_bytes initiator,
       CdcMessage_to_bytes message]" |
  "Message_to_bytes (Message.ReportFeatures version device_types rc_profile device_features) =
     emit [Some [Opcode_into Opcode.ReportFeatures], Version_to_bytes version,
       AllDeviceTypes_to_bytes device_types, RcProfile_to_bytes rc_profile,
       DeviceFeatures_to_bytes device_features]" |
  "Message_to_bytes Message.GiveFeatures = Some [Opcode_into Opcode.GiveFeatures]" |
  "Message_to_bytes (Message.RequestCurrentLatency physical_address) =
     emit [Some [Opcode_into Opcode.RequestCurrentLatency],
       PhysicalAddress_to_bytes physical_address]" |
  "Message_to_bytes (Message.ReportCurrentLatency physical_address video_latency flags audio_output_delay) =
     emit [Some [Opcode_into Opcode.ReportCurrentLatency],
       PhysicalAddress_to_bytes physical_address, Delay_to_bytes video_latency,
       LatencyFlags_to_bytes flags, (option_to_bytes Delay_to_bytes) audio_output_delay]" |
  "Message_to_bytes (Message.SetAudioVolumeLevel volume_level) =
     emit [Some [Opcode_into Opcode.SetAudioVolumeLevel],
       AudioVolumeLevel_to_bytes volume_level]"

primrec Message_len :: "Message \<Rightarrow> nat" where
  "Message_len (Message.ActiveSource _) = 1 + 2" |
  "Message_len Message.ImageViewOn = 1" |
  "Message_len Message.TextViewOn = 1" |
  "Message_len (Message.InactiveSource _) = 1 + 2" |
  "Message_len Message.RequestActiveSource = 1" |
  "Message_len (Message.RoutingChange _ _) = 1 + 2 + 2" |
  "Message_len (Message.RoutingInformation _) = 1 + 2" |
  "Message_len (Message.SetStreamPath _) = 1 + 2" |
  "Message_len Message.Standby = 1" |
  "Message_len Message.RecordOff = 1" |
  "Message_len (Message.RecordOn source) = 1 + RecordSource_len source" |
  "Message_len (Message.RecordStatus _) = 1 + 1" |
  "Message_len Message.RecordTvScreen = 1" |
  "Message_len (Message.ClearAnalogueTimer _ _ _ _ _ _) = 1 + 1 + 1 + 2 + 2 + 1 + 4" |
  "Message_len (Message.ClearDigitalTimer _ _ _ _ _ _) = 1 + 1 + 1 + 2 + 2 + 1 + 7" |
  "Message_len (Message.ClearExtTimer _ _ _ _ _ external_source) = 1 + 1 + 1 + 2 + 2 + 1 + ExternalSource_len external_source" |
  "Message_len (Message.SetAnalogueTimer _ _ _ _ _ _) = 1 + 1 + 1 + 2 + 2 + 1 + 4" |
  "Message_len (Message.SetDigitalTimer _ _ _ _ _ _) = 1 + 1 + 1 + 2 + 2 + 1 + 7" |
  "Message_len (Message.SetExtTimer _ _ _ _ _ external_source) = 1 + 1 + 1 + 2 + 2 + 1 + ExternalSource_len external_source" |
  "Message_len (Message.SetTimerProgramTitle title) = 1 + buffer_len 1 14 title" |
  "Message_len (Message.TimerClearedStatus _) = 1 + 1" |
  "Message_len (Message.TimerStatus status) = 1 + TimerStatusData_len status" |
  "Message_len (Message.CecVersion _) = 1 + 1" |
  "Message_len Message.GetCecVersion = 1" |
  "Message_len Message.GivePhysicalAddr = 1" |
  "Message_len Message.GetMenuLanguage = 1" |
  "Message_len (Message.ReportPhysicalAddr _ _) = 1 + 2 + 1" |
  "Message_len (Message.SetMenuLanguage _) = 1 + 3" |
  "Message_len (Message.DeckControl _) = 1 + 1" |
  "Message_len (Message.DeckStatus _) = 1 + 1" |
  "Message_len (Message.GiveDeckStatus _) = 1 + 1" |
  "Message_len (Message.Play _) = 1 + 1" |
  "Message_len (Message.GiveTunerDeviceStatus _) = 1 + 1" |
  "Message_len (Message.SelectAnalogueService _) = 1 + 4" |
  "Message_len (Message.SelectDigitalService _) = 1 + 7" |
  "Message_len (Message.TunerDeviceStatus info) = 1 + TunerDeviceInfo_len info" |
  "Message_len Message.TunerStepDecrement = 1" |
  "Message_len Message.TunerStepIncrement = 1" |
  "Message_len (Message.DeviceVendorId _) = 1 + 3" |
  "Message_len Message.GiveDeviceVendorId = 1" |
  "Message_len (Message.VendorCommand command) = 1 + buffer_len 1 14 command" |
  "Message_len (Message.VendorCommandWithId _ vendor_specific_data) = 1 + 3 + buffer_len 1 11 vendor_specific_data" |
  "Message_len (Message.VendorRemoteButtonDown rc_code) = 1 + buffer_len 1 14 rc_code" |
  "Message_len Message.VendorRemoteButtonUp = 1" |
  "Message_len (Message.SetOsdString _ osd_string) = 1 + 1 + buffer_len 1 13 osd_string" |
  "Message_len Message.GiveOsdName = 1" |
  "Message_len (Message.SetOsdName name) = 1 + buffer_len 1 14 name" |
  "Message_len (Message.MenuRequest _) = 1 + 1" |
  "Message_len (Message.MenuStatus _) = 1 + 1" |
  "Message_len (Message.UserControlPressed ui_command) = 1 + UiCommand_len ui_command" |
  "Message_len Message.UserControlReleased = 1" |
  "Message_len Message.GiveDevicePowerStatus = 1" |
  "Message_len (Message.ReportPowerStatus _) = 1 + 1" |
  "Message_len (Message.FeatureAbort _ _) = 1 + 1 + 1" |
  "Message_len Message.Abort = 1" |
  "Message_len Message.GiveAudioStatus = 1" |
  "Message_len Message.GiveSystemAudioModeStatus = 1" |
  "Message_len (Message.ReportAudioStatus _) = 1 + 1" |
  "Message_len (Message.ReportShortAudioDescriptor descriptors) = 1 + buffer_len 3 4 descriptors" |
  "Message_len (Message.RequestShortAudioDescriptor descriptors) = 1 + buffer_len 1 4 descriptors" |
  "Message_len (Message.SetSystemAudioMode _) = 1 + 1" |
  "Message_len (Message.SystemAudioModeRequest _) = 1 + 2" |
  "Message_len (Message.SystemAudioModeStatus _) = 1 + 1" |
  "Message_len (Message.SetAudioRate _) = 1 + 1" |
  "Message_len Message.InitiateArc = 1" |
  "Message_len Message.ReportArcInitiated = 1" |
  "Message_len Message.ReportArcTerminated = 1" |
  "Message_len Message.RequestArcInitiation = 1" |
  "Message_len Message.RequestArcTermination = 1" |
  "Message_len Message.TerminateArc = 1" |
  "Message_len (Message.CdcMessage _ message) = 1 + 2 + CdcMessage_len message" |
  "Message_len (Message.ReportFeatures _ _ rc_profile device_features) = 1 + 1 + 1 + RcProfile_len rc_profile + DeviceFeatures_len device_features" |
  "Message_len Message.GiveFeatures = 1" |
  "Message_len (Message.RequestCurrentLatency _) = 1 + 2" |
  "Message_len (Message.ReportCurrentLatency _ _ _ audio_output_delay) = 1 + 2 + 1 + 1 + option_len one_byte audio_output_delay" |
  "Message_len (Message.SetAudioVolumeLevel _) = 1 + 1"

primrec Opcode_expected_len :: "Opcode \<Rightarrow> nat Range result" where
  "Opcode_expected_len Opcode.ActiveSource = expected_fold [AtLeast 2]" |
  "Opcode_expected_len Opcode.ImageViewOn = Ok (AtLeast 1)" |
  "Opcode_expected_len Opcode.TextViewOn = Ok (AtLeast 1)" |
  "Opcode_expected_len Opcode.InactiveSource = expected_fold [AtLeast 2]" |
  "Opcode_expected_len Opcode.RequestActiveSource = Ok (AtLeast 1)" |
  "Opcode_expected_len Opcode.RoutingChange = expected_fold [AtLeast 2, AtLeast 2]" |
  "Opcode_expected_len Opcode.RoutingInformation = expected_fold [AtLeast 2]" |
  "Opcode_expected_len Opcode.SetStreamPath = expected_fold [AtLeast 2]" |
  "Opcode_expected_len Opcode.Standby = Ok (AtLeast 1)" |
  "Opcode_expected_len Opcode.RecordOff = Ok (AtLeast 1)" |
  "Opcode_expected_len Opcode.RecordOn = expected_fold [AtLeast 1]" |
  "Opcode_expected_len Opcode.RecordStatus = expected_fold [AtLeast 1]" |
  "Opcode_expected_len Opcode.RecordTvScreen = Ok (AtLeast 1)" |
  "Opcode_expected_len Opcode.ClearAnalogueTimer =
     expected_fold [AtLeast 1, AtLeast 1, AtLeast 2, AtLeast 2, AtLeast 1, AtLeast 4]" |
  "Opcode_expected_len Opcode.ClearDigitalTimer =
     expected_fold [AtLeast 1, AtLeast 1, AtLeast 2, AtLeast 2, AtLeast 1, AtLeast 7]" |
  "Opcode_expected_len Opcode.ClearExtTimer =
     expected_fold [AtLeast 1, AtLeast 1, AtLeast 2, AtLeast 2, AtLeast 1, Only [1, 2]]" |
  "Opcode_expected_len Opcode.SetAnalogueTimer =
     expected_fold [AtLeast 1, AtLeast 1, AtLeast 2, AtLeast 2, AtLeast 1, AtLeast 4]" |
  "Opcode_expected_len Opcode.SetDigitalTimer =
     expected_fold [AtLeast 1, AtLeast 1, AtLeast 2, AtLeast 2, AtLeast 1, AtLeast 7]" |
  "Opcode_expected_len Opcode.SetExtTimer =
     expected_fold [AtLeast 1, AtLeast 1, AtLeast 2, AtLeast 2, AtLeast 1, Only [1, 2]]" |
  "Opcode_expected_len Opcode.SetTimerProgramTitle = expected_fold [AtLeast 0]" |
  "Opcode_expected_len Opcode.TimerClearedStatus = expected_fold [AtLeast 1]" |
  "Opcode_expected_len Opcode.TimerStatus = expected_fold [AtLeast 1]" |
  "Opcode_expected_len Opcode.CecVersion = expected_fold [AtLeast 1]" |
  "Opcode_expected_len Opcode.GetCecVersion = Ok (AtLeast 1)" |
  "Opcode_expected_len Opcode.GivePhysicalAddr = Ok (AtLeast 1)" |
  "Opcode_expected_len Opcode.GetMenuLanguage = Ok (AtLeast 1)" |
  "Opcode_expected_len Opcode.ReportPhysicalAddr = expected_fold [AtLeast 2, AtLeast 1]" |
  "Opcode_expected_len Opcode.SetMenuLanguage = expected_fold [AtLeast 3]" |
  "Opcode_expected_len Opcode.DeckControl = expected_fold [AtLeast 1]" |
  "Opcode_expected_len Opcode.DeckStatus = expected_fold [AtLeast 1]" |
  "Opcode_expected_len Opcode.GiveDeckStatus = expected_fold [AtLeast 1]" |
  "Opcode_expected_len Opcode.Play = expected_fold [AtLeast 1]" |
  "Opcode_expected_len Opcode.GiveTunerDeviceStatus = expected_fold [AtLeast 1]" |
  "Opcode_expected_len Opcode.SelectAnalogueService = expected_fold [AtLeast 4]" |
  "Opcode_expected_len Opcode.SelectDigitalService = expected_fold [AtLeast 7]" |
  "Opcode_expected_len Opcode.TunerDeviceStatus = expected_fold [Only [5, 8]]" |
  "Opcode_expected_len Opcode.TunerStepDecrement = Ok (AtLeast 1)" |
  "Opcode_expected_len Opcode.TunerStepIncrement = Ok (AtLeast 1)" |
  "Opcode_expected_len Opcode.DeviceVendorId = expected_fold [AtLeast 3]" |
  "Opcode_expected_len Opcode.GiveDeviceVendorId = Ok (AtLeast 1)" |
  "Opcode_expected_len Opcode.VendorCommand = expected_fold [AtLeast 0]" |
  "Opcode_expected_len Opcode.VendorCommandWithId = expected_fold [AtLeast 3, AtLeast 0]" |
  "Opcode_expected_len Opcode.VendorRemoteButtonDown = expected_fold [AtLeast 0]" |
  "Opcode_expected_len Opcode.VendorRemoteButtonUp = Ok (AtLeast 1)" |
  "Opcode_expected_len Opcode.SetOsdString = expected_fold [AtLeast 1, AtLeast 0]" |
  "Opcode_expected_len Opcode.GiveOsdName = Ok (AtLeast 1)" |
  "Opcode_expected_len Opcode.SetOsdName = expected_fold [AtLeast 0]" |
  "Opcode_expected_len Opcode.MenuRequest = expected_fold [AtLeast 1]" |
  "Opcode_expected_len Opcode.MenuStatus = expected_fold [AtLeast 1]" |
  "Opcode_expected_len Opcode.UserControlPressed = expected_fold [AtLeast 1]" |
  "Opcode_expected_len Opcode.UserControlReleased = Ok (AtLeast 1)" |
  "Opcode_expected_len Opcode.GiveDevicePowerStatus = Ok (AtLeast 1)" |
  "Opcode_expected_len Opcode.ReportPowerStatus = expected_fold [AtLeast 1]" |
  "Opcode_expected_len Opcode.FeatureAbort = expected_fold [AtLeast 1, AtLeast 1]" |
  "Opcode_expected_len Opcode.Abort = Ok (AtLeast 1)" |
  "Opcode_expected_len Opcode.GiveAudioStatus = Ok (AtLeast 1)" |
  "Opcode_expected_len Opcode.GiveSystemAudioModeStatus = Ok (AtLeast 1)" |
  "Opcode_expected_len Opcode.ReportAudioStatus = expected_fold [AtLeast 1]" |
  "Opcode_expected_len Opcode.ReportShortAudioDescriptor = expected_fold [AtLeast 0]" |
  "Opcode_expected_len Opcode.RequestShortAudioDescriptor = expected_fold [AtLeast 0]" |
  "Opcode_expected_len Opcode.SetSystemAudioMode = expected_fold [AtLeast 1]" |
  "Opcode_expected_len Opcode.SystemAudioModeRequest = expected_fold [AtLeast 2]" |
  "Opcode_expected_len Opcode.SystemAudioModeStatus = expected_fold [AtLeast 1]" |
  "Opcode_expected_len Opcode.SetAudioRate = expected_fold [AtLeast 1]" |
  "Opcode_expected_len Opcode.InitiateArc = Ok (AtLeast 1)" |
  "Opcode_expected_len Opcode.ReportArcInitiated = Ok (AtLeast 1)" |
  "Opcode_expected_len Opcode.ReportArcTerminated = Ok (AtLeast 1)" |
  "Opcode_expected_len Opcode.RequestArcInitiation = Ok (AtLeast 1)" |
  "Opcode_expected_len Opcode.RequestArcTermination = Ok (AtLeast 1)" |
  "Opcode_expected_len Opcode.TerminateArc = Ok (AtLeast 1)" |
  "Opcode_expected_len Opcode.CdcMessage = expected_fold [AtLeast 2, AtLeast 1]" |
  "Opcode_expected_len Opcode.ReportFeatures =
     expected_fold [AtLeast 1, AtLeast 1, AtLeast 1, AtLeast 1]" |
  "Opcode_expected_len Opcode.GiveFeatures = Ok (AtLeast 1)" |
  "Opcode_expected_len Opcode.RequestCurrentLatency = expected_fold [AtLeast 2]" |
  "Opcode_expected_len Opcode.ReportCurrentLatency =
     expected_fold [AtLeast 2, AtLeast 1, AtLeast 1, AtLeast 0]" |
  "Opcode_expected_len Opcode.SetAudioVolumeLevel = expected_fold [AtLeast 1]"

primrec Message_decode :: "Opcode \<Rightarrow> u8 list \<Rightarrow> Message result" where
  "Message_decode Opcode.ActiveSource bs =
     with_field PhysicalAddress_try_from_bytes (\<lambda>_. 2) bs 1 (\<lambda>address offset.
     Ok (Message.ActiveSource address))" |
  "Message_decode Opcode.ImageViewOn bs = Ok Message.ImageViewOn" |
  "Message_decode Opcode.TextViewOn bs = Ok Message.TextViewOn" |
  "Message_decode Opcode.InactiveSource bs =
     with_field PhysicalAddress_try_from_bytes (\<lambda>_. 2) bs 1 (\<lambda>address offset.
     Ok (Message.InactiveSource address))" |
  "Message_decode Opcode.RequestActiveSource bs = Ok Message.RequestActiveSource" |
  "Message_decode Opcode.RoutingChange bs =
     with_field PhysicalAddress_try_from_bytes (\<lambda>_. 2) bs 1 (\<lambda>original_address offset.
     with_field PhysicalAddress_try_from_bytes (\<lambda>_. 2) bs offset (\<lambda>new_address offset.
     Ok (Message.RoutingChange original_address new_address)))" |
  "Message_decode Opcode.RoutingInformation bs =
     with_field PhysicalAddress_try_from_bytes (\<lambda>_. 2) bs 1 (\<lambda>address offset.
     Ok (Message.RoutingInformation address))" |
  "Message_decode Opcode.SetStreamPath bs =
     with_field PhysicalAddress_try_from_bytes (\<lambda>_. 2) bs 1 (\<lambda>address offset.
     Ok (Message.SetStreamPath address))" |
  "Message_decode Opcode.Standby bs = Ok Message.Standby" |
  "Message_decode Opcode.RecordOff bs = Ok Message.RecordOff" |
  "Message_decode Opcode.RecordOn bs =
     with_field RecordSource_try_from_bytes RecordSource_len bs 1 (\<lambda>source offset.
     Ok (Message.RecordOn source))" |
  "Message_decode Opcode.RecordStatus bs =
     with_field RecordStatusInfo_try_from_bytes one_byte bs 1 (\<lambda>status offset.
     Ok (Message.RecordStatus status))" |
  "Message_decode Opcode.RecordTvScreen bs = Ok Message.RecordTvScreen" |
  "Message_decode Opcode.ClearAnalogueTimer bs =
     with_field DayOfMonth_try_from_bytes one_byte bs 1 (\<lambda>day_of_month offset.
     with_field MonthOfYear_try_from_bytes one_byte bs offset (\<lambda>month_of_year offset.
     with_field Time_try_from_bytes (\<lambda>_. 2) bs offset (\<lambda>start_time offset.
     with_field Duration_try_from_bytes (\<lambda>_. 2) bs offset (\<lambda>duration' offset.
     with_field RecordingSequence_try_from_bytes one_byte bs offset (\<lambda>recording_sequence offset.
     with_field AnalogueServiceId_try_from_bytes (\<lambda>_. 4) bs offset (\<lambda>service_id' offset.
     Ok (Message.ClearAnalogueTimer day_of_month month_of_year start_time duration' recording_sequence service_id')))))))" |
  "Message_decode Opcode.ClearDigitalTimer bs =
     with_field DayOfMonth_try_from_bytes one_byte bs 1 (\<lambda>day_of_month offset.
     with_field MonthOfYear_try_from_bytes one_byte bs offset (\<lambda>month_of_year offset.
     with_field Time_try_from_bytes (\<lambda>_. 2) bs offset (\<lambda>start_time offset.
     with_field Duration_try_from_bytes (\<lambda>_. 2) bs offset (\<lambda>duration' offset.
     with_field RecordingSequence_try_from_bytes one_byte bs offset (\<lambda>recording_sequence offset.
     with_field DigitalServiceId_try_from_bytes (\<lambda>_. 7) bs offset (\<lambda>service_id' offset.
     Ok (Message.ClearDigitalTimer day_of_month month_of_year start_time duration' recording_sequence service_id')))))))" |
  "Message_decode Opcode.ClearExtTimer bs =
     with_field DayOfMonth_try_from_bytes one_byte bs 1 (\<lambda>day_of_month offset.
     with_field MonthOfYear_try_from_bytes one_byte bs offset (\<lambda>month_of_year offset.
     with_field Time_try_from_bytes (\<lambda>_. 2) bs offset (\<lambda>start_time offset.
     with_field Duration_try_from_bytes (\<lambda>_. 2) bs offset (\<lambda>duration' offset.
     with_field RecordingSequence_try_from_bytes one_byte bs offset (\<lambda>recording_sequence offset.
     with_field ExternalSource_try_from_bytes ExternalSource_len bs offset (\<lambda>external_source offset.
     Ok (Message.ClearExtTimer day_of_month month_of_year start_time duration' recording_sequence external_source)))))))" |
  "Message_decode Opcode.SetAnalogueTimer bs =
     with_field DayOfMonth_try_from_bytes one_byte bs 1 (\<lambda>day_of_month offset.
     with_field MonthOfYear_try_from_bytes one_byte bs offset (\<lambda>month_of_year offset.
     with_field Time_try_from_bytes (\<lambda>_. 2) bs offset (\<lambda>start_time offset.
     with_field Duration_try_from_bytes (\<lambda>_. 2) bs offset (\<lambda>duration' offset.
     with_field RecordingSequence_try_from_bytes one_byte bs offset (\<lambda>recording_sequence offset.
     with_field AnalogueServiceId_try_from_bytes (\<lambda>_. 4) bs offset (\<lambda>service_id' offset.
     Ok (Message.SetAnalogueTimer day_of_month month_of_year start_time duration' recording_sequence service_id')))))))" |
  "Message_decode Opcode.SetDigitalTimer bs =
     with_field DayOfMonth_try_from_bytes one_byte bs 1 (\<lambda>day_of_month offset.
     with_field MonthOfYear_try_from_bytes one_byte bs offset (\<lambda>month_of_year offset.
     with_field Time_try_from_bytes (\<lambda>_. 2) bs offset (\<lambda>start_time offset.
     with_field Duration_try_from_bytes (\<lambda>_. 2) bs offset (\<lambda>duration' offset.
     with_field RecordingSequence_try_from_bytes one_byte bs offset (\<lambda>recording_sequence offset.
     with_field DigitalServiceId_try_from_bytes (\<lambda>_. 7) bs offset (\<lambda>service_id' offset.
     Ok (Message.SetDigitalTimer day_of_month month_of_year start_time duration' recording_sequence service_id')))))))" |
  "Message_decode Opcode.SetExtTimer bs =
     with_field DayOfMonth_try_from_bytes one_byte bs 1 (\<lambda>day_of_month offset.
     with_field MonthOfYear_try_from_bytes one_byte bs offset (\<lambda>month_of_year offset.
     with_field Time_try_from_bytes (\<lambda>_. 2) bs offset (\<lambda>start_time offset.
     with_field Duration_try_from_bytes (\<lambda>_. 2) bs offset (\<lambda>duration' offset.
     with_field RecordingSequence_try_from_bytes one_byte bs offset (\<lambda>recording_sequence offset.
     with_field ExternalSource_try_from_bytes ExternalSource_len bs offset (\<lambda>external_source offset.
     Ok (Message.SetExtTimer day_of_month month_of_year start_time duration' recording_sequence external_source)))))))" |
  "Message_decode Opcode.SetTimerProgramTitle bs =
     with_field (buffer_try_from_bytes u8_try_from_bytes 1 0 14) (buffer_len 1 14) bs 1 (\<lambda>title offset.
     Ok (Message.SetTimerProgramTitle title))" |
  "Message_decode Opcode.TimerClearedStatus bs =
     with_field TimerClearedStatusData_try_from_bytes one_byte bs 1 (\<lambda>status offset.
     Ok (Message.TimerClearedStatus status))" |
  "Message_decode Opcode.TimerStatus bs =
     with_field TimerStatusData_try_from_bytes TimerStatusData_len bs 1 (\<lambda>status offset.
     Ok (Message.TimerStatus status))" |
  "Message_decode Opcode.CecVersion bs =
     with_field Version_try_from_bytes one_byte bs 1 (\<lambda>version offset.
     Ok (Message.CecVersion version))" |
  "Message_decode Opcode.GetCecVersion bs = Ok Message.GetCecVersion" |
  "Message_decode Opcode.GivePhysicalAddr bs = Ok Message.GivePhysicalAddr" |
  "Message_decode Opcode.GetMenuLanguage bs = Ok Message.GetMenuLanguage" |
  "Message_decode Opcode.ReportPhysicalAddr bs =
     with_field PhysicalAddress_try_from_bytes (\<lambda>_. 2) bs 1 (\<lambda>physical_address offset.
     with_field PrimaryDeviceType_try_from_bytes one_byte bs offset (\<lambda>device_type offset.
     Ok (Message.ReportPhysicalAddr physical_address device_type)))" |
  "Message_decode Opcode.SetMenuLanguage bs =
     with_field (array_try_from_bytes 3) (\<lambda>_. 3) bs 1 (\<lambda>language offset.
     Ok (Message.SetMenuLanguage language))" |
  "Message_decode Opcode.DeckControl bs =
     with_field DeckControlMode_try_from_bytes one_byte bs 1 (\<lambda>mode offset.
     Ok (Message.DeckControl mode))" |
  "Message_decode Opcode.DeckStatus bs =
     with_field DeckInfo_try_from_bytes one_byte bs 1 (\<lambda>info offset.
     Ok (Message.DeckStatus info))" |
  "Message_decode Opcode.GiveDeckStatus bs =
     with_field StatusRequest_try_from_bytes one_byte bs 1 (\<lambda>request offset.
     Ok (Message.GiveDeckStatus request))" |
  "Message_decode Opcode.Play bs =
     with_field PlayMode_try_from_bytes one_byte bs 1 (\<lambda>mode offset.
     Ok (Message.Play mode))" |
  "Message_decode Opcode.GiveTunerDeviceStatus bs =
     with_field StatusRequest_try_from_bytes one_byte bs 1 (\<lambda>request offset.
     Ok (Message.GiveTunerDeviceStatus request))" |
  "Message_decode Opcode.SelectAnalogueService bs =
     with_field AnalogueServiceId_try_from_bytes (\<lambda>_. 4) bs 1 (\<lambda>service_id' offset.
     Ok (Message.SelectAnalogueService service_id'))" |
  "Message_decode Opcode.SelectDigitalService bs =
     with_field DigitalServiceId_try_from_bytes (\<lambda>_. 7) bs 1 (\<lambda>service_id' offset.
     Ok (Message.SelectDigitalService service_id'))" |
  "Message_decode Opcode.TunerDeviceStatus bs =
     with_field TunerDeviceInfo_try_from_bytes TunerDeviceInfo_len bs 1 (\<lambda>info offset.
     Ok (Message.TunerDeviceStatus info))" |
  "Message_decode Opcode.TunerStepDecrement bs = Ok Message.TunerStepDecrement" |
  "Message_decode Opcode.TunerStepIncrement bs = Ok Message.TunerStepIncrement" |
  "Message_decode Opcode.DeviceVendorId bs =
     with_field VendorId_try_from_bytes (\<lambda>_. 3) bs 1 (\<lambda>vendor_id offset.
     Ok (Message.DeviceVendorId vendor_id))" |
  "Message_decode Opcode.GiveDeviceVendorId bs = Ok Message.GiveDeviceVendorId" |
  "Message_decode Opcode.VendorCommand bs =
     with_field (buffer_try_from_bytes u8_try_from_bytes 1 0 14) (buffer_len 1 14) bs 1 (\<lambda>command offset.
     Ok (Message.VendorCommand command))" |
  "Message_decode Opcode.VendorCommandWithId bs =
     with_field VendorId_try_from_bytes (\<lambda>_. 3) bs 1 (\<lambda>vendor_id offset.
     with_field (buffer_try_from_bytes u8_try_from_bytes 1 0 11) (buffer_len 1 11) bs offset (\<lambda>vendor_specific_data offset.
     Ok (Message.VendorCommandWithId vendor_id vendor_specific_data)))" |
  "Message_decode Opcode.VendorRemoteButtonDown bs =
     with_field (buffer_try_from_bytes u8_try_from_bytes 1 0 14) (buffer_len 1 14) bs 1 (\<lambda>rc_code offset.
     Ok (Message.VendorRemoteButtonDown rc_code))" |
  "Message_decode Opcode.VendorRemoteButtonUp bs = Ok Message.VendorRemoteButtonUp" |
  "Message_decode Opcode.SetOsdString bs =
     with_field DisplayControl_try_from_bytes one_byte bs 1 (\<lambda>display_control offset.
     with_field (buffer_try_from_bytes u8_try_from_bytes 1 0 13) (buffer_len 1 13) bs offset (\<lambda>osd_string offset.
     Ok (Message.SetOsdString display_control osd_string)))" |
  "Message_decode Opcode.GiveOsdName bs = Ok Message.GiveOsdName" |
  "Message_decode Opcode.SetOsdName bs =
     with_field (buffer_try_from_bytes u8_try_from_bytes 1 0 14) (buffer_len 1 14) bs 1 (\<lambda>name offset.
     Ok (Message.SetOsdName name))" |
  "Message_decode Opcode.MenuRequest bs =
     with_field MenuRequestType_try_from_bytes one_byte bs 1 (\<lambda>request_type offset.
     Ok (Message.MenuRequest request_type))" |
  "Message_decode Opcode.MenuStatus bs =
     with_field MenuState_try_from_bytes one_byte bs 1 (\<lambda>state offset.
     Ok (Message.MenuStatus state))" |
  "Message_decode Opcode.UserControlPressed bs =
     with_field UiCommand_try_from_bytes UiCommand_len bs 1 (\<lambda>ui_command offset.
     Ok (Message.UserControlPressed ui_command))" |
  "Message_decode Opcode.UserControlReleased bs = Ok Message.UserControlReleased" |
  "Message_decode Opcode.GiveDevicePowerStatus bs = Ok Message.GiveDevicePowerStatus" |
  "Message_decode Opcode.ReportPowerStatus bs =
     with_field PowerStatus_try_from_bytes one_byte bs 1 (\<lambda>status offset.
     Ok (Message.ReportPowerStatus status))" |
  "Message_decode Opcode.FeatureAbort bs =
     with_field u8_try_from_bytes one_byte bs 1 (\<lambda>opcode' offset.
     with_field AbortReason_try_from_bytes one_byte bs offset (\<lambda>abort_reason offset.
     Ok (Message.FeatureAbort opcode' abort_reason)))" |
  "Message_decode Opcode.Abort bs = Ok Message.Abort" |
  "Message_decode Opcode.GiveAudioStatus bs = Ok Message.GiveAudioStatus" |
  "Message_decode Opcode.GiveSystemAudioModeStatus bs = Ok Message.GiveSystemAudioModeStatus" |
  "Message_decode Opcode.ReportAudioStatus bs =
     with_field AudioStatus_try_from_bytes one_byte bs 1 (\<lambda>status offset.
     Ok (Message.ReportAudioStatus status))" |
  "Message_decode Opcode.ReportShortAudioDescriptor bs =
     with_field (buffer_try_from_bytes (array_try_from_bytes 3) 3 [0, 0, 0] 4) (buffer_len 3 4) bs 1 (\<lambda>descriptors offset.
     Ok (Message.ReportShortAudioDescriptor descriptors))" |
  "Message_decode Opcode.RequestShortAudioDescriptor bs =
     with_field (buffer_try_from_bytes AudioFormatIdAndCode_try_from_bytes 1 (AudioFormatIdAndCode 0) 4) (buffer_len 1 4) bs 1 (\<lambda>descriptors offset.
     Ok (Message.RequestShortAudioDescriptor descriptors))" |
  "Message_decode Opcode.SetSystemAudioMode bs =
     with_field bool_try_from_bytes one_byte bs 1 (\<lambda>status offset.
     Ok (Message.SetSystemAudioMode status))" |
  "Message_decode Opcode.SystemAudioModeRequest bs =
     with_field PhysicalAddress_try_from_bytes (\<lambda>_. 2) bs 1 (\<lambda>physical_address offset.
     Ok (Message.SystemAudioModeRequest physical_address))" |
  "Message_decode Opcode.SystemAudioModeStatus bs =
     with_field bool_try_from_bytes one_byte bs 1 (\<lambda>status offset.
     Ok (Message.SystemAudioModeStatus status))" |
  "Message_decode Opcode.SetAudioRate bs =
     with_field AudioRate_try_from_bytes one_byte bs 1 (\<lambda>audio_rate offset.
     Ok (Message.SetAudioRate audio_rate))" |
  "Message_decode Opcode.InitiateArc bs = Ok Message.InitiateArc" |
  "Message_decode Opcode.ReportArcInitiated bs = Ok Message.ReportArcInitiated" |
  "Message_decode Opcode.ReportArcTerminated bs = Ok Message.ReportArcTerminated" |
  "Message_decode Opcode.RequestArcInitiation bs = Ok Message.RequestArcInitiation" |
  "Message_decode Opcode.RequestArcTermination bs = Ok Message.RequestArcTermination" |
  "Message_decode Opcode.TerminateArc bs = Ok Message.TerminateArc" |
  "Message_decode Opcode.CdcMessage bs =
     with_field PhysicalAddress_try_from_bytes (\<lambda>_. 2) bs 1 (\<lambda>initiator offset.
     with_field CdcMessage_try_from_bytes CdcMessage_len bs offset (\<lambda>message offset.
     Ok (Message.CdcMessage initiator message)))" |
  "Message_decode Opcode.ReportFeatures bs =
     with_field Version_try_from_bytes one_byte bs 1 (\<lambda>version offset.
     with_field AllDeviceTypes_try_from_bytes one_byte bs offset (\<lambda>device_types offset.
     with_field RcProfile_try_from_bytes RcProfile_len bs offset (\<lambda>rc_profile offset.
     with_field DeviceFeatures_try_from_bytes DeviceFeatures_len bs offset (\<lambda>device_features offset.
     Ok (Message.ReportFeatures version device_types rc_profile device_features)))))" |
  "Message_decode Opcode.GiveFeatures bs = Ok Message.GiveFeatures" |
  "Message_decode Opcode.RequestCurrentLatency bs =
     with_field PhysicalAddress_try_from_bytes (\<lambda>_. 2) bs 1 (\<lambda>physical_address offset.
     Ok (Message.RequestCurrentLatency physical_address))" |
  "Message_decode Opcode.ReportCurrentLatency bs =
     with_field PhysicalAddress_try_from_bytes (\<lambda>_. 2) bs 1 (\<lambda>physical_address offset.
     with_field Delay_try_from_bytes (\<lambda>_. 1) bs offset (\<lambda>video_latency offset.
     with_field LatencyFlags_try_from_bytes one_byte bs offset (\<lambda>flags offset.
     with_field (option_try_from_bytes Delay_try_from_bytes) (option_len one_byte) bs offset (\<lambda>audio_output_delay offset.
     Ok (Message.ReportCurrentLatency physical_address video_latency flags audio_output_delay)))))" |
  "Message_decode Opcode.SetAudioVolumeLevel bs =
     with_field AudioVolumeLevel_try_from_bytes (\<lambda>_. 1) bs 1 (\<lambda>volume_level offset.
     Ok (Message.SetAudioVolumeLevel volume_level))"

primrec Message_valid :: "Message \<Rightarrow> bool" where
  "Message_valid (Message.ActiveSource _) \<longleftrightarrow> True" |
  "Message_valid Message.ImageViewOn \<longleftrightarrow> True" |
  "Message_valid Message.TextViewOn \<longleftrightarrow> True" |
  "Message_valid (Message.InactiveSource _) \<longleftrightarrow> True" |
  "Message_valid Message.RequestActiveSource \<longleftrightarrow> True" |
  "Message_valid (Message.RoutingChange _ _) \<longleftrightarrow> True" |
  "Message_valid (Message.RoutingInformation _) \<longleftrightarrow> True" |
  "Message_valid (Message.SetStreamPath _) \<longleftrightarrow> True" |
  "Message_valid Message.Standby \<longleftrightarrow> True" |
  "Message_valid Message.RecordOff \<longleftrightarrow> True" |
  "Message_valid (Message.RecordOn source) \<longleftrightarrow> RecordSource_valid source" |
  "Message_valid (Message.RecordStatus _) \<longleftrightarrow> True" |
  "Message_valid Message.RecordTvScreen \<longleftrightarrow> True" |
  "Message_valid (Message.ClearAnalogueTimer _ _ start_time duration' _ _) \<longleftrightarrow>
     Time_valid start_time \<and> Duration_valid duration'" |
  "Message_valid (Message.ClearDigitalTimer _ _ start_time duration' _ service_id') \<longleftrightarrow>
     Time_valid start_time \<and> Duration_valid duration' \<and> DigitalServiceId_valid service_id'" |
  "Message_valid (Message.ClearExtTimer _ _ start_time duration' _ _) \<longleftrightarrow>
     Time_valid start_time \<and> Duration_valid duration'" |
  "Message_valid (Message.SetAnalogueTimer _ _ start_time duration' _ _) \<longleftrightarrow>
     Time_valid start_time \<and> Duration_valid duration'" |
  "Message_valid (Message.SetDigitalTimer _ _ start_time duration' _ service_id') \<longleftrightarrow>
     Time_valid start_time \<and> Duration_valid duration' \<and> DigitalServiceId_valid service_id'" |
  "Message_valid (Message.SetExtTimer _ _ start_time duration' _ _) \<longleftrightarrow>
     Time_valid start_time \<and> Duration_valid duration'" |
  "Message_valid (Message.SetTimerProgramTitle title) \<longleftrightarrow>
     buffer_valid (\<lambda>_. True) 0 14 title" |
  "Message_valid (Message.TimerClearedStatus _) \<longleftrightarrow> True" |
  "Message_valid (Message.TimerStatus status) \<longleftrightarrow> TimerStatusData_valid status" |
  "Message_valid (Message.CecVersion _) \<longleftrightarrow> True" |
  "Message_valid Message.GetCecVersion \<longleftrightarrow> True" |
  "Message_valid Message.GivePhysicalAddr \<longleftrightarrow> True" |
  "Message_valid Message.GetMenuLanguage \<longleftrightarrow> True" |
  "Message_valid (Message.ReportPhysicalAddr _ _) \<longleftrightarrow> True" |
  "Message_valid (Message.SetMenuLanguage language) \<longleftrightarrow> array_valid 3 language" |
  "Message_valid (Message.DeckControl _) \<longleftrightarrow> True" |
  "Message_valid (Message.DeckStatus _) \<longleftrightarrow> True" |
  "Message_valid (Message.GiveDeckStatus _) \<longleftrightarrow> True" |
  "Message_valid (Message.Play _) \<longleftrightarrow> True" |
  "Message_valid (Message.GiveTunerDeviceStatus _) \<longleftrightarrow> True" |
  "Message_valid (Message.SelectAnalogueService _) \<longleftrightarrow> True" |
  "Message_valid (Message.SelectDigitalService service_id') \<longleftrightarrow>
     DigitalServiceId_valid service_id'" |
  "Message_valid (Message.TunerDeviceStatus info) \<longleftrightarrow> TunerDeviceInfo_valid info" |
  "Message_valid Message.TunerStepDecrement \<longleftrightarrow> True" |
  "Message_valid Message.TunerStepIncrement \<longleftrightarrow> True" |
  "Message_valid (Message.DeviceVendorId vendor_id) \<longleftrightarrow> VendorId_valid vendor_id" |
  "Message_valid Message.GiveDeviceVendorId \<longleftrightarrow> True" |
  "Message_valid (Message.VendorCommand command) \<longleftrightarrow>
     buffer_valid (\<lambda>_. True) 0 14 command" |
  "Message_valid (Message.VendorCommandWithId vendor_id vendor_specific_data) \<longleftrightarrow>
     VendorId_valid vendor_id \<and> buffer_valid (\<lambda>_. True) 0 11 vendor_specific_data" |
  "Message_valid (Message.VendorRemoteButtonDown rc_code) \<longleftrightarrow>
     buffer_valid (\<lambda>_. True) 0 14 rc_code" |
  "Message_valid Message.VendorRemoteButtonUp \<longleftrightarrow> True" |
  "Message_valid (Message.SetOsdString _ osd_string) \<longleftrightarrow>
     buffer_valid (\<lambda>_. True) 0 13 osd_string" |
  "Message_valid Message.GiveOsdName \<longleftrightarrow> True" |
  "Message_valid (Message.SetOsdName name) \<longleftrightarrow> buffer_valid (\<lambda>_. True) 0 14 name" |
  "Message_valid (Message.MenuRequest _) \<longleftrightarrow> True" |
  "Message_valid (Message.MenuStatus _) \<longleftrightarrow> True" |
  "Message_valid (Message.UserControlPressed ui_command) \<longleftrightarrow> UiCommand_valid ui_command" |
  "Message_valid Message.UserControlReleased \<longleftrightarrow> True" |
  "Message_valid Message.GiveDevicePowerStatus \<longleftrightarrow> True" |
  "Message_valid (Message.ReportPowerStatus _) \<longleftrightarrow> True" |
  "Message_valid (Message.FeatureAbort _ _) \<longleftrightarrow> True" |
  "Message_valid Message.Abort \<longleftrightarrow> True" |
  "Message_valid Message.GiveAudioStatus \<longleftrightarrow> True" |
  "Message_valid Message.GiveSystemAudioModeStatus \<longleftrightarrow> True" |
  "Message_valid (Message.ReportAudioStatus _) \<longleftrightarrow> True" |
  "Message_valid (Message.ReportShortAudioDescriptor descriptors) \<longleftrightarrow>
     buffer_valid (array_valid 3) [0, 0, 0] 4 descriptors" |
  "Message_valid (Message.RequestShortAudioDescriptor descriptors) \<longleftrightarrow>
     buffer_valid (\<lambda>_. True) (AudioFormatIdAndCode 0) 4 descriptors" |
  "Message_valid (Message.SetSystemAudioMode _) \<longleftrightarrow> True" |
  "Message_valid (Message.SystemAudioModeRequest _) \<longleftrightarrow> True" |
  "Message_valid (Message.SystemAudioModeStatus _) \<longleftrightarrow> True" |
  "Message_valid (Message.SetAudioRate _) \<longleftrightarrow> True" |
  "Message_valid Message.InitiateArc \<longleftrightarrow> True" |
  "Message_valid Message.ReportArcInitiated \<longleftrightarrow> True" |
  "Message_valid Message.ReportArcTerminated \<longleftrightarrow> True" |
  "Message_valid Message.RequestArcInitiation \<longleftrightarrow> True" |
  "Message_valid Message.RequestArcTermination \<longleftrightarrow> True" |
  "Message_valid Message.TerminateArc \<longleftrightarrow> True" |
  "Message_valid (Message.CdcMessage _ message) \<longleftrightarrow> CdcMessage_valid message" |
  "Message_valid (Message.ReportFeatures _ _ rc_profile device_features) \<longleftrightarrow>
     RcProfile_valid rc_profile \<and> DeviceFeatures_valid device_features" |
  "Message_valid Message.GiveFeatures \<longleftrightarrow> True" |
  "Message_valid (Message.RequestCurrentLatency _) \<longleftrightarrow> True" |
  "Message_valid (Message.ReportCurrentLatency _ video_latency _ audio_output_delay) \<longleftrightarrow>
     Delay_is_valid video_latency \<and> pred_option Delay_is_valid audio_output_delay" |
  "Message_valid (Message.SetAudioVolumeLevel volume_level) \<longleftrightarrow>
     AudioVolumeLevel_is_valid volume_level"

definition Message_try_from_bytes :: "u8 list \<Rightarrow> Message result" where
  "Message_try_from_bytes bs =
     (if bs = [] then Err (OutOfRange (AtLeast 1) 0 ''bytes'')
      else
        and_then (index bs 0) (\<lambda>b.
        and_then (Opcode_try_from_primitive b) (\<lambda>opcode.
        and_then (Opcode_expected_len opcode) (\<lambda>expected.
        and_then (check expected (length bs) ''bytes'') (\<lambda>_.
        Message_decode opcode bs)))))"

section \<open>Codec of messages\<close>

lemma Opcode_expected_len_Ok: "\<exists>r. Opcode_expected_len oc = Ok r"
  by (cases oc; simp add: expected_fold_def)

lemma Opcode_expected_len_not_Panic [simp]: "Opcode_expected_len oc \<noteq> Panic"
  using Opcode_expected_len_Ok [of oc] by auto

lemma Message_decode_not_Panic: "1 \<le> length bs \<Longrightarrow> Message_decode oc bs \<noteq> Panic"
  by (cases oc; auto elim!: codec_panic)

lemma Message_decode_Ok:
  "1 \<le> length bs \<Longrightarrow> Message_decode oc bs = Ok m \<Longrightarrow>
   Message_variant m = oc \<and> Message_valid m \<and> Message_len m \<le> length bs"
  by (cases oc; auto elim!: codec_inv)

lemma Message_opcode_variant: "Message_opcode m = Ok (Message_variant m)"
proof -
  have "Message_discriminant m = Opcode_into (Message_variant m)"
    by (cases m) simp_all
  then show ?thesis
    by (simp add: Message_opcode_def Opcode.from_into)
qed

text \<open>
  The fields of messages whose types have an invariant: a value that satisfies it encodes to
  bytes that decode to it.
\<close>

lemmas message_fields =
  Time.prefix_cases Duration.prefix_cases DigitalServiceId.prefix_cases RecordSource.prefix_cases
  VendorId.prefix_cases Delay.prefix_cases AudioVolumeLevel.prefix_cases array.prefix_cases
  TimerStatusData.enc_cases TunerDeviceInfo.enc_cases UiCommand.enc_cases CdcMessage.enc_cases
  Delay.opt.enc_cases u8_buffer.buf.enc_cases AudioFormat_buffer.buf.enc_cases
  descriptor_buffer.buf.enc_cases

lemmas message_codec = codec with_field_def expected_fold_def

definition Message_rt :: "Message \<Rightarrow> bool" where
  "Message_rt m \<longleftrightarrow>
     (\<exists>b. Message_to_bytes m = Some (Opcode_into (Message_variant m) # b) \<and>
       1 + length b = Message_len m \<and>
       Message_decode (Message_variant m) (Opcode_into (Message_variant m) # b) = Ok m \<and>
       (\<exists>r. Opcode_expected_len (Message_variant m) = Ok r \<and> in_range r (Message_len m)))"

lemma field_lens [simp]:
  "Suc 0 \<le> tagged_len ex x" "2 \<le> tagged_len ex x + tagged_len ex' y"
  "Suc 0 \<le> RecordSource_len rs" "Suc 0 \<le> TimerStatusData_len ts" "Suc 0 \<le> UiCommand_len cmd"
  "TunerDeviceInfo_len td = 5 \<or> TunerDeviceInfo_len td = 8"
  by (simp_all add: tagged_len_def RecordSource_len_def TimerStatusData_len UiCommand_len_def
      TunerDeviceInfo_len_def split: ServiceId.split)

lemma CdcMessage_len_pos [simp]: "Suc 0 \<le> CdcMessage_len cdc"
  by (cases cdc) simp_all

lemma Message_rt_ReportFeatures:
  assumes "RcProfile_valid p" "DeviceFeatures_valid f"
  shows "Message_rt (Message.ReportFeatures v t p f)"
  using assms
  by (elim RcProfile.prefix_cases DeviceFeatures.enc_cases)
    (simp add: Message_rt_def message_codec add.assoc del: Opcode_into.simps)

lemma Message_rt_ext_timer:
  assumes "Time_valid t" "Duration_valid d"
  shows "Message_rt (Message.ClearExtTimer day month t d r s)"
    and "Message_rt (Message.SetExtTimer day month t d r s)"
  using assms
  by (elim Time.prefix_cases Duration.prefix_cases;
      cases s; simp add: Message_rt_def message_codec del: Opcode_into.simps)+

lemma Message_rt_valid: "Message_valid m \<Longrightarrow> Message_rt m"
  by (cases m; (simp only: Message_valid.simps Message_rt_ReportFeatures Message_rt_ext_timer)?;
      (elim conjE message_fields)?)
    (simp_all add: Message_rt_def message_codec del: Opcode_into.simps)

interpretation Message: operand Message_valid Message_to_bytes Message_try_from_bytes Message_len
    "AtLeast 1"
proof
  fix m assume v: "Message_valid m"
  from Message_rt_valid [OF v] obtain b where
    b: "Message_to_bytes m = Some (Opcode_into (Message_variant m) # b)" "1 + length b = Message_len m"
    and d: "Message_decode (Message_variant m) (Opcode_into (Message_variant m) # b) = Ok m"
      "\<exists>r. Opcode_expected_len (Message_variant m) = Ok r \<and> in_range r (Message_len m)"
    unfolding Message_rt_def by blast
  then show "\<exists>b. Message_to_bytes m = Some b" by blast
  fix b' assume "Message_to_bytes m = Some b'"
  with b have b': "b' = Opcode_into (Message_variant m) # b" by simp
  with b show "length b' = Message_len m" by simp
  show "Message_try_from_bytes b' = Ok m"
    using b(2) d by (auto simp: b' Message_try_from_bytes_def Opcode.from_into One_nat_def)
next
  fix bs show "Message_try_from_bytes bs \<noteq> Panic"
    using Message_decode_not_Panic
    by (cases bs) (auto simp: Message_try_from_bytes_def One_nat_def)
next
  fix bs m assume "Message_try_from_bytes bs = Ok m"
  then obtain oc where "1 \<le> length bs" "Message_decode oc bs = Ok m"
    by (cases bs) (auto simp: Message_try_from_bytes_def One_nat_def)
  with Message_decode_Ok show "Message_valid m" "Message_len m \<le> length bs"
    "in_range (AtLeast 1) (length bs)"
    by auto
qed

end
