(* ===== verification/CodecProperties.thy ===== *)
theory CodecProperties
  imports Messages
begin

text \<open>
  The properties of the message codec (\<open>linux-cec/src/message.rs\<close>, \<open>operand.rs\<close>, \<open>cdc.rs\<close>):
  decoding never panics, encoding and decoding are inverse on well-formed values, and the errors
  of malformed input.
\<close>

section \<open>Messages\<close>

text \<open>
  C2. Decoding a CEC message never panics, whatever the bytes: no slice or index of a decoder is
  out of range, no \<open>unwrap\<close> fails, and neither an \<open>unreachable!\<close> nor a \<open>todo!\<close> is reached.
\<close>

theorem message_decode_never_panics: "Message_try_from_bytes bs \<noteq> Panic"
  by (rule Message.dec_total)

text \<open>
  C1. Every well-formed message encodes, its encoding has the length that \<open>len\<close> reports, and
  decoding the encoding gives the message back.
\<close>

theorem message_round_trip:
  assumes "Message_valid m"
  shows "\<exists>b. Message_to_bytes m = Some b \<and> length b = Message_len m \<and> Message_try_from_bytes b = Ok m"
  using Message.enc_cases [OF assms] by metis

theorem message_round_trip_witness:
  "Message_to_bytes (Message.TunerDeviceStatus \<lparr>recording = True,
     tuner_display_info = TunerDisplayInfo.Digital,
     service_id = Digital (Channel DigitalServiceBroadcastSystem.AribT (TwoPart 0x3FF 7) 0)\<rparr>) \<noteq> None"
proof -
  have "Message_valid (Message.TunerDeviceStatus \<lparr>recording = True,
     tuner_display_info = TunerDisplayInfo.Digital,
     service_id = Digital (Channel DigitalServiceBroadcastSystem.AribT (TwoPart 0x3FF 7) 0)\<rparr>)"
    by (simp add: TunerDeviceInfo_valid_def DigitalServiceId_valid_def)
  from message_round_trip [OF this] show ?thesis by auto
qed

lemma Message_try_from_Cons:
  "Message_try_from_bytes (b # rest) =
     and_then (Opcode_try_from_primitive b) (\<lambda>opcode.
     and_then (Opcode_expected_len opcode) (\<lambda>expected.
     and_then (check expected (1 + length rest) ''bytes'') (\<lambda>_.
     Message_decode opcode (b # rest))))"
  by (simp add: Message_try_from_bytes_def One_nat_def)

lemma Message_try_from_OkE:
  assumes "Message_try_from_bytes bs = Ok m"
  obtains rest where "bs = Opcode_into (Message_variant m) # rest"
proof (cases bs)
  case (Cons b rest)
  with assms obtain oc where "b = Opcode_into oc" "Message_decode oc (b # rest) = Ok m"
    by (auto simp: Message_try_from_Cons Opcode.from_eq_Ok)
  moreover from this have "Message_variant m = oc"
    using Message_decode_Ok [of "b # rest"] by (simp add: One_nat_def)
  ultimately show thesis
    using Cons that by simp
qed (use assms in \<open>simp add: Message_try_from_bytes_def\<close>)

text \<open>
  C5. What the decoder accepts is well formed: the first byte is the opcode of the message, the
  message is not longer than the input, and its own encoding decodes to it again. Bytes behind
  the message are ignored.
\<close>

theorem message_decode_sound:
  assumes "Message_try_from_bytes bs = Ok m"
  shows "Message_valid m \<and> bs ! 0 = Opcode_into (Message_variant m) \<and>
    Message_len m \<le> length bs \<and>
    (\<exists>b. Message_to_bytes m = Some b \<and> length b \<le> length bs \<and> Message_try_from_bytes b = Ok m)"
proof -
  obtain b where "Message_to_bytes m = Some b" "Message_try_from_bytes b = Ok m"
      "length b \<le> length bs"
    using Message.dec_enc_dec [OF assms] .
  moreover have "bs ! 0 = Opcode_into (Message_variant m)"
    by (rule Message_try_from_OkE [OF assms]) simp
  ultimately show ?thesis
    using Message.dec_valid [OF assms] Message.dec_len [OF assms] by blast
qed

theorem message_decode_sound_witness:
  "Message_valid (Message.ActiveSource (PhysicalAddress.PhysicalAddress 0x1000))"
proof -
  have "Message_try_from_bytes [0x82, 0x10, 0x00, 0xAA] =
      Ok (Message.ActiveSource (PhysicalAddress.PhysicalAddress 0x1000))"
    by (simp add: Message_try_from_Cons Opcode.from_into [of Opcode.ActiveSource, simplified]
        message_codec check_Ok)
  from message_decode_sound [OF this] show ?thesis by (rule conjunct1)
qed

text \<open>A byte that is no opcode is rejected, and the error names it.\<close>

theorem message_unknown_opcode:
  assumes "b \<notin> range Opcode_into"
  shows "Message_try_from_bytes (b # rest) = Err (InvalidValueForType ''Opcode'' (show_u8 b))"
proof -
  from assms have "Opcode_try_from_primitive b = Err (InvalidValueForType ''Opcode'' (show_u8 b))"
    by (simp add: Opcode.from_eq_Err)
  then show ?thesis
    by (simp add: Message_try_from_Cons)
qed

theorem message_unknown_opcode_witness:
  "Message_try_from_bytes [0xFE] = Err (InvalidValueForType ''Opcode'' ''254'')"
proof -
  have "Opcode_into oc \<noteq> 0xFE" for oc by (cases oc) simp_all
  then have "0xFE \<notin> range Opcode_into" by (metis rangeE)
  from message_unknown_opcode [OF this, of "[]"] show ?thesis
    by (simp add: show_u8_def show_nat_step)
qed

text \<open>
  C22. A message whose length does not fit its opcode is rejected with the range of lengths the
  opcode allows and the length it has; the length of a well-formed message is always in range.
\<close>

theorem message_length_error:
  assumes "Opcode_expected_len oc = Ok r" "\<not> in_range r (1 + length rest)"
  shows "Message_try_from_bytes (Opcode_into oc # rest) =
      Err (OutOfRange r (1 + length rest) ''bytes'') \<and>
    (\<forall>m. Message_valid m \<and> Message_variant m = oc \<longrightarrow> in_range r (Message_len m))"
proof
  show "Message_try_from_bytes (Opcode_into oc # rest) = Err (OutOfRange r (1 + length rest) ''bytes'')"
    using assms by (simp add: Message_try_from_Cons Opcode.from_into check_Err)
  show "\<forall>m. Message_valid m \<and> Message_variant m = oc \<longrightarrow> in_range r (Message_len m)"
  proof (intro allI impI)
    fix m
    assume m: "Message_valid m \<and> Message_variant m = oc"
    then have "Message_rt m" by (simp add: Message_rt_valid)
    with m assms(1) show "in_range r (Message_len m)"
      unfolding Message_rt_def by auto
  qed
qed

theorem message_length_error_witness:
  "Message_try_from_bytes [0x80, 0x10, 0x00] = Err (OutOfRange (AtLeast 5) 3 ''bytes'')"
proof -
  have "Opcode_expected_len Opcode.RoutingChange = Ok (AtLeast 5)"
    by (simp add: expected_fold_def)
  from message_length_error [OF this, of "[0x10, 0x00]"] show ?thesis
    by (simp add: One_nat_def)
qed

text \<open>Two well-formed messages with the same encoding are equal.\<close>

theorem message_encoding_injective:
  assumes "Message_valid m" "Message_valid m'" "Message_to_bytes m = Message_to_bytes m'"
  shows "m = m'"
  using Message.enc_cases [OF assms(1)] Message.enc_cases [OF assms(2)] assms(3)
  by (metis option.inject result.inject(1))

theorem message_encoding_injective_witness:
  "Message_to_bytes (Message.SetSystemAudioMode True) \<noteq> Message_to_bytes (Message.SetSystemAudioMode False)"
  using message_encoding_injective [of "Message.SetSystemAudioMode True" "Message.SetSystemAudioMode False"]
  by auto

text \<open>
  \<open>opcode\<close> never fails although it is written with \<open>unwrap\<close>: the discriminant of a message
  is the code of its opcode, which is the first byte of the encoding. The addressing of a
  message is the addressing of its opcode, and every message can be sent somehow.
\<close>

theorem message_opcode_consistent:
  "Message_opcode m = Ok (Message_variant m) \<and>
   Message_discriminant m = Opcode_into (Message_variant m) \<and>
   (\<forall>b. Message_to_bytes m = Some b \<longrightarrow> b ! 0 = Message_discriminant m) \<and>
   Message_addressing_type m = Ok (Opcode_addressing_type (Message_variant m)) \<and>
   (Opcode_can_directly_address (Message_variant m) \<or> Opcode_can_broadcast (Message_variant m))"
proof -
  have d: "Message_discriminant m = Opcode_into (Message_variant m)"
    by (cases m) simp_all
  have "\<exists>rest. b = Message_discriminant m # rest" if "Message_to_bytes m = Some b" for b
    using that by (cases m) auto
  with d show ?thesis
    using Message_opcode_variant [of m]
    by (auto simp: Message_addressing_type_def Opcode_can_directly_address_def
        Opcode_can_broadcast_def split: AddressingType.split)
qed

theorem message_opcode_consistent_witness:
  "Message_to_bytes Message.Standby = Some [0x36] \<and> Message_discriminant Message.Standby = 0x36"
proof -
  have "Message_to_bytes Message.Standby = Some [0x36]" by simp
  with message_opcode_consistent [of Message.Standby] show ?thesis by auto
qed

section \<open>Operands\<close>

text \<open>
  C31. CDC messages, nested in the message \<open>CdcMessage\<close>, have the same contract: decoding never
  panics and decoding inverts encoding on well-formed messages.
\<close>

theorem cdc_message_round_trip:
  "CdcMessage_try_from_bytes bs \<noteq> Panic \<and>
   (CdcMessage_valid m \<longrightarrow>
     (\<exists>b. CdcMessage_to_bytes m = Some b \<and> length b = CdcMessage_len m \<and>
       CdcMessage_try_from_bytes b = Ok m))"
  using CdcMessage.dec_total CdcMessage.enc_cases by metis

theorem cdc_message_round_trip_witness:
  "\<exists>b. CdcMessage_to_bytes (HecInquireState (PhysicalAddress.PhysicalAddress 1)
     (PhysicalAddress.PhysicalAddress 2)) = Some b"
  using cdc_message_round_trip [of "[]" "HecInquireState (PhysicalAddress.PhysicalAddress 1)
     (PhysicalAddress.PhysicalAddress 2)"] by auto

text \<open>
  A digital service identifier is self-delimiting: whatever follows its seven bytes in a
  message, the decoder reads the identifier back.
\<close>

theorem digital_service_self_delimiting:
  assumes "DigitalServiceId_valid x"
  shows "\<exists>b. DigitalServiceId_to_bytes x = Some b \<and> length b = 7 \<and>
    (\<forall>rest. DigitalServiceId_try_from_bytes (b @ rest) = Ok x)"
  using DigitalServiceId.prefix_cases [OF assms] by metis

theorem digital_service_self_delimiting_witness:
  "DigitalServiceId_to_bytes (Channel DigitalServiceBroadcastSystem.AtscCable (TwoPart 5 1) 0) \<noteq> None"
proof -
  have "DigitalServiceId_valid (Channel DigitalServiceBroadcastSystem.AtscCable (TwoPart 5 1) 0)"
    by (simp add: DigitalServiceId_valid_def)
  from digital_service_self_delimiting [OF this] show ?thesis by auto
qed

text \<open>
  The condition of the last property matters: a two-part channel with a major number of more
  than ten bits, which nothing prevents, is encoded as a channel of another kind.
\<close>

lemma two_part_channel_overflow:
  "\<exists>b. ChannelId_to_bytes (TwoPart 0x400 7) = Some b \<and>
     ChannelId_try_from_bytes b \<noteq> Ok (TwoPart 0x400 7)"
  by (simp add: ChannelId_to_bytes_def ChannelId_try_from_bytes_def codec with_field_def check_Ok Let_def)

text \<open>The status of a timer round-trips, with the duration that only some of its codes carry.\<close>

theorem timer_status_round_trip:
  assumes "TimerStatusData_valid x"
  shows "\<exists>b. TimerStatusData_to_bytes x = Some b \<and> length b = TimerStatusData_len x \<and>
    TimerStatusData_try_from_bytes b = Ok x"
  using TimerStatusData.enc_cases [OF assms] by metis

theorem timer_status_round_trip_witness:
  "TimerStatusData_to_bytes \<lparr>overlap_warning = True, media_info = MediaInfo.ProtectedMedia,
     programmed_info = Programmed (NotEnoughSpace (Some
       \<lparr>hours = BcdByte 0x12, minutes = BcdByte 0x59\<rparr>))\<rparr> \<noteq> None"
proof -
  have "TimerStatusData_valid \<lparr>overlap_warning = True, media_info = MediaInfo.ProtectedMedia,
     programmed_info = Programmed (NotEnoughSpace (Some
       \<lparr>hours = BcdByte 0x12, minutes = BcdByte 0x59\<rparr>))\<rparr>"
    by (simp add: TimerStatusData_valid_def timer_duration_def
        ProgrammedInfo_duration_available_def Duration_valid_def)
  from timer_status_round_trip [OF this] show ?thesis by auto
qed

text \<open>A user control code round-trips, with and without its operand.\<close>

theorem ui_command_round_trip:
  assumes "UiCommand_valid cmd"
  shows "\<exists>b. UiCommand_to_bytes cmd = Some b \<and> length b = UiCommand_len cmd \<and>
    UiCommand_try_from_bytes b = Ok cmd"
  using UiCommand.enc_cases [OF assms] by metis

theorem ui_command_round_trip_witness:
  "UiCommand_to_bytes (UiCommand.TuneFunction (Some (TwoPart 5 1))) \<noteq> None"
proof -
  have "UiCommand_valid (UiCommand.TuneFunction (Some (TwoPart 5 1)))"
    by (simp add: UiCommand_valid_def)
  from ui_command_round_trip [OF this] show ?thesis by auto
qed

text \<open>
  The error for a truncated operand of a user control code counts one byte too few: a message
  of \<open>2 + n\<close> bytes is reported to have \<open>1 + n\<close>, and to need five where it needs six. Every other
  operand reports the bytes of the whole message.
\<close>

theorem ui_command_error_offset:
  assumes "0 < length rest" "length rest < 4"
  shows "Message_try_from_bytes (0x44 # 0x67 # rest) =
      Err (OutOfRange (AtLeast 5) (1 + length rest) ''bytes'') \<and>
    length (0x44 # 0x67 # rest) = 2 + length rest"
proof -
  have d: "Opcode_try_from_primitive 0x44 = Ok Opcode.UserControlPressed"
    using Opcode.from_into [of Opcode.UserControlPressed] by simp
  from assms show ?thesis
    by (simp add: Message_try_from_Cons d with_field_def UiCommand_try_from_bytes_def check_Ok
        ChannelId_try_from_bytes_def check_Err expected_fold_def)
qed

theorem ui_command_error_offset_witness:
  "Message_try_from_bytes [0x44, 0x67, 0, 0] = Err (OutOfRange (AtLeast 5) 3 ''bytes'')"
  using ui_command_error_offset [of "[0, 0]"] by (simp add: One_nat_def)

text \<open>
  A BCD number is accepted from a number exactly when it is within the bounds of its type,
  it is then well formed, and it reads back as the number.
\<close>

theorem bcd_number_round_trip:
  assumes "unat mx \<le> 99"
  shows "(\<exists>x. BcdByte_try_from mn mx v = Ok x \<and> BcdByte_valid mn mx x \<and> BcdByte_into x = v) \<longleftrightarrow>
    mn \<le> v \<and> v \<le> mx"
proof
  assume "\<exists>x. BcdByte_try_from mn mx v = Ok x \<and> BcdByte_valid mn mx x \<and> BcdByte_into x = v"
  then show "mn \<le> v \<and> v \<le> mx"
    by (auto simp: BcdByte_try_from_def word_le_nat_alt)
next
  assume "mn \<le> v \<and> v \<le> mx"
  then obtain x where "BcdByte_try_from mn mx v = Ok x"
    by (auto simp: BcdByte_try_from_def word_le_nat_alt check_Ok)
  with BcdByte_try_from_valid [OF assms this] show
    "\<exists>x. BcdByte_try_from mn mx v = Ok x \<and> BcdByte_valid mn mx x \<and> BcdByte_into x = v" by blast
qed

theorem bcd_number_round_trip_witness:
  "\<exists>x. BcdByte_try_from 0 23 17 = Ok x \<and> BcdByte_into x = 17"
  using bcd_number_round_trip [of 23 0 17] by auto

text \<open>
  A bounded buffer of bytes takes the first \<open>S\<close> bytes of its input and ignores the rest; a
  string fits if it has at most \<open>S\<close> bytes, and is an error otherwise.
\<close>

theorem bounded_buffer_contents:
  "(\<exists>x. buffer_try_from_bytes u8_try_from_bytes 1 0 S bs = Ok x \<and> buffer_valid (\<lambda>_. True) 0 S x \<and>
      buffer_as_bytes x = Some (take S bs)) \<and>
   buffer_from_str S bs =
     (if length bs \<le> S then Ok (byte_buffer S bs)
      else Err (OutOfRange (AtMost S) (length bs) ''bytes''))"
proof
  let ?x = "byte_buffer S (take S bs)"
  have "buffer_try_from_bytes u8_try_from_bytes 1 0 S bs = Ok ?x"
    by (rule byte_buffer_decode)
  moreover have "buffer_valid (\<lambda>_. True) 0 S ?x"
    unfolding byte_buffer_valid by (intro exI [of _ "take S bs"]) simp
  moreover have "buffer_as_bytes ?x = Some (take S bs)"
    by (simp add: buffer_as_bytes_def byte_buffer_def buffer_slice_def min_def)
  ultimately show "\<exists>x. buffer_try_from_bytes u8_try_from_bytes 1 0 S bs = Ok x \<and>
      buffer_valid (\<lambda>_. True) 0 S x \<and> buffer_as_bytes x = Some (take S bs)" by blast
qed (auto simp: buffer_from_str_def check_def byte_buffer_def)

text \<open>
  A tagged buffer marks every byte but its last one: the device features end at the first
  byte without the top bit, so that what follows them is not read.
\<close>

theorem device_features_self_delimiting:
  assumes "DeviceFeatures_valid x"
  shows "\<exists>b. DeviceFeatures_to_bytes x = Some b \<and> b \<noteq> [] \<and> last b AND 0x80 = 0 \<and>
    list_all (\<lambda>c. c AND 0x80 = 0x80) (butlast b) \<and>
    (\<forall>rest. DeviceFeatures_try_from_bytes (b @ rest) = Ok x)"
proof -
  obtain b where b: "DeviceFeatures_to_bytes x = Some b"
      "\<And>rest. DeviceFeatures_try_from_bytes (b @ rest) = Ok x"
    using DeviceFeatures.prefix_cases [OF assms] by metis
  have "b \<noteq> [] \<and> last b AND 0x80 = 0 \<and> list_all (\<lambda>c. c AND 0x80 = 0x80) (butlast b)"
    using b(1) by (auto simp: tagged_to_bytes_def Let_def top_bit list_all_iff
        split: option.splits if_splits)
  with b show ?thesis by blast
qed

theorem device_features_self_delimiting_witness:
  "DeviceFeatures_to_bytes (DeviceFeatures_new (DeviceFeatures1 0x40)) \<noteq> None"
proof -
  have "DeviceFeatures_valid (DeviceFeatures_new (DeviceFeatures1 0x40))"
    by (simp add: tagged_valid_def DeviceFeatures_new_def DeviceFeatures1_valid_def buffer_default_def
        byte_buffer_def)
  from device_features_self_delimiting [OF this] show ?thesis by auto
qed

text \<open>
  A remote control profile of a source without any feature is encoded as the profile of a TV.
\<close>

lemma source_profile_without_features:
  "\<exists>b. RcProfile_to_bytes (RcProfile_new (RcProfile1.Source (RcProfileSource 0))) = Some b \<and>
     RcProfile_try_from_bytes b = Ok (RcProfile_new (RcProfile1.Tv RcProfileId.ProfileNone))"
  using RcProfileId.from_into [where x = RcProfileId.ProfileNone]
  by (simp add: tagged_to_bytes_def RcProfile_new_def RcProfile_extra_params_def buffer_slice_def
      buffer_default_def tagged_try_from_bytes_def check_Ok RcProfile1_try_from_def Let_def
      RcProfile_try_new_def byte_buffer_decode byte_buffer_def)

text \<open>An enum operand decodes exactly the codes of its variants; the error names the value.\<close>

theorem enum_decode_exact:
  assumes "byte_enum variants into"
  shows "enum_try_from_bytes name variants into (b # rest) =
    (if \<exists>x. into x = b then Ok (the_inv into b) else Err (InvalidValueForType name (show_u8 b)))"
proof (cases "\<exists>x. into x = b")
  case True
  then obtain x where x: "b = into x" by blast
  have "inj into"
    using byte_enum.into_inj [OF assms] by (rule injI)
  then show ?thesis
    using byte_enum.enum_codec [OF assms] x by (auto simp: the_inv_f_f)
next
  case False
  then have "b \<notin> range into" by auto
  then show ?thesis
    using False byte_enum.from_eq_Err [OF assms, where name = name and n = b]
    by (simp add: enum_try_from_bytes_def check_Ok)
qed

theorem enum_decode_exact_witness:
  "PowerStatus_try_from_bytes [9] = Err (InvalidValueForType ''PowerStatus'' ''9'')"
proof -
  have "PowerStatus_into x \<noteq> 9" for x by (cases x) simp_all
  with enum_decode_exact [OF PowerStatus.byte_enum_axioms, where b = 9 and rest = "[]" and
      name = "''PowerStatus''"] show ?thesis
    by (simp add: show_u8_def)
qed

section \<open>Errors\<close>




text \<open>
  The byte counts in an error are those of the whole input: a decoder of a field that fails
  for want of bytes reports the range and the count shifted by the offset of the field.
\<close>

theorem field_error_offset:
  assumes "offset \<le> length bs" "dec (drop offset bs) = Err (OutOfRange r n ''bytes'')"
    "n = length (drop offset bs)"
  shows "with_field dec ln bs offset k = Err (OutOfRange (add_range r offset) (length bs) ''bytes'') \<and>
    (in_range (add_range r offset) (length bs) \<longleftrightarrow> in_range r n)"
  using assms in_range_add_range [of r offset n] by (simp add: with_field_def)

theorem field_error_offset_witness:
  "with_field u16_try_from_bytes (\<lambda>_. 2) [1, 2, 3] 2 (\<lambda>x _. Ok x) =
     Err (OutOfRange (AtLeast 4) 3 ''bytes'')"
proof -
  have "u16_try_from_bytes (drop 2 [1, 2, 3]) = Err (OutOfRange (AtLeast 2) 1 ''bytes'')"
    by (simp add: u16_try_from_bytes_def check_Err One_nat_def)
  then show ?thesis
    using field_error_offset [where dec = u16_try_from_bytes and offset = 2 and bs = "[1, 2, 3]" and
        r = "AtLeast 2" and n = 1 and ln = "\<lambda>_. 2" and k = "\<lambda>x _. Ok x"]
    by (simp add: One_nat_def)
qed

end
