(* ===== verification/AddressText.thy ===== *)
theory AddressText
  imports Addresses
begin

text \<open>
  Physical addresses, vendor identifiers and timeouts outside of messages:
  \<open>linux-cec/src/lib.rs\<close>, their \<open>Display\<close> and \<open>FromStr\<close>, and the conversions to the types of
  \<open>linux-cec-sys/src/structs.rs\<close>.

  A \<open>&str\<close> is the list of its UTF-8 bytes: \<open>len\<close> counts bytes, and the separators and digits
  the parsers look for are ASCII, so that splitting bytes is splitting characters.
\<close>

section \<open>Hexadecimal digits\<close>

text \<open>
  \<open>from_str_radix(_, 16)\<close> of an unsigned type with \<open>bound\<close> values: one leading \<open>+\<close> is allowed, a
  lone sign and the empty string are not, and a value out of range is an error.
\<close>

definition to_digit :: "char \<Rightarrow> nat option" where
  "to_digit c =
     (let n = of_char c :: nat in
      if 48 \<le> n \<and> n \<le> 57 then Some (n - 48)
      else if 97 \<le> n \<and> n \<le> 102 then Some (n - 87)
      else if 65 \<le> n \<and> n \<le> 70 then Some (n - 55)
      else None)"

fun parse_digits :: "nat \<Rightarrow> nat \<Rightarrow> string \<Rightarrow> nat option" where
  "parse_digits bound acc [] = Some acc" |
  "parse_digits bound acc (c # cs) =
     (case to_digit c of
        None \<Rightarrow> None
      | Some d \<Rightarrow>
          if acc * 16 + d < bound then parse_digits bound (acc * 16 + d) cs else None)"

definition from_str_radix_16 :: "nat \<Rightarrow> string \<Rightarrow> nat option" where
  "from_str_radix_16 bound s =
     (if s = [] \<or> s = ''+'' \<or> s = ''-'' then None
      else if hd s = CHR ''+'' then parse_digits bound 0 (tl s)
      else parse_digits bound 0 s)"

definition u16_from_hex :: "string \<Rightarrow> u16 option" where
  "u16_from_hex s = map_option word_of_nat (from_str_radix_16 (2 ^ 16) s)"

definition u8_from_hex :: "string \<Rightarrow> u8 option" where
  "u8_from_hex s = map_option word_of_nat (from_str_radix_16 (2 ^ 8) s)"

text \<open>\<open>{:x}\<close> of a value below 16, and \<open>{:02x}\<close> of a byte.\<close>

definition hex_digit :: "nat \<Rightarrow> char" where
  "hex_digit n = ''0123456789abcdef'' ! n"

definition hex_byte :: "u8 \<Rightarrow> string" where
  "hex_byte b = [hex_digit (unat b div 16), hex_digit (unat b mod 16)]"

text \<open>\<open>split\<close> at a character.\<close>

fun split_on :: "char \<Rightarrow> string \<Rightarrow> string list" where
  "split_on c [] = [[]]" |
  "split_on c (x # xs) =
     (if x = c then [] # split_on c xs
      else (case split_on c xs of
              [] \<Rightarrow> [[x]]
            | p # ps \<Rightarrow> (x # p) # ps))"

lemma less_16_cases:
  assumes "n < 16"
  shows "n \<in> set [0, 1, 2, 3, 4, 5, 6, 7, 8, 9, 10, 11, 12, 13, 14, 15 :: nat]"
proof -
  have "n \<in> set [0..<16]"
    using assms by simp
  also have "[0..<16] = [0, 1, 2, 3, 4, 5, 6, 7, 8, 9, 10, 11, 12, 13, 14, 15]"
    by (simp add: upt_conv_Cons)
  finally show ?thesis .
qed

lemma hex_digit [simp]:
  assumes "n < 16"
  shows "to_digit (hex_digit n) = Some n" "hex_digit n \<noteq> CHR ''+''" "hex_digit n \<noteq> CHR ''-''"
    "hex_digit n \<noteq> CHR ''.''" "hex_digit n \<noteq> CHR ''x''"
  using less_16_cases [OF assms] by (auto simp: hex_digit_def to_digit_def)

lemma from_hex_digit [simp]:
  "n < 16 \<Longrightarrow> 16 \<le> bound \<Longrightarrow> from_str_radix_16 bound [hex_digit n] = Some n"
  by (simp add: from_str_radix_16_def)

lemma from_hex_byte [simp]: "u8_from_hex (hex_byte b) = Some b"
proof -
  have "unat b < 256"
    using unsigned_less [of b, where ?'a = nat] by simp
  then have "unat b div 16 < 16" by simp
  then show ?thesis
    using \<open>unat b < 256\<close> by (simp add: u8_from_hex_def from_str_radix_16_def hex_byte_def)
qed

section \<open>Physical addresses\<close>

definition PhysicalAddress_ROOT :: PhysicalAddress where
  "PhysicalAddress_ROOT = PhysicalAddress.PhysicalAddress 0x0000"

definition PhysicalAddress_INVALID :: PhysicalAddress where
  "PhysicalAddress_INVALID = PhysicalAddress.PhysicalAddress 0xFFFF"

primrec PhysicalAddress_is_valid :: "PhysicalAddress \<Rightarrow> bool" where
  "PhysicalAddress_is_valid (PhysicalAddress.PhysicalAddress w) \<longleftrightarrow> w \<noteq> 0xFFFF"

primrec PhysicalAddress_is_root :: "PhysicalAddress \<Rightarrow> bool" where
  "PhysicalAddress_is_root (PhysicalAddress.PhysicalAddress w) \<longleftrightarrow> w = 0x0000"

definition PhysicalAddress_default :: PhysicalAddress where
  "PhysicalAddress_default = PhysicalAddress.PhysicalAddress 0xFFFF"

primrec PhysicalAddress_fmt :: "PhysicalAddress \<Rightarrow> string" where
  "PhysicalAddress_fmt (PhysicalAddress.PhysicalAddress w) =
     [hex_digit (unat (drop_bit 12 w)), CHR ''.'', hex_digit (unat (drop_bit 8 w AND 0xF)), CHR ''.'',
      hex_digit (unat (drop_bit 4 w AND 0xF)), CHR ''.'', hex_digit (unat (w AND 0xF))]"

text \<open>The dotted form: four groups of one digit.\<close>

definition PhysicalAddress_from_dotted :: "string \<Rightarrow> PhysicalAddress result" where
  "PhysicalAddress_from_dotted val =
     (let split = split_on (CHR ''.'') val in
      if length split \<noteq> 4 then Err InvalidData
      else if \<not> list_all (\<lambda>place. length place = 1) split then Err InvalidData
      else (case (u16_from_hex (split ! 0), u16_from_hex (split ! 1), u16_from_hex (split ! 2),
                  u16_from_hex (split ! 3)) of
              (Some a, Some b, Some c, Some d) \<Rightarrow>
                Ok (PhysicalAddress.PhysicalAddress
                  (push_bit 12 a OR push_bit 8 b OR push_bit 4 c OR d))
            | _ \<Rightarrow> Err InvalidData))"

text \<open>
  The three forms in the order the code tries them: \<open>0x\<close> and four digits, four digits, and the
  dotted one. A failure of the first falls through to the others.
\<close>

definition PhysicalAddress_from_plain :: "string \<Rightarrow> PhysicalAddress result" where
  "PhysicalAddress_from_plain val =
     (case (if length val = 4 then u16_from_hex val else None) of
        Some addr \<Rightarrow> Ok (PhysicalAddress.PhysicalAddress addr)
      | None \<Rightarrow>
          if length val = 7 then PhysicalAddress_from_dotted val else Err InvalidData)"

definition PhysicalAddress_from_str :: "string \<Rightarrow> PhysicalAddress result" where
  "PhysicalAddress_from_str val =
     (case (if take 2 val = ''0x'' \<and> length (drop 2 val) = 4 then u16_from_hex (drop 2 val)
            else None) of
        Some addr \<Rightarrow> Ok (PhysicalAddress.PhysicalAddress addr)
      | None \<Rightarrow> PhysicalAddress_from_plain val)"

lemma u16_nibbles:
  "push_bit 12 (drop_bit 12 w) OR push_bit 8 (drop_bit 8 w AND 0xF) OR
     push_bit 4 (drop_bit 4 w AND 0xF) OR (w AND 0xF) = (w :: u16)"
proof -
  have m: "(0xF :: u16) = mask 4"
    by (simp add: mask_eq_exp_minus_1)
  show ?thesis
    unfolding m
  proof (rule bit_word_eqI)
    fix n
    assume "n < LENGTH(16)"
    then consider "n < 4" | k where "n = 4 + k" "k < 4" | k where "n = 8 + k" "k < 4"
      | k where "n = 12 + k" "k < 4"
      by (cases "n < 4"; cases "n < 8"; cases "n < 12"; force simp: not_less le_iff_add)
    then show "bit (push_bit 12 (drop_bit 12 w) OR push_bit 8 (drop_bit 8 w AND mask 4) OR
        push_bit 4 (drop_bit 4 w AND mask 4) OR (w AND mask 4)) n = bit w n"
      by cases (simp_all add: bit_simps)
  qed
qed

lemmas u16_nibbles_simp = u16_nibbles [simplified]

lemma nibble_less [simp]: "unat ((w :: u16) AND 0xF) < 16"
proof -
  have "w AND 0xF \<le> 0xF" by (rule word_and_le1)
  then show ?thesis by (simp add: word_le_nat_alt)
qed

lemma high_nibble_less [simp]: "unat (drop_bit 12 (w :: u16)) < 16"
  using unsigned_less [of w, where ?'a = nat] by (simp add: drop_bit_eq_div unat_div)

lemma PhysicalAddress_from_fmt: "PhysicalAddress_from_str (PhysicalAddress_fmt a) = Ok a"
proof (cases a)
  case (PhysicalAddress w)
  then show ?thesis
    by (simp add: PhysicalAddress_from_str_def PhysicalAddress_from_plain_def
        PhysicalAddress_from_dotted_def u16_from_hex_def Let_def u16_nibbles_simp)
qed

section \<open>Vendor identifiers\<close>

text \<open>\<open>linux_cec_sys::VendorId\<close>, with its reserved value for no vendor.\<close>

datatype SysVendorId = SysVendorId u32

definition CEC_VENDOR_ID_NONE :: u32 where "CEC_VENDOR_ID_NONE = 0xFFFFFFFF"

definition SysVendorId_default :: SysVendorId where
  "SysVendorId_default = SysVendorId CEC_VENDOR_ID_NONE"

definition SysVendorId_try_from :: "u32 \<Rightarrow> SysVendorId option" where
  "SysVendorId_try_from val =
     (if val < 0x1000000 \<or> val = CEC_VENDOR_ID_NONE then Some (SysVendorId val) else None)"

primrec SysVendorId_into :: "SysVendorId \<Rightarrow> u32" where
  "SysVendorId_into (SysVendorId val) = val"

primrec SysVendorId_is_none :: "SysVendorId \<Rightarrow> bool" where
  "SysVendorId_is_none (SysVendorId val) \<longleftrightarrow> val = CEC_VENDOR_ID_NONE"

primrec SysVendorId_is_valid :: "SysVendorId \<Rightarrow> bool" where
  "SysVendorId_is_valid (SysVendorId val) \<longleftrightarrow> val < 0x1000000"

definition VendorId_into_u32 :: "VendorId \<Rightarrow> u32" where
  "VendorId_into_u32 v =
     push_bit 16 (ucast (VendorId_octets v ! 0)) OR push_bit 8 (ucast (VendorId_octets v ! 1)) OR
     ucast (VendorId_octets v ! 2)"

definition VendorId_into_sys :: "VendorId \<Rightarrow> SysVendorId result" where
  "VendorId_into_sys v = unwrap_option (SysVendorId_try_from (VendorId_into_u32 v))"

text \<open>The bytes of the identifier, each of which is narrowed with \<open>try_into().unwrap()\<close>.\<close>

definition narrow_u32 :: "u32 \<Rightarrow> u8 result" where
  "narrow_u32 w = (if w \<le> 0xFF then Ok (ucast w) else Panic)"

definition VendorId_try_from_sys :: "SysVendorId \<Rightarrow> VendorId option result" where
  "VendorId_try_from_sys x =
     (if SysVendorId_is_none x then Ok None
      else if SysVendorId_is_valid x then
        (let val = SysVendorId_into x in
         and_then (narrow_u32 (drop_bit 16 val AND 0xFF)) (\<lambda>a.
         and_then (narrow_u32 (drop_bit 8 val AND 0xFF)) (\<lambda>b.
         and_then (narrow_u32 (val AND 0xFF)) (\<lambda>c.
         Ok (Some (VendorId [a, b, c]))))))
      else Err InvalidData)"

definition VendorId_octet_from_str :: "string \<Rightarrow> u8 result" where
  "VendorId_octet_from_str part =
     (if length part \<noteq> 2 then Err InvalidData
      else (case u8_from_hex part of None \<Rightarrow> Err InvalidData | Some b \<Rightarrow> Ok b))"

definition VendorId_from_str :: "string \<Rightarrow> VendorId result" where
  "VendorId_from_str val =
     (let parts = split_on (CHR ''-'') val in
      if length parts \<noteq> 3 then Err InvalidData
      else
        and_then (VendorId_octet_from_str (parts ! 0)) (\<lambda>a.
        and_then (VendorId_octet_from_str (parts ! 1)) (\<lambda>b.
        and_then (VendorId_octet_from_str (parts ! 2)) (\<lambda>c.
        Ok (VendorId [a, b, c])))))"

definition VendorId_fmt :: "VendorId \<Rightarrow> string" where
  "VendorId_fmt v =
     hex_byte (VendorId_octets v ! 0) @ ''-'' @ hex_byte (VendorId_octets v ! 1) @ ''-'' @
     hex_byte (VendorId_octets v ! 2)"

lemma VendorId_validE:
  assumes "VendorId_valid v"
  obtains a b c where "v = VendorId [a, b, c]"
  using assms by (cases v) (auto simp: VendorId_valid_def length_Suc_conv numeral_eq_Suc)

lemma hex_byte_digits:
  obtains i j where "i < 16" "j < 16" "hex_byte b = [hex_digit i, hex_digit j]"
proof
  show "unat b div 16 < 16"
    using unsigned_less [of b, where ?'a = nat] by simp
  show "unat b mod 16 < 16" by simp
qed (simp add: hex_byte_def)

lemma VendorId_octet_from_hex_byte [simp]: "VendorId_octet_from_str (hex_byte b) = Ok b"
  by (simp add: VendorId_octet_from_str_def) (simp add: hex_byte_def)

lemma split_hex_byte [simp]:
  "split_on (CHR ''-'') (hex_byte b) = [hex_byte b]"
  "split_on (CHR ''-'') (hex_byte b @ CHR ''-'' # rest) = hex_byte b # split_on (CHR ''-'') rest"
  by (rule hex_byte_digits [of b]; simp)+

lemma VendorId_from_fmt:
  assumes "VendorId_valid v"
  shows "VendorId_from_str (VendorId_fmt v) = Ok v"
proof -
  from assms obtain a b c where "v = VendorId [a, b, c]" by (rule VendorId_validE)
  then show ?thesis
    by (simp add: VendorId_fmt_def VendorId_from_str_def)
qed

lemma narrow_u32_mask [simp]: "narrow_u32 (w AND 0xFF) = Ok (ucast w)"
proof -
  have m: "(0xFF :: u32) = mask 8"
    by (simp add: mask_eq_exp_minus_1)
  have "w AND 0xFF \<le> 0xFF" by (rule word_and_le1)
  moreover have "(ucast (w AND 0xFF) :: u8) = ucast w"
    unfolding m by (rule bit_word_eqI) (auto simp: bit_simps)
  ultimately show ?thesis by (simp add: narrow_u32_def)
qed

lemma octets_u32:
  fixes a b c :: u8
  defines "w \<equiv> push_bit 16 (ucast a) OR push_bit 8 (ucast b) OR ucast c :: u32"
  shows "ucast (drop_bit 16 w) = a" "ucast (drop_bit 8 w) = b" "ucast w = c" "w < 0x1000000"
proof -
  show "ucast (drop_bit 16 w) = a" "ucast (drop_bit 8 w) = b" "ucast w = c"
    unfolding w_def by (rule bit_word_eqI; auto simp: bit_simps dest: bit_imp_le_length)+
  have "take_bit 24 w = w"
    unfolding w_def by (rule bit_word_eqI) (auto simp: bit_simps dest: bit_imp_le_length)
  then have "w = w AND mask 24"
    by (simp add: take_bit_eq_mask)
  then have "w \<le> mask 24"
    using word_and_le1 [of w "mask 24"] by simp
  then show "w < 0x1000000"
    by (simp add: mask_eq_exp_minus_1 word_le_nat_alt word_less_nat_alt)
qed

lemma VendorId_sys_round_trip:
  assumes "VendorId_valid v"
  obtains x where "VendorId_into_sys v = Ok x" "VendorId_try_from_sys x = Ok (Some v)"
proof -
  from assms obtain a b c where v: "v = VendorId [a, b, c]" by (rule VendorId_validE)
  let ?w = "push_bit 16 (ucast a) OR push_bit 8 (ucast b) OR ucast c :: u32"
  note w = octets_u32 [where a = a and b = b and c = c]
  have "?w \<noteq> CEC_VENDOR_ID_NONE"
    using w(4) by (auto simp: CEC_VENDOR_ID_NONE_def)
  then have "VendorId_try_from_sys (SysVendorId ?w) = Ok (Some v)"
    using w by (simp add: VendorId_try_from_sys_def v Let_def)
  moreover have "VendorId_into_sys v = Ok (SysVendorId ?w)"
    using w(4) by (simp add: VendorId_into_sys_def SysVendorId_try_from_def VendorId_into_u32_def v)
  ultimately show thesis using that by blast
qed

section \<open>Timeouts\<close>

text \<open>\<open>std::time::Duration\<close>: seconds and less than one second of nanoseconds.\<close>

record std_duration =
  secs :: "64 word"
  nanos :: u32

definition std_duration_valid :: "std_duration \<Rightarrow> bool" where
  "std_duration_valid d \<longleftrightarrow> nanos d < 1000000000"

definition as_millis :: "std_duration \<Rightarrow> nat" where
  "as_millis d = unat (secs d) * 1000 + unat (nanos d) div 1000000"

definition from_millis :: "64 word \<Rightarrow> std_duration" where
  "from_millis ms = \<lparr>secs = ms div 1000, nanos = ucast (ms mod 1000) * 1000000\<rparr>"

datatype Timeout = Timeout (as_ms: u32)

definition Timeout_NONE :: Timeout where "Timeout_NONE = Timeout.Timeout 0"
definition Timeout_MAX :: Timeout where "Timeout_MAX = Timeout.Timeout 1000"
definition Timeout_from_ms :: "u32 \<Rightarrow> Timeout" where "Timeout_from_ms millis = Timeout.Timeout millis"

definition Timeout_try_from :: "std_duration \<Rightarrow> Timeout result" where
  "Timeout_try_from duration =
     (let millis = as_millis duration in
      if millis < 2 ^ 32 then Ok (Timeout.Timeout (word_of_nat millis))
      else Err (OutOfRange (AtMost 0xFFFFFFFF)
        (if millis < 2 ^ 64 then millis else 2 ^ 64 - 1) ''milliseconds''))"

definition Timeout_into_duration :: "Timeout \<Rightarrow> std_duration" where
  "Timeout_into_duration val = from_millis (ucast (as_ms val))"

lemma as_millis_from_millis:
  assumes "ms < 2 ^ 32"
  shows "as_millis (from_millis ms) = unat ms"
proof -
  have "unat ((ucast (ms mod 1000) :: u32) * 1000000) = unat (ms mod 1000) * 1000000"
  proof -
    have "unat (ms mod 1000) < 1000"
      by (simp add: unat_mod)
    then show ?thesis
      by (simp add: unat_word_ariths unsigned_ucast_eq take_bit_nat_eq_self)
  qed
  then show ?thesis
    by (simp add: as_millis_def from_millis_def unat_div unat_mod)
qed

lemma Timeout_round_trip: "Timeout_try_from (Timeout_into_duration t) = Ok t"
proof (cases t)
  case (Timeout w)
  have "unat w < 2 ^ 32"
    using unsigned_less [of w, where ?'a = nat] by simp
  moreover have "unat (ucast w :: 64 word) = unat w"
    using \<open>unat w < 2 ^ 32\<close> by (simp add: unsigned_ucast_eq take_bit_nat_eq_self)
  moreover from this have "(ucast w :: 64 word) < 2 ^ 32"
    using \<open>unat w < 2 ^ 32\<close> by (simp add: word_less_nat_alt)
  ultimately show ?thesis
    using Timeout
    by (simp add: Timeout_try_from_def Timeout_into_duration_def as_millis_from_millis)
qed

end
