(* ===== verification/CecStructs.thy ===== *)
theory CecStructs
  imports AddressText
begin

text \<open>
  The structures of the kernel interface: \<open>linux-cec-sys/src/structs.rs\<close>, the types \<open>cec_msg\<close>,
  \<open>cec_log_addrs\<close>, \<open>cec_caps\<close>, \<open>cec_connector_info\<close> and \<open>cec_event\<close> with their methods.

  A fixed-size array is a list; its size is the constant of the Rust type and is part of the
  well-formedness predicate of the structure. A union is the array that pads it, and its other
  view reads the words at the start of that array, as \<open>repr(C)\<close> lays them out. The bit sets of
  \<open>bitflags!\<close> are the words that hold them.
\<close>

section \<open>Messages\<close>

record cec_msg =
  tx_ts :: "64 word"
  rx_ts :: "64 word"
  msg_len :: u32
  timeout :: u32
  sequence :: u32
  msg_flags :: u32
  msg :: "u8 list"
  reply :: u8
  rx_status :: u8
  tx_status :: u8
  tx_arb_lost_cnt :: u8
  tx_nack_cnt :: u8
  tx_low_drive_cnt :: u8
  tx_error_cnt :: u8

definition CEC_MAX_MSG_SIZE :: nat where "CEC_MAX_MSG_SIZE = 16"

definition CEC_RX_STATUS_OK :: u8 where "CEC_RX_STATUS_OK = 1"
definition CEC_RX_STATUS_TIMEOUT :: u8 where "CEC_RX_STATUS_TIMEOUT = 2"
definition CEC_RX_STATUS_FEATURE_ABORT :: u8 where "CEC_RX_STATUS_FEATURE_ABORT = 4"
definition CEC_RX_STATUS_ABORTED :: u8 where "CEC_RX_STATUS_ABORTED = 8"

lemmas rx_status_consts = CEC_RX_STATUS_OK_def CEC_RX_STATUS_TIMEOUT_def
  CEC_RX_STATUS_FEATURE_ABORT_def CEC_RX_STATUS_ABORTED_def

definition cec_msg_valid :: "cec_msg \<Rightarrow> bool" where
  "cec_msg_valid m \<longleftrightarrow> length (msg m) = CEC_MAX_MSG_SIZE"

definition initiator :: "cec_msg \<Rightarrow> u8" where
  "initiator m = drop_bit 4 (msg m ! 0)"

definition destination :: "cec_msg \<Rightarrow> u8" where
  "destination m = msg m ! 0 AND 0xF"

definition opcode :: "cec_msg \<Rightarrow> u8 option" where
  "opcode m = (if msg_len m > 1 then Some (msg m ! 1) else None)"

definition is_broadcast :: "cec_msg \<Rightarrow> bool" where
  "is_broadcast m \<longleftrightarrow> msg m ! 0 AND 0xF = 0xF"

definition cec_msg_from_timeout :: "u32 \<Rightarrow> cec_msg" where
  "cec_msg_from_timeout timeout_ms =
     \<lparr>tx_ts = 0, rx_ts = 0, msg_len = 0, timeout = timeout_ms, sequence = 0, msg_flags = 0,
      msg = replicate CEC_MAX_MSG_SIZE 0, reply = 0, rx_status = 0, tx_status = 0,
      tx_arb_lost_cnt = 0, tx_nack_cnt = 0, tx_low_drive_cnt = 0, tx_error_cnt = 0\<rparr>"

definition cec_msg_new :: "u8 \<Rightarrow> u8 \<Rightarrow> cec_msg" where
  "cec_msg_new ini dest =
     (let m =
       \<lparr>tx_ts = 0, rx_ts = 0, msg_len = 1, timeout = 0, sequence = 0, msg_flags = 0,
        msg = replicate CEC_MAX_MSG_SIZE 0, reply = 0, rx_status = 0, tx_status = 0,
        tx_arb_lost_cnt = 0, tx_nack_cnt = 0, tx_low_drive_cnt = 0, tx_error_cnt = 0\<rparr>
      in m\<lparr>msg := (msg m)[0 := push_bit 4 ini OR dest]\<rparr>)"

definition with_timeout :: "cec_msg \<Rightarrow> u32 \<Rightarrow> cec_msg" where
  "with_timeout m timeout_ms = m\<lparr>timeout := timeout_ms\<rparr>"

definition set_reply_to :: "cec_msg \<Rightarrow> cec_msg \<Rightarrow> cec_msg" where
  "set_reply_to m orig =
     m\<lparr>msg := (msg m)[0 := push_bit 4 (destination orig) OR initiator orig],
       reply := 0, timeout := 0\<rparr>"

definition recv_is_tx_result :: "cec_msg \<Rightarrow> bool" where
  "recv_is_tx_result m \<longleftrightarrow> sequence m \<noteq> 0 \<and> tx_status m \<noteq> 0 \<and> rx_status m = 0"

definition recv_is_rx_result :: "cec_msg \<Rightarrow> bool" where
  "recv_is_rx_result m \<longleftrightarrow> sequence m \<noteq> 0 \<and> tx_status m = 0 \<and> rx_status m \<noteq> 0"

definition status_is_ok :: "cec_msg \<Rightarrow> bool" where
  "status_is_ok m \<longleftrightarrow>
     (if tx_status m \<noteq> 0 \<and> \<not> contains (tx_status m) CEC_TX_STATUS_OK then False
      else if rx_status m \<noteq> 0 \<and> \<not> contains (rx_status m) CEC_RX_STATUS_OK then False
      else if tx_status m = 0 \<and> rx_status m = 0 then False
      else \<not> contains (rx_status m) CEC_RX_STATUS_FEATURE_ABORT)"

section \<open>Logical addresses of an adapter\<close>

record cec_log_addrs =
  log_addr :: "u8 list"
  log_addr_mask :: u16
  cec_version :: u8
  num_log_addrs :: u8
  vendor_id :: SysVendorId
  la_flags :: u32
  osd_name :: "u8 list"
  primary_device_type :: "u8 list"
  log_addr_type :: "u8 list"
  all_device_types :: "u8 list"
  features :: "u8 list list"

definition CEC_MAX_LOG_ADDRS :: nat where "CEC_MAX_LOG_ADDRS = 4"

definition cec_log_addrs_valid :: "cec_log_addrs \<Rightarrow> bool" where
  "cec_log_addrs_valid la \<longleftrightarrow>
     length (log_addr la) = CEC_MAX_LOG_ADDRS \<and> length (osd_name la) = 15 \<and>
     length (primary_device_type la) = CEC_MAX_LOG_ADDRS \<and>
     length (log_addr_type la) = CEC_MAX_LOG_ADDRS \<and>
     length (all_device_types la) = CEC_MAX_LOG_ADDRS \<and>
     length (features la) = CEC_MAX_LOG_ADDRS \<and> list_all (\<lambda>f. length f = 12) (features la)"

definition cec_log_addrs_default :: cec_log_addrs where
  "cec_log_addrs_default =
     \<lparr>log_addr = replicate CEC_MAX_LOG_ADDRS 0, log_addr_mask = 0, cec_version = 0,
      num_log_addrs = 0, vendor_id = SysVendorId_default, la_flags = 0,
      osd_name = replicate 15 0, primary_device_type = replicate CEC_MAX_LOG_ADDRS 0,
      log_addr_type = replicate CEC_MAX_LOG_ADDRS 0, all_device_types = replicate CEC_MAX_LOG_ADDRS 0,
      features = replicate CEC_MAX_LOG_ADDRS (replicate 12 0)\<rparr>"

definition CEC_LOG_ADDRS_FL_CDC_ONLY :: u32 where "CEC_LOG_ADDRS_FL_CDC_ONLY = 4"

definition is_2nd_tv :: "cec_log_addrs \<Rightarrow> bool" where
  "is_2nd_tv la \<longleftrightarrow>
     num_log_addrs la \<noteq> 0 \<and> log_addr la ! 0 \<ge> 14 \<and> primary_device_type la ! 0 = 0"

definition is_processor :: "cec_log_addrs \<Rightarrow> bool" where
  "is_processor la \<longleftrightarrow>
     num_log_addrs la \<noteq> 0 \<and> log_addr la ! 0 \<ge> 12 \<and> primary_device_type la ! 0 = 7"

definition is_switch :: "cec_log_addrs \<Rightarrow> bool" where
  "is_switch la \<longleftrightarrow>
     num_log_addrs la = 1 \<and> log_addr la ! 0 = 15 \<and> primary_device_type la ! 0 = 6 \<and>
     \<not> contains (la_flags la) CEC_LOG_ADDRS_FL_CDC_ONLY"

definition is_cdc_only :: "cec_log_addrs \<Rightarrow> bool" where
  "is_cdc_only la \<longleftrightarrow>
     num_log_addrs la = 1 \<and> log_addr la ! 0 = 15 \<and> primary_device_type la ! 0 = 6 \<and>
     contains (la_flags la) CEC_LOG_ADDRS_FL_CDC_ONLY"

section \<open>Capabilities, connectors and events\<close>

record cec_caps =
  driver :: "u8 list"
  adapter_name :: "u8 list"
  available_log_addrs :: u32
  capabilities :: u32
  caps_version :: u32

definition cec_caps_default :: cec_caps where
  "cec_caps_default =
     \<lparr>driver = replicate 32 0, adapter_name = replicate 32 0, available_log_addrs = 0,
      capabilities = 0, caps_version = 0\<rparr>"

definition CEC_CONNECTOR_TYPE_NO_CONNECTOR :: u32 where "CEC_CONNECTOR_TYPE_NO_CONNECTOR = 0"
definition CEC_CONNECTOR_TYPE_DRM :: u32 where "CEC_CONNECTOR_TYPE_DRM = 1"

record cec_connector_info =
  connector_ty :: u32
  connector_raw :: "u32 list"

definition cec_connector_info_default :: cec_connector_info where
  "cec_connector_info_default =
     \<lparr>connector_ty = CEC_CONNECTOR_TYPE_NO_CONNECTOR, connector_raw = replicate 16 0\<rparr>"

definition CEC_EVENT_STATE_CHANGE :: u32 where "CEC_EVENT_STATE_CHANGE = 1"
definition CEC_EVENT_LOST_MSGS :: u32 where "CEC_EVENT_LOST_MSGS = 2"
definition CEC_EVENT_PIN_CEC_LOW :: u32 where "CEC_EVENT_PIN_CEC_LOW = 3"
definition CEC_EVENT_PIN_CEC_HIGH :: u32 where "CEC_EVENT_PIN_CEC_HIGH = 4"
definition CEC_EVENT_PIN_HPD_LOW :: u32 where "CEC_EVENT_PIN_HPD_LOW = 5"
definition CEC_EVENT_PIN_HPD_HIGH :: u32 where "CEC_EVENT_PIN_HPD_HIGH = 6"
definition CEC_EVENT_PIN_5V_LOW :: u32 where "CEC_EVENT_PIN_5V_LOW = 7"
definition CEC_EVENT_PIN_5V_HIGH :: u32 where "CEC_EVENT_PIN_5V_HIGH = 8"

lemmas event_consts = CEC_EVENT_STATE_CHANGE_def CEC_EVENT_LOST_MSGS_def CEC_EVENT_PIN_CEC_LOW_def
  CEC_EVENT_PIN_CEC_HIGH_def CEC_EVENT_PIN_HPD_LOW_def CEC_EVENT_PIN_HPD_HIGH_def
  CEC_EVENT_PIN_5V_LOW_def CEC_EVENT_PIN_5V_HIGH_def

record cec_event =
  ev_ts :: "64 word"
  event :: u32
  ev_flags :: u32
  ev_raw :: "u32 list"

definition cec_event_default :: cec_event where
  "cec_event_default = \<lparr>ev_ts = 0, event = 0, ev_flags = 0, ev_raw = replicate 16 0\<rparr>"

section \<open>Headers\<close>

lemma drop_header_nibbles:
  fixes i d :: u8
  assumes "i < 16" "d < 16"
  shows "drop_bit 4 (push_bit 4 i OR d) = i" "(push_bit 4 i OR d) AND 0xF = d"
proof -
  have m: "(0xF :: u8) = mask 4"
    by (simp add: mask_eq_exp_minus_1)
  have "unat (take_bit 4 i) = unat i" "unat (take_bit 4 d) = unat d"
    using assms by (simp_all add: unsigned_take_bit_eq take_bit_nat_eq_self word_less_nat_alt)
  then have i: "take_bit 4 i = i" and d: "take_bit 4 d = d"
    by (simp_all only: unsigned_word_eqI)
  have "drop_bit 4 (push_bit 4 (take_bit 4 i) OR take_bit 4 d) = take_bit 4 i"
    by (rule bit_word_eqI) (auto simp: bit_simps)
  then show "drop_bit 4 (push_bit 4 i OR d) = i" by (simp only: i d)
  have "(push_bit 4 (take_bit 4 i) OR take_bit 4 d) AND mask 4 = take_bit 4 d"
    by (rule bit_word_eqI) (auto simp: bit_simps)
  then show "(push_bit 4 i OR d) AND 0xF = d" by (simp only: i d m)
qed

lemma cec_msg_new_valid [simp]: "cec_msg_valid (cec_msg_new i d)"
  by (simp add: cec_msg_valid_def cec_msg_new_def Let_def)

lemma cec_msg_new_header:
  assumes "i < 16" "d < 16"
  shows "initiator (cec_msg_new i d) = i" "destination (cec_msg_new i d) = d"
  using drop_header_nibbles [OF assms]
  by (simp_all add: initiator_def destination_def cec_msg_new_def CEC_MAX_MSG_SIZE_def)

lemma nibbles_less:
  "drop_bit 4 (b :: u8) < 16" "(b :: u8) AND 0xF < 16"
proof -
  have "unat b < 256"
    using unsigned_less [of b, where ?'a = nat] by simp
  then show "drop_bit 4 b < 16"
    by (simp add: word_less_nat_alt drop_bit_eq_div unat_div)
  have "b AND 0xF \<le> 0xF" by (rule word_and_le1)
  then show "b AND 0xF < 16" by (simp add: word_le_nat_alt word_less_nat_alt)
qed

text \<open>A reply goes to the initiator of the original message, and comes from its destination.\<close>

lemma set_reply_to_swaps:
  assumes "cec_msg_valid m"
  shows "initiator (set_reply_to m orig) = destination orig"
    and "destination (set_reply_to m orig) = initiator orig"
proof -
  have "destination orig < 16" "initiator orig < 16"
    by (simp_all add: destination_def initiator_def nibbles_less)
  note n = drop_header_nibbles [OF this]
  have "length (msg m) = 16"
    using assms by (simp add: cec_msg_valid_def CEC_MAX_MSG_SIZE_def)
  then show "initiator (set_reply_to m orig) = destination orig"
    "destination (set_reply_to m orig) = initiator orig"
    using n by (simp_all add: set_reply_to_def initiator_def [of "m\<lparr>msg := _, reply := _, timeout := _\<rparr>"]
        destination_def [of "m\<lparr>msg := _, reply := _, timeout := _\<rparr>"])
qed

text \<open>The special devices exclude each other.\<close>

lemma special_devices_disjoint:
  "\<not> (is_2nd_tv la \<and> is_processor la)" "\<not> (is_switch la \<and> is_cdc_only la)"
  "\<not> (is_2nd_tv la \<and> is_switch la)" "\<not> (is_processor la \<and> is_switch la)"
  "\<not> (is_2nd_tv la \<and> is_cdc_only la)" "\<not> (is_processor la \<and> is_cdc_only la)"
  by (auto simp: is_2nd_tv_def is_processor_def is_switch_def is_cdc_only_def)

end
