(* ===== verification/LogicalAddresses.thy ===== *)
theory LogicalAddresses
  imports OperandEnums
begin

text \<open>
  Logical addresses and their types: the enums \<open>LogicalAddress\<close> and \<open>LogicalAddressType\<close> of
  \<open>linux-cec/src/lib.rs\<close>, with their tables of device types. \<open>Default\<close> of both is the variant
  for an unregistered device.
\<close>

datatype LogicalAddress =
  Tv | RecordingDevice1 | RecordingDevice2 | Tuner1 | PlaybackDevice1 | AudioSystem | Tuner2 |
  Tuner3 | PlaybackDevice2 | RecordingDevice3 | Tuner4 | PlaybackDevice3 | Backup1 | Backup2 |
  Specific | UnregisteredOrBroadcast

primrec LogicalAddress_into :: "LogicalAddress \<Rightarrow> u8" where
  "LogicalAddress_into LogicalAddress.Tv = 0" |
  "LogicalAddress_into LogicalAddress.RecordingDevice1 = 1" |
  "LogicalAddress_into LogicalAddress.RecordingDevice2 = 2" |
  "LogicalAddress_into LogicalAddress.Tuner1 = 3" |
  "LogicalAddress_into LogicalAddress.PlaybackDevice1 = 4" |
  "LogicalAddress_into LogicalAddress.AudioSystem = 5" |
  "LogicalAddress_into LogicalAddress.Tuner2 = 6" |
  "LogicalAddress_into LogicalAddress.Tuner3 = 7" |
  "LogicalAddress_into LogicalAddress.PlaybackDevice2 = 8" |
  "LogicalAddress_into LogicalAddress.RecordingDevice3 = 9" |
  "LogicalAddress_into LogicalAddress.Tuner4 = 0x0A" |
  "LogicalAddress_into LogicalAddress.PlaybackDevice3 = 0x0B" |
  "LogicalAddress_into LogicalAddress.Backup1 = 0x0C" |
  "LogicalAddress_into LogicalAddress.Backup2 = 0x0D" |
  "LogicalAddress_into LogicalAddress.Specific = 0x0E" |
  "LogicalAddress_into LogicalAddress.UnregisteredOrBroadcast = 0x0F"

definition LogicalAddress_variants :: "LogicalAddress list" where
  "LogicalAddress_variants =
    [LogicalAddress.Tv, LogicalAddress.RecordingDevice1, LogicalAddress.RecordingDevice2,
     LogicalAddress.Tuner1, LogicalAddress.PlaybackDevice1, LogicalAddress.AudioSystem,
     LogicalAddress.Tuner2, LogicalAddress.Tuner3, LogicalAddress.PlaybackDevice2,
     LogicalAddress.RecordingDevice3, LogicalAddress.Tuner4, LogicalAddress.PlaybackDevice3,
     LogicalAddress.Backup1, LogicalAddress.Backup2, LogicalAddress.Specific,
     LogicalAddress.UnregisteredOrBroadcast]"

interpretation LogicalAddress: byte_enum "''LogicalAddress''" LogicalAddress_variants LogicalAddress_into
  by (unfold_locales, simp add: LogicalAddress_variants_def, induct_tac x) (simp_all add: LogicalAddress_variants_def)

abbreviation "LogicalAddress_try_from \<equiv> try_from_primitive ''LogicalAddress'' LogicalAddress_variants LogicalAddress_into"

datatype LogicalAddressType =
  Tv | Record | Tuner | Playback | AudioSystem | Specific | Unregistered

primrec LogicalAddressType_into :: "LogicalAddressType \<Rightarrow> u8" where
  "LogicalAddressType_into LogicalAddressType.Tv = 0" |
  "LogicalAddressType_into LogicalAddressType.Record = 1" |
  "LogicalAddressType_into LogicalAddressType.Tuner = 2" |
  "LogicalAddressType_into LogicalAddressType.Playback = 3" |
  "LogicalAddressType_into LogicalAddressType.AudioSystem = 4" |
  "LogicalAddressType_into LogicalAddressType.Specific = 5" |
  "LogicalAddressType_into LogicalAddressType.Unregistered = 6"

definition LogicalAddressType_variants :: "LogicalAddressType list" where
  "LogicalAddressType_variants =
    [LogicalAddressType.Tv, LogicalAddressType.Record, LogicalAddressType.Tuner,
     LogicalAddressType.Playback, LogicalAddressType.AudioSystem, LogicalAddressType.Specific,
     LogicalAddressType.Unregistered]"

interpretation LogicalAddressType: byte_enum "''LogicalAddressType''" LogicalAddressType_variants LogicalAddressType_into
  by (unfold_locales, simp add: LogicalAddressType_variants_def, induct_tac x) (simp_all add: LogicalAddressType_variants_def)

abbreviation "LogicalAddressType_try_from \<equiv> try_from_primitive ''LogicalAddressType'' LogicalAddressType_variants LogicalAddressType_into"

primrec LogicalAddress_primary_device_type :: "LogicalAddress \<Rightarrow> PrimaryDeviceType option" where
  "LogicalAddress_primary_device_type LogicalAddress.Tv = Some PrimaryDeviceType.Tv" |
  "LogicalAddress_primary_device_type LogicalAddress.RecordingDevice1 = Some PrimaryDeviceType.Recording" |
  "LogicalAddress_primary_device_type LogicalAddress.RecordingDevice2 = Some PrimaryDeviceType.Recording" |
  "LogicalAddress_primary_device_type LogicalAddress.RecordingDevice3 = Some PrimaryDeviceType.Recording" |
  "LogicalAddress_primary_device_type LogicalAddress.Tuner1 = Some PrimaryDeviceType.Tuner" |
  "LogicalAddress_primary_device_type LogicalAddress.Tuner2 = Some PrimaryDeviceType.Tuner" |
  "LogicalAddress_primary_device_type LogicalAddress.Tuner3 = Some PrimaryDeviceType.Tuner" |
  "LogicalAddress_primary_device_type LogicalAddress.Tuner4 = Some PrimaryDeviceType.Tuner" |
  "LogicalAddress_primary_device_type LogicalAddress.PlaybackDevice1 = Some PrimaryDeviceType.Playback" |
  "LogicalAddress_primary_device_type LogicalAddress.PlaybackDevice2 = Some PrimaryDeviceType.Playback" |
  "LogicalAddress_primary_device_type LogicalAddress.PlaybackDevice3 = Some PrimaryDeviceType.Playback" |
  "LogicalAddress_primary_device_type LogicalAddress.AudioSystem = Some PrimaryDeviceType.Audio" |
  "LogicalAddress_primary_device_type LogicalAddress.Backup1 = None" |
  "LogicalAddress_primary_device_type LogicalAddress.Backup2 = None" |
  "LogicalAddress_primary_device_type LogicalAddress.Specific = None" |
  "LogicalAddress_primary_device_type LogicalAddress.UnregisteredOrBroadcast = None"

primrec LogicalAddress_all_device_types :: "LogicalAddress \<Rightarrow> AllDeviceTypes" where
  "LogicalAddress_all_device_types LogicalAddress.Tv = AllDeviceTypes_TV" |
  "LogicalAddress_all_device_types LogicalAddress.RecordingDevice1 = AllDeviceTypes_RECORDING" |
  "LogicalAddress_all_device_types LogicalAddress.RecordingDevice2 = AllDeviceTypes_RECORDING" |
  "LogicalAddress_all_device_types LogicalAddress.RecordingDevice3 = AllDeviceTypes_RECORDING" |
  "LogicalAddress_all_device_types LogicalAddress.Tuner1 = AllDeviceTypes_TUNER" |
  "LogicalAddress_all_device_types LogicalAddress.Tuner2 = AllDeviceTypes_TUNER" |
  "LogicalAddress_all_device_types LogicalAddress.Tuner3 = AllDeviceTypes_TUNER" |
  "LogicalAddress_all_device_types LogicalAddress.Tuner4 = AllDeviceTypes_TUNER" |
  "LogicalAddress_all_device_types LogicalAddress.PlaybackDevice1 = AllDeviceTypes_PLAYBACK" |
  "LogicalAddress_all_device_types LogicalAddress.PlaybackDevice2 = AllDeviceTypes_PLAYBACK" |
  "LogicalAddress_all_device_types LogicalAddress.PlaybackDevice3 = AllDeviceTypes_PLAYBACK" |
  "LogicalAddress_all_device_types LogicalAddress.AudioSystem = AllDeviceTypes_AUDIOSYSTEM" |
  "LogicalAddress_all_device_types LogicalAddress.Backup1 = AllDeviceTypes 0" |
  "LogicalAddress_all_device_types LogicalAddress.Backup2 = AllDeviceTypes 0" |
  "LogicalAddress_all_device_types LogicalAddress.Specific = AllDeviceTypes 0" |
  "LogicalAddress_all_device_types LogicalAddress.UnregisteredOrBroadcast = AllDeviceTypes 0"

primrec LogicalAddress_ty :: "LogicalAddress \<Rightarrow> LogicalAddressType option" where
  "LogicalAddress_ty LogicalAddress.Tv = Some LogicalAddressType.Tv" |
  "LogicalAddress_ty LogicalAddress.RecordingDevice1 = Some LogicalAddressType.Record" |
  "LogicalAddress_ty LogicalAddress.RecordingDevice2 = Some LogicalAddressType.Record" |
  "LogicalAddress_ty LogicalAddress.RecordingDevice3 = Some LogicalAddressType.Record" |
  "LogicalAddress_ty LogicalAddress.Tuner1 = Some LogicalAddressType.Tuner" |
  "LogicalAddress_ty LogicalAddress.Tuner2 = Some LogicalAddressType.Tuner" |
  "LogicalAddress_ty LogicalAddress.Tuner3 = Some LogicalAddressType.Tuner" |
  "LogicalAddress_ty LogicalAddress.Tuner4 = Some LogicalAddressType.Tuner" |
  "LogicalAddress_ty LogicalAddress.PlaybackDevice1 = Some LogicalAddressType.Playback" |
  "LogicalAddress_ty LogicalAddress.PlaybackDevice2 = Some LogicalAddressType.Playback" |
  "LogicalAddress_ty LogicalAddress.PlaybackDevice3 = Some LogicalAddressType.Playback" |
  "LogicalAddress_ty LogicalAddress.AudioSystem = Some LogicalAddressType.AudioSystem" |
  "LogicalAddress_ty LogicalAddress.Backup1 = None" |
  "LogicalAddress_ty LogicalAddress.Backup2 = None" |
  "LogicalAddress_ty LogicalAddress.Specific = Some LogicalAddressType.Specific" |
  "LogicalAddress_ty LogicalAddress.UnregisteredOrBroadcast = Some LogicalAddressType.Unregistered"

primrec LogicalAddressType_primary_device_type :: "LogicalAddressType \<Rightarrow> PrimaryDeviceType option" where
  "LogicalAddressType_primary_device_type LogicalAddressType.Tv = Some PrimaryDeviceType.Tv" |
  "LogicalAddressType_primary_device_type LogicalAddressType.Record = Some PrimaryDeviceType.Recording" |
  "LogicalAddressType_primary_device_type LogicalAddressType.Tuner = Some PrimaryDeviceType.Tuner" |
  "LogicalAddressType_primary_device_type LogicalAddressType.Playback = Some PrimaryDeviceType.Playback" |
  "LogicalAddressType_primary_device_type LogicalAddressType.AudioSystem = Some PrimaryDeviceType.Audio" |
  "LogicalAddressType_primary_device_type LogicalAddressType.Specific = None" |
  "LogicalAddressType_primary_device_type LogicalAddressType.Unregistered = None"

primrec LogicalAddressType_all_device_types :: "LogicalAddressType \<Rightarrow> AllDeviceTypes" where
  "LogicalAddressType_all_device_types LogicalAddressType.Tv = AllDeviceTypes_TV" |
  "LogicalAddressType_all_device_types LogicalAddressType.Record = AllDeviceTypes_RECORDING" |
  "LogicalAddressType_all_device_types LogicalAddressType.Tuner = AllDeviceTypes_TUNER" |
  "LogicalAddressType_all_device_types LogicalAddressType.Playback = AllDeviceTypes_PLAYBACK" |
  "LogicalAddressType_all_device_types LogicalAddressType.AudioSystem = AllDeviceTypes_AUDIOSYSTEM" |
  "LogicalAddressType_all_device_types LogicalAddressType.Specific = AllDeviceTypes 0" |
  "LogicalAddressType_all_device_types LogicalAddressType.Unregistered = AllDeviceTypes 0"

definition LogicalAddress_Unregistered :: LogicalAddress where
  "LogicalAddress_Unregistered = LogicalAddress.UnregisteredOrBroadcast"

definition LogicalAddress_Broadcast :: LogicalAddress where
  "LogicalAddress_Broadcast = LogicalAddress.UnregisteredOrBroadcast"

lemma LogicalAddress_into_less: "LogicalAddress_into a < 16"
  by (induction a) simp_all

lemma LogicalAddress_range:
  assumes "b < 16"
  shows "b \<in> range LogicalAddress_into"
proof -
  have "unat b \<in> set [0..<16]"
    using assms by (simp add: word_less_nat_alt)
  then have "word_of_nat (unat b) \<in> (word_of_nat ` set [0..<16] :: u8 set)" by blast
  also have "\<dots> = LogicalAddress_into ` set LogicalAddress_variants"
    by (simp add: upt_conv_Cons LogicalAddress_variants_def)
  finally show ?thesis by auto
qed

text \<open>A nibble always names a logical address: the conversions of a received header cannot fail.\<close>

lemma LogicalAddress_of_nibble:
  assumes "b < 16"
  obtains a where "LogicalAddress_try_from b = Ok a" "LogicalAddress_into a = b"
  using LogicalAddress_range [OF assms] LogicalAddress.from_eq_Ok by auto

end
