(* ===== verification/Modes.thy ===== *)
theory Modes
  imports LogicalAddresses
begin

text \<open>
  Message handling modes: \<open>linux-cec/src/ioctls.rs\<close> and the enums \<open>InitiatorMode\<close> and
  \<open>FollowerMode\<close> of \<open>linux-cec/src/lib.rs\<close>.

  The kernel keeps both modes of a file handle in one \<open>u32\<close>: the initiator in bits 0 to 3, the
  follower in bits 4 to 7. \<open>into_bits\<close> and \<open>from_bits\<close> are generated by the derive macro
  \<open>BitfieldSpecifier\<close> (\<open>linux-cec-macros/src/lib.rs\<close>, the case of an enum with a default
  variant); the accessors of \<open>CecMessageHandlingMode\<close> are those that \<open>#[bitfield(u32)]\<close>
  documents: a getter masks and shifts, a setter replaces the bits of its field and keeps the
  others, and the conversions from and to \<open>u32\<close> keep every bit.
\<close>

section \<open>Modes\<close>

datatype InitiatorMode = Disabled | Enabled | Exclusive

datatype FollowerMode =
  Disabled | Enabled | Exclusive | ExclusivePassthru | MonitorPin | Monitor | MonitorAll

datatype CecInitiatorModes = NoInitiator | Initiator | ExclusiveInitiator | Invalid u32

datatype CecFollowerModes =
  NoFollower | Follower | ExclusiveFollower | ExclusiveFollowerPassthru | MonitorPin | Monitor |
  MonitorAll | Invalid u32

primrec CecInitiatorModes_into_bits :: "CecInitiatorModes \<Rightarrow> u32" where
  "CecInitiatorModes_into_bits NoInitiator = 0" |
  "CecInitiatorModes_into_bits Initiator = 1" |
  "CecInitiatorModes_into_bits ExclusiveInitiator = 2" |
  "CecInitiatorModes_into_bits (CecInitiatorModes.Invalid x) = x"

definition CecInitiatorModes_from_bits :: "u32 \<Rightarrow> CecInitiatorModes" where
  "CecInitiatorModes_from_bits bits =
     (let x = bits AND 0xF in
      if x = 0 then NoInitiator
      else if x = 1 then Initiator
      else if x = 2 then ExclusiveInitiator
      else CecInitiatorModes.Invalid x)"

primrec CecFollowerModes_into_bits :: "CecFollowerModes \<Rightarrow> u32" where
  "CecFollowerModes_into_bits NoFollower = 0" |
  "CecFollowerModes_into_bits Follower = 1" |
  "CecFollowerModes_into_bits ExclusiveFollower = 2" |
  "CecFollowerModes_into_bits ExclusiveFollowerPassthru = 3" |
  "CecFollowerModes_into_bits CecFollowerModes.MonitorPin = 0xD" |
  "CecFollowerModes_into_bits CecFollowerModes.Monitor = 0xE" |
  "CecFollowerModes_into_bits CecFollowerModes.MonitorAll = 0xF" |
  "CecFollowerModes_into_bits (CecFollowerModes.Invalid x) = x"

definition CecFollowerModes_from_bits :: "u32 \<Rightarrow> CecFollowerModes" where
  "CecFollowerModes_from_bits bits =
     (let x = bits AND 0xF in
      if x = 0 then NoFollower
      else if x = 1 then Follower
      else if x = 2 then ExclusiveFollower
      else if x = 3 then ExclusiveFollowerPassthru
      else if x = 0xD then CecFollowerModes.MonitorPin
      else if x = 0xE then CecFollowerModes.Monitor
      else if x = 0xF then CecFollowerModes.MonitorAll
      else CecFollowerModes.Invalid x)"

section \<open>Conversions\<close>

primrec CecInitiatorModes_from :: "InitiatorMode \<Rightarrow> CecInitiatorModes" where
  "CecInitiatorModes_from InitiatorMode.Disabled = NoInitiator" |
  "CecInitiatorModes_from InitiatorMode.Enabled = Initiator" |
  "CecInitiatorModes_from InitiatorMode.Exclusive = ExclusiveInitiator"

primrec InitiatorMode_try_from :: "CecInitiatorModes \<Rightarrow> InitiatorMode result" where
  "InitiatorMode_try_from NoInitiator = Ok InitiatorMode.Disabled" |
  "InitiatorMode_try_from Initiator = Ok InitiatorMode.Enabled" |
  "InitiatorMode_try_from ExclusiveInitiator = Ok InitiatorMode.Exclusive" |
  "InitiatorMode_try_from (CecInitiatorModes.Invalid x) =
     Err (InvalidValueForType ''CecInitiatorModes'' (show_nat (unat x)))"

primrec CecFollowerModes_from :: "FollowerMode \<Rightarrow> CecFollowerModes" where
  "CecFollowerModes_from FollowerMode.Disabled = NoFollower" |
  "CecFollowerModes_from FollowerMode.Enabled = Follower" |
  "CecFollowerModes_from FollowerMode.Exclusive = ExclusiveFollower" |
  "CecFollowerModes_from FollowerMode.ExclusivePassthru = ExclusiveFollowerPassthru" |
  "CecFollowerModes_from FollowerMode.MonitorPin = CecFollowerModes.MonitorPin" |
  "CecFollowerModes_from FollowerMode.Monitor = CecFollowerModes.Monitor" |
  "CecFollowerModes_from FollowerMode.MonitorAll = CecFollowerModes.MonitorAll"

primrec FollowerMode_try_from :: "CecFollowerModes \<Rightarrow> FollowerMode result" where
  "FollowerMode_try_from NoFollower = Ok FollowerMode.Disabled" |
  "FollowerMode_try_from Follower = Ok FollowerMode.Enabled" |
  "FollowerMode_try_from ExclusiveFollower = Ok FollowerMode.Exclusive" |
  "FollowerMode_try_from ExclusiveFollowerPassthru = Ok FollowerMode.ExclusivePassthru" |
  "FollowerMode_try_from CecFollowerModes.MonitorPin = Ok FollowerMode.MonitorPin" |
  "FollowerMode_try_from CecFollowerModes.Monitor = Ok FollowerMode.Monitor" |
  "FollowerMode_try_from CecFollowerModes.MonitorAll = Ok FollowerMode.MonitorAll" |
  "FollowerMode_try_from (CecFollowerModes.Invalid x) =
     Err (InvalidValueForType ''CecFollowerModes'' (show_nat (unat x)))"

section \<open>The two modes in one word\<close>

datatype CecMessageHandlingMode = CecMessageHandlingMode (handling_bits: u32)

text \<open>A field of four bits at position \<open>pos\<close>: reading it, and replacing it.\<close>

definition get_field :: "nat \<Rightarrow> u32 \<Rightarrow> u32" where
  "get_field pos w = drop_bit pos w AND 0xF"

definition set_field :: "nat \<Rightarrow> u32 \<Rightarrow> u32 \<Rightarrow> u32" where
  "set_field pos w v = (w AND NOT (push_bit pos 0xF)) OR push_bit pos (v AND 0xF)"

definition CecMessageHandlingMode_initiator :: "CecMessageHandlingMode \<Rightarrow> CecInitiatorModes" where
  "CecMessageHandlingMode_initiator m = CecInitiatorModes_from_bits (get_field 0 (handling_bits m))"

definition CecMessageHandlingMode_follower :: "CecMessageHandlingMode \<Rightarrow> CecFollowerModes" where
  "CecMessageHandlingMode_follower m = CecFollowerModes_from_bits (get_field 4 (handling_bits m))"

definition CecMessageHandlingMode_with_initiator ::
  "CecMessageHandlingMode \<Rightarrow> CecInitiatorModes \<Rightarrow> CecMessageHandlingMode" where
  "CecMessageHandlingMode_with_initiator m v =
     CecMessageHandlingMode (set_field 0 (handling_bits m) (CecInitiatorModes_into_bits v))"

definition CecMessageHandlingMode_with_follower ::
  "CecMessageHandlingMode \<Rightarrow> CecFollowerModes \<Rightarrow> CecMessageHandlingMode" where
  "CecMessageHandlingMode_with_follower m v =
     CecMessageHandlingMode (set_field 4 (handling_bits m) (CecFollowerModes_into_bits v))"

lemma nibble_mask: "(0xF :: u32) = mask 4"
  by (simp add: mask_eq_exp_minus_1)

lemma get_set_field: "pos \<le> 28 \<Longrightarrow> get_field pos (set_field pos w v) = v AND 0xF"
  unfolding get_field_def set_field_def nibble_mask
  by (rule bit_word_eqI) (auto simp: bit_simps)

lemma get_set_other_field:
  assumes "pos + 4 \<le> other \<or> other + 4 \<le> pos"
  shows "get_field pos (set_field other w v) = get_field pos w"
  unfolding get_field_def set_field_def nibble_mask
  using assms by (intro bit_word_eqI) (auto simp: bit_simps dest: bit_imp_le_length)

lemma get_field_untouched:
  "get_field 0 (set_field 4 w v) = get_field 0 w" "get_field 4 (set_field 0 w v) = get_field 4 w"
  by (simp_all add: get_set_other_field)

lemma InitiatorMode_round_trip [simp]:
  "InitiatorMode_try_from (CecInitiatorModes_from m) = Ok m"
  "CecInitiatorModes_from_bits (CecInitiatorModes_into_bits (CecInitiatorModes_from m) AND 0xF) =
     CecInitiatorModes_from m"
  by (induction m) (simp_all add: CecInitiatorModes_from_bits_def)

lemma FollowerMode_round_trip [simp]:
  "FollowerMode_try_from (CecFollowerModes_from m) = Ok m"
  "CecFollowerModes_from_bits (CecFollowerModes_into_bits (CecFollowerModes_from m) AND 0xF) =
     CecFollowerModes_from m"
  by (induction m) (simp_all add: CecFollowerModes_from_bits_def)

text \<open>Setting one of the two modes reads back, and leaves the other one alone.\<close>

lemma with_initiator_reads_back [simp]:
  "CecMessageHandlingMode_initiator
     (CecMessageHandlingMode_with_initiator m (CecInitiatorModes_from i)) = CecInitiatorModes_from i"
  "CecMessageHandlingMode_follower (CecMessageHandlingMode_with_initiator m v) =
     CecMessageHandlingMode_follower m"
  by (simp_all add: CecMessageHandlingMode_initiator_def CecMessageHandlingMode_follower_def
      CecMessageHandlingMode_with_initiator_def get_set_field get_field_untouched)

lemma with_follower_reads_back [simp]:
  "CecMessageHandlingMode_follower
     (CecMessageHandlingMode_with_follower m (CecFollowerModes_from f)) = CecFollowerModes_from f"
  "CecMessageHandlingMode_initiator (CecMessageHandlingMode_with_follower m v) =
     CecMessageHandlingMode_initiator m"
  by (simp_all add: CecMessageHandlingMode_initiator_def CecMessageHandlingMode_follower_def
      CecMessageHandlingMode_with_follower_def get_set_field get_field_untouched)

end
