(* ===== verification/Envelope.thy ===== *)
theory Envelope
  imports Messages CecStructs Modes
begin

text \<open>
  Received messages and the frames they arrive in: \<open>MessageData\<close> and \<open>Envelope\<close> of
  \<open>linux-cec/src/device.rs\<close>, and the frame that \<open>Device::tx_rx_message\<close> builds around a message.

  An \<open>ArrayVec<[u8; 14]>\<close> is the list of the bytes it holds; \<open>from_array_len\<close> panics when the
  length exceeds the capacity, as its documentation states.
\<close>

section \<open>Received data\<close>

datatype MessageData = Valid Message | Invalid "u8 list"

primrec MessageData_opcode :: "MessageData \<Rightarrow> u8 result" where
  "MessageData_opcode (Valid m) = and_then (Message_opcode m) (\<lambda>oc. Ok (Opcode_into oc))" |
  "MessageData_opcode (MessageData.Invalid bytes) = index bytes 0"

primrec MessageData_to_bytes :: "MessageData \<Rightarrow> u8 list option" where
  "MessageData_to_bytes (Valid m) = Message_to_bytes m" |
  "MessageData_to_bytes (MessageData.Invalid bytes) = Some bytes"

record Envelope =
  message :: MessageData
  env_initiator :: LogicalAddress
  env_destination :: LogicalAddress
  timestamp :: "64 word"
  env_sequence :: u32

text \<open>\<open>xs[a..b]\<close>, which panics out of range, and \<open>xs[a..b].copy_from_slice(src)\<close>.\<close>

definition slice :: "'a list \<Rightarrow> nat \<Rightarrow> nat \<Rightarrow> 'a list result" where
  "slice xs a b = (if a \<le> b \<and> b \<le> length xs then Ok (take (b - a) (drop a xs)) else Panic)"

definition copy_from_slice :: "'a list \<Rightarrow> nat \<Rightarrow> nat \<Rightarrow> 'a list \<Rightarrow> 'a list result" where
  "copy_from_slice xs a b src =
     (if a \<le> b \<and> b \<le> length xs \<and> length src = b - a
      then Ok (take a xs @ src @ drop b xs) else Panic)"

definition array_vec :: "u8 list \<Rightarrow> nat \<Rightarrow> u8 list result" where
  "array_vec arr n = (if n \<le> length arr then Ok (take n arr) else Panic)"

definition received_data :: "cec_msg \<Rightarrow> u8 list \<Rightarrow> MessageData result" where
  "received_data m bytes =
     (case Message_try_from_bytes bytes of
        Ok x \<Rightarrow> Ok (Valid x)
      | Err e \<Rightarrow>
          and_then (slice (msg m) 1 15) (\<lambda>arr.
          and_then (array_vec arr (length bytes)) (\<lambda>held.
          Ok (MessageData.Invalid held)))
      | Panic \<Rightarrow> Panic)"

definition Envelope_try_from :: "cec_msg \<Rightarrow> Envelope result" where
  "Envelope_try_from m =
     (if contains (rx_status m) CEC_RX_STATUS_TIMEOUT then Err Error.Timeout
      else if contains (rx_status m) CEC_RX_STATUS_ABORTED then Err Error.Abort
      else if contains (rx_status m) CEC_RX_STATUS_FEATURE_ABORT
        then Err (Error.RxError RxError.FeatureAbort)
      else if \<not> (2 \<le> msg_len m \<and> msg_len m \<le> 15) then Err InvalidData
      else
        and_then (slice (msg m) 1 (unat (msg_len m))) (\<lambda>bytes.
        and_then (LogicalAddress_try_from (initiator m)) (\<lambda>ini.
        and_then (LogicalAddress_try_from (destination m)) (\<lambda>dest.
        and_then (received_data m bytes) (\<lambda>data.
        Ok \<lparr>message = data, env_initiator = ini, env_destination = dest,
            timestamp = rx_ts m, env_sequence = sequence m\<rparr>)))))"

section \<open>Sent frames\<close>

text \<open>
  The frame of a message: a header byte and at most 15 bytes of the encoding. The rest of
  \<open>tx_rx_message\<close> (theory \<open>Device\<close>) sends it.
\<close>

definition frame_bytes :: "cec_msg \<Rightarrow> u8 list \<Rightarrow> Opcode \<Rightarrow> Timeout \<Rightarrow> cec_msg result" where
  "frame_bytes raw bytes rep tmo =
     (let n = min (length bytes) 15 + 1 in
      and_then (slice bytes 0 (n - 1)) (\<lambda>src.
      and_then (copy_from_slice (msg raw) 1 n src) (\<lambda>buf.
      Ok (raw\<lparr>msg_len := word_of_nat n, msg := buf, reply := Opcode_into rep,
             timeout := as_ms tmo\<rparr>))))"

definition frame ::
  "LogicalAddress \<Rightarrow> LogicalAddress \<Rightarrow> Message \<Rightarrow> Opcode \<Rightarrow> Timeout \<Rightarrow> cec_msg result" where
  "frame src dest m rep tmo =
     and_then (unwrap_option (Message_to_bytes m)) (\<lambda>bytes.
     frame_bytes (cec_msg_new (LogicalAddress_into src) (LogicalAddress_into dest)) bytes rep tmo)"

section \<open>Facts\<close>

lemma slice_Ok [simp]: "a \<le> b \<Longrightarrow> b \<le> length xs \<Longrightarrow> slice xs a b = Ok (take (b - a) (drop a xs))"
  by (simp add: slice_def)

lemma Envelope_header:
  obtains i d where "LogicalAddress_try_from (initiator m) = Ok i"
    "LogicalAddress_into i = initiator m"
    "LogicalAddress_try_from (destination m) = Ok d" "LogicalAddress_into d = destination m"
proof -
  have "initiator m < 16" "destination m < 16"
    by (simp_all add: initiator_def destination_def nibbles_less)
  then show thesis
    using that by (elim LogicalAddress_of_nibble) blast
qed

lemma received_data_not_Panic:
  assumes "cec_msg_valid m" "length bytes \<le> 14"
  shows "received_data m bytes \<noteq> Panic"
  using assms Message.dec_total [of bytes]
  by (auto simp: received_data_def array_vec_def cec_msg_valid_def CEC_MAX_MSG_SIZE_def
      split: result.split)

lemma msg_len_bounds:
  assumes "2 \<le> msg_len m" "msg_len m \<le> 15"
  shows "2 \<le> unat (msg_len m)" "unat (msg_len m) \<le> 15"
  using assms by (simp_all add: word_le_nat_alt)

lemma Envelope_not_Panic:
  assumes "cec_msg_valid m"
  shows "Envelope_try_from m \<noteq> Panic"
proof -
  obtain i d where a: "LogicalAddress_try_from (initiator m) = Ok i"
      "LogicalAddress_try_from (destination m) = Ok d"
    by (rule Envelope_header)
  have l: "length (msg m) = 16"
    using assms by (simp add: cec_msg_valid_def CEC_MAX_MSG_SIZE_def)
  have "received_data m (take (unat (msg_len m) - 1) (drop 1 (msg m))) \<noteq> Panic"
    if "msg_len m \<le> 15"
    using that by (intro received_data_not_Panic [OF assms]) (simp add: l word_le_nat_alt)
  then show ?thesis
    using msg_len_bounds [of m] l a by (auto simp: Envelope_try_from_def)
qed

text \<open>What a receiver sees of a message without an error status.\<close>

definition received_clean :: "cec_msg \<Rightarrow> bool" where
  "received_clean m \<longleftrightarrow>
     \<not> contains (rx_status m) CEC_RX_STATUS_TIMEOUT \<and> \<not> contains (rx_status m) CEC_RX_STATUS_ABORTED \<and>
     \<not> contains (rx_status m) CEC_RX_STATUS_FEATURE_ABORT"

text \<open>The frame of a well-formed message: header, encoding, padding.\<close>

lemma frame_valid:
  assumes "Message_valid m" "Message_len m \<le> 15"
  obtains b f where "Message_to_bytes m = Some b" "length b = Message_len m"
    "frame src dest m rep tmo = Ok f"
    "msg f = (push_bit 4 (LogicalAddress_into src) OR LogicalAddress_into dest) # b @
       replicate (15 - length b) 0"
    "msg_len f = word_of_nat (length b + 1)" "reply f = Opcode_into rep" "timeout f = as_ms tmo"
    "rx_status f = 0" "rx_ts f = 0" "sequence f = 0"
proof -
  from Message.enc_cases [OF assms(1)] obtain b where
    b: "Message_to_bytes m = Some b" "length b = Message_len m" by metis
  let ?h = "push_bit 4 (LogicalAddress_into src) OR LogicalAddress_into dest"
  let ?raw = "cec_msg_new (LogicalAddress_into src) (LogicalAddress_into dest)"
  have raw: "msg ?raw = ?h # replicate 15 0"
    by (simp add: cec_msg_new_def CEC_MAX_MSG_SIZE_def numeral_eq_Suc)
  have c: "copy_from_slice (msg ?raw) 1 (length b + 1) b =
      Ok (?h # b @ replicate (15 - length b) 0)"
    using assms(2) b(2) by (simp add: copy_from_slice_def raw One_nat_def)
  define f where "f = ?raw\<lparr>msg_len := word_of_nat (length b + 1),
      msg := ?h # b @ replicate (15 - length b) 0, reply := Opcode_into rep, timeout := as_ms tmo\<rparr>"
  have "frame src dest m rep tmo = Ok f"
    using assms(2) b c by (simp add: frame_def frame_bytes_def Let_def min_def f_def)
  then show thesis
    using b that by (simp add: f_def cec_msg_new_def)
qed

lemma header_addresses:
  assumes "msg f = (push_bit 4 (LogicalAddress_into src) OR LogicalAddress_into dest) # rest"
  shows "LogicalAddress_try_from (initiator f) = Ok src"
    and "LogicalAddress_try_from (destination f) = Ok dest"
  using drop_header_nibbles [OF LogicalAddress_into_less LogicalAddress_into_less, of src dest]
  by (simp_all add: initiator_def destination_def assms LogicalAddress.from_into)

text \<open>
  A frame of at most 15 bytes that arrives unharmed is the message that was sent. The receiver's
  driver sets the time stamp, the sequence number and the status.
\<close>

lemma frame_round_trip:
  assumes "Message_valid m" "Message_len m \<le> 14" "frame src dest m rep tmo = Ok f"
    and "msg g = msg f" "msg_len g = msg_len f" "received_clean g"
  shows "Envelope_try_from g = Ok \<lparr>message = Valid m, env_initiator = src, env_destination = dest,
           timestamp = rx_ts g, env_sequence = sequence g\<rparr>"
proof -
  have "Message_len m \<le> 15" using assms(2) by simp
  from frame_valid [OF assms(1) this, of src dest rep tmo] obtain b where
    b: "Message_to_bytes m = Some b" "length b = Message_len m"
    and f: "msg f = (push_bit 4 (LogicalAddress_into src) OR LogicalAddress_into dest) # b @
       replicate (15 - length b) 0" "msg_len f = word_of_nat (length b + 1)"
    using assms(3) by (metis result.inject(1))
  have "1 \<le> length b"
    using Message.enc_range [OF assms(1)] b(2) by simp
  have l: "unat (msg_len g) = length b + 1"
    using assms(2,5) b(2) f(2)
    by (simp add: unsigned_of_nat take_bit_nat_eq_self del: of_nat_add)
  then have bounds: "2 \<le> msg_len g" "msg_len g \<le> 15"
    using assms(2) b(2) \<open>1 \<le> length b\<close> by (simp_all add: word_le_nat_alt)
  have "Message_try_from_bytes b = Ok m"
    using Message.dec_enc [OF assms(1) b(1)] .
  moreover have "slice (msg g) 1 (unat (msg_len g)) = Ok b"
    using assms(2) b(2) by (simp add: l assms(4) f(1) One_nat_def)
  ultimately show ?thesis
    using assms(6) bounds header_addresses [of g src dest] f(1) assms(4)
    by (simp add: Envelope_try_from_def received_clean_def received_data_def)
qed

text \<open>The receiver rejects a full frame of 16 bytes.\<close>

lemma full_frame_rejected:
  assumes "msg_len g = 16" "received_clean g"
  shows "Envelope_try_from g = Err InvalidData"
  using assms by (simp add: Envelope_try_from_def received_clean_def)

end
