(* ===== verification/DeviceKernel.thy ===== *)
theory DeviceKernel
  imports Envelope
begin

text \<open>
  The world of \<open>linux-cec/src/device.rs\<close>: the system calls that a \<open>Device\<close> makes, and the
  type of its methods.

  The kernel is not part of the repository. It is a value of type \<open>'k kernel\<close>, a record with one
  function for each ioctl of \<open>linux-cec-sys/src/ioctls.rs\<close>, over a kernel state of an arbitrary
  type \<open>'k\<close>. A function takes the structure the caller passes and returns the error number, if
  there is one, the structure as the call leaves it, and the next kernel state; an ioctl that
  only writes to the kernel does not return the structure. Nothing is assumed of these
  functions: a property that needs a law of the kernel states it.

  The calls on the descriptor itself have no structure: opening the file, duplicating and closing a
  descriptor, \<open>fcntl\<close> and \<open>poll\<close>. A descriptor that a device gives away is a number; \<open>poll\<close> returns the
  number of ready descriptors and the flags of the one it was asked about, which are \<^term>\<open>None\<close>
  when the kernel sets a bit that the wrapper of nix does not know.
\<close>

section \<open>System calls\<close>

text \<open>
  \<open>io::Error\<close>: the number that the operating system gave, as \<open>Errno::from_raw\<close> reads it, or an error of
  another origin, with its text.
\<close>

datatype io_failure = RawOsError Errno | OtherFailure string

primrec from_io :: "io_failure \<Rightarrow> Error" where
  "from_io (RawOsError n) = from_errno n"
| "from_io (OtherFailure text) = Error.UnknownError text"

text \<open>The timeout of \<open>poll\<close>, an \<open>i32\<close> of milliseconds; a negative one waits without end.\<close>

type_synonym PollTimeout = "32 word"

record 'k kernel =
  adapter_get_capabilities :: "cec_caps \<Rightarrow> 'k \<Rightarrow> Errno option \<times> cec_caps \<times> 'k"
  adapter_get_physical_address :: "u16 \<Rightarrow> 'k \<Rightarrow> Errno option \<times> u16 \<times> 'k"
  adapter_set_physical_address :: "u16 \<Rightarrow> 'k \<Rightarrow> Errno option \<times> 'k"
  adapter_get_logical_addresses :: "cec_log_addrs \<Rightarrow> 'k \<Rightarrow> Errno option \<times> cec_log_addrs \<times> 'k"
  adapter_set_logical_addresses :: "cec_log_addrs \<Rightarrow> 'k \<Rightarrow> Errno option \<times> cec_log_addrs \<times> 'k"
  transmit_message :: "cec_msg \<Rightarrow> 'k \<Rightarrow> Errno option \<times> cec_msg \<times> 'k"
  receive_message :: "cec_msg \<Rightarrow> 'k \<Rightarrow> Errno option \<times> cec_msg \<times> 'k"
  dequeue_event :: "cec_event \<Rightarrow> 'k \<Rightarrow> Errno option \<times> cec_event \<times> 'k"
  get_mode :: "u32 \<Rightarrow> 'k \<Rightarrow> Errno option \<times> u32 \<times> 'k"
  set_mode :: "u32 \<Rightarrow> 'k \<Rightarrow> Errno option \<times> 'k"
  adapter_get_connector_info ::
    "cec_connector_info \<Rightarrow> 'k \<Rightarrow> Errno option \<times> cec_connector_info \<times> 'k"
  open_file :: "string \<Rightarrow> 'k \<Rightarrow> io_failure option \<times> 'k"
  clone_fd :: "'k \<Rightarrow> (io_failure + int) \<times> 'k"
  close_fd :: "int \<Rightarrow> 'k \<Rightarrow> 'k"
  fcntl_getfl :: "'k \<Rightarrow> Errno option \<times> u32 \<times> 'k"
  fcntl_setfl :: "u32 \<Rightarrow> 'k \<Rightarrow> Errno option \<times> 'k"
  poll_file :: "int \<Rightarrow> u16 \<Rightarrow> PollTimeout \<Rightarrow> 'k \<Rightarrow> Errno option \<times> nat \<times> u16 option \<times> 'k"

section \<open>The device and its methods\<close>

record Device =
  tx_logical_address :: LogicalAddress
  internal_log_addrs :: cec_log_addrs

text \<open>
  A method of a device: it reads and may change the device and the kernel, and returns, fails
  or panics. The changes made before an error stay.
\<close>

type_synonym ('k, 'a) device_op = "Device \<times> 'k \<Rightarrow> 'a result \<times> Device \<times> 'k"

definition op_return :: "'a result \<Rightarrow> ('k, 'a) device_op" where
  "op_return r = (\<lambda>s. (r, s))"

definition op_bind ::
  "('k, 'a) device_op \<Rightarrow> ('a \<Rightarrow> ('k, 'b) device_op) \<Rightarrow> ('k, 'b) device_op" where
  "op_bind m f =
     (\<lambda>s. case m s of
        (Ok x, t) \<Rightarrow> f x t
      | (Err e, t) \<Rightarrow> (Err e, t)
      | (Panic, t) \<Rightarrow> (Panic, t))"

definition op_modify :: "(Device \<Rightarrow> Device) \<Rightarrow> ('k, unit) device_op" where
  "op_modify f = (\<lambda>(d, k). (Ok (), f d, k))"

definition op_device :: "(Device \<Rightarrow> ('k, 'a) device_op) \<Rightarrow> ('k, 'a) device_op" where
  "op_device f = (\<lambda>s. f (fst s) s)"

text \<open>A system call: \<open>?\<close> turns an error number into an error of the library.\<close>

definition sys_result :: "Errno option \<Rightarrow> 'a \<Rightarrow> 'a result" where
  "sys_result e x = (case e of None \<Rightarrow> Ok x | Some n \<Rightarrow> Err (from_errno n))"

definition syscall ::
  "('s \<Rightarrow> 'k \<Rightarrow> Errno option \<times> 's \<times> 'k) \<Rightarrow> 's \<Rightarrow> ('k, 's) device_op" where
  "syscall f x = (\<lambda>(d, k). case f x k of (e, y, k') \<Rightarrow> (sys_result e y, d, k'))"

definition syscall_write ::
  "('s \<Rightarrow> 'k \<Rightarrow> Errno option \<times> 'k) \<Rightarrow> 's \<Rightarrow> ('k, unit) device_op" where
  "syscall_write f x = (\<lambda>(d, k). case f x k of (e, k') \<Rightarrow> (sys_result e (), d, k'))"

text \<open>A call that involves the kernel and not the device.\<close>

definition op_kernel :: "('k \<Rightarrow> 'a result \<times> 'k) \<Rightarrow> ('k, 'a) device_op" where
  "op_kernel f = (\<lambda>(d, k). case f k of (r, k') \<Rightarrow> (r, d, k'))"

text \<open>What is dropped at the end of a block, however the block ends.\<close>

definition op_finally :: "('k, 'a) device_op \<Rightarrow> ('k \<Rightarrow> 'k) \<Rightarrow> ('k, 'a) device_op" where
  "op_finally m f = (\<lambda>s. case m s of (r, d, k) \<Rightarrow> (r, d, f k))"

text \<open>A system call on \<open>&mut self.internal_log_addrs\<close>: the kernel writes into the device.\<close>

definition syscall_log_addrs ::
  "(cec_log_addrs \<Rightarrow> 'k \<Rightarrow> Errno option \<times> cec_log_addrs \<times> 'k) \<Rightarrow> ('k, unit) device_op" where
  "syscall_log_addrs f =
     (\<lambda>(d, k). case f (internal_log_addrs d) k of
        (e, la, k') \<Rightarrow> (sys_result e (), d\<lparr>internal_log_addrs := la\<rparr>, k'))"

section \<open>Rules\<close>

lemma sys_result_simps [simp]:
  "sys_result None x = Ok x" "sys_result (Some n) x = Err (from_errno n)"
  by (simp_all add: sys_result_def)

lemma sys_result_eq [simp]:
  "sys_result e x = Ok y \<longleftrightarrow> e = None \<and> x = y" "sys_result e x \<noteq> Panic"
  by (cases e; simp)+

lemma op_bind_eq_Ok:
  "op_bind m f s = (Ok y, u) \<longleftrightarrow> (\<exists>x t. m s = (Ok x, t) \<and> f x t = (Ok y, u))"
  by (cases "m s"; cases "fst (m s)"; auto simp: op_bind_def)

lemma op_bind_panic:
  "fst (op_bind m f s) = Panic \<longleftrightarrow>
     fst (m s) = Panic \<or> (\<exists>x t. m s = (Ok x, t) \<and> fst (f x t) = Panic)"
  by (cases "m s"; cases "fst (m s)"; auto simp: op_bind_def)

lemma op_bind_run [simp]:
  "m s = (Ok x, t) \<Longrightarrow> op_bind m f s = f x t"
  "m s = (Err e, t) \<Longrightarrow> op_bind m f s = (Err e, t)"
  "m s = (Panic, t) \<Longrightarrow> op_bind m f s = (Panic, t)"
  by (simp_all add: op_bind_def)

lemma op_run [simp]:
  "op_return r s = (r, s)"
  "op_modify f (d, k) = (Ok (), f d, k)"
  "op_device g (d, k) = g d (d, k)"
  by (simp_all add: op_return_def op_modify_def op_device_def)

lemma op_bind_assoc: "op_bind (op_bind m f) g = op_bind m (\<lambda>x. op_bind (f x) g)"
proof
  fix s
  show "op_bind (op_bind m f) g s = op_bind m (\<lambda>x. op_bind (f x) g) s"
    by (cases "m s"; cases "fst (m s)"; auto simp: op_bind_def)
qed

text \<open>
  Properties of the state that every step of a method keeps. \<open>op_keeps P m\<close>: whatever the
  outcome of \<open>m\<close>, the state after it satisfies \<open>P\<close> if the state before did.
\<close>

definition op_keeps :: "(Device \<times> 'k \<Rightarrow> bool) \<Rightarrow> ('k, 'a) device_op \<Rightarrow> bool" where
  "op_keeps P m \<longleftrightarrow> (\<forall>s. P s \<longrightarrow> P (snd (m s)))"

lemma op_keeps_bind [intro]:
  assumes "op_keeps P m" "\<And>x. op_keeps P (f x)"
  shows "op_keeps P (op_bind m f)"
  unfolding op_keeps_def
proof (intro allI impI)
  fix s
  assume "P s"
  then have "P (snd (m s))"
    using assms(1) unfolding op_keeps_def by blast
  then show "P (snd (op_bind m f s))"
    using assms(2) by (cases "m s"; cases "fst (m s)") (auto simp: op_bind_def op_keeps_def)
qed

lemma op_keeps_return [intro]: "op_keeps P (op_return r)"
  by (simp add: op_keeps_def op_return_def)

text \<open>A read-only method leaves the device alone: only the kernel moves on.\<close>

abbreviation op_reads :: "('k, 'a) device_op \<Rightarrow> bool" where
  "op_reads m \<equiv> (\<forall>d. op_keeps (\<lambda>s. fst s = d) m)"

lemma op_reads_syscall [intro]: "op_keeps (\<lambda>s. fst s = d) (syscall f x)"
  by (auto simp: op_keeps_def syscall_def split: prod.split)

lemma op_reads_syscall_write [intro]: "op_keeps (\<lambda>s. fst s = d) (syscall_write f x)"
  by (auto simp: op_keeps_def syscall_write_def split: prod.split)

lemma op_reads_kernel [intro]: "op_keeps (\<lambda>s. fst s = d) (op_kernel f)"
  by (auto simp: op_keeps_def op_kernel_def split: prod.split)

lemma op_reads_device [intro]:
  "(\<And>d'. op_keeps (\<lambda>s. fst s = d) (g d')) \<Longrightarrow> op_keeps (\<lambda>s. fst s = d) (op_device g)"
  by (auto simp: op_keeps_def op_device_def)

end
