(* ===== verification/Device.thy ===== *)
theory Device
  imports DeviceKernel
begin

text \<open>
  The methods of \<open>Device\<close> and \<open>DevicePoller\<close>: \<open>linux-cec/src/device.rs\<close>. Methods take the
  kernel \<open>K\<close> first. Logging has no effect on the results and is left out.
\<close>

section \<open>Modes\<close>

definition Device_get_mode :: "'k kernel \<Rightarrow> ('k, CecMessageHandlingMode) device_op" where
  "Device_get_mode K =
     op_bind (syscall (get_mode K) 0) (\<lambda>mode. op_return (Ok (CecMessageHandlingMode mode)))"

definition Device_set_mode :: "'k kernel \<Rightarrow> CecMessageHandlingMode \<Rightarrow> ('k, unit) device_op" where
  "Device_set_mode K mode = syscall_write (set_mode K) (handling_bits mode)"

definition get_initiator_mode :: "'k kernel \<Rightarrow> ('k, InitiatorMode) device_op" where
  "get_initiator_mode K =
     op_bind (Device_get_mode K) (\<lambda>m.
     op_return (InitiatorMode_try_from (CecMessageHandlingMode_initiator m)))"

definition set_initiator_mode :: "'k kernel \<Rightarrow> InitiatorMode \<Rightarrow> ('k, unit) device_op" where
  "set_initiator_mode K mode =
     op_bind (Device_get_mode K) (\<lambda>m.
     Device_set_mode K (CecMessageHandlingMode_with_initiator m (CecInitiatorModes_from mode)))"

definition get_follower_mode :: "'k kernel \<Rightarrow> ('k, FollowerMode) device_op" where
  "get_follower_mode K =
     op_bind (Device_get_mode K) (\<lambda>m.
     op_return (FollowerMode_try_from (CecMessageHandlingMode_follower m)))"

definition set_follower_mode :: "'k kernel \<Rightarrow> FollowerMode \<Rightarrow> ('k, unit) device_op" where
  "set_follower_mode K mode =
     op_bind (Device_get_mode K) (\<lambda>m.
     Device_set_mode K (CecMessageHandlingMode_with_follower m (CecFollowerModes_from mode)))"

section \<open>Capabilities and physical address\<close>

definition get_raw_capabilities :: "'k kernel \<Rightarrow> ('k, cec_caps) device_op" where
  "get_raw_capabilities K = syscall (adapter_get_capabilities K) cec_caps_default"

definition get_capabilities :: "'k kernel \<Rightarrow> ('k, u32) device_op" where
  "get_capabilities K =
     op_bind (get_raw_capabilities K) (\<lambda>caps. op_return (Ok (capabilities caps)))"

definition get_driver_name :: "'k kernel \<Rightarrow> ('k, u8 list) device_op" where
  "get_driver_name K = op_bind (get_raw_capabilities K) (\<lambda>caps. op_return (Ok (driver caps)))"

definition get_adapter_name :: "'k kernel \<Rightarrow> ('k, u8 list) device_op" where
  "get_adapter_name K =
     op_bind (get_raw_capabilities K) (\<lambda>caps. op_return (Ok (adapter_name caps)))"

definition get_physical_address :: "'k kernel \<Rightarrow> ('k, PhysicalAddress) device_op" where
  "get_physical_address K =
     op_bind (syscall (adapter_get_physical_address K) 0) (\<lambda>phys_addr.
     op_return (Ok (PhysicalAddress.PhysicalAddress phys_addr)))"

definition set_physical_address :: "'k kernel \<Rightarrow> PhysicalAddress \<Rightarrow> ('k, unit) device_op" where
  "set_physical_address K phys_addr =
     syscall_write (adapter_set_physical_address K) (the_u16 phys_addr)"

section \<open>Logical addresses\<close>

primrec collect_log_addrs :: "u8 list \<Rightarrow> nat list \<Rightarrow> LogicalAddress list result" where
  "collect_log_addrs addrs [] = Ok []" |
  "collect_log_addrs addrs (i # is) =
     and_then (index addrs i) (\<lambda>b.
     and_then (LogicalAddress_try_from b) (\<lambda>a.
     and_then (collect_log_addrs addrs is) (\<lambda>rest. Ok (a # rest))))"

definition get_logical_addresses :: "'k kernel \<Rightarrow> ('k, LogicalAddress list) device_op" where
  "get_logical_addresses K =
     op_bind (syscall_log_addrs (adapter_get_logical_addresses K)) (\<lambda>_.
     op_device (\<lambda>d.
       op_return (collect_log_addrs (log_addr (internal_log_addrs d))
         [0..<unat (num_log_addrs (internal_log_addrs d))])))"

text \<open>\<open>xs[i] = v\<close>, which panics out of range.\<close>

definition set_index :: "'a list \<Rightarrow> nat \<Rightarrow> 'a \<Rightarrow> 'a list result" where
  "set_index xs i v = (if i < length xs then Ok (xs[i := v]) else Panic)"

primrec store_types ::
  "cec_log_addrs \<Rightarrow> nat \<Rightarrow> LogicalAddressType list \<Rightarrow> cec_log_addrs result" where
  "store_types la i [] = Ok la" |
  "store_types la i (t # ts) =
     and_then (set_index (log_addr_type la) i (LogicalAddressType_into t)) (\<lambda>types.
     and_then (set_index (primary_device_type la) i
       (case LogicalAddressType_primary_device_type t of
          Some prim \<Rightarrow> PrimaryDeviceType_into prim
        | None \<Rightarrow> 0xFF)) (\<lambda>prims.
     store_types (la\<lparr>log_addr_type := types, primary_device_type := prims\<rparr>) (i + 1) ts))"

definition op_result :: "'a result \<Rightarrow> ('a \<Rightarrow> Device \<Rightarrow> Device) \<Rightarrow> ('k, unit) device_op" where
  "op_result r f = op_bind (op_return r) (\<lambda>x. op_modify (f x))"

definition set_log_addrs :: "(cec_log_addrs \<Rightarrow> cec_log_addrs) \<Rightarrow> Device \<Rightarrow> Device" where
  "set_log_addrs f d = d\<lparr>internal_log_addrs := f (internal_log_addrs d)\<rparr>"

text \<open>The address the device transmits from: the first one the kernel claimed.\<close>

definition claimed_address :: "cec_log_addrs \<Rightarrow> LogicalAddress" where
  "claimed_address la =
     (case LogicalAddress_try_from (log_addr la ! 0) of
        Ok a \<Rightarrow> a
      | _ \<Rightarrow> LogicalAddress_Unregistered)"

definition clear_logical_addresses :: "'k kernel \<Rightarrow> ('k, unit) device_op" where
  "clear_logical_addresses K =
     op_bind (op_modify (set_log_addrs (\<lambda>la. la\<lparr>num_log_addrs := 0\<rparr>))) (\<lambda>_.
     op_bind (op_modify (\<lambda>d. d\<lparr>tx_logical_address := LogicalAddress_Unregistered\<rparr>)) (\<lambda>_.
     syscall_log_addrs (adapter_set_logical_addresses K)))"

definition set_logical_addresses ::
  "'k kernel \<Rightarrow> LogicalAddressType list \<Rightarrow> ('k, unit) device_op" where
  "set_logical_addresses K addrs =
     op_bind (op_return (check (AtMost CEC_MAX_LOG_ADDRS) (length addrs) ''logical addresses'')) (\<lambda>_.
     op_bind (op_device (\<lambda>d. op_result (store_types (internal_log_addrs d) 0 addrs)
       (\<lambda>la d. d\<lparr>internal_log_addrs := la\<rparr>))) (\<lambda>_.
     op_bind (op_device (\<lambda>d.
       if addrs \<noteq> [] \<and> num_log_addrs (internal_log_addrs d) > 0
       then clear_logical_addresses K else op_return (Ok ()))) (\<lambda>_.
     op_bind (op_result (if length addrs \<le> 255 then Ok (word_of_nat (length addrs)) else Panic)
       (\<lambda>n. set_log_addrs (\<lambda>la. la\<lparr>num_log_addrs := n\<rparr>))) (\<lambda>_.
     op_bind (syscall_log_addrs (adapter_set_logical_addresses K)) (\<lambda>_.
     if addrs \<noteq> []
     then op_modify (\<lambda>d. d\<lparr>tx_logical_address := claimed_address (internal_log_addrs d)\<rparr>)
     else op_return (Ok ()))))))"

definition set_logical_address :: "'k kernel \<Rightarrow> LogicalAddressType \<Rightarrow> ('k, unit) device_op" where
  "set_logical_address K addr = set_logical_addresses K [addr]"

definition get_vendor_id :: "'k kernel \<Rightarrow> ('k, VendorId option) device_op" where
  "get_vendor_id K =
     op_bind (syscall_log_addrs (adapter_get_logical_addresses K)) (\<lambda>_.
     op_device (\<lambda>d. op_return (VendorId_try_from_sys (vendor_id (internal_log_addrs d)))))"

definition set_vendor_id :: "VendorId option \<Rightarrow> ('k, unit) device_op" where
  "set_vendor_id v =
     (case v of
        Some vid \<Rightarrow>
          op_result (VendorId_into_sys vid) (\<lambda>x. set_log_addrs (\<lambda>la. la\<lparr>vendor_id := x\<rparr>))
      | None \<Rightarrow> op_modify (set_log_addrs (\<lambda>la. la\<lparr>vendor_id := SysVendorId_default\<rparr>)))"

section \<open>Messages\<close>

definition tx_raw_message :: "'k kernel \<Rightarrow> cec_msg \<Rightarrow> ('k, cec_msg) device_op" where
  "tx_raw_message K m = syscall (transmit_message K) m"

text \<open>
  \<open>debug\<close> renders a transmit status for the last case of an error, as \<open>from_tx_status\<close> explains.
\<close>

definition tx_rx_message ::
  "(u8 \<Rightarrow> string) \<Rightarrow> 'k kernel \<Rightarrow> Message \<Rightarrow> LogicalAddress \<Rightarrow> Opcode \<Rightarrow> Timeout \<Rightarrow>
   ('k, Envelope) device_op" where
  "tx_rx_message debug K m dest rep tmo =
     op_device (\<lambda>d.
     op_bind (op_return (frame (tx_logical_address d) dest m rep tmo)) (\<lambda>raw.
     op_bind (tx_raw_message K raw) (\<lambda>raw'.
     if \<not> contains (tx_status raw') CEC_TX_STATUS_OK
     then op_return (Err (from_tx_status debug (tx_status raw')))
     else op_return (Envelope_try_from raw'))))"

definition tx_message ::
  "(u8 \<Rightarrow> string) \<Rightarrow> 'k kernel \<Rightarrow> Message \<Rightarrow> LogicalAddress \<Rightarrow> ('k, u32) device_op" where
  "tx_message debug K m dest =
     op_bind (tx_rx_message debug K m dest Opcode.FeatureAbort Timeout_NONE) (\<lambda>rep.
     op_return (Ok (env_sequence rep)))"

definition rx_raw_message :: "'k kernel \<Rightarrow> u32 \<Rightarrow> ('k, cec_msg) device_op" where
  "rx_raw_message K timeout_ms = syscall (receive_message K) (cec_msg_from_timeout timeout_ms)"

definition rx_message :: "'k kernel \<Rightarrow> Timeout \<Rightarrow> ('k, Envelope) device_op" where
  "rx_message K tmo =
     op_bind (rx_raw_message K (as_ms tmo)) (\<lambda>m. op_return (Envelope_try_from m))"

definition poll_address ::
  "(u8 \<Rightarrow> string) \<Rightarrow> 'k kernel \<Rightarrow> LogicalAddress \<Rightarrow> ('k, unit) device_op" where
  "poll_address debug K dest =
     op_device (\<lambda>d.
     op_bind (tx_raw_message K
       (cec_msg_new (LogicalAddress_into (tx_logical_address d)) (LogicalAddress_into dest))) (\<lambda>raw.
     if \<not> contains (tx_status raw) CEC_TX_STATUS_OK
     then op_return (Err (from_tx_status debug (tx_status raw)))
     else op_return (Ok ())))"

text \<open>The name occupies 14 of the 15 bytes of the field; the last one is left as it is.\<close>

definition set_osd_name :: "(u8 \<Rightarrow> string) \<Rightarrow> 'k kernel \<Rightarrow> u8 list \<Rightarrow> ('k, unit) device_op" where
  "set_osd_name debug K name =
     op_bind (op_return (buffer_from_str 14 name)) (\<lambda>name_buffer.
     op_bind (op_device (\<lambda>d.
       op_result (copy_from_slice (osd_name (internal_log_addrs d)) 0 14 (buffer name_buffer))
         (\<lambda>field. set_log_addrs (\<lambda>la. la\<lparr>osd_name := field\<rparr>)))) (\<lambda>_.
     op_device (\<lambda>d.
       if tx_logical_address d \<noteq> LogicalAddress_Unregistered then
         op_bind (tx_message debug K (Message.SetOsdName name_buffer) LogicalAddress.Tv) (\<lambda>_.
         op_return (Ok ()))
       else op_return (Ok ()))))"

definition get_osd_name :: "'k kernel \<Rightarrow> ('k, u8 list) device_op" where
  "get_osd_name K =
     op_bind (syscall_log_addrs (adapter_get_logical_addresses K)) (\<lambda>_.
     op_device (\<lambda>d. op_return (Ok (osd_name (internal_log_addrs d)))))"

section \<open>Convenience methods\<close>

definition set_active_source ::
  "(u8 \<Rightarrow> string) \<Rightarrow> 'k kernel \<Rightarrow> PhysicalAddress option \<Rightarrow> ('k, unit) device_op" where
  "set_active_source debug K address =
     op_bind (case address of
        Some a \<Rightarrow> op_return (Ok a)
      | None \<Rightarrow> get_physical_address K) (\<lambda>a.
     op_bind (tx_message debug K (Message.ActiveSource a) LogicalAddress_Broadcast) (\<lambda>_.
     op_return (Ok ())))"

definition wake ::
  "(u8 \<Rightarrow> string) \<Rightarrow> 'k kernel \<Rightarrow> bool \<Rightarrow> bool \<Rightarrow> ('k, unit) device_op" where
  "wake debug K set_active text_view =
     op_bind (tx_message debug K
       (if text_view then Message.TextViewOn else Message.ImageViewOn) LogicalAddress.Tv) (\<lambda>_.
     if set_active then
       op_bind (get_physical_address K) (\<lambda>address.
       op_bind (tx_message debug K (Message.ActiveSource address) LogicalAddress_Broadcast) (\<lambda>_.
       op_return (Ok ())))
     else op_return (Ok ()))"

definition standby ::
  "(u8 \<Rightarrow> string) \<Rightarrow> 'k kernel \<Rightarrow> LogicalAddress \<Rightarrow> ('k, unit) device_op" where
  "standby debug K target =
     op_bind (tx_message debug K Message.Standby target) (\<lambda>_. op_return (Ok ()))"

definition press_user_control ::
  "(u8 \<Rightarrow> string) \<Rightarrow> 'k kernel \<Rightarrow> UiCommand \<Rightarrow> LogicalAddress \<Rightarrow> ('k, unit) device_op" where
  "press_user_control debug K ui_command target =
     op_bind (tx_message debug K (Message.UserControlPressed ui_command) target) (\<lambda>_.
     op_return (Ok ()))"

definition release_user_control ::
  "(u8 \<Rightarrow> string) \<Rightarrow> 'k kernel \<Rightarrow> LogicalAddress \<Rightarrow> ('k, unit) device_op" where
  "release_user_control debug K target =
     op_bind (tx_message debug K Message.UserControlReleased target) (\<lambda>_. op_return (Ok ()))"

section \<open>Connectors\<close>

datatype ConnectorInfo =
  NoConnector | DrmConnector u32 u32 | Unknown u32 "u32 list"

definition get_connector_info :: "'k kernel \<Rightarrow> ('k, ConnectorInfo) device_op" where
  "get_connector_info K =
     op_bind (syscall (adapter_get_connector_info K) cec_connector_info_default) (\<lambda>ci.
     op_return (Ok
       (if connector_ty ci = CEC_CONNECTOR_TYPE_NO_CONNECTOR then NoConnector
        else if connector_ty ci = CEC_CONNECTOR_TYPE_DRM
        then DrmConnector (connector_raw ci ! 0) (connector_raw ci ! 1)
        else ConnectorInfo.Unknown (connector_ty ci) (connector_raw ci))))"

section \<open>Events\<close>

datatype Pin = Cec | HotPlugDetect | Power5V

datatype PinState = Low | High

record PinEvent =
  pin :: Pin
  pin_state :: PinState

datatype PollStatus = Nothing | Destroyed | GotEvent | GotMessage | GotAll

datatype PollResult =
  Message Envelope | PinEvent PinEvent | LostMessages u32 | StateChange

definition got_message :: "PollStatus \<Rightarrow> bool" where
  "got_message s = (case s of GotMessage \<Rightarrow> True | GotAll \<Rightarrow> True | _ \<Rightarrow> False)"

definition got_event :: "PollStatus \<Rightarrow> bool" where
  "got_event s = (case s of GotEvent \<Rightarrow> True | GotAll \<Rightarrow> True | _ \<Rightarrow> False)"

definition Device_dequeue_event :: "'k kernel \<Rightarrow> ('k, cec_event) device_op" where
  "Device_dequeue_event K = syscall (dequeue_event K) cec_event_default"

definition refresh_state :: "'k kernel \<Rightarrow> ('k, unit) device_op" where
  "refresh_state K =
     op_bind (syscall_log_addrs (adapter_get_logical_addresses K)) (\<lambda>_.
     op_modify (\<lambda>d. d\<lparr>tx_logical_address :=
       (if num_log_addrs (internal_log_addrs d) > 0 then claimed_address (internal_log_addrs d)
        else LogicalAddress_Unregistered)\<rparr>))"

definition handle_event :: "'k kernel \<Rightarrow> cec_event \<Rightarrow> ('k, PollResult) device_op" where
  "handle_event K ev =
     (let pin_event = \<lambda>p s. op_return (Ok (PollResult.PinEvent \<lparr>pin = p, pin_state = s\<rparr>)) in
      if event ev = CEC_EVENT_STATE_CHANGE then
        op_bind (refresh_state K) (\<lambda>_. op_return (Ok StateChange))
      else if event ev = CEC_EVENT_LOST_MSGS then op_return (Ok (LostMessages (ev_raw ev ! 0)))
      else if event ev = CEC_EVENT_PIN_CEC_LOW then pin_event Cec Low
      else if event ev = CEC_EVENT_PIN_CEC_HIGH then pin_event Cec High
      else if event ev = CEC_EVENT_PIN_HPD_LOW then pin_event HotPlugDetect Low
      else if event ev = CEC_EVENT_PIN_HPD_HIGH then pin_event HotPlugDetect High
      else if event ev = CEC_EVENT_PIN_5V_LOW then pin_event Power5V Low
      else if event ev = CEC_EVENT_PIN_5V_HIGH then pin_event Power5V High
      else op_return (Err InvalidData))"

definition handle_status :: "'k kernel \<Rightarrow> PollStatus \<Rightarrow> ('k, PollResult list) device_op" where
  "handle_status K status =
     op_bind (if got_event status then
         op_bind (Device_dequeue_event K) (\<lambda>ev.
         op_bind (handle_event K ev) (\<lambda>r. op_return (Ok [r])))
       else op_return (Ok [])) (\<lambda>results.
     if got_message status then
       op_bind (rx_message K (Timeout_from_ms 1)) (\<lambda>env.
       op_return (Ok (results @ [PollResult.Message env])))
     else op_return (Ok results))"

section \<open>Opening and polling\<close>

text \<open>\<open>TryFrom<File>\<close>, behind the opened file.\<close>

definition Device_try_from :: "'k kernel \<Rightarrow> 'k \<Rightarrow> Device result \<times> 'k" where
  "Device_try_from K k =
     (case adapter_get_logical_addresses K cec_log_addrs_default k of
        (e, la, k') \<Rightarrow>
          (sys_result e
             \<lparr>tx_logical_address =
                (if num_log_addrs la > 0 then claimed_address la else LogicalAddress_Unregistered),
              internal_log_addrs = la\<rparr>, k'))"

text \<open>\<open>open\<close>: the file is opened to read and write, and is not created.\<close>

definition Device_open :: "'k kernel \<Rightarrow> string \<Rightarrow> 'k \<Rightarrow> Device result \<times> 'k" where
  "Device_open K path k =
     (case open_file K path k of
        (None, k') \<Rightarrow> Device_try_from K k'
      | (Some e, k') \<Rightarrow> (Err (from_io e), k'))"

text \<open>\<open>set_blocking\<close>: the bit is the one of Linux on most architectures.\<close>

definition O_NONBLOCK :: u32 where "O_NONBLOCK = 0x800"

definition with_flag :: "u32 \<Rightarrow> u32 \<Rightarrow> bool \<Rightarrow> u32" where
  "with_flag flags bits on = (if on then flags OR bits else flags AND NOT bits)"

definition set_blocking :: "'k kernel \<Rightarrow> bool \<Rightarrow> ('k, unit) device_op" where
  "set_blocking K blocking =
     op_bind (syscall (\<lambda>_. fcntl_getfl K) 0) (\<lambda>flags.
     syscall_write (fcntl_setfl K) (with_flag flags O_NONBLOCK (\<not> blocking)))"

text \<open>A poller owns a duplicate of the descriptor, which is closed when the poller is dropped.\<close>

record DevicePoller =
  fd :: int

definition get_poller :: "'k kernel \<Rightarrow> ('k, DevicePoller) device_op" where
  "get_poller K =
     op_kernel (\<lambda>k. case clone_fd K k of
       (Inr n, k') \<Rightarrow> (Ok \<lparr>fd = n\<rparr>, k')
     | (Inl e, k') \<Rightarrow> (Err (from_io e), k'))"

definition DevicePoller_drop :: "'k kernel \<Rightarrow> DevicePoller \<Rightarrow> 'k \<Rightarrow> 'k" where
  "DevicePoller_drop K p = close_fd K (fd p)"

text \<open>The flags of \<open>poll(2)\<close> on Linux.\<close>

definition POLLIN :: u16 where "POLLIN = 1"
definition POLLPRI :: u16 where "POLLPRI = 2"
definition POLLHUP :: u16 where "POLLHUP = 0x10"

definition poll_status :: "nat \<Rightarrow> u16 option \<Rightarrow> PollStatus result" where
  "poll_status ready revents =
     (if ready = 0 then Err Error.Timeout
     else (case revents of
         None \<Rightarrow> Ok Nothing
       | Some flags \<Rightarrow>
           if contains flags POLLHUP then Ok Destroyed
           else if contains flags (POLLIN OR POLLPRI) then Ok GotAll
           else if contains flags POLLIN then Ok GotMessage
           else if contains flags POLLPRI then Ok GotEvent
           else Err (Error.UnknownError ''Polling error encountered'')))"

definition DevicePoller_poll :: "'k kernel \<Rightarrow> DevicePoller \<Rightarrow> PollTimeout \<Rightarrow> 'k \<Rightarrow> PollStatus result \<times> 'k"
where
  "DevicePoller_poll K p tmo k =
     (case poll_file K (fd p) (POLLPRI OR POLLIN) tmo k of
        (None, done, revents, k') \<Rightarrow> (poll_status done revents, k')
      | (Some e, _, _, k') \<Rightarrow> (Err (from_errno e), k'))"

text \<open>\<open>Device::poll\<close>: a poller for one call.\<close>

definition Device_poll :: "'k kernel \<Rightarrow> PollTimeout \<Rightarrow> ('k, PollResult list) device_op" where
  "Device_poll K tmo =
     op_bind (get_poller K) (\<lambda>poller.
     op_finally
       (op_bind (op_kernel (DevicePoller_poll K poller tmo)) (\<lambda>status. handle_status K status))
       (DevicePoller_drop K poller))"

end
