(* ===== verification/DeviceFacts.thy ===== *)
theory DeviceFacts
  imports Device
begin

text \<open>
  Facts on the methods of theory \<open>Device\<close>. A triple \<open>op_safe P m Q\<close> says that from a state
  with \<open>P\<close> the method \<open>m\<close> does not panic, keeps \<open>P\<close> whatever its outcome, and returns only
  values with \<open>Q\<close>; its rules follow the structure of the methods. With it every method is
  shown safe on a kernel that respects the sizes of the structures, and so is every sequence of
  calls.
\<close>

section \<open>Safe methods\<close>

definition op_safe ::
  "(Device \<times> 'k \<Rightarrow> bool) \<Rightarrow> ('k, 'a) device_op \<Rightarrow> ('a \<Rightarrow> bool) \<Rightarrow> bool" where
  "op_safe P m Q \<longleftrightarrow>
     (\<forall>s. P s \<longrightarrow> fst (m s) \<noteq> Panic \<and> P (snd (m s)) \<and> (\<forall>x. fst (m s) = Ok x \<longrightarrow> Q x))"

lemma op_safeI:
  assumes "\<And>s r t. P s \<Longrightarrow> m s = (r, t) \<Longrightarrow> r \<noteq> Panic \<and> P t \<and> (\<forall>x. r = Ok x \<longrightarrow> Q x)"
  shows "op_safe P m Q"
  unfolding op_safe_def using assms by (metis prod.collapse)

lemma op_safeD:
  assumes "op_safe P m Q" "P s" "m s = (r, t)"
  shows "r \<noteq> Panic" "P t" "r = Ok x \<Longrightarrow> Q x"
  using assms unfolding op_safe_def by (metis fst_conv snd_conv)+

named_theorems safe

lemma op_safe_bind:
  assumes "op_safe P m Q" "\<And>x. Q x \<Longrightarrow> op_safe P (f x) R"
  shows "op_safe P (op_bind m f) R"
proof (rule op_safeI)
  fix s r t
  assume s: "P s" "op_bind m f s = (r, t)"
  obtain q u where q: "m s = (q, u)" by (cases "m s")
  note m = op_safeD [OF assms(1) s(1) q]
  show "r \<noteq> Panic \<and> P t \<and> (\<forall>x. r = Ok x \<longrightarrow> R x)"
  proof (cases q)
    case (Ok x)
    then have "f x u = (r, t)" "Q x"
      using s(2) q m(3) by simp_all
    then show ?thesis
      using op_safeD [OF assms(2) m(2)] by blast
  next
    case (Err e)
    then show ?thesis using s(2) q m(2) by auto
  next
    case Panic
    then show ?thesis using m(1) by simp
  qed
qed

lemma op_safe_then [safe]:
  assumes "op_safe P m (\<lambda>_. True)" "\<And>x. op_safe P (f x) R"
  shows "op_safe P (op_bind m f) R"
  by (rule op_safe_bind [OF assms(1)]) (rule assms(2))

lemma op_safe_return: "r \<noteq> Panic \<Longrightarrow> (\<And>x. r = Ok x \<Longrightarrow> Q x) \<Longrightarrow> op_safe P (op_return r) Q"
  by (simp add: op_safe_def op_return_def)

lemma op_safe_return_total [safe]: "r \<noteq> Panic \<Longrightarrow> op_safe P (op_return r) (\<lambda>_. True)"
  by (rule op_safe_return) simp_all

lemma op_safe_return_Ok: "Q x \<Longrightarrow> op_safe P (op_return (Ok x)) Q"
  by (rule op_safe_return) simp_all

lemma op_safe_return_Err: "op_safe P (op_return (Err e)) Q"
  by (rule op_safe_return) simp_all

lemma op_safe_if [safe]:
  "(b \<Longrightarrow> op_safe P m Q) \<Longrightarrow> (\<not> b \<Longrightarrow> op_safe P n Q) \<Longrightarrow> op_safe P (if b then m else n) Q"
  by simp

lemma op_safe_weaken: "op_safe P m Q \<Longrightarrow> (\<And>x. Q x \<Longrightarrow> R x) \<Longrightarrow> op_safe P m R"
  by (auto simp: op_safe_def)

section \<open>Kernels and devices\<close>

text \<open>
  What the sizes of the structures guarantee, with the bound that the interface documents for
  the number of logical addresses (\<open>CEC_MAX_LOG_ADDRS\<close>).
\<close>

definition log_addrs_ok :: "cec_log_addrs \<Rightarrow> bool" where
  "log_addrs_ok la \<longleftrightarrow> cec_log_addrs_valid la \<and> unat (num_log_addrs la) \<le> CEC_MAX_LOG_ADDRS"

lemma log_addrs_default_ok: "log_addrs_ok cec_log_addrs_default"
  by (simp add: log_addrs_ok_def cec_log_addrs_default_def cec_log_addrs_valid_def
      list_all_iff)

definition kernel_sized :: "'k kernel \<Rightarrow> bool" where
  "kernel_sized K \<longleftrightarrow>
     (\<forall>la k. log_addrs_ok la \<longrightarrow>
        log_addrs_ok (fst (snd (adapter_get_logical_addresses K la k))) \<and>
        log_addrs_ok (fst (snd (adapter_set_logical_addresses K la k)))) \<and>
     (\<forall>m k. cec_msg_valid m \<longrightarrow>
        cec_msg_valid (fst (snd (transmit_message K m k))) \<and>
        cec_msg_valid (fst (snd (receive_message K m k))))"

definition device_ok :: "Device \<times> 'k \<Rightarrow> bool" where
  "device_ok s \<longleftrightarrow> log_addrs_ok (internal_log_addrs (fst s))"

lemma device_ok_pair [simp]: "device_ok (d, k) \<longleftrightarrow> log_addrs_ok (internal_log_addrs d)"
  by (simp add: device_ok_def)

lemma op_safe_device [safe]:
  assumes "\<And>d. log_addrs_ok (internal_log_addrs d) \<Longrightarrow> op_safe device_ok (g d) Q"
  shows "op_safe device_ok (op_device g) Q"
  using assms by (fastforce simp: op_safe_def op_device_def)

lemma op_safe_modify:
  assumes "\<And>d. log_addrs_ok (internal_log_addrs d) \<Longrightarrow> log_addrs_ok (internal_log_addrs (f d))"
  shows "op_safe device_ok (op_modify f) (\<lambda>_. True)"
  using assms by (auto simp: op_safe_def op_modify_def)

lemma op_safe_syscall [safe]: "op_safe device_ok (syscall f x) (\<lambda>_. True)"
  by (auto simp: op_safe_def syscall_def split: prod.split)

lemma op_safe_syscall_write [safe]: "op_safe device_ok (syscall_write f x) (\<lambda>_. True)"
  by (auto simp: op_safe_def syscall_write_def split: prod.split)

lemma op_safe_log_addrs_call:
  assumes "\<And>la k. log_addrs_ok la \<Longrightarrow> log_addrs_ok (fst (snd (f la k)))"
  shows "op_safe device_ok (syscall_log_addrs f) (\<lambda>_. True)"
proof (rule op_safeI)
  fix s r t
  assume "device_ok s" "syscall_log_addrs f s = (r, t)"
  then show "r \<noteq> Panic \<and> device_ok t \<and> (\<forall>x. r = Ok x \<longrightarrow> True)"
    using assms [of "internal_log_addrs (fst s)" "snd s"]
    by (auto simp: syscall_log_addrs_def device_ok_def split: prod.splits)
qed

lemma op_safe_log_addrs [safe]:
  "kernel_sized K \<Longrightarrow>
   op_safe device_ok (syscall_log_addrs (adapter_get_logical_addresses K)) (\<lambda>_. True)"
  "kernel_sized K \<Longrightarrow>
   op_safe device_ok (syscall_log_addrs (adapter_set_logical_addresses K)) (\<lambda>_. True)"
  by (rule op_safe_log_addrs_call; simp add: kernel_sized_def)+

lemma op_safe_call:
  assumes "\<And>k. Q (fst (snd (f x k)))"
  shows "op_safe device_ok (syscall f x) Q"
proof (rule op_safeI)
  fix s r t
  assume "device_ok s" "syscall f x s = (r, t)"
  then show "r \<noteq> Panic \<and> device_ok t \<and> (\<forall>y. r = Ok y \<longrightarrow> Q y)"
    using assms [of "snd s"] by (auto simp: syscall_def device_ok_def split: prod.splits)
qed

lemma op_safe_msg:
  "kernel_sized K \<Longrightarrow> cec_msg_valid m \<Longrightarrow>
   op_safe device_ok (syscall (transmit_message K) m) cec_msg_valid"
  "kernel_sized K \<Longrightarrow> cec_msg_valid m \<Longrightarrow>
   op_safe device_ok (syscall (receive_message K) m) cec_msg_valid"
  by (rule op_safe_call; simp add: kernel_sized_def)+

section \<open>Each method is safe\<close>

lemma collect_log_addrs_not_Panic:
  "list_all (\<lambda>i. i < length addrs) is \<Longrightarrow> collect_log_addrs addrs is \<noteq> Panic"
  by (induction "is") (auto simp: try_from_primitive_def split: option.splits)

lemma get_logical_addresses_safe:
  assumes "kernel_sized K"
  shows "op_safe device_ok (get_logical_addresses K) (\<lambda>_. True)"
  unfolding get_logical_addresses_def
proof (intro safe assms)
  fix d
  assume "log_addrs_ok (internal_log_addrs d)"
  then show "collect_log_addrs (log_addr (internal_log_addrs d))
      [0..<unat (num_log_addrs (internal_log_addrs d))] \<noteq> Panic"
    by (intro collect_log_addrs_not_Panic)
      (auto simp: log_addrs_ok_def cec_log_addrs_valid_def list_all_iff)
qed

lemma store_types_Ok:
  assumes "log_addrs_ok la" "i + length ts \<le> CEC_MAX_LOG_ADDRS"
  obtains la' where "store_types la i ts = Ok la'" "log_addrs_ok la'"
    "num_log_addrs la' = num_log_addrs la" "log_addr la' = log_addr la"
  using assms
proof (induction ts arbitrary: la i thesis)
  case Nil
  then show ?case by simp
next
  case (Cons t ts)
  let ?prim = "case LogicalAddressType_primary_device_type t of
      Some prim \<Rightarrow> PrimaryDeviceType_into prim | None \<Rightarrow> 0xFF"
  let ?la = "la\<lparr>log_addr_type := (log_addr_type la)[i := LogicalAddressType_into t],
      primary_device_type := (primary_device_type la)[i := ?prim]\<rparr>"
  have "log_addrs_ok ?la" "i + 1 + length ts \<le> CEC_MAX_LOG_ADDRS"
    using Cons.prems by (simp_all add: log_addrs_ok_def cec_log_addrs_valid_def)
  then obtain la' where "store_types ?la (i + 1) ts = Ok la'" "log_addrs_ok la'"
      "num_log_addrs la' = num_log_addrs ?la" "log_addr la' = log_addr ?la"
    by (rule Cons.IH [rotated])
  moreover have "i < length (log_addr_type la)" "i < length (primary_device_type la)"
    using Cons.prems by (simp_all add: log_addrs_ok_def cec_log_addrs_valid_def)
  ultimately show ?case
    using Cons.prems(1) by (simp add: set_index_def)
qed

lemma clear_logical_addresses_safe:
  assumes "kernel_sized K"
  shows "op_safe device_ok (clear_logical_addresses K) (\<lambda>_. True)"
  unfolding clear_logical_addresses_def
  by (intro safe assms op_safe_modify)
    (auto simp: set_log_addrs_def log_addrs_ok_def cec_log_addrs_valid_def)

lemma op_result_safe:
  assumes "r \<noteq> Panic"
    and "\<And>x d. r = Ok x \<Longrightarrow> log_addrs_ok (internal_log_addrs d) \<Longrightarrow>
           log_addrs_ok (internal_log_addrs (f x d))"
  shows "op_safe device_ok (op_result r f) (\<lambda>_. True)"
  using assms by (cases r) (auto simp: op_result_def op_safe_def op_bind_def op_return_def op_modify_def)

lemma set_logical_addresses_safe:
  assumes "kernel_sized K"
  shows "op_safe device_ok (set_logical_addresses K addrs) (\<lambda>_. True)"
proof (cases "length addrs \<le> CEC_MAX_LOG_ADDRS")
  case False
  then show ?thesis
    by (auto simp: set_logical_addresses_def op_safe_def op_bind_def op_return_def check_Err)
next
  case True
  show ?thesis
    unfolding set_logical_addresses_def
  proof (intro safe assms op_result_safe op_safe_modify clear_logical_addresses_safe)
    fix d
    assume "log_addrs_ok (internal_log_addrs d)"
    then obtain la where la: "store_types (internal_log_addrs d) 0 addrs = Ok la" "log_addrs_ok la"
      using store_types_Ok [of _ 0 addrs] True by (metis add_0)
    then show "store_types (internal_log_addrs d) 0 addrs \<noteq> Panic" by simp
    fix x d'
    assume "store_types (internal_log_addrs d) 0 addrs = Ok x"
    with la show "log_addrs_ok (internal_log_addrs (d'\<lparr>internal_log_addrs := x\<rparr>))" by simp
  qed (use True in \<open>auto simp: CEC_MAX_LOG_ADDRS_def set_log_addrs_def log_addrs_ok_def
      cec_log_addrs_valid_def unsigned_of_nat take_bit_nat_eq_self split: if_splits\<close>)
qed

lemma VendorId_into_sys_not_Panic: "VendorId_valid v \<Longrightarrow> VendorId_into_sys v \<noteq> Panic"
  by (elim VendorId_sys_round_trip) simp

lemma set_vendor_id_safe:
  assumes "pred_option VendorId_valid v"
  shows "op_safe device_ok (set_vendor_id v) (\<lambda>_. True)"
proof (cases v)
  case None
  then show ?thesis
    by (auto intro!: op_safe_modify
        simp: set_vendor_id_def set_log_addrs_def log_addrs_ok_def cec_log_addrs_valid_def)
next
  case (Some vid)
  with assms VendorId_into_sys_not_Panic show ?thesis
    by (auto intro!: op_result_safe
        simp: set_vendor_id_def set_log_addrs_def log_addrs_ok_def cec_log_addrs_valid_def)
qed

lemma VendorId_try_from_sys_not_Panic [simp]: "VendorId_try_from_sys x \<noteq> Panic"
  by (simp add: VendorId_try_from_sys_def Let_def)

lemma get_vendor_id_safe:
  assumes "kernel_sized K"
  shows "op_safe device_ok (get_vendor_id K) (\<lambda>_. True)"
  unfolding get_vendor_id_def by (intro safe assms) simp

text \<open>A message of any length makes a frame: what does not fit is cut off.\<close>

lemma frame_Ok:
  assumes "Message_valid m"
  obtains f where "frame src dest m rep tmo = Ok f" "cec_msg_valid f"
proof -
  from Message.enc_cases [OF assms] obtain b where b: "Message_to_bytes m = Some b" by metis
  let ?raw = "cec_msg_new (LogicalAddress_into src) (LogicalAddress_into dest)"
  have l: "length (msg ?raw) = 16"
    using cec_msg_new_valid by (simp add: cec_msg_valid_def CEC_MAX_MSG_SIZE_def)
  have "copy_from_slice (msg ?raw) 1 (min (length b) 15 + 1) (take (min (length b) 15) b) =
      Ok (take 1 (msg ?raw) @ take (min (length b) 15) b @ drop (min (length b) 15 + 1) (msg ?raw))"
    by (simp add: copy_from_slice_def l)
  then show thesis
    using that b by (simp add: frame_def frame_bytes_def Let_def cec_msg_valid_def l
        CEC_MAX_MSG_SIZE_def)
qed

text \<open>A received envelope holds a well-formed message, or some bytes.\<close>

definition envelope_ok :: "Envelope \<Rightarrow> bool" where
  "envelope_ok env \<longleftrightarrow>
     (case message env of Valid m \<Rightarrow> Message_valid m | MessageData.Invalid bytes \<Rightarrow> bytes \<noteq> [])"

lemma received_data_ok:
  assumes "cec_msg_valid m" "received_data m bytes = Ok data" "bytes \<noteq> []"
  shows "case data of Valid m \<Rightarrow> Message_valid m | MessageData.Invalid bytes \<Rightarrow> bytes \<noteq> []"
  using assms Message.dec_valid
  by (auto simp: received_data_def array_vec_def cec_msg_valid_def CEC_MAX_MSG_SIZE_def
      split: result.splits if_splits)

lemma received_envelope_ok:
  assumes "cec_msg_valid m" "Envelope_try_from m = Ok env"
  shows "envelope_ok env"
proof -
  have len: "2 \<le> msg_len m" "msg_len m \<le> 15"
    using assms(2) by (auto simp: Envelope_try_from_def split: if_splits)
  note n = msg_len_bounds [OF len]
  have l: "length (msg m) = 16"
    using assms(1) by (simp add: cec_msg_valid_def CEC_MAX_MSG_SIZE_def)
  obtain data where data: "received_data m (take (unat (msg_len m) - 1) (drop 1 (msg m))) = Ok data"
      "message env = data"
    using assms(2) n l by (auto simp: Envelope_try_from_def split: if_splits)
  have "take (unat (msg_len m) - 1) (drop 1 (msg m)) \<noteq> []"
    using n l by simp
  from received_data_ok [OF assms(1) data(1) this] data(2) show ?thesis
    by (simp add: envelope_ok_def)
qed

text \<open>What the handlers unwrap.\<close>

lemma envelope_bytes:
  assumes "envelope_ok env"
  shows "\<exists>oc. MessageData_opcode (message env) = Ok oc"
    and "\<exists>bytes. MessageData_to_bytes (message env) = Some bytes"
proof -
  show "\<exists>oc. MessageData_opcode (message env) = Ok oc"
    using assms Message_opcode_variant
    by (auto simp: envelope_ok_def index_def split: MessageData.splits)
  show "\<exists>bytes. MessageData_to_bytes (message env) = Some bytes"
    using assms Message.enc_defined by (auto simp: envelope_ok_def split: MessageData.splits)
qed

lemma envelope_key:
  assumes "envelope_ok env" "message env = Valid (Message.UserControlPressed cmd)"
  shows "\<exists>buf. UiCommand_to_bytes cmd = Some buf"
  using assms UiCommand.enc_defined by (auto simp: envelope_ok_def)

lemma tx_rx_message_envelope:
  assumes "kernel_sized K" "Message_valid m"
  shows "op_safe device_ok (tx_rx_message debug K m dest rep tmo) envelope_ok"
  unfolding tx_rx_message_def tx_raw_message_def
proof (rule op_safe_device)
  fix d :: Device
  obtain f where f: "frame (tx_logical_address d) dest m rep tmo = Ok f" "cec_msg_valid f"
    using frame_Ok [OF assms(2)] .
  have "op_safe device_ok (op_bind (syscall (transmit_message K) f) (\<lambda>raw.
      if \<not> contains (tx_status raw) CEC_TX_STATUS_OK
      then op_return (Err (from_tx_status debug (tx_status raw)))
      else op_return (Envelope_try_from raw))) envelope_ok"
    by (rule op_safe_bind [OF op_safe_msg(1) [OF assms(1) f(2)]])
      (auto intro!: op_safe_return op_safe_return_Err received_envelope_ok simp: Envelope_not_Panic)
  then show "op_safe device_ok (op_bind (op_return (frame (tx_logical_address d) dest m rep tmo))
      (\<lambda>raw. op_bind (syscall (transmit_message K) raw) (\<lambda>raw.
        if \<not> contains (tx_status raw) CEC_TX_STATUS_OK
        then op_return (Err (from_tx_status debug (tx_status raw)))
        else op_return (Envelope_try_from raw)))) envelope_ok"
    by (simp add: op_bind_def op_return_def f(1))
qed

lemma tx_rx_message_safe:
  "kernel_sized K \<Longrightarrow> Message_valid m \<Longrightarrow>
   op_safe device_ok (tx_rx_message debug K m dest rep tmo) (\<lambda>_. True)"
  using tx_rx_message_envelope by (rule op_safe_weaken) simp_all

lemma tx_message_safe [safe]:
  "kernel_sized K \<Longrightarrow> Message_valid m \<Longrightarrow> op_safe device_ok (tx_message debug K m dest) (\<lambda>_. True)"
  unfolding tx_message_def by (intro safe tx_rx_message_safe) auto

lemma rx_message_safe:
  assumes "kernel_sized K"
  shows "op_safe device_ok (rx_message K tmo) (\<lambda>_. True)"
proof -
  have "cec_msg_valid (cec_msg_from_timeout (as_ms tmo))"
    by (simp add: cec_msg_valid_def cec_msg_from_timeout_def)
  from op_safe_msg(2) [OF assms this] show ?thesis
    unfolding rx_message_def rx_raw_message_def
    by (rule op_safe_bind) (intro safe Envelope_not_Panic)
qed

lemma poll_address_safe: "op_safe device_ok (poll_address debug K dest) (\<lambda>_. True)"
  unfolding poll_address_def tx_raw_message_def by (intro safe) simp_all

lemma buffer_from_str_14:
  assumes "buffer_from_str 14 name = Ok b"
  shows "length (buffer b) = 14" "Message_valid (Message.SetOsdName b)"
proof -
  show "length (buffer b) = 14"
    using assms by (auto simp: buffer_from_str_def)
  show "Message_valid (Message.SetOsdName b)"
    using buffer_valid_from_str [OF assms] by simp
qed

lemma set_osd_name_safe:
  assumes "kernel_sized K"
  shows "op_safe device_ok (set_osd_name debug K name) (\<lambda>_. True)"
  unfolding set_osd_name_def
proof (rule op_safe_bind)
  show "op_safe device_ok (op_return (buffer_from_str 14 name))
      (\<lambda>b. length (buffer b) = 14 \<and> Message_valid (Message.SetOsdName b))"
    using buffer_from_str_14 [of name]
    by (intro op_safe_return) (simp_all add: buffer_from_str_def del: Message_valid.simps)
next
  fix b :: "u8 BoundedBufferOperand"
  assume b: "length (buffer b) = 14 \<and> Message_valid (Message.SetOsdName b)"
  have field: "copy_from_slice (osd_name la) 0 14 (buffer b) =
      Ok (buffer b @ drop 14 (osd_name la))" if "log_addrs_ok la" for la
    using b that by (simp add: copy_from_slice_def log_addrs_ok_def cec_log_addrs_valid_def)
  have "op_safe device_ok (op_device (\<lambda>d.
       op_result (copy_from_slice (osd_name (internal_log_addrs d)) 0 14 (buffer b))
         (\<lambda>field. set_log_addrs (\<lambda>la. la\<lparr>osd_name := field\<rparr>)))) (\<lambda>_. True)"
    using b by (intro safe op_result_safe)
      (auto simp: field set_log_addrs_def log_addrs_ok_def cec_log_addrs_valid_def)
  moreover have "op_safe device_ok (op_device (\<lambda>d.
      if tx_logical_address d \<noteq> LogicalAddress_Unregistered then
        op_bind (tx_message debug K (Message.SetOsdName b) LogicalAddress.Tv) (\<lambda>_.
        op_return (Ok ()))
      else op_return (Ok ()))) (\<lambda>_. True)"
    using assms b by (intro safe) auto
  ultimately show "op_safe device_ok (op_bind (op_device (\<lambda>d.
       op_result (copy_from_slice (osd_name (internal_log_addrs d)) 0 14 (buffer b))
         (\<lambda>field. set_log_addrs (\<lambda>la. la\<lparr>osd_name := field\<rparr>)))) (\<lambda>_.
     op_device (\<lambda>d.
       if tx_logical_address d \<noteq> LogicalAddress_Unregistered then
         op_bind (tx_message debug K (Message.SetOsdName b) LogicalAddress.Tv) (\<lambda>_.
         op_return (Ok ()))
       else op_return (Ok ())))) (\<lambda>_. True)"
    by (rule op_safe_then)
qed

lemma refresh_state_safe [safe]:
  "kernel_sized K \<Longrightarrow> op_safe device_ok (refresh_state K) (\<lambda>_. True)"
  unfolding refresh_state_def by (intro safe op_safe_modify) auto

lemma handle_status_safe:
  assumes "kernel_sized K"
  shows "op_safe device_ok (handle_status K status) (\<lambda>_. True)"
  unfolding handle_status_def handle_event_def Device_dequeue_event_def Let_def
  by (intro safe assms rx_message_safe) simp_all

section \<open>Sequences of calls\<close>

text \<open>
  The public methods with their arguments, as data: a program that uses a device is a list of
  them. The results are dropped; the state after a failed call is the one the next call sees.
\<close>

datatype Call =
  GetInitiatorMode | SetInitiatorMode InitiatorMode | GetFollowerMode |
  SetFollowerMode FollowerMode | GetCapabilities | GetDriverName | GetAdapterName |
  GetPhysicalAddress | SetPhysicalAddress PhysicalAddress | GetLogicalAddresses |
  SetLogicalAddresses "LogicalAddressType list" | SetLogicalAddress LogicalAddressType |
  ClearLogicalAddresses | GetOsdName | SetOsdName "u8 list" | GetVendorId |
  SetVendorId "VendorId option" | TxMessage Message LogicalAddress |
  TxRxMessage Message LogicalAddress Opcode Timeout | RxMessage Timeout |
  PollAddress LogicalAddress | HandleStatus PollStatus | GetConnectorInfo |
  SetActiveSource "PhysicalAddress option" | Wake bool bool | Standby LogicalAddress |
  PressUserControl UiCommand LogicalAddress | ReleaseUserControl LogicalAddress |
  GetRawCapabilities | TxRawMessage cec_msg | RxRawMessage u32 |
  SetBlocking bool | GetPoller | PollDevice PollTimeout

definition ignore :: "('k, 'a) device_op \<Rightarrow> ('k, unit) device_op" where
  "ignore m = op_bind m (\<lambda>_. op_return (Ok ()))"

primrec perform :: "(u8 \<Rightarrow> string) \<Rightarrow> 'k kernel \<Rightarrow> Call \<Rightarrow> ('k, unit) device_op" where
  "perform debug K GetInitiatorMode = ignore (get_initiator_mode K)" |
  "perform debug K (SetInitiatorMode mode) = set_initiator_mode K mode" |
  "perform debug K GetFollowerMode = ignore (get_follower_mode K)" |
  "perform debug K (SetFollowerMode mode) = set_follower_mode K mode" |
  "perform debug K GetCapabilities = ignore (get_capabilities K)" |
  "perform debug K GetDriverName = ignore (get_driver_name K)" |
  "perform debug K GetAdapterName = ignore (get_adapter_name K)" |
  "perform debug K GetPhysicalAddress = ignore (get_physical_address K)" |
  "perform debug K (SetPhysicalAddress a) = set_physical_address K a" |
  "perform debug K GetLogicalAddresses = ignore (get_logical_addresses K)" |
  "perform debug K (SetLogicalAddresses addrs) = set_logical_addresses K addrs" |
  "perform debug K (SetLogicalAddress a) = set_logical_address K a" |
  "perform debug K ClearLogicalAddresses = clear_logical_addresses K" |
  "perform debug K GetOsdName = ignore (get_osd_name K)" |
  "perform debug K (SetOsdName name) = set_osd_name debug K name" |
  "perform debug K GetVendorId = ignore (get_vendor_id K)" |
  "perform debug K (SetVendorId v) = set_vendor_id v" |
  "perform debug K (TxMessage m dest) = ignore (tx_message debug K m dest)" |
  "perform debug K (TxRxMessage m dest rep tmo) = ignore (tx_rx_message debug K m dest rep tmo)" |
  "perform debug K (RxMessage tmo) = ignore (rx_message K tmo)" |
  "perform debug K (PollAddress dest) = poll_address debug K dest" |
  "perform debug K (HandleStatus status) = ignore (handle_status K status)" |
  "perform debug K GetConnectorInfo = ignore (get_connector_info K)" |
  "perform debug K (SetActiveSource address) = set_active_source debug K address" |
  "perform debug K (Wake set_active text_view) = wake debug K set_active text_view" |
  "perform debug K (Standby target) = standby debug K target" |
  "perform debug K (PressUserControl cmd target) = press_user_control debug K cmd target" |
  "perform debug K (ReleaseUserControl target) = release_user_control debug K target" |
  "perform debug K GetRawCapabilities = ignore (get_raw_capabilities K)" |
  "perform debug K (TxRawMessage m) = ignore (tx_raw_message K m)" |
  "perform debug K (RxRawMessage ms) = ignore (rx_raw_message K ms)" |
  "perform debug K (SetBlocking blocking) = set_blocking K blocking" |
  "perform debug K GetPoller = ignore (get_poller K)" |
  "perform debug K (PollDevice tmo) = ignore (Device_poll K tmo)"

text \<open>The invariants of the argument types, which their constructors keep.\<close>

primrec call_ok :: "Call \<Rightarrow> bool" where
  "call_ok (SetVendorId v) \<longleftrightarrow> pred_option VendorId_valid v" |
  "call_ok (TxMessage m _) \<longleftrightarrow> Message_valid m" |
  "call_ok (TxRxMessage m _ _ _) \<longleftrightarrow> Message_valid m" |
  "call_ok (PressUserControl cmd _) \<longleftrightarrow> Message_valid (Message.UserControlPressed cmd)" |
  "call_ok GetInitiatorMode \<longleftrightarrow> True" | "call_ok (SetInitiatorMode _) \<longleftrightarrow> True" |
  "call_ok GetFollowerMode \<longleftrightarrow> True" | "call_ok (SetFollowerMode _) \<longleftrightarrow> True" |
  "call_ok GetCapabilities \<longleftrightarrow> True" | "call_ok GetDriverName \<longleftrightarrow> True" |
  "call_ok GetAdapterName \<longleftrightarrow> True" | "call_ok GetPhysicalAddress \<longleftrightarrow> True" |
  "call_ok (SetPhysicalAddress _) \<longleftrightarrow> True" | "call_ok GetLogicalAddresses \<longleftrightarrow> True" |
  "call_ok (SetLogicalAddresses _) \<longleftrightarrow> True" | "call_ok (SetLogicalAddress _) \<longleftrightarrow> True" |
  "call_ok ClearLogicalAddresses \<longleftrightarrow> True" | "call_ok GetOsdName \<longleftrightarrow> True" |
  "call_ok (SetOsdName _) \<longleftrightarrow> True" | "call_ok GetVendorId \<longleftrightarrow> True" |
  "call_ok (RxMessage _) \<longleftrightarrow> True" | "call_ok (PollAddress _) \<longleftrightarrow> True" |
  "call_ok (HandleStatus _) \<longleftrightarrow> True" | "call_ok GetConnectorInfo \<longleftrightarrow> True" |
  "call_ok (SetActiveSource _) \<longleftrightarrow> True" | "call_ok (Wake _ _) \<longleftrightarrow> True" |
  "call_ok (Standby _) \<longleftrightarrow> True" | "call_ok (ReleaseUserControl _) \<longleftrightarrow> True" |
  "call_ok GetRawCapabilities \<longleftrightarrow> True" | "call_ok (TxRawMessage m) \<longleftrightarrow> cec_msg_valid m" |
  "call_ok (RxRawMessage _) \<longleftrightarrow> True" | "call_ok (SetBlocking _) \<longleftrightarrow> True" |
  "call_ok GetPoller \<longleftrightarrow> True" | "call_ok (PollDevice _) \<longleftrightarrow> True"

lemma ignore_safe [safe]: "op_safe P m (\<lambda>_. True) \<Longrightarrow> op_safe P (ignore m) (\<lambda>_. True)"
  unfolding ignore_def by (intro safe) simp_all

lemma mode_results_not_Panic [simp]:
  "InitiatorMode_try_from i \<noteq> Panic" "FollowerMode_try_from f \<noteq> Panic"
  by (cases i; simp) (cases f; simp)

lemma mode_methods_safe:
  "op_safe device_ok (get_initiator_mode K) (\<lambda>_. True)"
  "op_safe device_ok (set_initiator_mode K im) (\<lambda>_. True)"
  "op_safe device_ok (get_follower_mode K) (\<lambda>_. True)"
  "op_safe device_ok (set_follower_mode K fm) (\<lambda>_. True)"
  unfolding get_initiator_mode_def set_initiator_mode_def get_follower_mode_def
    set_follower_mode_def Device_get_mode_def Device_set_mode_def
  by (intro safe op_safe_return; simp)+

lemma read_methods_safe:
  "op_safe device_ok (get_capabilities K) (\<lambda>_. True)"
  "op_safe device_ok (get_driver_name K) (\<lambda>_. True)"
  "op_safe device_ok (get_adapter_name K) (\<lambda>_. True)"
  "op_safe device_ok (get_physical_address K) (\<lambda>_. True)"
  "op_safe device_ok (set_physical_address K a) (\<lambda>_. True)"
  "op_safe device_ok (get_connector_info K) (\<lambda>_. True)"
  unfolding get_capabilities_def get_driver_name_def get_adapter_name_def get_raw_capabilities_def
    get_physical_address_def set_physical_address_def get_connector_info_def
  by (intro safe; simp)+

lemma get_osd_name_safe:
  "kernel_sized K \<Longrightarrow> op_safe device_ok (get_osd_name K) (\<lambda>_. True)"
  unfolding get_osd_name_def by (intro safe) auto

lemma op_safe_kernel:
  "(\<And>k. fst (f k) \<noteq> Panic) \<Longrightarrow> op_safe device_ok (op_kernel f) (\<lambda>_. True)"
  by (rule op_safeI) (auto simp: op_kernel_def device_ok_def split: prod.splits dest: arg_cong [where f = fst])

lemma op_safe_finally: "op_safe device_ok m Q \<Longrightarrow> op_safe device_ok (op_finally m f) Q"
proof (rule op_safeI)
  fix s r t
  assume m: "op_safe device_ok m Q" and s: "device_ok s" "op_finally m f s = (r, t)"
  obtain q d k where q: "m s = (q, d, k)" by (metis prod.collapse)
  from op_safeD [OF m s(1) q] s(2) q show "r \<noteq> Panic \<and> device_ok t \<and> (\<forall>x. r = Ok x \<longrightarrow> Q x)"
    by (auto simp: op_finally_def)
qed

lemma poll_status_not_Panic [simp]: "poll_status n revents \<noteq> Panic"
  by (simp add: poll_status_def split: option.split)

lemma DevicePoller_poll_not_Panic [simp]: "fst (DevicePoller_poll K p tmo k) \<noteq> Panic"
  by (simp add: DevicePoller_poll_def split: prod.split option.split)

lemma descriptor_methods_safe:
  shows "op_safe device_ok (set_blocking K blocking) (\<lambda>_. True)"
    and "op_safe device_ok (get_poller K) (\<lambda>_. True)"
    and "kernel_sized K \<Longrightarrow> op_safe device_ok (Device_poll K tmo) (\<lambda>_. True)"
  unfolding set_blocking_def get_poller_def Device_poll_def
  by (intro safe op_safe_finally op_safe_kernel handle_status_safe;
      simp split: prod.split sum.split)+

lemma sending_methods_safe:
  assumes "kernel_sized K"
  shows "op_safe device_ok (set_active_source debug K address) (\<lambda>_. True)"
    and "op_safe device_ok (wake debug K set_active text_view) (\<lambda>_. True)"
    and "op_safe device_ok (standby debug K target) (\<lambda>_. True)"
    and "op_safe device_ok (release_user_control debug K target) (\<lambda>_. True)"
    and "Message_valid (Message.UserControlPressed cmd) \<Longrightarrow>
      op_safe device_ok (press_user_control debug K cmd target) (\<lambda>_. True)"
proof -
  show "op_safe device_ok (set_active_source debug K address) (\<lambda>_. True)"
    using assms unfolding set_active_source_def
    by (cases address) (auto intro!: safe read_methods_safe)
  show "op_safe device_ok (wake debug K set_active text_view) (\<lambda>_. True)"
    using assms unfolding wake_def by (intro safe read_methods_safe) auto
qed (use assms in \<open>unfold standby_def release_user_control_def press_user_control_def, (intro safe; simp)+\<close>)

lemma perform_safe:
  assumes "kernel_sized K" "call_ok c"
  shows "op_safe device_ok (perform debug K c) (\<lambda>_. True)"
  using assms(2)
  by (cases c) (auto simp: set_logical_address_def get_raw_capabilities_def tx_raw_message_def rx_raw_message_def
      intro!: assms(1) safe mode_methods_safe
      read_methods_safe get_logical_addresses_safe set_logical_addresses_safe
      clear_logical_addresses_safe get_osd_name_safe set_osd_name_safe get_vendor_id_safe
      set_vendor_id_safe tx_rx_message_safe rx_message_safe poll_address_safe handle_status_safe
      sending_methods_safe descriptor_methods_safe)

primrec run_calls ::
  "(u8 \<Rightarrow> string) \<Rightarrow> 'k kernel \<Rightarrow> Call list \<Rightarrow> Device \<times> 'k \<Rightarrow> unit result list \<times> Device \<times> 'k" where
  "run_calls debug K [] s = ([], s)" |
  "run_calls debug K (c # cs) s =
     (case perform debug K c s of (r, t) \<Rightarrow>
      case run_calls debug K cs t of (rs, u) \<Rightarrow> (r # rs, u))"

lemma run_calls_safe:
  assumes "kernel_sized K" "list_all call_ok cs" "device_ok s"
  shows "Panic \<notin> set (fst (run_calls debug K cs s)) \<and> device_ok (snd (run_calls debug K cs s))"
  using assms(2,3)
proof (induction cs arbitrary: s)
  case Nil
  then show ?case by simp
next
  case (Cons c cs)
  obtain r t where c: "perform debug K c s = (r, t)" by (cases "perform debug K c s")
  note safe = op_safeD [OF perform_safe [OF assms(1)] Cons.prems(2) c]
  have "r \<noteq> Panic" "device_ok t"
    using safe(1,2) Cons.prems(1) by simp_all
  with Cons.IH [of t] Cons.prems(1) show ?case
    by (auto simp: c split: prod.split)
qed

section \<open>The address a device transmits from\<close>

definition on_tx :: "(LogicalAddress \<Rightarrow> bool) \<Rightarrow> Device \<times> 'k \<Rightarrow> bool" where
  "on_tx P s \<longleftrightarrow> P (tx_logical_address (fst s))"

lemma on_tx_pair [simp]: "on_tx P (d, k) \<longleftrightarrow> P (tx_logical_address d)"
  by (simp add: on_tx_def)

named_theorems keeps

lemma op_keeps_device [keeps]: "(\<And>d. op_keeps P (g d)) \<Longrightarrow> op_keeps P (op_device g)"
  by (auto simp: op_keeps_def op_device_def)

lemma op_keeps_if [keeps]:
  "(b \<Longrightarrow> op_keeps P m) \<Longrightarrow> (\<not> b \<Longrightarrow> op_keeps P n) \<Longrightarrow> op_keeps P (if b then m else n)"
  by simp

lemma op_keepsD: "op_keeps P m \<Longrightarrow> P s \<Longrightarrow> m s = (r, t) \<Longrightarrow> P t"
  unfolding op_keeps_def by (metis snd_conv)

lemmas [keeps] = op_keeps_bind op_keeps_return

lemma on_tx_syscall_log_addrs [keeps]: "op_keeps (on_tx P) (syscall_log_addrs f)"
  by (auto simp: op_keeps_def syscall_log_addrs_def split: prod.split)

lemma on_tx_set_log_addrs [keeps]: "op_keeps (on_tx P) (op_modify (set_log_addrs f))"
  by (auto simp: op_keeps_def op_modify_def set_log_addrs_def)

lemma on_tx_op_result [keeps]:
  fixes P :: "LogicalAddress \<Rightarrow> bool"
  defines "Q \<equiv> on_tx P :: Device \<times> 'k \<Rightarrow> bool"
  assumes "\<And>x. op_keeps Q (op_modify (f x))"
  shows "op_keeps Q (op_result r f)"
  unfolding op_result_def by (intro keeps assms(2))

lemma on_tx_set_internal [keeps]:
  "op_keeps (on_tx P) (op_modify (\<lambda>d. d\<lparr>internal_log_addrs := la\<rparr>))"
  by (auto simp: op_keeps_def op_modify_def)

lemma on_tx_clear:
  "P LogicalAddress_Unregistered \<Longrightarrow> op_keeps (on_tx P) (clear_logical_addresses K)"
  unfolding clear_logical_addresses_def
  by (auto simp: op_keeps_def op_bind_def op_modify_def set_log_addrs_def syscall_log_addrs_def
      split: prod.split result.split)

text \<open>\<open>clear_logical_addresses\<close> resets the address whatever the kernel answers.\<close>

lemma clear_resets_tx:
  "tx_logical_address (fst (snd (clear_logical_addresses K s))) = LogicalAddress_Unregistered"
  by (cases s) (auto simp: clear_logical_addresses_def op_bind_def op_modify_def set_log_addrs_def
      syscall_log_addrs_def split: prod.split result.split)

text \<open>\<open>set_logical_addresses\<close> is its first five steps, then the address.\<close>

definition configure :: "'k kernel \<Rightarrow> LogicalAddressType list \<Rightarrow> ('k, unit) device_op" where
  "configure K addrs =
     op_bind (op_return (check (AtMost CEC_MAX_LOG_ADDRS) (length addrs) ''logical addresses'')) (\<lambda>_.
     op_bind (op_device (\<lambda>d. op_result (store_types (internal_log_addrs d) 0 addrs)
       (\<lambda>la d. d\<lparr>internal_log_addrs := la\<rparr>))) (\<lambda>_.
     op_bind (op_device (\<lambda>d.
       if addrs \<noteq> [] \<and> num_log_addrs (internal_log_addrs d) > 0
       then clear_logical_addresses K else op_return (Ok ()))) (\<lambda>_.
     op_bind (op_result (if length addrs \<le> 255 then Ok (word_of_nat (length addrs)) else Panic)
       (\<lambda>n. set_log_addrs (\<lambda>la. la\<lparr>num_log_addrs := n\<rparr>))) (\<lambda>_.
     syscall_log_addrs (adapter_set_logical_addresses K)))))"

lemma set_logical_addresses_configure:
  "set_logical_addresses K addrs =
     op_bind (configure K addrs) (\<lambda>_.
     if addrs \<noteq> []
     then op_modify (\<lambda>d. d\<lparr>tx_logical_address := claimed_address (internal_log_addrs d)\<rparr>)
     else op_return (Ok ()))"
  by (simp add: set_logical_addresses_def configure_def op_bind_assoc)

lemma configure_on_tx:
  assumes "P LogicalAddress_Unregistered"
  shows "op_keeps (on_tx P) (configure K addrs)"
  unfolding configure_def by (intro keeps on_tx_clear assms)

lemma configure_empty_on_tx: "op_keeps (on_tx P) (configure K [])"
  unfolding configure_def by (intro keeps) simp_all

lemma set_logical_addresses_Ok_tx:
  assumes "set_logical_addresses K addrs s = (Ok u, d', k')" "addrs \<noteq> []"
  shows "tx_logical_address d' = claimed_address (internal_log_addrs d')"
proof -
  let ?claim = "op_modify (\<lambda>d. d\<lparr>tx_logical_address := claimed_address (internal_log_addrs d)\<rparr>)"
  have "op_bind (configure K addrs) (\<lambda>_. ?claim) s = (Ok u, d', k')"
    using assms by (simp only: set_logical_addresses_configure simp_thms if_True)
  then obtain t where "?claim t = (Ok u, d', k')"
    unfolding op_bind_eq_Ok by blast
  then show ?thesis
    by (cases t) (auto simp: op_modify_def)
qed

lemma set_logical_addresses_Err_tx:
  assumes "set_logical_addresses K addrs (d, k) = (Err e, d', k')"
  shows "tx_logical_address d' \<in> {tx_logical_address d, LogicalAddress_Unregistered}"
proof -
  let ?P = "\<lambda>a. a = tx_logical_address d \<or> a = LogicalAddress_Unregistered"
  obtain r d1 k1 where c: "configure K addrs (d, k) = (r, d1, k1)"
    by (cases "configure K addrs (d, k)") auto
  have "on_tx ?P (d1, k1)"
    by (rule op_keepsD [OF configure_on_tx _ c]) simp_all
  moreover have "d' = d1"
    using assms c by (cases r) (auto simp: set_logical_addresses_configure split: if_splits)
  ultimately show ?thesis by auto
qed

lemma set_no_logical_addresses_tx:
  "tx_logical_address (fst (snd (set_logical_addresses K [] (d, k)))) = tx_logical_address d"
proof -
  obtain r d1 k1 where c: "configure K [] (d, k) = (r, d1, k1)"
    by (cases "configure K [] (d, k)") auto
  have "on_tx (\<lambda>a. a = tx_logical_address d) (d1, k1)"
    by (rule op_keepsD [OF configure_empty_on_tx _ c]) simp
  then show ?thesis
    using c by (cases r) (simp_all add: set_logical_addresses_configure)
qed

text \<open>A change of state makes the device use the first address the kernel reports.\<close>

lemma refresh_state_tx:
  assumes "refresh_state K s = (Ok u, d', k')"
  shows "tx_logical_address d' =
    (if num_log_addrs (internal_log_addrs d') > 0 then claimed_address (internal_log_addrs d')
     else LogicalAddress_Unregistered)"
  using assms by (auto simp: refresh_state_def op_bind_eq_Ok op_modify_def split: prod.splits)

section \<open>Modes\<close>

text \<open>A kernel that keeps the mode word it is given, as the interface promises.\<close>

definition keeps_mode :: "'k kernel \<Rightarrow> bool" where
  "keeps_mode K \<longleftrightarrow>
     (\<forall>k k' w u. set_mode K w k = (None, k') \<longrightarrow> (\<exists>k''. get_mode K u k' = (None, w, k'')))"

lemma set_initiator_mode_get:
  assumes "keeps_mode K" "set_initiator_mode K i (d, k) = (Ok u, s)"
  shows "fst (get_initiator_mode K s) = Ok i"
    and "\<exists>w. fst (snd (get_mode K 0 k)) = w \<and> fst (get_follower_mode K s) =
      FollowerMode_try_from (CecMessageHandlingMode_follower (CecMessageHandlingMode w))"
proof -
  obtain w k1 where w: "get_mode K 0 k = (None, w, k1)"
    using assms(2) by (auto simp: set_initiator_mode_def Device_get_mode_def op_bind_eq_Ok
        syscall_def op_return_def split: prod.splits)
  let ?m = "CecMessageHandlingMode_with_initiator (CecMessageHandlingMode w) (CecInitiatorModes_from i)"
  obtain k2 where k2: "set_mode K (handling_bits ?m) k1 = (None, k2)" "s = (d, k2)"
    using assms(2) by (auto simp: set_initiator_mode_def Device_get_mode_def Device_set_mode_def
        op_bind_eq_Ok syscall_def syscall_write_def op_return_def w split: prod.splits)
  obtain k3 where k3: "get_mode K 0 k2 = (None, handling_bits ?m, k3)"
    using assms(1) k2(1) unfolding keeps_mode_def by blast
  show "fst (get_initiator_mode K s) = Ok i"
    by (simp add: get_initiator_mode_def Device_get_mode_def op_bind_def op_return_def syscall_def
        k2(2) k3)
  have "fst (get_follower_mode K s) =
      FollowerMode_try_from (CecMessageHandlingMode_follower (CecMessageHandlingMode w))"
    by (simp add: get_follower_mode_def Device_get_mode_def op_bind_def op_return_def syscall_def
        k2(2) k3)
  then show "\<exists>w. fst (snd (get_mode K 0 k)) = w \<and> fst (get_follower_mode K s) =
      FollowerMode_try_from (CecMessageHandlingMode_follower (CecMessageHandlingMode w))"
    by (simp add: w)
qed

lemma set_follower_mode_get:
  assumes "keeps_mode K" "set_follower_mode K f (d, k) = (Ok u, s)"
  shows "fst (get_follower_mode K s) = Ok f"
    and "fst (get_initiator_mode K s) = InitiatorMode_try_from
      (CecMessageHandlingMode_initiator (CecMessageHandlingMode (fst (snd (get_mode K 0 k)))))"
proof -
  obtain w k1 where w: "get_mode K 0 k = (None, w, k1)"
    using assms(2) by (auto simp: set_follower_mode_def Device_get_mode_def op_bind_eq_Ok
        syscall_def op_return_def split: prod.splits)
  let ?m = "CecMessageHandlingMode_with_follower (CecMessageHandlingMode w) (CecFollowerModes_from f)"
  obtain k2 where k2: "set_mode K (handling_bits ?m) k1 = (None, k2)" "s = (d, k2)"
    using assms(2) by (auto simp: set_follower_mode_def Device_get_mode_def Device_set_mode_def
        op_bind_eq_Ok syscall_def syscall_write_def op_return_def w split: prod.splits)
  obtain k3 where k3: "get_mode K 0 k2 = (None, handling_bits ?m, k3)"
    using assms(1) k2(1) unfolding keeps_mode_def by blast
  show "fst (get_follower_mode K s) = Ok f"
    by (simp add: get_follower_mode_def Device_get_mode_def op_bind_def op_return_def syscall_def
        k2(2) k3)
  show "fst (get_initiator_mode K s) = InitiatorMode_try_from
      (CecMessageHandlingMode_initiator (CecMessageHandlingMode (fst (snd (get_mode K 0 k)))))"
    by (simp add: get_initiator_mode_def Device_get_mode_def op_bind_def op_return_def syscall_def
        k2(2) k3 w)
qed

section \<open>Transmission\<close>

text \<open>
  A kernel that transmits every message: the call succeeds, the message comes back as it was
  sent, with a status that reports success and no receive error.
\<close>

definition delivered :: "cec_msg \<Rightarrow> cec_msg \<Rightarrow> bool" where
  "delivered m m' \<longleftrightarrow>
     msg m' = msg m \<and> msg_len m' = msg_len m \<and> contains (tx_status m') CEC_TX_STATUS_OK \<and>
     received_clean m'"

definition delivers :: "'k kernel \<Rightarrow> bool" where
  "delivers K \<longleftrightarrow>
     (\<forall>m k. cec_msg_valid m \<longrightarrow>
        fst (transmit_message K m k) = None \<and> delivered m (fst (snd (transmit_message K m k))))"

lemma tx_rx_message_frame:
  assumes "frame (tx_logical_address d) dest m rep tmo = Ok f"
    and "transmit_message K f k = (None, g, k')" "contains (tx_status g) CEC_TX_STATUS_OK"
  shows "tx_rx_message debug K m dest rep tmo (d, k) = (Envelope_try_from g, d, k')"
  using assms
  by (simp add: tx_rx_message_def tx_raw_message_def op_bind_def op_return_def syscall_def)

lemma tx_rx_message_delivered:
  assumes "delivers K" "Message_valid m" "Message_len m \<le> 14"
  obtains ts sq where "fst (tx_rx_message debug K m dest rep tmo (d, k)) =
    Ok \<lparr>message = Valid m, env_initiator = tx_logical_address d, env_destination = dest,
        timestamp = ts, env_sequence = sq\<rparr>"
proof -
  obtain f where f: "frame (tx_logical_address d) dest m rep tmo = Ok f" "cec_msg_valid f"
    using frame_Ok [OF assms(2)] .
  obtain e g k' where g: "transmit_message K f k = (e, g, k')"
    by (metis prod.collapse)
  then have "e = None" "delivered f g"
    using assms(1) f(2) unfolding delivers_def by (metis fst_conv snd_conv)+
  with g have "tx_rx_message debug K m dest rep tmo (d, k) = (Envelope_try_from g, d, k')"
    by (intro tx_rx_message_frame [OF f(1)]) (simp_all add: delivered_def)
  then show thesis
    using that frame_round_trip [OF assms(2,3) f(1), of g] \<open>delivered f g\<close>
    by (simp add: delivered_def)
qed

text \<open>The frame of a longer message has 16 bytes.\<close>

lemma frame_len:
  assumes "Message_valid m" "frame src dest m rep tmo = Ok f"
  shows "msg_len f = word_of_nat (min (Message_len m) 15 + 1)"
proof -
  from Message.enc_cases [OF assms(1)] obtain b where
    "Message_to_bytes m = Some b" "length b = Message_len m" by metis
  with assms(2) show ?thesis
    by (auto simp: frame_def frame_bytes_def Let_def copy_from_slice_def split: if_splits)
qed

lemma tx_rx_message_full_frame:
  assumes "delivers K" "Message_valid m" "Message_len m \<ge> 15"
  shows "fst (tx_rx_message debug K m dest rep tmo (d, k)) = Err InvalidData"
proof -
  obtain f where f: "frame (tx_logical_address d) dest m rep tmo = Ok f" "cec_msg_valid f"
    using frame_Ok [OF assms(2)] .
  obtain e g k' where g: "transmit_message K f k = (e, g, k')"
    by (metis prod.collapse)
  then have "e = None" "delivered f g"
    using assms(1) f(2) unfolding delivers_def by (metis fst_conv snd_conv)+
  with g have "tx_rx_message debug K m dest rep tmo (d, k) = (Envelope_try_from g, d, k')"
    by (intro tx_rx_message_frame [OF f(1)]) (simp_all add: delivered_def)
  moreover have "msg_len g = 16" "received_clean g"
    using \<open>delivered f g\<close> frame_len [OF assms(2) f(1)] assms(3)
    by (simp_all add: delivered_def min_def split: if_splits)
  ultimately show ?thesis
    by (simp add: full_frame_rejected)
qed

text \<open>Setting a name of the full 14 bytes transmits it, and reports an error.\<close>

lemma SetOsdName_len:
  "buffer_from_str 14 name = Ok b \<Longrightarrow> Message_len (Message.SetOsdName b) = 1 + length name"
  by (auto simp: buffer_from_str_def buffer_len_def)

lemma set_osd_name_full:
  assumes "delivers K" "length name = 14" "tx_logical_address d \<noteq> LogicalAddress_Unregistered"
    and "length (osd_name (internal_log_addrs d)) = 15"
  shows "fst (set_osd_name debug K name (d, k)) = Err InvalidData"
proof -
  obtain b where b: "buffer_from_str 14 name = Ok b"
    using assms(2) by (simp add: buffer_from_str_def check_Ok)
  note bf = buffer_from_str_14 [OF b]
  let ?field = "buffer b @ drop 14 (osd_name (internal_log_addrs d))"
  let ?d = "set_log_addrs (osd_name_update (\<lambda>_. ?field)) d"
  have tx: "tx_logical_address ?d = tx_logical_address d"
    by (simp add: set_log_addrs_def)
  have "fst (tx_rx_message debug K (Message.SetOsdName b) LogicalAddress.Tv Opcode.FeatureAbort
      Timeout_NONE (?d, k)) = Err InvalidData"
    using bf(2) assms(2) SetOsdName_len [OF b]
    by (intro tx_rx_message_full_frame [OF assms(1)]) simp_all
  then obtain t where "tx_rx_message debug K (Message.SetOsdName b) LogicalAddress.Tv
      Opcode.FeatureAbort Timeout_NONE (?d, k) = (Err InvalidData, t)"
    by (metis prod.collapse)
  then have t: "tx_message debug K (Message.SetOsdName b) LogicalAddress.Tv (?d, k) =
      (Err InvalidData, t)"
    by (simp add: tx_message_def)
  have "copy_from_slice (osd_name (internal_log_addrs d)) 0 14 (buffer b) = Ok ?field"
    using bf(1) assms(4) by (simp add: copy_from_slice_def)
  then have "op_device (\<lambda>d. op_result (copy_from_slice (osd_name (internal_log_addrs d)) 0 14 (buffer b))
      (\<lambda>field. set_log_addrs (\<lambda>la. la\<lparr>osd_name := field\<rparr>))) (d, k) = (Ok (), ?d, k)"
    by (simp add: op_result_def)
  with t show ?thesis
    using assms(3) tx by (simp add: set_osd_name_def b)
qed

end
