(* ===== verification/DeviceProperties.thy ===== *)
theory DeviceProperties
  imports DeviceFacts
begin

text \<open>
  The properties of addresses, frames and devices, from the facts of theories \<open>AddressText\<close>,
  \<open>CecStructs\<close>, \<open>Envelope\<close> and \<open>DeviceFacts\<close>. The witnesses run on \<open>echo_kernel\<close>, a kernel that
  transmits everything, claims the address of the first playback device, and keeps the mode word.
\<close>

section \<open>A concrete kernel\<close>

definition claim :: "cec_log_addrs \<Rightarrow> cec_log_addrs" where
  "claim la = la\<lparr>log_addr := (log_addr la)[0 := 4]\<rparr>"

definition echo_kernel :: "u32 kernel" where
  "echo_kernel =
     \<lparr>adapter_get_capabilities = \<lambda>x k. (None, x, k),
      adapter_get_physical_address = \<lambda>x k. (None, 0x1000, k),
      adapter_set_physical_address = \<lambda>x k. (None, k),
      adapter_get_logical_addresses = \<lambda>la k. (None, claim la, k),
      adapter_set_logical_addresses = \<lambda>la k. (None, claim la, k),
      transmit_message = \<lambda>m k. (None, m\<lparr>tx_status := 1, rx_status := 0\<rparr>, k),
      receive_message = \<lambda>m k. (None, m, k),
      dequeue_event = \<lambda>e k. (None, e, k),
      get_mode = \<lambda>w k. (None, k, k),
      set_mode = \<lambda>w k. (None, w),
      adapter_get_connector_info = \<lambda>x k. (None, x, k),
      open_file = \<lambda>path k. (None, k), clone_fd = \<lambda>k. (Inr 4, k), close_fd = \<lambda>n k. k,
      fcntl_getfl = \<lambda>k. (None, 2, k), fcntl_setfl = \<lambda>flags k. (None, k),
      poll_file = \<lambda>n events tmo k. (None, 1, Some POLLIN, k)\<rparr>"

definition sample_device :: Device where
  "sample_device = \<lparr>tx_logical_address = LogicalAddress.PlaybackDevice1,
     internal_log_addrs = cec_log_addrs_default\<rparr>"

lemma echo_kernel_sized: "kernel_sized echo_kernel"
  by (simp add: kernel_sized_def echo_kernel_def log_addrs_ok_def cec_log_addrs_valid_def claim_def
      cec_msg_valid_def)

lemma echo_keeps_mode: "keeps_mode echo_kernel"
  by (simp add: keeps_mode_def echo_kernel_def)

lemma echo_delivers: "delivers echo_kernel"
  by (simp add: delivers_def delivered_def echo_kernel_def received_clean_def contains_def
      tx_status_consts rx_status_consts)

lemma echo_set_follower_mode:
  "\<exists>s. set_follower_mode echo_kernel FollowerMode.Monitor (sample_device, 0x11) = (Ok (), s)"
  by (simp add: set_follower_mode_def Device_get_mode_def Device_set_mode_def op_bind_def
      syscall_def syscall_write_def echo_kernel_def)

section \<open>Text and numbers\<close>

text \<open>A physical address is written as four dotted digits, and is read back from them.\<close>

theorem physical_address_text_round_trip:
  "PhysicalAddress_from_str (PhysicalAddress_fmt a) = Ok a \<and> length (PhysicalAddress_fmt a) = 7"
  using PhysicalAddress_from_fmt [of a] by (cases a) simp

text \<open>
  The parsers accept a sign in place of a digit, as \<open>from_str_radix\<close> does: not every text that
  is read has the form that is written.
\<close>

lemma physical_address_accepts_sign:
  "PhysicalAddress_from_str ''+123'' = Ok (PhysicalAddress.PhysicalAddress 0x0123)"
  by (simp add: PhysicalAddress_from_str_def PhysicalAddress_from_plain_def u16_from_hex_def
      from_str_radix_16_def to_digit_def)

text \<open>
  A vendor identifier survives the conversion to text and the conversion to the number that
  the kernel uses, which is never the number for no vendor.
\<close>

theorem vendor_id_round_trips:
  assumes "VendorId_valid v"
  shows "VendorId_from_str (VendorId_fmt v) = Ok v \<and>
    (\<exists>x. VendorId_into_sys v = Ok x \<and> \<not> SysVendorId_is_none x \<and> VendorId_try_from_sys x = Ok (Some v))"
proof -
  obtain x where x: "VendorId_into_sys v = Ok x" "VendorId_try_from_sys x = Ok (Some v)"
    using VendorId_sys_round_trip [OF assms] .
  moreover from this have "\<not> SysVendorId_is_none x"
    by (auto simp: VendorId_try_from_sys_def)
  ultimately show ?thesis
    using VendorId_from_fmt [OF assms] by blast
qed

theorem vendor_id_round_trips_witness:
  "VendorId_from_str (VendorId_fmt (VendorId [0x00, 0xE0, 0x91])) = Ok (VendorId [0x00, 0xE0, 0x91])"
proof -
  have "VendorId_valid (VendorId [0x00, 0xE0, 0x91])"
    by (simp add: VendorId_valid_def)
  from vendor_id_round_trips [OF this] show ?thesis by blast
qed

text \<open>
  A timeout is a number of milliseconds of 32 bits: it converts to a duration and back, and a
  duration converts exactly if it has fewer than \<open>2 ^ 32\<close> milliseconds, whatever its
  nanoseconds; otherwise the error names the bound.
\<close>

theorem timeout_conversion:
  "Timeout_try_from (Timeout_into_duration t) = Ok t \<and>
   (case Timeout_try_from d of
      Ok u \<Rightarrow> as_millis d < 2 ^ 32 \<and> unat (as_ms u) = as_millis d
    | Err e \<Rightarrow> as_millis d \<ge> 2 ^ 32 \<and>
        (\<exists>n. e = OutOfRange (AtMost 0xFFFFFFFF) n ''milliseconds'')
    | Panic \<Rightarrow> False)"
  using Timeout_round_trip [of t]
  by (auto simp: Timeout_try_from_def Let_def unsigned_of_nat take_bit_nat_eq_self)

text \<open>
  Every nibble is a logical address, and the three tables of its device types agree: the
  tables of the addresses are those of their types.
\<close>

theorem logical_address_tables:
  "(case LogicalAddress_try_from b of
      Ok a \<Rightarrow> b < 16 \<and> LogicalAddress_into a = b
    | Err _ \<Rightarrow> b \<ge> 16
    | Panic \<Rightarrow> False) \<and>
   LogicalAddress_primary_device_type a =
     Option.bind (LogicalAddress_ty a) LogicalAddressType_primary_device_type \<and>
   LogicalAddress_all_device_types a =
     (case LogicalAddress_ty a of
        None \<Rightarrow> AllDeviceTypes 0
      | Some t \<Rightarrow> LogicalAddressType_all_device_types t)"
proof (intro conjI)
  show "case LogicalAddress_try_from b of
      Ok a \<Rightarrow> b < 16 \<and> LogicalAddress_into a = b | Err _ \<Rightarrow> b \<ge> 16 | Panic \<Rightarrow> False"
  proof (cases "b < 16")
    case True
    then obtain a where "LogicalAddress_try_from b = Ok a" "LogicalAddress_into a = b"
      by (rule LogicalAddress_of_nibble)
    with True show ?thesis by simp
  next
    case False
    then have "b \<notin> range LogicalAddress_into"
      using LogicalAddress_into_less by blast
    then have "LogicalAddress_try_from b = Err (InvalidValueForType ''LogicalAddress'' (show_u8 b))"
      by (simp add: LogicalAddress.from_eq_Err)
    with False show ?thesis by simp
  qed
  show "LogicalAddress_primary_device_type a =
      Option.bind (LogicalAddress_ty a) LogicalAddressType_primary_device_type"
    by (cases a) simp_all
  show "LogicalAddress_all_device_types a =
      (case LogicalAddress_ty a of
         None \<Rightarrow> AllDeviceTypes 0 | Some t \<Rightarrow> LogicalAddressType_all_device_types t)"
    by (cases a) simp_all
qed

section \<open>Frames\<close>

text \<open>
  C19. Whatever the kernel hands over becomes an envelope or an error, never a panic, and an
  envelope comes only from a message without an error status, of 2 to 15 bytes, between the
  addresses of its header. The raw bytes are kept when they do not decode.
\<close>

theorem envelope_of_received_message:
  assumes "cec_msg_valid m"
  shows "Envelope_try_from m \<noteq> Panic \<and>
    (\<forall>env. Envelope_try_from m = Ok env \<longrightarrow>
       received_clean m \<and> 2 \<le> msg_len m \<and> msg_len m \<le> 15 \<and>
       LogicalAddress_into (env_initiator env) = initiator m \<and>
       LogicalAddress_into (env_destination env) = destination m \<and>
       (case message env of
          Valid x \<Rightarrow> Message_try_from_bytes (take (unat (msg_len m) - 1) (drop 1 (msg m))) = Ok x
        | MessageData.Invalid bytes \<Rightarrow> bytes = take (unat (msg_len m) - 1) (drop 1 (msg m))))"
proof (intro conjI allI impI)
  show "Envelope_try_from m \<noteq> Panic"
    using assms by (rule Envelope_not_Panic)
next
  fix env
  assume env: "Envelope_try_from m = Ok env"
  then show "received_clean m" "2 \<le> msg_len m" "msg_len m \<le> 15"
    by (auto simp: Envelope_try_from_def received_clean_def split: if_splits)
  let ?bytes = "take (unat (msg_len m) - 1) (drop 1 (msg m))"
  have len: "length (msg m) = 16" "unat (msg_len m) \<le> 15" "2 \<le> unat (msg_len m)"
    using assms msg_len_bounds [OF \<open>2 \<le> msg_len m\<close> \<open>msg_len m \<le> 15\<close>]
    by (simp_all add: cec_msg_valid_def CEC_MAX_MSG_SIZE_def)
  then have slice: "slice (msg m) 1 (unat (msg_len m)) = Ok ?bytes"
    by (intro slice_Ok) simp_all
  obtain i d where a: "LogicalAddress_try_from (initiator m) = Ok i"
      "LogicalAddress_into i = initiator m" "LogicalAddress_try_from (destination m) = Ok d"
      "LogicalAddress_into d = destination m"
    by (rule Envelope_header)
  from env slice a obtain data where data: "received_data m ?bytes = Ok data"
      "env = \<lparr>message = data, env_initiator = i, env_destination = d, timestamp = rx_ts m,
        env_sequence = sequence m\<rparr>"
    by (auto simp: Envelope_try_from_def split: if_splits)
  with a show "LogicalAddress_into (env_initiator env) = initiator m"
    "LogicalAddress_into (env_destination env) = destination m" by simp_all
  have raw: "take (length ?bytes) (take 14 (drop 1 (msg m))) = ?bytes"
    using len by (simp add: min_def)
  show "case message env of
      Valid x \<Rightarrow> Message_try_from_bytes ?bytes = Ok x
    | MessageData.Invalid bytes \<Rightarrow> bytes = ?bytes"
    using data raw len
    by (auto simp: received_data_def array_vec_def split: result.splits if_splits)
qed

theorem envelope_of_received_message_witness:
  "Envelope_try_from (cec_msg_new 4 0) \<noteq> Panic"
  using envelope_of_received_message [OF cec_msg_new_valid] by blast

text \<open>
  C18. A message whose encoding has at most 14 bytes survives its trip: the envelope that a
  receiver makes of its frame holds the message and both addresses.
\<close>

theorem frame_trip:
  assumes "Message_valid m" "Message_len m \<le> 14"
    and "\<And>f. frame src dest m rep tmo = Ok f \<Longrightarrow>
      msg g = msg f \<and> msg_len g = msg_len f" "received_clean g"
  shows "Envelope_try_from g = Ok \<lparr>message = Valid m, env_initiator = src, env_destination = dest,
           timestamp = rx_ts g, env_sequence = sequence g\<rparr>"
proof -
  obtain f where f: "frame src dest m rep tmo = Ok f"
    using frame_Ok [OF assms(1)] by blast
  then have "msg g = msg f" "msg_len g = msg_len f"
    using assms(3) by simp_all
  then show ?thesis
    by (rule frame_round_trip [OF assms(1,2) f _ _ assms(4)])
qed

theorem frame_trip_witness:
  "\<exists>g. Envelope_try_from g = Ok \<lparr>message = Valid (Message.ReportPowerStatus PowerStatus.On),
     env_initiator = LogicalAddress.PlaybackDevice1, env_destination = LogicalAddress.Tv,
     timestamp = 0, env_sequence = 0\<rparr>"
proof -
  let ?m = "Message.ReportPowerStatus PowerStatus.On"
  have m: "Message_valid ?m" "Message_len ?m \<le> 14" "Message_len ?m \<le> 15" by simp_all
  obtain f where f: "frame LogicalAddress.PlaybackDevice1 LogicalAddress.Tv ?m Opcode.FeatureAbort
      Timeout_NONE = Ok f" "rx_status f = 0" "rx_ts f = 0" "sequence f = 0"
    using frame_valid [OF m(1,3)] by metis
  then have "received_clean f"
    by (simp add: received_clean_def contains_def rx_status_consts)
  from frame_trip [OF m(1,2) _ this, of LogicalAddress.PlaybackDevice1 LogicalAddress.Tv
      Opcode.FeatureAbort Timeout_NONE] f show ?thesis by auto
qed

text \<open>A reply goes back: its addresses are those of the original message, exchanged.\<close>

theorem reply_goes_back:
  assumes "cec_msg_valid m"
  shows "initiator (set_reply_to m orig) = destination orig \<and>
    destination (set_reply_to m orig) = initiator orig \<and>
    tl (msg (set_reply_to m orig)) = tl (msg m) \<and> cec_msg_valid (set_reply_to m orig)"
proof -
  have "tl (msg (set_reply_to m orig)) = tl (msg m) \<and> cec_msg_valid (set_reply_to m orig)"
    using assms by (cases "msg m") (simp_all add: set_reply_to_def cec_msg_valid_def)
  then show ?thesis
    using set_reply_to_swaps [OF assms] by simp
qed

theorem reply_goes_back_witness:
  "destination (set_reply_to (cec_msg_new 0 0) (cec_msg_new 4 15)) = 4"
  using reply_goes_back [OF cec_msg_new_valid, of 0 0 "cec_msg_new 4 15"]
  by (simp add: cec_msg_new_header)

section \<open>Devices\<close>

text \<open>
  C4. No sequence of calls of the public methods makes the library panic, whatever the kernel
  answers within the sizes of its structures; the stored addresses stay well formed, and a failed
  call leaves a device that the next one can use.
\<close>

theorem device_calls_never_panic:
  assumes "kernel_sized K" "list_all call_ok cs" "device_ok s"
  shows "Panic \<notin> set (fst (run_calls debug K cs s)) \<and> device_ok (snd (run_calls debug K cs s)) \<and>
    length (fst (run_calls debug K cs s)) = length cs"
proof -
  have "length (fst (run_calls debug K cs s)) = length cs" for s
    by (induction cs arbitrary: s) (simp_all split: prod.split, metis fst_conv)
  with run_calls_safe [OF assms] show ?thesis by blast
qed

theorem device_calls_never_panic_witness:
  "Panic \<notin> set (fst (run_calls (\<lambda>_. '''') echo_kernel
     [SetLogicalAddresses [LogicalAddressType.Playback, LogicalAddressType.Tuner],
      SetOsdName (replicate 14 65), GetLogicalAddresses, HandleStatus GotAll, Wake True False,
      SetLogicalAddresses (replicate 9 LogicalAddressType.Tv)] (sample_device, 0)))"
proof -
  have "device_ok (sample_device, 0 :: u32)"
    by (simp add: sample_device_def log_addrs_default_ok)
  then show ?thesis
    by (intro conjunct1 [OF device_calls_never_panic [OF echo_kernel_sized]]) simp_all
qed

text \<open>
  C8. After its logical addresses have been set, a device transmits from the first address that
  the kernel claimed; if setting them fails, it keeps the address it had or has none.
\<close>

theorem set_logical_addresses_transmit_address:
  assumes "set_logical_addresses K addrs (d, k) = (r, d', k')" "addrs \<noteq> []"
  shows "(r = Ok () \<longrightarrow> tx_logical_address d' = claimed_address (internal_log_addrs d')) \<and>
    (\<forall>e. r = Err e \<longrightarrow>
       tx_logical_address d' = tx_logical_address d \<or>
       tx_logical_address d' = LogicalAddress_Unregistered)"
  using assms set_logical_addresses_Ok_tx [of K addrs "(d, k)" "()" d' k']
    set_logical_addresses_Err_tx [of K addrs d k _ d' k'] by blast

theorem set_logical_addresses_transmit_address_witness:
  "\<exists>r d' k'. set_logical_addresses echo_kernel [LogicalAddressType.Playback] (sample_device, 0) =
     (r, d', k') \<and> (r = Ok () \<longrightarrow> tx_logical_address d' = claimed_address (internal_log_addrs d'))"
proof -
  obtain r d' k' where c: "set_logical_addresses echo_kernel [LogicalAddressType.Playback]
      (sample_device, 0) = (r, d', k')"
    by (metis prod.collapse)
  from set_logical_addresses_transmit_address [OF this] c show ?thesis by blast
qed

text \<open>
  C20. Clearing the addresses leaves the device without an address, but setting the empty list of
  addresses, which releases them in the kernel, leaves it with the address it used before; more
  addresses than an adapter has are an error that changes nothing.
\<close>

theorem no_logical_addresses:
  assumes "length addrs > 4"
  shows
  "tx_logical_address (fst (snd (clear_logical_addresses K (d, k)))) = LogicalAddress_Unregistered \<and>
   tx_logical_address (fst (snd (set_logical_addresses K [] (d, k)))) = tx_logical_address d \<and>
   set_logical_addresses K addrs (d, k) =
     (Err (OutOfRange (AtMost 4) (length addrs) ''logical addresses''), d, k)"
proof -
  have "set_logical_addresses K addrs (d, k) =
      (Err (OutOfRange (AtMost 4) (length addrs) ''logical addresses''), d, k)"
    unfolding set_logical_addresses_def
    by (rule op_bind_run(2)) (use assms in \<open>simp add: op_return_def check_def CEC_MAX_LOG_ADDRS_def\<close>)
  then show ?thesis
    by (simp only: clear_resets_tx set_no_logical_addresses_tx simp_thms)
qed

theorem no_logical_addresses_witness:
  "fst (set_logical_addresses echo_kernel (replicate 5 LogicalAddressType.Tuner) (sample_device, 0)) =
     Err (OutOfRange (AtMost 4) 5 ''logical addresses'')"
proof -
  have "length (replicate 5 LogicalAddressType.Tuner) > 4" by simp
  note no_logical_addresses [OF this, of echo_kernel sample_device 0]
  then show ?thesis by (simp only: length_replicate fst_conv)
qed

text \<open>
  A change of state of the adapter makes the device transmit from the first address that the
  kernel reports, and from none if the adapter lost its addresses.
\<close>

theorem state_change_updates_address:
  assumes "handle_event K ev (d, k) = (Ok StateChange, d', k')"
  shows "event ev = CEC_EVENT_STATE_CHANGE \<and> tx_logical_address d' =
    (if num_log_addrs (internal_log_addrs d') > 0 then claimed_address (internal_log_addrs d')
     else LogicalAddress_Unregistered)"
proof -
  have ev: "event ev = CEC_EVENT_STATE_CHANGE"
    using assms by (auto simp: handle_event_def Let_def split: if_splits)
  then obtain u where "refresh_state K (d, k) = (Ok u, d', k')"
    using assms by (auto simp: handle_event_def op_bind_eq_Ok)
  from ev refresh_state_tx [OF this] show ?thesis by blast
qed

theorem state_change_updates_address_witness:
  "\<exists>d'. handle_event echo_kernel (cec_event_default\<lparr>event := 1\<rparr>) (sample_device, 0) =
     (Ok StateChange, d', 0) \<and> tx_logical_address d' = LogicalAddress_Unregistered"
proof -
  obtain d' where d': "handle_event echo_kernel (cec_event_default\<lparr>event := 1\<rparr>) (sample_device, 0) =
     (Ok StateChange, d', 0)" "num_log_addrs (internal_log_addrs d') = 0"
    by (simp add: handle_event_def refresh_state_def op_bind_def syscall_log_addrs_def event_consts
        echo_kernel_def sample_device_def claim_def cec_log_addrs_default_def)
  with state_change_updates_address [OF d'(1)] show ?thesis by auto
qed

text \<open>
  Setting one of the two modes of a device reads back, and leaves the other mode as it was:
  the two share a word of the kernel.
\<close>

theorem modes_are_independent:
  assumes "keeps_mode K" "set_follower_mode K f (d, k) = (Ok (), s)"
  shows "fst (get_follower_mode K s) = Ok f \<and>
    fst (get_initiator_mode K s) = fst (get_initiator_mode K (d, k))"
proof -
  obtain w k1 where w: "get_mode K 0 k = (None, w, k1)"
    using assms(2) by (auto simp: set_follower_mode_def Device_get_mode_def op_bind_eq_Ok
        syscall_def op_return_def split: prod.splits)
  then have "fst (get_initiator_mode K (d, k)) =
      InitiatorMode_try_from (CecMessageHandlingMode_initiator (CecMessageHandlingMode w))"
    by (simp add: get_initiator_mode_def Device_get_mode_def op_bind_def op_return_def syscall_def)
  with w set_follower_mode_get [OF assms] show ?thesis by simp
qed

theorem modes_are_independent_witness:
  "\<exists>s. fst (get_follower_mode echo_kernel s) = Ok FollowerMode.Monitor \<and>
     fst (get_initiator_mode echo_kernel s) =
       fst (get_initiator_mode echo_kernel (sample_device, 0x11))"
  using echo_set_follower_mode modes_are_independent [OF echo_keeps_mode] by blast

text \<open>
  On a kernel that delivers, sending a message whose encoding has at most 14 bytes returns an
  envelope with the message, from the address of the device to the destination; the state of the
  device does not change.
\<close>

theorem sent_message_returns:
  assumes "delivers K" "Message_valid m" "Message_len m \<le> 14"
  shows "\<exists>ts sq. fst (tx_rx_message debug K m dest rep tmo (d, k)) =
      Ok \<lparr>message = Valid m, env_initiator = tx_logical_address d, env_destination = dest,
          timestamp = ts, env_sequence = sq\<rparr> \<and>
    fst (snd (tx_rx_message debug K m dest rep tmo (d, k))) = d"
proof -
  have "op_keeps (\<lambda>s. fst s = d) (tx_rx_message debug K m dest rep tmo)"
    unfolding tx_rx_message_def tx_raw_message_def
    by (intro op_reads_device op_keeps_bind op_keeps_return op_reads_syscall)
      (simp_all add: op_keeps_return)
  then have "fst (snd (tx_rx_message debug K m dest rep tmo (d, k))) = d"
    by (simp add: op_keeps_def)
  with tx_rx_message_delivered [OF assms, of debug dest rep tmo d k] show ?thesis by metis
qed

theorem sent_message_returns_witness:
  "\<exists>ts sq. fst (tx_rx_message (\<lambda>_. '''') echo_kernel (Message.ReportPowerStatus PowerStatus.On)
      LogicalAddress.Tv Opcode.FeatureAbort Timeout_NONE (sample_device, 0)) =
    Ok \<lparr>message = Valid (Message.ReportPowerStatus PowerStatus.On),
        env_initiator = LogicalAddress.PlaybackDevice1, env_destination = LogicalAddress.Tv,
        timestamp = ts, env_sequence = sq\<rparr>"
proof -
  let ?m = "Message.ReportPowerStatus PowerStatus.On"
  have m: "Message_valid ?m" "Message_len ?m \<le> 14" by simp_all
  have "tx_logical_address sample_device = LogicalAddress.PlaybackDevice1"
    by (simp add: sample_device_def)
  with sent_message_returns [OF echo_delivers m, of "\<lambda>_. ''''" LogicalAddress.Tv
      Opcode.FeatureAbort Timeout_NONE sample_device 0] show ?thesis by metis
qed



text \<open>
  The outcome of a poll: an error of the call is passed on, no descriptor in time is a
  timeout, a device that is gone hides everything else, and a message and an event are reported
  exactly as the flags say.
\<close>

theorem poll_outcome:
  "case poll_file K n (POLLPRI OR POLLIN) tmo k of
     (Some e, _, _, k') \<Rightarrow> DevicePoller_poll K \<lparr>fd = n\<rparr> tmo k = (Err (from_errno e), k')
   | (None, 0, _, k') \<Rightarrow> DevicePoller_poll K \<lparr>fd = n\<rparr> tmo k = (Err Error.Timeout, k')
   | (None, Suc _, None, k') \<Rightarrow> DevicePoller_poll K \<lparr>fd = n\<rparr> tmo k = (Ok Nothing, k')
   | (None, Suc _, Some flags, k') \<Rightarrow>
       snd (DevicePoller_poll K \<lparr>fd = n\<rparr> tmo k) = k' \<and>
       (case fst (DevicePoller_poll K \<lparr>fd = n\<rparr> tmo k) of
          Ok status \<Rightarrow> if bit flags 4 then status = Destroyed else (bit flags 0 \<or> bit flags 1) \<and>
            (got_message status \<longleftrightarrow> bit flags 0) \<and> (got_event status \<longleftrightarrow> bit flags 1)
        | Err e \<Rightarrow> \<not> bit flags 0 \<and> \<not> bit flags 1 \<and> \<not> bit flags 4
        | Panic \<Rightarrow> False)"
proof -
  have bits: "contains flags m \<longleftrightarrow> (\<forall>n. bit m n \<longrightarrow> bit flags n)" for flags m :: u16
  proof
    assume "contains flags m"
    then show "\<forall>n. bit m n \<longrightarrow> bit flags n"
      by (metis bit_and_iff contains_def)
  next
    assume "\<forall>n. bit m n \<longrightarrow> bit flags n"
    then show "contains flags m"
      unfolding contains_def by (intro bit_word_eqI) (auto simp: bit_and_iff)
  qed
  have both: "contains flags (POLLIN OR POLLPRI) \<longleftrightarrow> contains flags POLLIN \<and> contains flags POLLPRI"
    for flags
    by (auto simp: bits bit_or_iff)
  have "contains flags (push_bit n 1) \<longleftrightarrow> bit flags n" if "n < 16" for n and flags :: u16
    using that by (auto simp: bits bit_simps)
  from this [of 0] this [of 1] this [of 4]
  have "contains flags POLLIN \<longleftrightarrow> bit flags 0" "contains flags POLLPRI \<longleftrightarrow> bit flags 1"
    "contains flags POLLHUP \<longleftrightarrow> bit flags 4" for flags
    by (simp_all add: POLLIN_def POLLPRI_def POLLHUP_def)
  then show ?thesis
    by (simp add: DevicePoller_poll_def poll_status_def both got_message_def got_event_def
        split: prod.split option.split nat.split)
qed

end
