(* ===== verification/Edid.thy ===== *)
theory Edid
  imports AddressText Envelope
begin

text \<open>
  The physical address in the EDID of a display: \<open>DrmConnector::parse_hdmi_edid_pa\<close> of
  \<open>cecd/src/device.rs\<close>. The two nested loops are two recursive functions; an index or slice that
  is out of range would panic. The parser reads bytes that a display sent, so it must not panic on
  any of them.
\<close>

section \<open>The parser\<close>

definition HDMI_OUI :: "u8 list" where "HDMI_OUI = [0x03, 0x0C, 0x00]"

lemma edid_block_size: "unat ((header AND 0x1F) + 1 :: u8) = unat (header AND 0x1F) + 1"
proof -
  have "header AND 0x1F \<le> 0x1F" by (rule word_and_le1)
  then have "unat (header AND 0x1F) \<le> 31" by (simp add: word_le_nat_alt)
  then show ?thesis by (simp add: unat_word_ariths)
qed

text \<open>
  The inner loop walks the data blocks of one extension block from \<open>offset\<close> to \<open>e\<close>. \<^term>\<open>None\<close>
  means that it ended, or left the loop with \<open>break\<close>, without the address.
\<close>

function edid_data_blocks :: "u8 list \<Rightarrow> nat \<Rightarrow> nat \<Rightarrow> PhysicalAddress option result" where
  "edid_data_blocks edid e offset =
     (if offset + 1 < length edid \<and> offset < e then
        and_then (index edid offset) (\<lambda>header.
        let size = unat ((header AND 0x1F) + 1) in
        if size < 6 then edid_data_blocks edid e (offset + size)
        else if offset + size > e then Ok None
        else if header AND 0xE0 \<noteq> 0x60 then edid_data_blocks edid e (offset + size)
        else
          and_then (slice edid (offset + 1) (offset + 4)) (\<lambda>oui.
          if oui \<noteq> HDMI_OUI then edid_data_blocks edid e (offset + size)
          else
            and_then (index edid (offset + 4)) (\<lambda>hi.
            and_then (index edid (offset + 5)) (\<lambda>lo.
            Ok (Some (PhysicalAddress.PhysicalAddress (push_bit 8 (ucast hi) OR ucast lo)))))))
      else Ok None)"
  by auto

termination
  by (relation "measure (\<lambda>(edid, e, offset). e - offset)") (auto simp: edid_block_size)

text \<open>The outer loop walks the extension blocks.\<close>

function edid_extensions :: "u8 list \<Rightarrow> nat \<Rightarrow> PhysicalAddress option result" where
  "edid_extensions edid block =
     (if block + 128 \<le> length edid then
        and_then (index edid block) (\<lambda>tag.
        and_then (index edid (block + 1)) (\<lambda>revision.
        if tag \<noteq> 2 \<and> revision < 3 then edid_extensions edid (block + 128)
        else
          and_then (index edid (block + 2)) (\<lambda>d.
          let e = block + (if d \<ge> 4 then min (unat d) 127 else 127) in
          and_then (edid_data_blocks edid e (block + 4)) (\<lambda>found.
          case found of
            Some address \<Rightarrow> Ok (Some address)
          | None \<Rightarrow> edid_extensions edid (block + 128)))))
      else Ok None)"
  by auto

termination
  by (relation "measure (\<lambda>(edid, block). length edid - block)") auto

definition parse_hdmi_edid_pa :: "u8 list \<Rightarrow> PhysicalAddress option result" where
  "parse_hdmi_edid_pa edid = edid_extensions edid 128"

declare edid_data_blocks.simps [simp del] edid_extensions.simps [simp del]

section \<open>The parser never panics\<close>

lemma edid_data_blocks_not_Panic:
  "e < length edid \<Longrightarrow> edid_data_blocks edid e offset \<noteq> Panic"
proof (induction edid e offset rule: edid_data_blocks.induct)
  case (1 edid e offset)
  let ?size = "unat ((edid ! offset AND 0x1F) + 1)"
  show ?case
  proof (cases "offset + 1 < length edid \<and> offset < e")
    case False
    then show ?thesis by (simp only: edid_data_blocks.simps [of edid e offset] if_False) simp
  next
    case True
    then have h: "index edid offset = Ok (edid ! offset)" by simp
    note IH = "1.IH" [OF True h refl]
    consider "?size < 6" | "\<not> ?size < 6" "offset + ?size > e" |
      "\<not> ?size < 6" "\<not> offset + ?size > e" by blast
    then show ?thesis
    proof cases
      case 1
      then show ?thesis
        using True h IH(1) "1.prems" by (simp add: edid_data_blocks.simps [of edid e offset] Let_def)
    next
      case 2
      then show ?thesis
        using True h by (simp add: edid_data_blocks.simps [of edid e offset] Let_def)
    next
      case 3
      then have "slice edid (offset + 1) (offset + 4) = Ok (take 3 (drop (offset + 1) edid))"
        using "1.prems" by (simp add: slice_def)
      with 3 show ?thesis
        using True h IH(2,3) "1.prems"
        by (auto simp: edid_data_blocks.simps [of edid e offset] Let_def)
    qed
  qed
qed

lemma edid_extensions_not_Panic: "edid_extensions edid block \<noteq> Panic"
proof (induction edid block rule: edid_extensions.induct)
  case (1 edid block)
  show ?case
  proof (cases "block + 128 \<le> length edid")
    case False
    then show ?thesis by (simp add: edid_extensions.simps [of edid block])
  next
    case True
    let ?e = "block + (if edid ! (block + 2) \<ge> 4 then min (unat (edid ! (block + 2))) 127 else 127)"
    have "edid_data_blocks edid ?e (block + 4) \<noteq> Panic"
      using True by (intro edid_data_blocks_not_Panic) auto
    then show ?thesis
      using True "1.IH" by (auto simp: edid_extensions.simps [of edid block] Let_def split: option.split)
  qed
qed

section \<open>What it finds\<close>

text \<open>
  A data block is a byte with its tag and the number of bytes that follow, and these bytes. The
  vendor block of HDMI holds the address behind the identifier. The specification looks at the
  list of blocks, not at offsets.
\<close>

definition is_data_block :: "u8 list \<Rightarrow> bool" where
  "is_data_block b \<longleftrightarrow> b \<noteq> [] \<and> length b = unat (hd b AND 0x1F) + 1"

definition is_hdmi_block :: "u8 list \<Rightarrow> bool" where
  "is_hdmi_block b \<longleftrightarrow> 6 \<le> length b \<and> hd b AND 0xE0 = 0x60 \<and> take 3 (tl b) = HDMI_OUI"

definition hdmi_address :: "u8 list list \<Rightarrow> PhysicalAddress option" where
  "hdmi_address bs =
     map_option (\<lambda>b. PhysicalAddress.PhysicalAddress (push_bit 8 (ucast (b ! 4)) OR ucast (b ! 5)))
       (List.find is_hdmi_block bs)"

lemma hdmi_address_append:
  "hdmi_address (bs @ cs) = (case hdmi_address bs of None \<Rightarrow> hdmi_address cs | Some a \<Rightarrow> Some a)"
  by (induction bs) (simp_all add: hdmi_address_def)

text \<open>One step of the inner loop, at the start of a block \<open>b\<close>.\<close>

lemma edid_data_block_step:
  assumes edid: "edid = pre @ b @ rest" and b: "is_data_block b" and "rest \<noteq> []"
    and e: "length pre + length b \<le> e"
  shows "edid_data_blocks edid e (length pre) =
    (if is_hdmi_block b
     then Ok (Some (PhysicalAddress.PhysicalAddress (push_bit 8 (ucast (b ! 4)) OR ucast (b ! 5))))
     else edid_data_blocks edid e (length pre + length b))"
proof -
  obtain h t where ht: "b = h # t"
    using b unfolding is_data_block_def by (cases b) auto
  have guard: "length pre + 1 < length edid \<and> length pre < e"
    using edid e ht \<open>rest \<noteq> []\<close> by (cases rest) auto
  have h: "index edid (length pre) = Ok h"
    using guard by (simp add: edid ht)
  have size: "unat ((h AND 0x1F) + 1) = length b"
    using b by (simp add: edid_block_size is_data_block_def ht)
  show ?thesis
  proof (cases "length b < 6")
    case True
    then show ?thesis
      by (simp add: edid_data_blocks.simps [of edid e "length pre"] guard h Let_def size is_hdmi_block_def)
  next
    case False
    then have oui: "slice edid (length pre + 1) (length pre + 4) = Ok (take 3 t)"
      using ht edid by (simp add: slice_def)
    have "index edid (length pre + 4) = Ok (b ! 4)" "index edid (length pre + 5) = Ok (b ! 5)"
      using False ht edid by (simp_all add: nth_append)
    with False oui e show ?thesis
      by (simp add: edid_data_blocks.simps [of edid e "length pre"] guard h Let_def size
          is_hdmi_block_def ht)
  qed
qed

lemma edid_data_blocks_find:
  assumes "edid = pre @ concat bs @ rest" "list_all is_data_block bs" "rest \<noteq> []"
  shows "edid_data_blocks edid (length pre + length (concat bs)) (length pre) = Ok (hdmi_address bs)"
  using assms
proof (induction bs arbitrary: pre)
  case Nil
  then show ?case
    by (simp add: edid_data_blocks.simps [of _ _ "length pre"] hdmi_address_def)
next
  case (Cons b bs)
  have "edid = (pre @ b) @ concat bs @ rest" "list_all is_data_block bs"
    using Cons.prems by simp_all
  from Cons.IH [OF this Cons.prems(3)]
  have "edid_data_blocks edid (length pre + length (concat (b # bs))) (length pre + length b) =
      Ok (hdmi_address bs)"
    by (simp add: add.assoc)
  moreover have "edid = pre @ b @ (concat bs @ rest)" "concat bs @ rest \<noteq> []"
    using Cons.prems by simp_all
  ultimately show ?case
    using edid_data_block_step [of edid pre b "concat bs @ rest" "length pre + length (concat (b # bs))"]
      Cons.prems(2)
    by (simp add: hdmi_address_def)
qed

text \<open>
  A CTA extension block: tag, revision, the offset of what follows the data blocks, flags, the data
  blocks, and the rest of the 128 bytes.
\<close>

record cta_extension =
  cta_revision :: u8
  cta_flags :: u8
  cta_blocks :: "u8 list list"
  cta_rest :: "u8 list"

definition cta_bytes :: "cta_extension \<Rightarrow> u8 list" where
  "cta_bytes x =
     [2, cta_revision x, word_of_nat (4 + length (concat (cta_blocks x))), cta_flags x] @
     concat (cta_blocks x) @ cta_rest x"

definition cta_ok :: "cta_extension \<Rightarrow> bool" where
  "cta_ok x \<longleftrightarrow> length (cta_bytes x) = 128 \<and> cta_rest x \<noteq> [] \<and> list_all is_data_block (cta_blocks x)"

lemma edid_extensions_find:
  assumes "edid = pre @ concat (map cta_bytes xs)" "list_all cta_ok xs"
  shows "edid_extensions edid (length pre) = Ok (hdmi_address (concat (map cta_blocks xs)))"
  using assms
proof (induction xs arbitrary: pre)
  case Nil
  then show ?case
    by (simp add: edid_extensions.simps [of _ "length pre"] hdmi_address_def)
next
  case (Cons x xs)
  let ?n = "length (concat (cta_blocks x))"
  let ?rest = "cta_rest x @ concat (map cta_bytes xs)"
  let ?head = "[2, cta_revision x, word_of_nat (4 + ?n), cta_flags x]"
  have x: "length (cta_bytes x) = 128" "cta_rest x \<noteq> []" "list_all is_data_block (cta_blocks x)"
    using Cons.prems(2) by (simp_all add: cta_ok_def)
  have edid: "edid = (pre @ ?head) @ concat (cta_blocks x) @ ?rest" and len: "length pre + 128 \<le> length edid"
    using Cons.prems(1) x(1) by (simp_all add: cta_bytes_def [of x])
  have n: "?n \<le> 123"
    using x(1,2) by (cases "cta_rest x") (simp_all add: cta_bytes_def)
  then have d: "unat (word_of_nat (4 + ?n) :: u8) = 4 + ?n"
    by (simp add: unsigned_of_nat take_bit_nat_eq_self del: of_nat_add)
  then have "(4 :: u8) \<le> word_of_nat (4 + ?n)"
    by (simp add: word_le_nat_alt del: of_nat_add)
  then have e: "length pre + (if (word_of_nat (4 + ?n) :: u8) \<ge> 4
      then min (unat (word_of_nat (4 + ?n) :: u8)) 127 else 127) = length pre + 4 + ?n"
    using n by (simp add: d del: of_nat_add)
  have head: "length (pre @ ?head) = length pre + 4" by simp
  have "?rest \<noteq> []"
    using x(2) by simp
  note edid_data_blocks_find [OF edid x(3) this, unfolded head]
  then have inner: "edid_data_blocks edid (length pre + (if (word_of_nat (4 + ?n) :: u8) \<ge> 4
      then min (unat (word_of_nat (4 + ?n) :: u8)) 127 else 127)) (length pre + 4) =
      Ok (hdmi_address (cta_blocks x))"
    by (simp only: e)
  have "edid = (pre @ cta_bytes x) @ concat (map cta_bytes xs)" "list_all cta_ok xs"
    using Cons.prems by simp_all
  from Cons.IH [OF this] x(1)
  have rec: "edid_extensions edid (length pre + 128) = Ok (hdmi_address (concat (map cta_blocks xs)))"
    by simp
  have i: "index edid (length pre) = Ok 2" "index edid (length pre + 1) = Ok (cta_revision x)"
    "index edid (length pre + 2) = Ok (word_of_nat (4 + ?n))"
    using len edid by (simp_all add: nth_append)
  have "\<not> ((2 :: u8) \<noteq> 2 \<and> cta_revision x < 3)" by simp
  then have "edid_extensions edid (length pre) =
      (case hdmi_address (cta_blocks x) of
         Some a \<Rightarrow> Ok (Some a) | None \<Rightarrow> edid_extensions edid (length pre + 128))"
    by (simp only: edid_extensions.simps [of edid "length pre"] len if_True if_False i and_then.simps
        Let_def inner)
  then show ?case
    by (simp add: rec hdmi_address_append split: option.split)
qed

end
