(* ===== verification/Action.thy ===== *)
theory Action
  imports CecError
begin

text \<open>
  Asynchronous functions of \<open>cecd\<close> as functions on a state: an \<open>action\<close> returns, fails with an
  \<open>anyhow::Error\<close>, or panics, and leaves a state. The changes made before a failure stay. The
  rules of this theory are the ones the theories on the daemon share.
\<close>

section \<open>Outcomes\<close>

text \<open>\<open>anyhow::Error\<close>: an error of the library, or any other one, of which the text is kept.\<close>

datatype anyhow = Library Error | Other string

datatype 'a outcome = Done 'a | Fail anyhow | Crash

primrec outcome_of :: "'a result \<Rightarrow> 'a outcome" where
  "outcome_of (Ok x) = Done x" |
  "outcome_of (Err e) = Fail (Library e)" |
  "outcome_of Panic = Crash"

lemma outcome_of_eq [simp]:
  "outcome_of r = Done x \<longleftrightarrow> r = Ok x" "outcome_of r = Crash \<longleftrightarrow> r = Panic"
  by (cases r; simp)+

section \<open>Actions\<close>

type_synonym ('s, 'a) action = "'s \<Rightarrow> 'a outcome \<times> 's"

definition act_return :: "'a outcome \<Rightarrow> ('s, 'a) action" where
  "act_return r = (\<lambda>s. (r, s))"

definition act_bind :: "('s, 'a) action \<Rightarrow> ('a \<Rightarrow> ('s, 'b) action) \<Rightarrow> ('s, 'b) action" where
  "act_bind m f =
     (\<lambda>s. case m s of
        (Done x, t) \<Rightarrow> f x t
      | (Fail e, t) \<Rightarrow> (Fail e, t)
      | (Crash, t) \<Rightarrow> (Crash, t))"

abbreviation act_then :: "('s, 'a) action \<Rightarrow> ('s, 'b) action \<Rightarrow> ('s, 'b) action" where
  "act_then m n \<equiv> act_bind m (\<lambda>_. n)"

definition act_state :: "('s \<Rightarrow> ('s, 'a) action) \<Rightarrow> ('s, 'a) action" where
  "act_state f = (\<lambda>s. f s s)"

definition act_modify :: "('s \<Rightarrow> 's) \<Rightarrow> ('s, unit) action" where
  "act_modify f = (\<lambda>s. (Done (), f s))"

abbreviation act_skip :: "('s, unit) action" where
  "act_skip \<equiv> act_return (Done ())"

text \<open>A call whose error is inspected: \<open>match\<close>, \<open>if let Err\<close> or \<open>unwrap_or_default\<close> on its result.\<close>

definition act_attempt :: "('s, 'a) action \<Rightarrow> ('s, anyhow + 'a) action" where
  "act_attempt m =
     (\<lambda>s. case m s of
        (Done x, t) \<Rightarrow> (Done (Inr x), t)
      | (Fail e, t) \<Rightarrow> (Done (Inl e), t)
      | (Crash, t) \<Rightarrow> (Crash, t))"

text \<open>A call whose error is only logged.\<close>

definition act_logged :: "('s, 'a) action \<Rightarrow> ('s, unit) action" where
  "act_logged m = act_bind (act_attempt m) (\<lambda>_. act_skip)"

primrec act_list :: "('a \<Rightarrow> ('s, unit) action) \<Rightarrow> 'a list \<Rightarrow> ('s, unit) action" where
  "act_list f [] = act_skip" |
  "act_list f (x # xs) = act_then (f x) (act_list f xs)"

lemma act_run [simp]:
  "act_return r s = (r, s)" "act_modify f s = (Done (), f s)" "act_state g s = g s s"
  by (simp_all add: act_return_def act_modify_def act_state_def)

lemma act_bind_run [simp]:
  "m s = (Done x, t) \<Longrightarrow> act_bind m f s = f x t"
  "m s = (Fail e, t) \<Longrightarrow> act_bind m f s = (Fail e, t)"
  "m s = (Crash, t) \<Longrightarrow> act_bind m f s = (Crash, t)"
  by (simp_all add: act_bind_def)

lemma act_bind_return [simp]: "act_bind (act_return (Done x)) f = f x"
  by (rule ext) (simp add: act_bind_def act_return_def)

lemma act_attempt_run [simp]:
  "m s = (Done x, t) \<Longrightarrow> act_attempt m s = (Done (Inr x), t)"
  "m s = (Fail e, t) \<Longrightarrow> act_attempt m s = (Done (Inl e), t)"
  "m s = (Crash, t) \<Longrightarrow> act_attempt m s = (Crash, t)"
  by (simp_all add: act_attempt_def)

lemma act_bind_eq_Done:
  "act_bind m f s = (Done y, u) \<longleftrightarrow> (\<exists>x t. m s = (Done x, t) \<and> f x t = (Done y, u))"
  by (cases "m s"; cases "fst (m s)"; auto simp: act_bind_def)

section \<open>Invariants\<close>

text \<open>
  \<open>act_keeps I m\<close>: the action \<open>m\<close> does not panic in a state with \<open>I\<close>, and leaves one with \<open>I\<close>,
  whether it returns or fails. \<open>act_holds I m Q\<close> also tells what it returns.
\<close>

definition act_holds :: "('s \<Rightarrow> bool) \<Rightarrow> ('s, 'a) action \<Rightarrow> ('a \<Rightarrow> bool) \<Rightarrow> bool" where
  "act_holds I m Q \<longleftrightarrow>
     (\<forall>s. I s \<longrightarrow> fst (m s) \<noteq> Crash \<and> I (snd (m s)) \<and> (\<forall>x. fst (m s) = Done x \<longrightarrow> Q x))"

abbreviation act_keeps :: "('s \<Rightarrow> bool) \<Rightarrow> ('s, 'a) action \<Rightarrow> bool" where
  "act_keeps I m \<equiv> act_holds I m (\<lambda>_. True)"

named_theorems act

lemma act_holdsI:
  assumes "\<And>s r t. I s \<Longrightarrow> m s = (r, t) \<Longrightarrow> r \<noteq> Crash \<and> I t \<and> (\<forall>x. r = Done x \<longrightarrow> Q x)"
  shows "act_holds I m Q"
  unfolding act_holds_def using assms by (metis prod.collapse)

lemma act_holdsD:
  assumes "act_holds I m Q" "I s" "m s = (r, t)"
  shows "r \<noteq> Crash" "I t" "r = Done x \<Longrightarrow> Q x"
  using assms unfolding act_holds_def by (metis fst_conv snd_conv)+

lemma act_holds_weaken: "act_holds I m Q \<Longrightarrow> (\<And>x. Q x \<Longrightarrow> R x) \<Longrightarrow> act_holds I m R"
  unfolding act_holds_def by blast

lemma act_holds_bind:
  assumes "act_holds I m Q" "\<And>x. Q x \<Longrightarrow> act_holds I (f x) R"
  shows "act_holds I (act_bind m f) R"
proof (rule act_holdsI)
  fix s r t
  assume s: "I s" "act_bind m f s = (r, t)"
  obtain q u where q: "m s = (q, u)" by (cases "m s")
  note m = act_holdsD [OF assms(1) s(1) q]
  show "r \<noteq> Crash \<and> I t \<and> (\<forall>x. r = Done x \<longrightarrow> R x)"
  proof (cases q)
    case (Done x)
    then have "f x u = (r, t)" "Q x" using s(2) q m(3) by simp_all
    then show ?thesis using act_holdsD [OF assms(2) m(2)] by blast
  next
    case (Fail e)
    then show ?thesis using s(2) q m(2) by auto
  next
    case Crash
    then show ?thesis using m(1) by simp
  qed
qed

lemma act_keeps_bind [act]:
  assumes "act_keeps I m" "\<And>x. act_holds I (f x) Q"
  shows "act_holds I (act_bind m f) Q"
  using assms by (rule act_holds_bind)

lemma act_keeps_return [act]:
  "r \<noteq> Crash \<Longrightarrow> (\<And>x. r = Done x \<Longrightarrow> Q x) \<Longrightarrow> act_holds I (act_return r) Q"
  by (simp add: act_holds_def)

lemma act_keeps_state [act]: "(\<And>s. I s \<Longrightarrow> act_holds I (f s) Q) \<Longrightarrow> act_holds I (act_state f) Q"
  by (simp add: act_holds_def)

lemma act_keeps_modify: "(\<And>s. I s \<Longrightarrow> I (f s)) \<Longrightarrow> act_keeps I (act_modify f)"
  by (simp add: act_holds_def)

lemma act_keeps_if [act]:
  "(b \<Longrightarrow> act_holds I m Q) \<Longrightarrow> (\<not> b \<Longrightarrow> act_holds I n Q) \<Longrightarrow> act_holds I (if b then m else n) Q"
  by simp

lemma act_holds_attempt:
  assumes "act_holds I m Q"
  shows "act_holds I (act_attempt m) (\<lambda>r. case r of Inl _ \<Rightarrow> True | Inr x \<Rightarrow> Q x)"
proof (rule act_holdsI)
  fix s r t
  assume s: "I s" "act_attempt m s = (r, t)"
  obtain q u where q: "m s = (q, u)" by (cases "m s")
  from act_holdsD [OF assms s(1) q] s(2) q
  show "r \<noteq> Crash \<and> I t \<and> (\<forall>x. r = Done x \<longrightarrow> (case x of Inl _ \<Rightarrow> True | Inr x \<Rightarrow> Q x))"
    by (cases q) auto
qed

lemma act_keeps_attempt [act]: "act_keeps I m \<Longrightarrow> act_keeps I (act_attempt m)"
  using act_holds_attempt [of I m "\<lambda>_. True"] by (rule act_holds_weaken) simp_all

lemma act_keeps_logged [act]: "act_keeps I m \<Longrightarrow> act_keeps I (act_logged m)"
  unfolding act_logged_def by (intro act) simp_all

lemma act_keeps_option [act]:
  "(x = None \<Longrightarrow> act_holds I m Q) \<Longrightarrow> (\<And>y. x = Some y \<Longrightarrow> act_holds I (f y) Q) \<Longrightarrow>
   act_holds I (case x of None \<Rightarrow> m | Some y \<Rightarrow> f y) Q"
  by (cases x) simp_all

lemma act_keeps_sum [act]:
  "(\<And>e. x = Inl e \<Longrightarrow> act_holds I (f e) Q) \<Longrightarrow> (\<And>y. x = Inr y \<Longrightarrow> act_holds I (g y) Q) \<Longrightarrow>
   act_holds I (case x of Inl e \<Rightarrow> f e | Inr y \<Rightarrow> g y) Q"
  by (cases x) simp_all

lemma act_keeps_pair [act]:
  "(\<And>a b. x = (a, b) \<Longrightarrow> act_holds I (f a b) Q) \<Longrightarrow> act_holds I (case x of (a, b) \<Rightarrow> f a b) Q"
  by (cases x) simp

lemma act_keeps_list [act]:
  "(\<And>x. x \<in> set xs \<Longrightarrow> act_keeps I (f x)) \<Longrightarrow> act_keeps I (act_list f xs)"
  by (induction xs) (auto intro!: act)

end
