(* ===== verification/DrmConnector.thy ===== *)
theory DrmConnector
  imports Edid Action Device
begin

text \<open>
  Connectors of the graphics system and the physical address behind them: \<open>DrmConnector\<close> of
  \<open>cecd/src/device.rs\<close> and \<open>System::find_physical_address\<close> of \<open>cecd/src/system.rs\<close>.

  They read the files under \<open>/sys/class/drm\<close>, which are parameters: a record of functions over a
  state of the world. The kernel writes the text of these files in ASCII, so that \<open>trim\<close> and
  \<open>parse\<close> are written for ASCII characters.
\<close>

section \<open>Files\<close>

datatype io_error = NotFound | OtherError string

record 'k files =
  read_file :: "string \<Rightarrow> 'k \<Rightarrow> (io_error + u8 list) \<times> 'k"
  read_text :: "string \<Rightarrow> 'k \<Rightarrow> (io_error + string) \<times> 'k"
  list_dir :: "string \<Rightarrow> 'k \<Rightarrow> (io_error + (io_error + string) list) \<times> 'k"
  is_dir :: "string \<Rightarrow> 'k \<Rightarrow> (io_error + bool) \<times> 'k"

primrec io_text :: "io_error \<Rightarrow> string" where
  "io_text NotFound = ''not found''" |
  "io_text (OtherError text) = text"

text \<open>A call whose error \<open>?\<close> passes on, and one whose error is inspected.\<close>

definition io_call :: "('k \<Rightarrow> (io_error + 'a) \<times> 'k) \<Rightarrow> ('k, 'a) action" where
  "io_call f = (\<lambda>k. case f k of
     (Inl e, k') \<Rightarrow> (Fail (Other (io_text e)), k')
   | (Inr x, k') \<Rightarrow> (Done x, k'))"

definition io_try :: "('k \<Rightarrow> (io_error + 'a) \<times> 'k) \<Rightarrow> ('k, io_error + 'a) action" where
  "io_try f = (\<lambda>k. case f k of (r, k') \<Rightarrow> (Done r, k'))"

section \<open>Text\<close>

definition is_space :: "char \<Rightarrow> bool" where
  "is_space c \<longleftrightarrow> (let n = of_char c :: nat in n = 32 \<or> 9 \<le> n \<and> n \<le> 13)"

definition trim :: "string \<Rightarrow> string" where
  "trim s = rev (dropWhile is_space (rev (dropWhile is_space s)))"

definition starts_with :: "string \<Rightarrow> string \<Rightarrow> bool" where
  "starts_with s p \<longleftrightarrow> take (length p) s = p"

definition strip_prefix :: "string \<Rightarrow> string \<Rightarrow> string option" where
  "strip_prefix s p = (if starts_with s p then Some (drop (length p) s) else None)"

fun split_once :: "char \<Rightarrow> string \<Rightarrow> (string \<times> string) option" where
  "split_once c [] = None" |
  "split_once c (x # xs) =
     (if x = c then Some ([], xs) else map_option (\<lambda>(a, b). (x # a, b)) (split_once c xs))"

text \<open>\<open>parse::<u32>\<close>: decimal digits with an optional sign, below \<open>2 ^ 32\<close>.\<close>

definition decimal_digit :: "char \<Rightarrow> nat option" where
  "decimal_digit c = (let n = of_char c :: nat in if 48 \<le> n \<and> n \<le> 57 then Some (n - 48) else None)"

fun parse_decimal :: "nat \<Rightarrow> nat \<Rightarrow> string \<Rightarrow> nat option" where
  "parse_decimal bound acc [] = Some acc" |
  "parse_decimal bound acc (c # cs) =
     (case decimal_digit c of
        None \<Rightarrow> None
      | Some d \<Rightarrow> if acc * 10 + d < bound then parse_decimal bound (acc * 10 + d) cs else None)"

definition parse_u32 :: "string \<Rightarrow> u32 option" where
  "parse_u32 s =
     (if s = [] \<or> s = ''+'' \<or> s = ''-'' then None
      else map_option word_of_nat
        (parse_decimal (2 ^ 32) 0 (if hd s = CHR ''+'' then tl s else s)))"

definition ok_or :: "string \<Rightarrow> 'a option \<Rightarrow> 'a outcome" where
  "ok_or text x = (case x of None \<Rightarrow> Fail (Other text) | Some y \<Rightarrow> Done y)"

section \<open>Connectors\<close>

record DrmConnector =
  card :: u32
  connector_name :: string
  drm_physical_address :: PhysicalAddress

definition drm_base :: string where "drm_base = ''/sys/class/drm''"

definition join_path :: "string \<Rightarrow> string \<Rightarrow> string" where
  "join_path p name = p @ ''/'' @ name"

definition drm_path :: "DrmConnector \<Rightarrow> string" where
  "drm_path c = join_path drm_base (''card'' @ show_nat (unat (card c)) @ ''-'' @ connector_name c)"

text \<open>
  \<open>from_drm_path\<close> of the entry \<open>name\<close> of \<open>/sys/class/drm\<close>, the only paths it is called on; the
  test for the base directory holds of them.
\<close>

definition from_drm_path :: "'k files \<Rightarrow> string \<Rightarrow> ('k, DrmConnector option) action" where
  "from_drm_path F name =
     act_bind (act_return (ok_or ''Invalid path'' (split_once (CHR ''-'') name))) (\<lambda>(prefix, conn).
     act_bind (act_return (ok_or ''invalid digit'' (parse_u32
       (case strip_prefix prefix ''card'' of None \<Rightarrow> prefix | Some digits \<Rightarrow> digits)))) (\<lambda>card_no.
     act_bind (io_try (read_text F (join_path (join_path drm_base name) ''status''))) (\<lambda>status.
     case status of
       Inl NotFound \<Rightarrow> act_return (Done None)
     | Inl e \<Rightarrow> act_return (Fail (Other (io_text e)))
     | Inr status \<Rightarrow>
         if trim status \<noteq> ''connected'' then act_return (Done None)
         else
           act_bind (io_try (read_file F (join_path (join_path drm_base name) ''edid''))) (\<lambda>edid.
           case edid of
             Inl NotFound \<Rightarrow> act_return (Done None)
           | Inl e \<Rightarrow> act_return (Fail (Other (io_text e)))
           | Inr edid \<Rightarrow>
               act_bind (act_return (outcome_of (parse_hdmi_edid_pa edid))) (\<lambda>pa.
               act_return (Done
                 (case pa of
                    None \<Rightarrow> None
                  | Some address \<Rightarrow>
                      if \<not> PhysicalAddress_is_valid address \<or> PhysicalAddress_is_root address
                      then None
                      else Some \<lparr>card = card_no, connector_name = conn,
                             drm_physical_address = address\<rparr>)))))))"

definition reload_physical_address :: "'k files \<Rightarrow> DrmConnector \<Rightarrow> ('k, DrmConnector) action" where
  "reload_physical_address F c =
     act_bind (io_call (read_file F (join_path (drm_path c) ''edid''))) (\<lambda>edid.
     act_bind (act_return (outcome_of (parse_hdmi_edid_pa edid))) (\<lambda>pa.
     act_bind (act_return (ok_or ''Failed to parse EDID'' pa)) (\<lambda>address.
     act_return (Done (c\<lparr>drm_physical_address := address\<rparr>)))))"

definition to_connector_info :: "'k files \<Rightarrow> DrmConnector \<Rightarrow> ('k, ConnectorInfo) action" where
  "to_connector_info F c =
     act_bind (io_call (read_text F (join_path (drm_path c) ''connector_id''))) (\<lambda>text.
     act_bind (act_return (ok_or ''invalid digit'' (parse_u32 (trim text)))) (\<lambda>connector_id.
     act_return (Done (ConnectorInfo.DrmConnector (card c) connector_id))))"

text \<open>The loop of \<open>from_connector_info\<close> over the entries of the directory of the card.\<close>

primrec search_connector ::
  "'k files \<Rightarrow> u32 \<Rightarrow> u32 \<Rightarrow> PhysicalAddress \<Rightarrow> (io_error + string) list \<Rightarrow>
   ('k, DrmConnector) action" where
  "search_connector F card_no connector_id address [] =
     act_return (Fail (Other ''Connector not found''))" |
  "search_connector F card_no connector_id address (entry # entries) =
     (let dir = join_path drm_base (''card'' @ show_nat (unat card_no)) in
      case entry of
        Inl e \<Rightarrow> act_return (Fail (Other (io_text e)))
      | Inr name \<Rightarrow>
          if \<not> starts_with name (''card'' @ show_nat (unat card_no) @ ''-'')
          then search_connector F card_no connector_id address entries
          else
            act_bind (io_call (is_dir F (join_path dir name))) (\<lambda>dir_entry.
            if \<not> dir_entry then search_connector F card_no connector_id address entries
            else
              act_bind (io_call (read_text F (join_path (join_path dir name) ''connector_id''))) (\<lambda>text.
              case parse_u32 (trim text) of
                None \<Rightarrow> search_connector F card_no connector_id address entries
              | Some this_connector_id \<Rightarrow>
                  if this_connector_id = connector_id then
                    act_bind (act_return (ok_or ''Invalid path'' (split_once (CHR ''-'') name)))
                      (\<lambda>(_, conn).
                    act_return (Done \<lparr>card = card_no, connector_name = conn,
                      drm_physical_address = address\<rparr>))
                  else search_connector F card_no connector_id address entries)))"

definition from_connector_info ::
  "'k files \<Rightarrow> ConnectorInfo \<Rightarrow> PhysicalAddress \<Rightarrow> ('k, DrmConnector) action" where
  "from_connector_info F info address =
     (case info of
        ConnectorInfo.DrmConnector card_no connector_id \<Rightarrow>
          act_bind (io_call (list_dir F (join_path drm_base (''card'' @ show_nat (unat card_no)))))
            (search_connector F card_no connector_id address)
      | _ \<Rightarrow> act_return (Fail (Other ''Not a DRM connector'')))"

section \<open>The only connected display\<close>

text \<open>The loop of \<open>find_physical_address\<close>: an address counts if no second display has one.\<close>

primrec search_adapter ::
  "'k files \<Rightarrow> DrmConnector option \<Rightarrow> (io_error + string) list \<Rightarrow> ('k, DrmConnector option) action"
where
  "search_adapter F adapter [] = act_return (Done adapter)" |
  "search_adapter F adapter (entry # entries) =
     (case entry of
        Inl e \<Rightarrow> act_return (Fail (Other (io_text e)))
      | Inr name \<Rightarrow>
          if \<not> starts_with name ''card'' \<or> CHR ''-'' \<notin> set name
          then search_adapter F adapter entries
          else
            act_bind (from_drm_path F name) (\<lambda>found.
            case found of
              None \<Rightarrow> search_adapter F adapter entries
            | Some c \<Rightarrow>
                if adapter \<noteq> None then act_return (Done None)
                else search_adapter F (Some c) entries))"

definition find_physical_address :: "'k files \<Rightarrow> ('k, DrmConnector option) action" where
  "find_physical_address F =
     act_bind (io_call (list_dir F drm_base)) (search_adapter F None)"

section \<open>Facts\<close>

lemma ok_or_not_Crash [simp]: "ok_or text x \<noteq> Crash"
  by (cases x) (simp_all add: ok_or_def)

lemma io_call_keeps [act]: "act_keeps (\<lambda>_. True) (io_call f)"
  by (auto simp: act_holds_def io_call_def split: prod.splits sum.splits)

lemma io_try_keeps [act]: "act_keeps (\<lambda>_. True) (io_try f)"
  by (auto simp: act_holds_def io_try_def split: prod.splits)

lemma edid_not_Panic [simp]: "parse_hdmi_edid_pa edid \<noteq> Panic"
  using edid_extensions_not_Panic by (simp add: parse_hdmi_edid_pa_def)

text \<open>An address taken from a display is a valid one, and not the address of the root.\<close>

definition usable :: "DrmConnector option \<Rightarrow> bool" where
  "usable c \<longleftrightarrow> pred_option (\<lambda>c. PhysicalAddress_is_valid (drm_physical_address c) \<and>
     \<not> PhysicalAddress_is_root (drm_physical_address c)) c"

lemma usable_simps [simp]: "usable None" "usable (Some c) \<longleftrightarrow>
  PhysicalAddress_is_valid (drm_physical_address c) \<and> \<not> PhysicalAddress_is_root (drm_physical_address c)"
  by (simp_all add: usable_def)

lemma io_error_holds [act]:
  "(e = NotFound \<Longrightarrow> act_holds I m Q) \<Longrightarrow> (\<And>t. e = OtherError t \<Longrightarrow> act_holds I (f t) Q) \<Longrightarrow>
   act_holds I (case e of NotFound \<Rightarrow> m | OtherError t \<Rightarrow> f t) Q"
  by (cases e) simp_all

lemma from_drm_path_usable: "act_holds (\<lambda>_. True) (from_drm_path F name) usable"
  unfolding from_drm_path_def
  by (intro act) (auto split: option.splits)

lemma search_adapter_usable:
  "usable adapter \<Longrightarrow> act_holds (\<lambda>_. True) (search_adapter F adapter entries) usable"
proof (induction entries arbitrary: adapter)
  case Nil
  then show ?case by (simp add: act_holds_def)
next
  case (Cons entry entries)
  show ?case
    unfolding search_adapter.simps
    by (intro act act_holds_bind [OF from_drm_path_usable] Cons) (use Cons in \<open>simp_all\<close>)
qed

lemma find_physical_address_usable: "act_holds (\<lambda>_. True) (find_physical_address F) usable"
  unfolding find_physical_address_def by (intro act search_adapter_usable) simp

lemma connector_methods_keep:
  "act_keeps (\<lambda>_. True) (reload_physical_address F c)"
  "act_keeps (\<lambda>_. True) (to_connector_info F c)"
  unfolding reload_physical_address_def to_connector_info_def by (intro act; simp_all)+

lemma search_connector_keeps: "act_keeps (\<lambda>_. True) (search_connector F n i a entries)"
proof (induction entries)
  case Nil
  then show ?case by (simp add: act_holds_def)
next
  case (Cons entry entries)
  show ?case
    unfolding search_connector.simps Let_def by (intro act Cons) simp_all
qed

lemma from_connector_info_keeps: "act_keeps (\<lambda>_. True) (from_connector_info F info a)"
  unfolding from_connector_info_def
  by (cases info) (auto intro!: act search_connector_keeps)

end
