(* ===== verification/UInput.thy ===== *)
theory UInput
  imports OperandUi Action
begin

text \<open>
  The virtual keyboard of a device: \<open>cecd/src/uinput.rs\<close>. The handle of the kernel is a parameter:
  opening it, creating the device and writing an event may fail. Written events are recorded in
  \<open>ui_events\<close>, which is what the queue of the test build of \<open>UInputDevice\<close> holds; the report that
  follows each of them carries no information. Event times are left out.
\<close>

section \<open>Keys and devices\<close>

text \<open>The keys of \<open>input_linux\<close> that the program names, and all others by their code.\<close>

datatype (plugins only: size) Key =
  Enter | Up | Down | Left | Right | RightUp | RightDown | LeftUp | LeftDown | RootMenu | Setup |
  Menu | Favorites | Esc | MediaTopMenu | ContextMenu | Digits | Numeric11 | Numeric12 | Num0 |
  Num1 | Num2 | Num3 | Num4 | Num5 | Num6 | Num7 | Num8 | Num9 | Dot | Clear | NextFavorite |
  ChannelUp | ChannelDown | Previous | Sound | Info | Help | PageUp | PageDown | Power |
  VolumeUp | VolumeDown | Mute | PlayCD | StopCD | PauseCD | Record | Rewind | FastForward |
  EjectCD | NextSong | PreviousSong | StopRecord | PauseRecord | Angle | Vod | EPG | Time |
  Config | AudioDesc | WWW | Audio3dMode | Unmute | Sleep | Wakeup | Blue | Red | Green |
  Yellow | F5 | Data | OtherKey u16

datatype KeyState = PRESSED | RELEASED

record UInputDevice =
  ui_mappings :: "UiCommand \<rightharpoonup> Key"
  ui_name :: "u8 list"
  ui_open :: bool
  ui_events :: "(Key \<times> KeyState) list"

definition UInputDevice_new :: UInputDevice where
  "UInputDevice_new = \<lparr>ui_mappings = Map.empty, ui_name = [], ui_open = False, ui_events = []\<rparr>"

definition ensure :: "bool \<Rightarrow> string \<Rightarrow> unit outcome" where
  "ensure b text = (if b then Done () else Fail (Other text))"

text \<open>The error of a call of the kernel, or none.\<close>

definition io_outcome :: "string option \<Rightarrow> unit outcome" where
  "io_outcome e = (case e of None \<Rightarrow> Done () | Some text \<Rightarrow> Fail (Other text))"

section \<open>Operations\<close>

type_synonym ('k, 'a) uinput_action = "(UInputDevice \<times> 'k, 'a) action"

definition set_mappings :: "(UiCommand \<rightharpoonup> Key) \<Rightarrow> ('k, unit) uinput_action" where
  "set_mappings mappings = act_state (\<lambda>(d, k).
     act_then (act_return (ensure (\<not> ui_open d) ''Cannot change mappings after opening''))
     (act_modify (\<lambda>(d, k). (d\<lparr>ui_mappings := mappings\<rparr>, k))))"

definition set_name :: "u8 list \<Rightarrow> ('k, unit) uinput_action" where
  "set_name name = act_state (\<lambda>(d, k).
     act_then (act_return (ensure (\<not> ui_open d) ''Cannot change name after opening''))
     (act_modify (\<lambda>(d, k). (d\<lparr>ui_name := name\<rparr>, k))))"

text \<open>\<open>create\<close> stands for the calls that enable the mapped keys and create the device.\<close>

definition uinput_open ::
  "(UInputDevice \<Rightarrow> 'k \<Rightarrow> string option \<times> 'k) \<Rightarrow> ('k, unit) uinput_action" where
  "uinput_open create = act_state (\<lambda>(d, k).
     act_then (act_return (ensure (\<not> ui_open d) ''Cannot reopen uinput handle''))
     (\<lambda>(d, k). case create d k of (e, k') \<Rightarrow>
        (io_outcome e, d\<lparr>ui_open := (case e of None \<Rightarrow> True | Some _ \<Rightarrow> ui_open d)\<rparr>, k')))"

definition send_key_event ::
  "(Key \<times> KeyState \<Rightarrow> 'k \<Rightarrow> string option \<times> 'k) \<Rightarrow> Key \<Rightarrow> KeyState \<Rightarrow> ('k, unit) uinput_action"
where
  "send_key_event write key state =
     (\<lambda>(d, k). case write (key, state) k of (e, k') \<Rightarrow>
        (io_outcome e,
         d\<lparr>ui_events := (case e of None \<Rightarrow> ui_events d @ [(key, state)] | Some _ \<Rightarrow> ui_events d)\<rparr>, k'))"

definition key_down ::
  "(Key \<times> KeyState \<Rightarrow> 'k \<Rightarrow> string option \<times> 'k) \<Rightarrow> UiCommand \<Rightarrow> ('k, unit) uinput_action" where
  "key_down write uikey = act_state (\<lambda>(d, k).
     case ui_mappings d uikey of
       None \<Rightarrow> act_skip
     | Some key \<Rightarrow> send_key_event write key PRESSED)"

definition key_up ::
  "(Key \<times> KeyState \<Rightarrow> 'k \<Rightarrow> string option \<times> 'k) \<Rightarrow> UiCommand \<Rightarrow> ('k, unit) uinput_action" where
  "key_up write uikey = act_state (\<lambda>(d, k).
     case ui_mappings d uikey of
       None \<Rightarrow> act_skip
     | Some key \<Rightarrow> send_key_event write key RELEASED)"

section \<open>Keys that are held\<close>

text \<open>The keys that a reader of the events takes to be down.\<close>

fun press :: "Key set \<Rightarrow> Key \<times> KeyState \<Rightarrow> Key set" where
  "press held (key, PRESSED) = insert key held" |
  "press held (key, RELEASED) = held - {key}"

definition held_keys :: "UInputDevice \<Rightarrow> Key set" where
  "held_keys d = foldl press {} (ui_events d)"

definition key_of :: "UInputDevice \<Rightarrow> UiCommand option \<Rightarrow> Key set" where
  "key_of d c = set_option (Option.bind c (ui_mappings d))"

lemma held_keys_new [simp]: "ui_events d = [] \<Longrightarrow> held_keys d = {}"
  by (simp add: held_keys_def)

lemma io_outcome_eq [simp]:
  "io_outcome e = Done u \<longleftrightarrow> e = None" "io_outcome e \<noteq> Crash"
  by (cases e; simp add: io_outcome_def)+

text \<open>
  Both operations only touch the events, and they write the key of the command or nothing; an
  error leaves the keys as they are.
\<close>

lemma key_up_held:
  assumes "key_up write c (d, k) = (r, d', k')"
  shows "r \<noteq> Crash" "ui_mappings d' = ui_mappings d"
    and "held_keys d' = (if r = Done () then held_keys d - key_of d (Some c) else held_keys d)"
  using assms
  by (auto simp: key_up_def send_key_event_def held_keys_def key_of_def io_outcome_def
      split: option.splits prod.splits)

lemma key_down_held:
  assumes "key_down write c (d, k) = (r, d', k')"
  shows "r \<noteq> Crash" "ui_mappings d' = ui_mappings d"
    and "held_keys d' = (if r = Done () then held_keys d \<union> key_of d (Some c) else held_keys d)"
  using assms
  by (auto simp: key_down_def send_key_event_def held_keys_def key_of_def io_outcome_def
      split: option.splits prod.splits)

text \<open>Once it is open, a device keeps its mappings and its name.\<close>

lemma open_is_final:
  assumes "ui_open d"
  shows "set_mappings m (d, k) = (Fail (Other ''Cannot change mappings after opening''), d, k)"
    "set_name n (d, k) = (Fail (Other ''Cannot change name after opening''), d, k)"
    "uinput_open create (d, k) = (Fail (Other ''Cannot reopen uinput handle''), d, k)"
  using assms
  by (simp_all add: set_mappings_def set_name_def uinput_open_def ensure_def act_bind_def)

end
