(* ===== verification/DaemonSystem.thy ===== *)
theory DaemonSystem
  imports DrmConnector UInput
begin

text \<open>
  The state that all devices of \<open>cecd\<close> share: \<open>System\<close> and \<open>SystemHandle\<close> of \<open>cecd/src/system.rs\<close>,
  with the configuration of \<open>cecd/src/config.rs\<close>.

  A method that holds the lock of the system is one action on \<open>System \<times> 'k\<close>, where \<open>'k\<close> is the
  state of the world: the kernel, the files, the bus and the login manager. What the daemon calls
  there is a parameter, one record of functions for all of it. The broadcast channel is the list of
  the messages sent on it. The connections, the cancellation tokens and the table of opened device
  files have no effect on the behaviour modelled here and are left out.
\<close>

section \<open>Configuration\<close>

record Config =
  cfg_osd_name :: "u8 list option"
  cfg_vendor_id :: "VendorId option"
  cfg_logical_address :: LogicalAddressType
  cfg_physical_address :: "PhysicalAddress option"
  cfg_mappings :: "UiCommand \<rightharpoonup> Key"
  cfg_wake_tv :: bool
  cfg_suspend_tv :: bool
  cfg_allow_standby :: bool
  cfg_uinput :: bool
  cfg_request_active_source :: bool

definition Config_default :: Config where
  "Config_default =
     \<lparr>cfg_osd_name = None, cfg_vendor_id = None,
      cfg_logical_address = LogicalAddressType.Unregistered, cfg_physical_address = None,
      cfg_mappings = Map.empty, cfg_wake_tv = False, cfg_suspend_tv = False,
      cfg_allow_standby = False, cfg_uinput = False, cfg_request_active_source = False\<rparr>"

text \<open>The mappings that are used when the configuration has none. No command occurs twice.\<close>

definition DEFAULT_MAPPINGS :: "(UiCommand \<times> Key) list" where
  "DEFAULT_MAPPINGS =
    [(UiCommand.Select, Key.Enter), (UiCommand.Up, Key.Up), (UiCommand.Down, Key.Down),
     (UiCommand.Left, Key.Left), (UiCommand.Right, Key.Right), (UiCommand.RightUp, Key.RightUp),
     (UiCommand.RightDown, Key.RightDown), (UiCommand.LeftUp, Key.LeftUp),
     (UiCommand.LeftDown, Key.LeftDown), (UiCommand.DeviceRootMenu, Key.RootMenu),
     (UiCommand.DeviceSetupMenu, Key.Setup), (UiCommand.ContentsMenu, Key.Menu),
     (UiCommand.FavoriteMenu, Key.Favorites), (UiCommand.Back, Key.Esc),
     (UiCommand.MediaTopMenu, Key.MediaTopMenu),
     (UiCommand.MediaContextSensitiveMenu, Key.ContextMenu),
     (UiCommand.NumberEntryMode, Key.Digits), (UiCommand.Number11, Key.Numeric11),
     (UiCommand.Number12, Key.Numeric12), (UiCommand.Number0OrNumber10, Key.Num0),
     (UiCommand.Number1, Key.Num1), (UiCommand.Number2, Key.Num2), (UiCommand.Number3, Key.Num3),
     (UiCommand.Number4, Key.Num4), (UiCommand.Number5, Key.Num5), (UiCommand.Number6, Key.Num6),
     (UiCommand.Number7, Key.Num7), (UiCommand.Number8, Key.Num8), (UiCommand.Number9, Key.Num9),
     (UiCommand.Dot, Key.Dot), (UiCommand.Enter, Key.Enter), (UiCommand.Clear, Key.Clear),
     (UiCommand.NextFavorite, Key.NextFavorite), (UiCommand.ChannelUp, Key.ChannelUp),
     (UiCommand.ChannelDown, Key.ChannelDown), (UiCommand.PreviousChannel, Key.Previous),
     (UiCommand.SoundSelect, Key.Sound), (UiCommand.DisplayInformation, Key.Info),
     (UiCommand.Help, Key.Help), (UiCommand.PageUp, Key.PageUp),
     (UiCommand.PageDown, Key.PageDown), (UiCommand.Power, Key.Power),
     (UiCommand.VolumeUp, Key.VolumeUp), (UiCommand.VolumeDown, Key.VolumeDown),
     (UiCommand.Mute, Key.Mute), (UiCommand.Play, Key.PlayCD), (UiCommand.Stop, Key.StopCD),
     (UiCommand.Pause, Key.PauseCD), (UiCommand.Record, Key.Record),
     (UiCommand.Rewind, Key.Rewind), (UiCommand.FastForward, Key.FastForward),
     (UiCommand.Eject, Key.EjectCD), (UiCommand.SkipForward, Key.NextSong),
     (UiCommand.SkipBackward, Key.PreviousSong), (UiCommand.StopRecord, Key.StopRecord),
     (UiCommand.PauseRecord, Key.PauseRecord), (UiCommand.Angle, Key.Angle),
     (UiCommand.VideoOnDemand, Key.Vod), (UiCommand.ElectronicProgramGuide, Key.EPG),
     (UiCommand.TimerProgramming, Key.Time), (UiCommand.InitialConfiguration, Key.Config),
     (UiCommand.AudioDescription, Key.AudioDesc), (UiCommand.Internet, Key.WWW),
     (UiCommand.ThreeDMode, Key.Audio3dMode), (UiCommand.RestoreVolumeFunction, Key.Unmute),
     (UiCommand.PowerToggleFunction, Key.Power), (UiCommand.PowerOffFunction, Key.Sleep),
     (UiCommand.PowerOnFunction, Key.Wakeup), (UiCommand.F1Blue, Key.Blue),
     (UiCommand.F2Red, Key.Red), (UiCommand.F3Green, Key.Green),
     (UiCommand.F4Yellow, Key.Yellow), (UiCommand.F5, Key.F5), (UiCommand.Data, Key.Data)]"

lemma DEFAULT_MAPPINGS_distinct: "distinct (map fst DEFAULT_MAPPINGS)"
proof -
  have "distinct (map UiCommand_discriminant (map fst DEFAULT_MAPPINGS))"
    by (simp add: DEFAULT_MAPPINGS_def)
  then show ?thesis by (simp only: distinct_map [of UiCommand_discriminant])
qed

section \<open>The system\<close>

datatype SystemMessage =
  Wake bool bool | Standby bool bool | ReloadConfig | ReconfigureConnector ConnectorInfo

text \<open>A remote handler of messages: the name of its owner on the bus, and its object.\<close>

record Handler =
  handler_bus_name :: string
  handler_object :: string

record System =
  sys_osd_name :: "u8 list"
  config :: Config
  sys_standby :: bool
  inhibit_fd :: bool
  message_handlers :: "u8 \<rightharpoonup> Handler"
  sys_channel :: "SystemMessage list"

datatype Signal =
  ReceivedMessage u8 u8 "64 word" "u8 list" | UserControlPressedSignal "u8 list" u8 |
  UserControlReleasedSignal u8 | PhysicalAddressChanged | VendorIdChanged |
  LogicalAddressesChanged | ActiveChanged | AudioLogicalAddressChanged

text \<open>What a remote handler may do with a message: not answer in time, answer, or fail.\<close>

datatype HandlerOutcome = HandlerTimeout | HandlerReply bool u8 | HandlerError

record 'k environment =
  cec :: "'k kernel"
  files :: "'k files"
  debug_status :: "u8 \<Rightarrow> string"
  emit_signal :: "Signal \<Rightarrow> 'k \<Rightarrow> string option \<times> 'k"
  open_uinput :: "'k \<Rightarrow> string option \<times> 'k"
  create_uinput :: "UInputDevice \<Rightarrow> 'k \<Rightarrow> string option \<times> 'k"
  write_key :: "Key \<times> KeyState \<Rightarrow> 'k \<Rightarrow> string option \<times> 'k"
  login_suspend :: "'k \<Rightarrow> string option \<times> 'k"
  login_inhibit :: "'k \<Rightarrow> bool \<times> 'k"
  gethostname :: "'k \<Rightarrow> u8 list option \<times> 'k"
  call_handler :: "Handler \<Rightarrow> u8 \<Rightarrow> u8 \<Rightarrow> 64 word \<Rightarrow> u8 list \<Rightarrow> 'k \<Rightarrow> HandlerOutcome \<times> 'k"

type_synonym ('k, 'a) system_action = "(System \<times> 'k, 'a) action"

text \<open>Calls of the world, on the second part of a state.\<close>

definition on_world :: "('k, 'a) action \<Rightarrow> ('s \<times> 'k, 'a) action" where
  "on_world m = (\<lambda>(s, k). case m k of (r, k') \<Rightarrow> (r, s, k'))"

definition call :: "('k \<Rightarrow> 'a \<times> 'k) \<Rightarrow> ('k, 'a) action" where
  "call f = (\<lambda>k. case f k of (x, k') \<Rightarrow> (Done x, k'))"

definition call_io :: "('k \<Rightarrow> string option \<times> 'k) \<Rightarrow> ('k, unit) action" where
  "call_io f = (\<lambda>k. case f k of (e, k') \<Rightarrow> (io_outcome e, k'))"

definition on_system :: "(System \<Rightarrow> System) \<Rightarrow> ('k, unit) system_action" where
  "on_system f = act_modify (\<lambda>(s, k). (f s, k))"

section \<open>Names\<close>

text \<open>
  \<open>str::is_char_boundary\<close> on the UTF-8 bytes of a string: a byte \<open>10xxxxxx\<close> continues a character.
\<close>

definition is_char_boundary :: "u8 list \<Rightarrow> nat \<Rightarrow> bool" where
  "is_char_boundary s i \<longleftrightarrow>
     i = 0 \<or> i = length s \<or> (i < length s \<and> s ! i AND 0xC0 \<noteq> 0x80)"

text \<open>The longest prefix of 10 to 14 bytes that ends between two characters.\<close>

definition trimmed_osd_name :: "System \<Rightarrow> u8 list result" where
  "trimmed_osd_name s =
     (if length (sys_osd_name s) \<le> 14 then Ok (sys_osd_name s)
      else
        (case List.find (is_char_boundary (sys_osd_name s)) [14, 13, 12, 11, 10] of
           Some i \<Rightarrow> Ok (take i (sys_osd_name s))
         | None \<Rightarrow> Panic))"

definition default_osd_name :: "u8 list option \<Rightarrow> u8 list" where
  "default_osd_name hostname =
     (case hostname of
        Some name \<Rightarrow> if name \<noteq> [] then name else map (\<lambda>c. of_char c) ''CEC Device''
      | None \<Rightarrow> map (\<lambda>c. of_char c) ''CEC Device'')"

definition System_new :: "'k environment \<Rightarrow> ('k, System) action" where
  "System_new E =
     act_bind (call (gethostname E)) (\<lambda>hostname.
     act_bind (call (login_inhibit E)) (\<lambda>inhibit.
     act_return (Done
       \<lparr>sys_osd_name = default_osd_name hostname, config = Config_default, sys_standby = False,
        inhibit_fd = inhibit, message_handlers = Map.empty, sys_channel = []\<rparr>)))"

section \<open>Configuration and messages\<close>

definition send_message :: "SystemMessage \<Rightarrow> ('k, unit) system_action" where
  "send_message m = on_system (\<lambda>s. s\<lparr>sys_channel := sys_channel s @ [m]\<rparr>)"

definition set_config :: "'k environment \<Rightarrow> Config \<Rightarrow> ('k, unit) system_action" where
  "set_config E new_config =
     act_then (case cfg_osd_name new_config of
         Some name \<Rightarrow> on_system (\<lambda>s. s\<lparr>sys_osd_name := name\<rparr>)
       | None \<Rightarrow> act_skip)
     (act_then (on_system (\<lambda>s. s\<lparr>config := new_config\<rparr>))
     (act_then (on_system (\<lambda>s.
         if cfg_logical_address (config s) = LogicalAddressType.Unregistered
         then s\<lparr>config := (config s)\<lparr>cfg_logical_address := LogicalAddressType.Playback\<rparr>\<rparr>
         else s))
     (act_then (if cfg_osd_name new_config = None then
         act_bind (on_world (call (gethostname E))) (\<lambda>hostname.
         on_system (\<lambda>s. s\<lparr>config := (config s)\<lparr>cfg_osd_name := Some (default_osd_name hostname)\<rparr>\<rparr>))
       else act_skip)
     (act_then (on_system (\<lambda>s.
         if cfg_mappings (config s) = Map.empty
         then s\<lparr>config := (config s)\<lparr>cfg_mappings := map_of DEFAULT_MAPPINGS\<rparr>\<rparr>
         else s))
     (send_message ReloadConfig)))))"

definition reconfig_connector :: "ConnectorInfo \<Rightarrow> ('k, unit) system_action" where
  "reconfig_connector info = send_message (ReconfigureConnector info)"

definition wake_all :: "('k, unit) system_action" where
  "wake_all = send_message (Wake True False)"

definition standby_all :: "bool \<Rightarrow> ('k, unit) system_action" where
  "standby_all force = send_message (Standby True force)"

section \<open>Sleep\<close>

text \<open>The body of \<open>SystemHandle::run\<close> for one message of the login manager.\<close>

definition prepare_for_sleep :: "'k environment \<Rightarrow> bool \<Rightarrow> ('k, unit) system_action" where
  "prepare_for_sleep E sleep =
     (if \<not> sleep then
        act_then (on_system (\<lambda>s. s\<lparr>sys_standby := False\<rparr>))
        (act_then (act_state (\<lambda>(s, k). send_message (Wake (cfg_wake_tv (config s)) True)))
        (act_bind (on_world (call (login_inhibit E))) (\<lambda>inhibit.
        on_system (\<lambda>s. s\<lparr>inhibit_fd := inhibit\<rparr>))))
      else
        act_then (act_state (\<lambda>(s, k).
          send_message (Standby (cfg_suspend_tv (config s) \<and> \<not> sys_standby s) False)))
        (act_then (on_system (\<lambda>s. s\<lparr>sys_standby := True\<rparr>))
        (on_system (\<lambda>s. s\<lparr>inhibit_fd := False\<rparr>))))"

definition suspend :: "'k environment \<Rightarrow> ('k, unit) system_action" where
  "suspend E =
     act_state (\<lambda>(s, k).
     if sys_standby s then act_skip
     else
       act_then (on_system (\<lambda>s. s\<lparr>sys_standby := True\<rparr>))
       (on_world (call_io (login_suspend E))))"

section \<open>Handlers\<close>

definition get_message_handler :: "u8 \<Rightarrow> System \<Rightarrow> Handler option" where
  "get_message_handler oc s = message_handlers s oc"

text \<open>\<open>start\<close>: the task that waits for the owner to leave, and the proxy, may fail to start.\<close>

definition register_message_handler ::
  "('k \<Rightarrow> string option \<times> 'k) \<Rightarrow> u8 \<Rightarrow> string \<Rightarrow> string \<Rightarrow> ('k, bool) system_action" where
  "register_message_handler start oc object bus_name =
     act_state (\<lambda>(s, k).
     if message_handlers s oc \<noteq> None then act_return (Done False)
     else
       act_then (on_world (call_io start))
       (act_then (on_system (\<lambda>s. s\<lparr>message_handlers := (message_handlers s)(oc \<mapsto>
           \<lparr>handler_bus_name = bus_name, handler_object = object\<rparr>)\<rparr>))
       (act_return (Done True))))"

definition unregister_message_handler :: "u8 \<Rightarrow> string \<Rightarrow> ('k, bool) system_action" where
  "unregister_message_handler oc bus_name =
     act_state (\<lambda>(s, k).
     case message_handlers s oc of
       Some h \<Rightarrow>
         if handler_bus_name h = bus_name then
           act_then (on_system (\<lambda>s. s\<lparr>message_handlers := (message_handlers s)(oc := None)\<rparr>))
           (act_return (Done True))
         else act_return (Done False)
     | None \<Rightarrow> act_return (Done False))"

text \<open>\<open>MessageHandler::handle\<close>: every outcome but an acceptance is an abort.\<close>

definition handle_reply :: "bool \<Rightarrow> u8 \<Rightarrow> AbortReason option" where
  "handle_reply accepted reason =
     (if accepted then None
      else Some (case try_from_primitive ''AbortReason'' AbortReason_variants
                     AbortReason_into reason of
                   Ok r \<Rightarrow> r
                 | _ \<Rightarrow> AbortReason.Undetermined))"

definition handler_abort :: "HandlerOutcome \<Rightarrow> AbortReason option" where
  "handler_abort res =
     (case res of
        HandlerTimeout \<Rightarrow> Some AbortReason.Undetermined
      | HandlerReply accepted reason \<Rightarrow> handle_reply accepted reason
      | HandlerError \<Rightarrow> Some AbortReason.Undetermined)"

section \<open>UTF-8\<close>

text \<open>
  The part of the encoding that the trimming relies on: a character has one to four bytes, of
  which exactly the first is no continuation byte. Every Rust string is of this form.
\<close>

definition utf8_char :: "u8 list \<Rightarrow> bool" where
  "utf8_char c \<longleftrightarrow> c \<noteq> [] \<and> length c \<le> 4 \<and> hd c AND 0xC0 \<noteq> 0x80 \<and>
     list_all (\<lambda>b. b AND 0xC0 = 0x80) (tl c)"

definition utf8 :: "u8 list \<Rightarrow> bool" where
  "utf8 s \<longleftrightarrow> (\<exists>cs. s = concat cs \<and> list_all utf8_char cs)"

definition char_starts :: "u8 list \<Rightarrow> nat \<Rightarrow> bool" where
  "char_starts s i \<longleftrightarrow> i = length s \<or> i < length s \<and> s ! i AND 0xC0 \<noteq> 0x80"

lemma char_starts_append: "char_starts (c @ s) (length c + i) \<longleftrightarrow> char_starts s i"
  by (simp add: char_starts_def nth_append)

lemma char_starts_zero: "list_all utf8_char cs \<Longrightarrow> char_starts (concat cs) 0"
  by (cases cs) (auto simp: char_starts_def utf8_char_def hd_conv_nth nth_append)

text \<open>Characters start at most four bytes apart.\<close>

lemma char_start_near:
  "list_all utf8_char cs \<Longrightarrow> n \<le> length (concat cs) \<Longrightarrow>
   \<exists>i. i \<le> n \<and> n < i + 4 \<and> char_starts (concat cs) i"
proof (induction cs arbitrary: n)
  case Nil
  then show ?case by (simp add: char_starts_def)
next
  case (Cons c cs)
  show ?case
  proof (cases "n < length c")
    case True
    then have "n < 4" using Cons.prems by (auto simp: utf8_char_def)
    with char_starts_zero [OF Cons.prems(1)] show ?thesis by (intro exI [of _ 0]) simp
  next
    case False
    then have "n - length c \<le> length (concat cs)" using Cons.prems(2) by simp
    with Cons.IH Cons.prems(1) obtain i where i: "i \<le> n - length c" "n - length c < i + 4"
        "char_starts (concat cs) i" by auto
    with False char_starts_append [of c "concat cs" i] show ?thesis
      by (intro exI [of _ "length c + i"]) auto
  qed
qed

text \<open>What comes before the start of a character is a string.\<close>

lemma utf8_take:
  "list_all utf8_char cs \<Longrightarrow> char_starts (concat cs) i \<Longrightarrow>
   \<exists>k. take i (concat cs) = concat (take k cs)"
proof (induction cs arbitrary: i)
  case Nil
  then show ?case by simp
next
  case (Cons c cs)
  consider "i = 0" | "0 < i" "i < length c" | "length c \<le> i" by linarith
  then show ?case
  proof cases
    case 1
    then show ?thesis by (intro exI [of _ 0]) simp
  next
    case 2
    then have "c ! i AND 0xC0 = 0x80"
      using Cons.prems(1) by (cases c; cases i) (auto simp: utf8_char_def list_all_length)
    with 2 Cons.prems(2) show ?thesis by (simp add: char_starts_def nth_append)
  next
    case 3
    then obtain j where j: "i = length c + j" using le_Suc_ex by blast
    then have "char_starts (concat cs) j"
      using Cons.prems(2) char_starts_append [of c "concat cs" j] by simp
    with Cons obtain k where "take j (concat cs) = concat (take k cs)" by auto
    with j show ?thesis by (intro exI [of _ "Suc k"]) simp
  qed
qed

lemma trimmed_osd_name_ok:
  assumes "utf8 (sys_osd_name s)"
  obtains name where "trimmed_osd_name s = Ok name" "utf8 name" "length name \<le> 14"
    "name = take (length name) (sys_osd_name s)" "length name = length (sys_osd_name s) \<or> 11 \<le> length name"
proof (cases "length (sys_osd_name s) \<le> 14")
  case True
  then show thesis
    using that [of "sys_osd_name s"] assms by (simp add: trimmed_osd_name_def)
next
  case False
  let ?n = "sys_osd_name s"
  obtain cs where cs: "?n = concat cs" "list_all utf8_char cs"
    using assms unfolding utf8_def by blast
  obtain i where i: "i \<le> 14" "14 < i + 4" "char_starts ?n i"
    using char_start_near [OF cs(2), of 14] False cs(1) by auto
  then have "i \<in> set [14, 13, 12, 11]" "is_char_boundary ?n i"
    by (auto simp: char_starts_def is_char_boundary_def)
  then have "\<exists>j. List.find (is_char_boundary ?n) [14, 13, 12, 11, 10] = Some j \<and>
      j \<in> set [14, 13, 12, 11] \<and> is_char_boundary ?n j"
    by (cases "is_char_boundary ?n 14"; cases "is_char_boundary ?n 13";
        cases "is_char_boundary ?n 12") auto
  then obtain j where j: "List.find (is_char_boundary ?n) [14, 13, 12, 11, 10] = Some j"
      "j \<in> set [14, 13, 12, 11]" "is_char_boundary ?n j"
    by blast
  then have "char_starts ?n j" "j \<le> length ?n" "j \<le> 14" "11 \<le> j"
    using False by (auto simp: is_char_boundary_def char_starts_def)
  moreover from this obtain k where "take j ?n = concat (take k cs)"
    using utf8_take [OF cs(2), of j] cs(1) by auto
  then have "utf8 (take j ?n)"
    using cs(2) unfolding utf8_def by (metis list_all_iff in_set_takeD)
  ultimately show thesis
    using that [of "take j ?n"] j(1) False by (simp add: trimmed_osd_name_def)
qed

end
