(* ===== verification/DeviceTask.thy ===== *)
theory DeviceTask
  imports DaemonSystem
begin

text \<open>
  The task that owns a device: \<open>DeviceTask\<close> of \<open>cecd/src/device.rs\<close> and \<open>System::configure_dev\<close> of
  \<open>cecd/src/system.rs\<close>.

  A method runs from one state of the task to the next. The state holds what the method can reach:
  the device, the object on the bus (\<open>CecDevice\<close> of \<open>cecd/src/dbus.rs\<close>), the system, and the
  world. The callbacks that wait for a logical address are the three that the code creates, and
  the background jobs it spawns are collected in \<open>jobs\<close>: one runs when the lock of the device is
  free, so it is a step of its own. Sleeping has no effect.
\<close>

section \<open>State\<close>

text \<open>
  A key that is repeated on behalf of a client: whether its task has pressed it yet, and the error
  that has ended the task.
\<close>

record KeyRepeat =
  repeat_key :: UiCommand
  repeat_target :: LogicalAddress
  repeat_started :: bool
  repeat_error :: "anyhow option"

record CecDevice =
  cached_phys_addr :: u16
  cached_log_addrs :: "u8 list"
  cached_vendor_id :: u32
  cached_active :: bool
  cached_audio_log_addr :: u8
  channel :: "SystemMessage list option"
  key_repeat :: "u8 \<rightharpoonup> KeyRepeat"
  uinput :: "UInputDevice option"

datatype Callback = PendingActivate | ReportPowerOn | WakeTv

datatype Job = QueryActiveSource | QueryAudioSystem

record 'k DeviceTask =
  device :: Device
  world :: 'k
  system :: System
  interface :: CecDevice
  active_key :: "UiCommand option"
  log_addr_try :: int
  awaiting_wake :: bool
  active :: bool
  connector :: "DrmConnector option"
  audio_log_addr :: LogicalAddress
  with_logical_address_queue :: "Callback list"
  jobs :: "Job list"

definition LOG_ADDR_RETRIES :: int where "LOG_ADDR_RETRIES = 20"
definition WAKE_TRIES :: nat where "WAKE_TRIES = 2"
definition REPLY_RETRIES :: nat where "REPLY_RETRIES = 4"

type_synonym ('k, 'a) task_action = "('k DeviceTask, 'a) action"

text \<open>Actions on a part of the state.\<close>

definition on_device :: "('k, 'a) device_op \<Rightarrow> ('k, 'a) task_action" where
  "on_device m = (\<lambda>t. case m (device t, world t) of
     (r, d, k) \<Rightarrow> (outcome_of r, t\<lparr>device := d, world := k\<rparr>))"

definition in_system :: "('k, 'a) system_action \<Rightarrow> ('k, 'a) task_action" where
  "in_system m = (\<lambda>t. case m (system t, world t) of
     (r, s, k) \<Rightarrow> (r, t\<lparr>system := s, world := k\<rparr>))"

definition in_world :: "('k, 'a) action \<Rightarrow> ('k, 'a) task_action" where
  "in_world m = (\<lambda>t. case m (world t) of (r, k) \<Rightarrow> (r, t\<lparr>world := k\<rparr>))"

text \<open>\<open>if let Some(uinput) = \<dots>uinput.as_mut()\<close>.\<close>

definition with_uinput :: "('k, unit) uinput_action \<Rightarrow> ('k, unit) task_action" where
  "with_uinput m = (\<lambda>t. case uinput (interface t) of
     None \<Rightarrow> (Done (), t)
   | Some u \<Rightarrow> (case m (u, world t) of
       (r, u', k) \<Rightarrow> (r, t\<lparr>interface := (interface t)\<lparr>uinput := Some u'\<rparr>, world := k\<rparr>)))"

definition signal :: "'k environment \<Rightarrow> Signal \<Rightarrow> ('k, unit) task_action" where
  "signal E s = in_world (call_io (emit_signal E s))"

definition set_interface :: "(CecDevice \<Rightarrow> CecDevice) \<Rightarrow> ('k, unit) task_action" where
  "set_interface f = act_modify (\<lambda>t. t\<lparr>interface := f (interface t)\<rparr>)"

section \<open>Configuring a device\<close>

definition CAP_PHYS_ADDR :: u32 where "CAP_PHYS_ADDR = 1"
definition CAP_LOG_ADDRS :: u32 where "CAP_LOG_ADDRS = 2"
definition CAP_CONNECTOR_INFO :: u32 where "CAP_CONNECTOR_INFO = 0x100"

text \<open>The error number 16 of Linux, which \<open>from_errno\<close> keeps as a system error.\<close>

definition EBUSY :: Errno where "EBUSY = Errno_other 16"

text \<open>The physical address of an adapter that cannot find it out by itself.\<close>

definition configure_physical_address ::
  "'k environment \<Rightarrow> DrmConnector option \<Rightarrow> ('k, DrmConnector option) task_action" where
  "configure_physical_address E conn =
     (case conn of
        Some c \<Rightarrow>
          act_bind (in_world (reload_physical_address (files E) c)) (\<lambda>c.
          act_then (on_device (set_physical_address (cec E) (drm_physical_address c)))
          (act_return (Done (Some c))))
      | None \<Rightarrow>
          act_bind (act_attempt (in_world (find_physical_address (files E)))) (\<lambda>found.
          case found of
            Inr (Some c) \<Rightarrow>
              act_then (on_device (set_physical_address (cec E) (drm_physical_address c)))
              (act_return (Done (Some c)))
          | _ \<Rightarrow>
              act_state (\<lambda>t.
              act_then (on_device (set_physical_address (cec E)
                (case cfg_physical_address (config (system t)) of
                   Some address \<Rightarrow> address
                 | None \<Rightarrow> PhysicalAddress_default)))
              (act_return (Done None)))))"

text \<open>The loop around \<open>clear_logical_addresses\<close>: \<open>n\<close> tries, of which the last one may not fail.\<close>

primrec clear_busy :: "'k environment \<Rightarrow> nat \<Rightarrow> ('k, unit) task_action" where
  "clear_busy E 0 = act_skip" |
  "clear_busy E (Suc n) =
     act_bind (act_attempt (on_device (clear_logical_addresses (cec E)))) (\<lambda>res.
     case res of
       Inl e \<Rightarrow>
         if e = Library (SystemError EBUSY) then
           (if n = 0 then act_return (Fail (Other ''EBUSY'')) else clear_busy E n)
         else act_return (Fail e)
     | Inr _ \<Rightarrow> act_skip)"

definition configure_logical_address :: "'k environment \<Rightarrow> ('k, unit) task_action" where
  "configure_logical_address E =
     act_then (clear_busy E 5)
     (act_state (\<lambda>t.
     act_bind (act_return (outcome_of (trimmed_osd_name (system t)))) (\<lambda>name.
     act_then (on_device (set_osd_name (debug_status E) (cec E) name))
     (act_then (on_device (set_vendor_id (cfg_vendor_id (config (system t)))))
     (on_device (set_logical_address (cec E) (cfg_logical_address (config (system t)))))))))"

definition configure_dev ::
  "'k environment \<Rightarrow> DrmConnector option \<Rightarrow> ('k, DrmConnector option) task_action" where
  "configure_dev E conn =
     act_bind (on_device (get_driver_name (cec E))) (\<lambda>_.
     act_bind (on_device (get_adapter_name (cec E))) (\<lambda>_.
     act_bind (on_device (get_capabilities (cec E))) (\<lambda>caps.
     act_bind (case conn of
         Some c \<Rightarrow> in_world (to_connector_info (files E) c)
       | None \<Rightarrow>
           if contains caps CAP_CONNECTOR_INFO then on_device (get_connector_info (cec E))
           else act_return (Done NoConnector)) (\<lambda>conn_info.
     act_then (on_device (set_initiator_mode (cec E) InitiatorMode.Enabled))
     (act_bind (if contains caps CAP_PHYS_ADDR then configure_physical_address E conn
       else (case conn_info of
           ConnectorInfo.DrmConnector card_no connector_id \<Rightarrow>
             act_bind (on_device (get_physical_address (cec E))) (\<lambda>address.
             act_bind (in_world (from_connector_info (files E)
               (ConnectorInfo.DrmConnector card_no connector_id) address)) (\<lambda>c.
             act_return (Done (Some c))))
         | _ \<Rightarrow> act_return (Done None))) (\<lambda>new_connector.
     act_then (if contains caps CAP_LOG_ADDRS then configure_logical_address E else act_skip)
     (act_then (on_device (set_follower_mode (cec E) FollowerMode.Enabled))
     (act_return (Done new_connector)))))))))"

text \<open>\<open>configure_uinput\<close>: the old virtual keyboard is dropped in any case.\<close>

definition open_keyboard ::
  "'k environment \<Rightarrow> (UiCommand \<rightharpoonup> Key) \<Rightarrow> u8 list \<Rightarrow> ('k, unit) uinput_action" where
  "open_keyboard E mappings name =
     act_then (set_mappings mappings)
     (act_then (set_name name)
     (uinput_open (create_uinput E)))"

definition configure_uinput :: "'k environment \<Rightarrow> ('k, unit) task_action" where
  "configure_uinput E =
     act_then (set_interface (\<lambda>i. i\<lparr>uinput := None\<rparr>))
     (act_state (\<lambda>t.
     if cfg_mappings (config (system t)) = Map.empty \<or> \<not> cfg_uinput (config (system t)) then act_skip
     else
       act_bind (on_device (get_adapter_name (cec E))) (\<lambda>adapter.
       act_then (in_world (call_io (open_uinput E)))
       (\<lambda>t'. case open_keyboard E (cfg_mappings (config (system t)))
           (map (\<lambda>c. of_char c) ''cecd '' @ adapter) (UInputDevice_new, world t') of
         (r, u, k) \<Rightarrow>
           (r, case r of
                 Done _ \<Rightarrow> t'\<lparr>world := k, interface := (interface t')\<lparr>uinput := Some u\<rparr>\<rparr>
               | _ \<Rightarrow> t'\<lparr>world := k\<rparr>)))))"

section \<open>Activation\<close>

definition set_active :: "'k environment \<Rightarrow> bool \<Rightarrow> ('k, unit) task_action" where
  "set_active E is_active =
     act_state (\<lambda>t.
     if active t = is_active then act_skip
     else
       act_then (act_modify (\<lambda>t. t\<lparr>active := is_active\<rparr>))
       (if cached_active (interface t) \<noteq> is_active then
          act_then (set_interface (\<lambda>i. i\<lparr>cached_active := is_active\<rparr>)) (signal E ActiveChanged)
        else act_skip))"

definition spawn :: "Job \<Rightarrow> ('k, unit) task_action" where
  "spawn job = act_modify (\<lambda>t. t\<lparr>jobs := jobs t @ [job]\<rparr>)"

definition pending_activate :: "'k environment \<Rightarrow> ('k, unit) task_action" where
  "pending_activate E = act_then (spawn QueryActiveSource) (set_active E True)"

definition query_audio_system :: "('k, unit) task_action" where
  "query_audio_system = spawn QueryAudioSystem"

text \<open>\<open>get_logical_addresses().await.unwrap_or_default()\<close>.\<close>

definition current_log_addrs :: "'k environment \<Rightarrow> ('k, LogicalAddress list) task_action" where
  "current_log_addrs E =
     act_bind (act_attempt (on_device (get_logical_addresses (cec E)))) (\<lambda>res.
     act_return (Done (case res of Inl _ \<Rightarrow> [] | Inr addrs \<Rightarrow> addrs)))"

definition job_message :: "Job \<Rightarrow> Message \<times> LogicalAddress" where
  "job_message job =
     (case job of
        QueryActiveSource \<Rightarrow> (Message.RequestActiveSource, LogicalAddress_Broadcast)
      | QueryAudioSystem \<Rightarrow> (Message.GiveSystemAudioModeStatus, LogicalAddress.AudioSystem))"

text \<open>The body of a spawned job; an error is only logged.\<close>

definition run_job :: "'k environment \<Rightarrow> Job \<Rightarrow> ('k, unit) task_action" where
  "run_job E job =
     act_bind (current_log_addrs E) (\<lambda>addrs.
     if addrs = [] then act_skip
     else act_logged (on_device
       (tx_message (debug_status E) (cec E) (fst (job_message job)) (snd (job_message job)))))"

section \<open>Waking the TV\<close>

text \<open>The loop of \<open>wake\<close>, with \<open>n\<close> tries left.\<close>

primrec wake_loop :: "'k environment \<Rightarrow> nat \<Rightarrow> ('k, unit) task_action" where
  "wake_loop E 0 = act_skip" |
  "wake_loop E (Suc n) =
     (let disconnected =
        act_then (act_modify (\<lambda>t. t\<lparr>awaiting_wake := False\<rparr>)) (act_return (Fail (Library Disconnected)))
      in
      act_bind (act_attempt (on_device (set_active_source (debug_status E) (cec E) None))) (\<lambda>result.
      case result of
        Inr _ \<Rightarrow> act_state (\<lambda>t. if \<not> awaiting_wake t then act_skip else wake_loop E n)
      | Inl e \<Rightarrow>
          if e = Library NoLogicalAddress then
            act_bind (act_state (\<lambda>t. act_attempt (configure_dev E (connector t)))) (\<lambda>res.
            case res of
              Inr conn \<Rightarrow>
                act_then (act_modify (\<lambda>t. t\<lparr>connector := conn\<rparr>)) (wake_loop E n)
            | Inl err \<Rightarrow> if err = Library Disconnected then disconnected else wake_loop E n)
          else if e = Library Disconnected then disconnected
          else wake_loop E n))"

definition DeviceTask_wake :: "'k environment \<Rightarrow> ('k, unit) task_action" where
  "DeviceTask_wake E =
     act_then (on_device (wake (debug_status E) (cec E) False False))
     (act_then (act_modify (\<lambda>t. t\<lparr>awaiting_wake := True\<rparr>))
     (wake_loop E WAKE_TRIES))"

section \<open>Callbacks\<close>

definition run_callback :: "'k environment \<Rightarrow> Callback \<Rightarrow> ('k, unit) task_action" where
  "run_callback E cb =
     (case cb of
        PendingActivate \<Rightarrow> pending_activate E
      | ReportPowerOn \<Rightarrow>
          act_then (on_device (tx_message (debug_status E) (cec E)
            (Message.ReportPowerStatus PowerStatus.On) LogicalAddress_Broadcast)) act_skip
      | WakeTv \<Rightarrow> DeviceTask_wake E)"

definition with_logical_address :: "'k environment \<Rightarrow> Callback \<Rightarrow> ('k, unit) task_action" where
  "with_logical_address E cb =
     act_bind (current_log_addrs E) (\<lambda>addrs.
     if addrs = []
     then act_modify (\<lambda>t. t\<lparr>with_logical_address_queue := with_logical_address_queue t @ [cb]\<rparr>)
     else act_logged (run_callback E cb))"

text \<open>\<open>drain(0..)\<close>, and then the callbacks in their order.\<close>

definition drain_queue :: "'k environment \<Rightarrow> ('k, unit) task_action" where
  "drain_queue E =
     act_state (\<lambda>t.
     act_then (act_modify (\<lambda>t. t\<lparr>with_logical_address_queue := []\<rparr>))
     (act_list (\<lambda>cb. act_logged (run_callback E cb)) (with_logical_address_queue t)))"

text \<open>The check that follows a start and a new address.\<close>

definition request_active_source :: "'k environment \<Rightarrow> ('k, unit) task_action" where
  "request_active_source E =
     act_state (\<lambda>t.
     if cfg_request_active_source (config (system t)) then with_logical_address E PendingActivate
     else act_skip)"

section \<open>Received messages\<close>

type_synonym Reply = "(Message \<times> LogicalAddress) option"

text \<open>A key is pressed: the key of the last command goes up before the new one goes down.\<close>

definition press_key :: "'k environment \<Rightarrow> UiCommand \<Rightarrow> ('k, unit) task_action" where
  "press_key E ui_command =
     act_state (\<lambda>t.
     act_then (with_uinput
       (act_then (case active_key t of
           Some old_key \<Rightarrow> key_up (write_key E) old_key
         | None \<Rightarrow> act_skip)
       (key_down (write_key E) ui_command)))
     (act_modify (\<lambda>t. t\<lparr>active_key := Some ui_command\<rparr>)))"

definition release_key :: "'k environment \<Rightarrow> ('k, unit) task_action" where
  "release_key E =
     act_state (\<lambda>t.
     case active_key t of
       Some old_key \<Rightarrow>
         act_then (with_uinput (key_up (write_key E) old_key))
         (act_modify (\<lambda>t. t\<lparr>active_key := None\<rparr>))
     | None \<Rightarrow> act_skip)"

definition set_audio_system ::
  "'k environment \<Rightarrow> bool \<Rightarrow> LogicalAddress \<Rightarrow> ('k, unit) task_action" where
  "set_audio_system E status source =
     act_then (act_modify (\<lambda>t. t\<lparr>audio_log_addr := (if status then source else LogicalAddress.Tv)\<rparr>))
     (act_state (\<lambda>t.
     if cached_audio_log_addr (interface t) \<noteq> LogicalAddress_into (audio_log_addr t) then
       act_then (set_interface (\<lambda>i. i\<lparr>cached_audio_log_addr := LogicalAddress_into (audio_log_addr t)\<rparr>))
       (signal E AudioLogicalAddressChanged)
     else act_skip))"

text \<open>\<open>MessageHandler::handle\<close>, and the abort of a message that nobody handles.\<close>

definition default_reply :: "'k environment \<Rightarrow> Envelope \<Rightarrow> ('k, Reply) task_action" where
  "default_reply E env =
     (if env_destination env \<noteq> LogicalAddress_Broadcast then
        act_bind (act_return (outcome_of (MessageData_opcode (message env)))) (\<lambda>oc.
        act_state (\<lambda>t.
        case get_message_handler oc (system t) of
          Some handler \<Rightarrow>
            act_bind (act_return (outcome_of (unwrap_option (MessageData_to_bytes (message env)))))
              (\<lambda>bytes.
            act_bind (in_world (call (call_handler E handler
              (LogicalAddress_into (env_initiator env)) (LogicalAddress_into (env_destination env))
              (timestamp env) bytes))) (\<lambda>res.
            act_return (Done (map_option
              (\<lambda>abort_reason. (Message.FeatureAbort oc abort_reason, env_initiator env))
              (handler_abort res)))))
        | None \<Rightarrow>
            act_return (Done (Some
              (Message.FeatureAbort oc AbortReason.UnrecognizedOp, env_initiator env)))))
      else act_return (Done None))"

definition no_reply :: "('k, unit) task_action \<Rightarrow> ('k, Reply) task_action" where
  "no_reply m = act_then m (act_return (Done None))"

text \<open>
  The \<open>match\<close> of \<open>handle_message\<close>. An arm whose guard fails falls through to the last two arms.
\<close>

definition message_reply :: "'k environment \<Rightarrow> Envelope \<Rightarrow> ('k, Reply) task_action" where
  "message_reply E env =
     (let this_address = on_device (get_physical_address (cec E)) in
      case message env of
        Valid Message.GiveDevicePowerStatus \<Rightarrow>
          act_return (Done (Some (Message.ReportPowerStatus PowerStatus.On, env_initiator env)))
      | Valid (Message.UserControlPressed ui_command) \<Rightarrow>
          act_bind (act_return (outcome_of (unwrap_option (UiCommand_to_bytes ui_command)))) (\<lambda>buf.
          act_then (signal E (UserControlPressedSignal buf (LogicalAddress_into (env_initiator env))))
          (no_reply (press_key E ui_command)))
      | Valid Message.UserControlReleased \<Rightarrow>
          act_then (signal E (UserControlReleasedSignal (LogicalAddress_into (env_initiator env))))
          (no_reply (release_key E))
      | Valid (Message.SetStreamPath address) \<Rightarrow>
          act_bind this_address (\<lambda>this.
          if address = this then
            act_then (set_active E True)
            (act_return (Done (Some (Message.ActiveSource this, LogicalAddress_Broadcast))))
          else no_reply (set_active E False))
      | Valid (Message.ActiveSource address) \<Rightarrow>
          act_bind this_address (\<lambda>this. no_reply (set_active E (address = this)))
      | Valid Message.Standby \<Rightarrow>
          act_state (\<lambda>t.
          if cfg_allow_standby (config (system t)) then
            act_bind (act_attempt (in_system (suspend E))) (\<lambda>res.
            case res of
              Inl _ \<Rightarrow>
                act_bind (act_return (outcome_of (MessageData_opcode (message env)))) (\<lambda>oc.
                act_return (Done (Some
                  (Message.FeatureAbort oc AbortReason.IncorrectMode, env_initiator env))))
            | Inr _ \<Rightarrow> act_return (Done None))
          else default_reply E env)
      | Valid (Message.RoutingChange _ new_address) \<Rightarrow>
          act_bind this_address (\<lambda>this.
          if new_address = this then
            act_then (act_modify (\<lambda>t. t\<lparr>awaiting_wake := False\<rparr>)) (no_reply (set_active E True))
          else no_reply (set_active E False))
      | Valid Message.RequestActiveSource \<Rightarrow>
          act_state (\<lambda>t.
          if awaiting_wake t \<or> active t then
            act_bind this_address (\<lambda>address.
            act_return (Done (Some (Message.ActiveSource address, LogicalAddress_Broadcast))))
          else default_reply E env)
      | Valid (Message.SetSystemAudioMode status) \<Rightarrow>
          no_reply (set_audio_system E status (env_initiator env))
      | Valid (Message.SystemAudioModeStatus status) \<Rightarrow>
          no_reply (set_audio_system E status (env_initiator env))
      | Valid (Message.FeatureAbort _ _) \<Rightarrow> act_return (Done None)
      | _ \<Rightarrow> default_reply E env)"

text \<open>The loop that sends the reply, with \<open>n\<close> tries left.\<close>

primrec send_reply :: "'k environment \<Rightarrow> nat \<Rightarrow> Message \<Rightarrow> LogicalAddress \<Rightarrow> ('k, unit) task_action"
where
  "send_reply E 0 answer address = act_skip" |
  "send_reply E (Suc n) answer address =
     act_bind (act_attempt (on_device (tx_message (debug_status E) (cec E) answer address))) (\<lambda>res.
     case res of
       Inr _ \<Rightarrow> act_skip
     | Inl err \<Rightarrow>
         if n = 0 \<or> err \<notin> {Library (TxError TxError.UnknownError), Library (TxError TxError.Aborted)}
         then act_return (Fail err)
         else send_reply E n answer address)"

definition handle_message :: "'k environment \<Rightarrow> Envelope \<Rightarrow> ('k, unit) task_action" where
  "handle_message E env =
     act_bind (act_return (outcome_of (unwrap_option (MessageData_to_bytes (message env))))) (\<lambda>bytes.
     act_then (signal E (ReceivedMessage (LogicalAddress_into (env_initiator env))
       (LogicalAddress_into (env_destination env)) (timestamp env) bytes))
     (act_bind (message_reply E env) (\<lambda>reply_to_send.
     case reply_to_send of
       Some (answer, address) \<Rightarrow> send_reply E REPLY_RETRIES answer address
     | None \<Rightarrow> act_skip)))"

section \<open>Messages of the system\<close>

definition reconfigure :: "'k environment \<Rightarrow> ('k, unit) task_action" where
  "reconfigure E =
     act_bind (act_state (\<lambda>t. configure_dev E (connector t))) (\<lambda>conn.
     act_modify (\<lambda>t. t\<lparr>connector := conn\<rparr>))"

definition handle_system_message :: "'k environment \<Rightarrow> SystemMessage \<Rightarrow> ('k, unit) task_action" where
  "handle_system_message E m =
     (case m of
        Wake wake_tv from_standby \<Rightarrow>
          act_then (if from_standby then
              act_then (with_logical_address E ReportPowerOn) (request_active_source E)
            else act_skip)
          (if wake_tv then with_logical_address E WakeTv else act_skip)
      | SystemMessage.Standby standby_tv force \<Rightarrow>
          act_bind (on_device (get_physical_address (cec E))) (\<lambda>address.
          act_then (on_device (tx_message (debug_status E) (cec E) (Message.InactiveSource address)
            LogicalAddress.Tv))
          (act_state (\<lambda>t.
          if force \<or> active t \<and> standby_tv
          then on_device (standby (debug_status E) (cec E) LogicalAddress.Tv)
          else act_skip)))
      | ReloadConfig \<Rightarrow> act_then (reconfigure E) (configure_uinput E)
      | ReconfigureConnector conn_info \<Rightarrow>
          act_state (\<lambda>t.
          act_bind (case conn_info of
              ConnectorInfo.DrmConnector _ _ \<Rightarrow>
                (case connector t of
                   Some c \<Rightarrow>
                     act_bind (in_world (to_connector_info (files E) c)) (\<lambda>info.
                     act_return (Done (info = conn_info)))
                 | None \<Rightarrow> act_return (Done True))
            | NoConnector \<Rightarrow> act_return (Done True)
            | _ \<Rightarrow> act_return (Done False)) (\<lambda>affected.
          if affected then reconfigure E else act_skip)))"

section \<open>Results of the poller\<close>

definition VendorId_into_i32 :: "VendorId option \<Rightarrow> u32" where
  "VendorId_into_i32 v = (case v of Some v \<Rightarrow> VendorId_into_u32 v | None \<Rightarrow> -1)"

text \<open>A cached property that changed is stored, and its signal is emitted.\<close>

definition update_cached ::
  "'k environment \<Rightarrow> (CecDevice \<Rightarrow> 'a) \<Rightarrow> 'a \<Rightarrow> (CecDevice \<Rightarrow> CecDevice) \<Rightarrow> Signal \<Rightarrow>
   ('k, unit) task_action" where
  "update_cached E field v update changed =
     act_state (\<lambda>t.
     if field (interface t) \<noteq> v then act_then (set_interface update) (signal E changed) else act_skip)"

definition or_default :: "'a \<Rightarrow> ('k, 'a) task_action \<Rightarrow> ('k, 'a) task_action" where
  "or_default dflt m =
     act_bind (act_attempt m) (\<lambda>res. act_return (Done (case res of Inl _ \<Rightarrow> dflt | Inr x \<Rightarrow> x)))"

text \<open>The addresses changed to \<open>log_addrs\<close>.\<close>

definition log_addrs_changed :: "'k environment \<Rightarrow> u8 list \<Rightarrow> ('k, unit) task_action" where
  "log_addrs_changed E log_addrs =
     act_then (set_interface (\<lambda>i. i\<lparr>cached_log_addrs := log_addrs\<rparr>))
     (act_then (if log_addrs = [] then act_modify (\<lambda>t. t\<lparr>log_addr_try := LOG_ADDR_RETRIES\<rparr>)
       else act_skip)
     (act_then (signal E LogicalAddressesChanged)
     (if log_addrs \<noteq> [] then
        act_then (drain_queue E)
        (act_then query_audio_system (request_active_source E))
      else act_skip)))"

text \<open>The addresses are the cached ones, or they changed; without any, the device is set up again.\<close>

definition check_log_addrs :: "'k environment \<Rightarrow> u16 \<Rightarrow> u8 list \<Rightarrow> ('k, unit) task_action" where
  "check_log_addrs E phys_addr log_addrs =
     act_state (\<lambda>t.
     if cached_log_addrs (interface t) \<noteq> log_addrs then log_addrs_changed E log_addrs
     else if log_addrs = [] \<and> phys_addr \<noteq> 0xFFFF \<and> log_addr_try t > 0 then
       act_then (act_modify (\<lambda>t. t\<lparr>log_addr_try := log_addr_try t - 1\<rparr>)) (reconfigure E)
     else act_skip)"

definition state_change :: "'k environment \<Rightarrow> ('k, unit) task_action" where
  "state_change E =
     act_bind (or_default PhysicalAddress_default (on_device (get_physical_address (cec E)))) (\<lambda>address.
     act_bind (or_default [] (on_device (get_logical_addresses (cec E)))) (\<lambda>addrs.
     act_bind (or_default None (on_device (get_vendor_id (cec E)))) (\<lambda>vendor.
     let phys_addr = the_u16 address;
         log_addrs = map LogicalAddress_into addrs;
         vendor_id = VendorId_into_i32 vendor
     in
     act_then (update_cached E cached_phys_addr phys_addr
       (\<lambda>i. i\<lparr>cached_phys_addr := phys_addr\<rparr>) PhysicalAddressChanged)
     (act_then (update_cached E cached_vendor_id vendor_id
       (\<lambda>i. i\<lparr>cached_vendor_id := vendor_id\<rparr>) VendorIdChanged)
     (check_log_addrs E phys_addr log_addrs)))))"

definition handle_poll_result :: "'k environment \<Rightarrow> PollResult \<Rightarrow> ('k, unit) task_action" where
  "handle_poll_result E result =
     (case result of
        PollResult.Message env \<Rightarrow> handle_message E env
      | LostMessages _ \<Rightarrow> act_skip
      | StateChange \<Rightarrow> state_change E
      | _ \<Rightarrow> act_skip)"

section \<open>The task\<close>

text \<open>
  A task is made with a poller. The outcomes of its polls are the events of the loop below, and its
  descriptor lives as long as the task.
\<close>

definition DeviceTask_new ::
  "'k environment \<Rightarrow> Device \<Rightarrow> 'k \<Rightarrow> System \<Rightarrow> CecDevice \<Rightarrow> unit outcome \<times> 'k DeviceTask" where
  "DeviceTask_new E d k s i =
     act_then (on_device (get_poller (cec E)))
     (act_then (act_bind (configure_dev E None) (\<lambda>conn. act_modify (\<lambda>t. t\<lparr>connector := conn\<rparr>)))
     (configure_uinput E))
     \<lparr>device = d, world = k, system = s, interface = i, active_key = None,
      log_addr_try = LOG_ADDR_RETRIES, awaiting_wake = False, active = False, connector = None,
      audio_log_addr = LogicalAddress.Tv, with_logical_address_queue = [], jobs = []\<rparr>"

text \<open>
  What \<open>select!\<close> in \<open>run\<close> may wake up for, and what may happen between two of its turns: a spawned
  job runs, or another task leaves a changed system.
\<close>

datatype Event =
  Polled "PollStatus result" | Received SystemMessage | ChannelClosed | Cancelled |
  JobRuns nat | SystemChanges System

text \<open>One turn of the loop; it returns whether the loop goes on.\<close>

definition DeviceTask_turn :: "'k environment \<Rightarrow> Event \<Rightarrow> ('k, bool) task_action" where
  "DeviceTask_turn E ev =
     (case ev of
        Polled (Ok status) \<Rightarrow>
          if status = Destroyed then act_return (Done False)
          else
            act_bind (act_attempt (on_device (handle_status (cec E) status))) (\<lambda>res.
            case res of
              Inl _ \<Rightarrow> act_return (Done True)
            | Inr results \<Rightarrow>
                act_then (act_list (\<lambda>r. act_logged (handle_poll_result E r)) results)
                (act_return (Done True)))
      | Polled _ \<Rightarrow> act_return (Done True)
      | Received m \<Rightarrow> act_then (act_logged (handle_system_message E m)) (act_return (Done True))
      | ChannelClosed \<Rightarrow> act_return (Done False)
      | Cancelled \<Rightarrow> act_return (Done False)
      | JobRuns n \<Rightarrow>
          act_state (\<lambda>t.
          if n < length (jobs t) then
            act_then (act_modify (\<lambda>t. t\<lparr>jobs := take n (jobs t) @ drop (n + 1) (jobs t)\<rparr>))
            (act_then (run_job E (jobs t ! n)) (act_return (Done True)))
          else act_return (Done True))
      | SystemChanges s \<Rightarrow> act_then (act_modify (\<lambda>t. t\<lparr>system := s\<rparr>)) (act_return (Done True)))"

text \<open>\<open>run\<close>: the start, then a turn for each event until one of them ends the loop.\<close>

definition DeviceTask_start :: "'k environment \<Rightarrow> ('k, unit) task_action" where
  "DeviceTask_start E = act_then query_audio_system (request_active_source E)"

primrec DeviceTask_loop :: "'k environment \<Rightarrow> Event list \<Rightarrow> ('k, unit) task_action" where
  "DeviceTask_loop E [] = act_skip" |
  "DeviceTask_loop E (ev # evs) =
     act_bind (DeviceTask_turn E ev) (\<lambda>go_on. if go_on then DeviceTask_loop E evs else act_skip)"

definition DeviceTask_run :: "'k environment \<Rightarrow> Event list \<Rightarrow> ('k, unit) task_action" where
  "DeviceTask_run E evs = act_then (DeviceTask_start E) (DeviceTask_loop E evs)"

end
