(* ===== verification/TaskFacts.thy ===== *)
theory TaskFacts
  imports DeviceTask DeviceFacts
begin

text \<open>
  Facts on the task of theory \<open>DeviceTask\<close>: every handler is shown to keep an invariant and not to
  panic, first for the well-formedness of the state and then for the agreement of the task with
  the object on the bus and with the virtual keyboard. The rules on actions do the work: the
  methods of the library enter through \<open>op_safe\<close> of theory \<open>DeviceFacts\<close>.
\<close>

section \<open>Messages that arrive\<close>

primrec result_ok :: "PollResult \<Rightarrow> bool" where
  "result_ok (PollResult.Message env) \<longleftrightarrow> envelope_ok env" |
  "result_ok (PollResult.PinEvent _) \<longleftrightarrow> True" |
  "result_ok (LostMessages _) \<longleftrightarrow> True" |
  "result_ok StateChange \<longleftrightarrow> True"

lemma rx_message_envelope:
  assumes "kernel_sized K"
  shows "op_safe device_ok (rx_message K tmo) envelope_ok"
proof -
  have "cec_msg_valid (cec_msg_from_timeout (as_ms tmo))"
    by (simp add: cec_msg_valid_def cec_msg_from_timeout_def)
  from op_safe_msg(2) [OF assms this] show ?thesis
    unfolding rx_message_def rx_raw_message_def
    by (rule op_safe_bind) (auto intro!: op_safe_return received_envelope_ok simp: Envelope_not_Panic)
qed

lemma handle_event_result:
  assumes "kernel_sized K"
  shows "op_safe device_ok (handle_event K ev) result_ok"
proof -
  have "op_safe device_ok (op_bind (refresh_state K) (\<lambda>_. op_return (Ok StateChange))) result_ok"
    by (rule op_safe_then [OF refresh_state_safe [OF assms]]) (simp add: op_safe_return_Ok)
  then show ?thesis
    by (simp add: handle_event_def Let_def op_safe_return_Ok op_safe_return_Err)
qed

lemma handle_status_results:
  assumes "kernel_sized K"
  shows "op_safe device_ok (handle_status K status) (list_all result_ok)"
  unfolding handle_status_def
proof (rule op_safe_bind)
  have "op_safe device_ok (op_bind (Device_dequeue_event K) (\<lambda>ev.
      op_bind (handle_event K ev) (\<lambda>r. op_return (Ok [r])))) (list_all result_ok)"
    unfolding Device_dequeue_event_def
    by (rule op_safe_then [OF op_safe_syscall], rule op_safe_bind [OF handle_event_result [OF assms]])
      (simp add: op_safe_return_Ok)
  then show "op_safe device_ok (if got_event status then
      op_bind (Device_dequeue_event K) (\<lambda>ev. op_bind (handle_event K ev) (\<lambda>r. op_return (Ok [r])))
      else op_return (Ok [])) (list_all result_ok)"
    by (simp add: op_safe_return_Ok)
next
  fix results
  assume "list_all result_ok results"
  moreover from this have "op_safe device_ok (op_bind (rx_message K (Timeout_from_ms 1)) (\<lambda>env.
      op_return (Ok (results @ [PollResult.Message env])))) (list_all result_ok)"
    by (intro op_safe_bind [OF rx_message_envelope [OF assms]]) (simp add: op_safe_return_Ok)
  ultimately show "op_safe device_ok (if got_message status then
      op_bind (rx_message K (Timeout_from_ms 1)) (\<lambda>env.
        op_return (Ok (results @ [PollResult.Message env])))
      else op_return (Ok results)) (list_all result_ok)"
    by (simp add: op_safe_return_Ok)
qed

section \<open>Well-formed states\<close>

definition system_ok :: "System \<Rightarrow> bool" where
  "system_ok s \<longleftrightarrow> utf8 (sys_osd_name s) \<and> pred_option VendorId_valid (cfg_vendor_id (config s))"

definition task_ok :: "'k DeviceTask \<Rightarrow> bool" where
  "task_ok t \<longleftrightarrow> log_addrs_ok (internal_log_addrs (device t)) \<and> system_ok (system t)"

lemma call_io_keeps [act]: "act_keeps (\<lambda>_. True) (call_io f)"
  by (auto simp: act_holds_def call_io_def split: prod.splits)

lemma call_keeps [act]: "act_keeps (\<lambda>_. True) (call f)"
  by (auto simp: act_holds_def call_def split: prod.splits)

text \<open>The events that a task may meet: another task leaves a well-formed system.\<close>

primrec event_ok :: "Event \<Rightarrow> bool" where
  "event_ok (Polled r) \<longleftrightarrow> r \<noteq> Panic" |
  "event_ok (Received m) \<longleftrightarrow> True" |
  "event_ok ChannelClosed \<longleftrightarrow> True" |
  "event_ok Cancelled \<longleftrightarrow> True" |
  "event_ok (JobRuns n) \<longleftrightarrow> True" |
  "event_ok (SystemChanges s) \<longleftrightarrow> system_ok s"

section \<open>Invariants of the task\<close>

text \<open>
  The interface between the handlers and an invariant: the invariant says what it assumes of the
  parts that every handler changes, and how the handlers of keys and of activation keep it. Then
  every turn of the loop keeps it, whatever happens.
\<close>

locale task_invariant =
  fixes I :: "'k DeviceTask \<Rightarrow> bool"
  assumes well_formed: "I t \<Longrightarrow> task_ok t"
    and device_changes: "I t \<Longrightarrow> log_addrs_ok (internal_log_addrs d) \<Longrightarrow> I (t\<lparr>device := d, world := k\<rparr>)"
    and world_changes: "I t \<Longrightarrow> I (t\<lparr>world := k\<rparr>)"
    and system_changes: "I t \<Longrightarrow> system_ok s \<Longrightarrow> I (t\<lparr>system := s\<rparr>)"
    and counter_changes: "I t \<Longrightarrow> I (t\<lparr>log_addr_try := n\<rparr>)" "I t \<Longrightarrow> I (t\<lparr>awaiting_wake := b\<rparr>)"
    and connector_changes: "I t \<Longrightarrow> I (t\<lparr>connector := c\<rparr>)"
    and queue_changes: "I t \<Longrightarrow> I (t\<lparr>with_logical_address_queue := q\<rparr>)" "I t \<Longrightarrow> I (t\<lparr>jobs := js\<rparr>)"
    and cached_changes: "I t \<Longrightarrow> I (t\<lparr>interface := (interface t)\<lparr>cached_phys_addr := pa\<rparr>\<rparr>)"
      "I t \<Longrightarrow> I (t\<lparr>interface := (interface t)\<lparr>cached_vendor_id := v\<rparr>\<rparr>)"
      "I t \<Longrightarrow> I (t\<lparr>interface := (interface t)\<lparr>cached_log_addrs := las\<rparr>\<rparr>)"
    and set_active_keeps: "act_keeps I (set_active E b)"
    and set_audio_system_keeps: "act_keeps I (set_audio_system E b source)"
    and key_keeps: "act_keeps I (press_key E cmd)" "act_keeps I (release_key E)"
    and configure_uinput_keeps: "act_keeps I (configure_uinput E)"
begin

lemma on_device_holds:
  assumes "op_safe device_ok m Q"
  shows "act_holds I (on_device m) Q"
proof (rule act_holdsI)
  fix t r t'
  assume t: "I t" "on_device m t = (r, t')"
  obtain q d k where q: "m (device t, world t) = (q, d, k)"
    by (metis prod.collapse)
  have "device_ok (device t, world t)"
    using well_formed [OF t(1)] by (simp add: task_ok_def)
  note m = op_safeD [OF assms this q]
  have "r = outcome_of q" "t' = t\<lparr>device := d, world := k\<rparr>"
    using t(2) q by (simp_all add: on_device_def)
  with m device_changes [OF t(1), of d k]
  show "r \<noteq> Crash \<and> I t' \<and> (\<forall>x. r = Done x \<longrightarrow> Q x)" by simp
qed

lemma in_world_holds:
  assumes "act_holds (\<lambda>_. True) m Q"
  shows "act_holds I (in_world m) Q"
proof (rule act_holdsI)
  fix t r t'
  assume t: "I t" "in_world m t = (r, t')"
  obtain q k where q: "m (world t) = (q, k)" by (cases "m (world t)")
  from act_holdsD [OF assms _ q] t q world_changes [OF t(1), of k]
  show "r \<noteq> Crash \<and> I t' \<and> (\<forall>x. r = Done x \<longrightarrow> Q x)"
    by (auto simp: in_world_def)
qed

lemma signal_keeps [act]: "act_keeps I (signal E s)"
  unfolding signal_def by (intro in_world_holds act)

lemma modify_keeps [act]:
  "act_keeps I (act_modify (\<lambda>t. t\<lparr>log_addr_try := n t\<rparr>))"
  "act_keeps I (act_modify (\<lambda>t. t\<lparr>awaiting_wake := b t\<rparr>))"
  "act_keeps I (act_modify (\<lambda>t. t\<lparr>connector := c t\<rparr>))"
  "act_keeps I (act_modify (\<lambda>t. t\<lparr>with_logical_address_queue := q t\<rparr>))"
  "act_keeps I (act_modify (\<lambda>t. t\<lparr>jobs := js t\<rparr>))"
  "act_keeps I (set_interface (\<lambda>i. i\<lparr>cached_phys_addr := pa\<rparr>))"
  "act_keeps I (set_interface (\<lambda>i. i\<lparr>cached_vendor_id := v\<rparr>))"
  "act_keeps I (set_interface (\<lambda>i. i\<lparr>cached_log_addrs := las\<rparr>))"
  unfolding set_interface_def
  by (rule act_keeps_modify, erule counter_changes connector_changes queue_changes cached_changes)+

text \<open>The methods of the library.\<close>

lemma device_keeps [act]:
  "act_keeps I (on_device (get_driver_name (cec E)))"
  "act_keeps I (on_device (get_adapter_name (cec E)))"
  "act_keeps I (on_device (get_capabilities (cec E)))"
  "act_keeps I (on_device (get_connector_info (cec E)))"
  "act_keeps I (on_device (get_physical_address (cec E)))"
  "act_keeps I (on_device (set_physical_address (cec E) a))"
  "act_keeps I (on_device (set_initiator_mode (cec E) im))"
  "act_keeps I (on_device (set_follower_mode (cec E) fm))"
  "act_keeps I (on_device (get_poller (cec E)))"
  by (rule on_device_holds, rule mode_methods_safe read_methods_safe descriptor_methods_safe)+

lemma sized_device_keeps [act]:
  assumes "kernel_sized (cec E)"
  shows "act_keeps I (on_device (get_logical_addresses (cec E)))"
    and "act_keeps I (on_device (clear_logical_addresses (cec E)))"
    and "act_keeps I (on_device (set_logical_address (cec E) ty))"
    and "act_keeps I (on_device (set_osd_name (debug_status E) (cec E) name))"
    and "act_keeps I (on_device (get_vendor_id (cec E)))"
    and "act_keeps I (on_device (set_active_source (debug_status E) (cec E) address))"
    and "act_keeps I (on_device (wake (debug_status E) (cec E) set_act text_view))"
    and "act_keeps I (on_device (standby (debug_status E) (cec E) target))"
    and "Message_valid m \<Longrightarrow> act_keeps I (on_device (tx_message (debug_status E) (cec E) m dest))"
  unfolding set_logical_address_def
  by (rule on_device_holds, rule get_logical_addresses_safe clear_logical_addresses_safe
      set_logical_addresses_safe set_osd_name_safe get_vendor_id_safe sending_methods_safe
      tx_message_safe; use assms in simp)+

lemma connector_keeps [act]:
  "act_keeps I (in_world (reload_physical_address F c))"
  "act_keeps I (in_world (to_connector_info F c))"
  "act_keeps I (in_world (find_physical_address F))"
  "act_keeps I (in_world (from_connector_info F info a))"
  by (rule in_world_holds, rule connector_methods_keep from_connector_info_keeps
      act_holds_weaken [OF find_physical_address_usable]; simp?)+

lemma suspend_keeps [act]: "act_keeps I (in_system (suspend E))"
proof (rule act_holdsI)
  fix t r t'
  assume t: "I t" "in_system (suspend E) t = (r, t')"
  have "system_ok (system t)"
    using well_formed [OF t(1)] by (simp add: task_ok_def)
  then have "system_ok ((system t)\<lparr>sys_standby := True\<rparr>)"
    by (simp add: system_ok_def)
  then have "I (t\<lparr>system := (system t)\<lparr>sys_standby := True\<rparr>, world := k\<rparr>)" for k
    using world_changes system_changes t(1) by blast
  with t world_changes [OF t(1)] show "r \<noteq> Crash \<and> I t' \<and> (\<forall>x. r = Done x \<longrightarrow> True)"
    by (auto simp: in_system_def suspend_def on_world_def on_system_def call_io_def act_bind_def
        split: if_splits prod.splits)
qed

subsection \<open>Configuration\<close>

lemma clear_busy_keeps [act]:
  assumes "kernel_sized (cec E)"
  shows "act_keeps I (clear_busy E n)"
proof (induction n)
  case 0
  show ?case by (simp add: act_holds_def)
next
  case (Suc n)
  show ?case
    unfolding clear_busy.simps by (intro act assms Suc) simp_all
qed

lemma osd_name_keeps [act]:
  assumes "I t"
  shows "act_keeps I (act_return (outcome_of (trimmed_osd_name (system t))))"
proof -
  have "utf8 (sys_osd_name (system t))"
    using well_formed [OF assms] by (simp add: task_ok_def system_ok_def)
  from trimmed_osd_name_ok [OF this] show ?thesis
    by (metis act_keeps_return outcome.distinct(3) outcome_of.simps(1))
qed

lemma vendor_id_keeps [act]:
  assumes "I t"
  shows "act_keeps I (on_device (set_vendor_id (cfg_vendor_id (config (system t)))))"
  by (intro on_device_holds set_vendor_id_safe)
    (use well_formed [OF assms] in \<open>simp add: task_ok_def system_ok_def\<close>)

lemma configure_dev_keeps [act]:
  assumes "kernel_sized (cec E)"
  shows "act_keeps I (configure_dev E conn)"
proof -
  have physical: "act_keeps I (configure_physical_address E conn)"
    unfolding configure_physical_address_def by (intro act assms) simp_all
  have logical: "act_keeps I (configure_logical_address E)"
    unfolding configure_logical_address_def by (intro act assms) assumption+
  have named: "act_keeps I (case info of ConnectorInfo.DrmConnector n i \<Rightarrow> f n i | _ \<Rightarrow> act_return (Done None))"
    if "\<And>n i. act_keeps I (f n i)"
    for info and f :: "u32 \<Rightarrow> u32 \<Rightarrow> ('k, DrmConnector option) task_action"
    using that by (cases info) (simp_all add: act_holds_def)
  show ?thesis
    unfolding configure_dev_def by (intro act assms physical logical named) simp_all
qed

lemma reconfigure_keeps [act]: "kernel_sized (cec E) \<Longrightarrow> act_keeps I (reconfigure E)"
  unfolding reconfigure_def by (intro act)

subsection \<open>Callbacks\<close>

lemma current_log_addrs_keeps [act]: "kernel_sized (cec E) \<Longrightarrow> act_keeps I (current_log_addrs E)"
  unfolding current_log_addrs_def by (intro act) simp_all

lemma spawn_keeps [act]: "act_keeps I (spawn job)"
  unfolding spawn_def by (intro act)

lemma wake_loop_keeps [act]:
  assumes "kernel_sized (cec E)"
  shows "act_keeps I (wake_loop E n)"
proof (induction n)
  case 0
  show ?case by (simp add: act_holds_def)
next
  case (Suc n)
  show ?case
    unfolding wake_loop.simps Let_def by (intro act assms Suc) simp_all
qed

lemma run_callback_keeps [act]:
  assumes "kernel_sized (cec E)"
  shows "act_keeps I (run_callback E cb)"
  by (cases cb; simp add: run_callback_def pending_activate_def DeviceTask_wake_def;
      intro act set_active_keeps assms; simp)

lemma with_logical_address_keeps [act]:
  "kernel_sized (cec E) \<Longrightarrow> act_keeps I (with_logical_address E cb)"
  unfolding with_logical_address_def by (intro act) assumption+

lemma request_active_source_keeps [act]:
  "kernel_sized (cec E) \<Longrightarrow> act_keeps I (request_active_source E)"
  unfolding request_active_source_def by (intro act) simp_all

lemma drain_queue_keeps [act]: "kernel_sized (cec E) \<Longrightarrow> act_keeps I (drain_queue E)"
  unfolding drain_queue_def by (intro act) assumption+

lemma run_job_keeps [act]:
  assumes "kernel_sized (cec E)"
  shows "act_keeps I (run_job E job)"
proof -
  have "Message_valid (fst (job_message job))"
    by (cases job) (simp_all add: job_message_def)
  then show ?thesis
    unfolding run_job_def by (intro act assms) simp_all
qed

subsection \<open>Messages\<close>

lemma no_reply_holds: "act_keeps I m \<Longrightarrow> act_holds I (no_reply m) (pred_option P)"
  unfolding no_reply_def by (intro act) auto

lemma unwrapped_keeps [act]: "r = Ok x \<Longrightarrow> act_keeps I (act_return (outcome_of r))"
  by (simp add: act_holds_def)

lemma default_reply_holds:
  assumes "envelope_ok env"
  shows "act_holds I (default_reply E env) (pred_option (\<lambda>(m, a). Message_valid m))"
proof -
  obtain oc bytes where "MessageData_opcode (message env) = Ok oc"
      "MessageData_to_bytes (message env) = Some bytes"
    using envelope_bytes [OF assms] by blast
  then show ?thesis
    unfolding default_reply_def
    by (intro act in_world_holds call_keeps)
      (auto simp: option.pred_map comp_def option.pred_True)
qed

lemma message_reply_holds:
  assumes "envelope_ok env" "kernel_sized (cec E)"
  shows "act_holds I (message_reply E env) (pred_option (\<lambda>(m, a). Message_valid m))"
proof (cases "message env")
  case (Invalid bytes)
  then show ?thesis
    using default_reply_holds [OF assms(1)] by (simp add: message_reply_def)
next
  case (Valid m)
  obtain oc where oc: "MessageData_opcode (message env) = Ok oc"
    using envelope_bytes [OF assms(1)] by blast
  note rules = act no_reply_holds default_reply_holds [OF assms(1)] set_active_keeps
    set_audio_system_keeps key_keeps
  show ?thesis
  proof (cases m)
    case (UserControlPressed cmd)
    then obtain buf where "UiCommand_to_bytes cmd = Some buf"
      using envelope_key assms(1) Valid by blast
    then show ?thesis
      by (simp add: message_reply_def Valid UserControlPressed) (intro rules)
  next
    case Standby
    then show ?thesis
      by (simp add: message_reply_def Valid del: MessageData_opcode.simps)
        (intro rules; use oc in \<open>auto simp del: MessageData_opcode.simps\<close>)
  next
    case GiveDevicePowerStatus
    then show ?thesis
      by (simp add: message_reply_def Valid) (intro rules; auto)?
  next
    case UserControlReleased
    then show ?thesis
      by (simp add: message_reply_def Valid) (intro rules; auto)?
  next
    case (SetStreamPath a)
    then show ?thesis
      by (simp add: message_reply_def Valid) (intro rules; auto)?
  next
    case (ActiveSource a)
    then show ?thesis
      by (simp add: message_reply_def Valid) (intro rules; auto)?
  next
    case (RoutingChange a b)
    then show ?thesis
      by (simp add: message_reply_def Valid) (intro rules; auto)?
  next
    case RequestActiveSource
    then show ?thesis
      by (simp add: message_reply_def Valid) (intro rules; auto)?
  next
    case (SetSystemAudioMode st)
    then show ?thesis
      by (simp add: message_reply_def Valid) (intro rules; auto)?
  next
    case (SystemAudioModeStatus st)
    then show ?thesis
      by (simp add: message_reply_def Valid) (intro rules; auto)?
  next
    case (FeatureAbort oc reason)
    then show ?thesis
      by (simp add: message_reply_def Valid) (intro rules; auto)?
  qed (simp_all add: message_reply_def Valid default_reply_holds [OF assms(1)])
qed

lemma send_reply_keeps [act]:
  assumes "Message_valid answer" "kernel_sized (cec E)"
  shows "act_keeps I (send_reply E n answer address)"
proof (induction n)
  case 0
  show ?case by (simp add: act_holds_def)
next
  case (Suc n)
  show ?case
    unfolding send_reply.simps by (intro act assms Suc) simp_all
qed

lemma handle_message_keeps:
  assumes "envelope_ok env" "kernel_sized (cec E)"
  shows "act_keeps I (handle_message E env)"
proof -
  obtain bytes where "MessageData_to_bytes (message env) = Some bytes"
    using envelope_bytes [OF assms(1)] by blast
  then show ?thesis
    unfolding handle_message_def
    by (intro act act_holds_bind [OF message_reply_holds [OF assms]] assms(2)) auto
qed

subsection \<open>The system and the poller\<close>

lemma handle_system_message_keeps:
  assumes "kernel_sized (cec E)"
  shows "act_keeps I (handle_system_message E m)"
proof -
  have "act_keeps I (case info of ConnectorInfo.DrmConnector n i \<Rightarrow> f n i | NoConnector \<Rightarrow> act_return (Done True)
      | _ \<Rightarrow> act_return (Done False))"
    if "\<And>n i. act_keeps I (f n i)" for info and f :: "u32 \<Rightarrow> u32 \<Rightarrow> ('k, bool) task_action"
    using that by (cases info) (simp_all add: act_holds_def)
  note affected = this
  show ?thesis
  proof (cases m)
    case (Wake wake_tv from_standby)
    then show ?thesis
      by (simp only: handle_system_message_def SystemMessage.case) (intro act assms; simp)
  next
    case (Standby standby_tv force)
    then show ?thesis
      by (simp only: handle_system_message_def SystemMessage.case) (intro act assms; simp)
  next
    case ReloadConfig
    then show ?thesis
      by (simp only: handle_system_message_def SystemMessage.case) (intro act configure_uinput_keeps assms; simp)
  next
    case (ReconfigureConnector info)
    then show ?thesis
      by (simp only: handle_system_message_def SystemMessage.case) (intro act affected assms; simp)
  qed
qed

lemma or_default_keeps [act]: "act_keeps I m \<Longrightarrow> act_keeps I (or_default x m)"
  unfolding or_default_def by (intro act) simp_all

lemma update_cached_keeps [act]:
  "act_keeps I (set_interface update) \<Longrightarrow> act_keeps I (update_cached E field v update changed)"
  unfolding update_cached_def by (intro act) simp_all

lemma state_change_keeps:
  assumes "kernel_sized (cec E)"
  shows "act_keeps I (state_change E)"
  unfolding state_change_def check_log_addrs_def Let_def log_addrs_changed_def query_audio_system_def
  by (intro act assms) simp_all

lemma handle_poll_result_keeps:
  assumes "result_ok r" "kernel_sized (cec E)"
  shows "act_keeps I (handle_poll_result E r)"
  using assms
  by (cases r) (simp_all add: handle_poll_result_def handle_message_keeps state_change_keeps
      act_keeps_return)

subsection \<open>The loop\<close>

theorem DeviceTask_turn_keeps:
  assumes "kernel_sized (cec E)" "event_ok ev"
  shows "act_keeps I (DeviceTask_turn E ev)"
proof (cases ev)
  case (Polled r)
  show ?thesis
  proof (cases r)
    case (Ok status)
    have "act_holds I (act_attempt (on_device (handle_status (cec E) status)))
        (\<lambda>res. case res of Inl _ \<Rightarrow> True | Inr results \<Rightarrow> list_all result_ok results)"
      by (intro act_holds_attempt on_device_holds handle_status_results assms)
    then have "act_keeps I
        (act_bind (act_attempt (on_device (handle_status (cec E) status))) (\<lambda>res.
          case res of
            Inl _ \<Rightarrow> act_return (Done True)
          | Inr results \<Rightarrow>
              act_then (act_list (\<lambda>r. act_logged (handle_poll_result E r)) results)
              (act_return (Done True))))"
      by (rule act_holds_bind)
        (intro act handle_poll_result_keeps assms; auto simp: list_all_iff)
    then show ?thesis
      by (simp add: DeviceTask_turn_def Polled Ok act_keeps_return)
  qed (simp_all add: DeviceTask_turn_def Polled act_keeps_return)
next
  case (SystemChanges s)
  have "act_keeps I (act_modify (\<lambda>t. t\<lparr>system := s\<rparr>))"
    by (rule act_keeps_modify) (use assms(2) system_changes in \<open>simp add: SystemChanges\<close>)
  then show ?thesis
    by (simp add: DeviceTask_turn_def SystemChanges) (intro act; simp)
qed (simp_all add: DeviceTask_turn_def; intro act handle_system_message_keeps assms; simp)+

lemma DeviceTask_loop_keeps:
  assumes "kernel_sized (cec E)"
  shows "list_all event_ok evs \<Longrightarrow> act_keeps I (DeviceTask_loop E evs)"
proof (induction evs)
  case Nil
  show ?case by (simp add: act_holds_def)
next
  case (Cons ev evs)
  then show ?case
    unfolding DeviceTask_loop.simps by (intro act DeviceTask_turn_keeps assms) simp_all
qed

theorem DeviceTask_run_keeps:
  assumes "kernel_sized (cec E)" "list_all event_ok evs"
  shows "act_keeps I (DeviceTask_run E evs)"
  unfolding DeviceTask_run_def DeviceTask_start_def query_audio_system_def
  by (intro act DeviceTask_loop_keeps assms)

end

section \<open>Well-formedness\<close>

text \<open>What the handlers of activation, of the audio system and of keys leave as it was.\<close>

definition same_core :: "'k DeviceTask \<Rightarrow> 'k DeviceTask \<Rightarrow> bool" where
  "same_core t t' \<longleftrightarrow> device t' = device t \<and> system t' = system t \<and>
     key_repeat (interface t') = key_repeat (interface t)"

lemma in_world_call_io:
  "in_world (call_io f) t = (case f (world t) of (e, k) \<Rightarrow> (io_outcome e, t\<lparr>world := k\<rparr>))"
  by (simp add: in_world_def call_io_def split: prod.split)

lemma set_active_run:
  assumes "set_active E b t = (r, t')"
  shows "r \<noteq> Crash" "same_core t t'" "active t' = b"
    and "cached_active (interface t) = active t \<Longrightarrow> cached_active (interface t') = b"
    and "cached_audio_log_addr (interface t') = cached_audio_log_addr (interface t)"
      "audio_log_addr t' = audio_log_addr t"
      "uinput (interface t') = uinput (interface t)" "active_key t' = active_key t"
  using assms
  by (auto simp: set_active_def set_interface_def signal_def in_world_call_io same_core_def act_bind_def
      split: if_splits prod.splits outcome.splits)

lemma set_audio_system_run:
  assumes "set_audio_system E status source t = (r, t')"
  shows "r \<noteq> Crash" "same_core t t'" "audio_log_addr t' = (if status then source else LogicalAddress.Tv)"
    and "cached_audio_log_addr (interface t') = LogicalAddress_into (audio_log_addr t')"
    and "cached_active (interface t') = cached_active (interface t)" "active t' = active t"
      "uinput (interface t') = uinput (interface t)" "active_key t' = active_key t"
  using assms
  by (auto simp: set_audio_system_def set_interface_def signal_def in_world_call_io same_core_def act_bind_def
      split: if_splits prod.splits outcome.splits)

text \<open>One press: nothing but the key of the new command stays down, unless a write fails.\<close>

lemma press_strokes:
  assumes "act_then (case old of Some c \<Rightarrow> key_up write c | None \<Rightarrow> act_skip) (key_down write cmd) (u, k)
      = (r, u', k')"
    and "held_keys u \<subseteq> key_of u old"
  shows "r \<noteq> Crash" "held_keys u' \<subseteq> key_of u' (if r = Done () then Some cmd else old)"
proof -
  have "r \<noteq> Crash \<and> ui_mappings u' = ui_mappings u \<and>
      held_keys u' \<subseteq> key_of u (if r = Done () then Some cmd else old)"
  proof (cases old)
    case None
    then have "key_down write cmd (u, k) = (r, u', k')" using assms(1) by simp
    from key_down_held [OF this] assms(2) None show ?thesis
      by (auto simp: key_of_def)
  next
    case (Some c)
    obtain q v l where q: "key_up write c (u, k) = (q, v, l)" by (metis prod.collapse)
    note up = key_up_held [OF q]
    show ?thesis
    proof (cases "q = Done ()")
      case True
      then have "key_down write cmd (v, l) = (r, u', k')" using assms(1) Some q by simp
      from key_down_held [OF this] up True assms(2) Some show ?thesis
        by (auto simp: key_of_def)
    next
      case False
      then obtain e where "q = Fail e" using up(1) by (cases q) auto
      then show ?thesis using assms Some q up by auto
    qed
  qed
  then show "r \<noteq> Crash" "held_keys u' \<subseteq> key_of u' (if r = Done () then Some cmd else old)"
    by (simp_all add: key_of_def)
qed

text \<open>The keys that are down on the virtual keyboard: at most the key of the active command.\<close>

definition keys_ok :: "'k DeviceTask \<Rightarrow> bool" where
  "keys_ok t \<longleftrightarrow> pred_option (\<lambda>u. held_keys u \<subseteq> key_of u (active_key t)) (uinput (interface t))"

lemma press_key_run:
  assumes "press_key E cmd t = (r, t')" "keys_ok t"
  shows "r \<noteq> Crash" "same_core t t'" "keys_ok t'" "active t' = active t"
    "audio_log_addr t' = audio_log_addr t"
    "cached_active (interface t') = cached_active (interface t)"
    "cached_audio_log_addr (interface t') = cached_audio_log_addr (interface t)"
proof -
  have "r \<noteq> Crash \<and> same_core t t' \<and> keys_ok t' \<and> active t' = active t \<and>
    audio_log_addr t' = audio_log_addr t \<and> cached_active (interface t') = cached_active (interface t) \<and>
    cached_audio_log_addr (interface t') = cached_audio_log_addr (interface t)"
  proof (cases "uinput (interface t)")
    case None
    then show ?thesis
      using assms by (auto simp: press_key_def with_uinput_def act_bind_def same_core_def keys_ok_def)
  next
    case (Some u)
    obtain q u' k where strokes:
      "act_then (case active_key t of Some c \<Rightarrow> key_up (write_key E) c | None \<Rightarrow> act_skip)
        (key_down (write_key E) cmd) (u, world t) = (q, u', k)"
      by (metis prod.collapse)
    have "held_keys u \<subseteq> key_of u (active_key t)"
      using assms(2) Some by (simp add: keys_ok_def)
    note held = press_strokes [OF strokes this]
    show ?thesis
      using assms(1) Some held strokes
      by (cases q) (auto simp: press_key_def with_uinput_def act_bind_def same_core_def keys_ok_def)
  qed
  then show "r \<noteq> Crash" "same_core t t'" "keys_ok t'" "active t' = active t"
    "audio_log_addr t' = audio_log_addr t"
    "cached_active (interface t') = cached_active (interface t)"
    "cached_audio_log_addr (interface t') = cached_audio_log_addr (interface t)"
    by blast+
qed

lemma release_key_run:
  assumes "release_key E t = (r, t')" "keys_ok t"
  shows "r \<noteq> Crash" "same_core t t'" "keys_ok t'" "active t' = active t"
    "audio_log_addr t' = audio_log_addr t"
    "cached_active (interface t') = cached_active (interface t)"
    "cached_audio_log_addr (interface t') = cached_audio_log_addr (interface t)"
proof -
  have "r \<noteq> Crash \<and> same_core t t' \<and> keys_ok t' \<and> active t' = active t \<and>
    audio_log_addr t' = audio_log_addr t \<and> cached_active (interface t') = cached_active (interface t) \<and>
    cached_audio_log_addr (interface t') = cached_audio_log_addr (interface t)"
  proof (cases "active_key t")
    case None
    then show ?thesis
      using assms by (auto simp: release_key_def same_core_def)
  next
    case key: (Some c)
    show ?thesis
    proof (cases "uinput (interface t)")
      case None
      then show ?thesis
        using assms key
        by (auto simp: release_key_def with_uinput_def act_bind_def same_core_def keys_ok_def)
    next
      case (Some u)
      obtain q u' k where up: "key_up (write_key E) c (u, world t) = (q, u', k)"
        by (metis prod.collapse)
      have "held_keys u \<subseteq> key_of u (Some c)"
        using assms(2) Some key by (simp add: keys_ok_def)
      with key_up_held [OF up] have "q \<noteq> Crash" "held_keys u' \<subseteq> key_of u' (if q = Done () then None else Some c)"
        by (auto simp: key_of_def)
      then show ?thesis
        using assms(1) Some up key
        by (cases q) (auto simp: release_key_def with_uinput_def act_bind_def same_core_def keys_ok_def)
    qed
  qed
  then show "r \<noteq> Crash" "same_core t t'" "keys_ok t'" "active t' = active t"
    "audio_log_addr t' = audio_log_addr t"
    "cached_active (interface t') = cached_active (interface t)"
    "cached_audio_log_addr (interface t') = cached_audio_log_addr (interface t)"
    by blast+
qed

text \<open>A keyboard that was just opened has no key down.\<close>

lemma open_keyboard_run:
  assumes "open_keyboard E mappings name (UInputDevice_new, k) = (r, u, k')"
  shows "r \<noteq> Crash" "ui_events u = []"
  using assms
  by (auto simp: open_keyboard_def set_mappings_def set_name_def uinput_open_def ensure_def
      UInputDevice_new_def act_bind_def split: prod.splits)

section \<open>The invariant of the task\<close>

text \<open>The object on the bus tells what the task knows.\<close>

definition mirrored :: "'k DeviceTask \<Rightarrow> bool" where
  "mirrored t \<longleftrightarrow>
     cached_active (interface t) = active t \<and>
     cached_audio_log_addr (interface t) = LogicalAddress_into (audio_log_addr t)"

text \<open>The keys that are repeated for clients are keys that have a code, under their targets.\<close>

definition repeats_ok :: "'k DeviceTask \<Rightarrow> bool" where
  "repeats_ok t \<longleftrightarrow>
     (\<forall>target r. key_repeat (interface t) target = Some r \<longrightarrow>
        LogicalAddress_into (repeat_target r) = target \<and> UiCommand_valid (repeat_key r))"

definition task_inv :: "'k DeviceTask \<Rightarrow> bool" where
  "task_inv t \<longleftrightarrow> task_ok t \<and> mirrored t \<and> keys_ok t \<and> repeats_ok t"

lemma configure_uinput_inv: "act_keeps task_inv (configure_uinput E)"
proof (rule act_holdsI)
  fix t r t'
  assume t: "task_inv t" "configure_uinput E t = (r, t')"
  let ?t = "t\<lparr>interface := (interface t)\<lparr>uinput := None\<rparr>\<rparr>"
  let ?mappings = "cfg_mappings (config (system t))"
  have inv: "task_inv (?t\<lparr>device := d, world := k\<rparr>)" if "log_addrs_ok (internal_log_addrs d)" for d k
    using t(1) that by (simp add: task_inv_def task_ok_def mirrored_def keys_ok_def repeats_ok_def)
  have ok: "log_addrs_ok (internal_log_addrs (device t))"
    using t(1) by (simp add: task_inv_def task_ok_def)
  obtain q d k where q: "get_adapter_name (cec E) (device t, world t) = (q, d, k)"
    by (metis prod.collapse)
  have d: "q \<noteq> Panic" "log_addrs_ok (internal_log_addrs d)"
    using op_safeD [OF read_methods_safe(3) _ q] ok by simp_all
  show "r \<noteq> Crash \<and> task_inv t' \<and> (\<forall>x. r = Done x \<longrightarrow> True)"
  proof (cases "?mappings = Map.empty \<or> \<not> cfg_uinput (config (system t))")
    case True
    then show ?thesis
      using t(2) inv [OF ok, of "world t"]
      by (auto simp: configure_uinput_def set_interface_def act_bind_def)
  next
    case False
    show ?thesis
    proof (cases q)
      case (Ok adapter)
      obtain e k1 where e: "open_uinput E k = (e, k1)" by (cases "open_uinput E k")
      obtain r2 u k2 where o: "open_keyboard E ?mappings (map (\<lambda>c. of_char c) ''cecd '' @ adapter)
          (UInputDevice_new, k1) = (r2, u, k2)"
        by (metis prod.collapse)
      note u = open_keyboard_run [OF o]
      let ?new = "?t\<lparr>device := d, world := k2, interface := (interface ?t)\<lparr>uinput := Some u\<rparr>\<rparr>"
      have new: "task_inv ?new"
        using inv [OF d(2), of k2] u(2) by (simp add: task_inv_def task_ok_def mirrored_def keys_ok_def repeats_ok_def)
      have run: "configure_uinput E t =
          (case e of
             Some x \<Rightarrow> (Fail (Other x), ?t\<lparr>device := d, world := k1\<rparr>)
           | None \<Rightarrow> (r2, case r2 of Done _ \<Rightarrow> ?new | _ \<Rightarrow> ?t\<lparr>device := d, world := k2\<rparr>))"
        using False q Ok e o
        by (cases e) (simp_all add: configure_uinput_def set_interface_def act_bind_def
            on_device_def in_world_call_io io_outcome_def split: outcome.split)
      show ?thesis
      proof (cases e)
        case (Some x)
        then show ?thesis using t(2) run inv [OF d(2), of k1] by auto
      next
        case None
        then have "r = r2" "t' = (case r2 of Done _ \<Rightarrow> ?new | _ \<Rightarrow> ?t\<lparr>device := d, world := k2\<rparr>)"
          using t(2) run by (auto simp only: option.case prod.inject)
        with new inv [OF d(2), of k2] u(1) show ?thesis
          by (cases r2) simp_all
      qed
    next
      case (Err err)
      then show ?thesis
        using t(2) False q inv [OF d(2), of k]
        by (auto simp: configure_uinput_def set_interface_def act_bind_def on_device_def)
    next
      case Panic
      then show ?thesis using d(1) by simp
    qed
  qed
qed

interpretation task: task_invariant task_inv
proof
  fix t :: "'k DeviceTask" and d k s n b c q js pa v las
  assume t: "task_inv t"
  then show "task_ok t" by (simp add: task_inv_def)
  show "log_addrs_ok (internal_log_addrs d) \<Longrightarrow> task_inv (t\<lparr>device := d, world := k\<rparr>)"
    "task_inv (t\<lparr>world := k\<rparr>)" "system_ok s \<Longrightarrow> task_inv (t\<lparr>system := s\<rparr>)"
    "task_inv (t\<lparr>log_addr_try := n\<rparr>)" "task_inv (t\<lparr>awaiting_wake := b\<rparr>)"
    "task_inv (t\<lparr>connector := c\<rparr>)" "task_inv (t\<lparr>with_logical_address_queue := q\<rparr>)"
    "task_inv (t\<lparr>jobs := js\<rparr>)" "task_inv (t\<lparr>interface := (interface t)\<lparr>cached_phys_addr := pa\<rparr>\<rparr>)"
    "task_inv (t\<lparr>interface := (interface t)\<lparr>cached_vendor_id := v\<rparr>\<rparr>)"
    "task_inv (t\<lparr>interface := (interface t)\<lparr>cached_log_addrs := las\<rparr>\<rparr>)"
    using t by (simp_all add: task_inv_def task_ok_def mirrored_def keys_ok_def repeats_ok_def)
next
  fix E :: "'k environment" and b status source cmd
  note inv = task_inv_def task_ok_def mirrored_def same_core_def repeats_ok_def
  show "act_keeps task_inv (set_active E b)"
  proof (rule act_holdsI)
    fix s t r
    assume s: "task_inv s" "set_active E b s = (r, t)"
    from set_active_run [OF s(2)] s(1)
    show "r \<noteq> Crash \<and> task_inv t \<and> (\<forall>x. r = Done x \<longrightarrow> True)"
      by (simp add: inv keys_ok_def)
  qed
  show "act_keeps task_inv (set_audio_system E status source)"
  proof (rule act_holdsI)
    fix s t r
    assume s: "task_inv s" "set_audio_system E status source s = (r, t)"
    from set_audio_system_run [OF s(2)] s(1)
    show "r \<noteq> Crash \<and> task_inv t \<and> (\<forall>x. r = Done x \<longrightarrow> True)"
      by (simp add: inv keys_ok_def)
  qed
  show "act_keeps task_inv (press_key E cmd)"
  proof (rule act_holdsI)
    fix s t r
    assume s: "task_inv s" "press_key E cmd s = (r, t)"
    then have "keys_ok s" by (simp add: task_inv_def)
    from press_key_run [OF s(2) this] s(1)
    show "r \<noteq> Crash \<and> task_inv t \<and> (\<forall>x. r = Done x \<longrightarrow> True)"
      by (simp add: inv)
  qed
  show "act_keeps task_inv (release_key E)"
  proof (rule act_holdsI)
    fix s t r
    assume s: "task_inv s" "release_key E s = (r, t)"
    then have "keys_ok s" by (simp add: task_inv_def)
    from release_key_run [OF s(2) this] s(1)
    show "r \<noteq> Crash \<and> task_inv t \<and> (\<forall>x. r = Done x \<longrightarrow> True)"
      by (simp add: inv)
  qed
  show "act_keeps task_inv (configure_uinput E)" by (rule configure_uinput_inv)
qed

end
