(* ===== verification/DeviceBus.thy ===== *)
theory DeviceBus
  imports DeviceTask
begin

text \<open>
  The objects that \<open>cecd\<close> puts on the bus: \<open>CecDevice\<close>, \<open>Daemon\<close> and \<open>CecConfig\<close> of
  \<open>cecd/src/dbus.rs\<close>, and \<open>KeyRepeat\<close> of \<open>cecd/src/device.rs\<close>.

  A method of \<open>CecDevice\<close> runs on the state of the task that owns the device, since both share the
  device and the object. It answers with a value or with an error of the bus, so it never fails as
  an action.
\<close>

section \<open>Errors\<close>

datatype BusError = Cec Error | FDO string | Anyhow anyhow

definition TxError_name :: "TxError \<Rightarrow> string" where
  "TxError_name e =
     (case e of
        TxError.ArbLost \<Rightarrow> ''com.steampowered.CecDaemon1.TxError.ArbLost''
      | TxError.Nack \<Rightarrow> ''com.steampowered.CecDaemon1.TxError.Nack''
      | TxError.LowDrive \<Rightarrow> ''com.steampowered.CecDaemon1.TxError.LowDrive''
      | TxError.UnknownError \<Rightarrow> ''com.steampowered.CecDaemon1.TxError.Unknown''
      | TxError.MaxRetries \<Rightarrow> ''com.steampowered.CecDaemon1.TxError.MaxRetries''
      | TxError.Aborted \<Rightarrow> ''com.steampowered.CecDaemon1.TxError.Aborted''
      | TxError.Timeout \<Rightarrow> ''com.steampowered.CecDaemon1.TxError.Timeout'')"

definition RxError_name :: "RxError \<Rightarrow> string" where
  "RxError_name e =
     (case e of
        RxError.Timeout \<Rightarrow> ''com.steampowered.CecDaemon1.RxError.Timeout''
      | RxError.FeatureAbort \<Rightarrow> ''com.steampowered.CecDaemon1.RxError.FeatureAbort''
      | RxError.Aborted \<Rightarrow> ''com.steampowered.CecDaemon1.RxError.Aborted'')"

text \<open>\<open>Error::name\<close>; the name of an error of zbus itself is the text that \<open>FDO\<close> holds.\<close>

primrec BusError_name :: "BusError \<Rightarrow> string" where
  "BusError_name (Cec e) =
     (case e of
        OutOfRange _ _ _ \<Rightarrow> ''com.steampowered.CecDaemon1.Error.OutOfRange''
      | InvalidValueForType _ _ \<Rightarrow> ''com.steampowered.CecDaemon1.Error.InvalidValueForType''
      | InvalidData \<Rightarrow> ''com.steampowered.CecDaemon1.Error.InvalidData''
      | Error.Timeout \<Rightarrow> ''com.steampowered.CecDaemon1.Error.Timeout''
      | Error.Abort \<Rightarrow> ''com.steampowered.CecDaemon1.Error.Abort''
      | NoLogicalAddress \<Rightarrow> ''com.steampowered.CecDaemon1.Error.NoLogicalAddress''
      | Disconnected \<Rightarrow> ''com.steampowered.CecDaemon1.Error.Disconnected''
      | Unsupported \<Rightarrow> ''com.steampowered.CecDaemon1.Error.Unsupported''
      | SystemError _ \<Rightarrow> ''com.steampowered.CecDaemon1.Error.SystemError''
      | Error.TxError e \<Rightarrow> TxError_name e
      | Error.RxError e \<Rightarrow> RxError_name e
      | _ \<Rightarrow> ''com.steampowered.CecDaemon1.Error.Unknown'')" |
  "BusError_name (FDO name) = name" |
  "BusError_name (Anyhow _) = ''org.freedesktop.DBus.Error.Failed''"

section \<open>Methods\<close>

type_synonym ('k, 'a) bus_action = "('k, BusError + 'a) task_action"

definition bus_return :: "BusError + 'a \<Rightarrow> ('k, 'a) bus_action" where
  "bus_return r = act_return (Done r)"

definition bus_bind :: "('k, 'a) bus_action \<Rightarrow> ('a \<Rightarrow> ('k, 'b) bus_action) \<Rightarrow> ('k, 'b) bus_action" where
  "bus_bind m f = act_bind m (\<lambda>r. case r of Inl e \<Rightarrow> bus_return (Inl e) | Inr x \<Rightarrow> f x)"

abbreviation bus_then :: "('k, 'a) bus_action \<Rightarrow> ('k, 'b) bus_action \<Rightarrow> ('k, 'b) bus_action" where
  "bus_then m n \<equiv> bus_bind m (\<lambda>_. n)"

text \<open>The two conversions of \<open>?\<close>: an error of the library, and any other one.\<close>

definition cec_result :: "'a result \<Rightarrow> ('k, 'a) bus_action" where
  "cec_result r = act_return (case r of Ok x \<Rightarrow> Done (Inr x) | Err e \<Rightarrow> Done (Inl (Cec e)) | Panic \<Rightarrow> Crash)"

definition cec_call :: "('k, 'a) device_op \<Rightarrow> ('k, 'a) bus_action" where
  "cec_call m = (\<lambda>t. case m (device t, world t) of
     (r, d, k) \<Rightarrow> cec_result r (t\<lparr>device := d, world := k\<rparr>))"

definition anyhow_call :: "('k, 'a) task_action \<Rightarrow> ('k, 'a) bus_action" where
  "anyhow_call m =
     act_bind (act_attempt m) (\<lambda>r. bus_return (case r of Inl e \<Rightarrow> Inl (Anyhow e) | Inr x \<Rightarrow> Inr x))"

definition bus_set_osd_name :: "'k environment \<Rightarrow> u8 list \<Rightarrow> ('k, unit) bus_action" where
  "bus_set_osd_name E name = cec_call (set_osd_name (debug_status E) (cec E) name)"

text \<open>A number that is no 16-bit one asks for the address of the device.\<close>

definition bus_set_active_source :: "'k environment \<Rightarrow> int \<Rightarrow> ('k, unit) bus_action" where
  "bus_set_active_source E phys_addr =
     cec_call (set_active_source (debug_status E) (cec E)
       (if 0 \<le> phys_addr \<and> phys_addr \<le> 0xFFFF then Some (PhysicalAddress.PhysicalAddress (word_of_int phys_addr)) else None))"

definition send_system_message :: "SystemMessage \<Rightarrow> ('k, unit) task_action" where
  "send_system_message m =
     act_state (\<lambda>t.
     case channel (interface t) of
       None \<Rightarrow> act_return (Fail (Other ''Device task has not started''))
     | Some ms \<Rightarrow> set_interface (\<lambda>i. i\<lparr>channel := Some (ms @ [m])\<rparr>))"

definition bus_wake :: "('k, unit) bus_action" where
  "bus_wake = anyhow_call (send_system_message (Wake True False))"

definition bus_standby :: "'k environment \<Rightarrow> u8 \<Rightarrow> ('k, unit) bus_action" where
  "bus_standby E target =
     bus_bind (cec_result (LogicalAddress_try_from target)) (\<lambda>target.
     cec_call (standby (debug_status E) (cec E) target))"

section \<open>Repeated keys\<close>

text \<open>
  \<open>KeyRepeat::run\<close>: each turn of its loop presses the key and then waits for the delay or the
  cancellation. A turn is a step of its own, and an error ends the task. A cancellation lets a task
  that has not run yet press its key once; then the key is released. One that falls together with
  the end of the delay acts after the turn, so it is no case of its own.
\<close>

definition repeat_press :: "'k environment \<Rightarrow> KeyRepeat \<Rightarrow> ('k, unit) task_action" where
  "repeat_press E r = on_device
     (press_user_control (debug_status E) (cec E) (repeat_key r) (repeat_target r))"

definition repeat_turn :: "'k environment \<Rightarrow> u8 \<Rightarrow> ('k, unit) task_action" where
  "repeat_turn E target =
     act_state (\<lambda>t.
     case key_repeat (interface t) target of
       None \<Rightarrow> act_skip
     | Some r \<Rightarrow>
         if repeat_error r \<noteq> None then act_skip
         else
           act_bind (act_attempt (repeat_press E r)) (\<lambda>res.
           set_interface (\<lambda>i. i\<lparr>key_repeat := (key_repeat i)(target \<mapsto>
             r\<lparr>repeat_started := True, repeat_error := (case res of Inl e \<Rightarrow> Some e | Inr _ \<Rightarrow> None)\<rparr>)\<rparr>)))"

text \<open>\<open>token.cancel()\<close>, the removal from the table, and \<open>handle.await??\<close>.\<close>

definition repeat_stop :: "'k environment \<Rightarrow> u8 \<Rightarrow> KeyRepeat \<Rightarrow> ('k, unit) task_action" where
  "repeat_stop E target r =
     act_then (set_interface (\<lambda>i. i\<lparr>key_repeat := (key_repeat i)(target := None)\<rparr>))
     (case repeat_error r of
        Some e \<Rightarrow> act_return (Fail e)
      | None \<Rightarrow>
          act_then (if repeat_started r then act_skip else repeat_press E r)
          (on_device (release_user_control (debug_status E) (cec E) (repeat_target r))))"

definition bus_press_user_control :: "'k environment \<Rightarrow> u8 list \<Rightarrow> u8 \<Rightarrow> ('k, unit) bus_action" where
  "bus_press_user_control E button target =
     bus_bind (cec_result (LogicalAddress_try_from target)) (\<lambda>addr.
     bus_bind (cec_result (UiCommand_try_from_bytes button)) (\<lambda>key.
     act_state (\<lambda>t.
     let insert = act_then (set_interface (\<lambda>i. i\<lparr>key_repeat := (key_repeat i)(target \<mapsto>
           \<lparr>repeat_key = key, repeat_target = addr, repeat_started = False, repeat_error = None\<rparr>)\<rparr>))
         (bus_return (Inr ()))
     in
     case key_repeat (interface t) target of
       Some r \<Rightarrow>
         if key = repeat_key r then bus_return (Inr ())
         else bus_then (anyhow_call (repeat_stop E target r)) insert
     | None \<Rightarrow> insert)))"

definition bus_release_user_control :: "'k environment \<Rightarrow> u8 \<Rightarrow> ('k, unit) bus_action" where
  "bus_release_user_control E target =
     act_state (\<lambda>t.
     case key_repeat (interface t) target of
       Some r \<Rightarrow> anyhow_call (repeat_stop E target r)
     | None \<Rightarrow>
         bus_bind (cec_result (LogicalAddress_try_from target)) (\<lambda>addr.
         cec_call (release_user_control (debug_status E) (cec E) addr)))"

text \<open>The key is pressed and released under one lock of the device.\<close>

definition press_and_release ::
  "'k environment \<Rightarrow> UiCommand \<Rightarrow> LogicalAddress \<Rightarrow> ('k, unit) bus_action" where
  "press_and_release E key addr =
     bus_then (cec_call (press_user_control (debug_status E) (cec E) key addr))
     (cec_call (release_user_control (debug_status E) (cec E) addr))"

definition bus_press_once_user_control :: "'k environment \<Rightarrow> u8 list \<Rightarrow> u8 \<Rightarrow> ('k, unit) bus_action"
where
  "bus_press_once_user_control E button target =
     bus_bind (cec_result (LogicalAddress_try_from target)) (\<lambda>addr.
     bus_bind (cec_result (UiCommand_try_from_bytes button)) (\<lambda>key.
     act_state (\<lambda>t.
     case key_repeat (interface t) target of
       Some r \<Rightarrow>
         bus_then (anyhow_call (repeat_stop E target r))
         (if key = repeat_key r then bus_return (Inr ()) else press_and_release E key addr)
     | None \<Rightarrow> press_and_release E key addr)))"

section \<open>Volume\<close>

definition CURRENT_AUDIO_LOG_ADDR :: u8 where "CURRENT_AUDIO_LOG_ADDR = 255"

definition audio_target :: "u8 \<Rightarrow> ('k, LogicalAddress) bus_action" where
  "audio_target target =
     act_state (\<lambda>t. cec_result (LogicalAddress_try_from
       (if target = CURRENT_AUDIO_LOG_ADDR then cached_audio_log_addr (interface t) else target)))"

definition bus_volume_up :: "'k environment \<Rightarrow> u8 \<Rightarrow> ('k, unit) bus_action" where
  "bus_volume_up E target = bus_bind (audio_target target) (press_and_release E UiCommand.VolumeUp)"

definition bus_volume_down :: "'k environment \<Rightarrow> u8 \<Rightarrow> ('k, unit) bus_action" where
  "bus_volume_down E target = bus_bind (audio_target target) (press_and_release E UiCommand.VolumeDown)"

definition bus_mute :: "'k environment \<Rightarrow> u8 \<Rightarrow> ('k, unit) bus_action" where
  "bus_mute E target = bus_bind (audio_target target) (press_and_release E UiCommand.Mute)"

text \<open>\<open>status.volume().try_into().unwrap()\<close> panics on a volume above 255.\<close>

definition volume_u8 :: "nat \<Rightarrow> u8 result" where
  "volume_u8 n = (if n \<le> 255 then Ok (word_of_nat n) else Panic)"

definition bus_get_audio_status :: "'k environment \<Rightarrow> u8 \<Rightarrow> ('k, u8 \<times> bool) bus_action" where
  "bus_get_audio_status E target =
     bus_bind (audio_target target) (\<lambda>addr.
     bus_bind (cec_call (tx_rx_message (debug_status E) (cec E) Message.GiveAudioStatus addr
         Opcode.ReportAudioStatus Timeout_MAX)) (\<lambda>env.
     case message env of
       Valid (Message.ReportAudioStatus status) \<Rightarrow>
         bus_bind (cec_result (volume_u8 (AudioStatus_volume status))) (\<lambda>v.
         bus_return (Inr (v, AudioStatus_mute status)))
     | _ \<Rightarrow> bus_return (Inl (Cec InvalidData))))"

section \<open>Raw messages\<close>

definition bus_send_raw_message :: "'k environment \<Rightarrow> u8 list \<Rightarrow> u8 \<Rightarrow> ('k, u32) bus_action" where
  "bus_send_raw_message E raw target =
     bus_bind (cec_result (LogicalAddress_try_from target)) (\<lambda>addr.
     bus_bind (cec_result (Message_try_from_bytes raw)) (\<lambda>m.
     cec_call (tx_message (debug_status E) (cec E) m addr)))"

text \<open>The opcode is checked while the lock of the device is taken, before anything is sent.\<close>

definition bus_send_receive_raw_message ::
  "'k environment \<Rightarrow> u8 list \<Rightarrow> u8 \<Rightarrow> u8 \<Rightarrow> u16 \<Rightarrow> ('k, u8 list) bus_action" where
  "bus_send_receive_raw_message E raw target oc ms =
     bus_bind (cec_result (LogicalAddress_try_from target)) (\<lambda>addr.
     bus_bind (cec_result (Message_try_from_bytes raw)) (\<lambda>m.
     bus_bind (cec_result (Opcode_try_from_primitive oc)) (\<lambda>reply_opcode.
     bus_bind (cec_call (tx_rx_message (debug_status E) (cec E) m addr reply_opcode
         (Timeout_from_ms (ucast ms)))) (\<lambda>env.
     cec_result (unwrap_option (MessageData_to_bytes (message env)))))))"

definition bus_poll :: "'k environment \<Rightarrow> u8 \<Rightarrow> ('k, unit) bus_action" where
  "bus_poll E target =
     bus_bind (cec_result (LogicalAddress_try_from target)) (\<lambda>addr.
     cec_call (poll_address (debug_status E) (cec E) addr))"

section \<open>A device as a whole\<close>

text \<open>What a client may call, and what may happen next to a device: a turn of its task, a call, or
  a turn of a repeated key. Each is a step of its own.\<close>

datatype BusCall =
  CallSetOsdName "u8 list" | CallSetActiveSource int | CallWake | CallStandby u8 |
  CallPress "u8 list" u8 | CallRelease u8 | CallPressOnce "u8 list" u8 | CallVolumeUp u8 |
  CallVolumeDown u8 | CallMute u8 | CallGetAudioStatus u8 | CallSendRaw "u8 list" u8 |
  CallSendReceive "u8 list" u8 u8 u16 | CallPoll u8

primrec bus_call :: "'k environment \<Rightarrow> BusCall \<Rightarrow> ('k, unit) task_action" where
  "bus_call E (CallSetOsdName name) = act_then (bus_set_osd_name E name) act_skip" |
  "bus_call E (CallSetActiveSource phys_addr) = act_then (bus_set_active_source E phys_addr) act_skip" |
  "bus_call E CallWake = act_then bus_wake act_skip" |
  "bus_call E (CallStandby target) = act_then (bus_standby E target) act_skip" |
  "bus_call E (CallPress button target) = act_then (bus_press_user_control E button target) act_skip" |
  "bus_call E (CallRelease target) = act_then (bus_release_user_control E target) act_skip" |
  "bus_call E (CallPressOnce button target) =
     act_then (bus_press_once_user_control E button target) act_skip" |
  "bus_call E (CallVolumeUp target) = act_then (bus_volume_up E target) act_skip" |
  "bus_call E (CallVolumeDown target) = act_then (bus_volume_down E target) act_skip" |
  "bus_call E (CallMute target) = act_then (bus_mute E target) act_skip" |
  "bus_call E (CallGetAudioStatus target) = act_then (bus_get_audio_status E target) act_skip" |
  "bus_call E (CallSendRaw raw target) = act_then (bus_send_raw_message E raw target) act_skip" |
  "bus_call E (CallSendReceive raw target oc ms) =
     act_then (bus_send_receive_raw_message E raw target oc ms) act_skip" |
  "bus_call E (CallPoll target) = act_then (bus_poll E target) act_skip"

datatype Step = Turn Event | Called BusCall | RepeatTurn u8

primrec device_step :: "'k environment \<Rightarrow> Step \<Rightarrow> ('k, bool) task_action" where
  "device_step E (Turn ev) = DeviceTask_turn E ev" |
  "device_step E (Called c) = act_then (bus_call E c) (act_return (Done True))" |
  "device_step E (RepeatTurn target) = act_then (repeat_turn E target) (act_return (Done True))"

primrec device_steps :: "'k environment \<Rightarrow> Step list \<Rightarrow> ('k, unit) task_action" where
  "device_steps E [] = act_skip" |
  "device_steps E (s # ss) =
     act_bind (device_step E s) (\<lambda>go_on. if go_on then device_steps E ss else act_skip)"

definition device_run :: "'k environment \<Rightarrow> Step list \<Rightarrow> ('k, unit) task_action" where
  "device_run E ss = act_then (DeviceTask_start E) (device_steps E ss)"

end
