(* ===== verification/BusObjects.thy ===== *)
theory BusObjects
  imports DeviceBus
begin

text \<open>
  The other two objects on the bus: \<open>Daemon\<close>, which registers remote handlers of messages, and
  \<open>CecConfig\<close>, which tells the configuration (\<open>cecd/src/dbus.rs\<close>); and the tasks behind them:
  \<open>ConfigTask\<close> (\<open>cecd/src/system.rs\<close>) and the watch of a handler's owner
  (\<open>cecd/src/message_handler.rs\<close>).
\<close>

section \<open>Configuration\<close>

datatype ConfigSignal =
  OsdNameProperty | VendorIdProperty | LogicalAddressProperty | MappingsProperty | WakeTvProperty |
  SuspendTvProperty | AllowStandbyProperty | UinputProperty | RequestActiveSourceProperty

text \<open>\<open>reconfigure\<close>: the new cached configuration, and the signals in their order.\<close>

definition if_changed :: "(Config \<Rightarrow> 'a) \<Rightarrow> ConfigSignal \<Rightarrow> Config \<Rightarrow> Config \<Rightarrow> ConfigSignal list" where
  "if_changed field changed new old = (if field new \<noteq> field old then [changed] else [])"

definition CecConfig_reconfigure :: "Config \<Rightarrow> Config \<Rightarrow> Config \<times> ConfigSignal list" where
  "CecConfig_reconfigure system_config old_config =
     (let new_config =
        (if cfg_logical_address system_config = LogicalAddressType.Unregistered
         then system_config\<lparr>cfg_logical_address := LogicalAddressType.Playback\<rparr>
         else system_config)
      in (new_config,
        if_changed cfg_osd_name OsdNameProperty new_config old_config @
        if_changed cfg_vendor_id VendorIdProperty new_config old_config @
        if_changed cfg_logical_address LogicalAddressProperty new_config old_config @
        if_changed cfg_mappings MappingsProperty new_config old_config @
        if_changed cfg_wake_tv WakeTvProperty new_config old_config @
        if_changed cfg_suspend_tv SuspendTvProperty new_config old_config @
        if_changed cfg_allow_standby AllowStandbyProperty new_config old_config @
        if_changed cfg_uinput UinputProperty new_config old_config @
        if_changed cfg_request_active_source RequestActiveSourceProperty new_config old_config))"

definition CecConfig_osd_name :: "Config \<Rightarrow> u8 list" where
  "CecConfig_osd_name c = (case cfg_osd_name c of Some name \<Rightarrow> name | None \<Rightarrow> [])"

definition CecConfig_vendor_id :: "Config \<Rightarrow> u32" where
  "CecConfig_vendor_id c = VendorId_into_i32 (cfg_vendor_id c)"

definition CecConfig_logical_address :: "Config \<Rightarrow> u8" where
  "CecConfig_logical_address c = LogicalAddressType_into (cfg_logical_address c)"

text \<open>\<open>new\<close>, and the other getters. A mapping is read by its key; the number of a key is that of its crate.\<close>

definition CecConfig_new :: "System \<Rightarrow> Config" where
  "CecConfig_new s = config s"

definition CecConfig_mappings ::
  "(Key \<Rightarrow> u16) \<Rightarrow> Config \<Rightarrow> UiCommand \<Rightarrow> (u8 list option \<times> u16) option" where
  "CecConfig_mappings key_code c k = map_option (\<lambda>v. (UiCommand_to_bytes k, key_code v)) (cfg_mappings c k)"

definition CecConfig_wake_tv :: "Config \<Rightarrow> bool" where "CecConfig_wake_tv c = cfg_wake_tv c"
definition CecConfig_suspend_tv :: "Config \<Rightarrow> bool" where "CecConfig_suspend_tv c = cfg_suspend_tv c"
definition CecConfig_allow_standby :: "Config \<Rightarrow> bool" where "CecConfig_allow_standby c = cfg_allow_standby c"
definition CecConfig_uinput :: "Config \<Rightarrow> bool" where "CecConfig_uinput c = cfg_uinput c"
definition CecConfig_request_active_source :: "Config \<Rightarrow> bool" where
  "CecConfig_request_active_source c = cfg_request_active_source c"

text \<open>
  \<open>ConfigTask::run\<close> on what it receives: a message of the system, with the configuration that the
  task finds, or an error, when the channel is closed or the task has fallen behind. An error ends it.
\<close>

primrec ConfigTask_run ::
  "(SystemMessage \<times> Config) option list \<Rightarrow> Config \<Rightarrow> Config \<times> ConfigSignal list list" where
  "ConfigTask_run [] cached = (cached, [])" |
  "ConfigTask_run (m # ms) cached =
     (case m of
        None \<Rightarrow> (cached, [])
      | Some (sent, system_config) \<Rightarrow>
          if sent \<noteq> ReloadConfig then ConfigTask_run ms cached
          else
            (case CecConfig_reconfigure system_config cached of (cached', sigs) \<Rightarrow>
             case ConfigTask_run ms cached' of (final, rest) \<Rightarrow> (final, sigs # rest)))"

text \<open>\<open>System::reconfig\<close>: the reader of the files is a parameter.\<close>

definition System_reconfig ::
  "'k environment \<Rightarrow> ('k, Config) action \<Rightarrow> ('k, unit) system_action" where
  "System_reconfig E read = act_bind (on_world read) (set_config E)"

definition CecConfig_reload ::
  "'k environment \<Rightarrow> ('k, Config) action \<Rightarrow> ('k, unit) system_action" where
  "CecConfig_reload E read = System_reconfig E read"

section \<open>Properties of a device\<close>

definition CecDevice_logical_addresses :: "CecDevice \<Rightarrow> u8 list" where
  "CecDevice_logical_addresses i = cached_log_addrs i"

definition CecDevice_physical_address :: "CecDevice \<Rightarrow> u16" where
  "CecDevice_physical_address i = cached_phys_addr i"

definition CecDevice_vendor_id :: "CecDevice \<Rightarrow> u32" where
  "CecDevice_vendor_id i = cached_vendor_id i"

definition CecDevice_active :: "CecDevice \<Rightarrow> bool" where
  "CecDevice_active i = cached_active i"

definition CecDevice_audio_logical_address :: "CecDevice \<Rightarrow> u8" where
  "CecDevice_audio_logical_address i = cached_audio_log_addr i"

section \<open>The daemon\<close>

definition Daemon_wake :: "('k, unit) system_action" where
  "Daemon_wake = wake_all"

definition Daemon_standby :: "bool \<Rightarrow> ('k, unit) system_action" where
  "Daemon_standby force = standby_all force"

section \<open>Remote handlers\<close>

definition STATIC_HANDLERS :: "Opcode list" where
  "STATIC_HANDLERS =
     [Opcode.GiveDevicePowerStatus, Opcode.UserControlPressed, Opcode.UserControlReleased,
      Opcode.SetStreamPath, Opcode.Standby, Opcode.RoutingChange, Opcode.RequestActiveSource,
      Opcode.FeatureAbort, Opcode.ActiveSource]"

definition all_opcodes :: "u8 list" where
  "all_opcodes = map word_of_nat [0..<256]"

text \<open>A set of opcodes as the list of its members in order.\<close>

definition list_handled_messages :: "System \<Rightarrow> u8 list" where
  "list_handled_messages s = filter (\<lambda>oc. message_handlers s oc \<noteq> None) all_opcodes"

definition handled_messages :: "System \<Rightarrow> u8 list" where
  "handled_messages s =
     filter (\<lambda>oc. oc \<in> set (map Opcode_into STATIC_HANDLERS) \<or> oc \<in> set (list_handled_messages s))
       all_opcodes"

definition no_sender :: anyhow where
  "no_sender = Other ''Cannot register message handler without a D-Bus unique name''"

definition Daemon_register_message_handler ::
  "('k \<Rightarrow> string option \<times> 'k) \<Rightarrow> ('k \<Rightarrow> string option \<times> 'k) \<Rightarrow> u8 \<Rightarrow> string \<Rightarrow> string option \<Rightarrow>
   ('k, bool) system_action" where
  "Daemon_register_message_handler start changed oc path sender =
     act_state (\<lambda>(s, k).
     if oc \<in> set (list_handled_messages s) then act_return (Done False)
     else
       (case sender of
          None \<Rightarrow> act_return (Fail no_sender)
        | Some bus_name \<Rightarrow>
            act_bind (register_message_handler start oc path bus_name) (\<lambda>registered.
            if \<not> registered then act_return (Done False)
            else act_then (on_world (call_io changed)) (act_return (Done True)))))"

definition Daemon_unregister_message_handler ::
  "('k \<Rightarrow> string option \<times> 'k) \<Rightarrow> u8 \<Rightarrow> string option \<Rightarrow> ('k, bool) system_action" where
  "Daemon_unregister_message_handler changed oc sender =
     (case sender of
        None \<Rightarrow> act_return (Fail no_sender)
      | Some bus_name \<Rightarrow>
          act_bind (unregister_message_handler oc bus_name) (\<lambda>removed.
          if \<not> removed then act_return (Done False)
          else act_then (on_world (call_io changed)) (act_return (Done True))))"

text \<open>
  The watch of an owner: what the bus tells of names. A unique name without a new owner has left.
\<close>

datatype OwnerChange = BadArguments | UniqueName string "string option" | WellKnownName string

primrec handler_watch :: "string \<Rightarrow> OwnerChange list \<Rightarrow> bool outcome" where
  "handler_watch bus_name [] = Done False" |
  "handler_watch bus_name (e # es) =
     (case e of
        BadArguments \<Rightarrow> Crash
      | WellKnownName _ \<Rightarrow> handler_watch bus_name es
      | UniqueName name new_owner \<Rightarrow>
          if name \<noteq> bus_name \<or> new_owner \<noteq> None then handler_watch bus_name es else Done True)"

text \<open>\<open>MessageHandlerTask::run\<close>: the handler goes when its owner has left or the watch has ended.\<close>

definition MessageHandlerTask_run ::
  "u8 \<Rightarrow> string \<Rightarrow> OwnerChange list \<Rightarrow> ('k, unit) system_action" where
  "MessageHandlerTask_run oc bus_name changes =
     (case handler_watch bus_name changes of
        Crash \<Rightarrow> act_return Crash
      | _ \<Rightarrow> act_then (unregister_message_handler oc bus_name) act_skip)"

end
