(* ===== verification/DaemonStart.thy ===== *)
theory DaemonStart
  imports BusObjects "HOL-Library.Char_ord" "HOL-Library.List_Lexorder"
begin

text \<open>
  How the daemon finds its configuration and its devices: \<open>cecd/src/config.rs\<close>, the registry of
  devices of \<open>cecd/src/system.rs\<close>, the opening of a device in \<open>cecd/src/dbus.rs\<close>, and the events
  of \<open>cecd/src/udev.rs\<close>.

  The parser of the files and the merging of their tables belong to the crate \<open>config\<close> and are
  parameters, as are opening and registering a device on the bus in the registry.
\<close>

section \<open>Configuration files\<close>

text \<open>\<open>AsyncFileSource::collect\<close>: a file that does not exist is an empty table.\<close>

definition collect_source ::
  "'k files \<Rightarrow> (string \<Rightarrow> 'm outcome) \<Rightarrow> 'm \<Rightarrow> string \<Rightarrow> ('k, 'm) action" where
  "collect_source F parse no_table path =
     act_bind (io_try (read_text F path)) (\<lambda>text.
     case text of
       Inl NotFound \<Rightarrow> act_return (Done no_table)
     | Inl e \<Rightarrow> act_return (Fail (Other (io_text e)))
     | Inr text \<Rightarrow> act_return (parse text))"

text \<open>\<open>Path::extension\<close> of a file name.\<close>

definition extension :: "string \<Rightarrow> string option" where
  "extension name =
     (case split_once (CHR ''.'') (rev name) of
        Some (ext, stem) \<Rightarrow> if stem = [] \<or> name = ''..'' then None else Some (rev ext)
      | None \<Rightarrow> None)"

text \<open>The entries that are read before an error.\<close>

primrec read_entries :: "(io_error + 'a) list \<Rightarrow> 'a list outcome" where
  "read_entries [] = Done []" |
  "read_entries (e # es) =
     (case e of
        Inl err \<Rightarrow> Fail (Other (io_text err))
      | Inr x \<Rightarrow> (case read_entries es of Done xs \<Rightarrow> Done (x # xs) | Fail err \<Rightarrow> Fail err | Crash \<Rightarrow> Crash))"

text \<open>\<open>read_config_directory\<close>: the fragments of a directory, in the order of their names.\<close>

definition read_config_directory ::
  "'k files \<Rightarrow> string list \<Rightarrow> string \<Rightarrow> ('k, string list) action" where
  "read_config_directory F extensions path =
     act_bind (io_try (list_dir F path)) (\<lambda>dir.
     case dir of
       Inl NotFound \<Rightarrow> act_return (Done [])
     | Inl e \<Rightarrow> act_return (Fail (Other (io_text e)))
     | Inr entries \<Rightarrow>
         act_bind (act_return (read_entries entries)) (\<lambda>names.
         act_return (Done (sort (map (join_path path)
           (filter (\<lambda>name. \<exists>ext \<in> set_option (extension name). ext \<in> set extensions) names))))))"

definition config_paths :: "string option \<Rightarrow> string list" where
  "config_paths home =
     [''/usr/share/cecd'', ''/etc/cecd''] @
     (case home of Some dir \<Rightarrow> [join_path dir ''cecd''] | None \<Rightarrow> [])"

text \<open>The files of \<open>read_default_config\<close>, from the ones that are overridden to the ones that override.\<close>

primrec config_sources :: "'k files \<Rightarrow> string list \<Rightarrow> string list \<Rightarrow> ('k, string list) action" where
  "config_sources F extensions [] = act_return (Done [])" |
  "config_sources F extensions (dir # dirs) =
     act_bind (read_config_directory F extensions (join_path dir ''config.d'')) (\<lambda>fragments.
     act_bind (config_sources F extensions dirs) (\<lambda>rest.
     act_return (Done (join_path dir ''config.toml'' # fragments @ rest))))"

primrec collect_all :: "(string \<Rightarrow> ('k, 'm) action) \<Rightarrow> string list \<Rightarrow> ('k, 'm list) action" where
  "collect_all collect [] = act_return (Done [])" |
  "collect_all collect (path # paths) =
     act_bind (collect path) (\<lambda>m.
     act_bind (collect_all collect paths) (\<lambda>ms.
     act_return (Done (m # ms))))"

text \<open>\<open>build\<close>: later tables override earlier ones, and the result becomes a configuration.\<close>

definition read_default_config ::
  "'k files \<Rightarrow> (string \<Rightarrow> 'm outcome) \<Rightarrow> 'm \<Rightarrow> ('m list \<Rightarrow> Config outcome) \<Rightarrow> string list \<Rightarrow>
   string option \<Rightarrow> ('k, Config) action" where
  "read_default_config F parse no_table build extensions home =
     act_bind (config_sources F extensions (config_paths home)) (\<lambda>paths.
     act_bind (collect_all (collect_source F parse no_table) paths) (\<lambda>tables.
     act_return (build tables)))"

definition read_config_file ::
  "'k files \<Rightarrow> (string \<Rightarrow> 'm outcome) \<Rightarrow> 'm \<Rightarrow> ('m list \<Rightarrow> Config outcome) \<Rightarrow> string \<Rightarrow>
   ('k, Config) action" where
  "read_config_file F parse no_table build path =
     act_bind (collect_source F parse no_table path) (\<lambda>table.
     act_return (build [table]))"

section \<open>Opening a device\<close>

definition op_or_default :: "'a \<Rightarrow> ('k, 'a) device_op \<Rightarrow> ('k, 'a) device_op" where
  "op_or_default dflt m = (\<lambda>s. case m s of
     (Ok x, t) \<Rightarrow> (Ok x, t)
   | (Err _, t) \<Rightarrow> (Ok dflt, t)
   | (Panic, t) \<Rightarrow> (Panic, t))"

text \<open>\<open>CecDevice::open\<close> on the opened file.\<close>

definition CecDevice_open :: "'k environment \<Rightarrow> ('k, CecDevice) device_op" where
  "CecDevice_open E =
     op_bind (op_or_default PhysicalAddress_default (get_physical_address (cec E))) (\<lambda>address.
     op_bind (op_or_default [] (get_logical_addresses (cec E))) (\<lambda>addrs.
     op_bind (op_or_default None (get_vendor_id (cec E))) (\<lambda>vendor.
     op_return (Ok
       \<lparr>cached_phys_addr = the_u16 address, cached_log_addrs = map LogicalAddress_into addrs,
        cached_vendor_id = VendorId_into_i32 vendor, cached_active = False,
        cached_audio_log_addr = LogicalAddress_into LogicalAddress.Tv, channel = None,
        key_repeat = Map.empty, uinput = None\<rparr>))))"

text \<open>
  Opening and registering: the device is opened, put on the bus, and given to a new task; the channel
  to the task opens last. A task that cannot be created takes the device off the bus.
\<close>

definition CecDevice_start ::
  "'k environment \<Rightarrow> System \<Rightarrow> 'k \<Rightarrow> 'k DeviceTask outcome \<times> 'k" where
  "CecDevice_start E s k =
     (case Device_try_from (cec E) k of
        (Ok d, k) \<Rightarrow>
          (case CecDevice_open E (d, k) of
             (Ok i, d, k) \<Rightarrow>
               (case DeviceTask_new E d k s i of
                  (Done _, t) \<Rightarrow>
                    (Done (t\<lparr>interface := (interface t)\<lparr>channel := Some []\<rparr>\<rparr>), world t)
                | (Fail e, t) \<Rightarrow> (Fail e, world t)
                | (Crash, t) \<Rightarrow> (Crash, world t))
           | (Err e, d, k) \<Rightarrow> (Fail (Library e), k)
           | (Panic, d, k) \<Rightarrow> (Crash, k))
      | (Err e, k) \<Rightarrow> (Fail (Library e), k)
      | (Panic, k) \<Rightarrow> (Crash, k))"

text \<open>The path of the object: the parts of the path of the device, capitalised. They are ASCII.\<close>

definition to_uppercase :: "char \<Rightarrow> char" where
  "to_uppercase c =
     (let n = of_char c :: nat in if 97 \<le> n \<and> n \<le> 122 then char_of (n - 32) else c)"

definition capitalize :: "string \<Rightarrow> string" where
  "capitalize node = (case node of [] \<Rightarrow> [] | c # cs \<Rightarrow> to_uppercase c # cs)"

definition dbus_path :: "string \<Rightarrow> string" where
  "dbus_path path =
     ''/com/steampowered/CecDaemon1/Devices/'' @
     concat (map capitalize (split_on (CHR ''/'')
       (case strip_prefix path ''/dev'' of Some rest \<Rightarrow> rest | None \<Rightarrow> path)))"

section \<open>The registry of devices\<close>

text \<open>The devices that are open, by their paths, with the tokens that end their tasks.\<close>

record Registry =
  devs :: "string \<rightharpoonup> nat"
  next_token :: nat
  cancelled :: "nat set"

type_synonym ('k, 'a) registry_action = "(Registry \<times> 'k, 'a) action"

definition child_token :: "('k, nat) registry_action" where
  "child_token = (\<lambda>(r, k). (Done (next_token r), r\<lparr>next_token := next_token r + 1\<rparr>, k))"

definition add_dev :: "string \<Rightarrow> nat \<Rightarrow> ('k, unit) registry_action" where
  "add_dev path token = act_modify (\<lambda>(r, k). (r\<lparr>devs := (devs r)(path \<mapsto> token)\<rparr>, k))"

text \<open>The loop of \<open>find_devs\<close>: the devices it opens, with their paths and tokens.\<close>

primrec scan_devs ::
  "(string \<Rightarrow> nat \<Rightarrow> ('k, 'd) action) \<Rightarrow> (io_error + string) list \<Rightarrow>
   ('k, (string \<times> nat \<times> 'd) list) registry_action" where
  "scan_devs open_dev [] = act_return (Done [])" |
  "scan_devs open_dev (entry # entries) =
     (case entry of
        Inl e \<Rightarrow> act_return (Fail (Other (io_text e)))
      | Inr name \<Rightarrow>
          act_state (\<lambda>(r, k).
          if \<not> starts_with name ''cec'' \<or> devs r (join_path ''/dev'' name) \<noteq> None
          then scan_devs open_dev entries
          else
            act_bind child_token (\<lambda>token.
            act_bind (on_world (open_dev (join_path ''/dev'' name) token)) (\<lambda>dev.
            act_bind (scan_devs open_dev entries) (\<lambda>rest.
            act_return (Done ((join_path ''/dev'' name, token, dev) # rest)))))))"

text \<open>The devices enter the registry when all of them are open.\<close>

definition System_find_devs ::
  "'k files \<Rightarrow> (string \<Rightarrow> nat \<Rightarrow> ('k, 'd) action) \<Rightarrow> ('k, (string \<times> nat \<times> 'd) list) registry_action"
where
  "System_find_devs F open_dev =
     act_bind (on_world (io_call (list_dir F ''/dev''))) (\<lambda>entries.
     act_bind (scan_devs open_dev entries) (\<lambda>found.
     act_then (act_list (\<lambda>(path, token, dev). add_dev path token) found)
     (act_return (Done found))))"

definition System_find_dev ::
  "(string \<Rightarrow> nat \<Rightarrow> ('k, 'd) action) \<Rightarrow> string \<Rightarrow> ('k, nat \<times> 'd) registry_action" where
  "System_find_dev open_dev path =
     act_state (\<lambda>(r, k).
     if devs r path \<noteq> None then act_return (Fail (Other (''Device '' @ path @ '' already loaded'')))
     else
       act_bind child_token (\<lambda>token.
       act_bind (on_world (open_dev path token)) (\<lambda>dev.
       act_then (add_dev path token)
       (act_return (Done (token, dev))))))"

definition System_close_dev :: "string \<Rightarrow> ('k, unit) registry_action" where
  "System_close_dev path =
     act_modify (\<lambda>(r, k).
       case devs r path of
         Some token \<Rightarrow> (r\<lparr>devs := (devs r)(path := None), cancelled := insert token (cancelled r)\<rparr>, k)
       | None \<Rightarrow> (r, k))"

text \<open>\<open>SystemHandle::find_devs\<close> and \<open>find_dev\<close> register what was opened.\<close>

definition SystemHandle_find_devs ::
  "'k files \<Rightarrow> (string \<Rightarrow> nat \<Rightarrow> ('k, 'd) action) \<Rightarrow> ('d \<Rightarrow> ('k, unit) action) \<Rightarrow>
   ('k, nat list) registry_action" where
  "SystemHandle_find_devs F open_dev register =
     act_bind (System_find_devs F open_dev) (\<lambda>found.
     act_then (act_list (\<lambda>(path, token, dev). on_world (register dev)) found)
     (act_return (Done (map (\<lambda>(path, token, dev). token) found))))"

definition SystemHandle_find_dev ::
  "(string \<Rightarrow> nat \<Rightarrow> ('k, 'd) action) \<Rightarrow> ('d \<Rightarrow> ('k, unit) action) \<Rightarrow> string \<Rightarrow>
   ('k, nat) registry_action" where
  "SystemHandle_find_dev open_dev register path =
     act_bind (System_find_dev open_dev path) (\<lambda>(token, dev).
     act_then (on_world (register dev))
     (act_return (Done token)))"

section \<open>Events of udev\<close>

datatype EventType = Add | Remove | OtherEvent

text \<open>A property or a path that is no UTF-8 text is \<open>None\<close> inside.\<close>

record UdevEvent =
  devnode :: "string option"
  event_type :: EventType
  hotplug :: bool
  connector_property :: "string option option"
  devpath :: "string option"

definition handle_cec_event ::
  "(string \<Rightarrow> nat \<Rightarrow> ('k, 'd) action) \<Rightarrow> ('d \<Rightarrow> ('k, unit) action) \<Rightarrow> UdevEvent \<Rightarrow>
   ('k, unit) registry_action" where
  "handle_cec_event open_dev register ev =
     (case devnode ev of
        None \<Rightarrow> act_skip
      | Some node \<Rightarrow>
          (case event_type ev of
             Add \<Rightarrow> act_logged (SystemHandle_find_dev open_dev register node)
           | Remove \<Rightarrow> System_close_dev node
           | OtherEvent \<Rightarrow> act_skip))"

definition drm_event_info :: "UdevEvent \<Rightarrow> ConnectorInfo option" where
  "drm_event_info ev =
     (if \<not> hotplug ev then None
      else
        Option.bind (Option.bind (connector_property ev) (\<lambda>text. Option.bind text parse_u32)) (\<lambda>connector_id.
        Option.bind (map_option (\<lambda>path. last (split_on (CHR ''/'') path)) (devpath ev)) (\<lambda>card.
        Option.bind (Option.bind (strip_prefix card ''card'') parse_u32) (\<lambda>card_no.
        Some (ConnectorInfo.DrmConnector card_no connector_id)))))"

definition handle_drm_event :: "UdevEvent \<Rightarrow> ('k, unit) system_action" where
  "handle_drm_event ev =
     (case drm_event_info ev of
        Some info \<Rightarrow> reconfig_connector info
      | None \<Rightarrow> act_skip)"

end
