(* ===== verification/BusFacts.thy ===== *)
theory BusFacts
  imports TaskFacts DaemonStart
begin

text \<open>
  Facts on the objects on the bus: every method of a device keeps the invariant of its task, and so
  does the repetition of keys. Then the whole of a device is one run: its task, its object on the
  bus and its repeated keys take their steps in any order.
\<close>

section \<open>Rules for methods on the bus\<close>

abbreviation bus_holds :: "('k DeviceTask \<Rightarrow> bool) \<Rightarrow> ('k, 'a) bus_action \<Rightarrow> ('a \<Rightarrow> bool) \<Rightarrow> bool" where
  "bus_holds I m Q \<equiv> act_holds I m (\<lambda>r. case r of Inl _ \<Rightarrow> True | Inr x \<Rightarrow> Q x)"

named_theorems bus

lemma bus_return_holds [bus]: "(\<And>x. r = Inr x \<Longrightarrow> Q x) \<Longrightarrow> bus_holds I (bus_return r) Q"
  by (cases r) (simp_all add: bus_return_def act_holds_def)

lemma bus_bind_holds:
  fixes m :: "('k, 'a) bus_action"
  assumes "bus_holds I m Q" "\<And>x. Q x \<Longrightarrow> bus_holds I (f x) R"
  shows "bus_holds I (bus_bind m f) R"
  unfolding bus_bind_def
proof (rule act_holds_bind [OF assms(1)])
  fix r :: "BusError + 'a"
  assume "case r of Inl _ \<Rightarrow> True | Inr x \<Rightarrow> Q x"
  then show "bus_holds I (case r of Inl e \<Rightarrow> bus_return (Inl e) | Inr x \<Rightarrow> f x) R"
    using assms(2) by (cases r) (simp_all add: bus_return_def act_holds_def)
qed

lemma bus_keeps_bind [bus]:
  assumes "bus_holds I m (\<lambda>_. True)" "\<And>x. bus_holds I (f x) R"
  shows "bus_holds I (bus_bind m f) R"
  using assms(1) by (rule bus_bind_holds) (rule assms(2))

lemma cec_result_holds:
  "r \<noteq> Panic \<Longrightarrow> (\<And>x. r = Ok x \<Longrightarrow> Q x) \<Longrightarrow> bus_holds I (cec_result r) Q"
  by (cases r) (simp_all add: cec_result_def act_holds_def)

lemma cec_call_holds:
  assumes "op_safe device_ok m Q"
  shows "bus_holds task_inv (cec_call m) Q"
proof (rule act_holdsI)
  fix t r t'
  assume t: "task_inv t" "cec_call m t = (r, t')"
  obtain q d k where q: "m (device t, world t) = (q, d, k)"
    by (metis prod.collapse)
  have "device_ok (device t, world t)"
    using t(1) by (simp add: task_inv_def task_ok_def)
  note m = op_safeD [OF assms this q]
  have "task_inv (t\<lparr>device := d, world := k\<rparr>)"
    using task.device_changes [OF t(1)] m(2) by simp
  with m t(2) q show "r \<noteq> Crash \<and> task_inv t' \<and> (\<forall>x. r = Done x \<longrightarrow> (case x of Inl _ \<Rightarrow> True | Inr x \<Rightarrow> Q x))"
    by (cases q) (auto simp: cec_call_def cec_result_def)
qed

lemma anyhow_call_holds [bus]: "act_keeps I m \<Longrightarrow> bus_holds I (anyhow_call m) (\<lambda>_. True)"
  unfolding anyhow_call_def
  by (rule act_keeps_bind, rule act_keeps_attempt) (auto simp: bus_return_def act_holds_def split: sum.splits)

lemma bus_state_holds [bus]:
  "(\<And>t. I t \<Longrightarrow> bus_holds I (f t) Q) \<Longrightarrow> bus_holds I (act_state f) Q"
  by (rule act_keeps_state)

section \<open>Addresses, keys and messages from the bus\<close>

lemma bus_address_holds:
  "bus_holds I (cec_result (LogicalAddress_try_from b)) (\<lambda>a. LogicalAddress_into a = b)"
  by (rule cec_result_holds) (auto simp: try_from_primitive_def find_Some_iff split: option.splits)

lemma bus_key_holds: "bus_holds I (cec_result (UiCommand_try_from_bytes bs)) UiCommand_valid"
  by (rule cec_result_holds [OF UiCommand.dec_total]) (rule UiCommand.dec_valid)

lemma bus_message_holds: "bus_holds I (cec_result (Message_try_from_bytes bs)) Message_valid"
  by (rule cec_result_holds [OF Message.dec_total]) (rule Message.dec_valid)

section \<open>Methods of a device\<close>

lemma pressed_key_safe:
  assumes "kernel_sized K" "UiCommand_valid cmd"
  shows "op_safe device_ok (press_user_control debug K cmd target) (\<lambda>_. True)"
  using sending_methods_safe(5) [OF assms(1)] assms(2) by simp

lemma repeat_press_keeps [act]:
  assumes "kernel_sized (cec E)" "UiCommand_valid (repeat_key r)"
  shows "act_keeps task_inv (repeat_press E r)"
  unfolding repeat_press_def by (rule task.on_device_holds, rule pressed_key_safe) (use assms in simp_all)

lemma repeat_update_keeps:
  assumes "UiCommand_valid (repeat_key r)" "LogicalAddress_into (repeat_target r) = target"
  shows "act_keeps task_inv (set_interface (\<lambda>i. i\<lparr>key_repeat := (key_repeat i)(target \<mapsto> r)\<rparr>))"
  unfolding set_interface_def
  by (rule act_keeps_modify) (use assms in \<open>auto simp: task_inv_def task_ok_def mirrored_def keys_ok_def
      repeats_ok_def\<close>)

lemma repeat_remove_keeps [act]:
  "act_keeps task_inv (set_interface (\<lambda>i. i\<lparr>key_repeat := (key_repeat i)(target := None)\<rparr>))"
  unfolding set_interface_def
  by (rule act_keeps_modify) (auto simp: task_inv_def task_ok_def mirrored_def keys_ok_def repeats_ok_def)

lemma channel_keeps [act]: "act_keeps task_inv (set_interface (\<lambda>i. i\<lparr>channel := ms\<rparr>))"
  unfolding set_interface_def
  by (rule act_keeps_modify) (auto simp: task_inv_def task_ok_def mirrored_def keys_ok_def repeats_ok_def)

lemma repeated_key:
  assumes "task_inv t" "key_repeat (interface t) target = Some r"
  shows "UiCommand_valid (repeat_key r)" "LogicalAddress_into (repeat_target r) = target"
  using assms by (auto simp: task_inv_def repeats_ok_def)

lemma repeat_turn_keeps:
  assumes "kernel_sized (cec E)"
  shows "act_keeps task_inv (repeat_turn E target)"
  unfolding repeat_turn_def
  by (intro act repeat_update_keeps assms) (use repeated_key in \<open>auto split: sum.splits\<close>)

lemma release_keeps [act]:
  "kernel_sized (cec E) \<Longrightarrow>
   act_keeps task_inv (on_device (release_user_control (debug_status E) (cec E) target))"
  by (rule task.on_device_holds, rule sending_methods_safe)

lemma repeat_stop_keeps:
  assumes "kernel_sized (cec E)" "UiCommand_valid (repeat_key r)"
  shows "act_keeps task_inv (repeat_stop E target r)"
  unfolding repeat_stop_def by (intro act assms) simp_all

lemma press_and_release_keeps:
  assumes "kernel_sized (cec E)" "UiCommand_valid key"
  shows "bus_holds task_inv (press_and_release E key target) (\<lambda>_. True)"
  unfolding press_and_release_def
  by (intro bus cec_call_holds pressed_key_safe sending_methods_safe(4) assms)

lemma audio_target_keeps: "bus_holds task_inv (audio_target target) (\<lambda>_. True)"
  unfolding audio_target_def
  by (intro bus act_holds_weaken [OF bus_address_holds]) (auto split: sum.splits)

lemma volume_fits: "volume_u8 (AudioStatus_volume status) \<noteq> Panic"
proof -
  have "AudioStatus_into status AND 0x7F \<le> 0x7F"
    by (simp add: word_and_le1)
  then have "unat (AudioStatus_into status AND 0x7F) \<le> 127"
    by (simp add: word_le_nat_alt)
  then show ?thesis by (simp add: volume_u8_def AudioStatus_volume_def)
qed

text \<open>Every call keeps the invariant.\<close>

lemma bus_forget: "bus_holds I m (\<lambda>_. True) \<Longrightarrow> act_keeps I (act_then m act_skip)"
  by (rule act_keeps_bind) (auto simp: act_holds_def split: sum.splits)

lemma bus_calls_keep:
  assumes K: "kernel_sized (cec E)"
  shows "bus_holds task_inv (bus_set_osd_name E name) (\<lambda>_. True)"
    and "bus_holds task_inv (bus_set_active_source E phys_addr) (\<lambda>_. True)"
    and "bus_holds task_inv bus_wake (\<lambda>_. True)"
    and "bus_holds task_inv (bus_standby E target) (\<lambda>_. True)"
    and "bus_holds task_inv (bus_volume_up E target) (\<lambda>_. True)"
    and "bus_holds task_inv (bus_volume_down E target) (\<lambda>_. True)"
    and "bus_holds task_inv (bus_mute E target) (\<lambda>_. True)"
    and "bus_holds task_inv (bus_poll E target) (\<lambda>_. True)"
proof -
  show "bus_holds task_inv (bus_set_osd_name E name) (\<lambda>_. True)"
    unfolding bus_set_osd_name_def by (intro cec_call_holds set_osd_name_safe K)
  show "bus_holds task_inv (bus_set_active_source E phys_addr) (\<lambda>_. True)"
    unfolding bus_set_active_source_def by (intro cec_call_holds sending_methods_safe K)
  show "bus_holds task_inv bus_wake (\<lambda>_. True)"
    unfolding bus_wake_def send_system_message_def by (intro bus act) simp_all
  show "bus_holds task_inv (bus_standby E target) (\<lambda>_. True)"
    unfolding bus_standby_def
    by (intro bus_bind_holds [OF bus_address_holds] cec_call_holds sending_methods_safe K)
  show "bus_holds task_inv (bus_volume_up E target) (\<lambda>_. True)"
    "bus_holds task_inv (bus_volume_down E target) (\<lambda>_. True)"
    "bus_holds task_inv (bus_mute E target) (\<lambda>_. True)"
    unfolding bus_volume_up_def bus_volume_down_def bus_mute_def
    by (rule bus_keeps_bind [OF audio_target_keeps], rule press_and_release_keeps [OF K],
        simp add: UiCommand_valid_def)+
  show "bus_holds task_inv (bus_poll E target) (\<lambda>_. True)"
    unfolding bus_poll_def
    by (intro bus_bind_holds [OF bus_address_holds] cec_call_holds poll_address_safe)
qed

lemma bus_key_calls_keep:
  assumes K: "kernel_sized (cec E)"
  shows "bus_holds task_inv (bus_press_user_control E button target) (\<lambda>_. True)"
    and "bus_holds task_inv (bus_release_user_control E target) (\<lambda>_. True)"
    and "bus_holds task_inv (bus_press_once_user_control E button target) (\<lambda>_. True)"
proof -
  have stop: "bus_holds task_inv (anyhow_call (repeat_stop E target r)) (\<lambda>_. True)"
    if "task_inv t" "key_repeat (interface t) target = Some r" for t r
    using repeat_stop_keeps [OF K repeated_key(1) [OF that]] by (rule anyhow_call_holds)
  have insert: "bus_holds task_inv (act_then (set_interface (\<lambda>i. i\<lparr>key_repeat := (key_repeat i)(target \<mapsto>
      \<lparr>repeat_key = key, repeat_target = addr, repeat_started = False, repeat_error = None\<rparr>)\<rparr>))
      (bus_return (Inr ()))) (\<lambda>_. True)"
    if "UiCommand_valid key" "LogicalAddress_into addr = target" for key addr
    by (rule act_keeps_bind [OF repeat_update_keeps]) (use that in \<open>simp_all add: bus_return_def act_holds_def\<close>)
  show "bus_holds task_inv (bus_press_user_control E button target) (\<lambda>_. True)"
    unfolding bus_press_user_control_def Let_def
    by (intro bus_bind_holds [OF bus_address_holds] bus_bind_holds [OF bus_key_holds] bus_keeps_bind
        bus_state_holds bus_return_holds act_keeps_option act_keeps_if stop insert; (assumption | rule TrueI))
  show "bus_holds task_inv (bus_release_user_control E target) (\<lambda>_. True)"
    unfolding bus_release_user_control_def
    by (intro bus_state_holds act_keeps_option stop bus_bind_holds [OF bus_address_holds]
        cec_call_holds sending_methods_safe K) assumption+
  show "bus_holds task_inv (bus_press_once_user_control E button target) (\<lambda>_. True)"
    unfolding bus_press_once_user_control_def
    by (intro bus_bind_holds [OF bus_address_holds] bus_bind_holds [OF bus_key_holds] bus_keeps_bind
        bus_state_holds bus_return_holds act_keeps_option act_keeps_if stop press_and_release_keeps K;
        (assumption | rule TrueI))
qed

lemma bus_message_calls_keep:
  fixes E :: "'k environment"
  assumes K: "kernel_sized (cec E)"
  shows "bus_holds task_inv (bus_get_audio_status E target) (\<lambda>_. True)"
    and "bus_holds task_inv (bus_send_raw_message E raw target) (\<lambda>_. True)"
    and "bus_holds task_inv (bus_send_receive_raw_message E raw target oc ms) (\<lambda>_. True)"
proof -
  have status: "bus_holds task_inv (case data of
        Valid (Message.ReportAudioStatus status) \<Rightarrow>
          bus_bind (cec_result (volume_u8 (AudioStatus_volume status))) (\<lambda>v.
          bus_return (Inr (v, AudioStatus_mute status)) :: ('k, u8 \<times> bool) bus_action)
      | _ \<Rightarrow> bus_return (Inl (Cec InvalidData))) (\<lambda>_. True)" for data
  proof (cases "\<exists>status. data = Valid (Message.ReportAudioStatus status)")
    case True
    then obtain status where "data = Valid (Message.ReportAudioStatus status)" by blast
    then show ?thesis
      by (simp only: MessageData.case Message.case)
        (intro bus_bind_holds [OF cec_result_holds [OF volume_fits]] bus_return_holds TrueI)
  next
    case False
    then have "(case data of
        Valid (Message.ReportAudioStatus status) \<Rightarrow>
          bus_bind (cec_result (volume_u8 (AudioStatus_volume status))) (\<lambda>v.
          bus_return (Inr (v, AudioStatus_mute status)) :: ('k, u8 \<times> bool) bus_action)
      | _ \<Rightarrow> bus_return (Inl (Cec InvalidData))) = bus_return (Inl (Cec InvalidData))"
      by (auto split: MessageData.split Message.split)
    then show ?thesis by (simp only:) (rule bus_return_holds, rule TrueI)
  qed
  show "bus_holds task_inv (bus_get_audio_status E target) (\<lambda>_. True)"
    unfolding bus_get_audio_status_def
    by (intro bus_keeps_bind [OF audio_target_keeps] bus_keeps_bind [OF cec_call_holds] status
        tx_rx_message_safe K) simp
  show "bus_holds task_inv (bus_send_raw_message E raw target) (\<lambda>_. True)"
    unfolding bus_send_raw_message_def
    by (intro bus_bind_holds [OF bus_address_holds] bus_bind_holds [OF bus_message_holds]
        cec_call_holds tx_message_safe K) assumption
  have bytes: "bus_holds task_inv (cec_result (unwrap_option (MessageData_to_bytes (message env)))) (\<lambda>_. True)"
    if "envelope_ok env" for env
    using envelope_bytes(2) [OF that] by (auto simp: cec_result_def act_holds_def)
  show "bus_holds task_inv (bus_send_receive_raw_message E raw target oc ms) (\<lambda>_. True)"
    unfolding bus_send_receive_raw_message_def
    by (rule bus_bind_holds [OF bus_address_holds], rule bus_bind_holds [OF bus_message_holds],
        rule bus_keeps_bind, rule cec_result_holds, simp, simp, rule bus_bind_holds,
        rule cec_call_holds, rule tx_rx_message_envelope [OF K], assumption, rule bytes)
qed

lemma bus_call_keeps:
  assumes "kernel_sized (cec E)"
  shows "act_keeps task_inv (bus_call E c)"
  by (cases c; simp only: bus_call.simps; rule bus_forget;
      rule bus_calls_keep bus_key_calls_keep bus_message_calls_keep; rule assms)

section \<open>Runs of a device\<close>

primrec step_ok :: "Step \<Rightarrow> bool" where
  "step_ok (Turn ev) \<longleftrightarrow> event_ok ev" |
  "step_ok (Called _) \<longleftrightarrow> True" |
  "step_ok (RepeatTurn _) \<longleftrightarrow> True"

lemma device_step_keeps:
  assumes "kernel_sized (cec E)" "step_ok s"
  shows "act_keeps task_inv (device_step E s)"
  using assms
  by (cases s) (simp_all add: task.DeviceTask_turn_keeps act_keeps_bind bus_call_keeps
      repeat_turn_keeps act_keeps_return)

lemma device_steps_keep:
  assumes "kernel_sized (cec E)"
  shows "list_all step_ok ss \<Longrightarrow> act_keeps task_inv (device_steps E ss)"
proof (induction ss)
  case Nil
  show ?case by (simp add: act_holds_def)
next
  case (Cons s ss)
  then show ?case
    unfolding device_steps.simps by (intro act device_step_keeps assms) simp_all
qed

lemma device_run_keeps:
  assumes "kernel_sized (cec E)" "list_all step_ok ss"
  shows "act_keeps task_inv (device_run E ss)"
  unfolding device_run_def DeviceTask_start_def query_audio_system_def
  by (intro act task.spawn_keeps task.request_active_source_keeps device_steps_keep assms)

text \<open>A device that starts is in a state with the invariant.\<close>

lemma Device_try_from_ok:
  assumes "kernel_sized K" "Device_try_from K k = (r, k')"
  shows "r \<noteq> Panic" "r = Ok d \<Longrightarrow> log_addrs_ok (internal_log_addrs d)"
proof -
  have "log_addrs_ok (fst (snd (adapter_get_logical_addresses K cec_log_addrs_default k)))"
    using assms(1) log_addrs_default_ok by (simp add: kernel_sized_def)
  with assms(2) show "r \<noteq> Panic" "r = Ok d \<Longrightarrow> log_addrs_ok (internal_log_addrs d)"
    by (auto simp: Device_try_from_def split: prod.splits)
qed

lemma op_or_default_safe: "op_safe P m (\<lambda>_. True) \<Longrightarrow> op_safe P (op_or_default x m) (\<lambda>_. True)"
proof (rule op_safeI)
  fix s r t
  assume m: "op_safe P m (\<lambda>_. True)" "P s" "op_or_default x m s = (r, t)"
  obtain q u where q: "m s = (q, u)" by (cases "m s")
  from op_safeD [OF m(1,2) q] m(3) q show "r \<noteq> Panic \<and> P t \<and> (\<forall>x. r = Ok x \<longrightarrow> True)"
    by (cases q) (auto simp: op_or_default_def)
qed

text \<open>What a new object on the bus tells.\<close>

definition fresh_interface :: "CecDevice \<Rightarrow> bool" where
  "fresh_interface i \<longleftrightarrow>
     \<not> cached_active i \<and> cached_audio_log_addr i = LogicalAddress_into LogicalAddress.Tv \<and>
     key_repeat i = Map.empty \<and> uinput i = None"

lemma CecDevice_open_fresh:
  assumes "kernel_sized (cec E)"
  shows "op_safe device_ok (CecDevice_open E) fresh_interface"
  unfolding CecDevice_open_def
  by (intro op_safe_then op_or_default_safe read_methods_safe get_logical_addresses_safe
      get_vendor_id_safe op_safe_return_Ok assms) (simp add: fresh_interface_def)

lemma DeviceTask_new_inv:
  assumes "kernel_sized (cec E)" "log_addrs_ok (internal_log_addrs d)" "system_ok s"
    and "fresh_interface i" "DeviceTask_new E d k s i = (r, t)"
  shows "r \<noteq> Crash" "task_inv t"
proof -
  let ?t = "\<lparr>device = d, world = k, system = s, interface = i, active_key = None,
      log_addr_try = LOG_ADDR_RETRIES, awaiting_wake = False, active = False, connector = None,
      audio_log_addr = LogicalAddress.Tv, with_logical_address_queue = [], jobs = []\<rparr>"
  have t: "task_inv ?t"
    using assms(2-4) by (simp add: task_inv_def task_ok_def mirrored_def keys_ok_def repeats_ok_def
        fresh_interface_def)
  have "act_keeps task_inv (act_then (on_device (get_poller (cec E))) (act_then (act_bind (configure_dev E None)
      (\<lambda>conn. act_modify (\<lambda>t. t\<lparr>connector := conn\<rparr>))) (configure_uinput E)))"
    by (intro act task.device_keeps task.configure_dev_keeps task.modify_keeps configure_uinput_inv assms(1))
  from act_holdsD [OF this t] assms(5) show "r \<noteq> Crash" "task_inv t"
    by (simp_all add: DeviceTask_new_def)
qed

lemma CecDevice_start_inv:
  assumes "kernel_sized (cec E)" "system_ok s" "CecDevice_start E s k = (r, k')"
  shows "r \<noteq> Crash" "r = Done t \<Longrightarrow> task_inv t"
proof -
  have "r \<noteq> Crash \<and> (\<forall>t. r = Done t \<longrightarrow> task_inv t)"
  proof (cases "Device_try_from (cec E) k")
    case (Pair q k1)
    note d = Device_try_from_ok [OF assms(1) Pair]
    show ?thesis
    proof (cases q)
      case (Ok d)
      then have dok: "device_ok (d, k1)" using d(2) by simp
      obtain q2 d2 k2 where q2: "CecDevice_open E (d, k1) = (q2, d2, k2)" by (metis prod.collapse)
      note i = op_safeD [OF CecDevice_open_fresh [OF assms(1)] dok q2]
      show ?thesis
      proof (cases q2)
        case (Ok i')
        obtain q3 t where q3: "DeviceTask_new E d2 k2 s i' = (q3, t)" by (metis prod.collapse)
        have "log_addrs_ok (internal_log_addrs d2)" "fresh_interface i'"
          using i Ok by simp_all
        note t = DeviceTask_new_inv [OF assms(1) this(1) assms(2) this(2) q3]
        have "task_inv (t\<lparr>interface := (interface t)\<lparr>channel := Some []\<rparr>\<rparr>)"
          using t(2) by (simp add: task_inv_def task_ok_def mirrored_def keys_ok_def repeats_ok_def)
        then show ?thesis
          using assms(3) Pair \<open>q = Ok d\<close> q2 Ok q3 t(1)
          by (cases q3) (auto simp: CecDevice_start_def)
      qed (use assms(3) Pair \<open>q = Ok d\<close> q2 i(1) in \<open>auto simp: CecDevice_start_def\<close>)
    qed (use assms(3) Pair d(1) in \<open>auto simp: CecDevice_start_def\<close>)
  qed
  then show "r \<noteq> Crash" "r = Done t \<Longrightarrow> task_inv t" by blast+
qed

end
