(* ===== verification/Frames.thy ===== *)
theory Frames
  imports BusFacts
begin

text \<open>
  What an action does not change: \<open>leaves v m\<close> says that the view \<open>v\<close> of the state is the same after
  \<open>m\<close>, whether it returns, fails or panics. A view that ignores what the handlers of a device change
  is left alone by all of them; the two locales say what it has to ignore.
\<close>

section \<open>Rules\<close>

definition leaves :: "('s \<Rightarrow> 'v) \<Rightarrow> ('s, 'a) action \<Rightarrow> bool" where
  "leaves v m \<longleftrightarrow> (\<forall>s. v (snd (m s)) = v s)"

named_theorems leaves

lemma leavesI: "(\<And>s r t. m s = (r, t) \<Longrightarrow> v t = v s) \<Longrightarrow> leaves v m"
  unfolding leaves_def by (metis prod.collapse)

lemma leavesD: "leaves v m \<Longrightarrow> m s = (r, t) \<Longrightarrow> v t = v s"
  unfolding leaves_def by (metis snd_conv)

lemma leaves_bind [leaves]:
  assumes "leaves v m" "\<And>x. leaves v (f x)"
  shows "leaves v (act_bind m f)"
  using assms unfolding leaves_def act_bind_def
  by (auto split: prod.split outcome.split) (metis snd_conv)+

lemma leaves_return [leaves]: "leaves v (act_return r)"
  by (simp add: leaves_def)

lemma leaves_state [leaves]: "(\<And>s. leaves v (f s)) \<Longrightarrow> leaves v (act_state f)"
  by (simp add: leaves_def)

lemma leaves_modify: "(\<And>s. v (f s) = v s) \<Longrightarrow> leaves v (act_modify f)"
  by (simp add: leaves_def)

lemma leaves_if [leaves]: "leaves v m \<Longrightarrow> leaves v n \<Longrightarrow> leaves v (if b then m else n)"
  by simp

lemma leaves_attempt [leaves]: "leaves v m \<Longrightarrow> leaves v (act_attempt m)"
  by (auto simp: leaves_def act_attempt_def split: prod.split outcome.split) (metis snd_conv)+

lemma leaves_logged [leaves]: "leaves v m \<Longrightarrow> leaves v (act_logged m)"
  unfolding act_logged_def by (intro leaves)

lemma leaves_option [leaves]:
  "leaves v m \<Longrightarrow> (\<And>y. leaves v (f y)) \<Longrightarrow> leaves v (case x of None \<Rightarrow> m | Some y \<Rightarrow> f y)"
  by (cases x) simp_all

lemma leaves_sum [leaves]:
  "(\<And>e. leaves v (f e)) \<Longrightarrow> (\<And>y. leaves v (g y)) \<Longrightarrow>
   leaves v (case x of Inl e \<Rightarrow> f e | Inr y \<Rightarrow> g y)"
  by (cases x) simp_all

lemma leaves_pair [leaves]: "(\<And>a b. leaves v (f a b)) \<Longrightarrow> leaves v (case x of (a, b) \<Rightarrow> f a b)"
  by (cases x) simp

lemma leaves_list [leaves]: "(\<And>x. leaves v (f x)) \<Longrightarrow> leaves v (act_list f xs)"
  by (induction xs) (auto intro!: leaves)

lemma leaves_bind_Done:
  assumes "leaves v m" "act_bind m f s = (Done y, t)"
  obtains x u where "f x u = (Done y, t)" "v u = v s"
  using assms(2) leavesD [OF assms(1)] by (auto simp: act_bind_eq_Done)

section \<open>Views of a task\<close>

locale task_view =
  fixes v :: "'k DeviceTask \<Rightarrow> 'v"
  assumes parts: "v (t\<lparr>device := d\<rparr>) = v t" "v (t\<lparr>world := k\<rparr>) = v t"
      "v (t\<lparr>system := s\<rparr>) = v t" "v (t\<lparr>connector := c\<rparr>) = v t" "v (t\<lparr>jobs := js\<rparr>) = v t"
      "v (t\<lparr>awaiting_wake := b\<rparr>) = v t" "v (t\<lparr>active := b\<rparr>) = v t"
      "v (t\<lparr>active_key := key\<rparr>) = v t" "v (t\<lparr>audio_log_addr := a\<rparr>) = v t"
    and object: "v (t\<lparr>interface := (interface t)\<lparr>uinput := u\<rparr>\<rparr>) = v t"
      "v (t\<lparr>interface := (interface t)\<lparr>cached_phys_addr := pa\<rparr>\<rparr>) = v t"
      "v (t\<lparr>interface := (interface t)\<lparr>cached_vendor_id := vid\<rparr>\<rparr>) = v t"
      "v (t\<lparr>interface := (interface t)\<lparr>cached_active := b\<rparr>\<rparr>) = v t"
      "v (t\<lparr>interface := (interface t)\<lparr>cached_audio_log_addr := x\<rparr>\<rparr>) = v t"
      "v (t\<lparr>interface := (interface t)\<lparr>channel := ms\<rparr>\<rparr>) = v t"
      "v (t\<lparr>interface := (interface t)\<lparr>key_repeat := kr\<rparr>\<rparr>) = v t"
begin

lemma parts_leave [leaves]:
  "leaves v (on_device m)" "leaves v (in_world w)" "leaves v (in_system y)"
  "leaves v (with_uinput z)" "leaves v (signal E sig)" "leaves v (cec_call n)"
proof -
  show "leaves v (on_device m)"
    by (rule leavesI) (auto simp: on_device_def parts split: prod.splits)
  show world: "leaves v (in_world w)" for w :: "('k, 'w) action"
    by (rule leavesI) (auto simp: in_world_def parts split: prod.splits)
  show "leaves v (in_system y)"
    by (rule leavesI) (auto simp: in_system_def parts split: prod.splits)
  show "leaves v (with_uinput z)"
    by (rule leavesI)
      (auto simp: with_uinput_def object parts split: prod.splits option.splits)
  show "leaves v (signal E sig)"
    unfolding signal_def by (rule world)
  show "leaves v (cec_call n)"
    by (rule leavesI) (auto simp: cec_call_def cec_result_def parts split: prod.splits)
qed

lemma changes_leave [leaves]:
  "leaves v (act_modify (\<lambda>t. t\<lparr>connector := c t\<rparr>))" "leaves v (act_modify (\<lambda>t. t\<lparr>jobs := js t\<rparr>))"
  "leaves v (act_modify (\<lambda>t. t\<lparr>awaiting_wake := b t\<rparr>))" "leaves v (act_modify (\<lambda>t. t\<lparr>active := b t\<rparr>))"
  "leaves v (act_modify (\<lambda>t. t\<lparr>active_key := key t\<rparr>))"
  "leaves v (act_modify (\<lambda>t. t\<lparr>audio_log_addr := a t\<rparr>))"
  "leaves v (set_interface (\<lambda>i. i\<lparr>uinput := u\<rparr>))"
  "leaves v (set_interface (\<lambda>i. i\<lparr>cached_phys_addr := pa\<rparr>))"
  "leaves v (set_interface (\<lambda>i. i\<lparr>cached_vendor_id := vid\<rparr>))"
  "leaves v (set_interface (\<lambda>i. i\<lparr>cached_active := x\<rparr>))"
  "leaves v (set_interface (\<lambda>i. i\<lparr>cached_audio_log_addr := y\<rparr>))"
  "leaves v (set_interface (\<lambda>i. i\<lparr>channel := ms\<rparr>))"
  "leaves v (set_interface (\<lambda>i. i\<lparr>key_repeat := kr i\<rparr>))"
  unfolding set_interface_def by (rule leaves_modify, simp add: parts object)+

subsection \<open>Configuration\<close>

lemma clear_busy_leaves [leaves]: "leaves v (clear_busy E n)"
proof (induction n)
  case (Suc n)
  then show ?case unfolding clear_busy.simps by (intro leaves)
qed (simp only: clear_busy.simps leaves_return)

lemma connector_case_leaves [leaves]:
  assumes "\<And>n i. leaves v (f n i)" "leaves v z"
  shows "leaves v (case info of ConnectorInfo.DrmConnector n i \<Rightarrow> f n i | _ \<Rightarrow> z)"
  using assms by (cases info) simp_all

lemma configure_leaves [leaves]:
  "leaves v (configure_dev E conn)" "leaves v (configure_uinput E)"
proof -
  show "leaves v (configure_dev E conn)"
    unfolding configure_dev_def configure_physical_address_def configure_logical_address_def
    by (intro leaves)
  have keyboard: "v (t\<lparr>world := k, interface := (interface t)\<lparr>uinput := u\<rparr>\<rparr>) = v t" for t k u
    using object(1) [where t = "t\<lparr>world := k\<rparr>"] by (simp add: parts)
  have "leaves v (\<lambda>t'. case open_keyboard E m n (UInputDevice_new, world t') of
         (r, u, k) \<Rightarrow>
           (r, case r of
                 Done _ \<Rightarrow> t'\<lparr>world := k, interface := (interface t')\<lparr>uinput := Some u\<rparr>\<rparr>
               | _ \<Rightarrow> t'\<lparr>world := k\<rparr>))" for m n
    by (rule leavesI) (auto simp: parts keyboard split: prod.splits outcome.splits)
  then show "leaves v (configure_uinput E)"
    unfolding configure_uinput_def by (intro leaves)
qed

subsection \<open>Handlers\<close>

lemma set_active_leaves [leaves]: "leaves v (set_active E b)"
  unfolding set_active_def by (intro leaves)

lemma wake_loop_leaves [leaves]: "leaves v (wake_loop E n)"
proof (induction n)
  case (Suc n)
  then show ?case unfolding wake_loop.simps Let_def by (intro leaves)
qed (simp only: wake_loop.simps leaves_return)

lemma spawn_leaves [leaves]: "leaves v (spawn job)"
  unfolding spawn_def by (intro leaves)

lemma current_log_addrs_leaves [leaves]: "leaves v (current_log_addrs E)"
  unfolding current_log_addrs_def by (intro leaves)

lemma run_callback_leaves [leaves]: "leaves v (run_callback E cb)"
  by (cases cb; simp only: run_callback_def pending_activate_def DeviceTask_wake_def Callback.case;
      intro leaves)

lemma run_job_leaves [leaves]: "leaves v (run_job E job)"
  unfolding run_job_def by (intro leaves)

lemma key_leaves [leaves]: "leaves v (press_key E cmd)" "leaves v (release_key E)"
  unfolding press_key_def release_key_def by (intro leaves)+

lemma set_audio_system_leaves [leaves]: "leaves v (set_audio_system E b source)"
  unfolding set_audio_system_def by (intro leaves)

lemma default_reply_leaves [leaves]: "leaves v (default_reply E env)"
  unfolding default_reply_def by (intro leaves)

lemma send_reply_leaves [leaves]: "leaves v (send_reply E n answer address)"
proof (induction n)
  case (Suc n)
  then show ?case unfolding send_reply.simps by (intro leaves)
qed (simp only: send_reply.simps leaves_return)

lemma message_reply_leaves [leaves]: "leaves v (message_reply E env)"
proof (cases "message env")
  case (Valid m)
  then show ?thesis
    unfolding message_reply_def no_reply_def Let_def
    by (cases m; simp only: MessageData.case Message.case; intro leaves)
next
  case Invalid
  then show ?thesis
    unfolding message_reply_def by (simp add: default_reply_leaves)
qed

lemma handle_message_leaves [leaves]: "leaves v (handle_message E env)"
  unfolding handle_message_def by (intro leaves)

lemma reconfigure_leaves [leaves]: "leaves v (reconfigure E)"
  unfolding reconfigure_def by (intro leaves)

lemma or_default_leaves [leaves]: "leaves v m \<Longrightarrow> leaves v (or_default x m)"
  unfolding or_default_def by (intro leaves)

lemma query_audio_system_leaves [leaves]: "leaves v query_audio_system"
  unfolding query_audio_system_def by (intro leaves)

subsection \<open>Calls of clients\<close>

lemma bus_rules_leave [leaves]:
  "leaves v (bus_return r)" "leaves v (cec_result q)"
  "leaves v m \<Longrightarrow> (\<And>x. leaves v (f x)) \<Longrightarrow> leaves v (bus_bind m f)"
  "leaves v n \<Longrightarrow> leaves v (anyhow_call n)"
  unfolding bus_return_def cec_result_def bus_bind_def anyhow_call_def by (intro leaves | assumption)+

lemma repeat_leaves [leaves]: "leaves v (repeat_turn E target)" "leaves v (repeat_stop E target r)"
  unfolding repeat_turn_def repeat_stop_def repeat_press_def by (intro leaves)+

lemma press_and_release_leaves [leaves]: "leaves v (press_and_release E key addr)"
  unfolding press_and_release_def by (intro leaves)

lemma audio_target_leaves [leaves]: "leaves v (audio_target target)"
  unfolding audio_target_def by (intro leaves)

lemma audio_answer_leaves [leaves]:
  "leaves v (case data of
        Valid (Message.ReportAudioStatus status) \<Rightarrow>
          bus_bind (cec_result (volume_u8 (AudioStatus_volume status))) (\<lambda>x.
          bus_return (Inr (x, AudioStatus_mute status)) :: ('k, u8 \<times> bool) bus_action)
      | _ \<Rightarrow> bus_return (Inl (Cec InvalidData)))"
  by (auto intro!: leaves split: MessageData.split Message.split)

lemma bus_call_leaves [leaves]: "leaves v (bus_call E c)"
  by (cases c; simp only: bus_call.simps bus_set_osd_name_def bus_set_active_source_def bus_wake_def
      send_system_message_def bus_standby_def bus_press_user_control_def bus_release_user_control_def
      bus_press_once_user_control_def bus_volume_up_def bus_volume_down_def bus_mute_def
      bus_get_audio_status_def bus_send_raw_message_def bus_send_receive_raw_message_def bus_poll_def
      Let_def; intro leaves)

end

text \<open>Only the handlers that ask for a logical address change the queue of callbacks.\<close>

locale queue_view = task_view +
  assumes queue: "v (t\<lparr>with_logical_address_queue := q\<rparr>) = v t"
begin

lemma queue_leaves [leaves]: "leaves v (act_modify (\<lambda>t. t\<lparr>with_logical_address_queue := q t\<rparr>))"
  by (rule leaves_modify) (simp add: queue)

lemma with_logical_address_leaves [leaves]:
  "leaves v (with_logical_address E cb)" "leaves v (drain_queue E)" "leaves v (request_active_source E)"
  unfolding with_logical_address_def drain_queue_def request_active_source_def by (intro leaves)+

lemma handle_system_message_leaves [leaves]: "leaves v (handle_system_message E m)"
proof -
  have info: "leaves v (case info of
      ConnectorInfo.DrmConnector _ _ \<Rightarrow> x | NoConnector \<Rightarrow> y | _ \<Rightarrow> z)"
    if "leaves v x" "leaves v y" "leaves v z" for info and x y z :: "('a, bool) task_action"
    using that by (cases info) simp_all
  show ?thesis
    by (cases m; simp only: handle_system_message_def SystemMessage.case; intro leaves info)
qed

end

end
