(* ===== verification/Addressing.thy ===== *)
theory Addressing
  imports Frames
begin

text \<open>
  The life of the logical addresses of a device of the daemon, as a state machine that abstracts
  from everything else: while the object on the bus shows no address, the task has a number of
  tries left. Every step of the device is a step of this machine.
\<close>

section \<open>The machine\<close>

datatype Phase = Waiting int | Addressed

inductive phase_step :: "Phase \<Rightarrow> Phase \<Rightarrow> bool" where
  stay: "phase_step p p" |
  gain: "phase_step (Waiting n) Addressed" |
  lose: "phase_step Addressed (Waiting LOG_ADDR_RETRIES)" |
  retry: "0 < n \<Longrightarrow> phase_step (Waiting n) (Waiting (n - 1))"

inductive_cases phase_step_Waiting: "phase_step (Waiting n) (Waiting m)"

inductive_simps phase_step_from_Addressed: "phase_step Addressed p"

primrec phase_bounded :: "Phase \<Rightarrow> bool" where
  "phase_bounded (Waiting n) \<longleftrightarrow> 0 \<le> n \<and> n \<le> LOG_ADDR_RETRIES" |
  "phase_bounded Addressed \<longleftrightarrow> True"

lemma phase_step_bounded: "phase_step p q \<Longrightarrow> phase_bounded p \<Longrightarrow> phase_bounded q"
  by (induction rule: phase_step.induct) (simp_all add: LOG_ADDR_RETRIES_def)

text \<open>A run of the machine that stays without an address uses up its tries.\<close>

lemma tries_used:
  assumes "\<And>i. i < n \<Longrightarrow> phase_step (Waiting (f i)) (Waiting (f (Suc i)))" "0 \<le> f 0"
  shows "int (Finite_Set.card {i. i < n \<and> f (Suc i) \<noteq> f i}) = f 0 - f n \<and> 0 \<le> f n"
  using assms(1)
proof (induction n)
  case 0
  show ?case using assms(2) by simp
next
  case (Suc n)
  then have IH: "int (Finite_Set.card {i. i < n \<and> f (Suc i) \<noteq> f i}) = f 0 - f n" "0 \<le> f n"
    by simp_all
  have "phase_step (Waiting (f n)) (Waiting (f (Suc n)))"
    using Suc.prems by simp
  then consider (same) "f (Suc n) = f n" | (less) "0 < f n" "f (Suc n) = f n - 1"
    by (rule phase_step_Waiting) auto
  then show ?case
  proof cases
    case same
    then have "{i. i < Suc n \<and> f (Suc i) \<noteq> f i} = {i. i < n \<and> f (Suc i) \<noteq> f i}"
      by (auto simp: less_Suc_eq)
    with same IH show ?thesis by simp
  next
    case less
    then have "{i. i < Suc n \<and> f (Suc i) \<noteq> f i} = insert n {i. i < n \<and> f (Suc i) \<noteq> f i}"
      by (auto simp: less_Suc_eq)
    with less IH show ?thesis by simp
  qed
qed

section \<open>Views\<close>

definition address_phase :: "'k DeviceTask \<Rightarrow> Phase" where
  "address_phase t =
     (if cached_log_addrs (interface t) = [] then Waiting (log_addr_try t) else Addressed)"

interpretation addresses: queue_view "\<lambda>t. (cached_log_addrs (interface t), log_addr_try t)"
  by unfold_locales simp_all

interpretation waiting: task_view "\<lambda>t. (cached_log_addrs (interface t), with_logical_address_queue t)"
  by unfold_locales simp_all

lemma addresses_leave_phase:
  assumes "leaves (\<lambda>t. (cached_log_addrs (interface t), log_addr_try t)) m" "m t = (r, t')"
  shows "cached_log_addrs (interface t') = cached_log_addrs (interface t)"
    "log_addr_try t' = log_addr_try t" "address_phase t' = address_phase t"
  using leavesD [OF assms] by (simp_all add: address_phase_def)

section \<open>Refinement\<close>

text \<open>An action that takes at most one step of the machine.\<close>

definition steps_phase :: "('k DeviceTask, 'a) action \<Rightarrow> bool" where
  "steps_phase m \<longleftrightarrow> (\<forall>t. phase_step (address_phase t) (address_phase (snd (m t))))"

lemma steps_phase_leaves:
  "leaves (\<lambda>t. (cached_log_addrs (interface t), log_addr_try t)) m \<Longrightarrow> steps_phase m"
  unfolding steps_phase_def by (metis addresses_leave_phase(3) prod.collapse phase_step.stay)

lemma steps_phase_after:
  assumes "leaves (\<lambda>t. (cached_log_addrs (interface t), log_addr_try t)) m" "\<And>x. steps_phase (f x)"
  shows "steps_phase (act_bind m f)"
  unfolding steps_phase_def
proof
  fix t
  obtain r u where m: "m t = (r, u)" by (cases "m t")
  note phase = addresses_leave_phase(3) [OF assms(1) m]
  show "phase_step (address_phase t) (address_phase (snd (act_bind m f t)))"
    using assms(2) phase m unfolding steps_phase_def
    by (cases r) (simp_all add: phase_step.stay, metis)
qed

lemma steps_phase_before:
  assumes "steps_phase m"
    "\<And>x. leaves (\<lambda>t. (cached_log_addrs (interface t), log_addr_try t)) (f x)"
  shows "steps_phase (act_bind m f)"
  unfolding steps_phase_def
proof
  fix t
  obtain r u where m: "m t = (r, u)" by (cases "m t")
  have "phase_step (address_phase t) (address_phase u)"
    using assms(1) m unfolding steps_phase_def by (metis snd_conv)
  moreover have "address_phase (snd (f x u)) = address_phase u" for x
    by (rule addresses_leave_phase(3) [OF assms(2)]) (rule prod.collapse [symmetric])
  ultimately show "phase_step (address_phase t) (address_phase (snd (act_bind m f t)))"
    using m by (cases r) simp_all
qed

lemma steps_phase_logged: "steps_phase m \<Longrightarrow> steps_phase (act_logged m)"
  by (auto simp: steps_phase_def act_logged_def act_attempt_def act_bind_def
      split: prod.splits outcome.splits) (metis snd_conv)+

lemma log_addrs_changed_phase:
  "address_phase (snd (log_addrs_changed E las t)) =
     (if las = [] then Waiting LOG_ADDR_RETRIES else Addressed)"
proof -
  let ?rest = "act_then (signal E LogicalAddressesChanged)
     (if las \<noteq> [] then
        act_then (drain_queue E) (act_then query_audio_system (request_active_source E))
      else act_skip)"
  let ?t = "t\<lparr>interface := (interface t)\<lparr>cached_log_addrs := las\<rparr>,
    log_addr_try := (if las = [] then LOG_ADDR_RETRIES else log_addr_try t)\<rparr>"
  have run: "log_addrs_changed E las t = ?rest ?t"
    by (simp add: log_addrs_changed_def set_interface_def)
  have "leaves (\<lambda>t. (cached_log_addrs (interface t), log_addr_try t)) ?rest"
    by (intro leaves)
  from addresses_leave_phase(3) [OF this prod.collapse [symmetric], of ?t]
  have "address_phase (snd (log_addrs_changed E las t)) = address_phase ?t"
    by (simp only: run)
  then show ?thesis by (simp add: address_phase_def)
qed

lemma reconfigure_phase: "address_phase (snd (reconfigure E t)) = address_phase t"
  by (rule addresses_leave_phase(3) [OF addresses.reconfigure_leaves]) (rule prod.collapse [symmetric])

lemma check_log_addrs_steps: "steps_phase (check_log_addrs E pa las)"
  unfolding steps_phase_def
proof
  fix t
  show "phase_step (address_phase t) (address_phase (snd (check_log_addrs E pa las t)))"
  proof (cases "cached_log_addrs (interface t) = las")
    case False
    then show ?thesis
      by (simp add: check_log_addrs_def log_addrs_changed_phase)
        (auto simp: address_phase_def phase_step.intros)
  next
    case True
    then have "address_phase t = (if las = [] then Waiting (log_addr_try t) else Addressed)"
      by (simp add: address_phase_def)
    moreover have "las = [] \<Longrightarrow>
        address_phase (t\<lparr>log_addr_try := log_addr_try t - 1\<rparr>) = Waiting (log_addr_try t - 1)"
      using True by (simp add: address_phase_def)
    ultimately show ?thesis
      using True by (simp add: check_log_addrs_def reconfigure_phase phase_step.intros)
  qed
qed

lemma state_change_steps: "steps_phase (state_change E)"
  unfolding state_change_def Let_def update_cached_def
  by (intro steps_phase_after check_log_addrs_steps leaves)

lemma handle_poll_result_steps: "steps_phase (handle_poll_result E result)"
proof (cases "result = StateChange")
  case False
  then show ?thesis
    by (cases result; simp only: handle_poll_result_def PollResult.case)
      (intro steps_phase_leaves leaves | simp)+
qed (simp add: handle_poll_result_def state_change_steps)

text \<open>The results of one wake-up of the poller: at most one change of state, and then a message.\<close>

lemma handle_status_shape:
  assumes "handle_status K status s = (Ok results, s')"
  shows "results = [] \<or> (\<exists>r. results = [r]) \<or> (\<exists>r env. results = [r, PollResult.Message env])"
  using assms
  by (auto simp: handle_status_def op_bind_def op_return_def split: prod.splits result.splits if_splits)

lemma poll_results_steps:
  assumes "results = [] \<or> (\<exists>r. results = [r]) \<or> (\<exists>r env. results = [r, PollResult.Message env])"
  shows "steps_phase (act_list (\<lambda>r. act_logged (handle_poll_result E r)) results)"
proof -
  have one: "steps_phase (act_then (act_logged (handle_poll_result E r)) m)"
    if "leaves (\<lambda>t. (cached_log_addrs (interface t), log_addr_try t)) m" for r m
    by (rule steps_phase_before [OF steps_phase_logged [OF handle_poll_result_steps] that])
  have message: "leaves (\<lambda>t. (cached_log_addrs (interface t), log_addr_try t))
      (act_logged (handle_poll_result E (PollResult.Message env)))" for env
    by (simp only: handle_poll_result_def PollResult.case) (intro leaves)
  from assms show ?thesis
    by (elim disjE exE; simp only: act_list.simps)
      (intro steps_phase_leaves one leaves message)+
qed

lemma DeviceTask_turn_steps: "steps_phase (DeviceTask_turn E ev)"
proof (cases "\<exists>status. ev = Polled (Ok status) \<and> status \<noteq> Destroyed")
  case True
  then obtain status where ev: "ev = Polled (Ok status)" "status \<noteq> Destroyed" by blast
  let ?handle = "on_device (handle_status (cec E) status)"
  have "phase_step (address_phase t) (address_phase (snd (DeviceTask_turn E ev t)))" for t
  proof -
    obtain q u where q: "?handle t = (q, u)" by (cases "?handle t")
    note read = addresses_leave_phase(3) [OF addresses.parts_leave(1) q]
    show ?thesis
    proof (cases q)
      case (Done results)
      then obtain d k where "handle_status (cec E) status (device t, world t) = (Ok results, d, k)"
        using q by (auto simp: on_device_def split: prod.splits)
      note results = poll_results_steps [OF handle_status_shape [OF this], of E]
      have "steps_phase (act_then (act_list (\<lambda>r. act_logged (handle_poll_result E r)) results)
          (act_return (Done True)))"
        by (intro steps_phase_before results leaves)
      from this [unfolded steps_phase_def, THEN spec, of u] have "phase_step (address_phase t)
          (address_phase (snd (act_then (act_list (\<lambda>r. act_logged (handle_poll_result E r)) results)
            (act_return (Done True)) u)))"
        by (simp only: read)
      moreover have "DeviceTask_turn E ev t = act_then (act_list (\<lambda>r. act_logged (handle_poll_result E r))
          results) (act_return (Done True)) u"
        using ev q Done by (simp add: DeviceTask_turn_def)
      ultimately show ?thesis by (simp only:)
    qed (use ev q read in \<open>simp_all add: DeviceTask_turn_def phase_step.stay\<close>)
  qed
  then show ?thesis by (simp add: steps_phase_def)
next
  case False
  have system: "leaves (\<lambda>t. (cached_log_addrs (interface t), log_addr_try t)) (act_modify (\<lambda>t. t\<lparr>system := s\<rparr>))"
    for s by (rule leaves_modify) simp
  show ?thesis
  proof (rule steps_phase_leaves, cases ev)
    case (Polled r)
    with False show "leaves (\<lambda>t. (cached_log_addrs (interface t), log_addr_try t)) (DeviceTask_turn E ev)"
      by (cases r) (auto simp: DeviceTask_turn_def intro: leaves)
  qed (simp only: DeviceTask_turn_def Event.case, intro leaves system)+
qed

lemma device_step_steps: "steps_phase (device_step E s)"
proof (cases s)
  case (Turn ev)
  then show ?thesis by (simp add: DeviceTask_turn_steps)
qed (simp only: device_step.simps, intro steps_phase_leaves leaves)+

section \<open>Reachable states\<close>

text \<open>The states of a device of the daemon: it starts, and then it takes steps in any order.\<close>

inductive reachable :: "'k environment \<Rightarrow> 'k DeviceTask \<Rightarrow> bool" for E where
  started: "system_ok s \<Longrightarrow> CecDevice_start E s k = (Done t, k') \<Longrightarrow>
    DeviceTask_start E t = (r, t') \<Longrightarrow> reachable E t'" |
  step: "reachable E t \<Longrightarrow> step_ok st \<Longrightarrow> device_step E st t = (r, t') \<Longrightarrow> reachable E t'"

lemma reachable_inv:
  assumes "kernel_sized (cec E)"
  shows "reachable E t \<Longrightarrow> task_inv t"
proof (induction rule: reachable.induct)
  case (started s k t k' r t')
  then have inv: "task_inv t" using CecDevice_start_inv(2) [OF assms] by blast
  have keeps: "act_keeps task_inv (DeviceTask_start E)"
    unfolding DeviceTask_start_def query_audio_system_def
    by (intro act task.spawn_keeps task.request_active_source_keeps assms)
  show ?case by (rule act_holdsD(2) [OF keeps inv started.hyps(3)])
next
  case (step t st r t')
  show ?case
    by (rule act_holdsD(2) [OF device_step_keeps [OF assms step.hyps(2)] step.IH step.hyps(3)])
qed

lemma start_leaves:
  assumes "CecDevice_start E s k = (Done t, k')"
  shows "log_addr_try t = LOG_ADDR_RETRIES" "with_logical_address_queue t = []"
proof -
  obtain d i k2 u where new: "DeviceTask_new E d k2 s i = (Done (), u)"
      and t: "t = u\<lparr>interface := (interface u)\<lparr>channel := Some []\<rparr>\<rparr>"
    using assms by (auto simp: CecDevice_start_def split: prod.splits result.splits outcome.splits)
  have "leaves (\<lambda>t. (cached_log_addrs (interface t), log_addr_try t)) (act_then
      (on_device (get_poller (cec E))) (act_then
      (act_bind (configure_dev E None) (\<lambda>conn. act_modify (\<lambda>t. t\<lparr>connector := conn\<rparr>))) (configure_uinput E)))"
    by (intro leaves)
  moreover have "leaves (\<lambda>t. (cached_log_addrs (interface t), with_logical_address_queue t)) (act_then
      (on_device (get_poller (cec E))) (act_then
      (act_bind (configure_dev E None) (\<lambda>conn. act_modify (\<lambda>t. t\<lparr>connector := conn\<rparr>))) (configure_uinput E)))"
    by (intro leaves)
  ultimately show "log_addr_try t = LOG_ADDR_RETRIES" "with_logical_address_queue t = []"
    using new t leavesD unfolding DeviceTask_new_def by fastforce+
qed

lemma DeviceTask_start_leaves:
  "leaves (\<lambda>t. (cached_log_addrs (interface t), log_addr_try t)) (DeviceTask_start E)"
  unfolding DeviceTask_start_def by (intro leaves)

text \<open>Every step of the device is a step of the machine, and the tries stay within their bounds.\<close>

lemma device_refines_machine:
  assumes "device_step E s t = (r, t')"
  shows "phase_step (address_phase t) (address_phase t')"
  using device_step_steps [of E s, unfolded steps_phase_def, THEN spec, of t] assms by simp

lemma reachable_bounded: "reachable E t \<Longrightarrow> phase_bounded (address_phase t)"
proof (induction rule: reachable.induct)
  case (started s k t k' r t')
  have "log_addr_try t' = LOG_ADDR_RETRIES"
    using start_leaves(1) [OF started.hyps(2)]
      addresses_leave_phase(2) [OF DeviceTask_start_leaves started.hyps(3)] by simp
  then show ?case by (simp add: address_phase_def LOG_ADDR_RETRIES_def)
next
  case (step t st r t')
  from phase_step_bounded [OF device_refines_machine [OF step.hyps(3)] step.IH] show ?case .
qed

end
