(* ===== verification/AsyncDevice.thy ===== *)
theory AsyncDevice
  imports DeviceFacts
begin

text \<open>
  Asynchronous devices: \<open>linux-cec/src/async_support.rs\<close>. A thread owns the device and answers the
  commands of its queue in their order; a method of \<open>AsyncDevice\<close> sends its command and waits for
  the answer. The thread ends when it is told to drop the device or when a method panics, and then a
  method fails. A poller has a thread of its own.
\<close>

section \<open>The thread of a poller\<close>

datatype PollerCommand = DropPoller | Poll PollTimeout

record AsyncDevicePoller =
  poller_alive :: bool
  thread_poller :: DevicePoller

text \<open>What a caller sees when the thread that should answer has unwound: its channel is closed.\<close>

definition closed_channel :: "'a result" where
  "closed_channel = Err (Error.UnknownError ''sending on a closed channel'')"

definition awaited :: "'a result \<Rightarrow> 'a result" where
  "awaited r = (case r of Panic \<Rightarrow> Err (Error.UnknownError ''channel closed'') | _ \<Rightarrow> r)"

definition AsyncDevicePoller_from :: "DevicePoller \<Rightarrow> AsyncDevicePoller" where
  "AsyncDevicePoller_from p = \<lparr>poller_alive = True, thread_poller = p\<rparr>"

text \<open>The loop of the thread: its answers, whether it waits for more, and the world.\<close>

primrec PollerThread_run ::
  "'k kernel \<Rightarrow> DevicePoller \<Rightarrow> PollerCommand list \<Rightarrow> 'k \<Rightarrow> PollStatus result list \<times> bool \<times> 'k" where
  "PollerThread_run K p [] k = ([], True, k)" |
  "PollerThread_run K p (c # cs) k =
     (case c of
        DropPoller \<Rightarrow> ([], False, DevicePoller_drop K p k)
      | Poll tmo \<Rightarrow>
          (case DevicePoller_poll K p tmo k of (r, k) \<Rightarrow>
           if r = Panic then ([], False, DevicePoller_drop K p k)
           else (case PollerThread_run K p cs k of (rs, waits, k) \<Rightarrow> (r # rs, waits, k))))"

definition AsyncDevicePoller_poll ::
  "'k kernel \<Rightarrow> PollTimeout \<Rightarrow> AsyncDevicePoller \<times> 'k \<Rightarrow> PollStatus result \<times> AsyncDevicePoller \<times> 'k" where
  "AsyncDevicePoller_poll K tmo =
     (\<lambda>(a, k). if \<not> poller_alive a then (closed_channel, a, k)
      else
        (case PollerThread_run K (thread_poller a) [Poll tmo] k of
           (rs, waits, k) \<Rightarrow>
             (awaited (case rs of [] \<Rightarrow> Panic | r # _ \<Rightarrow> r), a\<lparr>poller_alive := waits\<rparr>, k)))"

definition AsyncDevicePoller_drop :: "'k kernel \<Rightarrow> AsyncDevicePoller \<Rightarrow> 'k \<Rightarrow> 'k" where
  "AsyncDevicePoller_drop K a k =
     (if poller_alive a then snd (snd (PollerThread_run K (thread_poller a) [DropPoller] k)) else k)"

section \<open>Commands and answers\<close>

datatype DeviceCommand =
  DropDevice |
  GetPoller |
  SetBlocking bool |
  GetInitiatorMode |
  SetInitiatorMode InitiatorMode |
  GetFollowerMode |
  SetFollowerMode FollowerMode |
  GetRawCapabilities |
  GetCapabilities |
  GetDriverName |
  GetAdapterName |
  GetPhysicalAddress |
  SetPhysicalAddress PhysicalAddress |
  GetLogicalAddresses |
  SetLogicalAddresses "LogicalAddressType list" |
  SetLogicalAddress LogicalAddressType |
  ClearLogicalAddresses |
  GetOsdName |
  SetOsdName "u8 list" |
  GetVendorId |
  SetVendorId "VendorId option" |
  TransmitMessage Message LogicalAddress |
  TransmitRawMessage cec_msg |
  TransmitReceiveMessage Message LogicalAddress Opcode Timeout |
  ReceiveMessage Timeout |
  ReceiveRawMessage u32 |
  PollAddress LogicalAddress |
  HandleStatus PollStatus |
  GetConnectorInfo |
  SetActiveSource "PhysicalAddress option" |
  Wake bool bool |
  Standby LogicalAddress |
  PressUserControl UiCommand LogicalAddress |
  ReleaseUserControl LogicalAddress

datatype AsyncReply =
  PollerAnswer "AsyncDevicePoller result" |
  InitiatorAnswer "InitiatorMode result" |
  Answer "unit result" |
  FollowerAnswer "FollowerMode result" |
  RawCapabilities "cec_caps result" |
  NumberAnswer "u32 result" |
  NameAnswer "(u8 list) result" |
  AddressAnswer "PhysicalAddress result" |
  AddressesAnswer "(LogicalAddress list) result" |
  VendorAnswer "(VendorId option) result" |
  RawAnswer "cec_msg result" |
  EnvelopeAnswer "Envelope result" |
  ResultsAnswer "(PollResult list) result" |
  ConnectorAnswer "ConnectorInfo result"

text \<open>A mismatched answer cannot arrive: each command carries the channel of its own answer.\<close>

primrec the_PollerAnswer :: "AsyncReply \<Rightarrow> AsyncDevicePoller result" where
  "the_PollerAnswer (PollerAnswer r) = r"

primrec the_InitiatorAnswer :: "AsyncReply \<Rightarrow> InitiatorMode result" where
  "the_InitiatorAnswer (InitiatorAnswer r) = r"

primrec the_Answer :: "AsyncReply \<Rightarrow> unit result" where
  "the_Answer (Answer r) = r"

primrec the_FollowerAnswer :: "AsyncReply \<Rightarrow> FollowerMode result" where
  "the_FollowerAnswer (FollowerAnswer r) = r"

primrec the_RawCapabilities :: "AsyncReply \<Rightarrow> cec_caps result" where
  "the_RawCapabilities (RawCapabilities r) = r"

primrec the_NumberAnswer :: "AsyncReply \<Rightarrow> u32 result" where
  "the_NumberAnswer (NumberAnswer r) = r"

primrec the_NameAnswer :: "AsyncReply \<Rightarrow> (u8 list) result" where
  "the_NameAnswer (NameAnswer r) = r"

primrec the_AddressAnswer :: "AsyncReply \<Rightarrow> PhysicalAddress result" where
  "the_AddressAnswer (AddressAnswer r) = r"

primrec the_AddressesAnswer :: "AsyncReply \<Rightarrow> (LogicalAddress list) result" where
  "the_AddressesAnswer (AddressesAnswer r) = r"

primrec the_VendorAnswer :: "AsyncReply \<Rightarrow> (VendorId option) result" where
  "the_VendorAnswer (VendorAnswer r) = r"

primrec the_RawAnswer :: "AsyncReply \<Rightarrow> cec_msg result" where
  "the_RawAnswer (RawAnswer r) = r"

primrec the_EnvelopeAnswer :: "AsyncReply \<Rightarrow> Envelope result" where
  "the_EnvelopeAnswer (EnvelopeAnswer r) = r"

primrec the_ResultsAnswer :: "AsyncReply \<Rightarrow> (PollResult list) result" where
  "the_ResultsAnswer (ResultsAnswer r) = r"

primrec the_ConnectorAnswer :: "AsyncReply \<Rightarrow> ConnectorInfo result" where
  "the_ConnectorAnswer (ConnectorAnswer r) = r"

section \<open>The thread\<close>

text \<open>The answer to a command other than the last one, as the method of the device gives it.\<close>

definition replied :: "('a result \<Rightarrow> AsyncReply) \<Rightarrow> ('k, 'a) device_op \<Rightarrow> Device \<times> 'k \<Rightarrow> AsyncReply \<times> Device \<times> 'k"
where
  "replied f m s = (case m s of (r, t) \<Rightarrow> (f r, t))"

primrec DeviceThread_answer ::
  "(u8 \<Rightarrow> string) \<Rightarrow> 'k kernel \<Rightarrow> DeviceCommand \<Rightarrow> Device \<times> 'k \<Rightarrow> (AsyncReply \<times> Device \<times> 'k) option" where
  "DeviceThread_answer debug K DropDevice s = None" |
  "DeviceThread_answer debug K GetPoller s =
     Some (replied PollerAnswer
       (op_bind (get_poller K) (\<lambda>p. op_return (Ok (AsyncDevicePoller_from p)))) s)" |
  "DeviceThread_answer debug K (SetBlocking block) s =
     Some (replied Answer (set_blocking K block) s)" |
  "DeviceThread_answer debug K GetInitiatorMode s =
     Some (replied InitiatorAnswer (get_initiator_mode K) s)" |
  "DeviceThread_answer debug K (SetInitiatorMode mode) s =
     Some (replied Answer (set_initiator_mode K mode) s)" |
  "DeviceThread_answer debug K GetFollowerMode s =
     Some (replied FollowerAnswer (get_follower_mode K) s)" |
  "DeviceThread_answer debug K (SetFollowerMode follower_mode) s =
     Some (replied Answer (set_follower_mode K follower_mode) s)" |
  "DeviceThread_answer debug K GetRawCapabilities s =
     Some (replied RawCapabilities (get_raw_capabilities K) s)" |
  "DeviceThread_answer debug K GetCapabilities s =
     Some (replied NumberAnswer (get_capabilities K) s)" |
  "DeviceThread_answer debug K GetDriverName s =
     Some (replied NameAnswer (get_driver_name K) s)" |
  "DeviceThread_answer debug K GetAdapterName s =
     Some (replied NameAnswer (get_adapter_name K) s)" |
  "DeviceThread_answer debug K GetPhysicalAddress s =
     Some (replied AddressAnswer (get_physical_address K) s)" |
  "DeviceThread_answer debug K (SetPhysicalAddress phys_addr) s =
     Some (replied Answer (set_physical_address K phys_addr) s)" |
  "DeviceThread_answer debug K GetLogicalAddresses s =
     Some (replied AddressesAnswer (get_logical_addresses K) s)" |
  "DeviceThread_answer debug K (SetLogicalAddresses addr_types) s =
     Some (replied Answer (set_logical_addresses K addr_types) s)" |
  "DeviceThread_answer debug K (SetLogicalAddress addr_type) s =
     Some (replied Answer (set_logical_address K addr_type) s)" |
  "DeviceThread_answer debug K ClearLogicalAddresses s =
     Some (replied Answer (clear_logical_addresses K) s)" |
  "DeviceThread_answer debug K GetOsdName s =
     Some (replied NameAnswer (get_osd_name K) s)" |
  "DeviceThread_answer debug K (SetOsdName name) s =
     Some (replied Answer (set_osd_name debug K name) s)" |
  "DeviceThread_answer debug K GetVendorId s =
     Some (replied VendorAnswer (get_vendor_id K) s)" |
  "DeviceThread_answer debug K (SetVendorId v) s =
     Some (replied Answer (set_vendor_id v) s)" |
  "DeviceThread_answer debug K (TransmitMessage m dest) s =
     Some (replied NumberAnswer (tx_message debug K m dest) s)" |
  "DeviceThread_answer debug K (TransmitRawMessage raw) s =
     Some (replied RawAnswer (tx_raw_message K raw) s)" |
  "DeviceThread_answer debug K (TransmitReceiveMessage m dest oc tmo) s =
     Some (replied EnvelopeAnswer (tx_rx_message debug K m dest oc tmo) s)" |
  "DeviceThread_answer debug K (ReceiveMessage tmo) s =
     Some (replied EnvelopeAnswer (rx_message K tmo) s)" |
  "DeviceThread_answer debug K (ReceiveRawMessage ms) s =
     Some (replied RawAnswer (rx_raw_message K ms) s)" |
  "DeviceThread_answer debug K (PollAddress dest) s =
     Some (replied Answer (poll_address debug K dest) s)" |
  "DeviceThread_answer debug K (HandleStatus status) s =
     Some (replied ResultsAnswer (handle_status K status) s)" |
  "DeviceThread_answer debug K GetConnectorInfo s =
     Some (replied ConnectorAnswer (get_connector_info K) s)" |
  "DeviceThread_answer debug K (SetActiveSource address) s =
     Some (replied Answer (set_active_source debug K address) s)" |
  "DeviceThread_answer debug K (Wake set_act text_view) s =
     Some (replied Answer (wake debug K set_act text_view) s)" |
  "DeviceThread_answer debug K (Standby target) s =
     Some (replied Answer (standby debug K target) s)" |
  "DeviceThread_answer debug K (PressUserControl cmd target) s =
     Some (replied Answer (press_user_control debug K cmd target) s)" |
  "DeviceThread_answer debug K (ReleaseUserControl target) s =
     Some (replied Answer (release_user_control debug K target) s)"

text \<open>No answer leaves a thread that panics in the method it calls.\<close>

primrec panicked :: "AsyncReply \<Rightarrow> bool" where
  "panicked (PollerAnswer r) \<longleftrightarrow> r = Panic" |
  "panicked (InitiatorAnswer r) \<longleftrightarrow> r = Panic" |
  "panicked (Answer r) \<longleftrightarrow> r = Panic" |
  "panicked (FollowerAnswer r) \<longleftrightarrow> r = Panic" |
  "panicked (RawCapabilities r) \<longleftrightarrow> r = Panic" |
  "panicked (NumberAnswer r) \<longleftrightarrow> r = Panic" |
  "panicked (NameAnswer r) \<longleftrightarrow> r = Panic" |
  "panicked (AddressAnswer r) \<longleftrightarrow> r = Panic" |
  "panicked (AddressesAnswer r) \<longleftrightarrow> r = Panic" |
  "panicked (VendorAnswer r) \<longleftrightarrow> r = Panic" |
  "panicked (RawAnswer r) \<longleftrightarrow> r = Panic" |
  "panicked (EnvelopeAnswer r) \<longleftrightarrow> r = Panic" |
  "panicked (ResultsAnswer r) \<longleftrightarrow> r = Panic" |
  "panicked (ConnectorAnswer r) \<longleftrightarrow> r = Panic"

text \<open>
  \<open>run\<close> on the commands that arrive: the answers it sends, whether it waits for more, and the device.
\<close>

primrec DeviceThread_run ::
  "(u8 \<Rightarrow> string) \<Rightarrow> 'k kernel \<Rightarrow> DeviceCommand list \<Rightarrow> Device \<times> 'k \<Rightarrow>
   AsyncReply list \<times> bool \<times> Device \<times> 'k" where
  "DeviceThread_run debug K [] s = ([], True, s)" |
  "DeviceThread_run debug K (c # cs) s =
     (case DeviceThread_answer debug K c s of
        None \<Rightarrow> ([], False, s)
      | Some (a, t) \<Rightarrow>
          if panicked a then ([], False, t)
          else (case DeviceThread_run debug K cs t of (as, u) \<Rightarrow> (a # as, u)))"

section \<open>Asynchronous methods\<close>

record 'k AsyncDevice =
  thread_alive :: bool
  thread_device :: Device
  thread_world :: 'k

type_synonym ('k, 'a) async_op = "'k AsyncDevice \<Rightarrow> 'a result \<times> 'k AsyncDevice"

text \<open>
  \<open>relay!\<close>: the command is sent and its answer awaited. Without a thread the channel is closed.
\<close>

definition relay ::
  "(u8 \<Rightarrow> string) \<Rightarrow> 'k kernel \<Rightarrow> (AsyncReply \<Rightarrow> 'a result) \<Rightarrow> DeviceCommand \<Rightarrow> ('k, 'a) async_op" where
  "relay debug K f c =
     (\<lambda>t. if \<not> thread_alive t then (closed_channel, t)
      else
        (case DeviceThread_run debug K [c] (thread_device t, thread_world t) of
           (as, waits, d, k) \<Rightarrow>
             (awaited (case as of [] \<Rightarrow> Panic | a # _ \<Rightarrow> f a),
              \<lparr>thread_alive = waits, thread_device = d, thread_world = k\<rparr>)))"

definition AsyncDevice_set_blocking ::
  "(u8 \<Rightarrow> string) \<Rightarrow> 'k kernel \<Rightarrow> bool \<Rightarrow> ('k, unit) async_op" where
  "AsyncDevice_set_blocking debug K blocking = relay debug K the_Answer (SetBlocking blocking)"

definition AsyncDevice_get_poller ::
  "(u8 \<Rightarrow> string) \<Rightarrow> 'k kernel \<Rightarrow> ('k, AsyncDevicePoller) async_op" where
  "AsyncDevice_get_poller debug K = relay debug K the_PollerAnswer GetPoller"

definition AsyncDevice_get_initiator_mode ::
  "(u8 \<Rightarrow> string) \<Rightarrow> 'k kernel \<Rightarrow> ('k, InitiatorMode) async_op" where
  "AsyncDevice_get_initiator_mode debug K = relay debug K the_InitiatorAnswer GetInitiatorMode"

definition AsyncDevice_set_initiator_mode ::
  "(u8 \<Rightarrow> string) \<Rightarrow> 'k kernel \<Rightarrow> InitiatorMode \<Rightarrow> ('k, unit) async_op" where
  "AsyncDevice_set_initiator_mode debug K mode = relay debug K the_Answer (SetInitiatorMode mode)"

definition AsyncDevice_get_follower_mode ::
  "(u8 \<Rightarrow> string) \<Rightarrow> 'k kernel \<Rightarrow> ('k, FollowerMode) async_op" where
  "AsyncDevice_get_follower_mode debug K = relay debug K the_FollowerAnswer GetFollowerMode"

definition AsyncDevice_set_follower_mode ::
  "(u8 \<Rightarrow> string) \<Rightarrow> 'k kernel \<Rightarrow> FollowerMode \<Rightarrow> ('k, unit) async_op" where
  "AsyncDevice_set_follower_mode debug K follower_mode = relay debug K the_Answer (SetFollowerMode follower_mode)"

definition AsyncDevice_get_raw_capabilities ::
  "(u8 \<Rightarrow> string) \<Rightarrow> 'k kernel \<Rightarrow> ('k, cec_caps) async_op" where
  "AsyncDevice_get_raw_capabilities debug K = relay debug K the_RawCapabilities GetRawCapabilities"

definition AsyncDevice_get_capabilities ::
  "(u8 \<Rightarrow> string) \<Rightarrow> 'k kernel \<Rightarrow> ('k, u32) async_op" where
  "AsyncDevice_get_capabilities debug K = relay debug K the_NumberAnswer GetCapabilities"

definition AsyncDevice_get_driver_name ::
  "(u8 \<Rightarrow> string) \<Rightarrow> 'k kernel \<Rightarrow> ('k, u8 list) async_op" where
  "AsyncDevice_get_driver_name debug K = relay debug K the_NameAnswer GetDriverName"

definition AsyncDevice_get_adapter_name ::
  "(u8 \<Rightarrow> string) \<Rightarrow> 'k kernel \<Rightarrow> ('k, u8 list) async_op" where
  "AsyncDevice_get_adapter_name debug K = relay debug K the_NameAnswer GetAdapterName"

definition AsyncDevice_get_physical_address ::
  "(u8 \<Rightarrow> string) \<Rightarrow> 'k kernel \<Rightarrow> ('k, PhysicalAddress) async_op" where
  "AsyncDevice_get_physical_address debug K = relay debug K the_AddressAnswer GetPhysicalAddress"

definition AsyncDevice_set_physical_address ::
  "(u8 \<Rightarrow> string) \<Rightarrow> 'k kernel \<Rightarrow> PhysicalAddress \<Rightarrow> ('k, unit) async_op" where
  "AsyncDevice_set_physical_address debug K phys_addr = relay debug K the_Answer (SetPhysicalAddress phys_addr)"

definition AsyncDevice_get_logical_addresses ::
  "(u8 \<Rightarrow> string) \<Rightarrow> 'k kernel \<Rightarrow> ('k, LogicalAddress list) async_op" where
  "AsyncDevice_get_logical_addresses debug K = relay debug K the_AddressesAnswer GetLogicalAddresses"

definition AsyncDevice_set_logical_addresses ::
  "(u8 \<Rightarrow> string) \<Rightarrow> 'k kernel \<Rightarrow> LogicalAddressType list \<Rightarrow> ('k, unit) async_op" where
  "AsyncDevice_set_logical_addresses debug K addr_types = relay debug K the_Answer (SetLogicalAddresses addr_types)"

definition AsyncDevice_set_logical_address ::
  "(u8 \<Rightarrow> string) \<Rightarrow> 'k kernel \<Rightarrow> LogicalAddressType \<Rightarrow> ('k, unit) async_op" where
  "AsyncDevice_set_logical_address debug K addr_type = relay debug K the_Answer (SetLogicalAddress addr_type)"

definition AsyncDevice_clear_logical_addresses ::
  "(u8 \<Rightarrow> string) \<Rightarrow> 'k kernel \<Rightarrow> ('k, unit) async_op" where
  "AsyncDevice_clear_logical_addresses debug K = relay debug K the_Answer ClearLogicalAddresses"

definition AsyncDevice_get_osd_name ::
  "(u8 \<Rightarrow> string) \<Rightarrow> 'k kernel \<Rightarrow> ('k, u8 list) async_op" where
  "AsyncDevice_get_osd_name debug K = relay debug K the_NameAnswer GetOsdName"

definition AsyncDevice_set_osd_name ::
  "(u8 \<Rightarrow> string) \<Rightarrow> 'k kernel \<Rightarrow> u8 list \<Rightarrow> ('k, unit) async_op" where
  "AsyncDevice_set_osd_name debug K name = relay debug K the_Answer (SetOsdName name)"

definition AsyncDevice_get_vendor_id ::
  "(u8 \<Rightarrow> string) \<Rightarrow> 'k kernel \<Rightarrow> ('k, VendorId option) async_op" where
  "AsyncDevice_get_vendor_id debug K = relay debug K the_VendorAnswer GetVendorId"

definition AsyncDevice_set_vendor_id ::
  "(u8 \<Rightarrow> string) \<Rightarrow> 'k kernel \<Rightarrow> VendorId option \<Rightarrow> ('k, unit) async_op" where
  "AsyncDevice_set_vendor_id debug K v = relay debug K the_Answer (SetVendorId v)"

definition AsyncDevice_tx_message ::
  "(u8 \<Rightarrow> string) \<Rightarrow> 'k kernel \<Rightarrow> Message \<Rightarrow> LogicalAddress \<Rightarrow> ('k, u32) async_op" where
  "AsyncDevice_tx_message debug K m dest = relay debug K the_NumberAnswer (TransmitMessage m dest)"

definition AsyncDevice_tx_raw_message ::
  "(u8 \<Rightarrow> string) \<Rightarrow> 'k kernel \<Rightarrow> cec_msg \<Rightarrow> ('k, cec_msg) async_op" where
  "AsyncDevice_tx_raw_message debug K raw = relay debug K the_RawAnswer (TransmitRawMessage raw)"

definition AsyncDevice_tx_rx_message ::
  "(u8 \<Rightarrow> string) \<Rightarrow> 'k kernel \<Rightarrow> Message \<Rightarrow> LogicalAddress \<Rightarrow> Opcode \<Rightarrow> Timeout \<Rightarrow> ('k, Envelope) async_op" where
  "AsyncDevice_tx_rx_message debug K m dest oc tmo = relay debug K the_EnvelopeAnswer (TransmitReceiveMessage m dest oc tmo)"

definition AsyncDevice_rx_message ::
  "(u8 \<Rightarrow> string) \<Rightarrow> 'k kernel \<Rightarrow> Timeout \<Rightarrow> ('k, Envelope) async_op" where
  "AsyncDevice_rx_message debug K tmo = relay debug K the_EnvelopeAnswer (ReceiveMessage tmo)"

definition AsyncDevice_rx_raw_message ::
  "(u8 \<Rightarrow> string) \<Rightarrow> 'k kernel \<Rightarrow> u32 \<Rightarrow> ('k, cec_msg) async_op" where
  "AsyncDevice_rx_raw_message debug K ms = relay debug K the_RawAnswer (ReceiveRawMessage ms)"

definition AsyncDevice_poll_address ::
  "(u8 \<Rightarrow> string) \<Rightarrow> 'k kernel \<Rightarrow> LogicalAddress \<Rightarrow> ('k, unit) async_op" where
  "AsyncDevice_poll_address debug K dest = relay debug K the_Answer (PollAddress dest)"

definition AsyncDevice_handle_status ::
  "(u8 \<Rightarrow> string) \<Rightarrow> 'k kernel \<Rightarrow> PollStatus \<Rightarrow> ('k, PollResult list) async_op" where
  "AsyncDevice_handle_status debug K status = relay debug K the_ResultsAnswer (HandleStatus status)"

definition AsyncDevice_get_connector_info ::
  "(u8 \<Rightarrow> string) \<Rightarrow> 'k kernel \<Rightarrow> ('k, ConnectorInfo) async_op" where
  "AsyncDevice_get_connector_info debug K = relay debug K the_ConnectorAnswer GetConnectorInfo"

definition AsyncDevice_set_active_source ::
  "(u8 \<Rightarrow> string) \<Rightarrow> 'k kernel \<Rightarrow> PhysicalAddress option \<Rightarrow> ('k, unit) async_op" where
  "AsyncDevice_set_active_source debug K address = relay debug K the_Answer (SetActiveSource address)"

definition AsyncDevice_wake ::
  "(u8 \<Rightarrow> string) \<Rightarrow> 'k kernel \<Rightarrow> bool \<Rightarrow> bool \<Rightarrow> ('k, unit) async_op" where
  "AsyncDevice_wake debug K set_act text_view = relay debug K the_Answer (Wake set_act text_view)"

definition AsyncDevice_standby ::
  "(u8 \<Rightarrow> string) \<Rightarrow> 'k kernel \<Rightarrow> LogicalAddress \<Rightarrow> ('k, unit) async_op" where
  "AsyncDevice_standby debug K target = relay debug K the_Answer (Standby target)"

definition AsyncDevice_press_user_control ::
  "(u8 \<Rightarrow> string) \<Rightarrow> 'k kernel \<Rightarrow> UiCommand \<Rightarrow> LogicalAddress \<Rightarrow> ('k, unit) async_op" where
  "AsyncDevice_press_user_control debug K cmd target = relay debug K the_Answer (PressUserControl cmd target)"

definition AsyncDevice_release_user_control ::
  "(u8 \<Rightarrow> string) \<Rightarrow> 'k kernel \<Rightarrow> LogicalAddress \<Rightarrow> ('k, unit) async_op" where
  "AsyncDevice_release_user_control debug K target = relay debug K the_Answer (ReleaseUserControl target)"

text \<open>\<open>poll\<close>: the poller it makes is dropped at the end, whatever the outcome.\<close>

definition AsyncDevice_poll ::
  "(u8 \<Rightarrow> string) \<Rightarrow> 'k kernel \<Rightarrow> PollTimeout \<Rightarrow> ('k, PollResult list) async_op" where
  "AsyncDevice_poll debug K tmo =
     (\<lambda>t. case AsyncDevice_get_poller debug K t of
        (Ok poller, t) \<Rightarrow>
          (case AsyncDevicePoller_poll K tmo (poller, thread_world t) of (status, poller, k) \<Rightarrow>
           case (case status of
               Ok status \<Rightarrow> AsyncDevice_handle_status debug K status (t\<lparr>thread_world := k\<rparr>)
             | Err e \<Rightarrow> (Err e, t\<lparr>thread_world := k\<rparr>)
             | Panic \<Rightarrow> (Panic, t\<lparr>thread_world := k\<rparr>)) of (r, t) \<Rightarrow>
           (r, t\<lparr>thread_world := AsyncDevicePoller_drop K poller (thread_world t)\<rparr>))
      | (Err e, t) \<Rightarrow> (Err e, t)
      | (Panic, t) \<Rightarrow> (Panic, t))"

text \<open>\<open>close\<close>, and dropping an \<open>AsyncDevice\<close>, which ignores the result.\<close>

definition AsyncDevice_close :: "('k, unit) async_op" where
  "AsyncDevice_close =
     (\<lambda>t. if \<not> thread_alive t then (closed_channel, t)
      else (Ok (), t\<lparr>thread_alive := False\<rparr>))"

definition AsyncDevice_from :: "Device \<Rightarrow> 'k \<Rightarrow> 'k AsyncDevice" where
  "AsyncDevice_from d k = \<lparr>thread_alive = True, thread_device = d, thread_world = k\<rparr>"

text \<open>\<open>open\<close>: the file is opened on the runtime, and the device is given to a thread.\<close>

definition AsyncDevice_open :: "'k kernel \<Rightarrow> string \<Rightarrow> 'k \<Rightarrow> 'k AsyncDevice result \<times> 'k" where
  "AsyncDevice_open K path k =
     (case open_file K path k of
        (None, k') \<Rightarrow>
          (case Device_try_from K k' of
             (Ok d, k'') \<Rightarrow> (Ok (AsyncDevice_from d k''), k'')
           | (Err e, k'') \<Rightarrow> (Err e, k'')
           | (Panic, k'') \<Rightarrow> (Panic, k''))
      | (Some e, k') \<Rightarrow> (Err (from_io e), k'))"

section \<open>Facts\<close>

text \<open>A method of the asynchronous device, seen as one of the device that the thread owns.\<close>

definition on_thread :: "('k, 'a) async_op \<Rightarrow> ('k, 'a) device_op" where
  "on_thread m = (\<lambda>(d, k). case m (AsyncDevice_from d k) of
     (r, t) \<Rightarrow> (r, thread_device t, thread_world t))"

text \<open>What becomes of a method that panics: its caller is told that the channel is closed.\<close>

definition unwound :: "('k, 'a) device_op \<Rightarrow> ('k, 'a) device_op" where
  "unwound m = (\<lambda>s. case m s of (r, t) \<Rightarrow> (awaited r, t))"

lemma awaited_simps [simp]:
  "awaited (Ok x) = Ok x" "awaited (Err e) = Err e"
  "awaited Panic = Err (Error.UnknownError ''channel closed'')" "awaited r \<noteq> Panic"
  "awaited (awaited r) = awaited r"
  by (simp_all add: awaited_def split: result.split)

lemma relay_run:
  assumes "DeviceThread_answer debug K c (d, k) = Some (replied g m (d, k))" "m (d, k) = (r, d', k')"
    and "f (g r) = r" "panicked (g r) \<longleftrightarrow> r = Panic" "thread_alive t" "thread_device t = d" "thread_world t = k"
  shows "relay debug K f c t =
    (awaited r, \<lparr>thread_alive = (r \<noteq> Panic), thread_device = d', thread_world = k'\<rparr>)"
  using assms by (simp add: relay_def replied_def)

lemma on_thread_relay:
  fixes m :: "('k, 'a) device_op"
  assumes "\<And>s. DeviceThread_answer debug K c s = Some (replied g m s)"
    and "\<And>r. f (g r) = r" "\<And>r. panicked (g r) \<longleftrightarrow> r = Panic"
  shows "on_thread (relay debug K f c) = unwound m"
proof
  fix s :: "Device \<times> 'k"
  obtain d k where s: "s = (d, k)" by (cases s)
  obtain r d' k' where m: "m (d, k) = (r, d', k')" by (metis prod.collapse)
  have "relay debug K f c (AsyncDevice_from d k) =
      (awaited r, \<lparr>thread_alive = (r \<noteq> Panic), thread_device = d', thread_world = k'\<rparr>)"
    by (rule relay_run [where m = m and g = g]) (simp_all add: AsyncDevice_from_def m assms)
  with m show "on_thread (relay debug K f c) s = unwound m s"
    by (simp add: s on_thread_def unwound_def)
qed

lemmas async_defs =
  AsyncDevice_set_blocking_def
  AsyncDevice_get_poller_def
  AsyncDevice_get_initiator_mode_def
  AsyncDevice_set_initiator_mode_def
  AsyncDevice_get_follower_mode_def
  AsyncDevice_set_follower_mode_def
  AsyncDevice_get_raw_capabilities_def
  AsyncDevice_get_capabilities_def
  AsyncDevice_get_driver_name_def
  AsyncDevice_get_adapter_name_def
  AsyncDevice_get_physical_address_def
  AsyncDevice_set_physical_address_def
  AsyncDevice_get_logical_addresses_def
  AsyncDevice_set_logical_addresses_def
  AsyncDevice_set_logical_address_def
  AsyncDevice_clear_logical_addresses_def
  AsyncDevice_get_osd_name_def
  AsyncDevice_set_osd_name_def
  AsyncDevice_get_vendor_id_def
  AsyncDevice_set_vendor_id_def
  AsyncDevice_tx_message_def
  AsyncDevice_tx_raw_message_def
  AsyncDevice_tx_rx_message_def
  AsyncDevice_rx_message_def
  AsyncDevice_rx_raw_message_def
  AsyncDevice_poll_address_def
  AsyncDevice_handle_status_def
  AsyncDevice_get_connector_info_def
  AsyncDevice_set_active_source_def
  AsyncDevice_wake_def
  AsyncDevice_standby_def
  AsyncDevice_press_user_control_def
  AsyncDevice_release_user_control_def

lemma AsyncDevicePoller_poll_run:
  "DevicePoller_poll K p tmo k = (r, k') \<Longrightarrow> r \<noteq> Panic \<Longrightarrow>
     AsyncDevicePoller_poll K tmo (AsyncDevicePoller_from p, k) = (r, AsyncDevicePoller_from p, k')"
  by (cases r) (simp_all add: AsyncDevicePoller_poll_def AsyncDevicePoller_from_def)

lemma AsyncDevicePoller_drop_run [simp]:
  "AsyncDevicePoller_drop K (AsyncDevicePoller_from p) = DevicePoller_drop K p"
  by (simp add: fun_eq_iff AsyncDevicePoller_drop_def AsyncDevicePoller_from_def)

text \<open>A poll on the thread makes a poller, polls it, handles what is ready and drops it, as one of the device does.\<close>

lemma get_poller_run:
  "thread_alive t \<Longrightarrow> AsyncDevice_get_poller debug K t =
     (case get_poller K (thread_device t, thread_world t) of (r, d, k) \<Rightarrow>
        (and_then r (\<lambda>p. Ok (AsyncDevicePoller_from p)), t\<lparr>thread_device := d, thread_world := k\<rparr>))"
proof -
  obtain c k where c: "clone_fd K (thread_world t) = (c, k)" by (cases "clone_fd K (thread_world t)")
  assume "thread_alive t"
  with c show ?thesis
    by (cases c; cases t) (simp_all add: AsyncDevice_get_poller_def relay_def replied_def get_poller_def
        op_kernel_def op_bind_def op_return_def)
qed

lemma on_thread_poll:
  fixes K :: "'k kernel"
  shows "on_thread (AsyncDevice_poll debug K tmo) = unwound (Device_poll K tmo)"
proof
  fix s :: "Device \<times> 'k"
  obtain d k where s: "s = (d, k)" by (cases s)
  obtain c k1 where c: "clone_fd K k = (c, k1)" by (cases "clone_fd K k")
  show "on_thread (AsyncDevice_poll debug K tmo) s = unwound (Device_poll K tmo) s"
  proof (cases c)
    case (Inl e)
    with c show ?thesis
      by (simp add: s on_thread_def AsyncDevice_from_def AsyncDevice_poll_def get_poller_run get_poller_def
          op_kernel_def unwound_def Device_poll_def op_bind_def)
  next
    case (Inr n)
    obtain st k2 where st: "DevicePoller_poll K \<lparr>fd = n\<rparr> tmo k1 = (st, k2)" "st \<noteq> Panic"
      by (metis DevicePoller_poll_not_Panic fst_conv prod.collapse)
    note run = AsyncDevicePoller_poll_run [OF st]
    show ?thesis
    proof (cases st)
      case (Ok status)
      obtain r d3 k3 where h: "handle_status K status (d, k2) = (r, d3, k3)" by (metis prod.collapse)
      have "panicked (ResultsAnswer r) \<longleftrightarrow> r = Panic" by simp
      with h have "AsyncDevice_handle_status debug K status
          \<lparr>thread_alive = True, thread_device = d, thread_world = k2\<rparr> =
          (awaited r, \<lparr>thread_alive = (r \<noteq> Panic), thread_device = d3, thread_world = k3\<rparr>)"
        by (simp add: AsyncDevice_handle_status_def relay_def replied_def)
      with c Inr Ok st run h show ?thesis
        by (simp add: s on_thread_def AsyncDevice_from_def AsyncDevice_poll_def get_poller_run get_poller_def
            op_kernel_def unwound_def Device_poll_def op_bind_def op_finally_def)
    qed (use c Inr st run in \<open>simp_all add: s on_thread_def AsyncDevice_from_def AsyncDevice_poll_def
        get_poller_run get_poller_def op_kernel_def unwound_def Device_poll_def op_bind_def op_finally_def\<close>)
  qed
qed

lemma AsyncDevice_open_run:
  "AsyncDevice_open K path k =
     (case Device_open K path k of (r, k') \<Rightarrow> (and_then r (\<lambda>d. Ok (AsyncDevice_from d k')), k'))"
  by (simp add: AsyncDevice_open_def Device_open_def split: prod.split option.split result.split)

text \<open>
  Every command that is answered is answered in its turn; once one is not, neither is any later one,
  and the thread waits for more exactly when all are answered.
\<close>

lemma DeviceThread_run_drop:
  "DeviceThread_run debug K (cs @ DropDevice # ds) s =
     (case DeviceThread_run debug K cs s of (as, waits, t) \<Rightarrow> (as, False, t))"
  by (induction cs arbitrary: s) (auto split: option.split prod.split)

lemma DeviceThread_run_answers:
  "DeviceThread_run debug K cs s = (as, waits, t) \<Longrightarrow>
     length as \<le> length cs \<and> (waits \<longleftrightarrow> length as = length cs)"
  by (induction cs arbitrary: s as) (fastforce split: option.splits prod.splits if_splits)+

end
