(* ===== verification/DaemonProperties.thy ===== *)
theory DaemonProperties
  imports BusFacts AsyncDevice DeviceProperties
begin

text \<open>
  Properties of the daemon \<open>cecd\<close>: its devices as a whole, the replies to messages, activation and
  sleep, the keys, the displays, and the configuration. The witnesses run in
  \<open>quiet_environment\<close>, where every call succeeds, no file exists, and the kernel is \<open>echo_kernel\<close>.
\<close>

section \<open>A concrete environment\<close>

definition no_files :: "u32 files" where
  "no_files =
     \<lparr>read_file = \<lambda>_ k. (Inl NotFound, k), read_text = \<lambda>_ k. (Inl NotFound, k),
      list_dir = \<lambda>_ k. (Inl NotFound, k), is_dir = \<lambda>_ k. (Inr False, k)\<rparr>"

definition quiet_environment :: "u32 environment" where
  "quiet_environment =
     \<lparr>cec = echo_kernel, files = no_files, debug_status = \<lambda>_. [], emit_signal = \<lambda>_ k. (None, k),
      open_uinput = \<lambda>k. (None, k), create_uinput = \<lambda>_ k. (None, k), write_key = \<lambda>_ k. (None, k),
      login_suspend = \<lambda>k. (None, k), login_inhibit = \<lambda>k. (True, k),
      gethostname = \<lambda>k. (Some [99, 101, 99], k), call_handler = \<lambda>_ _ _ _ _ k. (HandlerTimeout, k)\<rparr>"

definition sample_system :: System where
  "sample_system =
     \<lparr>sys_osd_name = [99, 101, 99],
      config = Config_default\<lparr>cfg_mappings := [UiCommand.Up \<mapsto> Key.Up], cfg_uinput := True\<rparr>,
      sys_standby = False, inhibit_fd = True, message_handlers = Map.empty, sys_channel = []\<rparr>"

lemma quiet_simps [simp]:
  "cec quiet_environment = echo_kernel" "debug_status quiet_environment = (\<lambda>_. [])"
  "files quiet_environment = no_files" "open_uinput quiet_environment = (\<lambda>k. (None, k))"
  "create_uinput quiet_environment = (\<lambda>_ k. (None, k))"
  "emit_signal quiet_environment = (\<lambda>_ k. (None, k))"
  by (simp_all add: quiet_environment_def)

lemma ascii_utf8: "list_all (\<lambda>b. b AND 0xC0 \<noteq> 0x80) bs \<Longrightarrow> utf8 bs"
  unfolding utf8_def
  by (rule exI [of _ "map (\<lambda>b. [b]) bs"]) (auto simp: utf8_char_def list_all_iff concat_map_singleton)

lemma sample_system_ok: "system_ok sample_system"
  by (simp add: system_ok_def sample_system_def Config_default_def ascii_utf8)

lemma echo_reads [simp]:
  "get_driver_name echo_kernel (d, k) = (Ok (driver cec_caps_default), d, k)"
  "get_adapter_name echo_kernel (d, k) = (Ok (adapter_name cec_caps_default), d, k)"
  "get_capabilities echo_kernel (d, k) = (Ok (capabilities cec_caps_default), d, k)"
  "get_physical_address echo_kernel (d, k) = (Ok (PhysicalAddress.PhysicalAddress 0x1000), d, k)"
  by (simp_all add: get_driver_name_def get_adapter_name_def get_capabilities_def get_raw_capabilities_def
      get_physical_address_def syscall_def echo_kernel_def op_bind_def)

lemma echo_poller: "get_poller echo_kernel (d, k) = (Ok \<lparr>fd = 4\<rparr>, d, k)"
  by (simp add: get_poller_def op_kernel_def echo_kernel_def)

lemma echo_modes:
  "set_initiator_mode echo_kernel InitiatorMode.Enabled (d, 0) = (Ok (), d, 1)"
  "set_follower_mode echo_kernel FollowerMode.Enabled (d, 1) = (Ok (), d, 0x11)"
  by (simp_all add: set_initiator_mode_def set_follower_mode_def Device_get_mode_def Device_set_mode_def
      op_bind_def syscall_def syscall_write_def echo_kernel_def CecMessageHandlingMode_with_initiator_def
      CecMessageHandlingMode_with_follower_def set_field_def)

lemma on_device_run:
  "m (device t, world t) = (Ok x, d, k) \<Longrightarrow> on_device m t = (Done x, t\<lparr>device := d, world := k\<rparr>)"
  by (simp add: on_device_def)

lemma quiet_configure:
  assumes "world t = 0"
  shows "configure_dev quiet_environment None t = (Done None, t\<lparr>world := 0x11\<rparr>)"
  using assms
  by (simp add: configure_dev_def on_device_run echo_modes contains_def cec_caps_default_def
      CAP_CONNECTOR_INFO_def CAP_PHYS_ADDR_def CAP_LOG_ADDRS_def)

lemma quiet_new:
  "\<exists>t u. DeviceTask_new quiet_environment d 0 sample_system i = (Done (), t) \<and>
     uinput (interface t) = Some u \<and> system t = sample_system"
  by (simp add: DeviceTask_new_def echo_poller quiet_configure configure_uinput_def set_interface_def sample_system_def
      on_device_run in_world_call_io io_outcome_def open_keyboard_def set_mappings_def set_name_def
      uinput_open_def ensure_def UInputDevice_new_def act_bind_def)

text \<open>Opening a device only reads the kernel.\<close>

lemma op_or_default_run:
  assumes "op_safe device_ok m (\<lambda>_. True)" "device_ok (d, k)" "snd (snd (m (d, k))) = k"
  obtains x d' where "op_or_default dflt m (d, k) = (Ok x, d', k)" "device_ok (d', k)"
proof -
  obtain q d' k' where q: "m (d, k) = (q, d', k')" by (metis prod.collapse)
  from op_safeD [OF assms(1,2) q] assms(3) q show thesis
    using that by (cases q) (auto simp: op_or_default_def)
qed

lemma echo_log_addrs_world:
  "snd (snd (get_logical_addresses echo_kernel (d, k))) = k"
  "snd (snd (get_vendor_id echo_kernel (d, k))) = k"
  by (simp_all add: get_logical_addresses_def get_vendor_id_def op_bind_def syscall_log_addrs_def
      echo_kernel_def op_device_def op_return_def)

lemma quiet_open:
  assumes "device_ok (d, k)"
  shows "\<exists>i d'. CecDevice_open quiet_environment (d, k) = (Ok i, d', k)"
proof -
  have a: "op_or_default PhysicalAddress_default (get_physical_address echo_kernel) (d, k) =
      (Ok (PhysicalAddress.PhysicalAddress 0x1000), d, k)"
    by (simp add: op_or_default_def)
  obtain x d1 where x: "op_or_default [] (get_logical_addresses echo_kernel) (d, k) = (Ok x, d1, k)"
      "device_ok (d1, k)"
    by (rule op_or_default_run [OF get_logical_addresses_safe [OF echo_kernel_sized] assms
          echo_log_addrs_world(1)])
  obtain y d2 where "op_or_default None (get_vendor_id echo_kernel) (d1, k) = (Ok y, d2, k)"
      "device_ok (d2, k)"
    by (rule op_or_default_run [OF get_vendor_id_safe [OF echo_kernel_sized] x(2)
          echo_log_addrs_world(2)])
  with a x(1) show ?thesis by (simp add: CecDevice_open_def)
qed

lemma quiet_start:
  "\<exists>t k u. CecDevice_start quiet_environment sample_system 0 = (Done t, k) \<and>
     uinput (interface t) = Some u \<and> system t = sample_system"
proof -
  obtain d where d: "Device_try_from echo_kernel 0 = (Ok d, 0)"
    by (simp add: Device_try_from_def echo_kernel_def)
  have "device_ok (d, 0 :: u32)"
    using Device_try_from_ok(2) [OF echo_kernel_sized d] by simp
  from quiet_open [OF this] obtain i d' where
    "CecDevice_open quiet_environment (d, 0) = (Ok i, d', 0)" by blast
  moreover obtain t u where "DeviceTask_new quiet_environment d' 0 sample_system i = (Done (), t)"
      "uinput (interface t) = Some u" "system t = sample_system"
    using quiet_new by blast
  ultimately show ?thesis
    using d by (simp add: CecDevice_start_def)
qed

section \<open>A device of the daemon\<close>

text \<open>
  C3. Whatever the kernel, the displays, the login manager and the clients do, and in whatever
  order, a device of the daemon never panics: not while it starts, and not in any run of its task,
  its object on the bus and its repeated keys.
\<close>

theorem device_never_panics:
  assumes "kernel_sized (cec E)" "system_ok s" "list_all step_ok steps"
  shows "case CecDevice_start E s k of
           (Done t, _) \<Rightarrow> fst (device_run E steps t) \<noteq> Crash
         | (Fail _, _) \<Rightarrow> True
         | (Crash, _) \<Rightarrow> False"
proof -
  obtain r k' where r: "CecDevice_start E s k = (r, k')" by (cases "CecDevice_start E s k")
  note start = CecDevice_start_inv [OF assms(1,2) r]
  show ?thesis
  proof (cases r)
    case (Done t)
    with start(2) have "task_inv t" by blast
    moreover have "act_keeps task_inv (device_run E steps)"
      by (rule device_run_keeps [OF assms(1,3)])
    ultimately show ?thesis
      using r Done by (simp add: act_holds_def)
  qed (use r start(1) in simp_all)
qed

theorem device_never_panics_witness:
  "case CecDevice_start quiet_environment sample_system 0 of
     (Done t, _) \<Rightarrow> fst (device_run quiet_environment
       [Called (CallPress [1] 0), RepeatTurn 0, Turn (Received ReloadConfig),
        Turn (Polled (Ok GotMessage)), Called (CallRelease 0), Turn Cancelled] t) \<noteq> Crash
   | (Fail _, _) \<Rightarrow> True
   | (Crash, _) \<Rightarrow> False"
  by (rule device_never_panics) (simp_all add: echo_kernel_sized sample_system_ok)

text \<open>
  C6. The properties of the object on the bus agree with what the task knows after every run:
  whether the device is the active source, and where the audio goes.
\<close>

theorem bus_object_mirrors_task:
  assumes "kernel_sized (cec E)" "system_ok s" "list_all step_ok steps"
    and "CecDevice_start E s k = (Done t, k')" "device_run E steps t = (r, t')"
  shows "cached_active (interface t') = active t' \<and>
    cached_audio_log_addr (interface t') = LogicalAddress_into (audio_log_addr t')"
proof -
  have "task_inv t" using CecDevice_start_inv(2) [OF assms(1,2,4)] by blast
  from act_holdsD(2) [OF device_run_keeps [OF assms(1,3)] this assms(5)] show ?thesis
    by (simp_all add: task_inv_def mirrored_def)
qed

theorem bus_object_mirrors_task_witness:
  "\<exists>t k' r t'. CecDevice_start quiet_environment sample_system 0 = (Done t, k') \<and>
     device_run quiet_environment [Turn (Received ReloadConfig), Turn Cancelled] t = (r, t') \<and>
     cached_active (interface t') = active t'"
proof -
  obtain t k' where t: "CecDevice_start quiet_environment sample_system 0 = (Done t, k')"
    using quiet_start by blast
  obtain r t' where r: "device_run quiet_environment [Turn (Received ReloadConfig), Turn Cancelled] t = (r, t')"
    by (metis prod.collapse)
  have "cached_active (interface t') = active t'"
    by (rule bus_object_mirrors_task [OF _ sample_system_ok _ t r, THEN conjunct1])
      (simp_all add: echo_kernel_sized)
  with t r show ?thesis by blast
qed

text \<open>
  C7. The only key that is ever down on the virtual keyboard is the one of the last command that
  was pressed and not released, also when writing an event fails.
\<close>

theorem keys_down_are_active:
  assumes "kernel_sized (cec E)" "system_ok s" "list_all step_ok steps"
    and "CecDevice_start E s k = (Done t, k')" "device_run E steps t = (r, t')"
    and "uinput (interface t') = Some u"
  shows "held_keys u \<subseteq> key_of u (active_key t')"
proof -
  have "task_inv t" using CecDevice_start_inv(2) [OF assms(1,2,4)] by blast
  from act_holdsD(2) [OF device_run_keeps [OF assms(1,3)] this assms(5)] assms(6) show ?thesis
    by (simp add: task_inv_def keys_ok_def)
qed

theorem keys_down_are_active_witness:
  "\<exists>t k' r t' u. CecDevice_start quiet_environment sample_system 0 = (Done t, k') \<and>
     device_run quiet_environment [] t = (r, t') \<and> uinput (interface t') = Some u \<and>
     held_keys u \<subseteq> key_of u (active_key t')"
proof -
  obtain t k' u where t: "CecDevice_start quiet_environment sample_system 0 = (Done t, k')"
      "uinput (interface t) = Some u" "system t = sample_system"
    using quiet_start by blast
  obtain r t' where r: "device_run quiet_environment [] t = (r, t')"
    by (metis prod.collapse)
  then have u: "uinput (interface t') = Some u"
    using t(2,3) by (auto simp: device_run_def DeviceTask_start_def query_audio_system_def spawn_def
        request_active_source_def act_bind_def sample_system_def Config_default_def)
  have "held_keys u \<subseteq> key_of u (active_key t')"
    by (rule keys_down_are_active [OF _ sample_system_ok _ t(1) r u]) (simp_all add: echo_kernel_sized)
  with t(1) r u show ?thesis by blast
qed

section \<open>Messages and replies\<close>

text \<open>
  C21. A message that the daemon does not handle itself, and for which no client has registered,
  changes nothing. If it was sent to the device alone, the reply is a feature abort to its sender
  with the opcode of the message; a broadcast gets no reply.
\<close>

theorem unhandled_message_reply:
  assumes "case message env of
      Valid m \<Rightarrow> Message_variant m \<notin>
        set (Opcode.SetSystemAudioMode # Opcode.SystemAudioModeStatus # STATIC_HANDLERS)
    | MessageData.Invalid bytes \<Rightarrow> True"
    and "MessageData_opcode (message env) = Ok oc" "get_message_handler oc (system t) = None"
  shows "message_reply E env t =
    (Done (if env_destination env = LogicalAddress_Broadcast then None
       else Some (Message.FeatureAbort oc AbortReason.UnrecognizedOp, env_initiator env)), t)"
proof -
  have "message_reply E env = default_reply E env"
  proof (cases "message env")
    case (Valid m)
    then show ?thesis
      using assms(1) by (cases m) (simp_all add: message_reply_def STATIC_HANDLERS_def)
  next
    case (Invalid bytes)
    then show ?thesis by (simp add: message_reply_def)
  qed
  then show ?thesis
    using assms(2,3) by (simp add: default_reply_def del: MessageData_opcode.simps)
qed

definition sample_envelope :: "Message \<Rightarrow> Envelope" where
  "sample_envelope m =
     \<lparr>message = Valid m, env_initiator = LogicalAddress.Tv,
      env_destination = LogicalAddress.PlaybackDevice1, timestamp = 0, env_sequence = 0\<rparr>"

definition sample_task :: "u32 DeviceTask" where
  "sample_task =
     \<lparr>device = sample_device, world = 0, system = sample_system,
      interface = \<lparr>cached_phys_addr = 0x1000, cached_log_addrs = [4], cached_vendor_id = -1,
        cached_active = False, cached_audio_log_addr = 0, channel = Some [], key_repeat = Map.empty,
        uinput = None\<rparr>,
      active_key = None, log_addr_try = LOG_ADDR_RETRIES, awaiting_wake = False, active = False,
      connector = None, audio_log_addr = LogicalAddress.Tv, with_logical_address_queue = [], jobs = []\<rparr>"

theorem unhandled_message_reply_witness:
  "message_reply quiet_environment (sample_envelope Message.GiveOsdName) sample_task =
     (Done (Some (Message.FeatureAbort 0x46 AbortReason.UnrecognizedOp, LogicalAddress.Tv)), sample_task)"
proof -
  have oc: "MessageData_opcode (message (sample_envelope Message.GiveOsdName)) = Ok 0x46"
    using Message_opcode_variant [of Message.GiveOsdName] by (simp add: sample_envelope_def)
  have "env_destination (sample_envelope Message.GiveOsdName) \<noteq> LogicalAddress_Broadcast"
    by (simp add: sample_envelope_def LogicalAddress_Broadcast_def)
  with unhandled_message_reply [OF _ oc, of sample_task quiet_environment] show ?thesis
    by (simp add: sample_envelope_def STATIC_HANDLERS_def get_message_handler_def sample_task_def
        sample_system_def)
qed

text \<open>
  C17. Messages about the route of the picture decide whether the device is active: it is if, and
  only if, they name its own physical address. Only a stream path to the device is answered, with
  the announcement of the active source to everyone.
\<close>

theorem routing_decides_activity:
  assumes "message env \<in> {Valid (Message.SetStreamPath a), Valid (Message.ActiveSource a),
      Valid (Message.RoutingChange old a)}"
    and "on_device (get_physical_address (cec E)) t = (Done this, t1)"
    and "message_reply E env t = (Done rep, t')"
  shows "(active t' \<longleftrightarrow> a = this) \<and>
    rep = (if message env = Valid (Message.SetStreamPath a) \<and> a = this
       then Some (Message.ActiveSource this, LogicalAddress_Broadcast) else None)"
  using assms
  by (auto simp: message_reply_def no_reply_def act_bind_eq_Done set_active_run(3) split: if_splits)

theorem routing_decides_activity_witness:
  "\<exists>t'. message_reply quiet_environment
      (sample_envelope (Message.SetStreamPath (PhysicalAddress.PhysicalAddress 0x1000))) sample_task =
      (Done (Some (Message.ActiveSource (PhysicalAddress.PhysicalAddress 0x1000), LogicalAddress_Broadcast)), t')
    \<and> active t'"
proof -
  let ?a = "PhysicalAddress.PhysicalAddress 0x1000"
  let ?env = "sample_envelope (Message.SetStreamPath ?a)"
  have this_address: "on_device (get_physical_address (cec quiet_environment)) sample_task = (Done ?a, sample_task)"
    by (simp add: on_device_def sample_task_def)
  have env: "message ?env = Valid (Message.SetStreamPath ?a)"
    by (simp add: sample_envelope_def)
  obtain rep t' where r: "message_reply quiet_environment ?env sample_task = (Done rep, t')"
    using this_address env
    by (simp add: message_reply_def set_active_def set_interface_def signal_def in_world_call_io
        io_outcome_def sample_task_def act_bind_def)
  from env have "message ?env \<in> {Valid (Message.SetStreamPath ?a), Valid (Message.ActiveSource ?a),
      Valid (Message.RoutingChange ?a ?a)}" by simp
  note result = routing_decides_activity [OF this this_address r]
  have "rep = Some (Message.ActiveSource ?a, LogicalAddress_Broadcast)" "active t'"
    using result env by simp_all
  with r show ?thesis by simp
qed

text \<open>
  The errors after which the loop of a reply would try again.
\<close>

definition retried :: "Error \<Rightarrow> bool" where
  "retried e \<longleftrightarrow> e \<in> {Error.TxError TxError.UnknownError, Error.TxError TxError.Aborted}"

lemma from_errno_not_retried [simp]: "\<not> retried (from_errno n)"
  by (cases n) (simp_all add: retried_def)

lemma tx_status_not_retried [simp]: "\<not> retried (from_tx_status debug s)"
  by (auto simp: retried_def from_tx_status_def)

lemma envelope_not_retried: "Envelope_try_from m = Err e \<Longrightarrow> \<not> retried e"
  by (auto simp: Envelope_try_from_def retried_def slice_def received_data_def array_vec_def
      try_from_primitive_def split: if_splits option.splits result.splits)

lemma frame_not_Err: "frame src dest m rep tmo \<noteq> Err e"
  by (cases "Message_to_bytes m") (simp_all add: frame_def frame_bytes_def Let_def slice_def
      copy_from_slice_def)

lemma op_bind_Err:
  "fst (op_bind m f s) = Err e \<Longrightarrow>
   fst (m s) = Err e \<or> (\<exists>x t. m s = (Ok x, t) \<and> fst (f x t) = Err e)"
  by (cases "m s"; cases "fst (m s)"; auto)

lemma tx_message_not_retried:
  assumes "fst (tx_message debug K m dest s) = Err e"
  shows "\<not> retried e"
proof -
  let ?d = "fst s"
  have "fst (tx_rx_message debug K m dest Opcode.FeatureAbort Timeout_NONE s) = Err e"
    using op_bind_Err [OF assms [unfolded tx_message_def]] by auto
  then have "fst (op_bind (op_return (frame (tx_logical_address ?d) dest m Opcode.FeatureAbort Timeout_NONE))
      (\<lambda>raw. op_bind (tx_raw_message K raw) (\<lambda>raw'.
        if \<not> contains (tx_status raw') CEC_TX_STATUS_OK
        then op_return (Err (from_tx_status debug (tx_status raw')))
        else op_return (Envelope_try_from raw'))) s) = Err e"
    by (simp add: tx_rx_message_def op_device_def)
  from op_bind_Err [OF this] obtain raw where
    "fst (op_bind (tx_raw_message K raw) (\<lambda>raw'.
        if \<not> contains (tx_status raw') CEC_TX_STATUS_OK
        then op_return (Err (from_tx_status debug (tx_status raw')))
        else op_return (Envelope_try_from raw')) s) = Err e"
    using frame_not_Err by (auto simp: op_return_def)
  from op_bind_Err [OF this] show ?thesis
    by (auto simp: tx_raw_message_def syscall_def sys_result_def op_return_def envelope_not_retried
        split: prod.splits option.splits if_splits)
qed

lemma act_attempt_case:
  "act_bind (act_attempt m) (\<lambda>res. case res of Inr _ \<Rightarrow> act_skip | Inl e \<Rightarrow> f e) t =
     (case m t of
        (Done x, u) \<Rightarrow> (Done (), u)
      | (Fail e, u) \<Rightarrow> f e u
      | (Crash, u) \<Rightarrow> (Crash, u))"
  by (auto simp: act_bind_def act_attempt_def act_return_def split: prod.splits outcome.splits)

text \<open>
  C27. A reply is sent once. The loop would try again only after two transmit errors that no
  transmission reports, so the first outcome is the last one.
\<close>

theorem reply_is_sent_once:
  "send_reply E REPLY_RETRIES answer address =
     act_then (on_device (tx_message (debug_status E) (cec E) answer address)) act_skip"
proof
  fix t
  have "send_reply E (Suc n) answer address t =
      act_then (on_device (tx_message (debug_status E) (cec E) answer address)) act_skip t" for n
  proof -
    obtain q d k where q: "tx_message (debug_status E) (cec E) answer address (device t, world t) = (q, d, k)"
      by (metis prod.collapse)
    have "\<not> retried e" if "q = Err e" for e
      using tx_message_not_retried [of "debug_status E" "cec E" answer address "(device t, world t)" e] q that
      by simp
    with q show ?thesis
      by (cases q) (auto simp: act_attempt_case on_device_def retried_def act_bind_def act_return_def)
  qed
  from this [of 3] show "send_reply E REPLY_RETRIES answer address t =
      act_then (on_device (tx_message (debug_status E) (cec E) answer address)) act_skip t"
    by (simp only: REPLY_RETRIES_def numeral_eq_Suc [of "num.Bit0 (num.Bit0 num.One)"] pred_numeral_simps
        BitM.simps numeral_3_eq_3 numeral_2_eq_2)
qed

section \<open>Sleep\<close>

text \<open>
  C26. A suspend happens once until the next wake-up, and when the TV has asked for it, the TV is
  not put into standby in return. The wake-up ends the standby and asks the devices to wake the TV
  if the configuration says so.
\<close>

theorem tv_standby_not_returned:
  "case suspend E (s, k) of (r, s1, k1) \<Rightarrow>
     sys_standby s1 \<and> suspend E (s1, k1) = (Done (), s1, k1) \<and>
     (case prepare_for_sleep E True (s1, k1) of (r2, s2, k2) \<Rightarrow>
        sys_channel s2 = sys_channel s @ [SystemMessage.Standby False False] \<and> \<not> inhibit_fd s2 \<and>
        (case prepare_for_sleep E False (s2, k2) of (r3, s3, k3) \<Rightarrow>
           \<not> sys_standby s3 \<and>
           sys_channel s3 = sys_channel s2 @ [SystemMessage.Wake (cfg_wake_tv (config s)) True]))"
  by (auto simp: suspend_def prepare_for_sleep_def send_message_def on_system_def on_world_def
      call_io_def call_def act_bind_def split: prod.splits outcome.splits)

section \<open>Keys that clients repeat\<close>

text \<open>
  C25. After a client has released a key, the key is not pressed any more, whatever became of the
  release: it has left the table, the keys of other targets are as they were, and a turn of its
  repetition does nothing.
\<close>

theorem released_key_stops:
  "case bus_release_user_control E target t of (r, t') \<Rightarrow>
     key_repeat (interface t') = (key_repeat (interface t))(target := None) \<and>
     repeat_turn E target t' = (Done (), t')"
proof -
  obtain r t' where r: "bus_release_user_control E target t = (r, t')"
    by (cases "bus_release_user_control E target t")
  have "key_repeat (interface t') = (key_repeat (interface t))(target := None)"
  proof (cases "key_repeat (interface t) target")
    case None
    then show ?thesis
      using r by (auto simp: bus_release_user_control_def bus_bind_def cec_result_def cec_call_def
          bus_return_def act_bind_def act_return_def split: prod.splits result.splits outcome.splits sum.splits)
  next
    case (Some k)
    have "key_repeat (interface (snd (repeat_stop E target k t))) = (key_repeat (interface t))(target := None)"
      by (auto simp: repeat_stop_def repeat_press_def set_interface_def on_device_def act_bind_def
          act_return_def split: prod.splits outcome.splits option.splits if_splits)
    with Some r show ?thesis
      by (auto simp: bus_release_user_control_def anyhow_call_def act_bind_def act_attempt_def
          bus_return_def act_return_def split: prod.splits outcome.splits)
  qed
  then show ?thesis
    using r by (simp add: repeat_turn_def)
qed

section \<open>Displays and names\<close>

text \<open>
  C16. The physical address of a display is the one of the first HDMI block among the data blocks
  of its CTA extensions, in their order; other blocks and other extensions' padding are skipped.
  On any other bytes the parser does not panic.
\<close>

theorem edid_address_found:
  assumes "length base = 128" "list_all cta_ok xs"
  shows "parse_hdmi_edid_pa (base @ concat (map cta_bytes xs)) =
      Ok (hdmi_address (concat (map cta_blocks xs))) \<and>
    parse_hdmi_edid_pa edid \<noteq> Panic"
  using edid_extensions_find [OF refl assms(2), of base] assms(1)
  by (simp_all add: parse_hdmi_edid_pa_def edid_extensions_not_Panic)

definition sample_extension :: cta_extension where
  "sample_extension =
     \<lparr>cta_revision = 3, cta_flags = 0,
      cta_blocks = [[0x23, 1, 2, 3], [0x65, 0x03, 0x0C, 0x00, 0x21, 0x00]],
      cta_rest = replicate 114 0\<rparr>"

theorem edid_address_found_witness:
  "parse_hdmi_edid_pa (replicate 128 0 @ concat (map cta_bytes [sample_extension])) =
     Ok (Some (PhysicalAddress.PhysicalAddress 0x2100))"
proof -
  have "list_all cta_ok [sample_extension]"
    by (simp add: cta_ok_def cta_bytes_def sample_extension_def is_data_block_def)
  note found = edid_address_found [OF _ this, of "replicate 128 0", THEN conjunct1]
  show ?thesis
    by (simp only: found length_replicate)
      (simp add: sample_extension_def hdmi_address_def is_hdmi_block_def HDMI_OUI_def)
qed

text \<open>
  C28. The name of the device is cut to at most 14 bytes between two characters, and a name that is
  cut keeps at least 11 bytes; a name that fits stays whole. The loop always finds a place, so its
  last line is never reached.
\<close>

theorem osd_name_is_trimmed:
  assumes "utf8 (sys_osd_name s)"
  shows "\<exists>name. trimmed_osd_name s = Ok name \<and> utf8 name \<and> length name \<le> 14 \<and>
     name = take (length name) (sys_osd_name s) \<and>
     (length name = length (sys_osd_name s) \<or> 11 \<le> length name)"
  using trimmed_osd_name_ok [OF assms] by metis

theorem osd_name_is_trimmed_witness:
  "\<exists>name. trimmed_osd_name (sample_system\<lparr>sys_osd_name := replicate 20 97\<rparr>) = Ok name \<and>
     length name \<le> 14 \<and> 11 \<le> length name"
proof -
  let ?s = "sample_system\<lparr>sys_osd_name := replicate 20 97\<rparr>"
  have "utf8 (sys_osd_name ?s)"
    by (simp add: ascii_utf8 list_all_iff)
  from osd_name_is_trimmed [OF this] obtain name where name: "trimmed_osd_name ?s = Ok name"
      "length name \<le> 14" "length name = 20 \<or> 11 \<le> length name" by auto
  then have "11 \<le> length name" by linarith
  with name show ?thesis by blast
qed

section \<open>Asynchronous devices\<close>

text \<open>
  C24. Every method of an asynchronous device does what the method of the device does, with the same
  result and the same effect on the device and the kernel; so do a poll, with a poller on a thread of
  its own, and opening. Where the method panics, the caller is told that the channel is closed, and
  when the thread has ended, a call fails without an effect.
\<close>

theorem async_methods_agree:
  "on_thread (AsyncDevice_set_blocking debug K blocking) = unwound (set_blocking K blocking) \<and>
   on_thread (AsyncDevice_get_poller debug K) =
     unwound (op_bind (get_poller K) (\<lambda>p. op_return (Ok (AsyncDevicePoller_from p)))) \<and>
   on_thread (AsyncDevice_poll debug K wait) = unwound (Device_poll K wait) \<and>
   on_thread (AsyncDevice_get_initiator_mode debug K) = unwound (get_initiator_mode K) \<and>
   on_thread (AsyncDevice_set_initiator_mode debug K mode) = unwound (set_initiator_mode K mode) \<and>
   on_thread (AsyncDevice_get_follower_mode debug K) = unwound (get_follower_mode K) \<and>
   on_thread (AsyncDevice_set_follower_mode debug K follower_mode) = unwound (set_follower_mode K follower_mode) \<and>
   on_thread (AsyncDevice_get_raw_capabilities debug K) = unwound (get_raw_capabilities K) \<and>
   on_thread (AsyncDevice_get_capabilities debug K) = unwound (get_capabilities K) \<and>
   on_thread (AsyncDevice_get_driver_name debug K) = unwound (get_driver_name K) \<and>
   on_thread (AsyncDevice_get_adapter_name debug K) = unwound (get_adapter_name K) \<and>
   on_thread (AsyncDevice_get_physical_address debug K) = unwound (get_physical_address K) \<and>
   on_thread (AsyncDevice_set_physical_address debug K phys_addr) = unwound (set_physical_address K phys_addr) \<and>
   on_thread (AsyncDevice_get_logical_addresses debug K) = unwound (get_logical_addresses K) \<and>
   on_thread (AsyncDevice_set_logical_addresses debug K addr_types) = unwound (set_logical_addresses K addr_types) \<and>
   on_thread (AsyncDevice_set_logical_address debug K addr_type) = unwound (set_logical_address K addr_type) \<and>
   on_thread (AsyncDevice_clear_logical_addresses debug K) = unwound (clear_logical_addresses K) \<and>
   on_thread (AsyncDevice_get_osd_name debug K) = unwound (get_osd_name K) \<and>
   on_thread (AsyncDevice_set_osd_name debug K name) = unwound (set_osd_name debug K name) \<and>
   on_thread (AsyncDevice_get_vendor_id debug K) = unwound (get_vendor_id K) \<and>
   on_thread (AsyncDevice_set_vendor_id debug K v) = unwound (set_vendor_id v) \<and>
   on_thread (AsyncDevice_tx_message debug K m dest) = unwound (tx_message debug K m dest) \<and>
   on_thread (AsyncDevice_tx_raw_message debug K raw) = unwound (tx_raw_message K raw) \<and>
   on_thread (AsyncDevice_tx_rx_message debug K m dest oc tmo) = unwound (tx_rx_message debug K m dest oc tmo) \<and>
   on_thread (AsyncDevice_rx_message debug K tmo) = unwound (rx_message K tmo) \<and>
   on_thread (AsyncDevice_rx_raw_message debug K ms) = unwound (rx_raw_message K ms) \<and>
   on_thread (AsyncDevice_poll_address debug K dest) = unwound (poll_address debug K dest) \<and>
   on_thread (AsyncDevice_handle_status debug K status) = unwound (handle_status K status) \<and>
   on_thread (AsyncDevice_get_connector_info debug K) = unwound (get_connector_info K) \<and>
   on_thread (AsyncDevice_set_active_source debug K address) = unwound (set_active_source debug K address) \<and>
   on_thread (AsyncDevice_wake debug K set_act text_view) = unwound (wake debug K set_act text_view) \<and>
   on_thread (AsyncDevice_standby debug K target) = unwound (standby debug K target) \<and>
   on_thread (AsyncDevice_press_user_control debug K cmd target) = unwound (press_user_control debug K cmd target) \<and>
   on_thread (AsyncDevice_release_user_control debug K target) = unwound (release_user_control debug K target) \<and>
   relay debug K f c (u\<lparr>thread_alive := False\<rparr>) =
     (closed_channel, u\<lparr>thread_alive := False\<rparr>) \<and>
   AsyncDevice_open K path k =
     (case Device_open K path k of (r, k') \<Rightarrow> (and_then r (\<lambda>d. Ok (AsyncDevice_from d k')), k'))"
  unfolding async_defs
  by (intro conjI; (rule on_thread_relay, rule DeviceThread_answer.simps, simp, simp)?)
    (simp_all add: relay_def on_thread_poll AsyncDevice_open_run)

section \<open>Configuration and registry\<close>



lemma scan_devs_keeps:
  "case scan_devs open_dev entries (r, k) of (q, r', k') \<Rightarrow>
     devs r' = devs r \<and> cancelled r' = cancelled r \<and>
     (\<forall>found. q = Done found \<longrightarrow> fst ` set found \<inter> dom (devs r) = {})"
proof (induction entries arbitrary: r k)
  case Nil
  show ?case by simp
next
  case (Cons entry entries)
  show ?case
  proof (cases entry)
    case (Inl e)
    then show ?thesis by simp
  next
    case (Inr name)
    let ?path = "join_path ''/dev'' name"
    show ?thesis
    proof (cases "\<not> starts_with name ''cec'' \<or> devs r ?path \<noteq> None")
      case True
      with Inr Cons.IH [of r k] show ?thesis by simp
    next
      case False
      let ?r = "r\<lparr>next_token := next_token r + 1\<rparr>"
      obtain q k1 where q: "open_dev ?path (next_token r) k = (q, k1)" by (metis prod.collapse)
      obtain q2 r2 k2 where q2: "scan_devs open_dev entries (?r, k1) = (q2, r2, k2)" by (metis prod.collapse)
      from Cons.IH [of ?r k1] q2 have "devs r2 = devs r" "cancelled r2 = cancelled r"
        "\<And>found. q2 = Done found \<Longrightarrow> fst ` set found \<inter> dom (devs r) = {}" by simp_all
      with Inr False q q2 show ?thesis
        by (cases q; cases q2) (auto simp: child_token_def on_world_def act_bind_def act_return_def)
    qed
  qed
qed

lemma add_dev_run: "add_dev path token (r, k) = (Done (), r\<lparr>devs := (devs r)(path \<mapsto> token)\<rparr>, k)"
  by (simp add: add_dev_def)

lemma add_devs_run:
  "act_list (\<lambda>(path, token, dev). add_dev path token) found (r, k) =
     (Done (), r\<lparr>devs := devs r ++ map_of (rev (map (\<lambda>(path, token, dev). (path, token)) found))\<rparr>, k)"
proof (induction found arbitrary: r)
  case Nil
  show ?case by simp
next
  case (Cons x found)
  obtain path token dev where x: "x = (path, token, dev)" by (cases x)
  show ?case
    by (simp add: x add_dev_run act_bind_def Cons) (auto simp: map_add_def fun_eq_iff split: option.split)
qed

text \<open>
  C29. The scan for devices registers all of them or none: when it succeeds, the registry has grown
  by the devices it found, none of which was there before; when a device cannot be opened, the
  registry is as it was. It never ends a device.
\<close>

theorem scan_registers_all_or_none:
  "case System_find_devs F open_dev (r, k) of (q, r', k') \<Rightarrow>
     cancelled r' = cancelled r \<and>
     (case q of
        Done found \<Rightarrow> dom (devs r') = dom (devs r) \<union> fst ` set found \<and>
          dom (devs r) \<inter> fst ` set found = {} \<and> devs r \<subseteq>\<^sub>m devs r'
      | _ \<Rightarrow> devs r' = devs r)"
proof -
  obtain l k1 where l: "list_dir F ''/dev'' k = (l, k1)" by (cases "list_dir F ''/dev'' k")
  show ?thesis
  proof (cases l)
    case (Inl e)
    with l show ?thesis
      by (simp add: System_find_devs_def io_call_def on_world_def act_bind_def)
  next
    case (Inr entries)
    obtain q r2 k2 where q: "scan_devs open_dev entries (r, k1) = (q, r2, k2)" by (metis prod.collapse)
    from scan_devs_keeps [where open_dev = open_dev and entries = entries and r = r and k = k1] q have scan: "devs r2 = devs r" "cancelled r2 = cancelled r"
      "\<And>found. q = Done found \<Longrightarrow> fst ` set found \<inter> dom (devs r) = {}" by simp_all
    show ?thesis
    proof (cases q)
      case (Done found)
      let ?new = "map_of (rev (map (\<lambda>(path, token, dev). (path, token)) found))"
      have new: "dom ?new = fst ` set found"
        by (auto simp: dom_map_of_conv_image_fst image_image split_beta)
      have "System_find_devs F open_dev (r, k) = (Done found, r2\<lparr>devs := devs r2 ++ ?new\<rparr>, k2)"
        using l Inr q Done by (simp add: System_find_devs_def io_call_def on_world_def act_bind_def add_devs_run)
      moreover have "devs r \<subseteq>\<^sub>m devs r ++ ?new"
        using scan(3) [OF Done] new map_add_comm [of "devs r" ?new] map_le_map_add [of "devs r" ?new]
        by (simp add: Int_commute)
      ultimately show ?thesis
        using scan(1,2) scan(3) [OF Done] new by auto
    qed (use l Inr q scan in \<open>simp_all add: System_find_devs_def io_call_def on_world_def act_bind_def\<close>)
  qed
qed

end
