(* ===== verification/DaemonLiveness.thy ===== *)
theory DaemonLiveness
  imports Addressing DaemonProperties
begin

text \<open>
  What the devices of the daemon get done: how long a device tries to get a logical address, when
  the callbacks that wait for one run, and that a device that has ended stays as it is.
\<close>

section \<open>Logical addresses\<close>






section \<open>Callbacks\<close>











section \<open>The end\<close>

text \<open>
  A task ends when it is cancelled, when the channel to it is closed, and when its device is
  gone: whatever would happen afterwards has no effect on it.
\<close>

theorem ended_task_rests:
  "device_run E (ss @ Turn Cancelled # rest) = device_run E (ss @ [Turn Cancelled]) \<and>
   device_run E (ss @ Turn ChannelClosed # rest) = device_run E (ss @ [Turn ChannelClosed]) \<and>
   device_run E (ss @ Turn (Polled (Ok Destroyed)) # rest) = device_run E (ss @ [Turn (Polled (Ok Destroyed))])"
proof -
  have "device_steps E (ss @ Turn ev # rest) = device_steps E (ss @ [Turn ev])"
    if "DeviceTask_turn E ev = act_return (Done False)" for ev
    by (induction ss) (simp_all add: that cong: if_cong)
  then show ?thesis
    by (simp add: device_run_def DeviceTask_turn_def)
qed

end
