(* ===== verification/TextForms.thy ===== *)
theory TextForms
  imports AddressText DaemonSystem
begin

text \<open>
  Names of enums and values of configuration files: the attributes \<open>strum\<close> of \<open>linux-cec/src/lib.rs\<close>
  and \<open>operand.rs\<close> with what \<open>Display\<close> and \<open>EnumString\<close> are documented to derive from them, the
  implementations of \<open>Serialize\<close> and \<open>Deserialize\<close> in \<open>lib.rs\<close>, and the structure \<open>Config\<close> of
  \<open>cecd/src/config.rs\<close> as it is read from a file.
\<close>

section \<open>Names of enums\<close>

definition to_ascii_lowercase :: "char \<Rightarrow> char" where
  "to_ascii_lowercase c =
     (let n = of_char c :: nat in if 65 \<le> n \<and> n \<le> 90 then char_of (n + 32) else c)"

definition eq_ignore_ascii_case :: "string \<Rightarrow> string \<Rightarrow> bool" where
  "eq_ignore_ascii_case s t \<longleftrightarrow> map to_ascii_lowercase s = map to_ascii_lowercase t"

text \<open>
  \<open>from_str\<close> takes the first variant that has the name, compared as the enum says; the operands of a
  variant are their default. \<open>Display\<close> writes the longest name, the last of them.
\<close>

definition strum_from_str ::
  "(string \<Rightarrow> string \<Rightarrow> bool) \<Rightarrow> ('a \<times> string list) list \<Rightarrow> string \<Rightarrow> 'a option" where
  "strum_from_str same table s =
     map_option fst (find (\<lambda>(v, names). list_ex (same s) names) table)"

definition preferred_name :: "string list \<Rightarrow> string" where
  "preferred_name names = fold (\<lambda>n best. if length best \<le> length n then n else best) names []"

definition strum_display :: "('a \<Rightarrow> 'a \<Rightarrow> bool) \<Rightarrow> ('a \<times> string list) list \<Rightarrow> 'a \<Rightarrow> string" where
  "strum_display is_variant table v =
     (case find (\<lambda>(w, names). is_variant w v) table of
        Some (w, names) \<Rightarrow> preferred_name names
      | None \<Rightarrow> [])"

definition LogicalAddress_names :: "(LogicalAddress \<times> string list) list" where
  "LogicalAddress_names =
   [(LogicalAddress.Tv, [''tv'', ''0'']),
    (LogicalAddress.RecordingDevice1, [''recording-device1'', ''recording-device-1'',
      ''recording-device'', ''1'']),
    (LogicalAddress.RecordingDevice2, [''recording-device2'', ''recording-device-2'', ''2'']),
    (LogicalAddress.Tuner1, [''tuner1'', ''tuner-1'', ''tuner'', ''3'']),
    (LogicalAddress.PlaybackDevice1, [''playback-device1'', ''playback-device-1'',
      ''playback-device'', ''4'']),
    (LogicalAddress.AudioSystem, [''audio-system'', ''5'']),
    (LogicalAddress.Tuner2, [''tuner2'', ''tuner-2'', ''6'']),
    (LogicalAddress.Tuner3, [''tuner3'', ''tuner-3'', ''7'']),
    (LogicalAddress.PlaybackDevice2, [''playback-device2'', ''playback-device-2'', ''8'']),
    (LogicalAddress.RecordingDevice3, [''recording-device3'', ''recording-device-3'', ''9'']),
    (LogicalAddress.Tuner4, [''tuner4'', ''tuner-4'', ''10'', ''a'']),
    (LogicalAddress.PlaybackDevice3, [''playback-device3'', ''playback-device-3'', ''11'',
      ''b'']),
    (LogicalAddress.Backup1, [''backup1'', ''backup-1'', ''12'', ''c'']),
    (LogicalAddress.Backup2, [''backup2'', ''backup-2'', ''13'', ''d'']),
    (LogicalAddress.Specific, [''specific'', ''14'', ''e'']),
    (LogicalAddress.UnregisteredOrBroadcast, [''unregistered'', ''broadcast'', ''15'', ''f''])]"

definition LogicalAddressType_names :: "(LogicalAddressType \<times> string list) list" where
  "LogicalAddressType_names =
   [(LogicalAddressType.Tv, [''tv'']), (LogicalAddressType.Record, [''record'']),
    (LogicalAddressType.Tuner, [''tuner'']), (LogicalAddressType.Playback, [''playback'']),
    (LogicalAddressType.AudioSystem, [''audio-system'']),
    (LogicalAddressType.Specific, [''specific'']),
    (LogicalAddressType.Unregistered, [''unregistered''])]"

definition UiCommand_names :: "(UiCommand \<times> string list) list" where
  "UiCommand_names =
   [(UiCommand.Select, [''select'', ''ok'']), (UiCommand.Up, [''up'']),
    (UiCommand.Down, [''down'']), (UiCommand.Left, [''left'']), (UiCommand.Right, [''right'']),
    (UiCommand.RightUp, [''right-up'']), (UiCommand.RightDown, [''right-down'']),
    (UiCommand.LeftUp, [''left-up'']), (UiCommand.LeftDown, [''left-down'']),
    (UiCommand.DeviceRootMenu, [''device-root-menu'']),
    (UiCommand.DeviceSetupMenu, [''device-setup-menu'']),
    (UiCommand.ContentsMenu, [''contents-menu'']), (UiCommand.FavoriteMenu, [''favorite-menu'']),
    (UiCommand.Back, [''back'', ''exit'']), (UiCommand.MediaTopMenu, [''media-top-menu'']),
    (UiCommand.MediaContextSensitiveMenu, [''media-context-sensitive-menu'']),
    (UiCommand.NumberEntryMode, [''number-entry-mode'']), (UiCommand.Number11, [''11'']),
    (UiCommand.Number12, [''12'']), (UiCommand.Number0OrNumber10, [''0'', ''10'']),
    (UiCommand.Number1, [''1'']), (UiCommand.Number2, [''2'']), (UiCommand.Number3, [''3'']),
    (UiCommand.Number4, [''4'']), (UiCommand.Number5, [''5'']), (UiCommand.Number6, [''6'']),
    (UiCommand.Number7, [''7'']), (UiCommand.Number8, [''8'']), (UiCommand.Number9, [''9'']),
    (UiCommand.Dot, [''dot'']), (UiCommand.Enter, [''enter'']), (UiCommand.Clear, [''clear'']),
    (UiCommand.NextFavorite, [''next-favorite'']), (UiCommand.ChannelUp, [''channel-up'']),
    (UiCommand.ChannelDown, [''channel-down'']),
    (UiCommand.PreviousChannel, [''previous-channel'']),
    (UiCommand.SoundSelect, [''sound-select'']), (UiCommand.InputSelect, [''input-select'']),
    (UiCommand.DisplayInformation, [''display-information'']), (UiCommand.Help, [''help'']),
    (UiCommand.PageUp, [''page-up'']), (UiCommand.PageDown, [''page-down'']),
    (UiCommand.Power, [''power'']), (UiCommand.VolumeUp, [''volume-up'']),
    (UiCommand.VolumeDown, [''volume-down'']), (UiCommand.Mute, [''mute'']),
    (UiCommand.Play, [''play'']), (UiCommand.Stop, [''stop'']), (UiCommand.Pause, [''pause'']),
    (UiCommand.Record, [''record'']), (UiCommand.Rewind, [''rewind'']),
    (UiCommand.FastForward, [''fast-forward'']), (UiCommand.Eject, [''eject'']),
    (UiCommand.SkipForward, [''skip-forward'']), (UiCommand.SkipBackward, [''skip-backward'']),
    (UiCommand.StopRecord, [''stop-record'']), (UiCommand.PauseRecord, [''pause-record'']),
    (UiCommand.Angle, [''angle'']), (UiCommand.SubPicture, [''sub-picture'']),
    (UiCommand.VideoOnDemand, [''video-on-demand'']),
    (UiCommand.ElectronicProgramGuide, [''electronic-program-guide'']),
    (UiCommand.TimerProgramming, [''timer-programming'']),
    (UiCommand.InitialConfiguration, [''initial-configuration'']),
    (UiCommand.SelectBroadcastType None, [''select-broadcast-type'']),
    (UiCommand.SelectSoundPresentation None, [''select-sound-presentation'']),
    (UiCommand.AudioDescription, [''audio-description'']), (UiCommand.Internet, [''internet'']),
    (UiCommand.ThreeDMode, [''3d-mode'']), (UiCommand.PlayFunction None, [''play-function'']),
    (UiCommand.PausePlayFunction, [''pause-play-function'']),
    (UiCommand.RecordFunction, [''record-function'']),
    (UiCommand.PauseRecordFunction, [''pause-record-function'']),
    (UiCommand.StopFunction, [''stop-function'']), (UiCommand.MuteFunction, [''mute-function'']),
    (UiCommand.RestoreVolumeFunction, [''restore-volume-function'']),
    (UiCommand.TuneFunction None, [''tune-function'']),
    (UiCommand.SelectMediaFunction None, [''select-media-function'']),
    (UiCommand.SelectAvInputFunction None, [''select-av-input-function'']),
    (UiCommand.SelectAudioInputFunction None, [''select-audio-input-function'']),
    (UiCommand.PowerToggleFunction, [''power-toggle-function'']),
    (UiCommand.PowerOffFunction, [''power-off-function'']),
    (UiCommand.PowerOnFunction, [''power-on-function'']), (UiCommand.F1Blue, [''f1'', ''blue'']),
    (UiCommand.F2Red, [''f2'', ''red'']), (UiCommand.F3Green, [''f3'', ''green'']),
    (UiCommand.F4Yellow, [''f4'', ''yellow'']), (UiCommand.F5, [''f5'']),
    (UiCommand.Data, [''data''])]"

definition LogicalAddress_from_str :: "string \<Rightarrow> LogicalAddress option" where
  "LogicalAddress_from_str = strum_from_str eq_ignore_ascii_case LogicalAddress_names"

definition LogicalAddress_fmt :: "LogicalAddress \<Rightarrow> string" where
  "LogicalAddress_fmt = strum_display (=) LogicalAddress_names"

definition LogicalAddressType_from_str :: "string \<Rightarrow> LogicalAddressType option" where
  "LogicalAddressType_from_str = strum_from_str eq_ignore_ascii_case LogicalAddressType_names"

definition LogicalAddressType_fmt :: "LogicalAddressType \<Rightarrow> string" where
  "LogicalAddressType_fmt = strum_display (=) LogicalAddressType_names"

definition UiCommand_from_str :: "string \<Rightarrow> UiCommand option" where
  "UiCommand_from_str = strum_from_str (=) UiCommand_names"

definition UiCommand_fmt :: "UiCommand \<Rightarrow> string" where
  "UiCommand_fmt = strum_display (\<lambda>v w. UiCommand_discriminant v = UiCommand_discriminant w) UiCommand_names"

section \<open>Serialized values\<close>

text \<open>
  What a format passes to the visitor of a type: a number, a truth value, a text, a table, or
  something else. A visitor refuses what it has no method for.
\<close>

datatype serde_value =
  Unsigned "64 word" | Signed int | Bool bool | Str string | Table "(string \<times> serde_value) list" | OtherValue

datatype de_error =
  InvalidValue serde_value string | InvalidType serde_value string

type_synonym 'a deserialized = "de_error + 'a"

definition de_then :: "'a deserialized \<Rightarrow> ('a \<Rightarrow> 'b deserialized) \<Rightarrow> 'b deserialized" where
  "de_then r f = (case r of Inl e \<Rightarrow> Inl e | Inr x \<Rightarrow> f x)"

definition de_option :: "serde_value \<Rightarrow> string \<Rightarrow> 'a option \<Rightarrow> 'a deserialized" where
  "de_option v expected r = (case r of Some x \<Rightarrow> Inr x | None \<Rightarrow> Inl (InvalidValue v expected))"

text \<open>The part of a \<open>result\<close> that \<open>map_err(|_| ...)\<close> and \<open>let Ok(x) = ... else\<close> keep.\<close>

definition ok :: "'a result \<Rightarrow> 'a option" where
  "ok r = (case r of Ok x \<Rightarrow> Some x | _ \<Rightarrow> None)"

definition LogicalAddress_serialize :: "LogicalAddress \<Rightarrow> serde_value" where
  "LogicalAddress_serialize a = Unsigned (ucast (LogicalAddress_into a))"

definition LogicalAddress_deserialize :: "serde_value \<Rightarrow> LogicalAddress deserialized" where
  "LogicalAddress_deserialize v =
     (case v of
        Unsigned n \<Rightarrow>
          de_option v ''a logical address''
            (if n \<le> 0xFF then ok (LogicalAddress_try_from (ucast n)) else None)
      | Str s \<Rightarrow> de_option v ''a logical address'' (LogicalAddress_from_str s)
      | _ \<Rightarrow> Inl (InvalidType v ''a logical address''))"

definition PhysicalAddress_serialize :: "PhysicalAddress \<Rightarrow> serde_value" where
  "PhysicalAddress_serialize a = Str (PhysicalAddress_fmt a)"

definition PhysicalAddress_deserialize :: "serde_value \<Rightarrow> PhysicalAddress deserialized" where
  "PhysicalAddress_deserialize v =
     (case v of
        Unsigned n \<Rightarrow>
          de_option v ''a physical address''
            (if n \<le> 0xFFFF then Some (PhysicalAddress.PhysicalAddress (ucast n)) else None)
      | Str s \<Rightarrow> de_option v ''a physical address'' (ok (PhysicalAddress_from_str s))
      | _ \<Rightarrow> Inl (InvalidType v ''a physical address''))"

definition String_deserialize :: "serde_value \<Rightarrow> string deserialized" where
  "String_deserialize v = (case v of Str s \<Rightarrow> Inr s | _ \<Rightarrow> Inl (InvalidType v ''a string''))"

definition VendorId_serialize :: "VendorId \<Rightarrow> serde_value" where
  "VendorId_serialize v = Str (VendorId_fmt v)"

definition VendorId_deserialize :: "serde_value \<Rightarrow> VendorId deserialized" where
  "VendorId_deserialize v =
     de_then (String_deserialize v) (\<lambda>s.
     de_option v ''3 hyphen-separated octets'' (ok (VendorId_from_str s)))"

text \<open>The derived implementations for \<open>LogicalAddressType\<close>, whose variants have names in kebab case.\<close>

definition LogicalAddressType_serialize :: "LogicalAddressType \<Rightarrow> serde_value" where
  "LogicalAddressType_serialize t = Str (LogicalAddressType_fmt t)"

definition LogicalAddressType_deserialize :: "serde_value \<Rightarrow> LogicalAddressType deserialized" where
  "LogicalAddressType_deserialize v =
     (case v of
        Str s \<Rightarrow> de_option v ''a variant'' (strum_from_str (=) LogicalAddressType_names s)
      | _ \<Rightarrow> Inl (InvalidType v ''a variant''))"

section \<open>Configuration\<close>

definition bool_deserialize :: "serde_value \<Rightarrow> bool deserialized" where
  "bool_deserialize v = (case v of Bool b \<Rightarrow> Inr b | _ \<Rightarrow> Inl (InvalidType v ''a boolean''))"

definition u16_deserialize :: "serde_value \<Rightarrow> u16 deserialized" where
  "u16_deserialize v =
     (case v of
        Unsigned n \<Rightarrow> de_option v ''u16'' (if n \<le> 0xFFFF then Some (ucast n) else None)
      | Signed n \<Rightarrow> de_option v ''u16'' (if 0 \<le> n \<and> n \<le> 0xFFFF then Some (word_of_int n) else None)
      | _ \<Rightarrow> Inl (InvalidType v ''u16''))"

text \<open>
  The mappings: a table from names to numbers, all of which are read before the first is looked up.
  The order in which a \<open>HashMap\<close> lists its entries is not defined; here it is the order of the table.
  \<open>key\<close> is \<open>Key::try_from\<close> of the crate \<open>input_linux\<close>.
\<close>

fun u16_entries :: "(string \<times> serde_value) list \<Rightarrow> (string \<times> u16) list deserialized" where
  "u16_entries [] = Inr []" |
  "u16_entries ((k, v) # rest) =
     de_then (u16_deserialize v) (\<lambda>n. de_then (u16_entries rest) (\<lambda>ns. Inr ((k, n) # ns)))"

fun de_mapping_entries ::
  "(u16 \<Rightarrow> Key option) \<Rightarrow> (string \<times> u16) list \<Rightarrow> (UiCommand \<rightharpoonup> Key) \<Rightarrow> (UiCommand \<rightharpoonup> Key) deserialized"
where
  "de_mapping_entries key [] mappings = Inr mappings" |
  "de_mapping_entries key ((k, v) # rest) mappings =
     de_then (de_option (Str k) ''an HDMI CEC UI command name'' (UiCommand_from_str k)) (\<lambda>command.
     de_then (de_option (Unsigned (ucast v)) ''a Linux input event key value'' (key v)) (\<lambda>code.
     de_mapping_entries key rest (mappings(command \<mapsto> code))))"

definition de_mappings :: "(u16 \<Rightarrow> Key option) \<Rightarrow> serde_value \<Rightarrow> (UiCommand \<rightharpoonup> Key) deserialized" where
  "de_mappings key v =
     (case v of
        Table entries \<Rightarrow>
          de_then (u16_entries entries) (\<lambda>string_map. de_mapping_entries key string_map Map.empty)
      | _ \<Rightarrow> Inl (InvalidType v ''a map''))"

text \<open>A field that is missing has its default.\<close>

definition de_field ::
  "(string \<times> serde_value) list \<Rightarrow> string \<Rightarrow> 'a \<Rightarrow> (serde_value \<Rightarrow> 'a deserialized) \<Rightarrow> 'a deserialized" where
  "de_field entries name missing de =
     (case map_of entries name of None \<Rightarrow> Inr missing | Some v \<Rightarrow> de v)"

definition de_some :: "(serde_value \<Rightarrow> 'a deserialized) \<Rightarrow> serde_value \<Rightarrow> 'a option deserialized" where
  "de_some de v = de_then (de v) (\<lambda>x. Inr (Some x))"

definition de_physical_address_default :: "PhysicalAddress option" where
  "de_physical_address_default = None"

definition de_true :: bool where
  "de_true \<longleftrightarrow> True"

definition Config_deserialize :: "(u16 \<Rightarrow> Key option) \<Rightarrow> serde_value \<Rightarrow> Config deserialized" where
  "Config_deserialize key v =
     (case v of
        Table entries \<Rightarrow>
          de_then (de_field entries ''osd_name'' None (de_some String_deserialize)) (\<lambda>name.
          de_then (de_field entries ''vendor_id'' None (de_some VendorId_deserialize)) (\<lambda>vendor.
          de_then (de_field entries ''logical_address'' LogicalAddressType.Unregistered
            LogicalAddressType_deserialize) (\<lambda>log.
          de_then (de_field entries ''physical_address'' de_physical_address_default
            (de_some PhysicalAddress_deserialize)) (\<lambda>phys.
          de_then (de_field entries ''mappings'' Map.empty (de_mappings key)) (\<lambda>mappings.
          de_then (de_field entries ''wake_tv'' False bool_deserialize) (\<lambda>wake.
          de_then (de_field entries ''suspend_tv'' False bool_deserialize) (\<lambda>susp.
          de_then (de_field entries ''allow_standby'' False bool_deserialize) (\<lambda>allow.
          de_then (de_field entries ''uinput'' de_true bool_deserialize) (\<lambda>uinput.
          de_then (de_field entries ''request_active_source'' de_true bool_deserialize) (\<lambda>request.
          Inr \<lparr>cfg_osd_name = map_option (map (\<lambda>c. of_char c)) name, cfg_vendor_id = vendor,
               cfg_logical_address = log, cfg_physical_address = phys, cfg_mappings = mappings,
               cfg_wake_tv = wake, cfg_suspend_tv = susp, cfg_allow_standby = allow,
               cfg_uinput = uinput, cfg_request_active_source = request\<rparr>))))))))))
      | _ \<Rightarrow> Inl (InvalidType v ''struct Config''))"

section \<open>Facts\<close>

text \<open>In a table without a name that occurs twice, every name belongs to one variant.\<close>

lemma strum_from_str_Some:
  assumes "distinct (concat (map (\<lambda>(v, names). map f names) table))"
  shows "strum_from_str (\<lambda>s t. f s = f t) table s = Some v \<longleftrightarrow>
    (\<exists>names. (v, names) \<in> set table \<and> f s \<in> f ` set names)"
  using assms
proof (induction table)
  case (Cons e table)
  obtain w ns where e: "e = (w, ns)" by (cases e)
  have IH: "strum_from_str (\<lambda>s t. f s = f t) table s = Some v \<longleftrightarrow>
      (\<exists>names. (v, names) \<in> set table \<and> f s \<in> f ` set names)"
    using Cons by (simp add: e)
  have ex: "list_ex (\<lambda>t. f s = f t) ns \<longleftrightarrow> f s \<in> f ` set ns"
    by (auto simp: list_ex_iff)
  show ?case
  proof (cases "f s \<in> f ` set ns")
    case True
    have "f s \<notin> f ` set names" if "(x, names) \<in> set table" for x names
    proof -
      have "f ` set ns \<inter> (\<Union>(v, names) \<in> set table. f ` set names) = {}"
        using Cons.prems by (simp add: e case_prod_beta)
      with that True show ?thesis
        by (metis (no_types, lifting) IntI UN_I case_prod_conv emptyE)
    qed
    moreover have "strum_from_str (\<lambda>s t. f s = f t) (e # table) s = Some w"
      using True ex by (simp add: strum_from_str_def e)
    ultimately show ?thesis
      using True by (metis (no_types, lifting) e list.set_intros(1) option.inject prod.inject set_ConsD)
  next
    case False
    then have "strum_from_str (\<lambda>s t. f s = f t) (e # table) s = strum_from_str (\<lambda>s t. f s = f t) table s"
      using ex by (simp add: strum_from_str_def e)
    moreover have "(\<exists>names. (v, names) \<in> set (e # table) \<and> f s \<in> f ` set names) \<longleftrightarrow>
        (\<exists>names. (v, names) \<in> set table \<and> f s \<in> f ` set names)"
      using False by (metis e list.set_intros(2) prod.inject set_ConsD)
    ultimately show ?thesis
      using IH by simp
  qed
qed (simp add: strum_from_str_def)

lemma preferred_name_in: "names \<noteq> [] \<Longrightarrow> preferred_name names \<in> set names"
proof -
  have "fold (\<lambda>n best. if length best \<le> length n then n else best) ns b \<in> insert b (set ns)"
    for ns and b :: string
    by (induction ns arbitrary: b) auto
  moreover assume "names \<noteq> []"
  then obtain n ns where "names = n # ns" by (cases names) auto
  ultimately show ?thesis
    by (auto simp: preferred_name_def)
qed

text \<open>So a variant that has a name is read back from what \<open>Display\<close> writes.\<close>

lemma strum_from_str_display:
  assumes "distinct (concat (map (\<lambda>(v, names). map f names) table))"
    and "find (\<lambda>(w, names). is_variant w v) table = Some (w, names)" and "names \<noteq> []"
  shows "strum_from_str (\<lambda>s t. f s = f t) table (strum_display is_variant table v) = Some w"
proof -
  have "(w, names) \<in> set table"
    using assms(2) by (auto simp: find_Some_iff in_set_conv_nth)
  then show ?thesis
    using preferred_name_in [OF assms(3)] assms(2) strum_from_str_Some [OF assms(1)]
    by (auto simp: strum_display_def)
qed

lemma LogicalAddress_names_distinct:
  "distinct (concat (map (\<lambda>(v, names). map (map to_ascii_lowercase) names) LogicalAddress_names))"
  by (simp add: LogicalAddress_names_def to_ascii_lowercase_def Let_def)

lemma LogicalAddressType_names_distinct:
  "distinct (concat (map (\<lambda>(v, names). map (map to_ascii_lowercase) names) LogicalAddressType_names))"
  by (simp add: LogicalAddressType_names_def to_ascii_lowercase_def Let_def)

lemma UiCommand_names_distinct:
  "distinct (concat (map (\<lambda>(v, names). map (\<lambda>s. s) names) UiCommand_names))"
  by (simp add: UiCommand_names_def)

lemma eq_ignore_ascii_case_map:
  "eq_ignore_ascii_case = (\<lambda>s t. map to_ascii_lowercase s = map to_ascii_lowercase t)"
  by (intro ext) (simp add: eq_ignore_ascii_case_def)

lemma LogicalAddress_from_str_Some:
  "LogicalAddress_from_str s = Some a \<longleftrightarrow>
    (\<exists>names. (a, names) \<in> set LogicalAddress_names \<and> list_ex (eq_ignore_ascii_case s) names)"
  using strum_from_str_Some [OF LogicalAddress_names_distinct, of s a]
  by (auto simp: LogicalAddress_from_str_def eq_ignore_ascii_case_map list_ex_iff)

lemma LogicalAddressType_from_str_Some:
  "LogicalAddressType_from_str s = Some a \<longleftrightarrow>
    (\<exists>names. (a, names) \<in> set LogicalAddressType_names \<and> list_ex (eq_ignore_ascii_case s) names)"
  using strum_from_str_Some [OF LogicalAddressType_names_distinct, of s a]
  by (auto simp: LogicalAddressType_from_str_def eq_ignore_ascii_case_map list_ex_iff)

lemma UiCommand_from_str_Some:
  "UiCommand_from_str s = Some c \<longleftrightarrow> (\<exists>names. (c, names) \<in> set UiCommand_names \<and> s \<in> set names)"
  using strum_from_str_Some [OF UiCommand_names_distinct, of s c]
  by (auto simp: UiCommand_from_str_def)

lemma LogicalAddress_from_fmt [simp]: "LogicalAddress_from_str (LogicalAddress_fmt a) = Some a"
proof -
  obtain names where "find (\<lambda>(w, names). w = a) LogicalAddress_names = Some (a, names)" "names \<noteq> []"
    by (cases a) (simp_all add: LogicalAddress_names_def)
  then show ?thesis
    unfolding LogicalAddress_from_str_def LogicalAddress_fmt_def eq_ignore_ascii_case_map
    by (rule strum_from_str_display [OF LogicalAddress_names_distinct])
qed

lemma LogicalAddressType_from_fmt [simp]: "LogicalAddressType_from_str (LogicalAddressType_fmt t) = Some t"
proof -
  obtain names where "find (\<lambda>(w, names). w = t) LogicalAddressType_names = Some (t, names)" "names \<noteq> []"
    by (cases t) (simp_all add: LogicalAddressType_names_def)
  then show ?thesis
    unfolding LogicalAddressType_from_str_def LogicalAddressType_fmt_def eq_ignore_ascii_case_map
    by (rule strum_from_str_display [OF LogicalAddressType_names_distinct])
qed

lemma UiCommand_codes:
  "map (\<lambda>(w, names). UiCommand_discriminant w) UiCommand_names =
     [0, 1, 2, 3, 4, 5, 6, 7, 8, 9, 0x0A, 0x0B, 0x0C, 0x0D, 0x10, 0x11, 0x1D, 0x1E, 0x1F, 0x20,
      0x21, 0x22, 0x23, 0x24, 0x25, 0x26, 0x27, 0x28, 0x29, 0x2A, 0x2B, 0x2C, 0x2F, 0x30, 0x31,
      0x32, 0x33, 0x34, 0x35, 0x36, 0x37, 0x38, 0x40, 0x41, 0x42, 0x43, 0x44, 0x45, 0x46, 0x47,
      0x48, 0x49, 0x4A, 0x4B, 0x4C, 0x4D, 0x4E, 0x50, 0x51, 0x52, 0x53, 0x54, 0x55, 0x56, 0x57,
      0x58, 0x59, 0x5A, 0x60, 0x61, 0x62, 0x63, 0x64, 0x65, 0x66, 0x67, 0x68, 0x69, 0x6A, 0x6B,
      0x6C, 0x6D, 0x71, 0x72, 0x73, 0x74, 0x75, 0x76]"
  by (simp add: UiCommand_names_def)

lemma UiCommand_named: "UiCommand_discriminant c \<in> set (map (\<lambda>(w, names). UiCommand_discriminant w) UiCommand_names)"
  unfolding UiCommand_codes by (cases c) simp_all

lemma UiCommand_names_find:
  "\<exists>w names. find (\<lambda>(w, names). UiCommand_discriminant w = UiCommand_discriminant c) UiCommand_names =
     Some (w, names) \<and> names \<noteq> []"
proof -
  have "list_all (\<lambda>(w, names). names \<noteq> []) UiCommand_names"
    by (simp add: UiCommand_names_def)
  moreover have "find (\<lambda>(w, names). UiCommand_discriminant w = UiCommand_discriminant c) UiCommand_names \<noteq> None"
    using UiCommand_named [of c] by (auto simp: find_None_iff)
  then obtain w names where "find (\<lambda>(w, names). UiCommand_discriminant w = UiCommand_discriminant c) UiCommand_names =
      Some (w, names)"
    by auto
  moreover from this have "(w, names) \<in> set UiCommand_names"
    by (auto simp: find_Some_iff in_set_conv_nth)
  ultimately show ?thesis
    by (auto simp: list_all_iff)
qed

lemma UiCommand_from_fmt:
  "\<exists>w. UiCommand_from_str (UiCommand_fmt c) = Some w \<and> UiCommand_discriminant w = UiCommand_discriminant c"
proof -
  obtain w names where w: "find (\<lambda>(w, names). UiCommand_discriminant w = UiCommand_discriminant c) UiCommand_names =
      Some (w, names)" "names \<noteq> []"
    using UiCommand_names_find by blast
  then have "UiCommand_discriminant w = UiCommand_discriminant c"
    by (auto simp: find_Some_iff)
  with strum_from_str_display [where f = "\<lambda>s. s" and table = UiCommand_names
      and is_variant = "\<lambda>v w. UiCommand_discriminant v = UiCommand_discriminant w", OF UiCommand_names_distinct w] show ?thesis
    by (auto simp: UiCommand_from_str_def UiCommand_fmt_def)
qed

lemma PhysicalAddress_from_str_not_Panic: "PhysicalAddress_from_str s \<noteq> Panic"
  by (auto simp: PhysicalAddress_from_str_def PhysicalAddress_from_plain_def PhysicalAddress_from_dotted_def
      Let_def split: option.splits)

lemma ok_simps [simp]: "ok (Ok x) = Some x" "ok (Err e) = None" "ok Panic = None"
  by (simp_all add: ok_def)

lemma de_simps [simp]:
  "de_then (Inl e) f = Inl e" "de_then (Inr x) f = f x"
  "de_option v t (Some y) = Inr y" "de_option v t None = Inl (InvalidValue v t)"
  by (simp_all add: de_then_def de_option_def)

lemma LogicalAddress_nibble: "LogicalAddress_into a \<le> 0xFF" "LogicalAddress_into a < 16"
  by (cases a; simp)+

end
