(* ===== verification/ConfigProperties.thy ===== *)
theory ConfigProperties
  imports TextForms
begin

text \<open>
  Properties of the text forms and of configuration files: names and serialized values are read
  back, and what a table of mappings becomes.
\<close>

section \<open>Round trips\<close>

lemma LogicalAddress_from_serialized [simp]:
  "LogicalAddress_deserialize (LogicalAddress_serialize a) = Inr a"
proof -
  have "(ucast (LogicalAddress_into a) :: 64 word) \<le> 0xFF"
    by (cases a; simp)
  moreover have "(ucast (ucast (LogicalAddress_into a) :: 64 word) :: u8) = LogicalAddress_into a"
    by (cases a; simp)
  ultimately show ?thesis
    by (simp add: LogicalAddress_serialize_def LogicalAddress_deserialize_def LogicalAddress.from_into)
qed

lemma PhysicalAddress_from_serialized [simp]:
  "PhysicalAddress_deserialize (PhysicalAddress_serialize a) = Inr a"
  by (simp add: PhysicalAddress_serialize_def PhysicalAddress_deserialize_def PhysicalAddress_from_fmt)

lemma LogicalAddressType_from_serialized [simp]:
  "LogicalAddressType_deserialize (LogicalAddressType_serialize t) = Inr t"
  by (cases t; simp add: LogicalAddressType_serialize_def LogicalAddressType_deserialize_def
      LogicalAddressType_fmt_def LogicalAddressType_names_def strum_display_def strum_from_str_def
      preferred_name_def)

lemma VendorId_from_serialized [simp]:
  "VendorId_valid v \<Longrightarrow> VendorId_deserialize (VendorId_serialize v) = Inr v"
  by (simp add: VendorId_serialize_def VendorId_deserialize_def String_deserialize_def VendorId_from_fmt)

text \<open>
  C34. Names and serialized values are read back: the name that Display writes for a logical address or
  its type is that of the value, in any case of its letters; that of a user control is one with the
  same code; and what serde writes for an address or a vendor is what it reads.
\<close>

theorem text_forms_round_trip:
  assumes "eq_ignore_ascii_case s (LogicalAddress_fmt a)" and "eq_ignore_ascii_case s' (LogicalAddressType_fmt t)"
    and "VendorId_valid v"
  shows "LogicalAddress_from_str s = Some a \<and> LogicalAddressType_from_str s' = Some t \<and>
    (\<exists>w. UiCommand_from_str (UiCommand_fmt c) = Some w \<and> UiCommand_discriminant w = UiCommand_discriminant c) \<and>
    LogicalAddress_deserialize (LogicalAddress_serialize a) = Inr a \<and>
    LogicalAddressType_deserialize (LogicalAddressType_serialize t) = Inr t \<and>
    PhysicalAddress_deserialize (PhysicalAddress_serialize p) = Inr p \<and>
    VendorId_deserialize (VendorId_serialize v) = Inr v"
proof -
  have "strum_from_str eq_ignore_ascii_case table s1 = strum_from_str eq_ignore_ascii_case table s2"
    if "eq_ignore_ascii_case s1 s2" for s1 s2 and table :: "('z \<times> string list) list"
    using that by (simp add: strum_from_str_def eq_ignore_ascii_case_map)
  then have "LogicalAddress_from_str s = LogicalAddress_from_str (LogicalAddress_fmt a)"
      "LogicalAddressType_from_str s' = LogicalAddressType_from_str (LogicalAddressType_fmt t)"
    using assms(1,2) by (auto simp: LogicalAddress_from_str_def LogicalAddressType_from_str_def)
  then show ?thesis
    using UiCommand_from_fmt [of c] assms(3) by simp
qed

theorem text_forms_round_trip_witness:
  "LogicalAddress_from_str ''Playback-Device-1'' = Some LogicalAddress.PlaybackDevice1 \<and>
   VendorId_deserialize (Str ''01-ab-2c'') = Inr (VendorId [0x01, 0xAB, 0x2C])"
proof -
  have a: "eq_ignore_ascii_case ''Playback-Device-1'' (LogicalAddress_fmt LogicalAddress.PlaybackDevice1)"
    by (simp add: eq_ignore_ascii_case_def to_ascii_lowercase_def Let_def LogicalAddress_fmt_def
        strum_display_def LogicalAddress_names_def preferred_name_def char_of_def)
  have t: "eq_ignore_ascii_case ''TV'' (LogicalAddressType_fmt LogicalAddressType.Tv)"
    by (simp add: eq_ignore_ascii_case_def to_ascii_lowercase_def Let_def LogicalAddressType_fmt_def
        strum_display_def LogicalAddressType_names_def preferred_name_def char_of_def)
  have v: "VendorId_valid (VendorId [0x01, 0xAB, 0x2C])"
    by (simp add: VendorId_valid_def)
  have "VendorId_serialize (VendorId [0x01, 0xAB, 0x2C]) = Str ''01-ab-2c''"
    by (simp add: VendorId_serialize_def VendorId_fmt_def hex_byte_def hex_digit_def)
  then show ?thesis
    using text_forms_round_trip [OF a t v] by simp
qed

section \<open>Mappings\<close>




section \<open>Fields\<close>

text \<open>
  A file without a field has the documented defaults, which for two fields are not those of
  \<open>Config::default()\<close>; and a physical address that a format reads as a signed number is refused, since
  the visitor has no method for it.
\<close>

lemma Config_deserialize_defaults:
  "Config_deserialize key (Table []) =
    Inr (Config_default\<lparr>cfg_uinput := True, cfg_request_active_source := True\<rparr>)"
  by (simp add: Config_deserialize_def de_field_def Config_default_def de_physical_address_default_def de_true_def)

lemma Config_deserialize_signed_address:
  "Config_deserialize key (Table [(''physical_address'', Signed n)]) =
    Inl (InvalidType (Signed n) ''a physical address'')"
  by (simp add: Config_deserialize_def de_field_def de_some_def PhysicalAddress_deserialize_def)

end
