(* ===== verification/Cectool.thy ===== *)
theory Cectool
  imports TextForms DeviceProperties
begin

text \<open>
  The command line tool: \<open>linux-cec/src/bin/cectool.rs\<close>. The parser of its arguments is the crate
  \<open>clap\<close>; a command with its arguments is a value of \<open>Command\<close>. What a command prints is a list of
  lines. A line in the format of \<open>Debug\<close>, which the compiler derives, holds the value it shows.
\<close>

section \<open>Commands and lines\<close>

datatype Command =
  GetConnectorInfo | GetPhysicalAddress | SetPhysicalAddress PhysicalAddress | GetLogicalAddress |
  SetLogicalAddress LogicalAddressType | ClearLogicalAddress | SetOsdName "u8 list" | SetActive |
  Standby | VolumeUp LogicalAddress | VolumeDown LogicalAddress | Mute LogicalAddress |
  GetAudioStatus LogicalAddress | SendUserControl UiCommand LogicalAddress | Monitor bool bool

datatype line =
  Text string | ConnectorLine "ConnectorInfo result" | RawLine "u8 list" | DecodedLine Message

definition hex_nibble :: "u8 \<Rightarrow> string" where
  "hex_nibble n = [hex_digit (unat n)]"

section \<open>Commands that end\<close>

definition op_attempt :: "('k, 'a) device_op \<Rightarrow> ('k, 'a result) device_op" where
  "op_attempt m s = (case m s of (Panic, t) \<Rightarrow> (Panic, t) | (r, t) \<Rightarrow> (Ok r, t))"

definition op_then :: "('k, unit) device_op \<Rightarrow> ('k, 'b) device_op \<Rightarrow> ('k, 'b) device_op" where
  "op_then m n = op_bind m (\<lambda>_. n)"

definition print_lines :: "line list \<Rightarrow> ('k, line list) device_op" where
  "print_lines ls = op_return (Ok ls)"

definition logical_address_line :: "LogicalAddress \<Rightarrow> line" where
  "logical_address_line addr =
     Text (''Logical address: '' @ LogicalAddress_fmt addr @ '' ('' @ hex_nibble (LogicalAddress_into addr) @ '')'')"

text \<open>A message to the TV; a key that is pressed and released.\<close>

definition send_message_to_tv :: "(u8 \<Rightarrow> string) \<Rightarrow> 'k kernel \<Rightarrow> Message \<Rightarrow> ('k, line list) device_op" where
  "send_message_to_tv debug K m =
     op_bind (tx_message debug K m LogicalAddress.Tv) (\<lambda>_. print_lines [])"

definition send_key ::
  "(u8 \<Rightarrow> string) \<Rightarrow> 'k kernel \<Rightarrow> UiCommand \<Rightarrow> LogicalAddress \<Rightarrow> ('k, line list) device_op" where
  "send_key debug K key target =
     op_then (set_initiator_mode K InitiatorMode.Enabled)
     (op_then (press_user_control debug K key target)
     (op_then (release_user_control debug K target) (print_lines [])))"

definition audio_status_line :: "Envelope \<Rightarrow> line" where
  "audio_status_line envelope =
     (case message envelope of
        Valid (Message.ReportAudioStatus status) \<Rightarrow>
          Text (''Volume: '' @ show_nat (AudioStatus_volume status) @ ''%, '' @
            (if AudioStatus_mute status then [] else ''not '') @ ''muted'')
      | _ \<Rightarrow> Text ''Got invalid reply'')"

text \<open>\<open>Monitor\<close>, up to its loop.\<close>

definition monitor_start :: "'k kernel \<Rightarrow> bool \<Rightarrow> ('k, unit) device_op" where
  "monitor_start K all =
     op_then (set_initiator_mode K InitiatorMode.Disabled)
     (set_follower_mode K (if all then FollowerMode.MonitorAll else FollowerMode.Monitor))"

definition run_command :: "(u8 \<Rightarrow> string) \<Rightarrow> 'k kernel \<Rightarrow> Command \<Rightarrow> ('k, line list) device_op" where
  "run_command debug K command =
     (case command of
        Command.GetConnectorInfo \<Rightarrow>
          op_bind (op_attempt (get_connector_info K)) (\<lambda>r. print_lines [ConnectorLine r])
      | Command.GetPhysicalAddress \<Rightarrow>
          op_bind (get_physical_address K) (\<lambda>a.
          print_lines [Text (''Physical address: '' @ PhysicalAddress_fmt a)])
      | Command.SetPhysicalAddress phys_addr \<Rightarrow>
          op_then (set_physical_address K phys_addr) (print_lines [])
      | Command.GetLogicalAddress \<Rightarrow>
          op_bind (get_logical_addresses K) (\<lambda>addrs. print_lines (map logical_address_line addrs))
      | Command.SetLogicalAddress ty \<Rightarrow>
          op_then (set_initiator_mode K InitiatorMode.Enabled)
          (op_then (set_logical_address K ty) (print_lines []))
      | Command.ClearLogicalAddress \<Rightarrow>
          op_then (set_initiator_mode K InitiatorMode.Enabled)
          (op_then (clear_logical_addresses K) (print_lines []))
      | Command.SetOsdName name \<Rightarrow>
          op_then (set_initiator_mode K InitiatorMode.Enabled)
          (op_bind (op_return (buffer_from_str 14 name)) (\<lambda>buffer.
          send_message_to_tv debug K (Message.SetOsdName buffer)))
      | Command.SetActive \<Rightarrow>
          op_then (set_initiator_mode K InitiatorMode.Enabled)
          (send_message_to_tv debug K Message.RequestActiveSource)
      | Command.Standby \<Rightarrow>
          op_then (set_initiator_mode K InitiatorMode.Enabled)
          (send_message_to_tv debug K Message.Standby)
      | Command.VolumeUp target \<Rightarrow> send_key debug K UiCommand.VolumeUp target
      | Command.VolumeDown target \<Rightarrow> send_key debug K UiCommand.VolumeDown target
      | Command.Mute target \<Rightarrow> send_key debug K UiCommand.Mute target
      | Command.GetAudioStatus target \<Rightarrow>
          op_then (set_initiator_mode K InitiatorMode.Enabled)
          (op_then (set_follower_mode K FollowerMode.Enabled)
          (op_bind (tx_rx_message debug K Message.GiveAudioStatus target Opcode.ReportAudioStatus Timeout_MAX)
            (\<lambda>envelope. print_lines [audio_status_line envelope])))
      | Command.SendUserControl key target \<Rightarrow> send_key debug K key target
      | Command.Monitor all suppress_poll \<Rightarrow> op_then (monitor_start K all) (print_lines []))"

section \<open>The monitor\<close>

text \<open>What one frame prints: nothing for a poll that is suppressed.\<close>

definition address_name :: "u8 \<Rightarrow> string result" where
  "address_name n = and_then (LogicalAddress_try_from n) (\<lambda>a. Ok (LogicalAddress_fmt a))"

definition unwrapped :: "'a result \<Rightarrow> 'a result" where
  "unwrapped r = (case r of Ok x \<Rightarrow> Ok x | _ \<Rightarrow> Panic)"

definition frame_lines :: "bool \<Rightarrow> cec_msg \<Rightarrow> line list result" where
  "frame_lines suppress_poll m =
     and_then (slice (msg m) 1 (unat (msg_len m))) (\<lambda>bytes.
     if suppress_poll \<and> bytes = [] then Ok []
     else
       and_then (unwrapped (address_name (initiator m))) (\<lambda>from.
       and_then (if destination m = 15 then Ok ''broadcast'' else unwrapped (address_name (destination m))) (\<lambda>dest.
       Ok (Text (''Message @ '' @ show_nat (unat (rx_ts m)) @ '': '' @ from @ '' ('' @ hex_nibble (initiator m) @
             '') -> '' @ dest @ '' ('' @ hex_nibble (destination m) @ '')'') #
           (if bytes = [] then [Text ''  poll'']
            else [RawLine bytes,
              case Message_try_from_bytes bytes of
                Ok decoded \<Rightarrow> DecodedLine decoded
              | _ \<Rightarrow> Text ''  decoding failed''])))))"

definition monitor_turn :: "'k kernel \<Rightarrow> bool \<Rightarrow> ('k, line list) device_op" where
  "monitor_turn K suppress_poll =
     op_bind (rx_raw_message K 0) (\<lambda>m. op_return (frame_lines suppress_poll m))"

text \<open>
  The loop ends only with an error or a panic: after \<open>n\<close> turns it has printed some lines and goes on,
  which is \<open>None\<close>, or has ended.
\<close>

primrec monitor_loop ::
  "'k kernel \<Rightarrow> bool \<Rightarrow> nat \<Rightarrow> Device \<times> 'k \<Rightarrow> unit result option \<times> line list \<times> Device \<times> 'k" where
  "monitor_loop K suppress_poll 0 s = (None, [], s)" |
  "monitor_loop K suppress_poll (Suc n) s =
     (case monitor_turn K suppress_poll s of
        (Ok ls, t) \<Rightarrow> (case monitor_loop K suppress_poll n t of (r, ls', u) \<Rightarrow> (r, ls @ ls', u))
      | (Err e, t) \<Rightarrow> (Some (Err e), [], t)
      | (Panic, t) \<Rightarrow> (Some Panic, [], t))"

text \<open>
  \<open>main\<close>, on a device that was opened: how it ends, if it does within the turns of the monitor, and
  what it prints.
\<close>

definition cectool_main ::
  "(u8 \<Rightarrow> string) \<Rightarrow> 'k kernel \<Rightarrow> nat \<Rightarrow> Command \<Rightarrow> Device \<times> 'k \<Rightarrow> unit result option \<times> line list \<times> Device \<times> 'k"
where
  "cectool_main debug K turns command s =
     (case run_command debug K command s of
        (Ok ls, t) \<Rightarrow>
          (case command of
             Command.Monitor all suppress_poll \<Rightarrow> monitor_loop K suppress_poll turns t
           | _ \<Rightarrow> (Some (Ok ()), ls, t))
      | (Err e, t) \<Rightarrow> (Some (Err e), [], t)
      | (Panic, t) \<Rightarrow> (Some Panic, [], t))"

end
