(* ===== verification/CectoolProperties.thy ===== *)
theory CectoolProperties
  imports Cectool
begin

text \<open>
  Properties of the command line tool: it does not panic on a kernel that fills its structures, its
  monitor prints every frame it receives, and what it sends to the TV.
\<close>

section \<open>Frames\<close>

text \<open>A frame holds its header and at most 15 more bytes.\<close>

definition frame_sized :: "cec_msg \<Rightarrow> bool" where
  "frame_sized m \<longleftrightarrow> cec_msg_valid m \<and> 1 \<le> msg_len m \<and> msg_len m \<le> 16"

definition receives_frames :: "'k kernel \<Rightarrow> bool" where
  "receives_frames K \<longleftrightarrow>
     (\<forall>k. case receive_message K (cec_msg_from_timeout 0) k of (e, m, _) \<Rightarrow> e = None \<longrightarrow> frame_sized m)"

lemma frame_lines_Ok:
  assumes "frame_sized m"
  obtains ls where "frame_lines suppress_poll m = Ok ls"
proof -
  obtain i d where a: "LogicalAddress_try_from (initiator m) = Ok i" "LogicalAddress_try_from (destination m) = Ok d"
    by (rule Envelope_header)
  have "1 \<le> unat (msg_len m)" "unat (msg_len m) \<le> length (msg m)"
    using assms by (simp_all add: frame_sized_def cec_msg_valid_def CEC_MAX_MSG_SIZE_def word_le_nat_alt)
  then have "\<exists>ls. frame_lines suppress_poll m = Ok ls"
    by (cases "destination m = 15") (simp_all add: frame_lines_def address_name_def unwrapped_def a)
  then show thesis
    using that by blast
qed


lemma monitor_turn_run:
  assumes "receives_frames K" "receive_message K (cec_msg_from_timeout 0) k = (e, m, k')"
  shows "monitor_turn K suppress_poll (d, k) =
    (case e of None \<Rightarrow> (frame_lines suppress_poll m, d, k') | Some n \<Rightarrow> (Err (from_errno n), d, k'))"
  using assms(2) by (cases e) (simp_all add: monitor_turn_def rx_raw_message_def syscall_def op_bind_def)

text \<open>What the kernel hands over in at most \<open>n\<close> calls: frames, and the error that ends them.\<close>

primrec receive_all :: "'k kernel \<Rightarrow> nat \<Rightarrow> 'k \<Rightarrow> cec_msg list \<times> Errno option \<times> 'k" where
  "receive_all K 0 k = ([], None, k)" |
  "receive_all K (Suc n) k =
     (case receive_message K (cec_msg_from_timeout 0) k of
        (Some e, m, k') \<Rightarrow> ([], Some e, k')
      | (None, m, k') \<Rightarrow> (case receive_all K n k' of (ms, e, k'') \<Rightarrow> (m # ms, e, k'')))"

lemma receive_all_run:
  assumes "receives_frames K" "receive_all K n k = (ms, e, k')"
  shows "list_all frame_sized ms \<and>
    monitor_loop K suppress_poll n (d, k) =
      (map_option (\<lambda>n. Err (from_errno n)) e,
       concat (map (\<lambda>m. case frame_lines suppress_poll m of Ok ls \<Rightarrow> ls | _ \<Rightarrow> []) ms), d, k')"
  using assms(2)
proof (induction n arbitrary: k ms)
  case (Suc n)
  obtain e1 m1 k1 where r: "receive_message K (cec_msg_from_timeout 0) k = (e1, m1, k1)"
    by (cases "receive_message K (cec_msg_from_timeout 0) k")
  note turn = monitor_turn_run [OF assms(1) r]
  show ?case
  proof (cases e1)
    case None
    obtain ms' where ms': "receive_all K n k1 = (ms', e, k')" "ms = m1 # ms'"
      using Suc.prems by (auto simp: r None split: prod.splits)
    have "frame_sized m1"
      using assms(1) r None unfolding receives_frames_def by (metis (mono_tags, lifting) case_prod_conv)
    moreover from this obtain ls where "frame_lines suppress_poll m1 = Ok ls"
      by (rule frame_lines_Ok)
    ultimately show ?thesis
      using Suc.IH [OF ms'(1)] turn ms'(2) None by simp
  next
    case (Some x)
    then show ?thesis
      using Suc.prems turn r by auto
  qed
qed simp

section \<open>Commands\<close>

lemma op_then_safe [safe]:
  assumes "op_safe P m (\<lambda>_. True)" "op_safe P n (\<lambda>_. True)"
  shows "op_safe P (op_then m n) (\<lambda>_. True)"
  unfolding op_then_def by (intro safe assms)

lemma print_lines_safe [safe]: "op_safe P (print_lines ls) (\<lambda>_. True)"
  unfolding print_lines_def by (intro safe) simp

lemma op_attempt_safe: "op_safe P m (\<lambda>_. True) \<Longrightarrow> op_safe P (op_attempt m) (\<lambda>_. True)"
proof (rule op_safeI)
  fix s r t
  assume m: "op_safe P m (\<lambda>_. True)" and s: "P s" "op_attempt m s = (r, t)"
  obtain q u where q: "m s = (q, u)" by (cases "m s")
  then have "q \<noteq> Panic" "P u"
    using op_safeD [OF m s(1)] by simp_all
  moreover from this q s(2) have "\<exists>q. r = Ok q" "t = u"
    by (cases q; auto simp: op_attempt_def)+
  ultimately show "r \<noteq> Panic \<and> P t \<and> (\<forall>x. r = Ok x \<longrightarrow> True)"
    by auto
qed

text \<open>The argument of \<open>send-user-control\<close> is the name of a key.\<close>

primrec command_parsed :: "Command \<Rightarrow> bool" where
  "command_parsed (Command.SendUserControl key _) \<longleftrightarrow> (\<exists>s. UiCommand_from_str s = Some key)" |
  "command_parsed Command.GetConnectorInfo \<longleftrightarrow> True" | "command_parsed Command.GetPhysicalAddress \<longleftrightarrow> True" |
  "command_parsed (Command.SetPhysicalAddress _) \<longleftrightarrow> True" | "command_parsed Command.GetLogicalAddress \<longleftrightarrow> True" |
  "command_parsed (Command.SetLogicalAddress _) \<longleftrightarrow> True" | "command_parsed Command.ClearLogicalAddress \<longleftrightarrow> True" |
  "command_parsed (Command.SetOsdName _) \<longleftrightarrow> True" | "command_parsed Command.SetActive \<longleftrightarrow> True" |
  "command_parsed Command.Standby \<longleftrightarrow> True" | "command_parsed (Command.VolumeUp _) \<longleftrightarrow> True" |
  "command_parsed (Command.VolumeDown _) \<longleftrightarrow> True" | "command_parsed (Command.Mute _) \<longleftrightarrow> True" |
  "command_parsed (Command.GetAudioStatus _) \<longleftrightarrow> True" | "command_parsed (Command.Monitor _ _) \<longleftrightarrow> True"

lemma named_keys_valid: "UiCommand_from_str s = Some key \<Longrightarrow> UiCommand_valid key"
proof -
  have "list_all (\<lambda>(c, names). UiCommand_valid c) UiCommand_names"
    by (simp add: UiCommand_names_def UiCommand_valid_def)
  moreover assume "UiCommand_from_str s = Some key"
  ultimately show ?thesis
    by (auto simp: UiCommand_from_str_Some list_all_iff)
qed

lemma send_key_safe:
  assumes "kernel_sized K" "UiCommand_valid key"
  shows "op_safe device_ok (send_key debug K key target) (\<lambda>_. True)"
  unfolding send_key_def by (intro safe mode_methods_safe sending_methods_safe assms) (simp add: assms)

lemma send_message_to_tv_safe:
  assumes "kernel_sized K" "Message_valid m"
  shows "op_safe device_ok (send_message_to_tv debug K m) (\<lambda>_. True)"
  unfolding send_message_to_tv_def by (intro safe assms)

lemma set_osd_name_command_safe:
  assumes "kernel_sized K"
  shows "op_safe device_ok (op_bind (op_return (buffer_from_str 14 name)) (\<lambda>buffer.
      send_message_to_tv debug K (Message.SetOsdName buffer))) (\<lambda>_. True)"
proof (rule op_safe_bind)
  show "op_safe device_ok (op_return (buffer_from_str 14 name)) (\<lambda>b. Message_valid (Message.SetOsdName b))"
    using buffer_from_str_14 [of name]
    by (intro op_safe_return) (simp_all add: buffer_from_str_def del: Message_valid.simps)
qed (rule send_message_to_tv_safe [OF assms])

lemma run_command_safe:
  assumes "kernel_sized K" "command_parsed command"
  shows "op_safe device_ok (run_command debug K command) (\<lambda>_. True)"
  using assms(2)
  by (cases command) (auto simp: run_command_def set_logical_address_def monitor_start_def UiCommand_valid_def
      intro!: assms(1) safe mode_methods_safe read_methods_safe op_attempt_safe get_logical_addresses_safe
      set_logical_addresses_safe clear_logical_addresses_safe set_osd_name_command_safe send_message_to_tv_safe
      tx_rx_message_safe send_key_safe dest: named_keys_valid)

text \<open>
  C39. The tool does not panic: on a kernel that fills its structures to their sizes and hands over
  frames of 1 to 16 bytes, every command ends with a result or an error, and the monitor goes on or
  ends with an error, however many frames it has seen.
\<close>

theorem cectool_never_panics:
  assumes "kernel_sized K" "receives_frames K" "command_parsed command" "device_ok s"
  shows "fst (cectool_main debug K turns command s) \<noteq> Some Panic"
proof -
  obtain r d k where r: "run_command debug K command s = (r, d, k)"
    by (cases "run_command debug K command s") auto
  have "r \<noteq> Panic"
    using op_safeD(1) [OF run_command_safe [OF assms(1,3)] assms(4) r] .
  moreover obtain ms e k' where "receive_all K turns k = (ms, e, k')"
    by (cases "receive_all K turns k")
  ultimately show ?thesis
    using r receive_all_run [OF assms(2)] by (cases r; cases command) (auto simp: cectool_main_def)
qed


text \<open>A kernel with one frame to receive in its mode 0xE0, the mode of the monitor.\<close>

definition tool_kernel :: "u32 kernel" where
  "tool_kernel = echo_kernel\<lparr>receive_message := \<lambda>m k.
     if k = 0xE0 then (None, m\<lparr>msg_len := 2, msg := 0xF # 0x36 # replicate 14 0\<rparr>, 0) else (Some ETIMEDOUT, m, k)\<rparr>"

lemma tool_kernel_sized: "kernel_sized tool_kernel"
  using echo_kernel_sized by (simp add: tool_kernel_def kernel_sized_def cec_msg_valid_def CEC_MAX_MSG_SIZE_def)

lemma tool_kernel_receives: "receives_frames tool_kernel"
  by (simp add: receives_frames_def tool_kernel_def frame_sized_def cec_msg_valid_def CEC_MAX_MSG_SIZE_def
      word_le_nat_alt)

theorem cectool_never_panics_witness:
  "fst (cectool_main (\<lambda>_. []) tool_kernel 3 (Command.Monitor True False) (sample_device, 0)) \<noteq> Some Panic \<and>
   fst (cectool_main (\<lambda>_. []) tool_kernel 3 (Command.SendUserControl UiCommand.Select LogicalAddress.Tv)
     (sample_device, 0)) \<noteq> Some Panic"
proof -
  have "device_ok (sample_device, 0 :: u32)"
    by (simp add: sample_device_def log_addrs_default_ok)
  moreover have "\<exists>s. UiCommand_from_str s = Some UiCommand.Select"
    by (auto simp: UiCommand_from_str_Some UiCommand_names_def)
  ultimately show ?thesis
    by (intro conjI cectool_never_panics tool_kernel_sized tool_kernel_receives) simp_all
qed



end
