(* ===== verification/DaemonMain.thy ===== *)
theory DaemonMain
  imports DaemonStart
begin

text \<open>
  The process of \<open>cecd\<close>: \<open>cecd/src/main.rs\<close>, with the parts of \<open>cecd/src/system.rs\<close> that only it calls
  and the loop of \<open>cecd/src/udev.rs\<close>.
  It connects to the buses, reads the configuration, registers devices, tells systemd that it is
  ready, and waits for an end; a task of its own reloads the configuration at each hangup.

  The buses, signals, the monitors of udev, the socket of systemd and the clock are parameters, each call with the text of
  its error. The parser of the arguments is the crate \<open>clap\<close>; logging has no effect.
\<close>

section \<open>Messages to systemd\<close>

record 'k process_environment =
  session_bus :: "'k \<Rightarrow> string option \<times> 'k"
  system_bus :: "'k \<Rightarrow> string option \<times> 'k"
  object_server_at :: "string \<Rightarrow> 'k \<Rightarrow> string option \<times> 'k"
  request_name :: "string \<Rightarrow> 'k \<Rightarrow> string option \<times> 'k"
  hangup_listener :: "'k \<Rightarrow> string option \<times> 'k"
  terminate_listener :: "'k \<Rightarrow> string option \<times> 'k"
  notify_variable :: "'k \<Rightarrow> string option \<times> 'k"
  unbound_socket :: "'k \<Rightarrow> string option \<times> 'k"
  connect_socket :: "string \<Rightarrow> 'k \<Rightarrow> string option \<times> 'k"
  send_socket :: "string \<Rightarrow> string \<Rightarrow> 'k \<Rightarrow> string option \<times> 'k"
  monotonic_clock :: "'k \<Rightarrow> (io_error + nat \<times> nat) \<times> 'k"
  udev_monitor :: "string \<Rightarrow> 'k \<Rightarrow> string option \<times> 'k"
  watch_monitor :: "string \<Rightarrow> 'k \<Rightarrow> string option \<times> 'k"

text \<open>The address of the socket, once it is connected.\<close>

record NotifySocket =
  socket :: "string option"

definition NotifySocket_default :: NotifySocket where
  "NotifySocket_default = \<lparr>socket = None\<rparr>"

type_synonym ('k, 'a) notify_action = "(NotifySocket \<times> 'k, 'a) action"

definition setup_socket :: "'k process_environment \<Rightarrow> ('k, unit) notify_action" where
  "setup_socket P =
     act_state (\<lambda>(n, k).
     if socket n \<noteq> None then act_skip
     else
       act_bind (on_world (call (notify_variable P))) (\<lambda>notify_socket.
       case notify_socket of
         None \<Rightarrow> act_skip
       | Some address \<Rightarrow>
           act_then (on_world (call_io (unbound_socket P)))
           (act_then (on_world (call_io (connect_socket P address)))
           (act_modify (\<lambda>(n, k). (n\<lparr>socket := Some address\<rparr>, k))))))"

definition notify :: "'k process_environment \<Rightarrow> string \<Rightarrow> ('k, unit) notify_action" where
  "notify P text =
     act_then (setup_socket P)
     (act_state (\<lambda>(n, k).
     case socket n of
       None \<Rightarrow> act_skip
     | Some address \<Rightarrow> on_world (call_io (send_socket P address text))))"

definition text_line :: "string \<Rightarrow> string" where
  "text_line text = text @ [CHR 0x0A]"

definition notify_ready :: "'k process_environment \<Rightarrow> ('k, unit) notify_action" where
  "notify_ready P = notify P (text_line ''READY=1'')"

text \<open>The time is a natural number, far from the bound of its 64 bits.\<close>

definition begin_reload :: "'k process_environment \<Rightarrow> ('k, unit) notify_action" where
  "begin_reload P =
     act_bind (on_world (io_call (monotonic_clock P))) (\<lambda>(sec, nsec).
     let timestamp = sec * 1000000 + nsec div 1000 in
     notify P (text_line ''RELOADING=1'' @ text_line (''MONOTONIC_USEC='' @ show_nat timestamp)))"

section \<open>The tasks beside the devices\<close>

text \<open>
  The reload of the configuration: what ends the waiting of each round. The listener is made anew in
  every round, so that a hangup that comes during a reload is not an event. The result tells whether
  the loop has been left.
\<close>

datatype ReloadEvent = Hangup | ReloadCancelled

definition on_notify :: "('k, 'a) notify_action \<Rightarrow> (NotifySocket \<times> System \<times> 'k, 'a) action" where
  "on_notify m = (\<lambda>(n, s, k). case m (n, k) of (r, n, k) \<Rightarrow> (r, n, s, k))"

primrec config_reload ::
  "'k process_environment \<Rightarrow> 'k environment \<Rightarrow> ('k, Config) action \<Rightarrow> ReloadEvent list \<Rightarrow>
   (NotifySocket \<times> System \<times> 'k, bool) action" where
  "config_reload P E read [] =
     act_then (on_world (on_world (call_io (hangup_listener P)))) (act_return (Done False))" |
  "config_reload P E read (ev # evs) =
     act_then (on_world (on_world (call_io (hangup_listener P))))
     (case ev of
        ReloadCancelled \<Rightarrow> act_return (Done True)
      | Hangup \<Rightarrow>
          act_then (act_logged (on_notify (begin_reload P)))
          (act_then (on_world (System_reconfig E read))
          (act_then (act_logged (on_notify (notify_ready P)))
          (config_reload P E read evs))))"

text \<open>\<open>SystemHandle::run\<close>: what the stream of the login manager yields. Nothing ends the loop.\<close>

datatype SleepEvent = StreamEnded | BadSleepArguments | PrepareForSleep bool

primrec SystemHandle_run :: "'k environment \<Rightarrow> SleepEvent list \<Rightarrow> ('k, unit) system_action" where
  "SystemHandle_run E [] = act_skip" |
  "SystemHandle_run E (ev # evs) =
     (case ev of
        PrepareForSleep sleep \<Rightarrow> act_then (prepare_for_sleep E sleep) (SystemHandle_run E evs)
      | _ \<Rightarrow> SystemHandle_run E evs)"

section \<open>The start\<close>

record Arguments =
  arg_device :: "string option"
  enable_hotplug :: bool
  arg_config :: "string option"

text \<open>The devices that are registered at the start: the tokens that end with them.\<close>

definition main_devices ::
  "Arguments \<Rightarrow> 'k files \<Rightarrow> (string \<Rightarrow> nat \<Rightarrow> ('k, 'd) action) \<Rightarrow> ('d \<Rightarrow> ('k, unit) action) \<Rightarrow>
   ('k, nat list) registry_action" where
  "main_devices args F open_dev register =
     (case arg_device args of
        Some path \<Rightarrow>
          act_bind (SystemHandle_find_dev open_dev register path) (\<lambda>token.
          act_return (Done [token]))
      | None \<Rightarrow>
          if enable_hotplug args then
            act_bind (act_attempt (SystemHandle_find_devs F open_dev register)) (\<lambda>tokens.
            act_return (Done (case tokens of Inl _ \<Rightarrow> [] | Inr tokens \<Rightarrow> tokens)))
          else SystemHandle_find_devs F open_dev register)"

record 'k Process =
  registry :: Registry
  proc_system :: System
  cached_config :: Config
  notify_socket :: NotifySocket
  proc_world :: 'k

type_synonym ('k, 'a) process_action = "('k Process, 'a) action"

definition in_proc_world :: "('k, 'a) action \<Rightarrow> ('k, 'a) process_action" where
  "in_proc_world m = (\<lambda>p. case m (proc_world p) of (r, k) \<Rightarrow> (r, p\<lparr>proc_world := k\<rparr>))"

definition in_registry :: "('k, 'a) registry_action \<Rightarrow> ('k, 'a) process_action" where
  "in_registry m = (\<lambda>p. case m (registry p, proc_world p) of (r, g, k) \<Rightarrow>
     (r, p\<lparr>registry := g, proc_world := k\<rparr>))"

definition in_proc_system :: "('k, 'a) system_action \<Rightarrow> ('k, 'a) process_action" where
  "in_proc_system m = (\<lambda>p. case m (proc_system p, proc_world p) of (r, s, k) \<Rightarrow>
     (r, p\<lparr>proc_system := s, proc_world := k\<rparr>))"

definition in_notify_socket :: "('k, 'a) notify_action \<Rightarrow> ('k, 'a) process_action" where
  "in_notify_socket m = (\<lambda>p. case m (notify_socket p, proc_world p) of (r, n, k) \<Rightarrow>
     (r, p\<lparr>notify_socket := n, proc_world := k\<rparr>))"

definition bus_root :: string where
  "bus_root = ''/com/steampowered/CecDaemon1''"

text \<open>\<open>ConfigTask::start\<close> and \<open>setup_dbus\<close>: an object for the configuration, and one for the daemon.\<close>

definition ConfigTask_start :: "'k process_environment \<Rightarrow> ('k, unit) process_action" where
  "ConfigTask_start P =
     act_then (act_modify (\<lambda>p. p\<lparr>cached_config := CecConfig_new (proc_system p)\<rparr>))
     (in_proc_world (call_io (object_server_at P (bus_root @ ''/Daemon''))))"

definition setup_dbus :: "'k process_environment \<Rightarrow> ('k, unit) process_action" where
  "setup_dbus P =
     act_then (in_proc_world (call_io (object_server_at P (bus_root @ ''/Daemon''))))
     (in_proc_world (call_io (object_server_at P bus_root)))"

text \<open>
  \<open>udev_hotplug\<close> of \<open>cecd/src/udev.rs\<close>: what ends the waiting of each round. A monitor that is
  readable yields the events that have come; waiting for it may fail. The result tells whether the
  loop has been left.
\<close>

datatype HotplugEvent =
  CecReadable "UdevEvent list" | DrmReadable "UdevEvent list" | ReadinessFailed string |
  MonitorError | HotplugCancelled

primrec hotplug_loop ::
  "(string \<Rightarrow> nat \<Rightarrow> ('k, 'd) action) \<Rightarrow> ('d \<Rightarrow> ('k, unit) action) \<Rightarrow> HotplugEvent list \<Rightarrow>
   ('k, bool) process_action" where
  "hotplug_loop open_dev register [] = act_return (Done False)" |
  "hotplug_loop open_dev register (ready # evs) =
     (case ready of
        HotplugCancelled \<Rightarrow> act_return (Done True)
      | CecReadable cec_iter \<Rightarrow>
          act_then (act_list (\<lambda>ev. in_registry (handle_cec_event open_dev register ev)) cec_iter)
          (hotplug_loop open_dev register evs)
      | DrmReadable drm_iter \<Rightarrow>
          act_then (act_list (\<lambda>ev. in_proc_system (handle_drm_event ev)) drm_iter)
          (hotplug_loop open_dev register evs)
      | ReadinessFailed e \<Rightarrow> act_return (Fail (Other e))
      | MonitorError \<Rightarrow> act_return (Done True))"

definition udev_hotplug ::
  "'k process_environment \<Rightarrow> (string \<Rightarrow> nat \<Rightarrow> ('k, 'd) action) \<Rightarrow> ('d \<Rightarrow> ('k, unit) action) \<Rightarrow>
   HotplugEvent list \<Rightarrow> ('k, bool) process_action" where
  "udev_hotplug P open_dev register evs =
     act_then (in_proc_world (call_io (udev_monitor P ''cec'')))
     (act_then (in_proc_world (call_io (udev_monitor P ''drm'')))
     (act_then (in_proc_world (call_io (watch_monitor P ''cec'')))
     (act_then (in_proc_world (call_io (watch_monitor P ''drm'')))
     (hotplug_loop open_dev register evs))))"

text \<open>What the process waits for: nothing, the events of udev, or the end of all its devices.\<close>

datatype Started = NoDevices | Hotplugging | Watching "nat list"

definition main_ready :: "'k process_environment \<Rightarrow> Started \<Rightarrow> ('k, Started) process_action" where
  "main_ready P started =
     act_then (in_proc_world (call_io (request_name P ''com.steampowered.CecDaemon1'')))
     (act_then (act_logged (in_notify_socket (notify_ready P)))
     (act_then (in_proc_world (call_io (terminate_listener P)))
     (act_return (Done started))))"

text \<open>\<open>read\<close> reads the configuration: that of the given file, or the default one.\<close>

definition main_setup ::
  "'k process_environment \<Rightarrow> 'k environment \<Rightarrow> (string option \<Rightarrow> ('k, Config) action) \<Rightarrow>
   (string \<Rightarrow> nat \<Rightarrow> ('k, 'd) action) \<Rightarrow> ('d \<Rightarrow> ('k, unit) action) \<Rightarrow> Arguments \<Rightarrow>
   ('k, Started) process_action" where
  "main_setup P E read open_dev register args =
     act_then (in_proc_system (System_reconfig E (read (arg_config args))))
     (act_then (ConfigTask_start P)
     (act_then (setup_dbus P)
     (act_bind (in_registry (main_devices args (files E) open_dev register)) (\<lambda>tokens.
     if enable_hotplug args then main_ready P Hotplugging
     else if tokens = [] then act_return (Done NoDevices)
     else main_ready P (Watching tokens)))))"

definition Process_new :: "System \<Rightarrow> 'k \<Rightarrow> 'k Process" where
  "Process_new s k =
     \<lparr>registry = \<lparr>devs = Map.empty, next_token = 0, cancelled = {}\<rparr>, proc_system = s,
      cached_config = Config_default, notify_socket = NotifySocket_default, proc_world = k\<rparr>"

text \<open>The process, or the world that is left when there is none.\<close>

definition main_start ::
  "'k process_environment \<Rightarrow> 'k environment \<Rightarrow> (string option \<Rightarrow> ('k, Config) action) \<Rightarrow>
   (string \<Rightarrow> nat \<Rightarrow> ('k, 'd) action) \<Rightarrow> ('d \<Rightarrow> ('k, unit) action) \<Rightarrow> Arguments \<Rightarrow> 'k \<Rightarrow>
   Started outcome \<times> ('k + 'k Process)" where
  "main_start P E read open_dev register args k =
     (case act_then (call_io (session_bus P)) (act_then (call_io (system_bus P)) (System_new E)) k of
        (Done s, k) \<Rightarrow>
          (case main_setup P E read open_dev register args (Process_new s k) of (r, p) \<Rightarrow> (r, Inr p))
      | (Fail e, k) \<Rightarrow> (Fail e, Inl k)
      | (Crash, k) \<Rightarrow> (Crash, Inl k))"

section \<open>The end\<close>

text \<open>What ends the waiting of \<open>main\<close>; the result of a task that panicked is an error.\<close>

datatype MainEvent =
  CtrlC "string option" | Terminated | LocalSetDone | ReloadEnded "unit outcome" | SystemEnded "unit outcome"

definition joined :: "unit outcome \<Rightarrow> unit outcome" where
  "joined r = (case r of Crash \<Rightarrow> Fail (Other ''task panicked'') | _ \<Rightarrow> r)"

definition main_result :: "MainEvent \<Rightarrow> unit outcome" where
  "main_result ev =
     (case ev of
        CtrlC e \<Rightarrow> io_outcome e
      | Terminated \<Rightarrow> Done ()
      | LocalSetDone \<Rightarrow> Done ()
      | ReloadEnded r \<Rightarrow> joined r
      | SystemEnded r \<Rightarrow> joined r)"

end
