(* ===== verification/MockDevice.thy ===== *)
theory MockDevice
  imports DaemonStart DeviceFacts
begin

text \<open>
  The device that the tests of the daemon run on. The module \<open>cecd/src/testing/mod.rs\<close> replaces
  \<open>AsyncDevice\<close> by a device without a kernel, which records what is sent. Here the device is the one
  of \<open>linux-cec/src/device.rs\<close>, as in the daemon, and \<open>mock_kernel\<close> is the kernel below it: a call of
  the kernel fails where the function of the module does, with the number that becomes its error.
  The functions that the module leaves undone, the blocking mode and a poll of its own, are not used.
\<close>

section \<open>The kernel\<close>

record mock =
  mock_caps :: u32
  mock_phys_addr :: u16
  mock_log_addrs :: cec_log_addrs
  force_unregistered :: bool
  mock_mode :: u32
  mock_events :: nat
  tx_queue :: "(MessageData \<times> LogicalAddress) list"
  rx_queue :: "(Message \<times> LogicalAddress \<times> LogicalAddress) list"
  mock_signals :: "Signal list"
  handler_outcome :: HandlerOutcome
  handled :: "(Handler \<times> u8 \<times> u8 \<times> u8 list) list"

definition mock_default :: mock where
  "mock_default =
     \<lparr>mock_caps = 0, mock_phys_addr = 0xFFFF, mock_log_addrs = cec_log_addrs_default,
      force_unregistered = False, mock_mode = 0, mock_events = 0, tx_queue = [], rx_queue = [],
      mock_signals = [], handler_outcome = HandlerReply True 0, handled = []\<rparr>"

definition CAP_TRANSMIT :: u32 where "CAP_TRANSMIT = 4"

text \<open>The address that a type gets, and \<open>set_logical_addresses\<close> with it.\<close>

primrec mock_claim :: "LogicalAddressType \<Rightarrow> LogicalAddress" where
  "mock_claim LogicalAddressType.Tv = LogicalAddress.Tv" |
  "mock_claim LogicalAddressType.Record = LogicalAddress.RecordingDevice1" |
  "mock_claim LogicalAddressType.Tuner = LogicalAddress.Tuner1" |
  "mock_claim LogicalAddressType.Playback = LogicalAddress.PlaybackDevice1" |
  "mock_claim LogicalAddressType.AudioSystem = LogicalAddress.AudioSystem" |
  "mock_claim LogicalAddressType.Specific = LogicalAddress.Specific" |
  "mock_claim LogicalAddressType.Unregistered = LogicalAddress_Unregistered"

definition mock_address :: "bool \<Rightarrow> u8 \<Rightarrow> u8" where
  "mock_address unregistered ty =
     (case LogicalAddressType_try_from ty of
        Ok t \<Rightarrow> LogicalAddress_into (if unregistered then LogicalAddress_Unregistered else mock_claim t)
      | _ \<Rightarrow> 0xFF)"

definition mock_set_log_addrs :: "cec_log_addrs \<Rightarrow> mock \<Rightarrow> Errno option \<times> cec_log_addrs \<times> mock" where
  "mock_set_log_addrs la k =
     (let la' = (if num_log_addrs la = 0 then la
          else la\<lparr>log_addr := map (mock_address (force_unregistered k)) (log_addr_type la)\<rparr>)
      in
      if \<not> contains (mock_caps k) CAP_LOG_ADDRS then (Some EINVAL, la, k)
      else if num_log_addrs la \<noteq> 0 \<and>
          (get_field 0 (mock_mode k) = 0 \<or> num_log_addrs (mock_log_addrs k) \<noteq> 0 \<or> mock_phys_addr k = 0xFFFF)
      then (Some EINVAL, la, k)
      else (None, la', k\<lparr>mock_log_addrs := la', mock_events := mock_events k + 1\<rparr>))"

text \<open>\<open>tx_message\<close>: the message of the frame, with its destination, enters the queue.\<close>

definition may_transmit :: "mock \<Rightarrow> Errno option" where
  "may_transmit k =
     (if num_log_addrs (mock_log_addrs k) = 0 then Some ENONET
      else if log_addr (mock_log_addrs k) ! 0 = LogicalAddress_into LogicalAddress_Unregistered
      then Some EINVAL
      else if get_field 0 (mock_mode k) = 0 then Some EINVAL
      else None)"

definition mock_transmit :: "cec_msg \<Rightarrow> mock \<Rightarrow> Errno option \<times> cec_msg \<times> mock" where
  "mock_transmit m k =
     (case may_transmit k of
        Some e \<Rightarrow> (Some e, m, k)
      | None \<Rightarrow>
          (None, m\<lparr>tx_status := CEC_TX_STATUS_OK, rx_status := 0\<rparr>,
           case Envelope_try_from (m\<lparr>rx_status := CEC_RX_STATUS_OK\<rparr>) of
             Ok env \<Rightarrow> k\<lparr>tx_queue := tx_queue k @ [(message env, env_destination env)]\<rparr>
           | _ \<Rightarrow> k))"

text \<open>\<open>handle_status\<close> on a received message: the next one of the queue.\<close>

definition mock_receive :: "cec_msg \<Rightarrow> mock \<Rightarrow> Errno option \<times> cec_msg \<times> mock" where
  "mock_receive m k =
     (case rx_queue k of
        [] \<Rightarrow> (Some ETIMEDOUT, m, k)
      | (received, from, to) # rest \<Rightarrow>
          (case frame from to received Opcode.FeatureAbort Timeout_NONE of
             Ok f \<Rightarrow> (None, f\<lparr>rx_status := CEC_RX_STATUS_OK\<rparr>, k\<lparr>rx_queue := rest\<rparr>)
           | _ \<Rightarrow> (Some EINVAL, m, k)))"

definition mock_kernel :: "mock kernel" where
  "mock_kernel =
     \<lparr>adapter_get_capabilities = \<lambda>x k. (None, x\<lparr>capabilities := mock_caps k\<rparr>, k),
      adapter_get_physical_address = \<lambda>x k. (None, mock_phys_addr k, k),
      adapter_set_physical_address = \<lambda>x k.
        if \<not> contains (mock_caps k) CAP_PHYS_ADDR then (Some EINVAL, k)
        else (None, k\<lparr>mock_phys_addr := x\<rparr>),
      adapter_get_logical_addresses = \<lambda>la k. (None, mock_log_addrs k, k),
      adapter_set_logical_addresses = mock_set_log_addrs,
      transmit_message = mock_transmit,
      receive_message = mock_receive,
      dequeue_event = \<lambda>e k. (None, e\<lparr>event := CEC_EVENT_STATE_CHANGE\<rparr>, k),
      get_mode = \<lambda>w k. (None, mock_mode k, k),
      set_mode = \<lambda>w k.
        if get_field 0 w \<noteq> 0 \<and> \<not> contains (mock_caps k) CAP_TRANSMIT then (Some EINVAL, k)
        else (None, k\<lparr>mock_mode := w\<rparr>),
      adapter_get_connector_info = \<lambda>x k. (None, cec_connector_info_default, k),
      open_file = \<lambda>path k. (None, k), clone_fd = \<lambda>k. (Inr 0, k), close_fd = \<lambda>n k. k,
      fcntl_getfl = \<lambda>k. (None, 0, k), fcntl_setfl = \<lambda>flags k. (None, k),
      poll_file = \<lambda>n events tmo k. (None, 0, None, k)\<rparr>"

lemma mock_get_poller [simp]: "get_poller mock_kernel (d, k) = (Ok \<lparr>fd = 0\<rparr>, d, k)"
  by (simp add: get_poller_def op_kernel_def mock_kernel_def)

section \<open>The environment\<close>

definition test_host :: "u8 list" where
  "test_host = map (\<lambda>c. of_char c) ''host''"

definition mock_environment :: "mock environment" where
  "mock_environment =
     \<lparr>cec = mock_kernel,
      files = \<lparr>read_file = \<lambda>_ k. (Inl NotFound, k), read_text = \<lambda>_ k. (Inl NotFound, k),
        list_dir = \<lambda>_ k. (Inl NotFound, k), is_dir = \<lambda>_ k. (Inr False, k)\<rparr>,
      debug_status = \<lambda>_. [],
      emit_signal = \<lambda>s k. (None, k\<lparr>mock_signals := mock_signals k @ [s]\<rparr>),
      open_uinput = \<lambda>k. (None, k), create_uinput = \<lambda>_ k. (None, k), write_key = \<lambda>_ k. (None, k),
      login_suspend = \<lambda>k. (None, k), login_inhibit = \<lambda>k. (True, k),
      gethostname = \<lambda>k. (Some test_host, k),
      call_handler = \<lambda>h from to _ bytes k.
        (handler_outcome k, k\<lparr>handled := handled k @ [(h, from, to, bytes)]\<rparr>)\<rparr>"

lemma mock_environment_simps [simp]:
  "cec mock_environment = mock_kernel" "debug_status mock_environment = (\<lambda>_. [])"
  "emit_signal mock_environment s k = (None, k\<lparr>mock_signals := mock_signals k @ [s]\<rparr>)"
  "open_uinput mock_environment k = (None, k)" "create_uinput mock_environment u k = (None, k)"
  "write_key mock_environment e k = (None, k)" "login_suspend mock_environment k = (None, k)"
  "login_inhibit mock_environment k = (True, k)" "gethostname mock_environment k = (Some test_host, k)"
  "call_handler mock_environment h from to ts bytes k =
     (handler_outcome k, k\<lparr>handled := handled k @ [(h, from, to, bytes)]\<rparr>)"
  by (simp_all add: mock_environment_def)

section \<open>Methods of the device on this kernel\<close>

lemma mock_tx_rx_message:
  assumes "Message_valid m" "Message_len m \<le> 14" "may_transmit k = None"
  shows "tx_rx_message debug mock_kernel m dest rep tmo (d, k) =
     (Ok \<lparr>message = Valid m, env_initiator = tx_logical_address d, env_destination = dest,
          timestamp = 0, env_sequence = 0\<rparr>, d, k\<lparr>tx_queue := tx_queue k @ [(Valid m, dest)]\<rparr>)"
proof -
  have "Message_len m \<le> 15" using assms(2) by simp
  then obtain f where f: "frame (tx_logical_address d) dest m rep tmo = Ok f" "rx_ts f = 0" "sequence f = 0"
    using frame_valid [OF assms(1)] by metis
  note clean = received_clean_def contains_def rx_status_consts
  have "Envelope_try_from (f\<lparr>rx_status := CEC_RX_STATUS_OK\<rparr>) = Ok \<lparr>message = Valid m,
      env_initiator = tx_logical_address d, env_destination = dest, timestamp = 0, env_sequence = 0\<rparr>"
    by (subst frame_round_trip [OF assms(1,2) f(1)]) (simp_all add: clean f)
  then have t: "transmit_message mock_kernel f k = (None, f\<lparr>tx_status := CEC_TX_STATUS_OK, rx_status := 0\<rparr>,
      k\<lparr>tx_queue := tx_queue k @ [(Valid m, dest)]\<rparr>)"
    by (simp add: mock_kernel_def mock_transmit_def assms(3))
  have "Envelope_try_from (f\<lparr>tx_status := CEC_TX_STATUS_OK, rx_status := 0\<rparr>) =
      Ok \<lparr>message = Valid m, env_initiator = tx_logical_address d, env_destination = dest,
          timestamp = 0, env_sequence = 0\<rparr>"
    by (subst frame_round_trip [OF assms(1,2) f(1)]) (simp_all add: clean f)
  then show ?thesis
    using tx_rx_message_frame [OF f(1) t] by (simp add: contains_def CEC_TX_STATUS_OK_def)
qed

lemma mock_tx_message:
  assumes "Message_valid m" "Message_len m \<le> 14" "may_transmit k = None"
  shows "tx_message debug mock_kernel m dest (d, k) =
     (Ok 0, d, k\<lparr>tx_queue := tx_queue k @ [(Valid m, dest)]\<rparr>)"
  by (simp add: tx_message_def mock_tx_rx_message [OF assms])

lemma mock_tx_message_error:
  assumes "Message_valid m" "may_transmit k = Some e"
  shows "tx_message debug mock_kernel m dest (d, k) = (Err (from_errno e), d, k)"
proof -
  obtain f where "frame (tx_logical_address d) dest m Opcode.FeatureAbort Timeout_NONE = Ok f"
    using frame_Ok [OF assms(1)] .
  then show ?thesis
    using assms(2) by (simp add: tx_message_def tx_rx_message_def tx_raw_message_def op_bind_def
        op_device_def op_return_def syscall_def mock_kernel_def mock_transmit_def)
qed

lemma mock_rx_message:
  assumes "Message_valid m" "Message_len m \<le> 14" "rx_queue k = (m, from, to) # rest"
  shows "rx_message mock_kernel tmo (d, k) =
     (Ok \<lparr>message = Valid m, env_initiator = from, env_destination = to, timestamp = 0,
          env_sequence = 0\<rparr>, d, k\<lparr>rx_queue := rest\<rparr>)"
proof -
  have "Message_len m \<le> 15" using assms(2) by simp
  then obtain f where f: "frame from to m Opcode.FeatureAbort Timeout_NONE = Ok f"
      "rx_ts f = 0" "sequence f = 0"
    using frame_valid [OF assms(1)] by metis
  have "Envelope_try_from (f\<lparr>rx_status := CEC_RX_STATUS_OK\<rparr>) = Ok \<lparr>message = Valid m,
      env_initiator = from, env_destination = to, timestamp = 0, env_sequence = 0\<rparr>"
    by (subst frame_round_trip [OF assms(1,2) f(1)])
      (simp_all add: received_clean_def contains_def rx_status_consts f)
  then show ?thesis
    by (simp add: rx_message_def rx_raw_message_def op_bind_def op_return_def syscall_def
        mock_kernel_def mock_receive_def assms(3) f)
qed

lemma mock_reads [simp]:
  "get_driver_name mock_kernel (d, k) = (Ok (driver cec_caps_default), d, k)"
  "get_adapter_name mock_kernel (d, k) = (Ok (adapter_name cec_caps_default), d, k)"
  "get_capabilities mock_kernel (d, k) = (Ok (mock_caps k), d, k)"
  "get_physical_address mock_kernel (d, k) =
     (Ok (PhysicalAddress.PhysicalAddress (mock_phys_addr k)), d, k)"
  by (simp_all add: get_driver_name_def get_adapter_name_def get_capabilities_def get_raw_capabilities_def
      get_physical_address_def syscall_def mock_kernel_def op_bind_def cec_caps_default_def)

text \<open>Reading the addresses copies them into the device.\<close>

lemma mock_get_logical_addresses:
  "get_logical_addresses mock_kernel (d, k) =
     (collect_log_addrs (log_addr (mock_log_addrs k)) [0..<unat (num_log_addrs (mock_log_addrs k))],
      d\<lparr>internal_log_addrs := mock_log_addrs k\<rparr>, k)"
  "get_vendor_id mock_kernel (d, k) =
     (VendorId_try_from_sys (vendor_id (mock_log_addrs k)), d\<lparr>internal_log_addrs := mock_log_addrs k\<rparr>, k)"
  by (simp_all add: get_logical_addresses_def get_vendor_id_def op_bind_def syscall_log_addrs_def
      mock_kernel_def op_device_def op_return_def)

lemma mock_handle_event:
  "handle_status mock_kernel GotEvent (d, k) =
     (Ok [StateChange],
      \<lparr>tx_logical_address =
         (if num_log_addrs (mock_log_addrs k) > 0 then claimed_address (mock_log_addrs k)
          else LogicalAddress_Unregistered),
       internal_log_addrs = mock_log_addrs k\<rparr>, k)"
  by (simp add: handle_status_def got_event_def got_message_def Device_dequeue_event_def handle_event_def
      refresh_state_def op_bind_def op_return_def op_modify_def syscall_def syscall_log_addrs_def
      mock_kernel_def event_consts cec_event_default_def Let_def)

lemma mock_handle_message:
  assumes "Message_valid m" "Message_len m \<le> 14" "rx_queue k = (m, from, to) # rest"
  shows "handle_status mock_kernel GotMessage (d, k) =
     (Ok [PollResult.Message \<lparr>message = Valid m, env_initiator = from, env_destination = to,
        timestamp = 0, env_sequence = 0\<rparr>], d, k\<lparr>rx_queue := rest\<rparr>)"
  by (simp add: handle_status_def got_event_def got_message_def mock_rx_message [OF assms])

end
