(* ===== verification/ProcessProperties.thy ===== *)
theory ProcessProperties
  imports DaemonMain DaemonProperties MockDevice
begin

text \<open>
  Properties of the process: which devices it registers and waits for, how its registry follows the
  events of udev, and what systemd is told when the configuration is reloaded.
\<close>

section \<open>The devices of the process\<close>

lemma find_dev_registers:
  assumes "SystemHandle_find_dev open_dev register path (r, k) = (Done token, r', k')"
  shows "devs r' = (devs r)(path \<mapsto> token)"
  using assms
  by (auto simp: SystemHandle_find_dev_def System_find_dev_def child_token_def add_dev_def on_world_def
      act_bind_def split: if_splits prod.splits outcome.splits)

lemma registers_keep:
  "fst (snd (act_list (\<lambda>(path, token, dev). on_world (register dev)) found (r, k))) = r"
proof (induction found arbitrary: k)
  case (Cons x found)
  obtain path token dev where x: "x = (path, token, dev)" by (cases x)
  obtain q k1 where q: "register dev k = (q, k1)" by (cases "register dev k")
  show ?case
    using Cons [of k1] by (cases q; simp add: x on_world_def act_bind_def q)
qed simp

lemma find_devs_registers:
  assumes "SystemHandle_find_devs F open_dev register (r, k) = (Done tokens, r', k')"
  shows "\<exists>found. tokens = map snd found \<and> devs r' = devs r ++ map_of (rev found)"
proof -
  obtain q r1 k1 where q: "System_find_devs F open_dev (r, k) = (q, r1, k1)" by (metis prod.collapse)
  with assms obtain found where found: "q = Done found"
    by (cases q) (simp_all add: SystemHandle_find_devs_def)
  obtain q2 r2 k2 where q2: "act_list (\<lambda>(path, token, dev). on_world (register dev)) found (r1, k1) = (q2, r2, k2)"
    by (metis prod.collapse)
  with registers_keep [of register found r1 k1] have r2: "r2 = r1" by simp
  have t: "tokens = map (\<lambda>(path, token, dev). token) found" and "r' = r1"
    using assms by (cases q2; simp add: SystemHandle_find_devs_def q found q2 r2)+
  moreover obtain l k2 where l: "list_dir F ''/dev'' k = (Inr l, k2)"
    using q found by (cases "list_dir F ''/dev'' k"; cases "fst (list_dir F ''/dev'' k)")
      (auto simp: System_find_devs_def io_call_def on_world_def act_bind_def)
  moreover obtain q3 r3 k3 where q3: "scan_devs open_dev l (r, k2) = (q3, r3, k3)" by (metis prod.collapse)
  moreover have "devs r3 = devs r"
    using scan_devs_keeps [where open_dev = open_dev and entries = l and r = r and k = k2] q3 by simp
  ultimately have "devs r' = devs r ++ map_of (rev (map (\<lambda>(path, token, dev). (path, token)) found))"
    using q found
    by (cases q3) (auto simp: System_find_devs_def io_call_def on_world_def act_bind_def add_devs_run)
  with t show ?thesis
    by (intro exI [of _ "map (\<lambda>(path, token, dev). (path, token)) found"])
      (simp add: case_prod_unfold comp_def)
qed

lemma ran_found: "ran (map_of (rev found)) \<subseteq> set (map snd found)"
proof
  fix token assume "token \<in> ran (map_of (rev found))"
  then obtain path where "(path, token) \<in> set (rev found)"
    by (auto simp: ran_def dest: map_of_SomeD)
  then show "token \<in> set (map snd found)" by force
qed

lemma ran_none: "ran m \<subseteq> {} \<Longrightarrow> m = Map.empty"
  by (rule ext, rule ccontr) (auto simp: ran_def)

text \<open>The rest of the start leaves the registry alone.\<close>

lemma keeps_registry [simp]:
  "registry (snd (in_proc_world m p)) = registry p" "registry (snd (in_proc_system m' p)) = registry p"
  "registry (snd (in_notify_socket m'' p)) = registry p"
  by (simp_all add: in_proc_world_def in_proc_system_def in_notify_socket_def split: prod.split)

lemma registry_bind:
  assumes "\<And>p. registry (snd (m p)) = registry p" "\<And>x p. registry (snd (f x p)) = registry p"
  shows "registry (snd (act_bind m f p)) = registry p"
  using assms(1) [of p] assms(2) by (cases "m p"; cases "fst (m p)"; auto simp: act_bind_def)

lemma registry_logged:
  assumes "\<And>p. registry (snd (m p)) = registry p"
  shows "registry (snd (act_logged m p)) = registry p"
proof -
  obtain q t where q: "m p = (q, t)" by (cases "m p")
  with assms [of p] have "registry t = registry p" by simp
  with q show ?thesis by (cases q) (simp_all add: act_logged_def act_attempt_def act_bind_def)
qed

lemma main_parts_keep_registry:
  "registry (snd (ConfigTask_start P p)) = registry p" "registry (snd (setup_dbus P p)) = registry p"
  "registry (snd (main_ready P st p)) = registry p"
  unfolding ConfigTask_start_def setup_dbus_def main_ready_def
  by (intro registry_bind registry_logged; simp)+

lemma main_devices_registers:
  assumes "main_devices args F open_dev register (r, k) = (Done tokens, r', k')" "devs r = Map.empty"
  shows "arg_device args = Some path \<Longrightarrow> \<exists>token. tokens = [token] \<and> devs r' = [path \<mapsto> token]"
    and "\<not> enable_hotplug args \<Longrightarrow> ran (devs r') \<subseteq> set tokens"
proof -
  show device: "\<exists>token. tokens = [token] \<and> devs r' = [path \<mapsto> token]" if "arg_device args = Some path" for path
    using assms that
    by (auto simp: main_devices_def act_bind_eq_Done act_return_def dest: find_dev_registers)
  show "ran (devs r') \<subseteq> set tokens" if "\<not> enable_hotplug args"
  proof (cases "arg_device args")
    case (Some path)
    then show ?thesis using device by fastforce
  next
    case None
    then have "SystemHandle_find_devs F open_dev register (r, k) = (Done tokens, r', k')"
      using assms(1) that by (simp add: main_devices_def)
    then obtain found where "tokens = map snd found" "devs r' = map_of (rev found)"
      using find_devs_registers [of F open_dev register r k tokens r' k'] assms(2) by auto
    then show ?thesis using ran_found [of found] by simp
  qed
qed

lemma setup_registers:
  assumes "main_setup P E read open_dev register args (Process_new s k) = (Done started, p)"
  shows "(\<forall>path. arg_device args = Some path \<longrightarrow> (\<exists>token. devs (registry p) = [path \<mapsto> token] \<and>
       started = (if enable_hotplug args then Hotplugging else Watching [token]))) \<and>
     (\<forall>tokens. started = Watching tokens \<longrightarrow> tokens \<noteq> [] \<and> ran (devs (registry p)) \<subseteq> set tokens) \<and>
     (started = NoDevices \<longrightarrow> devs (registry p) = Map.empty)"
proof -
  let ?devices = "act_bind (in_registry (main_devices args (files E) open_dev register)) (\<lambda>tokens.
      if enable_hotplug args then main_ready P Hotplugging
      else if tokens = [] then act_return (Done NoDevices)
      else main_ready P (Watching tokens))"
  obtain a1 a2 p1 where a: "in_proc_system (System_reconfig E (read (arg_config args))) (Process_new s k) = (Done (), a1)"
      "ConfigTask_start P a1 = (Done (), a2)" "setup_dbus P a2 = (Done (), p1)" "?devices p1 = (Done started, p)"
    using assms unfolding main_setup_def by (auto simp: act_bind_eq_Done [of "in_proc_system m" for m]
      act_bind_eq_Done [of "ConfigTask_start P"] act_bind_eq_Done [of "setup_dbus P"])
  have "registry p1 = registry (Process_new s k)"
    using keeps_registry(2) [of "System_reconfig E (read (arg_config args))" "Process_new s k"]
      main_parts_keep_registry(1) [of P a1] main_parts_keep_registry(2) [of P a2] a by simp
  then have p1: "?devices p1 = (Done started, p)" "devs (registry p1) = Map.empty"
    using a(4) by (simp_all add: Process_new_def)
  obtain tokens p2 where p2: "in_registry (main_devices args (files E) open_dev register) p1 = (Done tokens, p2)"
    "(if enable_hotplug args then main_ready P Hotplugging
      else if tokens = [] then act_return (Done NoDevices)
      else main_ready P (Watching tokens)) p2 = (Done started, p)"
    using p1(1) unfolding act_bind_eq_Done by blast
  obtain r' k' where r': "main_devices args (files E) open_dev register (registry p1, proc_world p1) =
      (Done tokens, r', k')" "registry p2 = r'"
    using p2(1) by (auto simp: in_registry_def split: prod.splits)
  note d = main_devices_registers [OF r'(1) p1(2)]
  have ready: "st = started" "registry p = registry p2" if "main_ready P st p2 = (Done started, p)" for st
    using that main_parts_keep_registry(3) [of P st p2]
    by (auto simp: main_ready_def act_bind_eq_Done act_return_def)
  consider (hotplug) "enable_hotplug args" "main_ready P Hotplugging p2 = (Done started, p)"
    | (none) "\<not> enable_hotplug args" "tokens = []" "started = NoDevices" "p = p2"
    | (watch) "\<not> enable_hotplug args" "tokens \<noteq> []" "main_ready P (Watching tokens) p2 = (Done started, p)"
    using p2(2) by (auto split: if_splits)
  then show ?thesis
  proof cases
    case hotplug
    then show ?thesis using ready [OF hotplug(2)] d(1) r'(2) by auto
  next
    case none
    then have "devs r' = Map.empty" using d(2) ran_none by simp
    with none show ?thesis using d(1) r'(2) by (cases "arg_device args") auto
  next
    case watch
    then show ?thesis using ready [OF watch(3)] d r'(2) by fastforce
  qed
qed

definition sample_process :: "mock process_environment" where
  "sample_process =
     \<lparr>session_bus = \<lambda>k. (None, k), system_bus = \<lambda>k. (None, k), object_server_at = \<lambda>_ k. (None, k),
      request_name = \<lambda>_ k. (None, k), hangup_listener = \<lambda>k. (None, k), terminate_listener = \<lambda>k. (None, k),
      notify_variable = \<lambda>k. (Some ''/run/systemd/notify'', k), unbound_socket = \<lambda>k. (None, k),
      connect_socket = \<lambda>_ k. (None, k),
      send_socket = \<lambda>_ text k. (None, k\<lparr>handled := handled k @
        [(\<lparr>handler_bus_name = [], handler_object = text\<rparr>, 0, 0, [])]\<rparr>),
      monotonic_clock = \<lambda>k. (Inr (7, 500), k),
      udev_monitor = \<lambda>_ k. (None, k), watch_monitor = \<lambda>_ k. (None, k)\<rparr>"

lemma sample_process_simps [simp]:
  "hangup_listener sample_process k = (None, k)" "terminate_listener sample_process k = (None, k)"
  "object_server_at sample_process path k = (None, k)" "request_name sample_process name k = (None, k)"
  "notify_variable sample_process k = (Some ''/run/systemd/notify'', k)"
  "unbound_socket sample_process k = (None, k)" "connect_socket sample_process a k = (None, k)"
  "monotonic_clock sample_process k = (Inr (7, 500), k)"
  by (simp_all add: sample_process_def)

text \<open>
  C36. The process waits for the devices it has registered: with a device argument it registers exactly
  this device, also when hotplugging is enabled, whose description says that the argument is ignored;
  without hotplugging it waits for every registered device, and it stops at once only if there is none.
\<close>

theorem process_waits_for_devices:
  assumes "main_start P E read open_dev register args k = (Done started, Inr p)"
  shows "(\<forall>path. arg_device args = Some path \<longrightarrow> (\<exists>token. devs (registry p) = [path \<mapsto> token] \<and>
       started = (if enable_hotplug args then Hotplugging else Watching [token]))) \<and>
     (\<forall>tokens. started = Watching tokens \<longrightarrow> tokens \<noteq> [] \<and> ran (devs (registry p)) \<subseteq> set tokens) \<and>
     (started = NoDevices \<longrightarrow> devs (registry p) = Map.empty)"
proof -
  obtain s k' where "main_setup P E read open_dev register args (Process_new s k') = (Done started, p)"
    using assms by (auto simp: main_start_def split: prod.splits outcome.splits)
  then show ?thesis by (rule setup_registers)
qed

theorem process_waits_for_devices_witness:
  "\<exists>started p. main_start sample_process mock_environment (\<lambda>_ k. (Done Config_default, k))
       (\<lambda>path token k. (Done path, k)) (\<lambda>_ k. (Done (), k))
       \<lparr>arg_device = Some ''/dev/cec1'', enable_hotplug = True, arg_config = None\<rparr> mock_default = (Done started, Inr p) \<and>
     started = Hotplugging \<and> dom (devs (registry p)) = {''/dev/cec1''}"
proof -
  have "\<exists>started p. main_start sample_process mock_environment (\<lambda>_ k. (Done Config_default, k))
       (\<lambda>path token k. (Done path, k)) (\<lambda>_ k. (Done (), k))
       \<lparr>arg_device = Some ''/dev/cec1'', enable_hotplug = True, arg_config = None\<rparr> mock_default = (Done started, Inr p)"
    by (simp add: main_start_def System_new_def main_setup_def main_devices_def main_ready_def ConfigTask_start_def setup_dbus_def
        in_proc_system_def in_proc_world_def in_registry_def in_notify_socket_def System_reconfig_def
        set_config_def on_system_def on_world_def send_message_def call_def call_io_def io_outcome_def
        SystemHandle_find_dev_def System_find_dev_def child_token_def add_dev_def Process_new_def
        act_bind_def act_logged_def act_attempt_def notify_ready_def notify_def setup_socket_def
        NotifySocket_default_def Config_default_def sample_process_def act_return_def act_modify_def act_state_def)
  then obtain started p where p: "main_start sample_process mock_environment (\<lambda>_ k. (Done Config_default, k))
       (\<lambda>path token k. (Done path, k)) (\<lambda>_ k. (Done (), k))
       \<lparr>arg_device = Some ''/dev/cec1'', enable_hotplug = True, arg_config = None\<rparr> mock_default = (Done started, Inr p)"
    by blast
  from process_waits_for_devices [OF p] obtain token
    where "started = Hotplugging" "devs (registry p) = [''/dev/cec1'' \<mapsto> token]"
    by (simp only: Arguments.simps option.inject if_True) blast
  with p show ?thesis by (metis dom_fun_upd dom_empty option.distinct(1))
qed

section \<open>Hotplugging\<close>




















section \<open>Reloads\<close>











end
