(* ===== verification/CodecTests.thy ===== *)
theory CodecTests
  imports Messages
begin

text \<open>
  The tests that the repository holds for the codec, as data that the model is run on: the macros
  \<open>message_test\<close> and \<open>opcode_test\<close> of \<open>linux-cec-macros/src/lib.rs\<close> and the assertions of the test
  modules. The theories \<open>MessageTests\<close> and \<open>OperandTests\<close> hold the tests themselves and show that
  the model passes them, so that it behaves as its authors say the code does.
\<close>

section \<open>Values of the tests\<close>

text \<open>\<open>unwrap\<close>, on a result that is known.\<close>

primrec the_Ok :: "'a result \<Rightarrow> 'a" where
  "the_Ok (Ok x) = x"

text \<open>The \<open>with_\<close> functions of a bit field, which write the bits from position \<open>i\<close> below \<open>i + n\<close>.\<close>

definition write_bits :: "nat \<Rightarrow> nat \<Rightarrow> u8 \<Rightarrow> u8 \<Rightarrow> u8" where
  "write_bits i n v x = (x AND NOT (push_bit i (mask n))) OR push_bit i (v AND mask n)"

definition AudioFormatIdAndCode_with_code :: "nat \<Rightarrow> AudioFormatIdAndCode \<Rightarrow> AudioFormatIdAndCode" where
  "AudioFormatIdAndCode_with_code code x =
     AudioFormatIdAndCode (write_bits 0 6 (word_of_nat code) (AudioFormatIdAndCode_into x))"

definition AudioFormatIdAndCode_with_id :: "AudioFormatId \<Rightarrow> AudioFormatIdAndCode \<Rightarrow> AudioFormatIdAndCode" where
  "AudioFormatIdAndCode_with_id i x =
     AudioFormatIdAndCode (write_bits 6 2 (AudioFormatId_into_bits i) (AudioFormatIdAndCode_into x))"

definition AudioStatus_with_volume :: "nat \<Rightarrow> AudioStatus \<Rightarrow> AudioStatus" where
  "AudioStatus_with_volume volume x = AudioStatus (write_bits 0 7 (word_of_nat volume) (AudioStatus_into x))"

definition AudioStatus_with_mute :: "bool \<Rightarrow> AudioStatus \<Rightarrow> AudioStatus" where
  "AudioStatus_with_mute mute x = AudioStatus (write_bits 7 1 (if mute then 1 else 0) (AudioStatus_into x))"

definition LatencyFlags_with_audio_out_compensated ::
  "AudioOutputCompensated \<Rightarrow> LatencyFlags \<Rightarrow> LatencyFlags" where
  "LatencyFlags_with_audio_out_compensated a x =
     LatencyFlags (write_bits 0 2 (AudioOutputCompensated_into_bits a) (LatencyFlags_into x))"

definition LatencyFlags_with_low_latency_mode :: "bool \<Rightarrow> LatencyFlags \<Rightarrow> LatencyFlags" where
  "LatencyFlags_with_low_latency_mode low x =
     LatencyFlags (write_bits 2 1 (if low then 1 else 0) (LatencyFlags_into x))"

definition HecState_with_cdc_error :: "CdcErrorCode \<Rightarrow> HecState \<Rightarrow> HecState" where
  "HecState_with_cdc_error e x = HecState (write_bits 0 2 (CdcErrorCode_into_bits e) (HecState_into x))"

definition HecState_with_enc_functionality :: "FunctionalityState \<Rightarrow> HecState \<Rightarrow> HecState" where
  "HecState_with_enc_functionality f x =
     HecState (write_bits 2 2 (FunctionalityState_into_bits f) (HecState_into x))"

definition HecState_with_host_functionality :: "FunctionalityState \<Rightarrow> HecState \<Rightarrow> HecState" where
  "HecState_with_host_functionality f x =
     HecState (write_bits 4 2 (FunctionalityState_into_bits f) (HecState_into x))"

definition HecState_with_hec_functionality :: "HecFunctionalityState \<Rightarrow> HecState \<Rightarrow> HecState" where
  "HecState_with_hec_functionality f x =
     HecState (write_bits 6 2 (HecFunctionalityState_into_bits f) (HecState_into x))"

definition InputPortHpdState_with_state :: "HpdState \<Rightarrow> InputPortHpdState \<Rightarrow> InputPortHpdState" where
  "InputPortHpdState_with_state s x =
     InputPortHpdState (write_bits 0 4 (HpdState_into_bits s) (InputPortHpdState_into x))"

definition InputPortHpdState_with_input_port :: "nat \<Rightarrow> InputPortHpdState \<Rightarrow> InputPortHpdState" where
  "InputPortHpdState_with_input_port n x =
     InputPortHpdState (write_bits 4 4 (word_of_nat n) (InputPortHpdState_into x))"

definition HpdStateErrorCode_with_error_code :: "HpdErrorCode \<Rightarrow> HpdStateErrorCode \<Rightarrow> HpdStateErrorCode" where
  "HpdStateErrorCode_with_error_code e x =
     HpdStateErrorCode (write_bits 0 4 (HpdErrorCode_into_bits e) (HpdStateErrorCode_into x))"

definition HpdStateErrorCode_with_state :: "HpdState \<Rightarrow> HpdStateErrorCode \<Rightarrow> HpdStateErrorCode" where
  "HpdStateErrorCode_with_state s x =
     HpdStateErrorCode (write_bits 4 4 (HpdState_into_bits s) (HpdStateErrorCode_into x))"

text \<open>\<open>all()\<close> of a set of flags: every flag that has a name.\<close>

definition DeviceFeatures1_all :: DeviceFeatures1 where
  "DeviceFeatures1_all = DeviceFeatures1 (0x40 OR 0x20 OR 0x10 OR 8 OR 4 OR 2 OR 1)"

definition RcProfileSource_all :: RcProfileSource where
  "RcProfileSource_all = RcProfileSource (0x50 OR 0x48 OR 0x44 OR 0x42 OR 0x41)"

lemmas test_values = write_bits_def mask_eq_exp_minus_1
  AudioFormatIdAndCode_with_code_def AudioFormatIdAndCode_with_id_def AudioStatus_with_volume_def
  AudioStatus_with_mute_def LatencyFlags_with_audio_out_compensated_def
  LatencyFlags_with_low_latency_mode_def HecState_with_cdc_error_def HecState_with_enc_functionality_def
  HecState_with_host_functionality_def HecState_with_hec_functionality_def
  InputPortHpdState_with_state_def InputPortHpdState_with_input_port_def
  HpdStateErrorCode_with_error_code_def HpdStateErrorCode_with_state_def
  DeviceFeatures1_all_def RcProfileSource_all_def

section \<open>Tests of messages\<close>

text \<open>
  The names that the macro \<open>message_test\<close> resolves in the module it is used in: \<open>Message\<close> and
  \<open>Opcode\<close> are those of \<open>message.rs\<close> or those of \<open>cdc.rs\<close>.
\<close>

record ('o, 'm) message_codec =
  opcode_byte :: "'o \<Rightarrow> u8"
  opcode_of :: "'m \<Rightarrow> 'o result"
  encode :: "'m \<Rightarrow> u8 list option"
  decode :: "u8 list \<Rightarrow> 'm result"
  encoded_len :: "'m \<Rightarrow> nat"
  opcode_expected :: "'o \<Rightarrow> nat Range result"

text \<open>
  \<open>message_test!\<close> with its fields \<open>ty\<close>, \<open>instance\<close> and \<open>bytes\<close>, whether it has a \<open>name\<close>, and
  whether its \<open>extra\<close> holds \<open>Overfull\<close> and \<open>Empty\<close>; and the two kinds of assertion that the test
  functions make: what some bytes decode to, and the opcode of a message.
\<close>

datatype ('o, 'm) message_test =
  MessageTest bool 'o 'm "u8 list" bool bool |
  DecodesTo "u8 list" "'m result" |
  HasOpcode 'm 'o

primrec message_test_passes :: "('o, 'm) message_codec \<Rightarrow> ('o, 'm) message_test \<Rightarrow> bool" where
  "message_test_passes C (MessageTest named ty inst bytes overfull test_empty) \<longleftrightarrow>
     (named \<or> opcode_of C inst = Ok ty) \<and>
     encode C inst = Some (opcode_byte C ty # bytes) \<and>
     decode C (opcode_byte C ty # bytes) = Ok inst \<and>
     encoded_len C inst = length bytes + 1 \<and>
     (if overfull then decode C (resize (opcode_byte C ty # bytes) 14 0) = Ok inst else True) \<and>
     (if test_empty then
        (case opcode_expected C ty of
           Ok expected \<Rightarrow> decode C [opcode_byte C ty] = Err (OutOfRange expected 1 ''bytes'')
         | _ \<Rightarrow> False)
      else True)" |
  "message_test_passes C (DecodesTo bytes expected) \<longleftrightarrow> decode C bytes = expected" |
  "message_test_passes C (HasOpcode inst ty) \<longleftrightarrow> opcode_of C inst = Ok ty"

definition Message_codec :: "(Opcode, Message) message_codec" where
  "Message_codec =
     \<lparr>opcode_byte = Opcode_into, opcode_of = Message_opcode, encode = Message_to_bytes,
      decode = Message_try_from_bytes, encoded_len = Message_len, opcode_expected = Opcode_expected_len\<rparr>"

lemma Message_codec_simps [simp]:
  "opcode_byte Message_codec = Opcode_into" "opcode_of Message_codec = Message_opcode"
  "encode Message_codec = Message_to_bytes" "decode Message_codec = Message_try_from_bytes"
  "encoded_len Message_codec = Message_len" "opcode_expected Message_codec = Opcode_expected_len"
  by (simp_all add: Message_codec_def)

section \<open>Tests of operands\<close>

text \<open>\<open>opcode_test!\<close> with its fields \<open>instance\<close> and \<open>bytes\<close>, and whether its \<open>extra\<close> holds \<open>Overfull\<close>.\<close>

definition opcode_test ::
  "('a \<Rightarrow> u8 list option) \<Rightarrow> (u8 list \<Rightarrow> 'a result) \<Rightarrow> ('a \<Rightarrow> nat) \<Rightarrow> 'a \<Rightarrow> u8 list \<Rightarrow> bool \<Rightarrow> bool" where
  "opcode_test to_bytes try_from_bytes ln inst bytes overfull \<longleftrightarrow>
     to_bytes inst = Some bytes \<and>
     try_from_bytes bytes = Ok inst \<and>
     ln inst = length bytes \<and>
     (if overfull then try_from_bytes (resize bytes 14 0) = Ok inst else True)"

primrec is_Ok :: "'a result \<Rightarrow> bool" where
  "is_Ok (Ok _) \<longleftrightarrow> True" |
  "is_Ok (Err _) \<longleftrightarrow> False" |
  "is_Ok Panic \<longleftrightarrow> False"

primrec is_Err :: "'a result \<Rightarrow> bool" where
  "is_Err (Ok _) \<longleftrightarrow> False" |
  "is_Err (Err _) \<longleftrightarrow> True" |
  "is_Err Panic \<longleftrightarrow> False"

text \<open>The types \<open>U8\<close> and \<open>U8Buffer\<close> of the module \<open>test_tagged_length_buffer\<close>.\<close>

datatype U8 = U8 (U8_into: u8)

definition U8_try_from :: "u8 \<Rightarrow> U8 result" where
  "U8_try_from v = and_then (check (AtMost 0x7F) (unat v) ''value'') (\<lambda>_. Ok (U8 v))"

record U8Buffer =
  first_param :: U8
  rest_params :: "u8 list"
  rest_len :: nat

definition U8Buffer_try_new :: "U8 \<Rightarrow> u8 list \<Rightarrow> U8Buffer result" where
  "U8Buffer_try_new first extra =
     and_then (check (AtMost 13) (length extra) ''bytes'') (\<lambda>_.
     Ok \<lparr>first_param = first, rest_params = extra @ drop (length extra) (replicate 13 0),
         rest_len = length extra\<rparr>)"

definition U8Buffer_fixed_param :: "U8Buffer \<Rightarrow> U8" where
  "U8Buffer_fixed_param x = first_param x"

definition U8Buffer_extra_params :: "U8Buffer \<Rightarrow> u8 list option" where
  "U8Buffer_extra_params x =
     (if rest_len x \<le> length (rest_params x) then Some (take (rest_len x) (rest_params x)) else None)"

abbreviation "U8Buffer_to_bytes \<equiv> tagged_to_bytes U8Buffer_fixed_param U8_into U8Buffer_extra_params"
abbreviation "U8Buffer_try_from_bytes \<equiv> tagged_try_from_bytes U8_try_from U8Buffer_try_new"
abbreviation "U8Buffer_len \<equiv> tagged_len U8Buffer_extra_params"

definition CdcMessage_codec :: "(CdcOpcode, CdcMessage) message_codec" where
  "CdcMessage_codec =
     \<lparr>opcode_byte = CdcOpcode_into, opcode_of = CdcMessage_opcode, encode = CdcMessage_to_bytes,
      decode = CdcMessage_try_from_bytes, encoded_len = CdcMessage_len,
      opcode_expected = CdcOpcode_expected_len\<rparr>"

lemma CdcMessage_codec_simps [simp]:
  "opcode_byte CdcMessage_codec = CdcOpcode_into" "opcode_of CdcMessage_codec = CdcMessage_opcode"
  "encode CdcMessage_codec = CdcMessage_to_bytes" "decode CdcMessage_codec = CdcMessage_try_from_bytes"
  "encoded_len CdcMessage_codec = CdcMessage_len"
  "opcode_expected CdcMessage_codec = CdcOpcode_expected_len"
  by (simp_all add: CdcMessage_codec_def)

section \<open>Facts that run the model\<close>

text \<open>A message test decodes the byte of an opcode first.\<close>

lemma decode_opcode:
  "Message_try_from_bytes (Opcode_into oc # bs) =
    and_then (Opcode_expected_len oc) (\<lambda>expected.
    and_then (check expected (Suc (length bs)) ''bytes'') (\<lambda>_.
    Message_decode oc (Opcode_into oc # bs)))"
  by (simp add: Message_try_from_bytes_def Opcode.from_into)

lemma replicate_numeral: "replicate (numeral k) x = x # replicate (pred_numeral k) x"
  by (simp add: numeral_eq_Suc)

lemmas run_model =
  try_from_primitive_def enum_to_bytes_def enum_try_from_bytes_def bits_to_bytes_def
  bits_try_from_bytes_def bitfield_to_bytes_def bitfield_try_from_bytes_def
  option_to_bytes_def option_try_from_bytes_def option_len_def with_field_def
  u8_to_bytes_def u8_try_from_bytes_def bool_to_bytes_def bool_try_from_bytes_def
  narrow_u8_def u16_to_bytes_def u16_try_from_bytes_def array_to_bytes_def
  array_try_from_bytes_def PhysicalAddress_try_from_bytes_def Delay_MIN_def Delay_MAX_def
  Delay_try_from_def Delay_to_bytes_def Delay_try_from_bytes_def AudioVolumeLevel_MIN_def
  AudioVolumeLevel_MAX_def AudioVolumeLevel_NO_CHANGE_VAL_def AudioVolumeLevel_try_from_def
  AudioVolumeLevel_to_bytes_def AudioVolumeLevel_try_from_bytes_def
  BcdByte_try_from_bytes_def BcdByte_try_from_def buffer_slice_def buffer_to_bytes_def
  resize_def first_chunk_def buffer_try_from_bytes_def buffer_len_def buffer_default_def
  buffer_from_slice_def buffer_from_str_def buffer_as_bytes_def byte_buffer_def
  tagged_to_bytes_def tagged_try_from_bytes_def tagged_len_def AbortReason_variants_def
  AnalogueBroadcastType_variants_def AudioRate_variants_def BroadcastSystem_variants_def
  DayOfMonth_variants_def DeckControlMode_variants_def DeckInfo_variants_def
  DigitalServiceBroadcastSystem_variants_def DisplayControl_variants_def
  ExternalSourceSpecifier_variants_def MediaInfo_variants_def MenuRequestType_variants_def
  MenuState_variants_def MonthOfYear_variants_def PlayMode_variants_def
  PowerStatus_variants_def PrimaryDeviceType_variants_def RecordSourceType_variants_def
  RecordStatusInfo_variants_def RcProfileId_variants_def StatusRequest_variants_def
  TimerClearedStatusData_variants_def TunerDisplayInfo_variants_def
  UiBroadcastType_variants_def Version_variants_def UiSoundPresentationControl_variants_def
  ChannelNumberFormat_variants_def ServiceIdMethod_variants_def less_eq_DayOfMonth_def
  less_DayOfMonth_def less_eq_MonthOfYear_def less_MonthOfYear_def AllDeviceTypes_TV_def
  AllDeviceTypes_RECORDING_def AllDeviceTypes_TUNER_def AllDeviceTypes_PLAYBACK_def
  AllDeviceTypes_AUDIOSYSTEM_def AllDeviceTypes_SWITCH_def
  DeviceFeatures1_HAS_RECORD_TV_SCREEN_def DeviceFeatures1_HAS_SET_OSD_STRING_def
  DeviceFeatures1_HAS_DECK_CONTROL_def DeviceFeatures1_HAS_SET_AUDIO_RATE_def
  DeviceFeatures1_SINK_HAS_ARC_TX_def DeviceFeatures1_SOURCE_HAS_ARC_RX_def
  DeviceFeatures1_HAS_SET_AUDIO_VOLUME_LEVEL_def RcProfileSource_HAS_DEV_ROOT_MENU_def
  RcProfileSource_HAS_DEV_SETUP_MENU_def RcProfileSource_HAS_CONTENTS_MENU_def
  RcProfileSource_HAS_MEDIA_TOP_MENU_def RcProfileSource_HAS_MEDIA_CONTEXT_MENU_def
  RecordingSequence_SUNDAY_def RecordingSequence_MONDAY_def RecordingSequence_TUESDAY_def
  RecordingSequence_WEDNESDAY_def RecordingSequence_THURSDAY_def
  RecordingSequence_FRIDAY_def RecordingSequence_SATURDAY_def
  RecordingSequence_ONCE_ONLY_def RecordingSequence_is_once_only_def
  DeviceFeatures1_into_def DeviceFeatures1_try_from_def AudioFormatId_from_bits_def
  AudioOutputCompensated_from_bits_def AudioFormatIdAndCode_code_def
  AudioFormatIdAndCode_id_def AudioStatus_volume_def AudioStatus_mute_def
  LatencyFlags_audio_out_compensated_def LatencyFlags_low_latency_mode_def
  AribData_to_bytes_def AribData_try_from_bytes_def DvbData_to_bytes_def
  DvbData_try_from_bytes_def AtscData_to_bytes_def AtscData_try_from_bytes_def
  ChannelId_to_bytes_def ChannelId_try_from_bytes_def AnalogueServiceId_to_bytes_def
  AnalogueServiceId_try_from_bytes_def DigitalServiceId_arib_data_def
  DigitalServiceId_atsc_data_def DigitalServiceId_dvb_data_def
  DigitalServiceId_service_id_method_def DigitalServiceId_to_bytes_def
  DigitalServiceId_data_try_from_bytes_def DigitalServiceId_try_from_bytes_def
  Duration_to_bytes_def Duration_try_from_bytes_def Time_to_bytes_def
  Time_try_from_bytes_def ProgrammedInfo_duration_available_def
  NotProgrammedErrorInfo_duration_available_def TimerStatusData_to_bytes_def
  duration_available_from_def programmed_try_from_def not_programmed_try_from_def
  TimerStatusData_try_from_bytes_def timer_duration_def TimerStatusData_len_def
  DeviceFeatures_new_def DeviceFeatures_try_new_def DeviceFeatures_extra_params_def
  RcProfile1_try_from_def RcProfile_new_def RcProfile_try_new_def
  RcProfile_extra_params_def TunerDeviceInfo_to_bytes_def TunerDeviceInfo_try_from_bytes_def
  TunerDeviceInfo_len_def ExternalSource_try_from_bytes_def RecordSource_to_bytes_def
  RecordSource_try_from_bytes_def RecordSource_len_def UiCommand_operand_to_bytes_def
  UiCommand_to_bytes_def UiCommand_len_def UiCommand_simple_def
  UiCommand_try_from_bytes_def UiCommand_operand_codes_def VendorId_to_bytes_def
  VendorId_try_from_bytes_def CdcErrorCode_from_bits_def FunctionalityState_from_bits_def
  HecFunctionalityState_from_bits_def HecState_cdc_error_def HecState_enc_functionality_def
  HecState_host_functionality_def HecState_hec_functionality_def HpdErrorCode_from_bits_def
  HpdState_from_bits_def InputPortHpdState_state_def InputPortHpdState_input_port_def
  HpdStateErrorCode_error_code_def HpdStateErrorCode_state_def HecField_word_def
  HecField_to_bytes_def HecField_from_word_def HecField_try_from_bytes_def
  expected_step_def expected_fold_def CdcOpcode_variants_def CdcMessage_opcode_def
  CdcMessage_try_from_bytes_def

lemmas run_test = run_model U8_try_from_def U8Buffer_try_new_def U8Buffer_fixed_param_def
  U8Buffer_extra_params_def opcode_test_def One_nat_def upt_conv_Cons replicate_numeral
  tagged_loop.simps Let_def range_inclusive_def buffer_loop.simps show_u8_def show_nat.simps
  decode_opcode resize_def test_values Message_opcode_variant expected_fold_def with_field_def
  check_def slice_from_def

named_theorems passes \<open>the tests that the model passes\<close>

end
