(* ===== verification/MessageTests.thy ===== *)
theory MessageTests
  imports CodecTests
begin

text \<open>
  The test modules of \<open>linux-cec/src/message.rs\<close> that are about bytes, and the tests that the macro
  \<open>MessageEnum\<close> writes for a message without operands. A module is the list of its tests, in their
  order, under its own name; a module of more than 150 lines is two lists.
\<close>

section \<open>Messages without operands\<close>

text \<open>
  The functions of the test module that \<open>MessageEnum\<close> generates: \<open>test_len\<close>, \<open>test_opcode\<close>,
  \<open>test_encoding\<close>, \<open>test_decoding\<close> and \<open>test_decoding_overfull\<close>, with 13 bytes behind the opcode.
\<close>

definition unit_tests :: "Opcode \<Rightarrow> Message \<Rightarrow> bool" where
  "unit_tests oc m \<longleftrightarrow>
     Message_len m = 1 \<and>
     Message_opcode m = Ok oc \<and>
     Message_to_bytes m = Some [Opcode_into oc] \<and>
     Message_try_from_bytes [Opcode_into oc] = Ok m \<and>
     Message_try_from_bytes (Opcode_into oc # replicate 13 0) = Ok m"

definition unit_messages :: "(Opcode \<times> Message) list" where
  "unit_messages =
   [(Opcode.ImageViewOn, Message.ImageViewOn), (Opcode.TextViewOn, Message.TextViewOn),
   (Opcode.RequestActiveSource, Message.RequestActiveSource),
   (Opcode.Standby, Message.Standby), (Opcode.RecordOff, Message.RecordOff),
   (Opcode.RecordTvScreen, Message.RecordTvScreen),
   (Opcode.GetCecVersion, Message.GetCecVersion),
   (Opcode.GivePhysicalAddr, Message.GivePhysicalAddr),
   (Opcode.GetMenuLanguage, Message.GetMenuLanguage),
   (Opcode.TunerStepDecrement, Message.TunerStepDecrement),
   (Opcode.TunerStepIncrement, Message.TunerStepIncrement),
   (Opcode.GiveDeviceVendorId, Message.GiveDeviceVendorId),
   (Opcode.VendorRemoteButtonUp, Message.VendorRemoteButtonUp),
   (Opcode.GiveOsdName, Message.GiveOsdName),
   (Opcode.UserControlReleased, Message.UserControlReleased),
   (Opcode.GiveDevicePowerStatus, Message.GiveDevicePowerStatus),
   (Opcode.Abort, Message.Abort), (Opcode.GiveAudioStatus, Message.GiveAudioStatus),
   (Opcode.GiveSystemAudioModeStatus, Message.GiveSystemAudioModeStatus),
   (Opcode.InitiateArc, Message.InitiateArc),
   (Opcode.ReportArcInitiated, Message.ReportArcInitiated),
   (Opcode.ReportArcTerminated, Message.ReportArcTerminated),
   (Opcode.RequestArcInitiation, Message.RequestArcInitiation),
   (Opcode.RequestArcTermination, Message.RequestArcTermination),
   (Opcode.TerminateArc, Message.TerminateArc), (Opcode.GiveFeatures, Message.GiveFeatures)]"

section \<open>The test modules\<close>

definition test_active_source :: "(Opcode, Message) message_test list" where
  "test_active_source =
   [MessageTest False Opcode.ActiveSource (Message.ActiveSource (PhysicalAddress.PhysicalAddress
     0x1234)) [0x12, 0x34] True True,
    DecodesTo [Opcode_into Opcode.ActiveSource, 0x12] (Err (OutOfRange (AtLeast 3) 2 ''bytes''))]"

definition test_inactive_source :: "(Opcode, Message) message_test list" where
  "test_inactive_source =
   [MessageTest False Opcode.InactiveSource (Message.InactiveSource
     (PhysicalAddress.PhysicalAddress 0x1234)) [0x12, 0x34] True True,
    DecodesTo [Opcode_into Opcode.InactiveSource, 0x12] (Err (OutOfRange (AtLeast 3) 2 ''bytes''))]"

definition test_routing_change :: "(Opcode, Message) message_test list" where
  "test_routing_change =
   [MessageTest False Opcode.RoutingChange (Message.RoutingChange (PhysicalAddress.PhysicalAddress
     0x1234) (PhysicalAddress.PhysicalAddress 0x5678)) [0x12, 0x34, 0x56, 0x78] True True,
    DecodesTo [Opcode_into Opcode.RoutingChange, 0x12, 0x34, 0x56] (Err (OutOfRange (AtLeast 5) 4
     ''bytes'')),
    DecodesTo [Opcode_into Opcode.RoutingChange, 0x12, 0x34] (Err (OutOfRange (AtLeast 5) 3
     ''bytes'')),
    DecodesTo [Opcode_into Opcode.RoutingChange, 0x12] (Err (OutOfRange (AtLeast 5) 2 ''bytes''))]"

definition test_routing_information :: "(Opcode, Message) message_test list" where
  "test_routing_information =
   [MessageTest False Opcode.RoutingInformation (Message.RoutingInformation
     (PhysicalAddress.PhysicalAddress 0x1234)) [0x12, 0x34] True True,
    DecodesTo [Opcode_into Opcode.RoutingInformation, 0x12] (Err (OutOfRange (AtLeast 3) 2
     ''bytes''))]"

definition test_set_stream_path :: "(Opcode, Message) message_test list" where
  "test_set_stream_path =
   [MessageTest False Opcode.SetStreamPath (Message.SetStreamPath (PhysicalAddress.PhysicalAddress
     0x1234)) [0x12, 0x34] True True,
    DecodesTo [Opcode_into Opcode.SetStreamPath, 0x12] (Err (OutOfRange (AtLeast 3) 2 ''bytes''))]"

definition test_record_on :: "(Opcode, Message) message_test list" where
  "test_record_on =
   [MessageTest True Opcode.RecordOn (Message.RecordOn RecordSource.Own) [RecordSourceType_into
     RecordSourceType.Own] True False,
    MessageTest True Opcode.RecordOn (Message.RecordOn (RecordSource.DigitalService
     (DigitalServiceId.AribGeneric \<lparr>AribData.transport_stream_id = 0x1234,
      AribData.service_id = 0x5678, AribData.original_network_id = 0x9ABC\<rparr>)))
      [RecordSourceType_into RecordSourceType.Digital, DigitalServiceBroadcastSystem_into
      DigitalServiceBroadcastSystem.AribGeneric, 0x12, 0x34, 0x56, 0x78, 0x9A, 0xBC] True False,
    MessageTest True Opcode.RecordOn (Message.RecordOn (RecordSource.AnalogueService
     \<lparr>AnalogueServiceId.broadcast_type = AnalogueBroadcastType.Satellite,
      AnalogueServiceId.frequency = 0x1234, AnalogueServiceId.broadcast_system =
      BroadcastSystem.SecamL\<rparr>)) [RecordSourceType_into RecordSourceType.Analogue,
      AnalogueBroadcastType_into AnalogueBroadcastType.Satellite, 0x12, 0x34, BroadcastSystem_into
      BroadcastSystem.SecamL] True False,
    DecodesTo [Opcode_into Opcode.RecordOn] (Err (OutOfRange (AtLeast 2) 1 ''bytes'')),
    HasOpcode (Message.RecordOn RecordSource.Own) Opcode.RecordOn]"

definition test_record_status :: "(Opcode, Message) message_test list" where
  "test_record_status =
   [MessageTest False Opcode.RecordStatus (Message.RecordStatus RecordStatusInfo.CurrentSource)
     [RecordStatusInfo_into RecordStatusInfo.CurrentSource] True True,
    DecodesTo [Opcode_into Opcode.RecordStatus, 0xFE] (Err (InvalidValueForType
     ''RecordStatusInfo'' ''254''))]"

definition test_clear_analogue_timer :: "(Opcode, Message) message_test list" where
  "test_clear_analogue_timer =
   [MessageTest False Opcode.ClearAnalogueTimer (Message.ClearAnalogueTimer DayOfMonth.Day1
     MonthOfYear.January \<lparr>Time.hour = the_Ok (BcdByte_try_from 0 23 0x0C), Time.minute =
      the_Ok (BcdByte_try_from 0 59 0x1E)\<rparr> \<lparr>Duration.hours = the_Ok
      (BcdByte_try_from 0 99 0x63), Duration.minutes = the_Ok (BcdByte_try_from 0 59 0x3B)\<rparr>
      RecordingSequence_SUNDAY \<lparr>AnalogueServiceId.broadcast_type =
      AnalogueBroadcastType.Terrestrial, AnalogueServiceId.frequency = 0x1234,
      AnalogueServiceId.broadcast_system = BroadcastSystem.NtscM\<rparr>) [DayOfMonth_into
      DayOfMonth.Day1, MonthOfYear_into MonthOfYear.January, 0x12, 0x30, 0x99, 0x59, 1,
      AnalogueBroadcastType_into AnalogueBroadcastType.Terrestrial, 0x12, 0x34,
      BroadcastSystem_into BroadcastSystem.NtscM] True True,
    DecodesTo [Opcode_into Opcode.ClearAnalogueTimer, DayOfMonth_into DayOfMonth.Day1,
     MonthOfYear_into MonthOfYear.January, 0x12, 0x30, 0x99, 0x59, 1] (Err (OutOfRange (AtLeast
      0x0C) 8 ''bytes'')),
    DecodesTo [Opcode_into Opcode.ClearAnalogueTimer, DayOfMonth_into DayOfMonth.Day1,
     MonthOfYear_into MonthOfYear.January, 0x12, 0x30, 0x99, 0x59] (Err (OutOfRange (AtLeast
      0x0C) 7 ''bytes'')),
    DecodesTo [Opcode_into Opcode.ClearAnalogueTimer, DayOfMonth_into DayOfMonth.Day1,
     MonthOfYear_into MonthOfYear.January, 0x12, 0x30] (Err (OutOfRange (AtLeast 0x0C) 5
      ''bytes'')),
    DecodesTo [Opcode_into Opcode.ClearAnalogueTimer, DayOfMonth_into DayOfMonth.Day1,
     MonthOfYear_into MonthOfYear.January] (Err (OutOfRange (AtLeast 0x0C) 3 ''bytes'')),
    DecodesTo [Opcode_into Opcode.ClearAnalogueTimer, DayOfMonth_into DayOfMonth.Day1] (Err
     (OutOfRange (AtLeast 0x0C) 2 ''bytes''))]"

definition test_clear_digital_timer :: "(Opcode, Message) message_test list" where
  "test_clear_digital_timer =
   [MessageTest False Opcode.ClearDigitalTimer (Message.ClearDigitalTimer DayOfMonth.Day1
     MonthOfYear.January \<lparr>Time.hour = the_Ok (BcdByte_try_from 0 23 0x0C), Time.minute =
      the_Ok (BcdByte_try_from 0 59 0x1E)\<rparr> \<lparr>Duration.hours = the_Ok
      (BcdByte_try_from 0 99 0x63), Duration.minutes = the_Ok (BcdByte_try_from 0 59 0x3B)\<rparr>
      RecordingSequence_SUNDAY (DigitalServiceId.AtscCable \<lparr>AtscData.transport_stream_id =
      0x1234, AtscData.program_number = 0x5678\<rparr>)) [DayOfMonth_into DayOfMonth.Day1,
      MonthOfYear_into MonthOfYear.January, 0x12, 0x30, 0x99, 0x59, 1,
      DigitalServiceBroadcastSystem_into DigitalServiceBroadcastSystem.AtscCable, 0x12, 0x34,
      0x56, 0x78, 0, 0] False True,
    DecodesTo [Opcode_into Opcode.ClearDigitalTimer, DayOfMonth_into DayOfMonth.Day1,
     MonthOfYear_into MonthOfYear.January, 0x12, 0x30, 0x99, 0x59, 1] (Err (OutOfRange (AtLeast
      0x0F) 8 ''bytes'')),
    DecodesTo [Opcode_into Opcode.ClearDigitalTimer, DayOfMonth_into DayOfMonth.Day1,
     MonthOfYear_into MonthOfYear.January, 0x12, 0x30, 0x99, 0x59] (Err (OutOfRange (AtLeast
      0x0F) 7 ''bytes'')),
    DecodesTo [Opcode_into Opcode.ClearDigitalTimer, DayOfMonth_into DayOfMonth.Day1,
     MonthOfYear_into MonthOfYear.January, 0x12, 0x30] (Err (OutOfRange (AtLeast 0x0F) 5
      ''bytes'')),
    DecodesTo [Opcode_into Opcode.ClearDigitalTimer, DayOfMonth_into DayOfMonth.Day1,
     MonthOfYear_into MonthOfYear.January] (Err (OutOfRange (AtLeast 0x0F) 3 ''bytes'')),
    DecodesTo [Opcode_into Opcode.ClearDigitalTimer, DayOfMonth_into DayOfMonth.Day1] (Err
     (OutOfRange (AtLeast 0x0F) 2 ''bytes''))]"

definition test_clear_ext_timer_1 :: "(Opcode, Message) message_test list" where
  "test_clear_ext_timer_1 =
   [MessageTest True Opcode.ClearExtTimer (Message.ClearExtTimer DayOfMonth.Day1
     MonthOfYear.January \<lparr>Time.hour = the_Ok (BcdByte_try_from 0 23 0x0C), Time.minute =
      the_Ok (BcdByte_try_from 0 59 0x1E)\<rparr> \<lparr>Duration.hours = the_Ok
      (BcdByte_try_from 0 99 0x63), Duration.minutes = the_Ok (BcdByte_try_from 0 59 0x3B)\<rparr>
      RecordingSequence_SUNDAY (ExternalSource.PhysicalAddress (PhysicalAddress.PhysicalAddress
      0x1234))) [DayOfMonth_into DayOfMonth.Day1, MonthOfYear_into MonthOfYear.January, 0x12,
      0x30, 0x99, 0x59, 1, 0x12, 0x34] False False,
    MessageTest True Opcode.ClearExtTimer (Message.ClearExtTimer DayOfMonth.Day1
     MonthOfYear.January \<lparr>Time.hour = the_Ok (BcdByte_try_from 0 23 0x0C), Time.minute =
      the_Ok (BcdByte_try_from 0 59 0x1E)\<rparr> \<lparr>Duration.hours = the_Ok
      (BcdByte_try_from 0 99 0x63), Duration.minutes = the_Ok (BcdByte_try_from 0 59 0x3B)\<rparr>
      RecordingSequence_SUNDAY (ExternalSource.Plug 0x56)) [DayOfMonth_into DayOfMonth.Day1,
      MonthOfYear_into MonthOfYear.January, 0x12, 0x30, 0x99, 0x59, 1, 0x56] False False,
    HasOpcode (Message.ClearExtTimer DayOfMonth.Day1 MonthOfYear.January \<lparr>Time.hour =
     the_Ok (BcdByte_try_from 0 23 0x0C), Time.minute = the_Ok (BcdByte_try_from 0 59
      0x1E)\<rparr> \<lparr>Duration.hours = the_Ok (BcdByte_try_from 0 99 0x63), Duration.minutes
      = the_Ok (BcdByte_try_from 0 59 0x3B)\<rparr> RecordingSequence_SUNDAY (ExternalSource.Plug
      0x56)) Opcode.ClearExtTimer,
    DecodesTo [Opcode_into Opcode.ClearExtTimer, DayOfMonth_into DayOfMonth.Day1, MonthOfYear_into
     MonthOfYear.January, 0x12, 0x30, 0x99, 0x59, 1] (Err (OutOfRange (Only [9, 0x0A]) 8
      ''bytes'')),
    DecodesTo [Opcode_into Opcode.ClearExtTimer, DayOfMonth_into DayOfMonth.Day1, MonthOfYear_into
     MonthOfYear.January, 0x12, 0x30, 0x99, 0x59] (Err (OutOfRange (Only [9, 0x0A]) 7 ''bytes'')),
    DecodesTo [Opcode_into Opcode.ClearExtTimer, DayOfMonth_into DayOfMonth.Day1, MonthOfYear_into
     MonthOfYear.January, 0x12, 0x30] (Err (OutOfRange (Only [9, 0x0A]) 5 ''bytes''))]"

definition test_clear_ext_timer_2 :: "(Opcode, Message) message_test list" where
  "test_clear_ext_timer_2 =
   [DecodesTo [Opcode_into Opcode.ClearExtTimer, DayOfMonth_into DayOfMonth.Day1, MonthOfYear_into
     MonthOfYear.January] (Err (OutOfRange (Only [9, 0x0A]) 3 ''bytes'')),
    DecodesTo [Opcode_into Opcode.ClearExtTimer, DayOfMonth_into DayOfMonth.Day1] (Err (OutOfRange
     (Only [9, 0x0A]) 2 ''bytes'')),
    DecodesTo [Opcode_into Opcode.ClearExtTimer] (Err (OutOfRange (Only [9, 0x0A]) 1 ''bytes''))]"

definition test_set_analogue_timer :: "(Opcode, Message) message_test list" where
  "test_set_analogue_timer =
   [MessageTest False Opcode.SetAnalogueTimer (Message.SetAnalogueTimer DayOfMonth.Day1
     MonthOfYear.January \<lparr>Time.hour = the_Ok (BcdByte_try_from 0 23 0x0C), Time.minute =
      the_Ok (BcdByte_try_from 0 59 0x1E)\<rparr> \<lparr>Duration.hours = the_Ok
      (BcdByte_try_from 0 99 0x63), Duration.minutes = the_Ok (BcdByte_try_from 0 59 0x3B)\<rparr>
      RecordingSequence_SUNDAY \<lparr>AnalogueServiceId.broadcast_type =
      AnalogueBroadcastType.Terrestrial, AnalogueServiceId.frequency = 0x1234,
      AnalogueServiceId.broadcast_system = BroadcastSystem.NtscM\<rparr>) [DayOfMonth_into
      DayOfMonth.Day1, MonthOfYear_into MonthOfYear.January, 0x12, 0x30, 0x99, 0x59, 1,
      AnalogueBroadcastType_into AnalogueBroadcastType.Terrestrial, 0x12, 0x34,
      BroadcastSystem_into BroadcastSystem.NtscM] True True,
    DecodesTo [Opcode_into Opcode.SetAnalogueTimer, DayOfMonth_into DayOfMonth.Day1,
     MonthOfYear_into MonthOfYear.January, 0x12, 0x30, 0x99, 0x59, 1] (Err (OutOfRange (AtLeast
      0x0C) 8 ''bytes'')),
    DecodesTo [Opcode_into Opcode.SetAnalogueTimer, DayOfMonth_into DayOfMonth.Day1,
     MonthOfYear_into MonthOfYear.January, 0x12, 0x30, 0x99, 0x59] (Err (OutOfRange (AtLeast
      0x0C) 7 ''bytes'')),
    DecodesTo [Opcode_into Opcode.SetAnalogueTimer, DayOfMonth_into DayOfMonth.Day1,
     MonthOfYear_into MonthOfYear.January, 0x12, 0x30] (Err (OutOfRange (AtLeast 0x0C) 5
      ''bytes'')),
    DecodesTo [Opcode_into Opcode.SetAnalogueTimer, DayOfMonth_into DayOfMonth.Day1,
     MonthOfYear_into MonthOfYear.January] (Err (OutOfRange (AtLeast 0x0C) 3 ''bytes'')),
    DecodesTo [Opcode_into Opcode.SetAnalogueTimer, DayOfMonth_into DayOfMonth.Day1] (Err
     (OutOfRange (AtLeast 0x0C) 2 ''bytes''))]"

definition test_set_digital_timer :: "(Opcode, Message) message_test list" where
  "test_set_digital_timer =
   [MessageTest False Opcode.SetDigitalTimer (Message.SetDigitalTimer DayOfMonth.Day1
     MonthOfYear.January \<lparr>Time.hour = the_Ok (BcdByte_try_from 0 23 0x0C), Time.minute =
      the_Ok (BcdByte_try_from 0 59 0x1E)\<rparr> \<lparr>Duration.hours = the_Ok
      (BcdByte_try_from 0 99 0x63), Duration.minutes = the_Ok (BcdByte_try_from 0 59 0x3B)\<rparr>
      RecordingSequence_SUNDAY (DigitalServiceId.AtscCable \<lparr>AtscData.transport_stream_id =
      0x1234, AtscData.program_number = 0x5678\<rparr>)) [DayOfMonth_into DayOfMonth.Day1,
      MonthOfYear_into MonthOfYear.January, 0x12, 0x30, 0x99, 0x59, 1,
      DigitalServiceBroadcastSystem_into DigitalServiceBroadcastSystem.AtscCable, 0x12, 0x34,
      0x56, 0x78, 0, 0] False True,
    DecodesTo [Opcode_into Opcode.SetDigitalTimer, DayOfMonth_into DayOfMonth.Day1,
     MonthOfYear_into MonthOfYear.January, 0x12, 0x30, 0x99, 0x59, 1] (Err (OutOfRange (AtLeast
      0x0F) 8 ''bytes'')),
    DecodesTo [Opcode_into Opcode.SetDigitalTimer, DayOfMonth_into DayOfMonth.Day1,
     MonthOfYear_into MonthOfYear.January, 0x12, 0x30, 0x99, 0x59] (Err (OutOfRange (AtLeast
      0x0F) 7 ''bytes'')),
    DecodesTo [Opcode_into Opcode.SetDigitalTimer, DayOfMonth_into DayOfMonth.Day1,
     MonthOfYear_into MonthOfYear.January, 0x12, 0x30] (Err (OutOfRange (AtLeast 0x0F) 5
      ''bytes'')),
    DecodesTo [Opcode_into Opcode.SetDigitalTimer, DayOfMonth_into DayOfMonth.Day1,
     MonthOfYear_into MonthOfYear.January] (Err (OutOfRange (AtLeast 0x0F) 3 ''bytes'')),
    DecodesTo [Opcode_into Opcode.SetDigitalTimer, DayOfMonth_into DayOfMonth.Day1] (Err
     (OutOfRange (AtLeast 0x0F) 2 ''bytes'')),
    DecodesTo [Opcode_into Opcode.SetDigitalTimer] (Err (OutOfRange (AtLeast 0x0F) 1 ''bytes''))]"

definition test_set_ext_timer_1 :: "(Opcode, Message) message_test list" where
  "test_set_ext_timer_1 =
   [MessageTest True Opcode.SetExtTimer (Message.SetExtTimer DayOfMonth.Day1 MonthOfYear.January
     \<lparr>Time.hour = the_Ok (BcdByte_try_from 0 23 0x0C), Time.minute = the_Ok
      (BcdByte_try_from 0 59 0x1E)\<rparr> \<lparr>Duration.hours = the_Ok (BcdByte_try_from 0 99
      0x63), Duration.minutes = the_Ok (BcdByte_try_from 0 59 0x3B)\<rparr>
      RecordingSequence_SUNDAY (ExternalSource.PhysicalAddress (PhysicalAddress.PhysicalAddress
      0x1234))) [DayOfMonth_into DayOfMonth.Day1, MonthOfYear_into MonthOfYear.January, 0x12,
      0x30, 0x99, 0x59, 1, 0x12, 0x34] False False,
    MessageTest True Opcode.SetExtTimer (Message.SetExtTimer DayOfMonth.Day1 MonthOfYear.January
     \<lparr>Time.hour = the_Ok (BcdByte_try_from 0 23 0x0C), Time.minute = the_Ok
      (BcdByte_try_from 0 59 0x1E)\<rparr> \<lparr>Duration.hours = the_Ok (BcdByte_try_from 0 99
      0x63), Duration.minutes = the_Ok (BcdByte_try_from 0 59 0x3B)\<rparr>
      RecordingSequence_SUNDAY (ExternalSource.Plug 0x56)) [DayOfMonth_into DayOfMonth.Day1,
      MonthOfYear_into MonthOfYear.January, 0x12, 0x30, 0x99, 0x59, 1, 0x56] False False,
    HasOpcode (Message.SetExtTimer DayOfMonth.Day1 MonthOfYear.January \<lparr>Time.hour = the_Ok
     (BcdByte_try_from 0 23 0x0C), Time.minute = the_Ok (BcdByte_try_from 0 59 0x1E)\<rparr>
      \<lparr>Duration.hours = the_Ok (BcdByte_try_from 0 99 0x63), Duration.minutes = the_Ok
      (BcdByte_try_from 0 59 0x3B)\<rparr> RecordingSequence_SUNDAY (ExternalSource.Plug 0x56))
      Opcode.SetExtTimer,
    DecodesTo [Opcode_into Opcode.SetExtTimer, DayOfMonth_into DayOfMonth.Day1, MonthOfYear_into
     MonthOfYear.January, 0x12, 0x30, 0x99, 0x59, 1] (Err (OutOfRange (Only [9, 0x0A]) 8
      ''bytes'')),
    DecodesTo [Opcode_into Opcode.SetExtTimer, DayOfMonth_into DayOfMonth.Day1, MonthOfYear_into
     MonthOfYear.January, 0x12, 0x30, 0x99, 0x59] (Err (OutOfRange (Only [9, 0x0A]) 7 ''bytes'')),
    DecodesTo [Opcode_into Opcode.SetExtTimer, DayOfMonth_into DayOfMonth.Day1, MonthOfYear_into
     MonthOfYear.January, 0x12, 0x30] (Err (OutOfRange (Only [9, 0x0A]) 5 ''bytes''))]"

definition test_set_ext_timer_2 :: "(Opcode, Message) message_test list" where
  "test_set_ext_timer_2 =
   [DecodesTo [Opcode_into Opcode.SetExtTimer, DayOfMonth_into DayOfMonth.Day1, MonthOfYear_into
     MonthOfYear.January] (Err (OutOfRange (Only [9, 0x0A]) 3 ''bytes'')),
    DecodesTo [Opcode_into Opcode.SetExtTimer, DayOfMonth_into DayOfMonth.Day1] (Err (OutOfRange
     (Only [9, 0x0A]) 2 ''bytes'')),
    DecodesTo [Opcode_into Opcode.SetExtTimer] (Err (OutOfRange (Only [9, 0x0A]) 1 ''bytes''))]"

definition test_set_timer_program_title :: "(Opcode, Message) message_test list" where
  "test_set_timer_program_title =
   [MessageTest True Opcode.SetTimerProgramTitle (Message.SetTimerProgramTitle (the_Ok
     (buffer_from_str 14 []))) [] False False,
    MessageTest True Opcode.SetTimerProgramTitle (Message.SetTimerProgramTitle (the_Ok
     (buffer_from_str 14 [0x31, 0x32, 0x33, 0x34, 0x35, 0x36, 0x37, 0x38, 0x39, 0x30, 0x31, 0x32,
      0x33, 0x34]))) [0x31, 0x32, 0x33, 0x34, 0x35, 0x36, 0x37, 0x38, 0x39, 0x30, 0x31, 0x32,
      0x33, 0x34] False False,
    HasOpcode (Message.SetTimerProgramTitle (the_Ok (buffer_from_str 14 [0x31, 0x32, 0x33, 0x34,
     0x35, 0x36, 0x37, 0x38, 0x39, 0x30, 0x31, 0x32, 0x33, 0x34]))) Opcode.SetTimerProgramTitle]"

definition test_timer_cleared_status :: "(Opcode, Message) message_test list" where
  "test_timer_cleared_status =
   [MessageTest False Opcode.TimerClearedStatus (Message.TimerClearedStatus
     TimerClearedStatusData.Cleared) [TimerClearedStatusData_into TimerClearedStatusData.Cleared]
      True True]"

definition test_timer_status :: "(Opcode, Message) message_test list" where
  "test_timer_status =
   [MessageTest False Opcode.TimerStatus (Message.TimerStatus
     \<lparr>TimerStatusData.overlap_warning = False, TimerStatusData.media_info =
      MediaInfo.UnprotectedMedia, TimerStatusData.programmed_info = TimerProgrammedInfo.Programmed
      ProgrammedInfo.EnoughSpace\<rparr>) [((MediaInfo_into MediaInfo.UnprotectedMedia) OR 0x10)
      OR 8] True True,
    MessageTest True Opcode.TimerStatus (Message.TimerStatus
     \<lparr>TimerStatusData.overlap_warning = False, TimerStatusData.media_info =
      MediaInfo.UnprotectedMedia, TimerStatusData.programmed_info = TimerProgrammedInfo.Programmed
      (ProgrammedInfo.NotEnoughSpace None)\<rparr>) [((MediaInfo_into MediaInfo.UnprotectedMedia)
      OR 0x10) OR 9] False False,
    MessageTest True Opcode.TimerStatus (Message.TimerStatus
     \<lparr>TimerStatusData.overlap_warning = False, TimerStatusData.media_info =
      MediaInfo.UnprotectedMedia, TimerStatusData.programmed_info = TimerProgrammedInfo.Programmed
      (ProgrammedInfo.NotEnoughSpace (Some \<lparr>Duration.hours = the_Ok (BcdByte_try_from 0 99
      0x1E), Duration.minutes = the_Ok (BcdByte_try_from 0 59 0x2D)\<rparr>))\<rparr>)
      [((MediaInfo_into MediaInfo.UnprotectedMedia) OR 0x10) OR 9, 0x30, 0x45] True False]"

definition test_cec_version :: "(Opcode, Message) message_test list" where
  "test_cec_version =
   [MessageTest False Opcode.CecVersion (Message.CecVersion Version.V2_0) [Version_into
     Version.V2_0] True True]"

definition test_report_physical_addr :: "(Opcode, Message) message_test list" where
  "test_report_physical_addr =
   [MessageTest False Opcode.ReportPhysicalAddr (Message.ReportPhysicalAddr
     (PhysicalAddress.PhysicalAddress 0x1234) PrimaryDeviceType.Processor) [0x12, 0x34,
      PrimaryDeviceType_into PrimaryDeviceType.Processor] True True,
    DecodesTo [Opcode_into Opcode.ReportPhysicalAddr, 0x12, 0x34] (Err (OutOfRange (AtLeast 4) 3
     ''bytes'')),
    DecodesTo [Opcode_into Opcode.ReportPhysicalAddr, 0x12] (Err (OutOfRange (AtLeast 4) 2
     ''bytes''))]"

definition test_set_menu_language :: "(Opcode, Message) message_test list" where
  "test_set_menu_language =
   [MessageTest False Opcode.SetMenuLanguage (Message.SetMenuLanguage [0x12, 0x34, 0x56]) [0x12,
     0x34, 0x56] True True,
    DecodesTo [Opcode_into Opcode.SetMenuLanguage, 0x12, 0x34] (Err (OutOfRange (AtLeast 4) 3
     ''bytes'')),
    DecodesTo [Opcode_into Opcode.SetMenuLanguage, 0x12] (Err (OutOfRange (AtLeast 4) 2
     ''bytes''))]"

definition test_deck_control :: "(Opcode, Message) message_test list" where
  "test_deck_control =
   [MessageTest False Opcode.DeckControl (Message.DeckControl DeckControlMode.Stop)
     [DeckControlMode_into DeckControlMode.Stop] True True]"

definition test_deck_status :: "(Opcode, Message) message_test list" where
  "test_deck_status =
   [MessageTest False Opcode.DeckStatus (Message.DeckStatus DeckInfo.Record) [DeckInfo_into
     DeckInfo.Record] True True]"

definition test_give_deck_status :: "(Opcode, Message) message_test list" where
  "test_give_deck_status =
   [MessageTest False Opcode.GiveDeckStatus (Message.GiveDeckStatus StatusRequest.Once)
     [StatusRequest_into StatusRequest.Once] True True]"

definition test_play :: "(Opcode, Message) message_test list" where
  "test_play =
   [MessageTest False Opcode.Play (Message.Play PlayMode.Still) [PlayMode_into PlayMode.Still]
     True True]"

definition test_give_tuner_device_status :: "(Opcode, Message) message_test list" where
  "test_give_tuner_device_status =
   [MessageTest False Opcode.GiveTunerDeviceStatus (Message.GiveTunerDeviceStatus
     StatusRequest.Once) [StatusRequest_into StatusRequest.Once] True True]"

definition test_select_analogue_service :: "(Opcode, Message) message_test list" where
  "test_select_analogue_service =
   [MessageTest False Opcode.SelectAnalogueService (Message.SelectAnalogueService
     \<lparr>AnalogueServiceId.broadcast_type = AnalogueBroadcastType.Terrestrial,
      AnalogueServiceId.frequency = 0x1234, AnalogueServiceId.broadcast_system =
      BroadcastSystem.PalBG\<rparr>) [AnalogueBroadcastType_into
      AnalogueBroadcastType.Terrestrial, 0x12, 0x34, BroadcastSystem_into BroadcastSystem.PalBG]
      True True]"

definition test_select_digital_service :: "(Opcode, Message) message_test list" where
  "test_select_digital_service =
   [MessageTest False Opcode.SelectDigitalService (Message.SelectDigitalService
     (DigitalServiceId.AribGeneric \<lparr>AribData.transport_stream_id = 0x1234,
      AribData.service_id = 0x5678, AribData.original_network_id = 0xABCD\<rparr>))
      [DigitalServiceBroadcastSystem_into DigitalServiceBroadcastSystem.AribGeneric, 0x12, 0x34,
      0x56, 0x78, 0xAB, 0xCD] True True]"

definition test_tuner_device_status :: "(Opcode, Message) message_test list" where
  "test_tuner_device_status =
   [MessageTest False Opcode.TunerDeviceStatus (Message.TunerDeviceStatus
     \<lparr>TunerDeviceInfo.recording = True, TunerDeviceInfo.tuner_display_info =
      TunerDisplayInfo.Analogue, TunerDeviceInfo.service_id = ServiceId.Analogue
      \<lparr>AnalogueServiceId.broadcast_type = AnalogueBroadcastType.Terrestrial,
      AnalogueServiceId.frequency = 0x1234, AnalogueServiceId.broadcast_system =
      BroadcastSystem.PalBG\<rparr>\<rparr>) [0x82, AnalogueBroadcastType_into
      AnalogueBroadcastType.Terrestrial, 0x12, 0x34, BroadcastSystem_into BroadcastSystem.PalBG]
      False True]"

definition test_device_vendor_id :: "(Opcode, Message) message_test list" where
  "test_device_vendor_id =
   [MessageTest False Opcode.DeviceVendorId (Message.DeviceVendorId (VendorId.VendorId [0x12,
     0x34, 0x56])) [0x12, 0x34, 0x56] True True]"

definition test_vendor_command :: "(Opcode, Message) message_test list" where
  "test_vendor_command =
   [MessageTest True Opcode.VendorCommand (Message.VendorCommand (the_Ok (buffer_from_str 14 [])))
     [] False False,
    MessageTest True Opcode.VendorCommand (Message.VendorCommand (the_Ok (buffer_from_str 14
     [0x31, 0x32, 0x33, 0x34, 0x35, 0x36, 0x37, 0x38, 0x39, 0x30, 0x31, 0x32, 0x33, 0x34])))
      [0x31, 0x32, 0x33, 0x34, 0x35, 0x36, 0x37, 0x38, 0x39, 0x30, 0x31, 0x32, 0x33, 0x34] False
      False,
    HasOpcode (Message.VendorCommand (the_Ok (buffer_from_str 14 [0x31, 0x32, 0x33, 0x34, 0x35,
     0x36, 0x37, 0x38, 0x39, 0x30, 0x31, 0x32, 0x33, 0x34]))) Opcode.VendorCommand]"

definition test_vendor_command_with_id :: "(Opcode, Message) message_test list" where
  "test_vendor_command_with_id =
   [MessageTest True Opcode.VendorCommandWithId (Message.VendorCommandWithId (VendorId.VendorId
     [0x12, 0x34, 0x56]) (the_Ok (buffer_from_str 11 []))) [0x12, 0x34, 0x56] False False,
    MessageTest True Opcode.VendorCommandWithId (Message.VendorCommandWithId (VendorId.VendorId
     [0x12, 0x34, 0x56]) (the_Ok (buffer_from_str 11 [0x31, 0x32, 0x33, 0x34, 0x35, 0x36, 0x37,
      0x38, 0x39, 0x30, 0x31]))) [0x12, 0x34, 0x56, 0x31, 0x32, 0x33, 0x34, 0x35, 0x36, 0x37,
      0x38, 0x39, 0x30, 0x31] False False,
    HasOpcode (Message.VendorCommandWithId (VendorId.VendorId [0x12, 0x34, 0x56]) (the_Ok
     (buffer_from_str 11 []))) Opcode.VendorCommandWithId,
    DecodesTo [Opcode_into Opcode.VendorCommandWithId] (Err (OutOfRange (AtLeast 4) 1 ''bytes''))]"

definition test_vendor_remote_button_down :: "(Opcode, Message) message_test list" where
  "test_vendor_remote_button_down =
   [MessageTest True Opcode.VendorRemoteButtonDown (Message.VendorRemoteButtonDown (the_Ok
     (buffer_from_str 14 []))) [] False False,
    MessageTest True Opcode.VendorRemoteButtonDown (Message.VendorRemoteButtonDown (the_Ok
     (buffer_from_str 14 [0x31, 0x32, 0x33, 0x34, 0x35, 0x36, 0x37, 0x38, 0x39, 0x30, 0x31, 0x32,
      0x33, 0x34]))) [0x31, 0x32, 0x33, 0x34, 0x35, 0x36, 0x37, 0x38, 0x39, 0x30, 0x31, 0x32,
      0x33, 0x34] False False,
    HasOpcode (Message.VendorRemoteButtonDown (the_Ok (buffer_from_str 14 [0x31, 0x32, 0x33, 0x34,
     0x35, 0x36, 0x37, 0x38, 0x39, 0x30, 0x31, 0x32, 0x33, 0x34]))) Opcode.VendorRemoteButtonDown]"

definition test_set_osd_string :: "(Opcode, Message) message_test list" where
  "test_set_osd_string =
   [MessageTest True Opcode.SetOsdString (Message.SetOsdString DisplayControl.UntilCleared (the_Ok
     (buffer_from_str 13 []))) [DisplayControl_into DisplayControl.UntilCleared] False False,
    MessageTest True Opcode.SetOsdString (Message.SetOsdString DisplayControl.UntilCleared (the_Ok
     (buffer_from_str 13 [0x31, 0x32, 0x33, 0x34, 0x35, 0x36, 0x37, 0x38, 0x39, 0x30, 0x31, 0x32,
      0x33]))) [DisplayControl_into DisplayControl.UntilCleared, 0x31, 0x32, 0x33, 0x34, 0x35,
      0x36, 0x37, 0x38, 0x39, 0x30, 0x31, 0x32, 0x33] False False,
    HasOpcode (Message.SetOsdString DisplayControl.UntilCleared (the_Ok (buffer_from_str 13 [])))
     Opcode.SetOsdString,
    DecodesTo [Opcode_into Opcode.SetOsdString] (Err (OutOfRange (AtLeast 2) 1 ''bytes''))]"

definition test_set_osd_name :: "(Opcode, Message) message_test list" where
  "test_set_osd_name =
   [MessageTest True Opcode.SetOsdName (Message.SetOsdName (the_Ok (buffer_from_str 14 []))) []
     False False,
    MessageTest True Opcode.SetOsdName (Message.SetOsdName (the_Ok (buffer_from_str 14 [0x31,
     0x32, 0x33, 0x34, 0x35, 0x36, 0x37, 0x38, 0x39, 0x30, 0x31, 0x32, 0x33, 0x34]))) [0x31,
      0x32, 0x33, 0x34, 0x35, 0x36, 0x37, 0x38, 0x39, 0x30, 0x31, 0x32, 0x33, 0x34] False False,
    HasOpcode (Message.SetOsdName (the_Ok (buffer_from_str 14 [0x31, 0x32, 0x33, 0x34, 0x35, 0x36,
     0x37, 0x38, 0x39, 0x30, 0x31, 0x32, 0x33, 0x34]))) Opcode.SetOsdName]"

definition test_menu_request :: "(Opcode, Message) message_test list" where
  "test_menu_request =
   [MessageTest False Opcode.MenuRequest (Message.MenuRequest MenuRequestType.Query)
     [MenuRequestType_into MenuRequestType.Query] True True]"

definition test_menu_state :: "(Opcode, Message) message_test list" where
  "test_menu_state =
   [MessageTest False Opcode.MenuStatus (Message.MenuStatus MenuState.Deactivated) [MenuState_into
     MenuState.Deactivated] True True]"

definition test_user_control_pressed :: "(Opcode, Message) message_test list" where
  "test_user_control_pressed =
   [MessageTest False Opcode.UserControlPressed (Message.UserControlPressed UiCommand.Play) [0x44]
     True True]"

definition test_report_power_status :: "(Opcode, Message) message_test list" where
  "test_report_power_status =
   [MessageTest False Opcode.ReportPowerStatus (Message.ReportPowerStatus PowerStatus.ToOn)
     [PowerStatus_into PowerStatus.ToOn] True True]"

definition test_feature_abort :: "(Opcode, Message) message_test list" where
  "test_feature_abort =
   [MessageTest False Opcode.FeatureAbort (Message.FeatureAbort (Opcode_into Opcode.FeatureAbort)
     AbortReason.IncorrectMode) [Opcode_into Opcode.FeatureAbort, AbortReason_into
      AbortReason.IncorrectMode] True True,
    DecodesTo [Opcode_into Opcode.FeatureAbort, Opcode_into Opcode.FeatureAbort] (Err (OutOfRange
     (AtLeast 3) 2 ''bytes''))]"

definition test_report_audio_status :: "(Opcode, Message) message_test list" where
  "test_report_audio_status =
   [MessageTest False Opcode.ReportAudioStatus (Message.ReportAudioStatus (AudioStatus_with_mute
     True (AudioStatus_with_volume 2 (AudioStatus 0)))) [0x82] True True]"

definition test_report_short_audio_descriptor :: "(Opcode, Message) message_test list" where
  "test_report_short_audio_descriptor =
   [MessageTest True Opcode.ReportShortAudioDescriptor (Message.ReportShortAudioDescriptor
     (buffer_default [0, 0, 0] 4)) [] False False,
    MessageTest True Opcode.ReportShortAudioDescriptor (Message.ReportShortAudioDescriptor (the_Ok
     (buffer_from_slice [0, 0, 0] 4 [[1, 0x23, 0x45], [0x67, 0x89, 0xAB], [0xCD, 0xEF, 0xFE],
      [0xDC, 0xBA, 0x98]]))) [1, 0x23, 0x45, 0x67, 0x89, 0xAB, 0xCD, 0xEF, 0xFE, 0xDC, 0xBA, 0x98]
      False False,
    HasOpcode (Message.ReportShortAudioDescriptor (the_Ok (buffer_from_slice [0, 0, 0] 4 [[1,
     0x23, 0x45], [0x67, 0x89, 0xAB], [0xCD, 0xEF, 0xFE], [0xDC, 0xBA, 0x98]])))
      Opcode.ReportShortAudioDescriptor]"

definition test_request_short_audio_descriptor :: "(Opcode, Message) message_test list" where
  "test_request_short_audio_descriptor =
   [MessageTest True Opcode.RequestShortAudioDescriptor (Message.RequestShortAudioDescriptor
     (buffer_default (AudioFormatIdAndCode 0) 4)) [] False False,
    MessageTest True Opcode.RequestShortAudioDescriptor (Message.RequestShortAudioDescriptor
     (the_Ok (buffer_from_slice (AudioFormatIdAndCode 0) 4 [AudioFormatIdAndCode_with_id
      AudioFormatId.CEA861 (AudioFormatIdAndCode_with_code 1 (AudioFormatIdAndCode 0)),
      AudioFormatIdAndCode_with_id AudioFormatId.CEA861 (AudioFormatIdAndCode_with_code 2
      (AudioFormatIdAndCode 0)), AudioFormatIdAndCode_with_id AudioFormatId.CEA861Cxt
      (AudioFormatIdAndCode_with_code 3 (AudioFormatIdAndCode 0)), AudioFormatIdAndCode_with_id
      AudioFormatId.CEA861Cxt (AudioFormatIdAndCode_with_code 4 (AudioFormatIdAndCode 0))]))) [1,
      2, 0x43, 0x44] False False,
    HasOpcode (Message.RequestShortAudioDescriptor (the_Ok (buffer_from_slice
     (AudioFormatIdAndCode 0) 4 [AudioFormatIdAndCode_with_id AudioFormatId.CEA861
      (AudioFormatIdAndCode_with_code 1 (AudioFormatIdAndCode 0)), AudioFormatIdAndCode_with_id
      AudioFormatId.CEA861 (AudioFormatIdAndCode_with_code 2 (AudioFormatIdAndCode 0)),
      AudioFormatIdAndCode_with_id AudioFormatId.CEA861Cxt (AudioFormatIdAndCode_with_code 3
      (AudioFormatIdAndCode 0)), AudioFormatIdAndCode_with_id AudioFormatId.CEA861Cxt
      (AudioFormatIdAndCode_with_code 4 (AudioFormatIdAndCode 0))])))
      Opcode.RequestShortAudioDescriptor]"

definition test_set_system_audio_mode :: "(Opcode, Message) message_test list" where
  "test_set_system_audio_mode =
   [MessageTest False Opcode.SetSystemAudioMode (Message.SetSystemAudioMode True) [1] True True]"

definition test_system_audio_mode_request :: "(Opcode, Message) message_test list" where
  "test_system_audio_mode_request =
   [MessageTest False Opcode.SystemAudioModeRequest (Message.SystemAudioModeRequest
     (PhysicalAddress.PhysicalAddress 0x1234)) [0x12, 0x34] True True,
    DecodesTo [Opcode_into Opcode.SystemAudioModeRequest, 0x12] (Err (OutOfRange (AtLeast 3) 2
     ''bytes''))]"

definition test_system_audio_mode_status :: "(Opcode, Message) message_test list" where
  "test_system_audio_mode_status =
   [MessageTest False Opcode.SystemAudioModeStatus (Message.SystemAudioModeStatus True) [1] True
     True]"

definition test_set_audio_rate :: "(Opcode, Message) message_test list" where
  "test_set_audio_rate =
   [MessageTest False Opcode.SetAudioRate (Message.SetAudioRate AudioRate.WideFast)
     [AudioRate_into AudioRate.WideFast] True True]"

definition test_cdc_message :: "(Opcode, Message) message_test list" where
  "test_cdc_message =
   [MessageTest False Opcode.CdcMessage (Message.CdcMessage (PhysicalAddress.PhysicalAddress
     0x123) (CdcMessage.HecRequestDeactivation (PhysicalAddress.PhysicalAddress 0x4567)
      (PhysicalAddress.PhysicalAddress 0x89AB) (PhysicalAddress.PhysicalAddress 0xCDEF))) [1,
      0x23, CdcOpcode_into CdcOpcode.HecRequestDeactivation, 0x45, 0x67, 0x89, 0xAB, 0xCD, 0xEF]
      True True,
    DecodesTo [Opcode_into Opcode.CdcMessage, 1, 0x23, CdcOpcode_into
     CdcOpcode.HecRequestDeactivation] (Err (OutOfRange (AtLeast 0x0A) 4 ''bytes'')),
    DecodesTo [Opcode_into Opcode.CdcMessage, 1, 0x23] (Err (OutOfRange (AtLeast 4) 3 ''bytes'')),
    DecodesTo [Opcode_into Opcode.CdcMessage, 1] (Err (OutOfRange (AtLeast 4) 2 ''bytes''))]"

definition test_report_features_1 :: "(Opcode, Message) message_test list" where
  "test_report_features_1 =
   [MessageTest True Opcode.ReportFeatures (Message.ReportFeatures Version.V2_0
     AllDeviceTypes_PLAYBACK (RcProfile_new (RcProfile1.Source RcProfileSource_all))
      (DeviceFeatures_new DeviceFeatures1_all)) [Version_into Version.V2_0, AllDeviceTypes_bits
      AllDeviceTypes_PLAYBACK, RcProfileSource_bits RcProfileSource_all, DeviceFeatures1_bits
      DeviceFeatures1_all] True False,
    MessageTest True Opcode.ReportFeatures (Message.ReportFeatures Version.V2_0
     AllDeviceTypes_PLAYBACK \<lparr>RcProfile.rc_profile_1 = RcProfile1.Source
      RcProfileSource_all, RcProfile.rc_profile_n = the_Ok (buffer_from_slice 0 14 [0, 0, 0, 0, 0,
      0, 0, 0, 0])\<rparr> (DeviceFeatures_new DeviceFeatures1_all)) [Version_into Version.V2_0,
      AllDeviceTypes_bits AllDeviceTypes_PLAYBACK, (RcProfileSource_bits RcProfileSource_all) OR
      0x80, 0x80, 0x80, 0x80, 0x80, 0x80, 0x80, 0x80, 0x80, 0, DeviceFeatures1_bits
      DeviceFeatures1_all] False False,
    MessageTest True Opcode.ReportFeatures (Message.ReportFeatures Version.V2_0
     AllDeviceTypes_PLAYBACK (RcProfile_new (RcProfile1.Source RcProfileSource_all))
      \<lparr>DeviceFeatures.device_features_1 = DeviceFeatures1_all,
      DeviceFeatures.device_features_n = the_Ok (buffer_from_slice 0 14 [0, 0, 0, 0, 0, 0, 0, 0,
      0])\<rparr>) [Version_into Version.V2_0, AllDeviceTypes_bits AllDeviceTypes_PLAYBACK,
      RcProfileSource_bits RcProfileSource_all, (DeviceFeatures1_bits DeviceFeatures1_all) OR
      0x80, 0x80, 0x80, 0x80, 0x80, 0x80, 0x80, 0x80, 0x80, 0] False False,
    MessageTest True Opcode.ReportFeatures (Message.ReportFeatures Version.V2_0
     AllDeviceTypes_PLAYBACK \<lparr>RcProfile.rc_profile_1 = RcProfile1.Source
      RcProfileSource_all, RcProfile.rc_profile_n = the_Ok (buffer_from_slice 0 14 [0, 0, 0, 0,
      0])\<rparr> \<lparr>DeviceFeatures.device_features_1 = DeviceFeatures1_all,
      DeviceFeatures.device_features_n = the_Ok (buffer_from_slice 0 14 [0, 0, 0, 0, 0])\<rparr>)
      [Version_into Version.V2_0, AllDeviceTypes_bits AllDeviceTypes_PLAYBACK,
      (RcProfileSource_bits RcProfileSource_all) OR 0x80, 0x80, 0x80, 0x80, 0x80, 0,
      (DeviceFeatures1_bits DeviceFeatures1_all) OR 0x80, 0x80, 0x80, 0x80, 0x80, 0] False False]"

definition test_report_features_2 :: "(Opcode, Message) message_test list" where
  "test_report_features_2 =
   [HasOpcode (Message.ReportFeatures Version.V2_0 AllDeviceTypes_PLAYBACK (RcProfile_new
     (RcProfile1.Source RcProfileSource_all)) (DeviceFeatures_new DeviceFeatures1_all))
      Opcode.ReportFeatures,
    DecodesTo [Opcode_into Opcode.ReportFeatures, Version_into Version.V2_0, AllDeviceTypes_bits
     AllDeviceTypes_PLAYBACK, RcProfileSource_bits RcProfileSource_all] (Err (OutOfRange (AtLeast
      5) 4 ''bytes'')),
    DecodesTo [Opcode_into Opcode.ReportFeatures, Version_into Version.V2_0, AllDeviceTypes_bits
     AllDeviceTypes_PLAYBACK] (Err (OutOfRange (AtLeast 5) 3 ''bytes'')),
    DecodesTo [Opcode_into Opcode.ReportFeatures, Version_into Version.V2_0] (Err (OutOfRange
     (AtLeast 5) 2 ''bytes'')),
    DecodesTo [Opcode_into Opcode.ReportFeatures] (Err (OutOfRange (AtLeast 5) 1 ''bytes''))]"

definition test_request_current_latency :: "(Opcode, Message) message_test list" where
  "test_request_current_latency =
   [MessageTest False Opcode.RequestCurrentLatency (Message.RequestCurrentLatency
     (PhysicalAddress.PhysicalAddress 0x1234)) [0x12, 0x34] True True,
    DecodesTo [Opcode_into Opcode.RequestCurrentLatency, 0x12] (Err (OutOfRange (AtLeast 3) 2
     ''bytes''))]"

definition test_report_current_latency :: "(Opcode, Message) message_test list" where
  "test_report_current_latency =
   [MessageTest False Opcode.ReportCurrentLatency (Message.ReportCurrentLatency
     (PhysicalAddress.PhysicalAddress 0x1234) (the_Ok (Delay_try_from 0x56))
      (LatencyFlags_with_low_latency_mode True (LatencyFlags_with_audio_out_compensated
      AudioOutputCompensated.PartialDelay (LatencyFlags 0))) (Some (the_Ok (Delay_try_from
      0x78)))) [0x12, 0x34, 0x56, 7, 0x78] True True,
    MessageTest True Opcode.ReportCurrentLatency (Message.ReportCurrentLatency
     (PhysicalAddress.PhysicalAddress 0x1234) (the_Ok (Delay_try_from 0x56))
      (LatencyFlags_with_low_latency_mode True (LatencyFlags_with_audio_out_compensated
      AudioOutputCompensated.NoDelay (LatencyFlags 0))) None) [0x12, 0x34, 0x56, 6] False False,
    DecodesTo [Opcode_into Opcode.ReportCurrentLatency, 0x12, 0x34, 0x56] (Err (OutOfRange
     (AtLeast 5) 4 ''bytes'')),
    DecodesTo [Opcode_into Opcode.ReportCurrentLatency, 0x12, 0x34] (Err (OutOfRange (AtLeast 5) 3
     ''bytes'')),
    DecodesTo [Opcode_into Opcode.ReportCurrentLatency, 0x12] (Err (OutOfRange (AtLeast 5) 2
     ''bytes''))]"


section \<open>The model passes them\<close>

lemma unit_tests_pass [passes]: "list_all (\<lambda>(oc, m). unit_tests oc m) unit_messages"
  by (simp add: unit_messages_def unit_tests_def run_test del: Opcode_into.simps)

lemma test_active_source_pass [passes]: "list_all (message_test_passes Message_codec) test_active_source"
  by (simp add: test_active_source_def run_test del: Opcode_into.simps)

lemma test_inactive_source_pass [passes]: "list_all (message_test_passes Message_codec) test_inactive_source"
  by (simp add: test_inactive_source_def run_test del: Opcode_into.simps)

lemma test_routing_change_pass [passes]: "list_all (message_test_passes Message_codec) test_routing_change"
  by (simp add: test_routing_change_def run_test del: Opcode_into.simps)

lemma test_routing_information_pass [passes]: "list_all (message_test_passes Message_codec) test_routing_information"
  by (simp add: test_routing_information_def run_test del: Opcode_into.simps)

lemma test_set_stream_path_pass [passes]: "list_all (message_test_passes Message_codec) test_set_stream_path"
  by (simp add: test_set_stream_path_def run_test del: Opcode_into.simps)

lemma test_record_on_pass [passes]: "list_all (message_test_passes Message_codec) test_record_on"
  by (simp add: test_record_on_def run_test del: Opcode_into.simps)

lemma test_record_status_pass [passes]: "list_all (message_test_passes Message_codec) test_record_status"
  by (simp add: test_record_status_def run_test del: Opcode_into.simps)

lemma test_clear_analogue_timer_pass [passes]: "list_all (message_test_passes Message_codec) test_clear_analogue_timer"
  by (simp add: test_clear_analogue_timer_def run_test del: Opcode_into.simps)

lemma test_clear_digital_timer_pass [passes]: "list_all (message_test_passes Message_codec) test_clear_digital_timer"
  by (simp add: test_clear_digital_timer_def run_test del: Opcode_into.simps)

lemma test_clear_ext_timer_1_pass [passes]: "list_all (message_test_passes Message_codec) test_clear_ext_timer_1"
  by (simp add: test_clear_ext_timer_1_def run_test del: Opcode_into.simps)

lemma test_clear_ext_timer_2_pass [passes]: "list_all (message_test_passes Message_codec) test_clear_ext_timer_2"
  by (simp add: test_clear_ext_timer_2_def run_test del: Opcode_into.simps)

lemma test_set_analogue_timer_pass [passes]: "list_all (message_test_passes Message_codec) test_set_analogue_timer"
  by (simp add: test_set_analogue_timer_def run_test del: Opcode_into.simps)

lemma test_set_digital_timer_pass [passes]: "list_all (message_test_passes Message_codec) test_set_digital_timer"
  by (simp add: test_set_digital_timer_def run_test del: Opcode_into.simps)

lemma test_set_ext_timer_1_pass [passes]: "list_all (message_test_passes Message_codec) test_set_ext_timer_1"
  by (simp add: test_set_ext_timer_1_def run_test del: Opcode_into.simps)

lemma test_set_ext_timer_2_pass [passes]: "list_all (message_test_passes Message_codec) test_set_ext_timer_2"
  by (simp add: test_set_ext_timer_2_def run_test del: Opcode_into.simps)

lemma test_set_timer_program_title_pass [passes]: "list_all (message_test_passes Message_codec) test_set_timer_program_title"
  by (simp add: test_set_timer_program_title_def run_test del: Opcode_into.simps)

lemma test_timer_cleared_status_pass [passes]: "list_all (message_test_passes Message_codec) test_timer_cleared_status"
  by (simp add: test_timer_cleared_status_def run_test del: Opcode_into.simps)

lemma test_timer_status_pass [passes]: "list_all (message_test_passes Message_codec) test_timer_status"
  by (simp add: test_timer_status_def run_test del: Opcode_into.simps)

lemma test_cec_version_pass [passes]: "list_all (message_test_passes Message_codec) test_cec_version"
  by (simp add: test_cec_version_def run_test del: Opcode_into.simps)

lemma test_report_physical_addr_pass [passes]: "list_all (message_test_passes Message_codec) test_report_physical_addr"
  by (simp add: test_report_physical_addr_def run_test del: Opcode_into.simps)

lemma test_set_menu_language_pass [passes]: "list_all (message_test_passes Message_codec) test_set_menu_language"
  by (simp add: test_set_menu_language_def run_test del: Opcode_into.simps)

lemma test_deck_control_pass [passes]: "list_all (message_test_passes Message_codec) test_deck_control"
  by (simp add: test_deck_control_def run_test del: Opcode_into.simps)

lemma test_deck_status_pass [passes]: "list_all (message_test_passes Message_codec) test_deck_status"
  by (simp add: test_deck_status_def run_test del: Opcode_into.simps)

lemma test_give_deck_status_pass [passes]: "list_all (message_test_passes Message_codec) test_give_deck_status"
  by (simp add: test_give_deck_status_def run_test del: Opcode_into.simps)

lemma test_play_pass [passes]: "list_all (message_test_passes Message_codec) test_play"
  by (simp add: test_play_def run_test del: Opcode_into.simps)

lemma test_give_tuner_device_status_pass [passes]: "list_all (message_test_passes Message_codec) test_give_tuner_device_status"
  by (simp add: test_give_tuner_device_status_def run_test del: Opcode_into.simps)

lemma test_select_analogue_service_pass [passes]: "list_all (message_test_passes Message_codec) test_select_analogue_service"
  by (simp add: test_select_analogue_service_def run_test del: Opcode_into.simps)

lemma test_select_digital_service_pass [passes]: "list_all (message_test_passes Message_codec) test_select_digital_service"
  by (simp add: test_select_digital_service_def run_test del: Opcode_into.simps)

lemma test_tuner_device_status_pass [passes]: "list_all (message_test_passes Message_codec) test_tuner_device_status"
  by (simp add: test_tuner_device_status_def run_test del: Opcode_into.simps)

lemma test_device_vendor_id_pass [passes]: "list_all (message_test_passes Message_codec) test_device_vendor_id"
  by (simp add: test_device_vendor_id_def run_test del: Opcode_into.simps)

lemma test_vendor_command_pass [passes]: "list_all (message_test_passes Message_codec) test_vendor_command"
  by (simp add: test_vendor_command_def run_test del: Opcode_into.simps)

lemma test_vendor_command_with_id_pass [passes]: "list_all (message_test_passes Message_codec) test_vendor_command_with_id"
  by (simp add: test_vendor_command_with_id_def run_test del: Opcode_into.simps)

lemma test_vendor_remote_button_down_pass [passes]: "list_all (message_test_passes Message_codec) test_vendor_remote_button_down"
  by (simp add: test_vendor_remote_button_down_def run_test del: Opcode_into.simps)

lemma test_set_osd_string_pass [passes]: "list_all (message_test_passes Message_codec) test_set_osd_string"
  by (simp add: test_set_osd_string_def run_test del: Opcode_into.simps)

lemma test_set_osd_name_pass [passes]: "list_all (message_test_passes Message_codec) test_set_osd_name"
  by (simp add: test_set_osd_name_def run_test del: Opcode_into.simps)

lemma test_menu_request_pass [passes]: "list_all (message_test_passes Message_codec) test_menu_request"
  by (simp add: test_menu_request_def run_test del: Opcode_into.simps)

lemma test_menu_state_pass [passes]: "list_all (message_test_passes Message_codec) test_menu_state"
  by (simp add: test_menu_state_def run_test del: Opcode_into.simps)

lemma test_user_control_pressed_pass [passes]: "list_all (message_test_passes Message_codec) test_user_control_pressed"
  by (simp add: test_user_control_pressed_def run_test del: Opcode_into.simps)

lemma test_report_power_status_pass [passes]: "list_all (message_test_passes Message_codec) test_report_power_status"
  by (simp add: test_report_power_status_def run_test del: Opcode_into.simps)

lemma test_feature_abort_pass [passes]: "list_all (message_test_passes Message_codec) test_feature_abort"
  by (simp add: test_feature_abort_def run_test del: Opcode_into.simps)

lemma test_report_audio_status_pass [passes]: "list_all (message_test_passes Message_codec) test_report_audio_status"
  by (simp add: test_report_audio_status_def run_test del: Opcode_into.simps)

lemma test_report_short_audio_descriptor_pass [passes]: "list_all (message_test_passes Message_codec) test_report_short_audio_descriptor"
  by (simp add: test_report_short_audio_descriptor_def run_test del: Opcode_into.simps)

lemma test_request_short_audio_descriptor_pass [passes]: "list_all (message_test_passes Message_codec) test_request_short_audio_descriptor"
  by (simp add: test_request_short_audio_descriptor_def run_test del: Opcode_into.simps)

lemma test_set_system_audio_mode_pass [passes]: "list_all (message_test_passes Message_codec) test_set_system_audio_mode"
  by (simp add: test_set_system_audio_mode_def run_test del: Opcode_into.simps)

lemma test_system_audio_mode_request_pass [passes]: "list_all (message_test_passes Message_codec) test_system_audio_mode_request"
  by (simp add: test_system_audio_mode_request_def run_test del: Opcode_into.simps)

lemma test_system_audio_mode_status_pass [passes]: "list_all (message_test_passes Message_codec) test_system_audio_mode_status"
  by (simp add: test_system_audio_mode_status_def run_test del: Opcode_into.simps)

lemma test_set_audio_rate_pass [passes]: "list_all (message_test_passes Message_codec) test_set_audio_rate"
  by (simp add: test_set_audio_rate_def run_test del: Opcode_into.simps)

lemma test_cdc_message_pass [passes]: "list_all (message_test_passes Message_codec) test_cdc_message"
  by (simp add: test_cdc_message_def run_test del: Opcode_into.simps)

lemma test_report_features_1_pass [passes]: "list_all (message_test_passes Message_codec) test_report_features_1"
  by (simp add: test_report_features_1_def run_test del: Opcode_into.simps)

lemma test_report_features_2_pass [passes]: "list_all (message_test_passes Message_codec) test_report_features_2"
  by (simp add: test_report_features_2_def run_test del: Opcode_into.simps)

lemma test_request_current_latency_pass [passes]: "list_all (message_test_passes Message_codec) test_request_current_latency"
  by (simp add: test_request_current_latency_def run_test del: Opcode_into.simps)

lemma test_report_current_latency_pass [passes]: "list_all (message_test_passes Message_codec) test_report_current_latency"
  by (simp add: test_report_current_latency_def run_test del: Opcode_into.simps)


end
