(* ===== verification/OperandTests.thy ===== *)
theory OperandTests
  imports CodecTests
begin

text \<open>
  The test modules of \<open>linux-cec/src/operand.rs\<close> and \<open>linux-cec/src/cdc.rs\<close>, under their own names:
  for an operand, the conjunction of its tests, in their order; for a capability discovery message,
  the list of its tests. A module of more than 150 lines is two definitions.
\<close>

section \<open>Operands\<close>

definition test_delay :: bool where
  "test_delay \<longleftrightarrow>
    opcode_test Delay_to_bytes Delay_try_from_bytes (\<lambda>_. 1) (Delay.Delay 1) [1] True \<and>
    opcode_test Delay_to_bytes Delay_try_from_bytes (\<lambda>_. 1) (Delay.Delay 0xFB) [0xFB] True \<and>
    Delay_try_from_bytes [0] = Err (OutOfRange (range_inclusive 1 0xFB) 0 ''value'') \<and>
    Delay_try_from_bytes [0xFC] = Err (OutOfRange (range_inclusive 1 0xFB) 0xFC ''value'') \<and>
    Delay_to_bytes (Delay.Delay 0) = Some [0] \<and>
    Delay_to_bytes (Delay.Delay 0xFF) = Some [0xFF] \<and>
    Delay_try_from_bytes [] = Err (OutOfRange (AtLeast 1) 0 ''bytes'')"

definition test_audio_volume_level :: bool where
  "test_audio_volume_level \<longleftrightarrow>
    opcode_test AudioVolumeLevel_to_bytes AudioVolumeLevel_try_from_bytes (\<lambda>_. 1)
     (AudioVolumeLevel.AudioVolumeLevel 0) [0] True \<and>
    opcode_test AudioVolumeLevel_to_bytes AudioVolumeLevel_try_from_bytes (\<lambda>_. 1)
     (AudioVolumeLevel.AudioVolumeLevel 0x64) [0x64] True \<and>
    opcode_test AudioVolumeLevel_to_bytes AudioVolumeLevel_try_from_bytes (\<lambda>_. 1)
     (AudioVolumeLevel.AudioVolumeLevel 0x7F) [0x7F] True \<and>
    AudioVolumeLevel_try_from_bytes [0x65] = Err (OutOfRange (range_inclusive 0 0x64) 0x65
     ''value'') \<and>
    AudioVolumeLevel_try_from_bytes [0x80] = Err (OutOfRange (range_inclusive 0 0x64) 0x80
     ''value'') \<and>
    AudioVolumeLevel_to_bytes (AudioVolumeLevel.AudioVolumeLevel 0x65) = Some [0x65] \<and>
    AudioVolumeLevel_to_bytes (AudioVolumeLevel.AudioVolumeLevel 0x80) = Some [0x80] \<and>
    AudioVolumeLevel_try_from_bytes [] = Err (OutOfRange (AtLeast 1) 0 ''bytes'')"

definition test_u8 :: bool where
  "test_u8 \<longleftrightarrow>
    opcode_test u8_to_bytes u8_try_from_bytes (\<lambda>_. 1) 0x56 [0x56] True \<and>
    u8_try_from_bytes [] = Err (OutOfRange (AtLeast 1) 0 ''bytes'')"

definition test_option :: bool where
  "test_option \<longleftrightarrow>
    opcode_test (option_to_bytes u8_to_bytes) (option_try_from_bytes u8_try_from_bytes)
     (option_len (\<lambda>_. 1)) None [] False \<and>
    opcode_test (option_to_bytes u8_to_bytes) (option_try_from_bytes u8_try_from_bytes)
     (option_len (\<lambda>_. 1)) (Some 0x56) [0x56] True"

definition test_array :: bool where
  "test_array \<longleftrightarrow>
    opcode_test array_to_bytes (array_try_from_bytes 1) (\<lambda>_. 1) [0x56] [0x56] True \<and>
    opcode_test array_to_bytes (array_try_from_bytes 2) (\<lambda>_. 2) [0x56, 0x78] [0x56, 0x78]
     True \<and>
    opcode_test array_to_bytes (array_try_from_bytes 3) (\<lambda>_. 3) [0x56, 0x78, 0x9A] [0x56,
     0x78, 0x9A] True \<and>
    (array_try_from_bytes 2) [0x12] = Err (OutOfRange (AtLeast 2) 1 ''bytes'') \<and>
    (array_try_from_bytes 3) [0x12] = Err (OutOfRange (AtLeast 3) 1 ''bytes'') \<and>
    (array_try_from_bytes 1) [] = Err (OutOfRange (AtLeast 1) 0 ''bytes'')"

definition test_u16 :: bool where
  "test_u16 \<longleftrightarrow>
    opcode_test u16_to_bytes u16_try_from_bytes (\<lambda>_. 2) 0x5678 [0x56, 0x78] True \<and>
    u16_try_from_bytes [0x56] = Err (OutOfRange (AtLeast 2) 1 ''bytes'') \<and>
    u16_try_from_bytes [] = Err (OutOfRange (AtLeast 2) 0 ''bytes'')"

definition test_bool :: bool where
  "test_bool \<longleftrightarrow>
    opcode_test bool_to_bytes bool_try_from_bytes (\<lambda>_. 1) True [1] True \<and>
    opcode_test bool_to_bytes bool_try_from_bytes (\<lambda>_. 1) False [0] True \<and>
    bool_try_from_bytes [2] = Ok True \<and>
    bool_try_from_bytes [] = Err (OutOfRange (AtLeast 1) 0 ''bytes'')"

definition test_tagged_length_buffer :: bool where
  "test_tagged_length_buffer \<longleftrightarrow>
    U8Buffer_fixed_param \<lparr>U8Buffer.first_param = U8.U8 0x56, U8Buffer.rest_params =
     replicate 0x0D 0, U8Buffer.rest_len = 0\<rparr> = U8.U8 0x56 \<and>
    U8Buffer_extra_params \<lparr>U8Buffer.first_param = U8.U8 0, U8Buffer.rest_params = [1, 2, 3,
     4, 5, 6, 7, 8, 9, 0x0A, 0x0B, 0x0C, 0x0D], U8Buffer.rest_len = 2\<rparr> = Some [1, 2] \<and>
    Ok \<lparr>U8Buffer.first_param = U8.U8 0x56, U8Buffer.rest_params = [0x78, 0, 0, 0, 0, 0, 0,
     0, 0, 0, 0, 0, 0], U8Buffer.rest_len = 1\<rparr> = U8Buffer_try_new (U8.U8 0x56) [0x78] \<and>
    opcode_test U8Buffer_to_bytes U8Buffer_try_from_bytes U8Buffer_len
     \<lparr>U8Buffer.first_param = U8.U8 0x12, U8Buffer.rest_params = replicate 0x0D 0,
      U8Buffer.rest_len = 0\<rparr> [0x12] False \<and>
    opcode_test U8Buffer_to_bytes U8Buffer_try_from_bytes U8Buffer_len
     \<lparr>U8Buffer.first_param = U8.U8 0x12, U8Buffer.rest_params = [0x34, 0, 0, 0, 0, 0, 0,
      0, 0, 0, 0, 0, 0], U8Buffer.rest_len = 1\<rparr> [0x92, 0x34] False \<and>
    opcode_test U8Buffer_to_bytes U8Buffer_try_from_bytes U8Buffer_len
     \<lparr>U8Buffer.first_param = U8.U8 0x12, U8Buffer.rest_params = [0x34, 0x56, 0, 0, 0, 0,
      0, 0, 0, 0, 0, 0, 0], U8Buffer.rest_len = 2\<rparr> [0x92, 0xB4, 0x56] False \<and>
    U8Buffer_try_from_bytes [] = Err (OutOfRange (AtLeast 1) 0 ''bytes'') \<and>
    U8Buffer_try_from_bytes [0x12, 0x34] = Ok \<lparr>U8Buffer.first_param = U8.U8 0x12,
     U8Buffer.rest_params = replicate 0x0D 0, U8Buffer.rest_len = 0\<rparr> \<and>
    U8Buffer_try_from_bytes [0x92, 0x34, 0x56] = Ok \<lparr>U8Buffer.first_param = U8.U8 0x12,
     U8Buffer.rest_params = [0x34, 0, 0, 0, 0, 0, 0, 0, 0, 0, 0, 0, 0], U8Buffer.rest_len =
      1\<rparr> \<and>
    U8Buffer_try_from_bytes [0x92] = Ok \<lparr>U8Buffer.first_param = U8.U8 0x12,
     U8Buffer.rest_params = replicate 0x0D 0, U8Buffer.rest_len = 0\<rparr> \<and>
    U8Buffer_try_from_bytes [0x92, 0xB4] = Ok \<lparr>U8Buffer.first_param = U8.U8 0x12,
     U8Buffer.rest_params = [0x34, 0, 0, 0, 0, 0, 0, 0, 0, 0, 0, 0, 0], U8Buffer.rest_len =
      1\<rparr>"

definition test_buffer_operand :: bool where
  "test_buffer_operand \<longleftrightarrow>
    opcode_test (buffer_to_bytes u8_to_bytes) (buffer_try_from_bytes u8_try_from_bytes 1 0 2)
     (buffer_len 1 2) \<lparr>BoundedBufferOperand.buffer = replicate 2 0,
      BoundedBufferOperand.used = 0\<rparr> [] False \<and>
    opcode_test (buffer_to_bytes u8_to_bytes) (buffer_try_from_bytes u8_try_from_bytes 1 0 2)
     (buffer_len 1 2) \<lparr>BoundedBufferOperand.buffer = [0x12, 0], BoundedBufferOperand.used
      = 1\<rparr> [0x12] False \<and>
    opcode_test (buffer_to_bytes u8_to_bytes) (buffer_try_from_bytes u8_try_from_bytes 1 0 2)
     (buffer_len 1 2) \<lparr>BoundedBufferOperand.buffer = [0x12, 0x34],
      BoundedBufferOperand.used = 2\<rparr> [0x12, 0x34] False \<and>
    opcode_test (buffer_to_bytes u16_to_bytes) (buffer_try_from_bytes u16_try_from_bytes 2 0 2)
     (buffer_len 2 2) \<lparr>BoundedBufferOperand.buffer = replicate 2 0,
      BoundedBufferOperand.used = 0\<rparr> [] False \<and>
    opcode_test (buffer_to_bytes u16_to_bytes) (buffer_try_from_bytes u16_try_from_bytes 2 0 2)
     (buffer_len 2 2) \<lparr>BoundedBufferOperand.buffer = [0x1234, 0],
      BoundedBufferOperand.used = 1\<rparr> [0x12, 0x34] False \<and>
    opcode_test (buffer_to_bytes u16_to_bytes) (buffer_try_from_bytes u16_try_from_bytes 2 0 2)
     (buffer_len 2 2) \<lparr>BoundedBufferOperand.buffer = [0x1234, 0x5678],
      BoundedBufferOperand.used = 2\<rparr> [0x12, 0x34, 0x56, 0x78] False \<and>
    (buffer_to_bytes u8_to_bytes) \<lparr>BoundedBufferOperand.buffer = [0x12, 0x34],
     BoundedBufferOperand.used = 1\<rparr> = Some [0x12] \<and>
    the_Ok ((buffer_try_from_bytes u8_try_from_bytes 1 0 2) [0x12, 0x34, 0x56]) =
     \<lparr>BoundedBufferOperand.buffer = [0x12, 0x34], BoundedBufferOperand.used = 2\<rparr> \<and>
    the_Ok ((buffer_try_from_bytes u16_try_from_bytes 2 0 2) [0x12, 0x34, 0x56]) =
     \<lparr>BoundedBufferOperand.buffer = [0x1234, 0], BoundedBufferOperand.used = 1\<rparr> \<and>
    used (the_Ok (buffer_from_str 3 [0x61, 0x62, 0x63])) = 3 \<and>
    buffer (the_Ok (buffer_from_str 3 [0x61, 0x62, 0x63])) = [0x61, 0x62, 0x63] \<and>
    used (the_Ok (buffer_from_str 4 [0x61, 0x62, 0x63])) = 3 \<and>
    buffer (the_Ok (buffer_from_str 4 [0x61, 0x62, 0x63])) \<noteq> [0x61, 0x62, 0x63] \<and>
    buffer (the_Ok (buffer_from_str 4 [0x61, 0x62, 0x63])) = [0x61, 0x62, 0x63, 0] \<and>
    buffer_from_str 2 [0x61, 0x62, 0x63] = Err (OutOfRange (AtMost 2) 3 ''bytes'') \<and>
    buffer_from_str 2 [0xF0, 0x9F, 0x92, 0xA9] = Err (OutOfRange (AtMost 2) 4 ''bytes'')"

definition test_ui_command_1 :: bool where
  "test_ui_command_1 \<longleftrightarrow>
    opcode_test UiCommand_to_bytes UiCommand_try_from_bytes UiCommand_len UiCommand.Play [0x44]
     True \<and>
    opcode_test UiCommand_to_bytes UiCommand_try_from_bytes UiCommand_len
     (UiCommand.SelectBroadcastType None) [0x56] False \<and>
    opcode_test UiCommand_to_bytes UiCommand_try_from_bytes UiCommand_len
     (UiCommand.SelectBroadcastType (Some UiBroadcastType.Ip)) [0x56, UiBroadcastType_into
      UiBroadcastType.Ip] True \<and>
    opcode_test UiCommand_to_bytes UiCommand_try_from_bytes UiCommand_len
     (UiCommand.SelectSoundPresentation None) [0x57] False \<and>
    opcode_test UiCommand_to_bytes UiCommand_try_from_bytes UiCommand_len
     (UiCommand.SelectSoundPresentation (Some UiSoundPresentationControl.Karaoke)) [0x57,
      UiSoundPresentationControl_into UiSoundPresentationControl.Karaoke] True \<and>
    opcode_test UiCommand_to_bytes UiCommand_try_from_bytes UiCommand_len (UiCommand.PlayFunction
     None) [0x60] False \<and>
    opcode_test UiCommand_to_bytes UiCommand_try_from_bytes UiCommand_len (UiCommand.PlayFunction
     (Some PlayMode.Still)) [0x60, PlayMode_into PlayMode.Still] True \<and>
    opcode_test UiCommand_to_bytes UiCommand_try_from_bytes UiCommand_len (UiCommand.TuneFunction
     None) [0x67] False \<and>
    opcode_test UiCommand_to_bytes UiCommand_try_from_bytes UiCommand_len (UiCommand.TuneFunction
     (Some (ChannelId.OnePart 0x1234))) [0x67, 4, 0, 0x12, 0x34] True \<and>
    opcode_test UiCommand_to_bytes UiCommand_try_from_bytes UiCommand_len (UiCommand.TuneFunction
     (Some (ChannelId.TwoPart 0x234 0x5678))) [0x67, 0x0A, 0x34, 0x56, 0x78] True \<and>
    opcode_test UiCommand_to_bytes UiCommand_try_from_bytes UiCommand_len
     (UiCommand.SelectMediaFunction None) [0x68] False \<and>
    opcode_test UiCommand_to_bytes UiCommand_try_from_bytes UiCommand_len
     (UiCommand.SelectMediaFunction (Some 0x12)) [0x68, 0x12] True \<and>
    opcode_test UiCommand_to_bytes UiCommand_try_from_bytes UiCommand_len
     (UiCommand.SelectAvInputFunction None) [0x69] False \<and>
    opcode_test UiCommand_to_bytes UiCommand_try_from_bytes UiCommand_len
     (UiCommand.SelectAvInputFunction (Some 0x12)) [0x69, 0x12] True"

definition test_ui_command_2 :: bool where
  "test_ui_command_2 \<longleftrightarrow>
    opcode_test UiCommand_to_bytes UiCommand_try_from_bytes UiCommand_len
     (UiCommand.SelectAudioInputFunction None) [0x6A] False \<and>
    opcode_test UiCommand_to_bytes UiCommand_try_from_bytes UiCommand_len
     (UiCommand.SelectAudioInputFunction (Some 0x12)) [0x6A, 0x12] True"

definition test_analogue_service_id :: bool where
  "test_analogue_service_id \<longleftrightarrow>
    opcode_test AnalogueServiceId_to_bytes AnalogueServiceId_try_from_bytes (\<lambda>_. 4)
     \<lparr>AnalogueServiceId.broadcast_type = AnalogueBroadcastType.Terrestrial,
      AnalogueServiceId.frequency = 0x1234, AnalogueServiceId.broadcast_system =
      BroadcastSystem.PalBG\<rparr> [AnalogueBroadcastType_into AnalogueBroadcastType.Terrestrial,
      0x12, 0x34, BroadcastSystem_into BroadcastSystem.PalBG] True \<and>
    AnalogueServiceId_try_from_bytes [AnalogueBroadcastType_into
     AnalogueBroadcastType.Terrestrial, 0x12, 0x34] = Err (OutOfRange (AtLeast 4) 3 ''bytes'') \<and>
    AnalogueServiceId_try_from_bytes [AnalogueBroadcastType_into
     AnalogueBroadcastType.Terrestrial, 0x12] = Err (OutOfRange (AtLeast 4) 2 ''bytes'') \<and>
    AnalogueServiceId_try_from_bytes [AnalogueBroadcastType_into
     AnalogueBroadcastType.Terrestrial] = Err (OutOfRange (AtLeast 4) 1 ''bytes'') \<and>
    AnalogueServiceId_try_from_bytes [] = Err (OutOfRange (AtLeast 4) 0 ''bytes'')"

definition test_digital_service_id_1 :: bool where
  "test_digital_service_id_1 \<longleftrightarrow>
    opcode_test DigitalServiceId_to_bytes DigitalServiceId_try_from_bytes (\<lambda>_. 7)
     (DigitalServiceId.AribGeneric \<lparr>AribData.transport_stream_id = 0x1234,
      AribData.service_id = 0x5678, AribData.original_network_id = 0xABCD\<rparr>)
      [DigitalServiceBroadcastSystem_into DigitalServiceBroadcastSystem.AribGeneric, 0x12, 0x34,
      0x56, 0x78, 0xAB, 0xCD] True \<and>
    opcode_test DigitalServiceId_to_bytes DigitalServiceId_try_from_bytes (\<lambda>_. 7)
     (DigitalServiceId.AtscGeneric \<lparr>AtscData.transport_stream_id = 0x1234,
      AtscData.program_number = 0x5678\<rparr>) [DigitalServiceBroadcastSystem_into
      DigitalServiceBroadcastSystem.AtscGeneric, 0x12, 0x34, 0x56, 0x78, 0, 0] True \<and>
    opcode_test DigitalServiceId_to_bytes DigitalServiceId_try_from_bytes (\<lambda>_. 7)
     (DigitalServiceId.DvbGeneric \<lparr>DvbData.transport_stream_id = 0x1234,
      DvbData.service_id = 0x5678, DvbData.original_network_id = 0xABCD\<rparr>)
      [DigitalServiceBroadcastSystem_into DigitalServiceBroadcastSystem.DvbGeneric, 0x12, 0x34,
      0x56, 0x78, 0xAB, 0xCD] True \<and>
    opcode_test DigitalServiceId_to_bytes DigitalServiceId_try_from_bytes (\<lambda>_. 7)
     (DigitalServiceId.AribBs \<lparr>AribData.transport_stream_id = 0x1234, AribData.service_id
      = 0x5678, AribData.original_network_id = 0xABCD\<rparr>) [DigitalServiceBroadcastSystem_into
      DigitalServiceBroadcastSystem.AribBs, 0x12, 0x34, 0x56, 0x78, 0xAB, 0xCD] True \<and>
    opcode_test DigitalServiceId_to_bytes DigitalServiceId_try_from_bytes (\<lambda>_. 7)
     (DigitalServiceId.AribCs \<lparr>AribData.transport_stream_id = 0x1234, AribData.service_id
      = 0x5678, AribData.original_network_id = 0xABCD\<rparr>) [DigitalServiceBroadcastSystem_into
      DigitalServiceBroadcastSystem.AribCs, 0x12, 0x34, 0x56, 0x78, 0xAB, 0xCD] True \<and>
    opcode_test DigitalServiceId_to_bytes DigitalServiceId_try_from_bytes (\<lambda>_. 7)
     (DigitalServiceId.AribT \<lparr>AribData.transport_stream_id = 0x1234, AribData.service_id =
      0x5678, AribData.original_network_id = 0xABCD\<rparr>) [DigitalServiceBroadcastSystem_into
      DigitalServiceBroadcastSystem.AribT, 0x12, 0x34, 0x56, 0x78, 0xAB, 0xCD] True \<and>
    opcode_test DigitalServiceId_to_bytes DigitalServiceId_try_from_bytes (\<lambda>_. 7)
     (DigitalServiceId.AtscCable \<lparr>AtscData.transport_stream_id = 0x1234,
      AtscData.program_number = 0x5678\<rparr>) [DigitalServiceBroadcastSystem_into
      DigitalServiceBroadcastSystem.AtscCable, 0x12, 0x34, 0x56, 0x78, 0, 0] True"

definition test_digital_service_id_2 :: bool where
  "test_digital_service_id_2 \<longleftrightarrow>
    opcode_test DigitalServiceId_to_bytes DigitalServiceId_try_from_bytes (\<lambda>_. 7)
     (DigitalServiceId.AtscSatellite \<lparr>AtscData.transport_stream_id = 0x1234,
      AtscData.program_number = 0x5678\<rparr>) [DigitalServiceBroadcastSystem_into
      DigitalServiceBroadcastSystem.AtscSatellite, 0x12, 0x34, 0x56, 0x78, 0, 0] True \<and>
    opcode_test DigitalServiceId_to_bytes DigitalServiceId_try_from_bytes (\<lambda>_. 7)
     (DigitalServiceId.AtscTerrestrial \<lparr>AtscData.transport_stream_id = 0x1234,
      AtscData.program_number = 0x5678\<rparr>) [DigitalServiceBroadcastSystem_into
      DigitalServiceBroadcastSystem.AtscTerrestrial, 0x12, 0x34, 0x56, 0x78, 0, 0] True \<and>
    opcode_test DigitalServiceId_to_bytes DigitalServiceId_try_from_bytes (\<lambda>_. 7)
     (DigitalServiceId.DvbC \<lparr>DvbData.transport_stream_id = 0x1234, DvbData.service_id =
      0x5678, DvbData.original_network_id = 0xABCD\<rparr>) [DigitalServiceBroadcastSystem_into
      DigitalServiceBroadcastSystem.DvbC, 0x12, 0x34, 0x56, 0x78, 0xAB, 0xCD] True \<and>
    opcode_test DigitalServiceId_to_bytes DigitalServiceId_try_from_bytes (\<lambda>_. 7)
     (DigitalServiceId.DvbS \<lparr>DvbData.transport_stream_id = 0x1234, DvbData.service_id =
      0x5678, DvbData.original_network_id = 0xABCD\<rparr>) [DigitalServiceBroadcastSystem_into
      DigitalServiceBroadcastSystem.DvbS, 0x12, 0x34, 0x56, 0x78, 0xAB, 0xCD] True \<and>
    opcode_test DigitalServiceId_to_bytes DigitalServiceId_try_from_bytes (\<lambda>_. 7)
     (DigitalServiceId.DvbS2 \<lparr>DvbData.transport_stream_id = 0x1234, DvbData.service_id =
      0x5678, DvbData.original_network_id = 0xABCD\<rparr>) [DigitalServiceBroadcastSystem_into
      DigitalServiceBroadcastSystem.DvbS2, 0x12, 0x34, 0x56, 0x78, 0xAB, 0xCD] True \<and>
    opcode_test DigitalServiceId_to_bytes DigitalServiceId_try_from_bytes (\<lambda>_. 7)
     (DigitalServiceId.DvbT \<lparr>DvbData.transport_stream_id = 0x1234, DvbData.service_id =
      0x5678, DvbData.original_network_id = 0xABCD\<rparr>) [DigitalServiceBroadcastSystem_into
      DigitalServiceBroadcastSystem.DvbT, 0x12, 0x34, 0x56, 0x78, 0xAB, 0xCD] True \<and>
    opcode_test DigitalServiceId_to_bytes DigitalServiceId_try_from_bytes (\<lambda>_. 7)
     (DigitalServiceId.Channel DigitalServiceBroadcastSystem.DvbGeneric (ChannelId.TwoPart 0x234
      0x5678) 0xABCD) [(DigitalServiceBroadcastSystem_into
      DigitalServiceBroadcastSystem.DvbGeneric) OR 0x80, 0x0A, 0x34, 0x56, 0x78, 0xAB, 0xCD] True"

definition test_digital_service_id_3 :: bool where
  "test_digital_service_id_3 \<longleftrightarrow>
    DigitalServiceId_try_from_bytes [] = Err (OutOfRange (AtLeast 7) 0 ''bytes'')"

definition test_audio_format_id_and_code :: bool where
  "test_audio_format_id_and_code \<longleftrightarrow>
    opcode_test AudioFormatIdAndCode_to_bytes AudioFormatIdAndCode_try_from_bytes (\<lambda>_. 1)
     (AudioFormatIdAndCode_with_id AudioFormatId.CEA861Cxt (AudioFormatIdAndCode_with_code 5
      (AudioFormatIdAndCode 0))) [0x45] True \<and>
    AudioFormatIdAndCode_try_from_bytes [] = Err (OutOfRange (AtLeast 1) 0 ''bytes'')"

definition test_audio_status :: bool where
  "test_audio_status \<longleftrightarrow>
    opcode_test AudioStatus_to_bytes AudioStatus_try_from_bytes (\<lambda>_. 1)
     (AudioStatus_with_mute True (AudioStatus_with_volume 9 (AudioStatus 0))) [0x89] True \<and>
    AudioStatus_try_from_bytes [] = Err (OutOfRange (AtLeast 1) 0 ''bytes'')"

definition test_bcd_byte :: bool where
  "test_bcd_byte \<longleftrightarrow>
    opcode_test BcdByte_to_bytes (BcdByte_try_from_bytes 0 99) (\<lambda>_. 1) (the_Ok
     (BcdByte_try_from 0 99 0x0C)) [0x12] True \<and>
    BcdByte_try_from 10 20 0 = Err (OutOfRange (range_inclusive 0x0A 0x14) 0 ''value'') \<and>
    BcdByte_try_from 10 20 9 = Err (OutOfRange (range_inclusive 0x0A 0x14) 9 ''value'') \<and>
    is_Ok (BcdByte_try_from 10 20 0x0A) \<and>
    is_Ok (BcdByte_try_from 10 20 0x14) \<and>
    BcdByte_try_from 10 20 0x15 = Err (OutOfRange (range_inclusive 0x0A 0x14) 0x15 ''value'') \<and>
    BcdByte_try_from 10 20 0x1E = Err (OutOfRange (range_inclusive 0x0A 0x14) 0x1E ''value'') \<and>
    (BcdByte_try_from_bytes 10 20) [0] = Err (OutOfRange (range_inclusive 0x0A 0x14) 0 ''value'') \<and>
    (BcdByte_try_from_bytes 10 20) [9] = Err (OutOfRange (range_inclusive 0x0A 0x14) 9 ''value'') \<and>
    (BcdByte_try_from_bytes 10 20) [0x0A] = Err (OutOfRange (range_inclusive 0 9) 0x0A
     ''low bits'') \<and>
    (BcdByte_try_from_bytes 10 20) [0xA0] = Err (OutOfRange (range_inclusive 0 9) 0x0A
     ''high bits'') \<and>
    is_Ok ((BcdByte_try_from_bytes 10 20) [0x10]) \<and>
    is_Ok ((BcdByte_try_from_bytes 10 20) [0x20]) \<and>
    (BcdByte_try_from_bytes 10 20) [0x21] = Err (OutOfRange (range_inclusive 0x0A 0x14) 0x15
     ''value'') \<and>
    (BcdByte_try_from_bytes 10 20) [0x30] = Err (OutOfRange (range_inclusive 0x0A 0x14) 0x1E
     ''value'') \<and>
    BcdByte_into (BcdByte 0x12) = 0x0C \<and>
    (BcdByte_try_from_bytes 0 99) [] = Err (OutOfRange (AtLeast 1) 0 ''bytes'')"

definition test_arib_data :: bool where
  "test_arib_data \<longleftrightarrow>
    opcode_test AribData_to_bytes AribData_try_from_bytes (\<lambda>_. 6)
     \<lparr>AribData.transport_stream_id = 0x1234, AribData.service_id = 0x5678,
      AribData.original_network_id = 0xABCD\<rparr> [0x12, 0x34, 0x56, 0x78, 0xAB, 0xCD] True \<and>
    AribData_try_from_bytes [] = Err (OutOfRange (AtLeast 6) 0 ''bytes'')"

definition test_atsc_data :: bool where
  "test_atsc_data \<longleftrightarrow>
    opcode_test AtscData_to_bytes AtscData_try_from_bytes (\<lambda>_. 6)
     \<lparr>AtscData.transport_stream_id = 0x1234, AtscData.program_number = 0x5678\<rparr>
      [0x12, 0x34, 0x56, 0x78, 0, 0] True \<and>
    AtscData_try_from_bytes [0x12, 0x34, 0x56, 0x78, 0xAB, 0xCD] = Err Error.InvalidData \<and>
    AtscData_try_from_bytes [] = Err (OutOfRange (AtLeast 6) 0 ''bytes'')"

definition test_channel_id :: bool where
  "test_channel_id \<longleftrightarrow>
    opcode_test ChannelId_to_bytes ChannelId_try_from_bytes (\<lambda>_. 4) (ChannelId.OnePart
     0x1234) [4, 0, 0x12, 0x34] True \<and>
    opcode_test ChannelId_to_bytes ChannelId_try_from_bytes (\<lambda>_. 4) (ChannelId.TwoPart
     0x123 0x4567) [9, 0x23, 0x45, 0x67] True \<and>
    ChannelId_try_from_bytes [0, 0, 0x12, 0x34] = Err (InvalidValueForType ''ChannelNumberFormat''
     ''0'') \<and>
    ChannelId_try_from_bytes [push_bit 2 (ChannelNumberFormat_into ChannelNumberFormat.Fmt1Part),
     0x56, 0x12, 0x34] = Ok (ChannelId.OnePart 0x1234) \<and>
    ChannelId_try_from_bytes [] = Err (OutOfRange (AtLeast 4) 0 ''bytes'')"

definition test_device_features :: bool where
  "test_device_features \<longleftrightarrow>
    opcode_test DeviceFeatures_to_bytes DeviceFeatures_try_from_bytes DeviceFeatures_len
     \<lparr>DeviceFeatures.device_features_1 = DeviceFeatures1 (DeviceFeatures1_bits
      (DeviceFeatures1 (DeviceFeatures1_bits DeviceFeatures1_HAS_RECORD_TV_SCREEN OR
      DeviceFeatures1_bits DeviceFeatures1_HAS_SET_OSD_STRING)) OR DeviceFeatures1_bits
      DeviceFeatures1_HAS_SET_AUDIO_VOLUME_LEVEL), DeviceFeatures.device_features_n =
      buffer_default 0 14\<rparr> [0x61] False \<and>
    opcode_test DeviceFeatures_to_bytes DeviceFeatures_try_from_bytes DeviceFeatures_len
     \<lparr>DeviceFeatures.device_features_1 = DeviceFeatures1 (DeviceFeatures1_bits
      (DeviceFeatures1 (DeviceFeatures1_bits DeviceFeatures1_HAS_RECORD_TV_SCREEN OR
      DeviceFeatures1_bits DeviceFeatures1_HAS_SET_OSD_STRING)) OR DeviceFeatures1_bits
      DeviceFeatures1_HAS_SET_AUDIO_VOLUME_LEVEL), DeviceFeatures.device_features_n = the_Ok
      ((buffer_try_from_bytes u8_try_from_bytes 1 0 14) [0x40, 0x20, 0x10, 8, 4, 2, 1, 0])\<rparr>
      [0xE1, 0xC0, 0xA0, 0x90, 0x88, 0x84, 0x82, 0x81, 0] False"

definition test_duration :: bool where
  "test_duration \<longleftrightarrow>
    opcode_test Duration_to_bytes Duration_try_from_bytes (\<lambda>_. 2) \<lparr>Duration.hours =
     the_Ok (BcdByte_try_from 0 99 0x63), Duration.minutes = the_Ok (BcdByte_try_from 0 59
      0x14)\<rparr> [0x99, 0x20] True \<and>
    Duration_try_from_bytes [4, 0x69] = Err (OutOfRange (range_inclusive 0 0x3B) 0x45 ''value'') \<and>
    Duration_try_from_bytes [0x0A, 0x20] = Err (OutOfRange (range_inclusive 0 9) 0x0A
     ''low bits'') \<and>
    Duration_try_from_bytes [4, 0x1A] = Err (OutOfRange (range_inclusive 0 9) 0x0A ''low bits'')"

definition test_dvb_data :: bool where
  "test_dvb_data \<longleftrightarrow>
    opcode_test DvbData_to_bytes DvbData_try_from_bytes (\<lambda>_. 6)
     \<lparr>DvbData.transport_stream_id = 0x1234, DvbData.service_id = 0x5678,
      DvbData.original_network_id = 0xABCD\<rparr> [0x12, 0x34, 0x56, 0x78, 0xAB, 0xCD] True \<and>
    DvbData_try_from_bytes [] = Err (OutOfRange (AtLeast 6) 0 ''bytes'')"

definition test_latency_flags :: bool where
  "test_latency_flags \<longleftrightarrow>
    opcode_test LatencyFlags_to_bytes LatencyFlags_try_from_bytes (\<lambda>_. 1)
     (LatencyFlags_with_low_latency_mode True (LatencyFlags_with_audio_out_compensated
      AudioOutputCompensated.PartialDelay (LatencyFlags 0))) [7] True \<and>
    LatencyFlags_try_from_bytes [] = Err (OutOfRange (AtLeast 1) 0 ''bytes'')"

definition test_rc_profile :: bool where
  "test_rc_profile \<longleftrightarrow>
    RcProfile1_try_from 2 = Ok (RcProfile1.Tv RcProfileId.Profile1) \<and>
    RcProfile1_try_from 0x5F = Ok (RcProfile1.Source RcProfileSource_all) \<and>
    opcode_test RcProfile_to_bytes RcProfile_try_from_bytes RcProfile_len
     \<lparr>RcProfile.rc_profile_1 = RcProfile1.Tv RcProfileId.Profile1, RcProfile.rc_profile_n
      = buffer_default 0 14\<rparr> [2] True \<and>
    opcode_test RcProfile_to_bytes RcProfile_try_from_bytes RcProfile_len
     \<lparr>RcProfile.rc_profile_1 = RcProfile1.Source RcProfileSource_HAS_DEV_ROOT_MENU,
      RcProfile.rc_profile_n = buffer_default 0 14\<rparr> [0x40 OR (RcProfileSource_bits
      RcProfileSource_HAS_DEV_ROOT_MENU)] True \<and>
    opcode_test RcProfile_to_bytes RcProfile_try_from_bytes RcProfile_len
     \<lparr>RcProfile.rc_profile_1 = RcProfile1.Tv RcProfileId.Profile1, RcProfile.rc_profile_n
      = the_Ok ((buffer_try_from_bytes u8_try_from_bytes 1 0 14) [0x40])\<rparr> [0x82, 0x40] True"

definition test_time :: bool where
  "test_time \<longleftrightarrow>
    opcode_test Time_to_bytes Time_try_from_bytes (\<lambda>_. 2) \<lparr>Time.hour = the_Ok
     (BcdByte_try_from 0 23 4), Time.minute = the_Ok (BcdByte_try_from 0 59 0x14)\<rparr> [4,
      0x20] True \<and>
    Time_try_from_bytes [0x24, 0x30] = Err (OutOfRange (range_inclusive 0 0x17) 0x18 ''value'') \<and>
    Time_try_from_bytes [4, 0x69] = Err (OutOfRange (range_inclusive 0 0x3B) 0x45 ''value'') \<and>
    Time_try_from_bytes [0x0A, 0x20] = Err (OutOfRange (range_inclusive 0 9) 0x0A ''low bits'') \<and>
    Time_try_from_bytes [4, 0x1A] = Err (OutOfRange (range_inclusive 0 9) 0x0A ''low bits'')"

definition test_timer_status_data_1 :: bool where
  "test_timer_status_data_1 \<longleftrightarrow>
    opcode_test TimerStatusData_to_bytes TimerStatusData_try_from_bytes TimerStatusData_len
     \<lparr>TimerStatusData.overlap_warning = False, TimerStatusData.media_info =
      MediaInfo.UnprotectedMedia, TimerStatusData.programmed_info =
      TimerProgrammedInfo.NotProgrammed NotProgrammedErrorInfo.NoFreeTimer\<rparr> [1] True \<and>
    opcode_test TimerStatusData_to_bytes TimerStatusData_try_from_bytes TimerStatusData_len
     \<lparr>TimerStatusData.overlap_warning = True, TimerStatusData.media_info =
      MediaInfo.UnprotectedMedia, TimerStatusData.programmed_info =
      TimerProgrammedInfo.NotProgrammed NotProgrammedErrorInfo.NoFreeTimer\<rparr> [0x81] True \<and>
    opcode_test TimerStatusData_to_bytes TimerStatusData_try_from_bytes TimerStatusData_len
     \<lparr>TimerStatusData.overlap_warning = False, TimerStatusData.media_info =
      MediaInfo.ProtectedMedia, TimerStatusData.programmed_info =
      TimerProgrammedInfo.NotProgrammed NotProgrammedErrorInfo.NoFreeTimer\<rparr> [0x21] True \<and>
    opcode_test TimerStatusData_to_bytes TimerStatusData_try_from_bytes TimerStatusData_len
     \<lparr>TimerStatusData.overlap_warning = False, TimerStatusData.media_info =
      MediaInfo.NoMedia, TimerStatusData.programmed_info = TimerProgrammedInfo.NotProgrammed
      NotProgrammedErrorInfo.NoFreeTimer\<rparr> [0x41] True \<and>
    opcode_test TimerStatusData_to_bytes TimerStatusData_try_from_bytes TimerStatusData_len
     \<lparr>TimerStatusData.overlap_warning = False, TimerStatusData.media_info =
      MediaInfo.UnprotectedMedia, TimerStatusData.programmed_info =
      TimerProgrammedInfo.NotProgrammed NotProgrammedErrorInfo.DateOutOfRange\<rparr> [2] True \<and>
    opcode_test TimerStatusData_to_bytes TimerStatusData_try_from_bytes TimerStatusData_len
     \<lparr>TimerStatusData.overlap_warning = False, TimerStatusData.media_info =
      MediaInfo.UnprotectedMedia, TimerStatusData.programmed_info =
      TimerProgrammedInfo.NotProgrammed NotProgrammedErrorInfo.RecordingSequenceError\<rparr> [3]
      True \<and>
    opcode_test TimerStatusData_to_bytes TimerStatusData_try_from_bytes TimerStatusData_len
     \<lparr>TimerStatusData.overlap_warning = False, TimerStatusData.media_info =
      MediaInfo.UnprotectedMedia, TimerStatusData.programmed_info =
      TimerProgrammedInfo.NotProgrammed NotProgrammedErrorInfo.InvalidExternalPlug\<rparr> [4]
      True \<and>
    opcode_test TimerStatusData_to_bytes TimerStatusData_try_from_bytes TimerStatusData_len
     \<lparr>TimerStatusData.overlap_warning = False, TimerStatusData.media_info =
      MediaInfo.UnprotectedMedia, TimerStatusData.programmed_info =
      TimerProgrammedInfo.NotProgrammed
      NotProgrammedErrorInfo.InvalidExternalPhysicalAddress\<rparr> [5] True \<and>
    opcode_test TimerStatusData_to_bytes TimerStatusData_try_from_bytes TimerStatusData_len
     \<lparr>TimerStatusData.overlap_warning = False, TimerStatusData.media_info =
      MediaInfo.UnprotectedMedia, TimerStatusData.programmed_info =
      TimerProgrammedInfo.NotProgrammed NotProgrammedErrorInfo.CaUnsupported\<rparr> [6] True \<and>
    opcode_test TimerStatusData_to_bytes TimerStatusData_try_from_bytes TimerStatusData_len
     \<lparr>TimerStatusData.overlap_warning = False, TimerStatusData.media_info =
      MediaInfo.UnprotectedMedia, TimerStatusData.programmed_info =
      TimerProgrammedInfo.NotProgrammed NotProgrammedErrorInfo.InsufficientCaEntitlements\<rparr>
      [7] True \<and>
    opcode_test TimerStatusData_to_bytes TimerStatusData_try_from_bytes TimerStatusData_len
     \<lparr>TimerStatusData.overlap_warning = False, TimerStatusData.media_info =
      MediaInfo.UnprotectedMedia, TimerStatusData.programmed_info =
      TimerProgrammedInfo.NotProgrammed NotProgrammedErrorInfo.ResolutionUnsupported\<rparr> [8]
      True \<and>
    opcode_test TimerStatusData_to_bytes TimerStatusData_try_from_bytes TimerStatusData_len
     \<lparr>TimerStatusData.overlap_warning = False, TimerStatusData.media_info =
      MediaInfo.UnprotectedMedia, TimerStatusData.programmed_info =
      TimerProgrammedInfo.NotProgrammed NotProgrammedErrorInfo.ParentalLock\<rparr> [9] True"

definition test_timer_status_data_2 :: bool where
  "test_timer_status_data_2 \<longleftrightarrow>
    opcode_test TimerStatusData_to_bytes TimerStatusData_try_from_bytes TimerStatusData_len
     \<lparr>TimerStatusData.overlap_warning = False, TimerStatusData.media_info =
      MediaInfo.UnprotectedMedia, TimerStatusData.programmed_info =
      TimerProgrammedInfo.NotProgrammed NotProgrammedErrorInfo.ClockFailure\<rparr> [0x0A] True \<and>
    opcode_test TimerStatusData_to_bytes TimerStatusData_try_from_bytes TimerStatusData_len
     \<lparr>TimerStatusData.overlap_warning = False, TimerStatusData.media_info =
      MediaInfo.UnprotectedMedia, TimerStatusData.programmed_info =
      TimerProgrammedInfo.NotProgrammed (NotProgrammedErrorInfo.Duplicate None)\<rparr> [0x0E]
      False \<and>
    opcode_test TimerStatusData_to_bytes TimerStatusData_try_from_bytes TimerStatusData_len
     \<lparr>TimerStatusData.overlap_warning = False, TimerStatusData.media_info =
      MediaInfo.UnprotectedMedia, TimerStatusData.programmed_info =
      TimerProgrammedInfo.NotProgrammed (NotProgrammedErrorInfo.Duplicate (Some
      \<lparr>Duration.hours = the_Ok (BcdByte_try_from 0 99 0x17), Duration.minutes = the_Ok
      (BcdByte_try_from 0 59 0x3B)\<rparr>))\<rparr> [0x0E, 0x23, 0x59] True \<and>
    opcode_test TimerStatusData_to_bytes TimerStatusData_try_from_bytes TimerStatusData_len
     \<lparr>TimerStatusData.overlap_warning = False, TimerStatusData.media_info =
      MediaInfo.UnprotectedMedia, TimerStatusData.programmed_info = TimerProgrammedInfo.Programmed
      ProgrammedInfo.EnoughSpace\<rparr> [0x18] True \<and>
    opcode_test TimerStatusData_to_bytes TimerStatusData_try_from_bytes TimerStatusData_len
     \<lparr>TimerStatusData.overlap_warning = False, TimerStatusData.media_info =
      MediaInfo.UnprotectedMedia, TimerStatusData.programmed_info = TimerProgrammedInfo.Programmed
      (ProgrammedInfo.NotEnoughSpace None)\<rparr> [0x19] False \<and>
    opcode_test TimerStatusData_to_bytes TimerStatusData_try_from_bytes TimerStatusData_len
     \<lparr>TimerStatusData.overlap_warning = False, TimerStatusData.media_info =
      MediaInfo.UnprotectedMedia, TimerStatusData.programmed_info = TimerProgrammedInfo.Programmed
      (ProgrammedInfo.NotEnoughSpace (Some \<lparr>Duration.hours = the_Ok (BcdByte_try_from 0 99
      0x17), Duration.minutes = the_Ok (BcdByte_try_from 0 59 0x3B)\<rparr>))\<rparr> [0x19, 0x23,
      0x59] True \<and>
    opcode_test TimerStatusData_to_bytes TimerStatusData_try_from_bytes TimerStatusData_len
     \<lparr>TimerStatusData.overlap_warning = False, TimerStatusData.media_info =
      MediaInfo.UnprotectedMedia, TimerStatusData.programmed_info = TimerProgrammedInfo.Programmed
      ProgrammedInfo.NoneAvailable\<rparr> [0x1A] True \<and>
    opcode_test TimerStatusData_to_bytes TimerStatusData_try_from_bytes TimerStatusData_len
     \<lparr>TimerStatusData.overlap_warning = False, TimerStatusData.media_info =
      MediaInfo.UnprotectedMedia, TimerStatusData.programmed_info = TimerProgrammedInfo.Programmed
      (ProgrammedInfo.MayNotBeEnoughSpace None)\<rparr> [0x1B] False \<and>
    opcode_test TimerStatusData_to_bytes TimerStatusData_try_from_bytes TimerStatusData_len
     \<lparr>TimerStatusData.overlap_warning = False, TimerStatusData.media_info =
      MediaInfo.UnprotectedMedia, TimerStatusData.programmed_info = TimerProgrammedInfo.Programmed
      (ProgrammedInfo.MayNotBeEnoughSpace (Some \<lparr>Duration.hours = the_Ok (BcdByte_try_from
      0 99 0x17), Duration.minutes = the_Ok (BcdByte_try_from 0 59 0x3B)\<rparr>))\<rparr> [0x1B,
      0x23, 0x59] True \<and>
    TimerStatusData_try_from_bytes [] = Err (OutOfRange (AtLeast 1) 0 ''bytes'') \<and>
    TimerStatusData_try_from_bytes [0] = Err (InvalidValueForType ''NotProgrammedErrorInfo''
     ''0'')"

definition test_timer_status_data_3 :: bool where
  "test_timer_status_data_3 \<longleftrightarrow>
    TimerStatusData_try_from_bytes [0x10] = Err (InvalidValueForType ''ProgrammedInfo'' ''0'') \<and>
    TimerStatusData_try_from_bytes [0x0E, 1] = Ok \<lparr>TimerStatusData.overlap_warning = False,
     TimerStatusData.media_info = MediaInfo.UnprotectedMedia, TimerStatusData.programmed_info =
      TimerProgrammedInfo.NotProgrammed (NotProgrammedErrorInfo.Duplicate None)\<rparr> \<and>
    TimerStatusData_try_from_bytes [0x60] = Err (InvalidValueForType ''MediaInfo'' ''3'')"

definition test_tuner_device_info :: bool where
  "test_tuner_device_info \<longleftrightarrow>
    opcode_test TunerDeviceInfo_to_bytes TunerDeviceInfo_try_from_bytes TunerDeviceInfo_len
     \<lparr>TunerDeviceInfo.recording = True, TunerDeviceInfo.tuner_display_info =
      TunerDisplayInfo.Analogue, TunerDeviceInfo.service_id = ServiceId.Analogue
      \<lparr>AnalogueServiceId.broadcast_type = AnalogueBroadcastType.Terrestrial,
      AnalogueServiceId.frequency = 0x1234, AnalogueServiceId.broadcast_system =
      BroadcastSystem.PalBG\<rparr>\<rparr> [0x82, AnalogueBroadcastType_into
      AnalogueBroadcastType.Terrestrial, 0x12, 0x34, BroadcastSystem_into BroadcastSystem.PalBG]
      False \<and>
    opcode_test TunerDeviceInfo_to_bytes TunerDeviceInfo_try_from_bytes TunerDeviceInfo_len
     \<lparr>TunerDeviceInfo.recording = True, TunerDeviceInfo.tuner_display_info =
      TunerDisplayInfo.Analogue, TunerDeviceInfo.service_id = ServiceId.Digital
      (DigitalServiceId.DvbGeneric \<lparr>DvbData.transport_stream_id = 0x1234,
      DvbData.service_id = 0x5678, DvbData.original_network_id = 0xABCD\<rparr>)\<rparr> [0x82,
      DigitalServiceBroadcastSystem_into DigitalServiceBroadcastSystem.DvbGeneric, 0x12, 0x34,
      0x56, 0x78, 0xAB, 0xCD] False \<and>
    TunerDeviceInfo_try_from_bytes [] = Err (OutOfRange (Only [5, 8]) 0 ''bytes'') \<and>
    TunerDeviceInfo_try_from_bytes [1, 0x23, 0x45, 0x67, 0x89, 0xAB] = Err (OutOfRange (Only [5,
     8]) 6 ''bytes'') \<and>
    TunerDeviceInfo_try_from_bytes [1, 0x23, 0x45, 0x67, 0x89, 0xAB, 0xCD] = Err (OutOfRange (Only
     [5, 8]) 7 ''bytes'') \<and>
    TunerDeviceInfo_try_from_bytes [1, 0x23, 0x45, 0x67, 0x89, 0xAB, 0xCD, 0xEF, 1] = Err
     (OutOfRange (Only [5, 8]) 9 ''bytes'') \<and>
    TunerDeviceInfo_try_from_bytes [9, 0x23, 0x45, 0x67, 0x89, 0xAB, 0xCD, 0xEF] = Err
     (InvalidValueForType ''TunerDisplayInfo'' ''9'')"

definition test_external_source :: bool where
  "test_external_source \<longleftrightarrow>
    opcode_test ExternalSource_to_bytes ExternalSource_try_from_bytes ExternalSource_len
     (ExternalSource.Plug 0x56) [0x56] False \<and>
    opcode_test ExternalSource_to_bytes ExternalSource_try_from_bytes ExternalSource_len
     (ExternalSource.PhysicalAddress (PhysicalAddress.PhysicalAddress 0x5678)) [0x56, 0x78] False \<and>
    ExternalSource_try_from_bytes [0x12, 0x34, 0x56] = Err (OutOfRange (Only [1, 2]) 3 ''bytes'') \<and>
    ExternalSource_try_from_bytes [] = Err (OutOfRange (Only [1, 2]) 0 ''bytes'')"

definition test_record_source_1 :: bool where
  "test_record_source_1 \<longleftrightarrow>
    opcode_test RecordSource_to_bytes RecordSource_try_from_bytes RecordSource_len
     RecordSource.Own [RecordSourceType_into RecordSourceType.Own] True \<and>
    opcode_test RecordSource_to_bytes RecordSource_try_from_bytes RecordSource_len
     (RecordSource.DigitalService (DigitalServiceId.AribGeneric
      \<lparr>AribData.transport_stream_id = 0x1234, AribData.service_id = 0x5678,
      AribData.original_network_id = 0x9ABC\<rparr>)) [RecordSourceType_into
      RecordSourceType.Digital, DigitalServiceBroadcastSystem_into
      DigitalServiceBroadcastSystem.AribGeneric, 0x12, 0x34, 0x56, 0x78, 0x9A, 0xBC] True \<and>
    opcode_test RecordSource_to_bytes RecordSource_try_from_bytes RecordSource_len
     (RecordSource.AnalogueService \<lparr>AnalogueServiceId.broadcast_type =
      AnalogueBroadcastType.Satellite, AnalogueServiceId.frequency = 0x1234,
      AnalogueServiceId.broadcast_system = BroadcastSystem.SecamL\<rparr>) [RecordSourceType_into
      RecordSourceType.Analogue, AnalogueBroadcastType_into AnalogueBroadcastType.Satellite, 0x12,
      0x34, BroadcastSystem_into BroadcastSystem.SecamL] True \<and>
    opcode_test RecordSource_to_bytes RecordSource_try_from_bytes RecordSource_len
     (RecordSource.External (ExternalSource.Plug 0x56)) [RecordSourceType_into
      RecordSourceType.ExternalPlug, 0x56] True \<and>
    opcode_test RecordSource_to_bytes RecordSource_try_from_bytes RecordSource_len
     (RecordSource.External (ExternalSource.PhysicalAddress (PhysicalAddress.PhysicalAddress
      0x1234))) [RecordSourceType_into RecordSourceType.ExternalPhysicalAddress, 0x12, 0x34] True \<and>
    RecordSource_try_from_bytes [RecordSourceType_into RecordSourceType.Digital,
     DigitalServiceBroadcastSystem_into DigitalServiceBroadcastSystem.AribGeneric, 0x12, 0x34,
      0x56, 0x78, 0x9A] = Err (OutOfRange (AtLeast 8) 7 ''bytes'') \<and>
    RecordSource_try_from_bytes [RecordSourceType_into RecordSourceType.Digital,
     DigitalServiceBroadcastSystem_into DigitalServiceBroadcastSystem.AribGeneric, 0x12, 0x34,
      0x56, 0x78] = Err (OutOfRange (AtLeast 8) 6 ''bytes'') \<and>
    RecordSource_try_from_bytes [RecordSourceType_into RecordSourceType.Digital,
     DigitalServiceBroadcastSystem_into DigitalServiceBroadcastSystem.AribGeneric, 0x12, 0x34,
      0x56] = Err (OutOfRange (AtLeast 8) 5 ''bytes'') \<and>
    RecordSource_try_from_bytes [RecordSourceType_into RecordSourceType.Digital,
     DigitalServiceBroadcastSystem_into DigitalServiceBroadcastSystem.AribGeneric, 0x12, 0x34] =
      Err (OutOfRange (AtLeast 8) 4 ''bytes'')"

definition test_record_source_2 :: bool where
  "test_record_source_2 \<longleftrightarrow>
    RecordSource_try_from_bytes [RecordSourceType_into RecordSourceType.Digital,
     DigitalServiceBroadcastSystem_into DigitalServiceBroadcastSystem.AribGeneric, 0x12] = Err
      (OutOfRange (AtLeast 8) 3 ''bytes'') \<and>
    RecordSource_try_from_bytes [RecordSourceType_into RecordSourceType.Digital,
     DigitalServiceBroadcastSystem_into DigitalServiceBroadcastSystem.AribGeneric] = Err
      (OutOfRange (AtLeast 8) 2 ''bytes'') \<and>
    RecordSource_try_from_bytes [RecordSourceType_into RecordSourceType.Digital] = Err (OutOfRange
     (AtLeast 8) 1 ''bytes'') \<and>
    RecordSource_try_from_bytes [RecordSourceType_into RecordSourceType.Analogue,
     AnalogueBroadcastType_into AnalogueBroadcastType.Satellite, 0x12, 0x34] = Err (OutOfRange
      (AtLeast 5) 4 ''bytes'') \<and>
    RecordSource_try_from_bytes [RecordSourceType_into RecordSourceType.Analogue,
     AnalogueBroadcastType_into AnalogueBroadcastType.Satellite, 0x12] = Err (OutOfRange (AtLeast
      5) 3 ''bytes'') \<and>
    RecordSource_try_from_bytes [RecordSourceType_into RecordSourceType.Analogue,
     AnalogueBroadcastType_into AnalogueBroadcastType.Satellite] = Err (OutOfRange (AtLeast 5) 2
      ''bytes'') \<and>
    RecordSource_try_from_bytes [RecordSourceType_into RecordSourceType.Analogue] = Err
     (OutOfRange (AtLeast 5) 1 ''bytes'') \<and>
    RecordSource_try_from_bytes [RecordSourceType_into RecordSourceType.ExternalPlug] = Err
     (OutOfRange (AtLeast 2) 1 ''bytes'') \<and>
    RecordSource_try_from_bytes [RecordSourceType_into RecordSourceType.ExternalPhysicalAddress,
     0x12] = Err (OutOfRange (AtLeast 3) 2 ''bytes'') \<and>
    RecordSource_try_from_bytes [RecordSourceType_into RecordSourceType.ExternalPhysicalAddress] =
     Err (OutOfRange (AtLeast 3) 1 ''bytes'')"

definition test_record_source_3 :: bool where
  "test_record_source_3 \<longleftrightarrow>
    RecordSource_try_from_bytes [0xFE] = Err (InvalidValueForType ''RecordSourceType'' ''254'')"

definition test_hec_state :: bool where
  "test_hec_state \<longleftrightarrow>
    opcode_test HecState_to_bytes HecState_try_from_bytes (\<lambda>_. 1)
     (HecState_with_hec_functionality HecFunctionalityState.ActivationField
      (HecState_with_host_functionality FunctionalityState.Active (HecState_with_enc_functionality
      FunctionalityState.Inactive (HecState_with_cdc_error CdcErrorCode.NoError (HecState 0)))))
      [0xE4] True \<and>
    HecState_try_from_bytes [] = Err (OutOfRange (AtLeast 1) 0 ''bytes'')"

definition test_input_port_hpd_state :: bool where
  "test_input_port_hpd_state \<longleftrightarrow>
    opcode_test InputPortHpdState_to_bytes InputPortHpdState_try_from_bytes (\<lambda>_. 1)
     (InputPortHpdState_with_state HpdState.EdidDisableEnable (InputPortHpdState_with_input_port
      0x0A (InputPortHpdState 0))) [0xA5] True \<and>
    InputPortHpdState_try_from_bytes [] = Err (OutOfRange (AtLeast 1) 0 ''bytes'')"

definition test_hpd_state_error_code :: bool where
  "test_hpd_state_error_code \<longleftrightarrow>
    opcode_test HpdStateErrorCode_to_bytes HpdStateErrorCode_try_from_bytes (\<lambda>_. 1)
     (HpdStateErrorCode_with_error_code HpdErrorCode.InitiatorNotCapable
      (HpdStateErrorCode_with_state HpdState.EdidDisableEnable (HpdStateErrorCode 0))) [0x51] True \<and>
    HpdStateErrorCode_try_from_bytes [] = Err (OutOfRange (AtLeast 1) 0 ''bytes'')"

definition test_hec_field :: bool where
  "test_hec_field \<longleftrightarrow>
    opcode_test HecField_to_bytes HecField_try_from_bytes (\<lambda>_. 2) \<lparr>HecField.inputs
     = [True, False, False, False, False, True, False, False, False, False, True, True, False,
      False], HecField.output_on = True\<rparr> [0x4C, 0x21] True \<and>
    HecField_try_from_bytes [] = Err (OutOfRange (AtLeast 2) 0 ''bytes'')"


section \<open>Capability discovery messages\<close>

definition test_hec_inquire_state :: "(CdcOpcode, CdcMessage) message_test list" where
  "test_hec_inquire_state =
   [MessageTest False CdcOpcode.HecInquireState (CdcMessage.HecInquireState
     (PhysicalAddress.PhysicalAddress 0x1234) (PhysicalAddress.PhysicalAddress 0x5678)) [0x12,
      0x34, 0x56, 0x78] True True,
    DecodesTo [CdcOpcode_into CdcOpcode.HecInquireState, 0x12, 0x34, 0x56] (Err (OutOfRange
     (AtLeast 5) 4 ''bytes'')),
    DecodesTo [CdcOpcode_into CdcOpcode.HecInquireState, 0x12, 0x34] (Err (OutOfRange (AtLeast 5)
     3 ''bytes'')),
    DecodesTo [CdcOpcode_into CdcOpcode.HecInquireState, 0x12] (Err (OutOfRange (AtLeast 5) 2
     ''bytes''))]"

definition test_hec_report_state :: "(CdcOpcode, CdcMessage) message_test list" where
  "test_hec_report_state =
   [MessageTest True CdcOpcode.HecReportState (CdcMessage.HecReportState
     (PhysicalAddress.PhysicalAddress 0x1234) (HecState_with_hec_functionality
      HecFunctionalityState.ActivationField (HecState_with_host_functionality
      FunctionalityState.Active (HecState_with_enc_functionality FunctionalityState.Inactive
      (HecState_with_cdc_error CdcErrorCode.NoError (HecState 0))))) (Some \<lparr>HecField.inputs
      = [True, False, False, False, False, True, False, False, False, False, True, True, False,
      False], HecField.output_on = True\<rparr>)) [0x12, 0x34, 0xE4, 0x4C, 0x21] True False,
    MessageTest True CdcOpcode.HecReportState (CdcMessage.HecReportState
     (PhysicalAddress.PhysicalAddress 0x1234) (HecState_with_hec_functionality
      HecFunctionalityState.ActivationField (HecState_with_host_functionality
      FunctionalityState.Active (HecState_with_enc_functionality FunctionalityState.Inactive
      (HecState_with_cdc_error CdcErrorCode.NoError (HecState 0))))) None) [0x12, 0x34, 0xE4]
      False False,
    DecodesTo [CdcOpcode_into CdcOpcode.HecReportState, 0x12, 0x34, 0xE4, 0x4C] (Err (OutOfRange
     (AtLeast 6) 5 ''bytes'')),
    DecodesTo [CdcOpcode_into CdcOpcode.HecReportState, 0x12, 0x34] (Err (OutOfRange (AtLeast 4) 3
     ''bytes'')),
    DecodesTo [CdcOpcode_into CdcOpcode.HecReportState, 0x12] (Err (OutOfRange (AtLeast 4) 2
     ''bytes'')),
    DecodesTo [CdcOpcode_into CdcOpcode.HecReportState] (Err (OutOfRange (AtLeast 4) 1 ''bytes'')),
    HasOpcode (CdcMessage.HecReportState (PhysicalAddress.PhysicalAddress 0x1234)
     (HecState_with_hec_functionality HecFunctionalityState.ActivationField
      (HecState_with_host_functionality FunctionalityState.Active (HecState_with_enc_functionality
      FunctionalityState.Inactive (HecState_with_cdc_error CdcErrorCode.NoError (HecState 0)))))
      None) CdcOpcode.HecReportState]"

definition test_hec_set_state_adjacent :: "(CdcOpcode, CdcMessage) message_test list" where
  "test_hec_set_state_adjacent =
   [MessageTest False CdcOpcode.HecSetStateAdjacent (CdcMessage.HecSetStateAdjacent
     (PhysicalAddress.PhysicalAddress 0x1234) True) [0x12, 0x34, 1] True True,
    DecodesTo [CdcOpcode_into CdcOpcode.HecSetStateAdjacent, 0x12, 0x34] (Err (OutOfRange (AtLeast
     4) 3 ''bytes'')),
    DecodesTo [CdcOpcode_into CdcOpcode.HecSetStateAdjacent, 0x12] (Err (OutOfRange (AtLeast 4) 2
     ''bytes''))]"

definition test_hec_set_state :: "(CdcOpcode, CdcMessage) message_test list" where
  "test_hec_set_state =
   [MessageTest True CdcOpcode.HecSetState (CdcMessage.HecSetState
     (PhysicalAddress.PhysicalAddress 0x1234) (PhysicalAddress.PhysicalAddress 0x5678) True
      (buffer_default (PhysicalAddress.PhysicalAddress 0xFFFF) 3)) [0x12, 0x34, 0x56, 0x78, 1]
      False False,
    MessageTest True CdcOpcode.HecSetState (CdcMessage.HecSetState
     (PhysicalAddress.PhysicalAddress 0x1234) (PhysicalAddress.PhysicalAddress 0x5678) True
      (the_Ok (buffer_from_slice (PhysicalAddress.PhysicalAddress 0xFFFF) 3
      [PhysicalAddress.PhysicalAddress 0xABCD]))) [0x12, 0x34, 0x56, 0x78, 1, 0xAB, 0xCD] False
      False,
    MessageTest True CdcOpcode.HecSetState (CdcMessage.HecSetState
     (PhysicalAddress.PhysicalAddress 0x1234) (PhysicalAddress.PhysicalAddress 0x5678) True
      (the_Ok (buffer_from_slice (PhysicalAddress.PhysicalAddress 0xFFFF) 3
      [PhysicalAddress.PhysicalAddress 0xABCD, PhysicalAddress.PhysicalAddress 0xEF01]))) [0x12,
      0x34, 0x56, 0x78, 1, 0xAB, 0xCD, 0xEF, 1] False False,
    MessageTest True CdcOpcode.HecSetState (CdcMessage.HecSetState
     (PhysicalAddress.PhysicalAddress 0x1234) (PhysicalAddress.PhysicalAddress 0x5678) True
      (the_Ok (buffer_from_slice (PhysicalAddress.PhysicalAddress 0xFFFF) 3
      [PhysicalAddress.PhysicalAddress 0xABCD, PhysicalAddress.PhysicalAddress 0xEF01,
      PhysicalAddress.PhysicalAddress 0x2345]))) [0x12, 0x34, 0x56, 0x78, 1, 0xAB, 0xCD, 0xEF, 1,
      0x23, 0x45] True False,
    HasOpcode (CdcMessage.HecSetState (PhysicalAddress.PhysicalAddress 0x1234)
     (PhysicalAddress.PhysicalAddress 0x5678) True (buffer_default
      (PhysicalAddress.PhysicalAddress 0xFFFF) 3)) CdcOpcode.HecSetState,
    DecodesTo [CdcOpcode_into CdcOpcode.HecSetState, 0x12, 0x34, 0x56, 0x78] (Err (OutOfRange
     (AtLeast 6) 5 ''bytes'')),
    DecodesTo [CdcOpcode_into CdcOpcode.HecSetState, 0x12, 0x34, 0x56] (Err (OutOfRange (AtLeast
     6) 4 ''bytes'')),
    DecodesTo [CdcOpcode_into CdcOpcode.HecSetState, 0x12, 0x34] (Err (OutOfRange (AtLeast 6) 3
     ''bytes'')),
    DecodesTo [CdcOpcode_into CdcOpcode.HecSetState, 0x12] (Err (OutOfRange (AtLeast 6) 2
     ''bytes'')),
    DecodesTo [CdcOpcode_into CdcOpcode.HecSetState] (Err (OutOfRange (AtLeast 6) 1 ''bytes''))]"

definition test_hec_request_deactivation :: "(CdcOpcode, CdcMessage) message_test list" where
  "test_hec_request_deactivation =
   [MessageTest False CdcOpcode.HecRequestDeactivation (CdcMessage.HecRequestDeactivation
     (PhysicalAddress.PhysicalAddress 0x1234) (PhysicalAddress.PhysicalAddress 0x5678)
      (PhysicalAddress.PhysicalAddress 0x9ABC)) [0x12, 0x34, 0x56, 0x78, 0x9A, 0xBC] True True,
    DecodesTo [CdcOpcode_into CdcOpcode.HecRequestDeactivation, 0x12, 0x34, 0x56, 0x78, 0x9A] (Err
     (OutOfRange (AtLeast 7) 6 ''bytes'')),
    DecodesTo [CdcOpcode_into CdcOpcode.HecRequestDeactivation, 0x12, 0x34, 0x56, 0x78] (Err
     (OutOfRange (AtLeast 7) 5 ''bytes'')),
    DecodesTo [CdcOpcode_into CdcOpcode.HecRequestDeactivation, 0x12, 0x34, 0x56] (Err (OutOfRange
     (AtLeast 7) 4 ''bytes'')),
    DecodesTo [CdcOpcode_into CdcOpcode.HecRequestDeactivation, 0x12, 0x34] (Err (OutOfRange
     (AtLeast 7) 3 ''bytes'')),
    DecodesTo [CdcOpcode_into CdcOpcode.HecRequestDeactivation, 0x12] (Err (OutOfRange (AtLeast 7)
     2 ''bytes''))]"

definition test_hpd_set_state :: "(CdcOpcode, CdcMessage) message_test list" where
  "test_hpd_set_state =
   [MessageTest False CdcOpcode.HpdSetState (CdcMessage.HpdSetState (InputPortHpdState_with_state
     HpdState.EdidDisableEnable (InputPortHpdState_with_input_port 0x0A (InputPortHpdState 0))))
      [0xA5] True True]"

definition test_hpd_report_state :: "(CdcOpcode, CdcMessage) message_test list" where
  "test_hpd_report_state =
   [MessageTest False CdcOpcode.HpdReportState (CdcMessage.HpdReportState
     (HpdStateErrorCode_with_error_code HpdErrorCode.InitiatorNotCapable
      (HpdStateErrorCode_with_state HpdState.EdidDisableEnable (HpdStateErrorCode 0)))) [0x51]
      True True]"


section \<open>The model passes them\<close>

lemma test_delay_pass [passes]: test_delay
  by (simp add: test_delay_def run_test)

lemma test_audio_volume_level_pass [passes]: test_audio_volume_level
  by (simp add: test_audio_volume_level_def run_test)

lemma test_u8_pass [passes]: test_u8
  by (simp add: test_u8_def run_test)

lemma test_option_pass [passes]: test_option
  by (simp add: test_option_def run_test)

lemma test_array_pass [passes]: test_array
  by (simp add: test_array_def run_test)

lemma test_u16_pass [passes]: test_u16
  by (simp add: test_u16_def run_test)

lemma test_bool_pass [passes]: test_bool
  by (simp add: test_bool_def run_test)

lemma test_tagged_length_buffer_pass [passes]: test_tagged_length_buffer
  by (simp add: test_tagged_length_buffer_def run_test)

lemma test_buffer_operand_pass [passes]: test_buffer_operand
  by (simp add: test_buffer_operand_def run_test)

lemma test_ui_command_1_pass [passes]: test_ui_command_1
  by (simp add: test_ui_command_1_def run_test)

lemma test_ui_command_2_pass [passes]: test_ui_command_2
  by (simp add: test_ui_command_2_def run_test)

lemma test_analogue_service_id_pass [passes]: test_analogue_service_id
  by (simp add: test_analogue_service_id_def run_test)

lemma test_digital_service_id_1_pass [passes]: test_digital_service_id_1
  by (simp add: test_digital_service_id_1_def run_test)

lemma test_digital_service_id_2_pass [passes]: test_digital_service_id_2
  by (simp add: test_digital_service_id_2_def run_test)

lemma test_digital_service_id_3_pass [passes]: test_digital_service_id_3
  by (simp add: test_digital_service_id_3_def run_test)

lemma test_audio_format_id_and_code_pass [passes]: test_audio_format_id_and_code
  by (simp add: test_audio_format_id_and_code_def run_test)

lemma test_audio_status_pass [passes]: test_audio_status
  by (simp add: test_audio_status_def run_test)

lemma test_bcd_byte_pass [passes]: test_bcd_byte
  by (simp add: test_bcd_byte_def run_test)

lemma test_arib_data_pass [passes]: test_arib_data
  by (simp add: test_arib_data_def run_test)

lemma test_atsc_data_pass [passes]: test_atsc_data
  by (simp add: test_atsc_data_def run_test)

lemma test_channel_id_pass [passes]: test_channel_id
  by (simp add: test_channel_id_def run_test)

lemma test_device_features_pass [passes]: test_device_features
  by (simp add: test_device_features_def run_test)

lemma test_duration_pass [passes]: test_duration
  by (simp add: test_duration_def run_test)

lemma test_dvb_data_pass [passes]: test_dvb_data
  by (simp add: test_dvb_data_def run_test)

lemma test_latency_flags_pass [passes]: test_latency_flags
  by (simp add: test_latency_flags_def run_test)

lemma test_rc_profile_pass [passes]: test_rc_profile
  by (simp add: test_rc_profile_def run_test)

lemma test_time_pass [passes]: test_time
  by (simp add: test_time_def run_test)

lemma test_timer_status_data_1_pass [passes]: test_timer_status_data_1
  by (simp add: test_timer_status_data_1_def run_test)

lemma test_timer_status_data_2_pass [passes]: test_timer_status_data_2
  by (simp add: test_timer_status_data_2_def run_test)

lemma test_timer_status_data_3_pass [passes]: test_timer_status_data_3
  by (simp add: test_timer_status_data_3_def run_test)

lemma test_tuner_device_info_pass [passes]: test_tuner_device_info
  by (simp add: test_tuner_device_info_def run_test)

lemma test_external_source_pass [passes]: test_external_source
  by (simp add: test_external_source_def run_test)

lemma test_record_source_1_pass [passes]: test_record_source_1
  by (simp add: test_record_source_1_def run_test)

lemma test_record_source_2_pass [passes]: test_record_source_2
  by (simp add: test_record_source_2_def run_test)

lemma test_record_source_3_pass [passes]: test_record_source_3
  by (simp add: test_record_source_3_def run_test)

lemma test_hec_state_pass [passes]: test_hec_state
  by (simp add: test_hec_state_def run_test)

lemma test_input_port_hpd_state_pass [passes]: test_input_port_hpd_state
  by (simp add: test_input_port_hpd_state_def run_test)

lemma test_hpd_state_error_code_pass [passes]: test_hpd_state_error_code
  by (simp add: test_hpd_state_error_code_def run_test)

lemma test_hec_field_pass [passes]: test_hec_field
  by (simp add: test_hec_field_def run_test)

lemma test_hec_inquire_state_pass [passes]: "list_all (message_test_passes CdcMessage_codec) test_hec_inquire_state"
  by (simp add: test_hec_inquire_state_def run_test)

lemma test_hec_report_state_pass [passes]: "list_all (message_test_passes CdcMessage_codec) test_hec_report_state"
  by (simp add: test_hec_report_state_def run_test)

lemma test_hec_set_state_adjacent_pass [passes]: "list_all (message_test_passes CdcMessage_codec) test_hec_set_state_adjacent"
  by (simp add: test_hec_set_state_adjacent_def run_test)

lemma test_hec_set_state_pass [passes]: "list_all (message_test_passes CdcMessage_codec) test_hec_set_state"
  by (simp add: test_hec_set_state_def run_test)

lemma test_hec_request_deactivation_pass [passes]: "list_all (message_test_passes CdcMessage_codec) test_hec_request_deactivation"
  by (simp add: test_hec_request_deactivation_def run_test)

lemma test_hpd_set_state_pass [passes]: "list_all (message_test_passes CdcMessage_codec) test_hpd_set_state"
  by (simp add: test_hpd_set_state_def run_test)

lemma test_hpd_report_state_pass [passes]: "list_all (message_test_passes CdcMessage_codec) test_hpd_report_state"
  by (simp add: test_hpd_report_state_def run_test)


end
