(* ===== verification/LibTests.thy ===== *)
theory LibTests
  imports CodecTests TextForms Envelope
begin

text \<open>
  The test modules of \<open>linux-cec/src/lib.rs\<close>, \<open>linux-cec/src/ioctls.rs\<close> and
  \<open>linux-cec/src/device.rs\<close>, under their own names, as the conjunction of their assertions. The
  number of type \<open>i32\<close> that a vendor identifier becomes is the word of its 32 bits, as that of type
  \<open>u32\<close> is; a text in JSON is the value that \<open>serde_json\<close> reads from it.
\<close>

section \<open>Ranges\<close>

definition test_range :: bool where
  "test_range \<longleftrightarrow>
     show_range (AtMost 10) = ''at most 10'' \<and>
     show_range (AtLeast 10) = ''at least 10'' \<and>
     show_range (Exact 10) = ''10'' \<and>
     show_range (Only [10]) = ''one of 10'' \<and>
     show_range (Only [10, 11]) = ''one of 10, 11'' \<and>
     show_range (Only [10, 11, 12]) = ''one of 10, 11, 12'' \<and>
     show_range (Interval 1 10) = ''between 1 and 10'' \<and>
     add_range (AtMost 10) 1 = AtMost 11 \<and>
     add_range (AtLeast 10) 1 = AtLeast 11 \<and>
     add_range (Exact 10) 1 = Exact 11 \<and>
     add_range (Only [10, 11, 12]) 1 = Only [11, 12, 13] \<and>
     add_range (Interval 1 10) 1 = Interval 2 11"

section \<open>Text forms\<close>

definition test_physical_address :: bool where
  "test_physical_address \<longleftrightarrow>
     PhysicalAddress_fmt (PhysicalAddress.PhysicalAddress 0x12AB) = ''1.2.a.b'' \<and>
     the_u16 (PhysicalAddress.PhysicalAddress 0x12AB) = 0x12AB \<and>
     PhysicalAddress_from_str ''12ab'' = Ok (PhysicalAddress.PhysicalAddress 0x12AB) \<and>
     PhysicalAddress_from_str ''12AB'' = Ok (PhysicalAddress.PhysicalAddress 0x12AB) \<and>
     PhysicalAddress_from_str ''0x12AB'' = Ok (PhysicalAddress.PhysicalAddress 0x12AB) \<and>
     PhysicalAddress_from_str ''1.2.a.b'' = Ok (PhysicalAddress.PhysicalAddress 0x12AB) \<and>
     PhysicalAddress_from_str ''1.2.A.B'' = Ok (PhysicalAddress.PhysicalAddress 0x12AB) \<and>
     is_Err (PhysicalAddress_from_str ''12a'') \<and>
     is_Err (PhysicalAddress_from_str ''12abcd'') \<and>
     is_Err (PhysicalAddress_from_str ''1.2.a'') \<and>
     is_Err (PhysicalAddress_from_str ''1.2.a.b.c'') \<and>
     is_Err (PhysicalAddress_from_str ''1.2.ab'') \<and>
     is_Err (PhysicalAddress_from_str ''1.2.a.bc'') \<and>
     is_Err (PhysicalAddress_from_str ''1.2.a.'') \<and>
     is_Err (PhysicalAddress_from_str ''.1.2.a.b'') \<and>
     is_Err (PhysicalAddress_from_str ''1..2.a.b'') \<and>
     is_Err (PhysicalAddress_from_str ''1.2.a.b.'') \<and>
     PhysicalAddress_serialize (PhysicalAddress.PhysicalAddress 0x123F) = Str ''1.2.3.f'' \<and>
     PhysicalAddress_deserialize (Str ''1.2.3.f'') = Inr (PhysicalAddress.PhysicalAddress 0x123F) \<and>
     PhysicalAddress_deserialize (Str ''1234'') = Inr (PhysicalAddress.PhysicalAddress 0x1234) \<and>
     PhysicalAddress_deserialize (Str ''0x123f'') = Inr (PhysicalAddress.PhysicalAddress 0x123F) \<and>
     isl (PhysicalAddress_deserialize (Str ''abcdg'')) \<and>
     PhysicalAddress_deserialize (Unsigned 16) = Inr (PhysicalAddress.PhysicalAddress 0x10)"

definition test_vendor_id :: bool where
  "test_vendor_id \<longleftrightarrow>
     VendorId_from_str ''01-ab-2c'' = Ok (VendorId [0x01, 0xAB, 0x2C]) \<and>
     VendorId_from_str ''01-23-45'' = Ok (VendorId [0x01, 0x23, 0x45]) \<and>
     VendorId_from_str ''01-ab-2g'' = Err InvalidData \<and>
     VendorId_from_str ''01-ab'' = Err InvalidData \<and>
     VendorId_from_str ''01ab2c'' = Err InvalidData \<and>
     VendorId_from_str ''01:ab:2c'' = Err InvalidData \<and>
     VendorId_fmt (VendorId [0x01, 0xAB, 0x2C]) = ''01-ab-2c'' \<and>
     map_option VendorId_try_from_sys (SysVendorId_try_from 0x01AB2C) =
       Some (Ok (Some (VendorId [0x01, 0xAB, 0x2C]))) \<and>
     map_option VendorId_try_from_sys (SysVendorId_try_from 0xFFFFFFFF) = Some (Ok None) \<and>
     VendorId_into_u32 (VendorId [0x01, 0xAB, 0x2C]) = 0x01AB2C \<and>
     map_option Ok (SysVendorId_try_from 0x01AB2C) =
       Some (VendorId_into_sys (VendorId [0x01, 0xAB, 0x2C])) \<and>
     VendorId_serialize (VendorId [0x01, 0xAB, 0x2C]) = Str ''01-ab-2c'' \<and>
     VendorId_deserialize (Str ''01-ab-2c'') = Inr (VendorId [0x01, 0xAB, 0x2C]) \<and>
     isl (VendorId_deserialize (Str ''01-ab-2g''))"

definition test_logical_address :: bool where
  "test_logical_address \<longleftrightarrow>
     LogicalAddress_serialize LogicalAddress.Tv = Unsigned 0 \<and>
     LogicalAddress_deserialize (Unsigned 1) = Inr LogicalAddress.RecordingDevice1 \<and>
     isl (LogicalAddress_deserialize (Unsigned 16)) \<and>
     LogicalAddress_deserialize (Str ''Tv'') = Inr LogicalAddress.Tv \<and>
     isl (LogicalAddress_deserialize (Str ''radio'')) \<and>
     LogicalAddress_deserialize (Str ''tv'') = Inr LogicalAddress.Tv \<and>
     LogicalAddress_deserialize (Str ''recording-device'') = Inr LogicalAddress.RecordingDevice1"

definition test_logical_address_type :: bool where
  "test_logical_address_type \<longleftrightarrow>
     LogicalAddressType_serialize LogicalAddressType.Tv = Str ''tv'' \<and>
     isl (LogicalAddressType_deserialize (Unsigned 1)) \<and>
     LogicalAddressType_deserialize (Str ''tv'') = Inr LogicalAddressType.Tv \<and>
     isl (LogicalAddressType_deserialize (Str ''radio''))"

definition test_timeout :: bool where
  "test_timeout \<longleftrightarrow>
     Timeout_try_from \<lparr>secs = 2, nanos = 0\<rparr> = Ok (Timeout_from_ms 2000) \<and>
     Timeout_try_from (from_millis 0x100000000) =
       Err (OutOfRange (AtMost 0xFFFFFFFF) 0x100000000 ''milliseconds'')"

section \<open>Modes\<close>

definition test_initiator_mode :: bool where
  "test_initiator_mode \<longleftrightarrow>
     NoInitiator = CecInitiatorModes_from InitiatorMode.Disabled \<and>
     Initiator = CecInitiatorModes_from InitiatorMode.Enabled \<and>
     ExclusiveInitiator = CecInitiatorModes_from InitiatorMode.Exclusive \<and>
     Ok InitiatorMode.Disabled = InitiatorMode_try_from NoInitiator \<and>
     Ok InitiatorMode.Enabled = InitiatorMode_try_from Initiator \<and>
     Ok InitiatorMode.Exclusive = InitiatorMode_try_from ExclusiveInitiator \<and>
     InitiatorMode_try_from (CecInitiatorModes.Invalid 256) =
       Err (InvalidValueForType ''CecInitiatorModes'' ''256'')"

definition test_follower_mode :: bool where
  "test_follower_mode \<longleftrightarrow>
     NoFollower = CecFollowerModes_from FollowerMode.Disabled \<and>
     Follower = CecFollowerModes_from FollowerMode.Enabled \<and>
     ExclusiveFollower = CecFollowerModes_from FollowerMode.Exclusive \<and>
     ExclusiveFollowerPassthru = CecFollowerModes_from FollowerMode.ExclusivePassthru \<and>
     CecFollowerModes.MonitorPin = CecFollowerModes_from FollowerMode.MonitorPin \<and>
     CecFollowerModes.Monitor = CecFollowerModes_from FollowerMode.Monitor \<and>
     CecFollowerModes.MonitorAll = CecFollowerModes_from FollowerMode.MonitorAll \<and>
     Ok FollowerMode.Disabled = FollowerMode_try_from NoFollower \<and>
     Ok FollowerMode.Enabled = FollowerMode_try_from Follower \<and>
     Ok FollowerMode.Exclusive = FollowerMode_try_from ExclusiveFollower \<and>
     Ok FollowerMode.ExclusivePassthru = FollowerMode_try_from ExclusiveFollowerPassthru \<and>
     Ok FollowerMode.MonitorPin = FollowerMode_try_from CecFollowerModes.MonitorPin \<and>
     Ok FollowerMode.Monitor = FollowerMode_try_from CecFollowerModes.Monitor \<and>
     Ok FollowerMode.MonitorAll = FollowerMode_try_from CecFollowerModes.MonitorAll \<and>
     FollowerMode_try_from (CecFollowerModes.Invalid 256) =
       Err (InvalidValueForType ''CecFollowerModes'' ''256'')"

section \<open>Envelopes\<close>

text \<open>The frame that each test of \<open>test_envelope\<close> writes out, with the fields that differ.\<close>

definition received :: "64 word \<Rightarrow> u32 \<Rightarrow> u8 list \<Rightarrow> cec_msg" where
  "received ts n bytes =
     \<lparr>tx_ts = 0, rx_ts = ts, msg_len = n, timeout = 0, sequence = 1, msg_flags = 0,
      msg = resize bytes 16 0, reply = 0, rx_status = CEC_RX_STATUS_OK, tx_status = 0,
      tx_arb_lost_cnt = 0, tx_nack_cnt = 0, tx_low_drive_cnt = 0, tx_error_cnt = 0\<rparr>"

definition decode_simple :: bool where
  "decode_simple \<longleftrightarrow>
     (case Envelope_try_from (received 911462400 2 [0xF, Opcode_into Opcode.Standby]) of
        Ok env \<Rightarrow>
          MessageData_opcode (message env) = Ok (Opcode_into Opcode.Standby) \<and>
          env_initiator env = LogicalAddress.Tv \<and>
          env_destination env = LogicalAddress.UnregisteredOrBroadcast \<and>
          timestamp env = 911462400 \<and> env_sequence env = 1 \<and>
          (case message env of Valid m \<Rightarrow> Message_opcode m = Ok Opcode.Standby | _ \<Rightarrow> False)
      | _ \<Rightarrow> False)"

definition decode_invalid_opcode :: bool where
  "decode_invalid_opcode \<longleftrightarrow>
     (case Envelope_try_from (received 0 2 [0xF, 0xFE]) of
        Ok env \<Rightarrow>
          MessageData_opcode (message env) = Ok 0xFE \<and>
          (case message env of MessageData.Invalid m \<Rightarrow> m = [0xFE] | _ \<Rightarrow> False)
      | _ \<Rightarrow> False)"

definition test_envelope :: bool where
  "test_envelope \<longleftrightarrow>
     decode_simple \<and> decode_invalid_opcode \<and>
     Envelope_try_from (received 0 16 [0xF, Opcode_into Opcode.Standby]) = Err InvalidData \<and>
     Envelope_try_from (received 0 0 []) = Err InvalidData \<and>
     Envelope_try_from (received 0 1 []) = Err InvalidData"

section \<open>The model passes them\<close>

lemma test_range_pass [passes]: test_range
  by (simp add: test_range_def show_nat.simps)

lemmas run_text = from_str_radix_16_def to_digit_def u16_from_hex_def u8_from_hex_def hex_digit_def
  hex_byte_def Let_def

lemma test_physical_address_pass [passes]: test_physical_address
  by (simp add: test_physical_address_def PhysicalAddress_from_str_def PhysicalAddress_from_plain_def
      PhysicalAddress_from_dotted_def PhysicalAddress_serialize_def PhysicalAddress_deserialize_def run_text)

lemma test_vendor_id_pass [passes]: test_vendor_id
  by (simp add: test_vendor_id_def VendorId_from_str_def VendorId_octet_from_str_def VendorId_fmt_def
      SysVendorId_try_from_def CEC_VENDOR_ID_NONE_def VendorId_try_from_sys_def narrow_u32_def
      VendorId_into_sys_def VendorId_into_u32_def VendorId_serialize_def VendorId_deserialize_def
      String_deserialize_def run_text)

lemma test_logical_address_pass [passes]: test_logical_address
  by (simp add: test_logical_address_def LogicalAddress_serialize_def LogicalAddress_deserialize_def
      LogicalAddress_from_str_def strum_from_str_def LogicalAddress_names_def eq_ignore_ascii_case_def
      to_ascii_lowercase_def char_of_def try_from_primitive_def LogicalAddress_variants_def Let_def)

lemma test_logical_address_type_pass [passes]: test_logical_address_type
  by (simp add: test_logical_address_type_def LogicalAddressType_serialize_def
      LogicalAddressType_deserialize_def LogicalAddressType_fmt_def strum_display_def preferred_name_def
      strum_from_str_def LogicalAddressType_names_def)

lemma test_timeout_pass [passes]: test_timeout
  by (simp add: test_timeout_def Timeout_try_from_def from_millis_def as_millis_def Timeout_from_ms_def)

lemma test_initiator_mode_pass [passes]: test_initiator_mode
  by (simp add: test_initiator_mode_def show_nat.simps)

lemma test_follower_mode_pass [passes]: test_follower_mode
  by (simp add: test_follower_mode_def show_nat.simps)

lemma decode_standby: "Message_try_from_bytes [0x36] = Ok Message.Standby"
  using decode_opcode [of Opcode.Standby "[]"] by (simp add: run_test)

lemma decode_0xFE: "Message_try_from_bytes [0xFE] = Err (InvalidValueForType ''Opcode'' ''254'')"
  by (simp add: Message_try_from_bytes_def try_from_primitive_def Opcode_variants_def show_u8_def
      show_nat.simps)

lemma test_envelope_pass [passes]: test_envelope
  by (simp add: test_envelope_def decode_simple_def decode_invalid_opcode_def Envelope_try_from_def
      received_def received_data_def slice_def array_vec_def contains_def CEC_RX_STATUS_OK_def
      CEC_RX_STATUS_TIMEOUT_def CEC_RX_STATUS_ABORTED_def CEC_RX_STATUS_FEATURE_ABORT_def initiator_def
      destination_def LogicalAddress_variants_def word_le_nat_alt decode_standby decode_0xFE run_test)


end
