(* ===== verification/TestSetup.thy ===== *)
theory TestSetup
  imports MockDevice CodecTests
begin

text \<open>
  The harness of the daemon's tests: \<open>setup_dbus_test\<close> of \<open>cecd/src/testing/mod.rs\<close> and what the tests
  do with a device that is ready. Tests wait for other tasks where they sleep or are notified; here
  the turns of these tasks are steps of a script, and a script fails with a crash where an assertion
  does. The lemmas run the setup and the operations, each in a few rewriting steps.
\<close>

section \<open>Scripts\<close>

type_synonym test_action = "(mock, unit) task_action"

abbreviation script :: "test_action list \<Rightarrow> test_action" where
  "script ms \<equiv> act_list (\<lambda>m. m) ms"

definition steps :: "Step list \<Rightarrow> test_action" where
  "steps ss = device_steps mock_environment ss"

text \<open>The task runs until it has handled the events of the device and its background jobs.\<close>

definition settle :: test_action where
  "settle =
     act_state (\<lambda>t. script
       [act_modify (\<lambda>t. t\<lparr>world := (world t)\<lparr>mock_events := 0\<rparr>\<rparr>),
        steps (replicate (mock_events (world t)) (Turn (Polled (Ok GotEvent)))),
        act_state (\<lambda>t. steps (replicate (length (jobs t)) (Turn (JobRuns 0))))])"

text \<open>\<open>setup_dbus_test\<close>: what is sent and signalled until the device is ready is left aside.\<close>

definition ready :: test_action where
  "ready = script
     [set_interface (\<lambda>i. i\<lparr>channel := Some []\<rparr>),
      DeviceTask_start mock_environment,
      settle,
      act_modify (\<lambda>t. t\<lparr>world := (world t)\<lparr>tx_queue := [], mock_signals := []\<rparr>\<rparr>)]"

definition setup_dbus_test :: "(mock \<Rightarrow> mock) \<Rightarrow> Config \<Rightarrow> unit outcome \<times> mock DeviceTask" where
  "setup_dbus_test setup_dev cfg =
     (case System_new mock_environment mock_default of (made, k) \<Rightarrow>
      case set_config mock_environment cfg (case made of Done s \<Rightarrow> s | _ \<Rightarrow> undefined, k) of
        (_, s, k) \<Rightarrow>
      case Device_try_from mock_kernel k of (opened, k) \<Rightarrow>
      case CecDevice_open mock_environment (the_Ok opened, k) of (object, d, k) \<Rightarrow>
      case DeviceTask_new mock_environment d (setup_dev k) s (the_Ok object) of
        (Done _, t) \<Rightarrow> ready t
      | (e, t) \<Rightarrow> (e, t))"

definition basic_device :: "mock \<Rightarrow> mock" where
  "basic_device k = k\<lparr>mock_caps := CAP_LOG_ADDRS OR CAP_TRANSMIT, mock_phys_addr := 0x1000\<rparr>"

section \<open>The device that is ready\<close>

definition completed :: "Config \<Rightarrow> Config" where
  "completed cfg = cfg\<lparr>
     cfg_logical_address :=
       (if cfg_logical_address cfg = LogicalAddressType.Unregistered then LogicalAddressType.Playback
        else cfg_logical_address cfg),
     cfg_osd_name := (case cfg_osd_name cfg of Some name \<Rightarrow> Some name | None \<Rightarrow> Some test_host),
     cfg_mappings :=
       (if cfg_mappings cfg = Map.empty then map_of DEFAULT_MAPPINGS else cfg_mappings cfg)\<rparr>"

definition test_system :: "Config \<Rightarrow> System" where
  "test_system cfg =
     \<lparr>sys_osd_name = (case cfg_osd_name cfg of Some name \<Rightarrow> name | None \<Rightarrow> test_host),
      config = completed cfg, sys_standby = False, inhibit_fd = True,
      message_handlers = Map.empty, sys_channel = [ReloadConfig]\<rparr>"

lemma test_host: "default_osd_name (Some test_host) = test_host"
  by (simp add: default_osd_name_def test_host_def)

lemma test_set_config:
  "\<exists>s. System_new mock_environment mock_default = (Done s, mock_default) \<and>
     set_config mock_environment cfg (s, mock_default) = (Done (), test_system cfg, mock_default)"
  by (simp add: System_new_def call_def set_config_def on_system_def on_world_def send_message_def
      act_bind_def test_host test_system_def completed_def Config_default_def split: option.split)

lemma mock_default_simps [simp]:
  "mock_caps mock_default = 0" "mock_phys_addr mock_default = 0xFFFF"
  "mock_log_addrs mock_default = cec_log_addrs_default" "force_unregistered mock_default = False"
  "mock_mode mock_default = 0" "mock_events mock_default = 0" "tx_queue mock_default = []"
  "rx_queue mock_default = []" "mock_signals mock_default = []" "handled mock_default = []"
  "handler_outcome mock_default = HandlerReply True 0"
  "num_log_addrs cec_log_addrs_default = 0" "vendor_id cec_log_addrs_default = SysVendorId_default"
  "osd_name cec_log_addrs_default = replicate 15 0"
  "log_addr_type cec_log_addrs_default = [0, 0, 0, 0]"
  "primary_device_type cec_log_addrs_default = [0, 0, 0, 0]"
  by (simp_all add: mock_default_def cec_log_addrs_default_def CEC_MAX_LOG_ADDRS_def replicate_numeral)

definition closed_device :: Device where
  "closed_device =
     \<lparr>tx_logical_address = LogicalAddress_Unregistered, internal_log_addrs = cec_log_addrs_default\<rparr>"

definition closed_object :: CecDevice where
  "closed_object =
     \<lparr>cached_phys_addr = 0xFFFF, cached_log_addrs = [], cached_vendor_id = -1,
      cached_active = False, cached_audio_log_addr = 0, channel = None, key_repeat = Map.empty,
      uinput = None\<rparr>"

lemma no_vendor [simp]: "VendorId_try_from_sys SysVendorId_default = Ok None"
  by (simp add: VendorId_try_from_sys_def SysVendorId_default_def SysVendorId_is_none_def)

lemma test_open:
  "Device_try_from mock_kernel mock_default = (Ok closed_device, mock_default)"
  "CecDevice_open mock_environment (closed_device, mock_default) =
     (Ok closed_object, closed_device, mock_default)"
   apply (simp add: Device_try_from_def mock_kernel_def closed_device_def)
  apply (simp add: CecDevice_open_def op_bind_def op_return_def op_or_default_def mock_get_logical_addresses
      closed_device_def closed_object_def VendorId_into_i32_def PhysicalAddress_default_def)
  done

text \<open>The addresses that the device has when the kernel has claimed one for playback.\<close>

definition claimed_addrs :: "bool \<Rightarrow> cec_log_addrs" where
  "claimed_addrs unregistered = cec_log_addrs_default\<lparr>
     osd_name := test_host @ replicate 10 0 @ [0],
     primary_device_type := [4, 0, 0, 0], log_addr_type := [3, 0, 0, 0], num_log_addrs := 1,
     log_addr := (if unregistered then [15, 15, 15, 15] else [4, 0, 0, 0])\<rparr>"

text \<open>The calls of \<open>configure_dev\<close>.\<close>

lemma host_len: "length test_host = 4"
  by (simp add: test_host_def)

lemma test_clear:
  assumes "contains (mock_caps k) CAP_LOG_ADDRS"
  shows "clear_logical_addresses mock_kernel (closed_device, k) =
     (Ok (), closed_device, k\<lparr>mock_log_addrs := cec_log_addrs_default, mock_events := mock_events k + 1\<rparr>)"
proof -
  have "cec_log_addrs_default\<lparr>num_log_addrs := 0\<rparr> = cec_log_addrs_default"
    by (simp add: cec_log_addrs_default_def)
  then show ?thesis
    using assms
    by (simp add: clear_logical_addresses_def set_log_addrs_def syscall_log_addrs_def op_bind_def
      op_modify_def mock_kernel_def mock_set_log_addrs_def closed_device_def Let_def)
qed

definition named_device :: Device where
  "named_device = closed_device\<lparr>internal_log_addrs :=
     cec_log_addrs_default\<lparr>osd_name := test_host @ replicate 10 0 @ [0]\<rparr>\<rparr>"

lemma test_name:
  "set_osd_name debug mock_kernel test_host (closed_device, k) = (Ok (), named_device, k)"
  by (simp add: set_osd_name_def op_bind_def op_return_def op_device_def op_result_def op_modify_def
      buffer_from_str_def host_len check_Ok copy_from_slice_def set_log_addrs_def closed_device_def named_device_def)

lemma test_vendor: "set_vendor_id None (named_device, k) = (Ok (), named_device, k)"
  by (simp add: set_vendor_id_def op_modify_def set_log_addrs_def named_device_def closed_device_def
      cec_log_addrs_default_def)

lemma mock_addresses:
  "mock_address u 3 = (if u then 15 else 4)" "mock_address u 0 = (if u then 15 else 0)"
  by (simp_all add: mock_address_def try_from_primitive_def LogicalAddressType_variants_def
      LogicalAddress_Unregistered_def)

lemma claimed_claimed:
  "log_addr la ! 0 = 4 \<Longrightarrow> claimed_address la = LogicalAddress.PlaybackDevice1"
  "log_addr la ! 0 = 15 \<Longrightarrow> claimed_address la = LogicalAddress_Unregistered"
  by (simp_all add: claimed_address_def try_from_primitive_def LogicalAddress_variants_def
      LogicalAddress_Unregistered_def)

definition claimed_device :: "bool \<Rightarrow> Device" where
  "claimed_device u =
     \<lparr>tx_logical_address = (if u then LogicalAddress_Unregistered else LogicalAddress.PlaybackDevice1),
      internal_log_addrs = claimed_addrs u\<rparr>"

lemma test_claim:
  assumes "contains (mock_caps k) CAP_LOG_ADDRS" "get_field 0 (mock_mode k) \<noteq> 0"
    "num_log_addrs (mock_log_addrs k) = 0" "mock_phys_addr k \<noteq> 0xFFFF"
  shows "set_logical_address mock_kernel LogicalAddressType.Playback (named_device, k) =
     (Ok (), claimed_device (force_unregistered k),
      k\<lparr>mock_log_addrs := claimed_addrs (force_unregistered k), mock_events := mock_events k + 1\<rparr>)"
proof -
  have "store_types (cec_log_addrs_default\<lparr>osd_name := test_host @ replicate 10 0 @ [0]\<rparr>) 0
      [LogicalAddressType.Playback] =
    Ok (cec_log_addrs_default\<lparr>osd_name := test_host @ replicate 10 0 @ [0],
      primary_device_type := [4, 0, 0, 0], log_addr_type := [3, 0, 0, 0]\<rparr>)"
    by (simp add: set_index_def)
  then show ?thesis
    using assms
    by (simp add: set_logical_address_def set_logical_addresses_def op_bind_def op_return_def
      op_device_def op_result_def op_modify_def named_device_def closed_device_def set_log_addrs_def
      syscall_log_addrs_def mock_kernel_def mock_set_log_addrs_def check_def CEC_MAX_LOG_ADDRS_def
      mock_addresses claimed_claimed claimed_device_def claimed_addrs_def Let_def
      del: store_types.simps)
qed

text \<open>The task of a new device.\<close>

lemma mode_bits: "get_field 0 (0x11 :: u32) = 1" "get_field 0 (1 :: u32) = 1" "get_field 0 (0 :: u32) = 0"
  by (simp_all add: get_field_def)

lemma test_modes:
  assumes "contains (mock_caps k) CAP_TRANSMIT"
  shows "mock_mode k = 0 \<Longrightarrow> set_initiator_mode mock_kernel InitiatorMode.Enabled (d, k) =
      (Ok (), d, k\<lparr>mock_mode := 1\<rparr>)"
    and "mock_mode k = 1 \<Longrightarrow> set_follower_mode mock_kernel FollowerMode.Enabled (d, k) =
      (Ok (), d, k\<lparr>mock_mode := 0x11\<rparr>)"
  using assms
  by (simp_all add: set_initiator_mode_def set_follower_mode_def Device_get_mode_def Device_set_mode_def
      op_bind_def op_return_def syscall_def syscall_write_def mock_kernel_def CecMessageHandlingMode_with_initiator_def
      CecMessageHandlingMode_with_follower_def set_field_def mode_bits)

lemma task_device_run:
  "m (device t, world t) = (Ok x, d, k) \<Longrightarrow> on_device m t = (Done x, t\<lparr>device := d, world := k\<rparr>)"
  "m (device t, world t) = (Err e, d, k) \<Longrightarrow> on_device m t = (Fail (Library e), t\<lparr>device := d, world := k\<rparr>)"
  by (simp_all add: on_device_def)

lemma test_caps:
  "contains (CAP_LOG_ADDRS OR CAP_TRANSMIT) CAP_LOG_ADDRS"
  "contains (CAP_LOG_ADDRS OR CAP_TRANSMIT) CAP_TRANSMIT" "contains CAP_TRANSMIT CAP_TRANSMIT"
  "\<not> contains CAP_TRANSMIT CAP_LOG_ADDRS" "\<not> contains CAP_TRANSMIT CAP_PHYS_ADDR"
  "\<not> contains CAP_TRANSMIT CAP_CONNECTOR_INFO" "\<not> contains 0 CAP_TRANSMIT"
  "\<not> contains 0 CAP_CONNECTOR_INFO"
  "\<not> contains (CAP_LOG_ADDRS OR CAP_TRANSMIT) CAP_PHYS_ADDR"
  "\<not> contains (CAP_LOG_ADDRS OR CAP_TRANSMIT) CAP_CONNECTOR_INFO"
  by (simp_all add: contains_def CAP_LOG_ADDRS_def CAP_TRANSMIT_def CAP_PHYS_ADDR_def CAP_CONNECTOR_INFO_def)

lemma test_clear_busy:
  assumes "contains (mock_caps (world t)) CAP_LOG_ADDRS" "device t = closed_device"
  shows "clear_busy mock_environment 5 t =
     (Done (), t\<lparr>device := closed_device, world := (world t)\<lparr>mock_log_addrs := cec_log_addrs_default,
        mock_events := mock_events (world t) + 1\<rparr>\<rparr>)"
  using assms by (simp add: numeral_eq_Suc task_device_run test_clear)

lemma test_configure:
  assumes "mock_caps (world t) = CAP_LOG_ADDRS OR CAP_TRANSMIT" "mock_mode (world t) = 0"
    "mock_phys_addr (world t) = 0x1000" "device t = closed_device"
    "sys_osd_name (system t) = test_host" "cfg_vendor_id (config (system t)) = None"
    "cfg_logical_address (config (system t)) = LogicalAddressType.Playback"
  shows "configure_dev mock_environment None t =
     (Done None, t\<lparr>device := claimed_device (force_unregistered (world t)),
        world := (world t)\<lparr>mock_mode := 0x11,
          mock_log_addrs := claimed_addrs (force_unregistered (world t)),
          mock_events := mock_events (world t) + 2\<rparr>\<rparr>)"
  using assms
  by (simp add: configure_dev_def task_device_run test_caps test_modes configure_logical_address_def
      test_clear_busy test_name test_vendor test_claim trimmed_osd_name_def host_len mode_bits)

definition claimed_world :: "bool \<Rightarrow> nat \<Rightarrow> (MessageData \<times> LogicalAddress) list \<Rightarrow> Signal list \<Rightarrow> mock" where
  "claimed_world u n sent sigs =
     \<lparr>mock_caps = CAP_LOG_ADDRS OR CAP_TRANSMIT, mock_phys_addr = 0x1000,
      mock_log_addrs = claimed_addrs u, force_unregistered = u, mock_mode = 0x11, mock_events = n,
      tx_queue = sent, rx_queue = [], mock_signals = sigs, handler_outcome = HandlerReply True 0,
      handled = []\<rparr>"

definition claimed_task :: "bool \<Rightarrow> mock \<Rightarrow> System \<Rightarrow> CecDevice \<Rightarrow> Job list \<Rightarrow> mock DeviceTask" where
  "claimed_task u k s i js =
     \<lparr>device = claimed_device u, world = k, system = s, interface = i, active_key = None,
      log_addr_try = LOG_ADDR_RETRIES, awaiting_wake = False, active = False, connector = None,
      audio_log_addr = LogicalAddress.Tv, with_logical_address_queue = [], jobs = js\<rparr>"

text \<open>The virtual keyboard, if the configuration asks for it.\<close>

definition test_keyboard :: "Config \<Rightarrow> UInputDevice option" where
  "test_keyboard cfg =
     (if cfg_uinput cfg then
        Some \<lparr>ui_mappings = cfg_mappings (completed cfg),
          ui_name = map (\<lambda>c. of_char c) ''cecd '' @ adapter_name cec_caps_default, ui_open = True,
          ui_events = []\<rparr>
      else None)"

definition test_config :: "Config \<Rightarrow> bool" where
  "test_config cfg \<longleftrightarrow>
     cfg_osd_name cfg = None \<and> cfg_vendor_id cfg = None \<and> \<not> cfg_request_active_source cfg \<and>
     cfg_logical_address (completed cfg) = LogicalAddressType.Playback"

lemma mappings_completed: "cfg_mappings (completed cfg) \<noteq> Map.empty"
proof -
  have "map_of DEFAULT_MAPPINGS UiCommand.Select \<noteq> None"
    by (simp add: DEFAULT_MAPPINGS_def)
  then have "map_of DEFAULT_MAPPINGS \<noteq> Map.empty" by metis
  then show ?thesis by (simp add: completed_def)
qed

lemma test_new:
  assumes "test_config cfg"
  shows "DeviceTask_new mock_environment closed_device
       ((basic_device mock_default)\<lparr>force_unregistered := u\<rparr>) (test_system cfg) closed_object =
     (Done (), claimed_task u (claimed_world u 2 [] []) (test_system cfg)
       (closed_object\<lparr>uinput := test_keyboard cfg\<rparr>) [])"
proof -
  have s: "sys_osd_name (test_system cfg) = test_host" "config (test_system cfg) = completed cfg"
      "cfg_vendor_id (completed cfg) = None" "cfg_uinput (completed cfg) = cfg_uinput cfg"
      "cfg_logical_address (completed cfg) = LogicalAddressType.Playback"
    using assms by (simp_all add: test_config_def test_system_def completed_def)
  show ?thesis
    by (cases "cfg_uinput cfg")
      (simp_all add: DeviceTask_new_def test_configure basic_device_def s configure_uinput_def mappings_completed
        set_interface_def task_device_run in_world_def call_io_def io_outcome_def open_keyboard_def
        set_mappings_def set_name_def uinput_open_def ensure_def UInputDevice_new_def act_bind_def
        claimed_task_def claimed_world_def mock_default_def test_keyboard_def closed_object_def)
qed

text \<open>Turns of the task on this device.\<close>

lemma claimed_addrs_simps [simp]:
  "num_log_addrs (claimed_addrs u) = 1" "vendor_id (claimed_addrs u) = SysVendorId_default"
  "log_addr (claimed_addrs u) = (if u then [15, 15, 15, 15] else [4, 0, 0, 0])"
  by (simp_all add: claimed_addrs_def)

lemma claimed_addresses:
  "collect_log_addrs [4, 0, 0, 0] [0..<Suc 0] = Ok [LogicalAddress.PlaybackDevice1]"
  "collect_log_addrs [15, 15, 15, 15] [0..<Suc 0] = Ok [LogicalAddress_Unregistered]"
  by (simp_all add: try_from_primitive_def LogicalAddress_variants_def index_def LogicalAddress_Unregistered_def)

text \<open>What the task reads of the device, when the device and the kernel agree.\<close>

lemma test_reads:
  assumes "device t = claimed_device u" "mock_log_addrs (world t) = claimed_addrs u"
  shows "on_device (get_physical_address mock_kernel) t =
      (Done (PhysicalAddress.PhysicalAddress (mock_phys_addr (world t))), t)"
    and "on_device (get_logical_addresses mock_kernel) t =
      (Done [if u then LogicalAddress_Unregistered else LogicalAddress.PlaybackDevice1], t)"
    and "on_device (get_vendor_id mock_kernel) t = (Done None, t)"
    and "on_device (handle_status mock_kernel GotEvent) t = (Done [StateChange], t)"
proof -
  let ?la = "internal_log_addrs (device t)"
  have e: "mock_log_addrs (world t) = ?la"
    using assms by (simp add: claimed_device_def)
  have f: "num_log_addrs ?la = 1" "vendor_id ?la = SysVendorId_default"
    "collect_log_addrs (log_addr ?la) [0..<Suc 0] =
       Ok [if u then LogicalAddress_Unregistered else LogicalAddress.PlaybackDevice1]"
    using claimed_addresses by (simp_all only: claimed_addrs_simps assms(2) e [symmetric]) (cases u; simp)
  have g: "\<lparr>tx_logical_address = claimed_address ?la, internal_log_addrs = ?la\<rparr> = device t"
    using assms(1) claimed_claimed [of ?la] by (cases u; simp add: claimed_device_def)
  show "on_device (get_physical_address mock_kernel) t =
      (Done (PhysicalAddress.PhysicalAddress (mock_phys_addr (world t))), t)"
    by (simp add: on_device_def)
  show "on_device (get_logical_addresses mock_kernel) t =
      (Done [if u then LogicalAddress_Unregistered else LogicalAddress.PlaybackDevice1], t)"
    using f by (simp add: on_device_def mock_get_logical_addresses e)
  show "on_device (get_vendor_id mock_kernel) t = (Done None, t)"
    using f by (simp add: on_device_def mock_get_logical_addresses e)
  show "on_device (handle_status mock_kernel GotEvent) t = (Done [StateChange], t)"
    using f g by (simp add: on_device_def mock_handle_event e)
qed

lemma test_signal:
  "signal mock_environment s t =
     (Done (), t\<lparr>world := (world t)\<lparr>mock_signals := mock_signals (world t) @ [s]\<rparr>\<rparr>)"
  by (simp add: signal_def in_world_def call_io_def io_outcome_def)

lemma test_send:
  assumes "Message_valid m" "Message_len m \<le> 14" "may_transmit (world t) = None"
  shows "on_device (tx_message debug mock_kernel m dest) t =
     (Done 0, t\<lparr>world := (world t)\<lparr>tx_queue := tx_queue (world t) @ [(Valid m, dest)]\<rparr>\<rparr>)"
  by (simp add: task_device_run mock_tx_message [OF assms])

lemma test_job:
  assumes "device t = claimed_device False" "mock_log_addrs (world t) = claimed_addrs False"
    "get_field 0 (mock_mode (world t)) \<noteq> 0"
  shows "run_job mock_environment j t =
     (Done (), t\<lparr>world := (world t)\<lparr>tx_queue := tx_queue (world t) @
        [(Valid (fst (job_message j)), snd (job_message j))]\<rparr>\<rparr>)"
proof -
  have "may_transmit (world t) = None"
    using assms(2,3) by (simp add: may_transmit_def LogicalAddress_Unregistered_def)
  moreover have "Message_valid (fst (job_message j))" "Message_len (fst (job_message j)) \<le> 14"
    by (cases j; simp add: job_message_def)+
  ultimately show ?thesis
    by (simp add: run_job_def current_log_addrs_def test_reads [OF assms(1,2)] act_logged_def test_send)
qed

lemma claimed_simps [simp]:
  "device (claimed_task u k s i js) = claimed_device u" "world (claimed_task u k s i js) = k"
  "interface (claimed_task u k s i js) = i" "system (claimed_task u k s i js) = s"
  "jobs (claimed_task u k s i js) = js" "with_logical_address_queue (claimed_task u k s i js) = []"
  "active (claimed_task u k s i js) = False" "awaiting_wake (claimed_task u k s i js) = False"
  "active_key (claimed_task u k s i js) = None"
  "audio_log_addr (claimed_task u k s i js) = LogicalAddress.Tv"
  "(claimed_task u k s i js)\<lparr>world := k'\<rparr> = claimed_task u k' s i js"
  "(claimed_task u k s i js)\<lparr>interface := i'\<rparr> = claimed_task u k s i' js"
  "(claimed_task u k s i js)\<lparr>jobs := js'\<rparr> = claimed_task u k s i js'"
  "(claimed_task u k s i js)\<lparr>with_logical_address_queue := []\<rparr> = claimed_task u k s i js"
  by (simp_all add: claimed_task_def)

lemma claimed_world_simps [simp]:
  "mock_log_addrs (claimed_world u n q g) = claimed_addrs u"
  "mock_phys_addr (claimed_world u n q g) = 0x1000" "mock_mode (claimed_world u n q g) = 0x11"
  "mock_events (claimed_world u n q g) = n" "tx_queue (claimed_world u n q g) = q"
  "mock_signals (claimed_world u n q g) = g" "rx_queue (claimed_world u n q g) = []"
  "mock_caps (claimed_world u n q g) = CAP_LOG_ADDRS OR CAP_TRANSMIT"
  "force_unregistered (claimed_world u n q g) = u" "handled (claimed_world u n q g) = []"
  "handler_outcome (claimed_world u n q g) = HandlerReply True 0"
  "(claimed_world u n q g)\<lparr>mock_events := n'\<rparr> = claimed_world u n' q g"
  "(claimed_world u n q g)\<lparr>tx_queue := q'\<rparr> = claimed_world u n q' g"
  "(claimed_world u n q g)\<lparr>mock_signals := g'\<rparr> = claimed_world u n q g'"
  by (simp_all add: claimed_world_def)

text \<open>The first event tells the addresses; the second one finds nothing new.\<close>

lemma claimed_reads:
  "on_device (get_physical_address mock_kernel) (claimed_task u (claimed_world u n q g) s i js) =
     (Done (PhysicalAddress.PhysicalAddress 0x1000), claimed_task u (claimed_world u n q g) s i js)"
  "on_device (get_logical_addresses mock_kernel) (claimed_task u (claimed_world u n q g) s i js) =
     (Done [if u then LogicalAddress_Unregistered else LogicalAddress.PlaybackDevice1],
      claimed_task u (claimed_world u n q g) s i js)"
  "on_device (get_vendor_id mock_kernel) (claimed_task u (claimed_world u n q g) s i js) =
     (Done None, claimed_task u (claimed_world u n q g) s i js)"
  "on_device (handle_status mock_kernel GotEvent) (claimed_task u (claimed_world u n q g) s i js) =
     (Done [StateChange], claimed_task u (claimed_world u n q g) s i js)"
  by (simp_all add: test_reads)

lemma test_update_cached:
  "field (interface t) = v \<Longrightarrow> update_cached mock_environment field v f sig t = (Done (), t)"
  "field (interface t) \<noteq> v \<Longrightarrow> update_cached mock_environment field v f sig t =
     (Done (), t\<lparr>interface := f (interface t),
        world := (world t)\<lparr>mock_signals := mock_signals (world t) @ [sig]\<rparr>\<rparr>)"
  by (simp_all add: update_cached_def set_interface_def test_signal)

lemma test_check_log_addrs:
  "cached_log_addrs (interface t) = a # as \<Longrightarrow>
   check_log_addrs mock_environment phys (a # as) t = (Done (), t)"
  "cached_log_addrs (interface t) = [] \<Longrightarrow> with_logical_address_queue t = [] \<Longrightarrow>
   \<not> cfg_request_active_source (config (system t)) \<Longrightarrow>
   check_log_addrs mock_environment phys (a # as) t =
     (Done (), t\<lparr>interface := (interface t)\<lparr>cached_log_addrs := a # as\<rparr>,
        world := (world t)\<lparr>mock_signals := mock_signals (world t) @ [LogicalAddressesChanged]\<rparr>,
        with_logical_address_queue := [], jobs := jobs t @ [QueryAudioSystem]\<rparr>)"
  by (simp_all add: check_log_addrs_def log_addrs_changed_def set_interface_def test_signal drain_queue_def
      query_audio_system_def spawn_def request_active_source_def)

lemma no_vendor_id: "VendorId_into_i32 None = -1"
  by (simp add: VendorId_into_i32_def)

lemma claimed_state_change:
  assumes "\<not> cfg_request_active_source (config s)" "cached_vendor_id i = -1"
  shows "cached_log_addrs i = [] \<Longrightarrow> cached_phys_addr i = 0xFFFF \<Longrightarrow>
     state_change mock_environment (claimed_task u (claimed_world u n q g) s i js) =
     (Done (), claimed_task u (claimed_world u n q (g @ [PhysicalAddressChanged, LogicalAddressesChanged])) s
       (i\<lparr>cached_phys_addr := 0x1000, cached_log_addrs := [if u then 15 else 4]\<rparr>)
       (js @ [QueryAudioSystem]))"
    and "cached_log_addrs i = [if u then 15 else 4] \<Longrightarrow> cached_phys_addr i = 0x1000 \<Longrightarrow>
     state_change mock_environment (claimed_task u (claimed_world u n q g) s i js) =
     (Done (), claimed_task u (claimed_world u n q g) s i js)"
proof -
  show "cached_log_addrs i = [] \<Longrightarrow> cached_phys_addr i = 0xFFFF \<Longrightarrow>
     state_change mock_environment (claimed_task u (claimed_world u n q g) s i js) =
     (Done (), claimed_task u (claimed_world u n q (g @ [PhysicalAddressChanged, LogicalAddressesChanged])) s
       (i\<lparr>cached_phys_addr := 0x1000, cached_log_addrs := [if u then 15 else 4]\<rparr>)
       (js @ [QueryAudioSystem]))"
    using assms
    by (cases u; simp add: state_change_def or_default_def claimed_reads Let_def test_update_cached
        test_check_log_addrs no_vendor_id LogicalAddress_Unregistered_def)
  show "cached_log_addrs i = [if u then 15 else 4] \<Longrightarrow> cached_phys_addr i = 0x1000 \<Longrightarrow>
     state_change mock_environment (claimed_task u (claimed_world u n q g) s i js) =
     (Done (), claimed_task u (claimed_world u n q g) s i js)"
    using assms
    by (cases u; simp add: state_change_def or_default_def claimed_reads Let_def test_update_cached
        test_check_log_addrs no_vendor_id LogicalAddress_Unregistered_def)
qed

lemma claimed_turn:
  assumes "state_change mock_environment (claimed_task u (claimed_world u n q g) s i js) = (Done (), t)"
  shows "device_step mock_environment (Turn (Polled (Ok GotEvent)))
     (claimed_task u (claimed_world u n q g) s i js) = (Done True, t)"
  by (simp add: DeviceTask_turn_def claimed_reads handle_poll_result_def act_logged_def assms)

text \<open>The device that every test starts from.\<close>

definition ready_object :: "bool \<Rightarrow> Config \<Rightarrow> CecDevice" where
  "ready_object u cfg = closed_object\<lparr>uinput := test_keyboard cfg, channel := Some [],
     cached_phys_addr := 0x1000, cached_log_addrs := [if u then 15 else 4]\<rparr>"

lemma claimed_job:
  "device_step mock_environment (Turn (JobRuns 0)) (claimed_task False (claimed_world False n q g) s i (j # js)) =
     (Done True, claimed_task False
       (claimed_world False n (q @ [(Valid (fst (job_message j)), snd (job_message j))]) g) s i js)"
  by (simp add: DeviceTask_turn_def test_job mode_bits)

lemma closed_object_simps [simp]:
  "cached_vendor_id closed_object = -1" "cached_log_addrs closed_object = []"
  "cached_phys_addr closed_object = 0xFFFF"
  by (simp_all add: closed_object_def)

text \<open>From the unregistered address nothing can be sent: the job fails, which is only logged.\<close>

lemma unregistered_job:
  "device_step mock_environment (Turn (JobRuns 0)) (claimed_task True (claimed_world True n q g) s i (j # js)) =
     (Done True, claimed_task True (claimed_world True n q g) s i js)"
proof -
  let ?t = "claimed_task True (claimed_world True n q g) s i js"
  have "Message_valid (fst (job_message j))"
    by (cases j; simp add: job_message_def)
  moreover have "may_transmit (claimed_world True n q g) = Some EINVAL"
    by (simp add: may_transmit_def LogicalAddress_Unregistered_def)
  ultimately have "on_device (tx_message debug mock_kernel (fst (job_message j)) dest) ?t =
      (Fail (Library InvalidData), ?t\<lparr>device := claimed_device True, world := claimed_world True n q g\<rparr>)" for debug dest
    by (simp add: task_device_run mock_tx_message_error)
  moreover have "?t\<lparr>device := claimed_device True, world := claimed_world True n q g\<rparr> = ?t"
    by (simp add: claimed_task_def)
  ultimately have "run_job mock_environment j ?t = (Done (), ?t)"
    by (simp add: run_job_def current_log_addrs_def test_reads act_logged_def)
  then show ?thesis by (simp add: DeviceTask_turn_def)
qed

lemma test_ready:
  assumes "\<not> cfg_request_active_source cfg"
  shows "ready (claimed_task u (claimed_world u 2 [] []) (test_system cfg)
       (closed_object\<lparr>uinput := test_keyboard cfg\<rparr>) []) =
     (Done (), claimed_task u (claimed_world u 0 [] []) (test_system cfg) (ready_object u cfg) [])"
proof -
  have c: "\<not> cfg_request_active_source (config (test_system cfg))"
    using assms by (simp add: test_system_def completed_def)
  note claimed_state_change [OF c, simp] and claimed_turn [simp] and claimed_job [simp] unregistered_job [simp]
  show ?thesis
    by (cases u; simp add: ready_def set_interface_def DeviceTask_start_def query_audio_system_def spawn_def
        request_active_source_def c settle_def steps_def replicate_numeral ready_object_def
        del: device_step.simps)
qed

lemma setup_ready:
  assumes "test_config cfg"
  shows "setup_dbus_test basic_device cfg =
     (Done (), claimed_task False (claimed_world False 0 [] []) (test_system cfg) (ready_object False cfg) [])"
proof -
  obtain s where s: "System_new mock_environment mock_default = (Done s, mock_default)"
      "set_config mock_environment cfg (s, mock_default) = (Done (), test_system cfg, mock_default)"
    using test_set_config by blast
  have "(basic_device mock_default)\<lparr>force_unregistered := False\<rparr> = basic_device mock_default"
    by (simp add: basic_device_def mock_default_def)
  with test_new [OF assms, of False] have "DeviceTask_new mock_environment closed_device
      (basic_device mock_default) (test_system cfg) closed_object =
    (Done (), claimed_task False (claimed_world False 2 [] []) (test_system cfg)
      (closed_object\<lparr>uinput := test_keyboard cfg\<rparr>) [])"
    by simp
  then show ?thesis
    using assms by (simp add: setup_dbus_test_def s test_open test_ready test_config_def)
qed

section \<open>Assertions\<close>

definition passes_test :: "unit outcome \<times> mock DeviceTask \<Rightarrow> test_action list \<Rightarrow> bool" where
  "passes_test setup ms \<longleftrightarrow>
     (case setup of (Done _, t) \<Rightarrow> fst (script ms t) = Done () | _ \<Rightarrow> False)"

definition assert :: "(mock DeviceTask \<Rightarrow> bool) \<Rightarrow> test_action" where
  "assert P = act_state (\<lambda>t. if P t then act_skip else act_return Crash)"

text \<open>A call of a client, which succeeds, and the bytes of a key.\<close>

definition unwrapped_call :: "(mock, 'a) bus_action \<Rightarrow> test_action" where
  "unwrapped_call m = act_bind m (\<lambda>r. case r of Inl _ \<Rightarrow> act_return Crash | Inr _ \<Rightarrow> act_skip)"

definition ui_bytes :: "UiCommand \<Rightarrow> u8 list" where
  "ui_bytes c = (case UiCommand_to_bytes c of Some bytes \<Rightarrow> bytes | None \<Rightarrow> [])"

text \<open>The messages that were sent since the last look, and no other.\<close>

definition expect_sent :: "(Message \<times> LogicalAddress) list \<Rightarrow> test_action" where
  "expect_sent ms = script
     [assert (\<lambda>t. tx_queue (world t) = map (\<lambda>(m, dest). (Valid m, dest)) ms),
      act_modify (\<lambda>t. t\<lparr>world := (world t)\<lparr>tx_queue := []\<rparr>\<rparr>)]"

definition expect_signals :: "Signal list \<Rightarrow> test_action" where
  "expect_signals ss = script
     [assert (\<lambda>t. mock_signals (world t) = ss),
      act_modify (\<lambda>t. t\<lparr>world := (world t)\<lparr>mock_signals := []\<rparr>\<rparr>)]"

text \<open>\<open>tx_message\<close> of the tests: a message arrives and is handled.\<close>

definition arrives :: "Message \<Rightarrow> LogicalAddress \<Rightarrow> LogicalAddress \<Rightarrow> test_action" where
  "arrives m from to = script
     [act_modify (\<lambda>t. t\<lparr>world := (world t)\<lparr>rx_queue := rx_queue (world t) @ [(m, from, to)]\<rparr>\<rparr>),
      steps [Turn (Polled (Ok GotMessage))]]"

definition arrives_from :: "Message \<Rightarrow> LogicalAddress \<Rightarrow> test_action" where
  "arrives_from m from =
     act_state (\<lambda>t. arrives m from (claimed_address (mock_log_addrs (world t))))"

definition system_sends :: "SystemMessage \<Rightarrow> test_action" where
  "system_sends m = script [send_system_message m, steps [Turn (Received m)]]"

abbreviation "E \<equiv> mock_environment"

definition basic_config :: Config where
  "basic_config = Config_default\<lparr>cfg_uinput := False, cfg_logical_address := LogicalAddressType.Playback\<rparr>"

abbreviation "basic_test \<equiv> passes_test (setup_dbus_test basic_device basic_config)"

section \<open>Runs of the operations\<close>

lemma bus_run:
  "m t = (Done (Inr x), t') \<Longrightarrow> bus_bind m f t = f x t'"
  "m t = (Done (Inl e), t') \<Longrightarrow> bus_bind m f t = (Done (Inl e), t')"
  "bus_return r t = (Done r, t)"
  "cec_result (Ok x) t = (Done (Inr x), t)" "cec_result (Err err) t = (Done (Inl (BusError.Cec err)), t)"
  "a t = (Done x, t') \<Longrightarrow> anyhow_call a t = (Done (Inr x), t')"
  by (simp_all add: bus_bind_def bus_return_def cec_result_def anyhow_call_def)

lemma cec_call_run:
  "m (device t, world t) = (Ok x, d, k) \<Longrightarrow> cec_call m t = (Done (Inr x), t\<lparr>device := d, world := k\<rparr>)"
  "m (device t, world t) = (Err e, d, k) \<Longrightarrow>
     cec_call m t = (Done (Inl (BusError.Cec e)), t\<lparr>device := d, world := k\<rparr>)"
  by (simp_all add: cec_call_def cec_result_def)

lemma test_addresses:
  "LogicalAddress_try_from 0 = Ok LogicalAddress.Tv" "LogicalAddress_try_from 5 = Ok LogicalAddress.AudioSystem"
  by (simp_all add: try_from_primitive_def LogicalAddress_variants_def)

text \<open>The keys of the tests have no operands.\<close>

definition simple_key :: "UiCommand \<Rightarrow> bool" where
  "simple_key c \<longleftrightarrow> UiCommand_discriminant c \<notin> set UiCommand_operand_codes"

lemma simple_keys [simp]:
  "simple_key UiCommand.Select" "simple_key UiCommand.Back" "simple_key UiCommand.Enter"
  "simple_key UiCommand.VolumeUp" "simple_key UiCommand.VolumeDown" "simple_key UiCommand.Mute"
  by (simp_all add: simple_key_def UiCommand_operand_codes_def)

lemma simple_key:
  assumes "simple_key c"
  shows "UiCommand_to_bytes c = Some [UiCommand_discriminant c]" "UiCommand_valid c" "UiCommand_len c = 1"
    "UiCommand_try_from_bytes (ui_bytes c) = Ok c"
  using assms UiCommand_simple_rt [of c] UiCommand_simple_Ok [OF UiCommand_simple_or_operand [of c]]
  by (simp_all add: simple_key_def ui_bytes_def)

lemma may_transmit_simps [simp]:
  "may_transmit (k\<lparr>tx_queue := q\<rparr>) = may_transmit k" "may_transmit (k\<lparr>rx_queue := r\<rparr>) = may_transmit k"
  "may_transmit (k\<lparr>mock_signals := g\<rparr>) = may_transmit k" "may_transmit (k\<lparr>handled := h\<rparr>) = may_transmit k"
  "may_transmit (k\<lparr>mock_events := n\<rparr>) = may_transmit k"
  by (simp_all add: may_transmit_def)

lemma test_keys:
  "simple_key c \<Longrightarrow> may_transmit k = None \<Longrightarrow>
   press_user_control debug mock_kernel c dest (d, k) =
     (Ok (), d, k\<lparr>tx_queue := tx_queue k @ [(Valid (Message.UserControlPressed c), dest)]\<rparr>)"
  "may_transmit k = None \<Longrightarrow>
   release_user_control debug mock_kernel dest (d, k) =
     (Ok (), d, k\<lparr>tx_queue := tx_queue k @ [(Valid Message.UserControlReleased, dest)]\<rparr>)"
  by (simp_all add: press_user_control_def release_user_control_def mock_tx_message simple_key)

lemma may_claimed:
  "mock_log_addrs k = claimed_addrs False \<Longrightarrow> get_field 0 (mock_mode k) \<noteq> 0 \<Longrightarrow> may_transmit k = None"
  by (simp add: may_transmit_def LogicalAddress_Unregistered_def)

lemma claimed_transmits: "may_transmit (claimed_world False n q g) = None"
  by (simp add: may_claimed mode_bits)

lemma ready_object_simps [simp]:
  "key_repeat (ready_object u cfg) = Map.empty" "channel (ready_object u cfg) = Some []"
  "uinput (ready_object u cfg) = test_keyboard cfg" "cached_phys_addr (ready_object u cfg) = 0x1000"
  "cached_log_addrs (ready_object u cfg) = [if u then 15 else 4]"
  "cached_vendor_id (ready_object u cfg) = -1"
  "cached_active (ready_object u cfg) = False" "cached_audio_log_addr (ready_object u cfg) = 0"
  by (simp_all add: ready_object_def closed_object_def)

lemma basic_ready:
  "setup_dbus_test basic_device basic_config =
     (Done (), claimed_task False (claimed_world False 0 [] []) (test_system basic_config)
       (ready_object False basic_config) [])"
  by (rule setup_ready) (simp add: basic_config_def test_config_def completed_def Config_default_def)


lemma test_press_user_control:
  "simple_key c \<Longrightarrow> key_repeat (interface t) 0 = None \<Longrightarrow>
   bus_press_user_control E (ui_bytes c) 0 t =
     (Done (Inr ()), t\<lparr>interface := (interface t)\<lparr>key_repeat := (key_repeat (interface t))(0 \<mapsto>
        \<lparr>repeat_key = c, repeat_target = LogicalAddress.Tv, repeat_started = False, repeat_error = None\<rparr>)\<rparr>\<rparr>)"
  by (simp add: bus_press_user_control_def bus_run test_addresses simple_key set_interface_def)

lemma test_stop:
  assumes "simple_key (repeat_key r)"
    "may_transmit (world t) = None" "repeat_error r = None" "repeat_target r = LogicalAddress.Tv"
  shows "repeat_stop E 0 r t =
    (Done (), t\<lparr>interface := (interface t)\<lparr>key_repeat := (key_repeat (interface t))(0 := None)\<rparr>,
       world := (world t)\<lparr>tx_queue := tx_queue (world t) @
         (if repeat_started r then [] else [(Valid (Message.UserControlPressed (repeat_key r)), LogicalAddress.Tv)]) @
         [(Valid Message.UserControlReleased, LogicalAddress.Tv)]\<rparr>\<rparr>)"
  by (cases "repeat_started r")
    (simp_all add: repeat_stop_def set_interface_def assms repeat_press_def task_device_run test_keys)

lemma test_release_user_control:
  "key_repeat (interface t) 0 = Some r \<Longrightarrow> repeat_stop E 0 r t = (Done (), t') \<Longrightarrow>
   bus_release_user_control E 0 t = (Done (Inr ()), t')"
  "key_repeat (interface t) 0 = None \<Longrightarrow> may_transmit (world t) = None \<Longrightarrow>
   bus_release_user_control E 0 t = (Done (Inr ()),
     t\<lparr>world := (world t)\<lparr>tx_queue := tx_queue (world t) @ [(Valid Message.UserControlReleased, LogicalAddress.Tv)]\<rparr>\<rparr>)"
  by (simp_all add: bus_release_user_control_def bus_run test_addresses cec_call_run test_keys)

lemma test_repeat_turn:
  "key_repeat (interface t) 0 = None \<Longrightarrow> repeat_turn E 0 t = (Done (), t)"
  "key_repeat (interface t) 0 = Some r \<Longrightarrow> repeat_error r = None \<Longrightarrow> simple_key (repeat_key r) \<Longrightarrow>
   may_transmit (world t) = None \<Longrightarrow>
   repeat_turn E 0 t = (Done (), t\<lparr>interface := (interface t)\<lparr>key_repeat := (key_repeat (interface t))(0 \<mapsto>
       r\<lparr>repeat_started := True, repeat_error := None\<rparr>)\<rparr>,
     world := (world t)\<lparr>tx_queue := tx_queue (world t) @
       [(Valid (Message.UserControlPressed (repeat_key r)), repeat_target r)]\<rparr>\<rparr>)"
  by (simp_all add: repeat_turn_def repeat_press_def task_device_run test_keys set_interface_def)

text \<open>A message arrives: it is signalled, and the reply to it is sent.\<close>

abbreviation envelope_of :: "Message \<Rightarrow> LogicalAddress \<Rightarrow> LogicalAddress \<Rightarrow> Envelope" where
  "envelope_of m from to \<equiv> \<lparr>message = Valid m, env_initiator = from, env_destination = to,
     timestamp = 0, env_sequence = 0\<rparr>"

abbreviation signalled :: "Message \<Rightarrow> LogicalAddress \<Rightarrow> LogicalAddress \<Rightarrow> mock DeviceTask \<Rightarrow> mock DeviceTask" where
  "signalled m from to t \<equiv> t\<lparr>world := (world t)\<lparr>rx_queue := [], mock_signals := mock_signals (world t) @
     [ReceivedMessage (LogicalAddress_into from) (LogicalAddress_into to) 0 (the (Message_to_bytes m))]\<rparr>\<rparr>"

lemma handle_message_run:
  assumes "Message_valid m" "message_reply E (envelope_of m from to) (signalled m from to t) = (Done r, t')"
    "rx_queue (world t) = []"
  shows "r = None \<Longrightarrow> handle_message E (envelope_of m from to) t = (Done (), t')"
    and "r = Some (answer, dest) \<Longrightarrow> Message_valid answer \<Longrightarrow> Message_len answer \<le> 14 \<Longrightarrow>
      may_transmit (world t') = None \<Longrightarrow>
      handle_message E (envelope_of m from to) t =
        (Done (), t'\<lparr>world := (world t')\<lparr>tx_queue := tx_queue (world t') @ [(Valid answer, dest)]\<rparr>\<rparr>)"
proof -
  obtain b where b: "Message_to_bytes m = Some b"
    using Message.enc_cases [OF assms(1)] by metis
  have "world t = (world t)\<lparr>rx_queue := []\<rparr>"
    using assms(3) by simp
  with assms(2) b have r: "message_reply E (envelope_of m from to)
      (t\<lparr>world := (world t)\<lparr>mock_signals := mock_signals (world t) @
         [ReceivedMessage (LogicalAddress_into from) (LogicalAddress_into to) 0 b]\<rparr>\<rparr>) = (Done r, t')"
    by (cases "world t") simp
  show "r = None \<Longrightarrow> handle_message E (envelope_of m from to) t = (Done (), t')"
    using r by (simp add: handle_message_def unwrap_option_def b test_signal)
  show "handle_message E (envelope_of m from to) t =
      (Done (), t'\<lparr>world := (world t')\<lparr>tx_queue := tx_queue (world t') @ [(Valid answer, dest)]\<rparr>\<rparr>)"
    if "r = Some (answer, dest)" "Message_valid answer" "Message_len answer \<le> 14"
      "may_transmit (world t') = None"
    using r that by (simp add: handle_message_def unwrap_option_def b test_signal REPLY_RETRIES_def
        numeral_eq_Suc test_send)
qed

lemma arrives_run:
  assumes "Message_valid m" "Message_len m \<le> 14" "rx_queue (world t) = []"
    and "message_reply E (envelope_of m from to) (signalled m from to t) = (Done r, t')"
  shows "r = None \<Longrightarrow> arrives m from to t = (Done (), t')"
    and "r = Some (answer, dest) \<Longrightarrow> Message_valid answer \<Longrightarrow> Message_len answer \<le> 14 \<Longrightarrow>
      may_transmit (world t') = None \<Longrightarrow>
      arrives m from to t =
        (Done (), t'\<lparr>world := (world t')\<lparr>tx_queue := tx_queue (world t') @ [(Valid answer, dest)]\<rparr>\<rparr>)"
proof -
  let ?t = "t\<lparr>world := (world t)\<lparr>rx_queue := []\<rparr>\<rparr>"
  have step: "arrives m from to t = (Done (), u)"
    if "handle_message E (envelope_of m from to) ?t = (Done (), u)" for u
    using that assms(1-3)
    by (simp add: arrives_def steps_def DeviceTask_turn_def task_device_run mock_handle_message
        handle_poll_result_def act_logged_def)
  have r: "message_reply E (envelope_of m from to) (signalled m from to ?t) = (Done r, t')"
    using assms(4) by simp
  show "r = None \<Longrightarrow> arrives m from to t = (Done (), t')"
    using handle_message_run(1) [OF assms(1) r] step by simp
  show "r = Some (answer, dest) \<Longrightarrow> Message_valid answer \<Longrightarrow> Message_len answer \<le> 14 \<Longrightarrow>
      may_transmit (world t') = None \<Longrightarrow>
      arrives m from to t =
        (Done (), t'\<lparr>world := (world t')\<lparr>tx_queue := tx_queue (world t') @ [(Valid answer, dest)]\<rparr>\<rparr>)"
    using handle_message_run(2) [OF assms(1) r] step by simp
qed

text \<open>Keys that clients press.\<close>

lemma test_press_again:
  assumes "simple_key c" "key_repeat (interface t) 0 = Some r"
  shows "repeat_key r = c \<Longrightarrow> bus_press_user_control E (ui_bytes c) 0 t = (Done (Inr ()), t)"
    and "repeat_key r \<noteq> c \<Longrightarrow> repeat_stop E 0 r t = (Done (), t') \<Longrightarrow>
      bus_press_user_control E (ui_bytes c) 0 t =
        (Done (Inr ()), t'\<lparr>interface := (interface t')\<lparr>key_repeat := (key_repeat (interface t'))(0 \<mapsto>
          \<lparr>repeat_key = c, repeat_target = LogicalAddress.Tv, repeat_started = False,
           repeat_error = None\<rparr>)\<rparr>\<rparr>)"
  using assms
  by (auto simp: bus_press_user_control_def bus_run test_addresses simple_key set_interface_def)

lemma test_press_and_release:
  "simple_key c \<Longrightarrow> may_transmit (world t) = None \<Longrightarrow>
   press_and_release E c LogicalAddress.Tv t =
     (Done (Inr ()), t\<lparr>world := (world t)\<lparr>tx_queue := tx_queue (world t) @
        [(Valid (Message.UserControlPressed c), LogicalAddress.Tv),
         (Valid Message.UserControlReleased, LogicalAddress.Tv)]\<rparr>\<rparr>)"
  by (simp add: press_and_release_def bus_run cec_call_run test_keys)

lemma test_press_once:
  assumes "simple_key c"
  shows "key_repeat (interface t) 0 = None \<Longrightarrow>
      bus_press_once_user_control E (ui_bytes c) 0 t = press_and_release E c LogicalAddress.Tv t"
    and "key_repeat (interface t) 0 = Some r \<Longrightarrow> repeat_stop E 0 r t = (Done (), t') \<Longrightarrow>
      bus_press_once_user_control E (ui_bytes c) 0 t =
        (if repeat_key r = c then (Done (Inr ()), t') else press_and_release E c LogicalAddress.Tv t')"
  using assms
  by (auto simp: bus_press_once_user_control_def bus_run test_addresses simple_key)

lemma test_volume:
  "bus_volume_up E 0 t = press_and_release E UiCommand.VolumeUp LogicalAddress.Tv t"
  "bus_volume_down E 0 t = press_and_release E UiCommand.VolumeDown LogicalAddress.Tv t"
  "bus_mute E 0 t = press_and_release E UiCommand.Mute LogicalAddress.Tv t"
  by (simp_all add: bus_volume_up_def bus_volume_down_def bus_mute_def audio_target_def
      CURRENT_AUDIO_LOG_ADDR_def bus_bind_def cec_result_def test_addresses)

lemma test_standby:
  "may_transmit (world t) = None \<Longrightarrow>
   bus_standby E 0 t = (Done (Inr ()), t\<lparr>world := (world t)\<lparr>tx_queue := tx_queue (world t) @
     [(Valid Message.Standby, LogicalAddress.Tv)]\<rparr>\<rparr>)"
  "may_transmit (world t) = Some e \<Longrightarrow>
   bus_standby E 0 t = (Done (Inl (BusError.Cec (from_errno e))), t)"
  by (simp_all add: bus_standby_def bus_run test_addresses cec_call_run standby_def mock_tx_message
      mock_tx_message_error)

text \<open>What the task does with messages.\<close>

lemma test_address:
  "on_device (get_physical_address mock_kernel) t =
     (Done (PhysicalAddress.PhysicalAddress (mock_phys_addr (world t))), t)"
  by (simp add: on_device_def)

lemma test_set_active:
  "active t = b \<Longrightarrow> set_active E b t = (Done (), t)"
  "active t \<noteq> b \<Longrightarrow> cached_active (interface t) \<noteq> b \<Longrightarrow>
   set_active E b t = (Done (), t\<lparr>active := b, interface := (interface t)\<lparr>cached_active := b\<rparr>,
     world := (world t)\<lparr>mock_signals := mock_signals (world t) @ [ActiveChanged]\<rparr>\<rparr>)"
  by (simp_all add: set_active_def set_interface_def test_signal)

lemma test_set_audio_system:
  "set_audio_system E status source t =
     (let a = (if status then source else LogicalAddress.Tv);
          u = t\<lparr>audio_log_addr := a\<rparr>
      in (Done (),
        if cached_audio_log_addr (interface t) = LogicalAddress_into a then u
        else u\<lparr>interface := (interface t)\<lparr>cached_audio_log_addr := LogicalAddress_into a\<rparr>,
          world := (world t)\<lparr>mock_signals := mock_signals (world t) @ [AudioLogicalAddressChanged]\<rparr>\<rparr>))"
  by (simp add: set_audio_system_def set_interface_def test_signal Let_def)

lemma system_sends_run:
  assumes "channel (interface t) = Some ms"
    and "handle_system_message E m (t\<lparr>interface := (interface t)\<lparr>channel := Some (ms @ [m])\<rparr>\<rparr>) = (Done (), t')"
  shows "system_sends m t = (Done (), t')"
  using assms
  by (simp add: system_sends_def send_system_message_def set_interface_def steps_def DeviceTask_turn_def
      act_logged_def)

lemma test_standby_message:
  assumes "may_transmit (world t) = None"
  shows "handle_system_message E (SystemMessage.Standby standby_tv force) t =
     (Done (), t\<lparr>world := (world t)\<lparr>tx_queue := tx_queue (world t) @
        (Valid (Message.InactiveSource (PhysicalAddress.PhysicalAddress (mock_phys_addr (world t)))),
         LogicalAddress.Tv) #
        (if force \<or> active t \<and> standby_tv then [(Valid Message.Standby, LogicalAddress.Tv)] else [])\<rparr>\<rparr>)"
proof -
  have "on_device (standby debug mock_kernel LogicalAddress.Tv) u =
      (Done (), u\<lparr>world := (world u)\<lparr>tx_queue := tx_queue (world u) @ [(Valid Message.Standby, LogicalAddress.Tv)]\<rparr>\<rparr>)"
    if "may_transmit (world u) = None" for debug u
    using that by (simp add: task_device_run standby_def mock_tx_message)
  then show ?thesis
    using assms by (simp add: handle_system_message_def test_address test_send)
qed

lemma test_system_simps [simp]:
  "message_handlers (test_system cfg) = Map.empty" "config (test_system cfg) = completed cfg"
  "sys_standby (test_system cfg) = False"
  by (simp_all add: test_system_def)

lemma claimed_playback [simp]: "claimed_address (claimed_addrs False) = LogicalAddress.PlaybackDevice1"
  by (simp add: claimed_claimed)

lemmas run_daemon = passes_test_def assert_def unwrapped_call_def expect_sent_def expect_signals_def
  Let_def basic_ready test_stop steps_def test_repeat_turn test_press_user_control test_release_user_control
  claimed_transmits test_press_again test_press_and_release test_press_once test_volume test_standby
  test_standby_message system_sends_run

end
