(* ===== verification/ConnectorTests.thy ===== *)
theory ConnectorTests
  imports DrmConnector CodecTests
begin

text \<open>
  The tests of \<open>cecd/src/device.rs\<close> on displays: the EDIDs it parses, and the connectors it reads
  from the directory \<open>data/test\<close>, which stands for \<open>/sys/class/drm\<close> in the test build. A test is the
  definition of its name. The one test on the check of the base directory is left out, as the model
  has only paths below it.
\<close>

section \<open>EDIDs\<close>

definition test_parse_edid_missing :: bool where
  "test_parse_edid_missing \<longleftrightarrow>
     parse_hdmi_edid_pa (replicate 128 0 @ [0x02, 0x03] @ replicate 126 0) = Ok None"

definition test_parse_edid_missing_header :: bool where
  "test_parse_edid_missing_header \<longleftrightarrow>
     parse_hdmi_edid_pa (replicate 128 0 @ [0, 0, 0, 0, 0x65, 0x03, 0x0C, 0, 0x12, 0x34] @
       replicate 118 0) = Ok None"

definition test_parse_edid_early :: bool where
  "test_parse_edid_early \<longleftrightarrow>
     parse_hdmi_edid_pa (replicate 128 0 @ [0x02, 0x03, 0, 0, 0x65, 0x03, 0x0C, 0, 0x12, 0x34]
       @ replicate 118 0) =
       Ok (Some (PhysicalAddress.PhysicalAddress 0x1234))"

definition test_parse_edid_extra_block :: bool where
  "test_parse_edid_extra_block \<longleftrightarrow>
     parse_hdmi_edid_pa (replicate 256 0 @ [0x02, 0x03, 0, 0, 0x65, 0x03, 0x0C, 0, 0x12, 0x34]
       @ replicate 118 0) =
       Ok (Some (PhysicalAddress.PhysicalAddress 0x1234))"

definition test_parse_edid_island :: bool where
  "test_parse_edid_island \<longleftrightarrow>
     parse_hdmi_edid_pa (replicate 128 0 @ [0x02, 0x03, 0, 0, 0, 0, 0, 0, 0x65, 0x03, 0x0C, 0,
       0x12, 0x34] @ replicate 114 0) =
       Ok (Some (PhysicalAddress.PhysicalAddress 0x1234))"

definition test_parse_edid_skipped :: bool where
  "test_parse_edid_skipped \<longleftrightarrow>
     parse_hdmi_edid_pa (replicate 128 0 @ [0x02, 0x03, 0, 0, 0x6B, 0, 0, 0, 0x65, 0x03, 0x0C,
       0, 0x12, 0x34] @ replicate 114 0) = Ok None"

definition test_parse_edid_cutoff_0 :: bool where
  "test_parse_edid_cutoff_0 \<longleftrightarrow>
     parse_hdmi_edid_pa (replicate 128 0 @ [0x02, 0x03, 0x04, 0, 0x65, 0x03, 0x0C, 0, 0x12,
       0x34] @ replicate 118 0) = Ok None"

definition test_parse_edid_cutoff_1 :: bool where
  "test_parse_edid_cutoff_1 \<longleftrightarrow>
     parse_hdmi_edid_pa (replicate 128 0 @ [0x02, 0x03, 0x05, 0, 0x65, 0x03, 0x0C, 0, 0x12,
       0x34] @ replicate 118 0) = Ok None"

definition test_parse_edid_cutoff_2 :: bool where
  "test_parse_edid_cutoff_2 \<longleftrightarrow>
     parse_hdmi_edid_pa (replicate 128 0 @ [0x02, 0x03, 0x06, 0, 0x65, 0x03, 0x0C, 0, 0x12,
       0x34] @ replicate 118 0) = Ok None"

definition test_parse_edid_cutoff_3 :: bool where
  "test_parse_edid_cutoff_3 \<longleftrightarrow>
     parse_hdmi_edid_pa (replicate 128 0 @ [0x02, 0x03, 0x07, 0, 0x65, 0x03, 0x0C, 0, 0x12,
       0x34] @ replicate 118 0) = Ok None"

definition test_parse_edid_cutoff_4 :: bool where
  "test_parse_edid_cutoff_4 \<longleftrightarrow>
     parse_hdmi_edid_pa (replicate 128 0 @ [0x02, 0x03, 0x08, 0, 0x65, 0x03, 0x0C, 0, 0x12,
       0x34] @ replicate 118 0) = Ok None"

definition test_parse_edid_cutoff_5 :: bool where
  "test_parse_edid_cutoff_5 \<longleftrightarrow>
     parse_hdmi_edid_pa (replicate 128 0 @ [0x02, 0x03, 0x09, 0, 0x65, 0x03, 0x0C, 0, 0x12,
       0x34] @ replicate 118 0) = Ok None"

definition test_parse_edid_cutoff_6 :: bool where
  "test_parse_edid_cutoff_6 \<longleftrightarrow>
     parse_hdmi_edid_pa (replicate 128 0 @ [0x02, 0x03, 0x0A, 0, 0x65, 0x03, 0x0C, 0, 0x12,
       0x34] @ replicate 118 0) =
       Ok (Some (PhysicalAddress.PhysicalAddress 0x1234))"

definition test_parse_edid_cutoff_7 :: bool where
  "test_parse_edid_cutoff_7 \<longleftrightarrow>
     parse_hdmi_edid_pa (replicate 128 0 @ [0x02, 0x03, 0x0B, 0, 0x65, 0x03, 0x0C, 0, 0x12,
       0x34] @ replicate 118 0) =
       Ok (Some (PhysicalAddress.PhysicalAddress 0x1234))"

definition test_parse_edid_cutoff_end :: bool where
  "test_parse_edid_cutoff_end \<longleftrightarrow>
     parse_hdmi_edid_pa (replicate 128 0 @ [0x02, 0x03, 0x7F] @ replicate 119 0 @ [0x65, 0x03,
       0x0C, 0, 0x12, 0x34]) = Ok None"

definition test_parse_edid_cutoff_invalid_len :: bool where
  "test_parse_edid_cutoff_invalid_len \<longleftrightarrow>
     parse_hdmi_edid_pa (replicate 128 0 @ [0x02, 0x03, 0x80] @ replicate 119 0 @ [0x65, 0x03,
       0x0C, 0, 0x12, 0x34]) = Ok None"

section \<open>Connectors\<close>

text \<open>
  The files of \<open>data/test\<close>, where \<open>card1-DP-1\<close> is the directory \<open>card1/card1-DP-1\<close>. A file that is not
  there is not found.
\<close>

definition test_edid :: "u8 \<Rightarrow> u8 \<Rightarrow> u8 list" where
  "test_edid hi lo =
     replicate 128 0 @ [0x02, 0x03, 0, 0, 0x65, 0x03, 0x0C, 0, hi, lo] @ replicate 118 0"

definition lookup :: "(string \<times> 'a) list \<Rightarrow> string \<Rightarrow> 'k \<Rightarrow> (io_error + 'a) \<times> 'k" where
  "lookup entries path k =
     ((case map_of entries path of Some x \<Rightarrow> Inr x | None \<Rightarrow> Inl NotFound), k)"

definition test_files :: "unit files" where
  "test_files =
     \<lparr>read_file = lookup
        [(join_path drm_base ''card1-HDMI-A-1/edid'', replicate 128 0),
         (join_path drm_base ''card1-HDMI-A-2/edid'', test_edid 0xFF 0xFF),
         (join_path drm_base ''card1-HDMI-B-1/edid'', test_edid 0x12 0x34)],
      read_text = lookup
        [(join_path drm_base ''card1-DP-1/status'', ''disconnected'' @ [CHR 0x0A]),
         (join_path drm_base ''card1-DP-1/connector_id'', ''2'' @ [CHR 0x0A]),
         (join_path drm_base ''card1/card1-DP-1/status'', ''disconnected'' @ [CHR 0x0A]),
         (join_path drm_base ''card1/card1-DP-1/connector_id'', ''2'' @ [CHR 0x0A]),
         (join_path drm_base ''card1-DP-2/status'', ''connected'' @ [CHR 0x0A]),
         (join_path drm_base ''card1-HDMI-A-1/status'', ''connected'' @ [CHR 0x0A]),
         (join_path drm_base ''card1-HDMI-A-2/status'', ''connected'' @ [CHR 0x0A]),
         (join_path drm_base ''card1-HDMI-B-1/status'', ''connected'' @ [CHR 0x0A])],
      list_dir = lookup [(join_path drm_base ''card1'', [Inr ''card1-DP-1''])],
      is_dir = lookup [(join_path drm_base ''card1/card1-DP-1'', True)]\<rparr>"

text \<open>The outcome of an asynchronous function on these files.\<close>

abbreviation on_test_files :: "(unit files \<Rightarrow> (unit, 'a) action) \<Rightarrow> 'a outcome" where
  "on_test_files f \<equiv> fst (f test_files ())"

definition test_drm_connector_from_drm_path :: bool where
  "test_drm_connector_from_drm_path \<longleftrightarrow>
     on_test_files (\<lambda>F. from_drm_path F ''card1'') = Fail (Other ''Invalid path'') \<and>
     on_test_files (\<lambda>F. from_drm_path F ''card1-DP-1'') = Done None \<and>
     on_test_files (\<lambda>F. from_drm_path F ''card1-DP-2'') = Done None \<and>
     on_test_files (\<lambda>F. from_drm_path F ''card1-HDMI-A-1'') = Done None \<and>
     on_test_files (\<lambda>F. from_drm_path F ''card1-HDMI-A-2'') = Done None \<and>
     on_test_files (\<lambda>F. from_drm_path F ''card1-HDMI-B-1'') =
       Done (Some \<lparr>card = 1, connector_name = ''HDMI-B-1'',
         drm_physical_address = PhysicalAddress.PhysicalAddress 0x1234\<rparr>) \<and>
     on_test_files (\<lambda>F. from_drm_path F ''cardZ-DP-1'') = Fail (Other ''invalid digit'')"

definition test_connector_info_to_drm_connector :: bool where
  "test_connector_info_to_drm_connector \<longleftrightarrow>
     (let address = PhysicalAddress.PhysicalAddress 0x1000 in
      on_test_files (\<lambda>F. from_connector_info F NoConnector address) =
        Fail (Other ''Not a DRM connector'') \<and>
      on_test_files (\<lambda>F. from_connector_info F (ConnectorInfo.Unknown 2 (replicate 16 0)) address) =
        Fail (Other ''Not a DRM connector'') \<and>
      on_test_files (\<lambda>F. from_connector_info F (ConnectorInfo.DrmConnector 0 0) address) =
        Fail (Other (io_text NotFound)) \<and>
      on_test_files (\<lambda>F. from_connector_info F (ConnectorInfo.DrmConnector 1 0) address) =
        Fail (Other ''Connector not found'') \<and>
      on_test_files (\<lambda>F. from_connector_info F (ConnectorInfo.DrmConnector 1 2) address) =
        Done \<lparr>card = 1, connector_name = ''DP-1'', drm_physical_address = address\<rparr>)"

definition test_drm_connector_to_connector_info :: bool where
  "test_drm_connector_to_connector_info \<longleftrightarrow>
     (let connector = (\<lambda>c name. \<lparr>card = c, connector_name = name,
            drm_physical_address = PhysicalAddress_default\<rparr>) in
      on_test_files (\<lambda>F. to_connector_info F (connector 0 ''DP-1'')) = Fail (Other (io_text NotFound)) \<and>
      on_test_files (\<lambda>F. to_connector_info F (connector 1 ''DP-2'')) = Fail (Other (io_text NotFound)) \<and>
      on_test_files (\<lambda>F. to_connector_info F (connector 1 ''DP-1'')) =
        Done (ConnectorInfo.DrmConnector 1 2))"

section \<open>The model passes them\<close>

lemmas run_edid = parse_hdmi_edid_pa_def edid_extensions.simps edid_data_blocks.simps Let_def nth_append
  slice_def HDMI_OUI_def

lemma test_parse_edid_missing_pass [passes]: test_parse_edid_missing
  by (simp add: test_parse_edid_missing_def run_edid)

lemma test_parse_edid_missing_header_pass [passes]: test_parse_edid_missing_header
  by (simp add: test_parse_edid_missing_header_def run_edid)

lemma test_parse_edid_early_pass [passes]: test_parse_edid_early
  by (simp add: test_parse_edid_early_def run_edid)

lemma test_parse_edid_extra_block_pass [passes]: test_parse_edid_extra_block
  by (simp add: test_parse_edid_extra_block_def run_edid)

lemma test_parse_edid_island_pass [passes]: test_parse_edid_island
  by (simp add: test_parse_edid_island_def run_edid)

lemma test_parse_edid_skipped_pass [passes]: test_parse_edid_skipped
  by (simp add: test_parse_edid_skipped_def run_edid)

lemma test_parse_edid_cutoff_0_pass [passes]: test_parse_edid_cutoff_0
  by (simp add: test_parse_edid_cutoff_0_def run_edid)

lemma test_parse_edid_cutoff_1_pass [passes]: test_parse_edid_cutoff_1
  by (simp add: test_parse_edid_cutoff_1_def run_edid)

lemma test_parse_edid_cutoff_2_pass [passes]: test_parse_edid_cutoff_2
  by (simp add: test_parse_edid_cutoff_2_def run_edid)

lemma test_parse_edid_cutoff_3_pass [passes]: test_parse_edid_cutoff_3
  by (simp add: test_parse_edid_cutoff_3_def run_edid)

lemma test_parse_edid_cutoff_4_pass [passes]: test_parse_edid_cutoff_4
  by (simp add: test_parse_edid_cutoff_4_def run_edid)

lemma test_parse_edid_cutoff_5_pass [passes]: test_parse_edid_cutoff_5
  by (simp add: test_parse_edid_cutoff_5_def run_edid)

lemma test_parse_edid_cutoff_6_pass [passes]: test_parse_edid_cutoff_6
  by (simp add: test_parse_edid_cutoff_6_def run_edid)

lemma test_parse_edid_cutoff_7_pass [passes]: test_parse_edid_cutoff_7
  by (simp add: test_parse_edid_cutoff_7_def run_edid)

lemma test_parse_edid_cutoff_end_pass [passes]: test_parse_edid_cutoff_end
  by (simp add: test_parse_edid_cutoff_end_def run_edid)

lemma test_parse_edid_cutoff_invalid_len_pass [passes]: test_parse_edid_cutoff_invalid_len
  by (simp add: test_parse_edid_cutoff_invalid_len_def run_edid)

lemmas run_drm = from_drm_path_def from_connector_info_def to_connector_info_def search_connector.simps
  test_files_def lookup_def join_path_def drm_base_def drm_path_def ok_or_def io_call_def io_try_def
  parse_u32_def decimal_digit_def starts_with_def strip_prefix_def trim_def is_space_def show_nat.simps
  act_bind_def test_edid_def contains_def

lemma test_drm_connector_from_drm_path_pass [passes]: test_drm_connector_from_drm_path
  by (simp add: test_drm_connector_from_drm_path_def run_drm run_edid PhysicalAddress_is_valid_def)

lemma test_connector_info_to_drm_connector_pass [passes]: test_connector_info_to_drm_connector
  by (simp add: test_connector_info_to_drm_connector_def run_drm Let_def)

lemma test_drm_connector_to_connector_info_pass [passes]: test_drm_connector_to_connector_info
  by (simp add: test_drm_connector_to_connector_info_def run_drm Let_def)

end
