(* ===== verification/DaemonTests.thy ===== *)
theory DaemonTests
  imports TestSetup ConnectorTests
begin

text \<open>
  The tests of the daemon on a device that is ready: those of \<open>cecd/src/device.rs\<close>,
  \<open>cecd/src/dbus.rs\<close> and \<open>cecd/src/testing/mod.rs\<close>, each a definition of its name. Where the code
  leaves it open whether the task of a repeated key or of the device runs in between, the test is
  run both ways.
\<close>

section \<open>Keys that clients press\<close>

definition pressed :: "UiCommand \<Rightarrow> Message \<times> LogicalAddress" where
  "pressed c = (Message.UserControlPressed c, LogicalAddress.Tv)"

definition released :: "Message \<times> LogicalAddress" where
  "released = (Message.UserControlReleased, LogicalAddress.Tv)"

definition press_call :: "UiCommand \<Rightarrow> test_action" where
  "press_call c = unwrapped_call (bus_press_user_control E (ui_bytes c) (LogicalAddress_into LogicalAddress.Tv))"

definition press_once_call :: "UiCommand \<Rightarrow> test_action" where
  "press_once_call c =
     unwrapped_call (bus_press_once_user_control E (ui_bytes c) (LogicalAddress_into LogicalAddress.Tv))"

definition release_call :: test_action where
  "release_call = unwrapped_call (bus_release_user_control E (LogicalAddress_into LogicalAddress.Tv))"

definition key_turn :: test_action where
  "key_turn = steps [RepeatTurn (LogicalAddress_into LogicalAddress.Tv)]"

definition test_key_repeat_none :: bool where
  "test_key_repeat_none \<longleftrightarrow>
     (let expected = expect_sent [pressed UiCommand.Select, released]
      in basic_test [press_call UiCommand.Select, release_call, expected] \<and>
        basic_test [press_call UiCommand.Select, key_turn, release_call, expected])"

definition test_key_press_once :: bool where
  "test_key_press_once \<longleftrightarrow>
     basic_test [press_once_call UiCommand.Select, key_turn, expect_sent [pressed UiCommand.Select, released]]"

definition test_key_repeat :: bool where
  "test_key_repeat \<longleftrightarrow>
     basic_test [press_call UiCommand.Select, key_turn, key_turn, release_call,
       expect_sent [pressed UiCommand.Select, pressed UiCommand.Select, released]]"

definition test_key_double_press :: bool where
  "test_key_double_press \<longleftrightarrow>
     (let expected = expect_sent [pressed UiCommand.Select, released]
      in basic_test [press_call UiCommand.Select, press_call UiCommand.Select, release_call, expected] \<and>
        basic_test [press_call UiCommand.Select, key_turn, press_call UiCommand.Select, release_call, expected])"

definition test_key_change :: bool where
  "test_key_change \<longleftrightarrow>
     (let expected = expect_sent [pressed UiCommand.Select, released, pressed UiCommand.Back, released]
      in basic_test [press_call UiCommand.Select, press_call UiCommand.Back, release_call, expected] \<and>
        basic_test [press_call UiCommand.Select, key_turn, press_call UiCommand.Back, key_turn, release_call,
          expected])"

definition test_key_change_once :: bool where
  "test_key_change_once \<longleftrightarrow>
     (let expected = expect_sent [pressed UiCommand.Select, released, pressed UiCommand.Back, released]
      in basic_test [press_call UiCommand.Select, press_once_call UiCommand.Back, expected] \<and>
        basic_test [press_call UiCommand.Select, key_turn, press_once_call UiCommand.Back, expected])"

definition test_key_not_changed_once :: bool where
  "test_key_not_changed_once \<longleftrightarrow>
     (let expected = expect_sent [pressed UiCommand.Select, released]
      in basic_test [press_call UiCommand.Select, press_once_call UiCommand.Select, expected] \<and>
        basic_test [press_call UiCommand.Select, key_turn, press_once_call UiCommand.Select, expected])"

definition test_key_release_unmatched :: bool where
  "test_key_release_unmatched \<longleftrightarrow> basic_test [release_call, expect_sent [released]]"

definition test_volume_up :: bool where
  "test_volume_up \<longleftrightarrow>
     basic_test [unwrapped_call (bus_volume_up E (LogicalAddress_into LogicalAddress.Tv)), key_turn,
       expect_sent [pressed UiCommand.VolumeUp, released]]"

definition test_volume_down :: bool where
  "test_volume_down \<longleftrightarrow>
     basic_test [unwrapped_call (bus_volume_down E (LogicalAddress_into LogicalAddress.Tv)), key_turn,
       expect_sent [pressed UiCommand.VolumeDown, released]]"

definition test_mute :: bool where
  "test_mute \<longleftrightarrow>
     basic_test [unwrapped_call (bus_mute E (LogicalAddress_into LogicalAddress.Tv)), key_turn,
       expect_sent [pressed UiCommand.Mute, released]]"

section \<open>Messages and standby\<close>

definition test_tx_basic :: bool where
  "test_tx_basic \<longleftrightarrow>
     basic_test
       [assert (\<lambda>t. cached_phys_addr (interface t) = 0x1000),
        assert (\<lambda>t. cached_log_addrs (interface t) = [LogicalAddress_into LogicalAddress.PlaybackDevice1]),
        unwrapped_call (bus_standby E (LogicalAddress_into LogicalAddress.Tv)),
        expect_sent [(Message.Standby, LogicalAddress.Tv)]]"

definition routing_change :: "u16 \<Rightarrow> u16 \<Rightarrow> test_action" where
  "routing_change original_address new_address =
     arrives_from (Message.RoutingChange (PhysicalAddress.PhysicalAddress original_address)
       (PhysicalAddress.PhysicalAddress new_address)) LogicalAddress.Tv"

definition inactive :: "Message \<times> LogicalAddress" where
  "inactive = (Message.InactiveSource (PhysicalAddress.PhysicalAddress 0x1000), LogicalAddress.Tv)"

definition test_system_message_standby :: bool where
  "test_system_message_standby \<longleftrightarrow>
     basic_test [routing_change 0x0000 0x1000, system_sends (SystemMessage.Standby True False),
       expect_sent [inactive, (Message.Standby, LogicalAddress.Tv)]]"

definition test_system_message_standby_inactive :: bool where
  "test_system_message_standby_inactive \<longleftrightarrow>
     basic_test [routing_change 0x1000 0x2000, system_sends (SystemMessage.Standby True False),
       expect_sent [inactive]]"

definition test_system_message_standby_inactive_forced :: bool where
  "test_system_message_standby_inactive_forced \<longleftrightarrow>
     basic_test [routing_change 0x1000 0x2000, system_sends (SystemMessage.Standby True True),
       expect_sent [inactive, (Message.Standby, LogicalAddress.Tv)]]"

definition test_system_message_standby_no_sleep :: bool where
  "test_system_message_standby_no_sleep \<longleftrightarrow>
     basic_test [routing_change 0x0000 0x1000, system_sends (SystemMessage.Standby False False),
       expect_sent [inactive]]"

definition test_rx_abort :: bool where
  "test_rx_abort \<longleftrightarrow>
     basic_test [arrives_from Message.RecordOff LogicalAddress.Tv,
       expect_sent [(Message.FeatureAbort (Opcode_into Opcode.RecordOff) AbortReason.UnrecognizedOp,
         LogicalAddress.Tv)]]"

definition test_abort_no_abort :: bool where
  "test_abort_no_abort \<longleftrightarrow>
     basic_test
       [arrives_from (Message.FeatureAbort (Opcode_into Opcode.FeatureAbort) AbortReason.UnrecognizedOp)
          LogicalAddress.Tv,
        expect_sent []]"

definition test_give_device_power_status :: bool where
  "test_give_device_power_status \<longleftrightarrow>
     basic_test [arrives_from Message.GiveDevicePowerStatus LogicalAddress.Tv,
       expect_sent [(Message.ReportPowerStatus PowerStatus.On, LogicalAddress.Tv)]]"

section \<open>Properties on the bus\<close>

text \<open>Whether a property was signalled since the last look.\<close>

definition signalled_once :: "Signal \<Rightarrow> test_action" where
  "signalled_once s = script
     [assert (\<lambda>t. filter (\<lambda>s'. s' = s) (mock_signals (world t)) = [s]),
      act_modify (\<lambda>t. t\<lparr>world := (world t)\<lparr>mock_signals := []\<rparr>\<rparr>)]"

definition test_active_changed :: bool where
  "test_active_changed \<longleftrightarrow>
     basic_test
       [routing_change 0x0000 0x1000, signalled_once ActiveChanged,
        assert (\<lambda>t. cached_active (interface t)),
        routing_change 0x1000 0x2000, signalled_once ActiveChanged,
        assert (\<lambda>t. \<not> cached_active (interface t)),
        routing_change 0x2000 0x1000, signalled_once ActiveChanged,
        assert (\<lambda>t. cached_active (interface t))]"

definition audio_is :: "LogicalAddress \<Rightarrow> test_action" where
  "audio_is a = assert (\<lambda>t. cached_audio_log_addr (interface t) = LogicalAddress_into a)"

definition test_no_audio_system :: bool where
  "test_no_audio_system \<longleftrightarrow> basic_test [assert (\<lambda>t. cached_audio_log_addr (interface t) = 0)]"

definition test_audio_system_later :: bool where
  "test_audio_system_later \<longleftrightarrow>
     basic_test
       [audio_is LogicalAddress.Tv,
        arrives_from (Message.SystemAudioModeStatus True) LogicalAddress.AudioSystem,
        signalled_once AudioLogicalAddressChanged, audio_is LogicalAddress.AudioSystem]"

definition test_audio_system_later_removed :: bool where
  "test_audio_system_later_removed \<longleftrightarrow>
     basic_test
       [audio_is LogicalAddress.Tv,
        arrives_from (Message.SystemAudioModeStatus True) LogicalAddress.AudioSystem,
        signalled_once AudioLogicalAddressChanged, audio_is LogicalAddress.AudioSystem,
        arrives_from (Message.SystemAudioModeStatus False) LogicalAddress.AudioSystem,
        signalled_once AudioLogicalAddressChanged, audio_is LogicalAddress.Tv]"

lemmas test_calls = pressed_def released_def press_call_def press_once_call_def release_call_def
  key_turn_def

lemma test_key_repeat_none_pass [passes]: test_key_repeat_none
  by (simp add: test_key_repeat_none_def test_calls run_daemon)

lemma test_key_press_once_pass [passes]: test_key_press_once
  by (simp add: test_key_press_once_def test_calls run_daemon)

lemma test_key_repeat_pass [passes]: test_key_repeat
  by (simp add: test_key_repeat_def test_calls run_daemon)

lemma test_key_double_press_pass [passes]: test_key_double_press
  by (simp add: test_key_double_press_def test_calls run_daemon)

lemma test_key_change_pass [passes]: test_key_change
  by (simp add: test_key_change_def test_calls run_daemon)

lemma test_key_change_once_pass [passes]: test_key_change_once
  by (simp add: test_key_change_once_def test_calls run_daemon)

lemma test_key_not_changed_once_pass [passes]: test_key_not_changed_once
  by (simp add: test_key_not_changed_once_def test_calls run_daemon)

lemma test_key_release_unmatched_pass [passes]: test_key_release_unmatched
  by (simp add: test_key_release_unmatched_def test_calls run_daemon)

lemma test_volume_up_pass [passes]: test_volume_up
  by (simp add: test_volume_up_def test_calls run_daemon)

lemma test_volume_down_pass [passes]: test_volume_down
  by (simp add: test_volume_down_def test_calls run_daemon)

lemma test_mute_pass [passes]: test_mute
  by (simp add: test_mute_def test_calls run_daemon)

lemma test_tx_basic_pass [passes]: test_tx_basic
  by (simp add: test_tx_basic_def test_calls run_daemon)

lemmas run_message = arrives_from_def claimed_claimed arrives_run message_reply_def default_reply_def
  no_reply_def test_address test_set_active test_set_audio_system test_signal

lemma test_rx_abort_pass [passes]: test_rx_abort
  by (simp add: test_rx_abort_def run_daemon run_message get_message_handler_def LogicalAddress_Broadcast_def
      Message_opcode_variant)

lemma test_abort_no_abort_pass [passes]: test_abort_no_abort
  by (simp add: test_abort_no_abort_def run_daemon run_message)

lemma test_give_device_power_status_pass [passes]: test_give_device_power_status
  by (simp add: test_give_device_power_status_def run_daemon run_message)

lemma test_system_message_standby_inactive_pass [passes]: test_system_message_standby_inactive
  by (simp add: test_system_message_standby_inactive_def routing_change_def inactive_def run_daemon run_message)


lemma test_system_message_standby_pass [passes]: test_system_message_standby
  by (simp add: test_system_message_standby_def routing_change_def inactive_def run_daemon run_message)

lemma test_system_message_standby_inactive_forced_pass [passes]: test_system_message_standby_inactive_forced
  by (simp add: test_system_message_standby_inactive_forced_def routing_change_def inactive_def run_daemon
      run_message)

lemma test_system_message_standby_no_sleep_pass [passes]: test_system_message_standby_no_sleep
  by (simp add: test_system_message_standby_no_sleep_def routing_change_def inactive_def run_daemon run_message)

lemma test_active_changed_pass [passes]: test_active_changed
  by (simp add: test_active_changed_def routing_change_def signalled_once_def run_daemon run_message)

lemma test_no_audio_system_pass [passes]: test_no_audio_system
  by (simp add: test_no_audio_system_def run_daemon)

lemma test_audio_system_later_pass [passes]: test_audio_system_later
  by (simp add: test_audio_system_later_def audio_is_def signalled_once_def run_daemon run_message)

lemma test_audio_system_later_removed_pass [passes]: test_audio_system_later_removed
  by (simp add: test_audio_system_later_removed_def audio_is_def signalled_once_def run_daemon run_message)

section \<open>Keys of the virtual keyboard\<close>

definition mapped_config :: "(UiCommand \<rightharpoonup> Key) \<Rightarrow> Config" where
  "mapped_config mappings = Config_default\<lparr>cfg_uinput := True, cfg_mappings := mappings,
     cfg_logical_address := LogicalAddressType.Playback\<rparr>"

text \<open>\<open>queue_rx_message\<close>: the message comes from the own address.\<close>

definition key_arrives :: "Message \<Rightarrow> test_action" where
  "key_arrives m = arrives m LogicalAddress.PlaybackDevice1 LogicalAddress.Tv"

definition keyboard_events :: "(Key \<times> KeyState) list \<Rightarrow> test_action" where
  "keyboard_events es = assert (\<lambda>t. map_option ui_events (uinput (interface t)) = Some es)"

definition test_mapped_keys :: bool where
  "test_mapped_keys \<longleftrightarrow>
     passes_test (setup_dbus_test basic_device (mapped_config [UiCommand.Enter \<mapsto> Key.Enter]))
       [key_arrives (Message.UserControlPressed UiCommand.Enter), key_arrives Message.UserControlReleased,
        keyboard_events [(Key.Enter, PRESSED), (Key.Enter, RELEASED)]]"

definition test_unmapped_keys :: bool where
  "test_unmapped_keys \<longleftrightarrow>
     passes_test (setup_dbus_test basic_device (mapped_config [UiCommand.Enter \<mapsto> Key.Enter]))
       [key_arrives (Message.UserControlPressed UiCommand.Back), key_arrives Message.UserControlReleased,
        keyboard_events []]"

definition test_mapped_keys_change :: bool where
  "test_mapped_keys_change \<longleftrightarrow>
     passes_test (setup_dbus_test basic_device
         (mapped_config [UiCommand.Enter \<mapsto> Key.Enter, UiCommand.Back \<mapsto> OtherKey 174]))
       [key_arrives (Message.UserControlPressed UiCommand.Enter),
        key_arrives (Message.UserControlPressed UiCommand.Back), key_arrives Message.UserControlReleased,
        keyboard_events [(Key.Enter, PRESSED), (Key.Enter, RELEASED),
          (OtherKey 174, PRESSED), (OtherKey 174, RELEASED)]]"

lemma mapped_ready:
  assumes "m \<noteq> Map.empty"
  shows "setup_dbus_test basic_device (mapped_config m) =
     (Done (), claimed_task False (claimed_world False 0 [] []) (test_system (mapped_config m))
       (ready_object False (mapped_config m)) [])"
    and "test_keyboard (mapped_config m) = Some \<lparr>ui_mappings = m,
      ui_name = map (\<lambda>c. of_char c) ''cecd '' @ adapter_name cec_caps_default, ui_open = True, ui_events = []\<rparr>"
proof -
  show "setup_dbus_test basic_device (mapped_config m) =
     (Done (), claimed_task False (claimed_world False 0 [] []) (test_system (mapped_config m))
       (ready_object False (mapped_config m)) [])"
    by (rule setup_ready) (simp add: mapped_config_def test_config_def completed_def Config_default_def)
  show "test_keyboard (mapped_config m) = Some \<lparr>ui_mappings = m,
      ui_name = map (\<lambda>c. of_char c) ''cecd '' @ adapter_name cec_caps_default, ui_open = True, ui_events = []\<rparr>"
    using assms by (simp add: test_keyboard_def mapped_config_def completed_def)
qed

lemmas run_keyboard = key_arrives_def keyboard_events_def press_key_def release_key_def with_uinput_def
  key_down_def key_up_def send_key_event_def io_outcome_def simple_key unwrap_option_def mapped_ready

lemma test_mapped_keys_pass [passes]: test_mapped_keys
  by (simp add: test_mapped_keys_def run_daemon run_message run_keyboard)

lemma test_unmapped_keys_pass [passes]: test_unmapped_keys
  by (simp add: test_unmapped_keys_def run_daemon run_message run_keyboard)

lemma test_mapped_keys_change_pass [passes]: test_mapped_keys_change
  by (simp add: test_mapped_keys_change_def run_daemon run_message run_keyboard)

section \<open>Waking from standby\<close>

definition addresses_are :: "LogicalAddress list \<Rightarrow> test_action" where
  "addresses_are as = act_bind (on_device (get_logical_addresses mock_kernel)) (\<lambda>as'. assert (\<lambda>_. as' = as))"

definition sent_first :: "Message \<times> LogicalAddress \<Rightarrow> test_action" where
  "sent_first m = assert (\<lambda>t. take 1 (tx_queue (world t)) = [(Valid (fst m), snd m)])"

definition power_on :: "Message \<times> LogicalAddress" where
  "power_on = (Message.ReportPowerStatus PowerStatus.On, LogicalAddress_Broadcast)"

definition test_wake_from_standby_not_deferred :: bool where
  "test_wake_from_standby_not_deferred \<longleftrightarrow>
     basic_test
       [assert (\<lambda>t. cached_log_addrs (interface t) = [LogicalAddress_into LogicalAddress.PlaybackDevice1]),
        system_sends (SystemMessage.Wake False True), sent_first power_on]"

definition regain_address :: test_action where
  "regain_address = on_device (set_logical_addresses mock_kernel [LogicalAddressType.Playback])"

text \<open>The event of the lost address may come before or after the wake-up.\<close>

definition test_wake_from_standby_deferred :: bool where
  "test_wake_from_standby_deferred \<longleftrightarrow>
     (let lose = script [on_device (clear_logical_addresses mock_kernel), addresses_are []];
          wake = system_sends (SystemMessage.Wake False True);
          regain = script [regain_address, addresses_are [LogicalAddress.PlaybackDevice1], settle]
      in basic_test [lose, wake, settle, expect_sent [], regain, sent_first power_on] \<and>
        basic_test [lose, settle, wake, expect_sent [], regain, sent_first power_on])"

lemma test_power_on:
  "may_transmit (world t) = None \<Longrightarrow>
   run_callback E ReportPowerOn t = (Done (), t\<lparr>world := (world t)\<lparr>tx_queue := tx_queue (world t) @
     [(Valid (Message.ReportPowerStatus PowerStatus.On), LogicalAddress_Broadcast)]\<rparr>\<rparr>)"
  by (simp add: run_callback_def test_send)

lemma test_wake:
  assumes "\<not> cfg_request_active_source (config (system t))"
    "on_device (get_logical_addresses mock_kernel) t = (Done as, t)"
  shows "as = [] \<Longrightarrow> handle_system_message E (SystemMessage.Wake False True) t =
      (Done (), t\<lparr>with_logical_address_queue := with_logical_address_queue t @ [ReportPowerOn]\<rparr>)"
    and "as \<noteq> [] \<Longrightarrow> may_transmit (world t) = None \<Longrightarrow> handle_system_message E (SystemMessage.Wake False True) t =
      (Done (), t\<lparr>world := (world t)\<lparr>tx_queue := tx_queue (world t) @
        [(Valid (Message.ReportPowerStatus PowerStatus.On), LogicalAddress_Broadcast)]\<rparr>\<rparr>)"
  using assms
  by (simp_all add: handle_system_message_def with_logical_address_def current_log_addrs_def act_logged_def
      test_power_on request_active_source_def)

lemma basic_config_no_request [simp]: "\<not> cfg_request_active_source (completed basic_config)"
  by (simp add: completed_def basic_config_def Config_default_def)

lemma test_wake_from_standby_not_deferred_pass [passes]: test_wake_from_standby_not_deferred
  by (simp add: test_wake_from_standby_not_deferred_def sent_first_def power_on_def run_daemon test_wake test_reads)

text \<open>A device that has lost its address.\<close>

definition released_device :: Device where
  "released_device = \<lparr>tx_logical_address = LogicalAddress_Unregistered,
     internal_log_addrs = (claimed_addrs False)\<lparr>num_log_addrs := 0\<rparr>\<rparr>"

definition lost :: "mock DeviceTask \<Rightarrow> bool" where
  "lost t \<longleftrightarrow> device t = released_device \<and> mock_log_addrs (world t) = internal_log_addrs released_device"

lemma test_lose:
  assumes "device t = claimed_device False" "contains (mock_caps (world t)) CAP_LOG_ADDRS"
  shows "on_device (clear_logical_addresses mock_kernel) t =
     (Done (), t\<lparr>device := released_device, world := (world t)\<lparr>
        mock_log_addrs := internal_log_addrs released_device, mock_events := mock_events (world t) + 1\<rparr>\<rparr>)"
  using assms
  by (simp add: on_device_def clear_logical_addresses_def set_log_addrs_def syscall_log_addrs_def op_bind_def
      op_modify_def mock_kernel_def mock_set_log_addrs_def released_device_def claimed_device_def Let_def)

lemma lost_reads:
  assumes "lost t"
  shows "on_device (get_logical_addresses mock_kernel) t = (Done [], t)"
    "on_device (get_vendor_id mock_kernel) t = (Done None, t)"
    "on_device (handle_status mock_kernel GotEvent) t = (Done [StateChange], t)"
proof -
  have e: "mock_log_addrs (world t) = internal_log_addrs (device t)"
    "num_log_addrs (internal_log_addrs (device t)) = 0"
    "vendor_id (internal_log_addrs (device t)) = SysVendorId_default"
    "tx_logical_address (device t) = LogicalAddress_Unregistered"
    using assms by (simp_all add: lost_def released_device_def)
  then show "on_device (get_logical_addresses mock_kernel) t = (Done [], t)"
    "on_device (get_vendor_id mock_kernel) t = (Done None, t)"
    by (simp_all add: on_device_def mock_get_logical_addresses)
  have "\<lparr>tx_logical_address = LogicalAddress_Unregistered, internal_log_addrs = internal_log_addrs (device t)\<rparr> =
      device t"
    using e(4) by (cases "device t") simp
  with e show "on_device (handle_status mock_kernel GotEvent) t = (Done [StateChange], t)"
    by (simp add: on_device_def mock_handle_event)
qed

text \<open>An event of a device whose address and vendor are known.\<close>

lemma known_state_change:
  assumes "on_device (get_logical_addresses mock_kernel) t = (Done as, t)"
    "on_device (get_vendor_id mock_kernel) t = (Done None, t)"
    "cached_phys_addr (interface t) = mock_phys_addr (world t)" "cached_vendor_id (interface t) = -1"
  shows "state_change E t = check_log_addrs E (mock_phys_addr (world t)) (map LogicalAddress_into as) t"
  using assms
  by (simp add: state_change_def or_default_def test_address Let_def test_update_cached no_vendor_id)

lemma known_event:
  assumes "on_device (handle_status mock_kernel GotEvent) t = (Done [StateChange], t)"
    "state_change E t = (Done (), t')"
  shows "device_step E (Turn (Polled (Ok GotEvent))) t = (Done True, t')"
  by (simp add: DeviceTask_turn_def assms handle_poll_result_def act_logged_def)

lemma lost_check:
  "cached_log_addrs (interface t) \<noteq> [] \<Longrightarrow> check_log_addrs E phys [] t =
     (Done (), t\<lparr>interface := (interface t)\<lparr>cached_log_addrs := []\<rparr>, log_addr_try := LOG_ADDR_RETRIES,
        world := (world t)\<lparr>mock_signals := mock_signals (world t) @ [LogicalAddressesChanged]\<rparr>\<rparr>)"
  by (simp add: check_log_addrs_def log_addrs_changed_def set_interface_def test_signal)

lemma lost_event:
  assumes "lost t" "cached_phys_addr (interface t) = mock_phys_addr (world t)"
    "cached_vendor_id (interface t) = -1" "cached_log_addrs (interface t) \<noteq> []"
  shows "device_step E (Turn (Polled (Ok GotEvent))) t =
     (Done True, t\<lparr>interface := (interface t)\<lparr>cached_log_addrs := []\<rparr>, log_addr_try := LOG_ADDR_RETRIES,
        world := (world t)\<lparr>mock_signals := mock_signals (world t) @ [LogicalAddressesChanged]\<rparr>\<rparr>)"
proof (rule known_event [OF lost_reads(3) [OF assms(1)]])
  note known_state_change [OF lost_reads(1,2) [OF assms(1)] assms(2,3)]
  with lost_check [OF assms(4)] show "state_change E t =
     (Done (), t\<lparr>interface := (interface t)\<lparr>cached_log_addrs := []\<rparr>, log_addr_try := LOG_ADDR_RETRIES,
        world := (world t)\<lparr>mock_signals := mock_signals (world t) @ [LogicalAddressesChanged]\<rparr>\<rparr>)"
    by simp
qed

lemma test_regain:
  assumes "lost t" "contains (mock_caps (world t)) CAP_LOG_ADDRS" "get_field 0 (mock_mode (world t)) \<noteq> 0"
    "mock_phys_addr (world t) \<noteq> 0xFFFF" "\<not> force_unregistered (world t)"
  shows "on_device (set_logical_addresses mock_kernel [LogicalAddressType.Playback]) t =
     (Done (), t\<lparr>device := claimed_device False, world := (world t)\<lparr>mock_log_addrs := claimed_addrs False,
        mock_events := mock_events (world t) + 1\<rparr>\<rparr>)"
proof -
  let ?la = "(claimed_addrs False)\<lparr>num_log_addrs := 0\<rparr>"
  have "store_types ?la 0 [LogicalAddressType.Playback] = Ok ?la"
    by (simp add: set_index_def claimed_addrs_def)
  moreover have e: "(claimed_addrs False)\<lparr>num_log_addrs := 1, log_addr := [4, 0, 0, 0]\<rparr> = claimed_addrs False"
    "log_addr_type (claimed_addrs False) = [3, 0, 0, 0]"
    by (simp_all add: claimed_addrs_def)
  ultimately show ?thesis
    using assms
    by (simp add: lost_def on_device_def set_logical_addresses_def op_bind_def op_return_def op_device_def
        op_result_def op_modify_def released_device_def set_log_addrs_def syscall_log_addrs_def
        mock_kernel_def mock_set_log_addrs_def check_def CEC_MAX_LOG_ADDRS_def mock_addresses
        claimed_device_def Let_def e del: store_types.simps)
qed

lemma regained_check:
  assumes "cached_log_addrs (interface t) = []" "with_logical_address_queue t = [ReportPowerOn]"
    "may_transmit (world t) = None" "\<not> cfg_request_active_source (config (system t))"
  shows "check_log_addrs E phys [4] t =
     (Done (), t\<lparr>interface := (interface t)\<lparr>cached_log_addrs := [4]\<rparr>, with_logical_address_queue := [],
        world := (world t)\<lparr>mock_signals := mock_signals (world t) @ [LogicalAddressesChanged],
          tx_queue := tx_queue (world t) @
            [(Valid (Message.ReportPowerStatus PowerStatus.On), LogicalAddress_Broadcast)]\<rparr>,
        jobs := jobs t @ [QueryAudioSystem]\<rparr>)"
  using assms
  by (simp add: check_log_addrs_def log_addrs_changed_def set_interface_def test_signal drain_queue_def
      act_logged_def test_power_on query_audio_system_def spawn_def request_active_source_def)

lemma regained_event:
  assumes "device t = claimed_device False" "mock_log_addrs (world t) = claimed_addrs False"
    "cached_phys_addr (interface t) = mock_phys_addr (world t)"
    "cached_vendor_id (interface t) = -1" "cached_log_addrs (interface t) = []"
    "with_logical_address_queue t = [ReportPowerOn]" "may_transmit (world t) = None"
    "\<not> cfg_request_active_source (config (system t))"
  shows "device_step E (Turn (Polled (Ok GotEvent))) t =
     (Done True, t\<lparr>interface := (interface t)\<lparr>cached_log_addrs := [4]\<rparr>, with_logical_address_queue := [],
        world := (world t)\<lparr>mock_signals := mock_signals (world t) @ [LogicalAddressesChanged],
          tx_queue := tx_queue (world t) @
            [(Valid (Message.ReportPowerStatus PowerStatus.On), LogicalAddress_Broadcast)]\<rparr>,
        jobs := jobs t @ [QueryAudioSystem]\<rparr>)"
proof (rule known_event [OF test_reads(4) [OF assms(1,2)]])
  have "state_change E t = check_log_addrs E (mock_phys_addr (world t)) [4] t"
    using known_state_change [OF test_reads(2,3) [OF assms(1,2)] assms(3,4)] by simp
  with regained_check [OF assms(5-8)] show "state_change E t =
     (Done (), t\<lparr>interface := (interface t)\<lparr>cached_log_addrs := [4]\<rparr>, with_logical_address_queue := [],
        world := (world t)\<lparr>mock_signals := mock_signals (world t) @ [LogicalAddressesChanged],
          tx_queue := tx_queue (world t) @
            [(Valid (Message.ReportPowerStatus PowerStatus.On), LogicalAddress_Broadcast)]\<rparr>,
        jobs := jobs t @ [QueryAudioSystem]\<rparr>)"
    by simp
qed

lemma test_job_turn:
  assumes "jobs t = j # js" "device t = claimed_device False" "mock_log_addrs (world t) = claimed_addrs False"
    "get_field 0 (mock_mode (world t)) \<noteq> 0"
  shows "device_step E (Turn (JobRuns 0)) t =
     (Done True, t\<lparr>jobs := js, world := (world t)\<lparr>tx_queue := tx_queue (world t) @
        [(Valid (fst (job_message j)), snd (job_message j))]\<rparr>\<rparr>)"
  using assms by (simp add: DeviceTask_turn_def test_job)

lemma test_settle:
  assumes "mock_events (world t) = 1"
    "device_step E (Turn (Polled (Ok GotEvent))) (t\<lparr>world := (world t)\<lparr>mock_events := 0\<rparr>\<rparr>) = (Done True, t')"
  shows "jobs t' = [] \<Longrightarrow> settle t = (Done (), t')"
    and "jobs t' = [j] \<Longrightarrow> device_step E (Turn (JobRuns 0)) t' = (Done True, t'') \<Longrightarrow> settle t = (Done (), t'')"
  using assms by (simp_all add: settle_def steps_def del: device_step.simps)

lemma test_wake_from_standby_deferred_pass [passes]: test_wake_from_standby_deferred
  by (simp add: test_wake_from_standby_deferred_def sent_first_def power_on_def addresses_are_def run_daemon
      test_lose lost_reads lost_event test_wake regain_address_def test_regain test_reads regained_event
      test_settle lost_def test_caps mode_bits test_job_turn may_claimed del: device_step.simps)


end
