(* ===== verification/ConfigTests.thy ===== *)
theory ConfigTests
  imports TestSetup
begin

text \<open>
  The tests of the daemon on the configuration on the bus (\<open>cecd/src/dbus.rs\<close>), each a definition of
  its name. A test sets a device up with a configuration, puts a new \<open>CecConfig\<close> on the bus, and reads
  it, or changes the configuration of the system and waits for the signal.
\<close>

section \<open>Tests\<close>

definition config_test :: "Config \<Rightarrow> (System \<Rightarrow> Config \<Rightarrow> bool) \<Rightarrow> bool" where
  "config_test cfg P \<longleftrightarrow>
     (case setup_dbus_test basic_device cfg of
        (Done _, t) \<Rightarrow> P (system t) (CecConfig_new (system t))
      | _ \<Rightarrow> False)"

text \<open>The change of the configuration, the signal to wait for, and what is read after it.\<close>

definition reconfig_test :: "Config \<Rightarrow> (Config \<Rightarrow> Config) \<Rightarrow> ConfigSignal \<Rightarrow> (Config \<Rightarrow> bool) \<Rightarrow> bool" where
  "reconfig_test cfg change changed P \<longleftrightarrow>
     config_test cfg (\<lambda>s object.
       case CecConfig_reconfigure (change (config s)) object of (object, signals) \<Rightarrow>
       changed \<in> set signals \<and> P object)"

definition cec_name :: "char \<Rightarrow> u8 list" where
  "cec_name c = map (\<lambda>c. of_char c) [CHR ''C'', CHR ''E'', CHR ''C'', c]"

definition expected_mappings :: "(Key \<Rightarrow> u16) \<Rightarrow> (UiCommand \<rightharpoonup> Key) \<Rightarrow> UiCommand \<Rightarrow> (u8 list option \<times> u16) option"
where
  "expected_mappings key_code mappings k = map_option (\<lambda>v. (UiCommand_to_bytes k, key_code v)) (mappings k)"

definition test_default_config_readout :: "(Key \<Rightarrow> u16) \<Rightarrow> bool" where
  "test_default_config_readout key_code \<longleftrightarrow>
     (let c = Config_default in
      config_test c (\<lambda>_ object.
        CecConfig_osd_name object = (case cfg_osd_name c of Some name \<Rightarrow> name | None \<Rightarrow> test_host) \<and>
        CecConfig_vendor_id object =
          (case cfg_vendor_id c of Some v \<Rightarrow> VendorId_into_i32 (Some v) | None \<Rightarrow> -1) \<and>
        CecConfig_logical_address object = LogicalAddressType_into
          (if cfg_logical_address c = LogicalAddressType.Unregistered then LogicalAddressType.Playback
           else cfg_logical_address c) \<and>
        CecConfig_mappings key_code object =
          (if cfg_mappings c \<noteq> Map.empty then expected_mappings key_code (cfg_mappings c)
           else expected_mappings key_code (map_of DEFAULT_MAPPINGS)) \<and>
        CecConfig_wake_tv object = cfg_wake_tv c \<and>
        CecConfig_suspend_tv object = cfg_suspend_tv c \<and>
        CecConfig_allow_standby object = cfg_allow_standby c \<and>
        CecConfig_uinput object = cfg_uinput c))"

definition test_osd_name_config_readout :: bool where
  "test_osd_name_config_readout \<longleftrightarrow>
     (let c = Config_default\<lparr>cfg_osd_name := Some (cec_name (CHR ''2''))\<rparr> in
      config_test c (\<lambda>_ object. Some (CecConfig_osd_name object) = cfg_osd_name c))"

definition test_osd_name_config_reconfig :: bool where
  "test_osd_name_config_reconfig \<longleftrightarrow>
     reconfig_test (Config_default\<lparr>cfg_osd_name := Some (cec_name (CHR ''2''))\<rparr>)
       (\<lambda>c. c\<lparr>cfg_osd_name := Some (cec_name (CHR ''3''))\<rparr>) OsdNameProperty
       (\<lambda>object. CecConfig_osd_name object = cec_name (CHR ''3''))"

definition test_vendor_id_config_readout :: bool where
  "test_vendor_id_config_readout \<longleftrightarrow>
     (let c = Config_default\<lparr>cfg_vendor_id := Some (VendorId [0x12, 0x34, 0x56])\<rparr> in
      config_test c (\<lambda>_ object. CecConfig_vendor_id object = VendorId_into_i32 (cfg_vendor_id c)))"

definition test_vendor_id_config_reconfig :: bool where
  "test_vendor_id_config_reconfig \<longleftrightarrow>
     reconfig_test (Config_default\<lparr>cfg_vendor_id := Some (VendorId [0x12, 0x34, 0x56])\<rparr>)
       (\<lambda>c. c\<lparr>cfg_vendor_id := Some (VendorId [0x56, 0x34, 0x12])\<rparr>) VendorIdProperty
       (\<lambda>object. CecConfig_vendor_id object = VendorId_into_i32 (Some (VendorId [0x56, 0x34, 0x12])))"

definition test_logical_address_config_readout :: bool where
  "test_logical_address_config_readout \<longleftrightarrow>
     (let c = Config_default\<lparr>cfg_logical_address := LogicalAddressType.AudioSystem\<rparr> in
      config_test c (\<lambda>_ object.
        CecConfig_logical_address object = LogicalAddressType_into (cfg_logical_address c)))"

definition test_logical_address_config_reconfig :: bool where
  "test_logical_address_config_reconfig \<longleftrightarrow>
     reconfig_test (Config_default\<lparr>cfg_logical_address := LogicalAddressType.AudioSystem\<rparr>)
       (\<lambda>c. c\<lparr>cfg_logical_address := LogicalAddressType.Record\<rparr>) LogicalAddressProperty
       (\<lambda>object. CecConfig_logical_address object = LogicalAddressType_into LogicalAddressType.Record)"

definition test_mappings_config_readout :: "(Key \<Rightarrow> u16) \<Rightarrow> bool" where
  "test_mappings_config_readout key_code \<longleftrightarrow>
     (let c = Config_default\<lparr>cfg_mappings := [UiCommand.Enter \<mapsto> Key.Enter]\<rparr> in
      config_test c (\<lambda>_ object.
        CecConfig_mappings key_code object = expected_mappings key_code (cfg_mappings c)))"

definition test_wake_tv_config_readout :: bool where
  "test_wake_tv_config_readout \<longleftrightarrow>
     (let c = Config_default\<lparr>cfg_wake_tv := \<not> cfg_wake_tv Config_default\<rparr> in
      config_test c (\<lambda>_ object. CecConfig_wake_tv object = cfg_wake_tv c))"

definition test_wake_tv_config_reconfig :: bool where
  "test_wake_tv_config_reconfig \<longleftrightarrow>
     reconfig_test (Config_default\<lparr>cfg_wake_tv := False\<rparr>) (\<lambda>c. c\<lparr>cfg_wake_tv := True\<rparr>)
       WakeTvProperty CecConfig_wake_tv"

definition test_suspend_tv_config_readout :: bool where
  "test_suspend_tv_config_readout \<longleftrightarrow>
     (let c = Config_default\<lparr>cfg_suspend_tv := \<not> cfg_suspend_tv Config_default\<rparr> in
      config_test c (\<lambda>_ object. CecConfig_suspend_tv object = cfg_suspend_tv c))"

definition test_suspend_tv_config_reconfig :: bool where
  "test_suspend_tv_config_reconfig \<longleftrightarrow>
     reconfig_test (Config_default\<lparr>cfg_suspend_tv := False\<rparr>) (\<lambda>c. c\<lparr>cfg_suspend_tv := True\<rparr>)
       SuspendTvProperty CecConfig_suspend_tv"

definition test_allow_standby_config_readout :: bool where
  "test_allow_standby_config_readout \<longleftrightarrow>
     (let c = Config_default\<lparr>cfg_allow_standby := \<not> cfg_allow_standby Config_default\<rparr> in
      config_test c (\<lambda>_ object. CecConfig_allow_standby object = cfg_allow_standby c))"

definition test_allow_standby_config_reconfig :: bool where
  "test_allow_standby_config_reconfig \<longleftrightarrow>
     reconfig_test (Config_default\<lparr>cfg_allow_standby := False\<rparr>) (\<lambda>c. c\<lparr>cfg_allow_standby := True\<rparr>)
       AllowStandbyProperty CecConfig_allow_standby"

definition test_uinput_config_readout :: bool where
  "test_uinput_config_readout \<longleftrightarrow>
     (let c = Config_default\<lparr>cfg_uinput := \<not> cfg_uinput Config_default\<rparr> in
      config_test c (\<lambda>_ object. CecConfig_uinput object = cfg_uinput c))"

definition test_uinput_config_reconfig :: bool where
  "test_uinput_config_reconfig \<longleftrightarrow>
     reconfig_test (Config_default\<lparr>cfg_uinput := False\<rparr>) (\<lambda>c. c\<lparr>cfg_uinput := True\<rparr>)
       UinputProperty CecConfig_uinput"

definition test_request_active_source_config_readout :: bool where
  "test_request_active_source_config_readout \<longleftrightarrow>
     (let c = Config_default\<lparr>cfg_request_active_source := \<not> cfg_request_active_source Config_default\<rparr> in
      config_test c (\<lambda>_ object. CecConfig_request_active_source object = cfg_request_active_source c))"

definition test_request_active_source_config_reconfig :: bool where
  "test_request_active_source_config_reconfig \<longleftrightarrow>
     reconfig_test (Config_default\<lparr>cfg_request_active_source := False\<rparr>)
       (\<lambda>c. c\<lparr>cfg_request_active_source := True\<rparr>) RequestActiveSourceProperty
       CecConfig_request_active_source"

section \<open>A device of any configuration gets ready\<close>

text \<open>An action returns from every state with \<open>I\<close>, and leaves one with \<open>I\<close>.\<close>

definition returns :: "('s \<Rightarrow> bool) \<Rightarrow> ('s, 'a) action \<Rightarrow> bool" where
  "returns I m \<longleftrightarrow> (\<forall>s. I s \<longrightarrow> (\<exists>x t. m s = (Done x, t) \<and> I t))"

named_theorems returns

lemma returnsI: "(\<And>s. I s \<Longrightarrow> \<exists>x t. m s = (Done x, t) \<and> I t) \<Longrightarrow> returns I m"
  by (simp add: returns_def)

lemma returnsE:
  assumes "returns I m" "I s"
  obtains x t where "m s = (Done x, t)" "I t"
  using assms unfolding returns_def by blast

lemma returns_basic [returns]:
  "returns I (act_return (Done x))" "returns I act_skip"
  by (simp_all add: returns_def)

lemma returns_bind [returns]:
  assumes "returns I m" "\<And>x. returns I (f x)"
  shows "returns I (act_bind m f)"
proof (rule returnsI)
  fix s assume "I s"
  then obtain x t where t: "m s = (Done x, t)" "I t" using returnsE [OF assms(1)] by blast
  then obtain y u where "f x t = (Done y, u)" "I u" using returnsE [OF assms(2)] by blast
  with t show "\<exists>y u. act_bind m f s = (Done y, u) \<and> I u" by simp
qed

lemma returns_if [returns]:
  "returns I m \<Longrightarrow> returns I n \<Longrightarrow> returns I (if b then m else n)"
  by simp

lemma returns_state [returns]: "(\<And>s. I s \<Longrightarrow> returns I (f s)) \<Longrightarrow> returns I (act_state f)"
  by (simp add: returns_def)

lemma returns_modify: "(\<And>s. I s \<Longrightarrow> I (f s)) \<Longrightarrow> returns I (act_modify f)"
  by (simp add: returns_def)

lemma returns_list [returns]: "(\<And>x. x \<in> set xs \<Longrightarrow> returns I (f x)) \<Longrightarrow> returns I (act_list f xs)"
proof (induction xs)
  case Nil
  show ?case unfolding act_list.simps by (rule returns)
next
  case (Cons x xs)
  then show ?case unfolding act_list.simps by (intro returns_bind) simp_all
qed

lemma returns_attempt [returns]: "returns I m \<Longrightarrow> returns I (act_attempt m)"
  unfolding returns_def using act_attempt_run(1) by metis

lemma returns_logged [returns]: "returns I m \<Longrightarrow> returns I (act_logged m)"
  unfolding act_logged_def by (intro returns)

lemma returns_run: "(\<And>s. I s \<Longrightarrow> m s = (Done (x s), t s)) \<Longrightarrow> (\<And>s. I s \<Longrightarrow> I (t s)) \<Longrightarrow> returns I m"
  by (simp add: returns_def)

text \<open>The device and the kernel agree on addresses, one of which has been claimed.\<close>

definition one_claimed :: "cec_log_addrs \<Rightarrow> LogicalAddress \<Rightarrow> VendorId option \<Rightarrow> bool" where
  "one_claimed la a v \<longleftrightarrow>
     num_log_addrs la = 1 \<and> collect_log_addrs (log_addr la) [0..<Suc 0] = Ok [a] \<and>
     VendorId_try_from_sys (vendor_id la) = Ok v \<and> log_addr la ! 0 \<noteq> 15"

definition on_claimed :: "cec_log_addrs \<Rightarrow> System \<Rightarrow> mock DeviceTask \<Rightarrow> bool" where
  "on_claimed la s t \<longleftrightarrow>
     device t = \<lparr>tx_logical_address = claimed_address la, internal_log_addrs = la\<rparr> \<and>
     mock_log_addrs (world t) = la \<and> mock_mode (world t) = 0x11 \<and> system t = s \<and>
     set (with_logical_address_queue t) \<subseteq> {PendingActivate}"

lemma returns_to_modify [returns]:
  "returns (on_claimed la s) (set_interface f)"
  "returns (on_claimed la s) (spawn job)"
  "returns (on_claimed la s) (signal mock_environment sig)"
  by (rule returnsI, simp add: set_interface_def spawn_def test_signal on_claimed_def)+

lemma claimed_reading:
  assumes "on_claimed la s t" "one_claimed la a v"
  shows "on_device (get_physical_address mock_kernel) t =
      (Done (PhysicalAddress.PhysicalAddress (mock_phys_addr (world t))), t)"
    and "on_device (get_logical_addresses mock_kernel) t = (Done [a], t)"
    and "on_device (get_vendor_id mock_kernel) t = (Done v, t)"
    and "on_device (handle_status mock_kernel GotEvent) t = (Done [StateChange], t)"
    and "may_transmit (world t) = None"
proof -
  have d: "device t = \<lparr>tx_logical_address = claimed_address la, internal_log_addrs = la\<rparr>"
    "mock_log_addrs (world t) = la" "mock_mode (world t) = 0x11"
    using assms(1) by (simp_all add: on_claimed_def)
  have same: "t\<lparr>device := \<lparr>tx_logical_address = claimed_address la, internal_log_addrs = la\<rparr>\<rparr> = t"
    using d(1) by simp
  note c = assms(2) [unfolded one_claimed_def]
  show "on_device (get_physical_address mock_kernel) t =
      (Done (PhysicalAddress.PhysicalAddress (mock_phys_addr (world t))), t)"
    by (simp add: on_device_def)
  show "on_device (get_logical_addresses mock_kernel) t = (Done [a], t)"
    using c same by (simp add: on_device_def mock_get_logical_addresses d)
  show "on_device (get_vendor_id mock_kernel) t = (Done v, t)"
    using c same by (simp add: on_device_def mock_get_logical_addresses d)
  show "on_device (handle_status mock_kernel GotEvent) t = (Done [StateChange], t)"
    using c same by (simp add: on_device_def mock_handle_event d)
  show "may_transmit (world t) = None"
    using c by (simp add: may_transmit_def d mode_bits LogicalAddress_Unregistered_def)
qed

lemma returns_reading:
  assumes "one_claimed la a v"
  shows "returns (on_claimed la s) (on_device (get_physical_address mock_kernel))"
    and "returns (on_claimed la s) (on_device (get_logical_addresses mock_kernel))"
    and "returns (on_claimed la s) (on_device (get_vendor_id mock_kernel))"
  by (rule returnsI; simp add: claimed_reading [OF _ assms])+

lemma returns_current_log_addrs:
  assumes "one_claimed la a v"
  shows "returns (on_claimed la s) (current_log_addrs mock_environment)"
  unfolding current_log_addrs_def mock_environment_simps by (intro returns returns_reading [OF assms])

lemma returns_job:
  assumes "one_claimed la a v"
  shows "returns (on_claimed la s) (run_job mock_environment j)"
proof -
  have "returns (on_claimed la s) (on_device (tx_message debug mock_kernel (fst (job_message j)) dest))"
    for debug dest
  proof (rule returnsI)
    fix t assume t: "on_claimed la s t"
    have "Message_valid (fst (job_message j))" "Message_len (fst (job_message j)) \<le> 14"
      by (cases j; simp add: job_message_def)+
    with claimed_reading(5) [OF t assms] t
    show "\<exists>x u. on_device (tx_message debug mock_kernel (fst (job_message j)) dest) t = (Done x, u) \<and>
        on_claimed la s u"
      by (simp add: test_send on_claimed_def)
  qed
  note sent = this
  show ?thesis
    unfolding run_job_def mock_environment_simps
    by (intro returns returns_current_log_addrs [OF assms] sent)
qed

lemma returns_set_active: "returns (on_claimed la s) (set_active mock_environment b)"
  unfolding set_active_def by (intro returns returns_modify) (simp add: on_claimed_def)

lemma returns_pending:
  "cb = PendingActivate \<Longrightarrow> returns (on_claimed la s) (run_callback mock_environment cb)"
  by (simp add: run_callback_def pending_activate_def returns returns_set_active)

lemma returns_request:
  assumes "one_claimed la a v"
  shows "returns (on_claimed la s) (request_active_source mock_environment)"
  unfolding request_active_source_def with_logical_address_def
  by (intro returns returns_modify returns_current_log_addrs [OF assms] returns_pending)
    (auto simp: on_claimed_def)

lemma returns_drain: "returns (on_claimed la s) (drain_queue mock_environment)"
  unfolding drain_queue_def
  by (intro returns returns_modify returns_pending) (auto simp: on_claimed_def)

lemma returns_check:
  assumes "one_claimed la a v"
  shows "returns (on_claimed la s) (check_log_addrs mock_environment phys (b # bs))"
  unfolding check_log_addrs_def log_addrs_changed_def query_audio_system_def
  using returns_drain returns_request [OF assms] by (simp add: returns)

lemma returns_update_cached: "returns (on_claimed la s) (update_cached mock_environment f v g sig)"
  unfolding update_cached_def by (intro returns)

lemma returns_state_change:
  assumes "one_claimed la a v"
  shows "returns (on_claimed la s) (state_change mock_environment)"
proof (rule returnsI)
  fix t assume t: "on_claimed la s t"
  let ?phys = "mock_phys_addr (world t)"
  let ?rest = "act_then (update_cached mock_environment cached_phys_addr ?phys
      (\<lambda>i. i\<lparr>cached_phys_addr := ?phys\<rparr>) PhysicalAddressChanged)
    (act_then (update_cached mock_environment cached_vendor_id (VendorId_into_i32 v)
      (\<lambda>i. i\<lparr>cached_vendor_id := VendorId_into_i32 v\<rparr>) VendorIdChanged)
    (check_log_addrs mock_environment ?phys [LogicalAddress_into a]))"
  have "returns (on_claimed la s) ?rest"
    by (intro returns returns_update_cached returns_check [OF assms])
  moreover have "state_change mock_environment t = ?rest t"
    by (simp add: state_change_def or_default_def claimed_reading [OF t assms] Let_def)
  ultimately show "\<exists>x u. state_change mock_environment t = (Done x, u) \<and> on_claimed la s u"
    using t by (simp add: returns_def)
qed

text \<open>The steps that the setup waits for.\<close>

lemma returns_event:
  assumes "one_claimed la a v"
  shows "returns (on_claimed la s) (device_step mock_environment (Turn (Polled (Ok GotEvent))))"
proof (rule returnsI)
  fix t assume t: "on_claimed la s t"
  have "returns (on_claimed la s) (act_then (act_logged (state_change mock_environment)) (act_return (Done True)))"
    by (intro returns returns_state_change [OF assms])
  moreover have "device_step mock_environment (Turn (Polled (Ok GotEvent))) t =
      act_then (act_logged (state_change mock_environment)) (act_return (Done True)) t"
    by (simp add: DeviceTask_turn_def claimed_reading [OF t assms] handle_poll_result_def act_bind_def
        split: outcome.split prod.split)
  ultimately show "\<exists>x u. device_step mock_environment (Turn (Polled (Ok GotEvent))) t = (Done x, u) \<and>
      on_claimed la s u"
    using t by (simp add: returns_def)
qed

lemma returns_job_runs:
  assumes "one_claimed la a v"
  shows "returns (on_claimed la s) (device_step mock_environment (Turn (JobRuns n)))"
  unfolding device_step.simps DeviceTask_turn_def Event.case
  by (intro returns returns_modify returns_job [OF assms]) (auto simp: on_claimed_def)

lemma returns_steps:
  assumes "returns I (device_step mock_environment st)"
  shows "returns I (steps (replicate n st))"
  unfolding steps_def
proof (induction n)
  case 0
  show ?case unfolding replicate_0 device_steps.simps by (rule returns)
next
  case (Suc n)
  then show ?case unfolding replicate_Suc device_steps.simps by (intro returns assms)
qed

lemma returns_ready:
  assumes "one_claimed la a v"
  shows "returns (on_claimed la s) ready"
  unfolding ready_def settle_def DeviceTask_start_def query_audio_system_def act_list.simps
  by (intro returns returns_modify returns_steps returns_event [OF assms] returns_job_runs [OF assms]
      returns_request [OF assms]) (auto simp: on_claimed_def)

text \<open>The device takes the name, vendor and kind of address of the configuration.\<close>

definition given_addrs :: "u8 list \<Rightarrow> SysVendorId \<Rightarrow> LogicalAddressType \<Rightarrow> cec_log_addrs" where
  "given_addrs name vendor ty = cec_log_addrs_default\<lparr>
     osd_name := name @ replicate 10 0 @ [0], vendor_id := vendor,
     primary_device_type :=
       [case LogicalAddressType_primary_device_type ty of Some p \<Rightarrow> PrimaryDeviceType_into p | None \<Rightarrow> 0xFF, 0, 0, 0],
     log_addr_type := [LogicalAddressType_into ty, 0, 0, 0], num_log_addrs := 1,
     log_addr := [LogicalAddress_into (mock_claim ty), 0, 0, 0]\<rparr>"

lemma given_name:
  "length name = 4 \<Longrightarrow> set_osd_name debug mock_kernel name (closed_device, k) =
     (Ok (), closed_device\<lparr>internal_log_addrs :=
        cec_log_addrs_default\<lparr>osd_name := name @ replicate 10 0 @ [0]\<rparr>\<rparr>, k)"
  by (simp add: set_osd_name_def op_bind_def op_return_def op_device_def op_result_def op_modify_def
      buffer_from_str_def check_Ok copy_from_slice_def set_log_addrs_def closed_device_def)

definition sys_vendor :: "VendorId option \<Rightarrow> SysVendorId result" where
  "sys_vendor v = (case v of Some vid \<Rightarrow> VendorId_into_sys vid | None \<Rightarrow> Ok SysVendorId_default)"

lemma given_vendor:
  "sys_vendor v = Ok x \<Longrightarrow>
   set_vendor_id v (d, k) = (Ok (), set_log_addrs (\<lambda>la. la\<lparr>vendor_id := x\<rparr>) d, k)"
  by (cases v; simp add: sys_vendor_def set_vendor_id_def op_modify_def op_result_def op_bind_def op_return_def)

lemma given_claim:
  assumes "ty = LogicalAddressType.Playback \<or> ty = LogicalAddressType.AudioSystem"
    "contains (mock_caps k) CAP_LOG_ADDRS" "get_field 0 (mock_mode k) \<noteq> 0" "num_log_addrs (mock_log_addrs k) = 0"
    "mock_phys_addr k \<noteq> 0xFFFF" "\<not> force_unregistered k"
  shows "set_logical_address mock_kernel ty (set_log_addrs (\<lambda>la. la\<lparr>vendor_id := x\<rparr>)
      (closed_device\<lparr>internal_log_addrs := cec_log_addrs_default\<lparr>osd_name := name @ replicate 10 0 @ [0]\<rparr>\<rparr>), k) =
    (Ok (), \<lparr>tx_logical_address = claimed_address (given_addrs name x ty), internal_log_addrs = given_addrs name x ty\<rparr>,
     k\<lparr>mock_log_addrs := given_addrs name x ty, mock_events := mock_events k + 1\<rparr>)"
proof -
  have "mock_address False 4 = 5" "mock_address False 3 = 4" "mock_address False 0 = 0"
    by (simp_all add: mock_address_def try_from_primitive_def LogicalAddressType_variants_def)
  then show ?thesis
    using assms
    by (auto simp: set_logical_address_def set_logical_addresses_def op_bind_def op_return_def set_index_def
      op_device_def op_result_def op_modify_def closed_device_def set_log_addrs_def syscall_log_addrs_def
      mock_kernel_def mock_set_log_addrs_def check_def CEC_MAX_LOG_ADDRS_def given_addrs_def claimed_address_def Let_def)
qed

lemma given_one:
  assumes "ty = LogicalAddressType.Playback \<or> ty = LogicalAddressType.AudioSystem"
    "VendorId_try_from_sys x = Ok v"
  shows "one_claimed (given_addrs name x ty) (mock_claim ty) v"
  using assms
  by (auto simp: one_claimed_def given_addrs_def try_from_primitive_def LogicalAddress_variants_def index_def)

text \<open>The configurations of the tests.\<close>

definition given_config :: "Config \<Rightarrow> SysVendorId \<Rightarrow> bool" where
  "given_config cfg x \<longleftrightarrow>
     length (sys_osd_name (test_system cfg)) = 4 \<and> sys_vendor (cfg_vendor_id cfg) = Ok x \<and>
     VendorId_try_from_sys x = Ok (cfg_vendor_id cfg) \<and>
     (cfg_logical_address (completed cfg) = LogicalAddressType.Playback \<or>
      cfg_logical_address (completed cfg) = LogicalAddressType.AudioSystem)"

definition given_task :: "cec_log_addrs \<Rightarrow> mock DeviceTask \<Rightarrow> mock DeviceTask" where
  "given_task la t = t\<lparr>device := \<lparr>tx_logical_address = claimed_address la, internal_log_addrs = la\<rparr>,
     world := (world t)\<lparr>mock_mode := 0x11, mock_log_addrs := la, mock_events := mock_events (world t) + 2\<rparr>\<rparr>"

lemma given_configure:
  assumes "given_config cfg x" "system t = test_system cfg" "device t = closed_device"
    "world t = basic_device mock_default"
  shows "configure_dev mock_environment None t = (Done None,
    given_task (given_addrs (sys_osd_name (system t)) x (cfg_logical_address (completed cfg))) t)"
proof -
  have c: "length (sys_osd_name (test_system cfg)) = 4" "sys_vendor (cfg_vendor_id (completed cfg)) = Ok x"
      "cfg_logical_address (completed cfg) = LogicalAddressType.Playback \<or>
       cfg_logical_address (completed cfg) = LogicalAddressType.AudioSystem"
    using assms(1) by (simp_all add: given_config_def completed_def)
  show ?thesis
    using assms(2-4)
    by (simp add: configure_dev_def task_device_run test_caps test_modes configure_logical_address_def
        test_clear_busy given_name [OF c(1)] given_vendor [OF c(2)] given_claim [OF c(3)] trimmed_osd_name_def
        c(1) mode_bits basic_device_def given_task_def)
qed

lemma given_new:
  assumes "given_config cfg x"
  obtains t la v where "DeviceTask_new mock_environment closed_device (basic_device mock_default)
      (test_system cfg) closed_object = (Done (), t)"
    "on_claimed la (test_system cfg) t" "one_claimed la (mock_claim (cfg_logical_address (completed cfg))) v"
proof -
  let ?la = "given_addrs (sys_osd_name (test_system cfg)) x (cfg_logical_address (completed cfg))"
  have u: "cfg_uinput (completed cfg) = cfg_uinput cfg" by (simp add: completed_def)
  have "\<exists>t. DeviceTask_new mock_environment closed_device (basic_device mock_default)
      (test_system cfg) closed_object = (Done (), t) \<and> on_claimed ?la (test_system cfg) t"
    by (cases "cfg_uinput cfg")
      (simp_all add: DeviceTask_new_def given_configure [OF assms] given_task_def configure_uinput_def
        mappings_completed set_interface_def task_device_run in_world_def call_io_def io_outcome_def u
        open_keyboard_def set_mappings_def set_name_def uinput_open_def ensure_def UInputDevice_new_def
        act_bind_def on_claimed_def)
  then show thesis
    using that given_one assms unfolding given_config_def by metis
qed

lemma given_setup:
  assumes "given_config cfg x"
  obtains t where "setup_dbus_test basic_device cfg = (Done (), t)" "system t = test_system cfg"
proof -
  obtain t la v where t: "DeviceTask_new mock_environment closed_device (basic_device mock_default)
      (test_system cfg) closed_object = (Done (), t)" "on_claimed la (test_system cfg) t"
      "one_claimed la (mock_claim (cfg_logical_address (completed cfg))) v"
    using given_new [OF assms] .
  obtain u where u: "ready t = (Done (), u)" "on_claimed la (test_system cfg) u"
    using returnsE [OF returns_ready [OF t(3)] t(2)] by (metis old.unit.exhaust)
  obtain s where "System_new mock_environment mock_default = (Done s, mock_default)"
      "set_config mock_environment cfg (s, mock_default) = (Done (), test_system cfg, mock_default)"
    using test_set_config by blast
  then have "setup_dbus_test basic_device cfg = (Done (), u)"
    by (simp add: setup_dbus_test_def test_open t(1) u(1))
  with u(2) show thesis using that by (simp add: on_claimed_def)
qed

lemma config_test_run:
  "given_config cfg x \<Longrightarrow> config_test cfg P = P (test_system cfg) (completed cfg)"
  by (erule given_setup) (simp add: config_test_def CecConfig_new_def)

section \<open>The tests pass\<close>

text \<open>Most configurations have no vendor.\<close>

lemma without_vendor:
  assumes "length (sys_osd_name (test_system cfg)) = 4" "cfg_vendor_id cfg = None"
    "cfg_logical_address (completed cfg) = LogicalAddressType.Playback \<or>
     cfg_logical_address (completed cfg) = LogicalAddressType.AudioSystem"
  shows "config_test cfg P = P (test_system cfg) (completed cfg)"
  using assms by (intro config_test_run [of cfg SysVendorId_default]) (simp add: given_config_def sys_vendor_def)

lemma with_vendor:
  assumes "length (sys_osd_name (test_system cfg)) = 4" "cfg_vendor_id cfg = Some (VendorId [0x12, 0x34, 0x56])"
    "cfg_logical_address (completed cfg) = LogicalAddressType.Playback \<or>
     cfg_logical_address (completed cfg) = LogicalAddressType.AudioSystem"
  shows "config_test cfg P = P (test_system cfg) (completed cfg)"
proof -
  have "VendorId_valid (VendorId [0x12, 0x34, 0x56])"
    by (simp add: VendorId_valid_def)
  then obtain x where "VendorId_into_sys (VendorId [0x12, 0x34, 0x56]) = Ok x"
      "VendorId_try_from_sys x = Ok (Some (VendorId [0x12, 0x34, 0x56]))"
    using VendorId_sys_round_trip by blast
  then show ?thesis
    using assms by (intro config_test_run [of cfg x]) (simp add: given_config_def sys_vendor_def)
qed

lemmas run_config = reconfig_test_def without_vendor with_vendor
  test_system_def completed_def Config_default_def host_len cec_name_def test_host_def
  CecConfig_reconfigure_def if_changed_def CecConfig_osd_name_def CecConfig_vendor_id_def
  CecConfig_logical_address_def CecConfig_mappings_def CecConfig_wake_tv_def CecConfig_suspend_tv_def
  CecConfig_allow_standby_def CecConfig_uinput_def CecConfig_request_active_source_def expected_mappings_def
  VendorId_into_i32_def Let_def fun_eq_iff

lemma test_default_config_readout_pass [passes]: "test_default_config_readout key_code"
  by (simp add: test_default_config_readout_def run_config)

lemma test_mappings_config_readout_pass [passes]: "test_mappings_config_readout key_code"
  by (simp add: test_mappings_config_readout_def run_config)

lemma test_osd_name_config_readout_pass [passes]: test_osd_name_config_readout
  by (simp add: test_osd_name_config_readout_def run_config)

lemma test_osd_name_config_reconfig_pass [passes]: test_osd_name_config_reconfig
  by (simp add: test_osd_name_config_reconfig_def run_config)

lemma test_vendor_id_config_readout_pass [passes]: test_vendor_id_config_readout
  by (simp add: test_vendor_id_config_readout_def run_config)

lemma test_vendor_id_config_reconfig_pass [passes]: test_vendor_id_config_reconfig
  by (simp add: test_vendor_id_config_reconfig_def run_config)

lemma test_logical_address_config_readout_pass [passes]: test_logical_address_config_readout
  by (simp add: test_logical_address_config_readout_def run_config)

lemma test_logical_address_config_reconfig_pass [passes]: test_logical_address_config_reconfig
  by (simp add: test_logical_address_config_reconfig_def run_config)

lemma test_wake_tv_config_readout_pass [passes]: test_wake_tv_config_readout
  by (simp add: test_wake_tv_config_readout_def run_config)

lemma test_wake_tv_config_reconfig_pass [passes]: test_wake_tv_config_reconfig
  by (simp add: test_wake_tv_config_reconfig_def run_config)

lemma test_suspend_tv_config_readout_pass [passes]: test_suspend_tv_config_readout
  by (simp add: test_suspend_tv_config_readout_def run_config)

lemma test_suspend_tv_config_reconfig_pass [passes]: test_suspend_tv_config_reconfig
  by (simp add: test_suspend_tv_config_reconfig_def run_config)

lemma test_allow_standby_config_readout_pass [passes]: test_allow_standby_config_readout
  by (simp add: test_allow_standby_config_readout_def run_config)

lemma test_allow_standby_config_reconfig_pass [passes]: test_allow_standby_config_reconfig
  by (simp add: test_allow_standby_config_reconfig_def run_config)

lemma test_uinput_config_readout_pass [passes]: test_uinput_config_readout
  by (simp add: test_uinput_config_readout_def run_config)

lemma test_uinput_config_reconfig_pass [passes]: test_uinput_config_reconfig
  by (simp add: test_uinput_config_reconfig_def run_config)

lemma test_request_active_source_config_readout_pass [passes]: test_request_active_source_config_readout
  by (simp add: test_request_active_source_config_readout_def run_config)

lemma test_request_active_source_config_reconfig_pass [passes]: test_request_active_source_config_reconfig
  by (simp add: test_request_active_source_config_reconfig_def run_config)

end
