(* ===== verification/SystemTests.thy ===== *)
theory SystemTests
  imports ConfigTests
begin

text \<open>
  The tests of the daemon on its setup (\<open>cecd/src/testing/mod.rs\<close>) and on remote handlers of messages
  (\<open>cecd/src/system.rs\<close>), each a definition of its name.
  The path of the device that a handler is told is left out.
\<close>

section \<open>Setup\<close>

text \<open>A device that can only transmit, and one that gets no address but the unregistered one.\<close>

definition transmit_device :: "mock \<Rightarrow> mock" where
  "transmit_device k = k\<lparr>mock_caps := CAP_TRANSMIT\<rparr>"

definition unregistered_device :: "mock \<Rightarrow> mock" where
  "unregistered_device k = (basic_device k)\<lparr>force_unregistered := True\<rparr>"

abbreviation "setup_default setup_dev \<equiv> setup_dbus_test setup_dev Config_default"

definition fails_with :: "string \<Rightarrow> (mock, unit) bus_action \<Rightarrow> test_action" where
  "fails_with name m = act_bind m (\<lambda>r. case r of
     Inl e \<Rightarrow> if BusError_name e = name then act_skip else act_return Crash
   | Inr _ \<Rightarrow> act_return Crash)"

definition test_no_caps :: bool where
  "test_no_caps \<longleftrightarrow> (case fst (setup_default (\<lambda>k. k)) of Fail _ \<Rightarrow> True | _ \<Rightarrow> False)"

definition test_caps_transmit_only :: bool where
  "test_caps_transmit_only \<longleftrightarrow>
     passes_test (setup_default transmit_device)
       [assert (\<lambda>t. cached_phys_addr (interface t) = 0xFFFF), assert (\<lambda>t. cached_log_addrs (interface t) = [])]"

definition test_caps_log_addr :: bool where
  "test_caps_log_addr \<longleftrightarrow>
     passes_test (setup_default basic_device)
       [assert (\<lambda>t. cached_phys_addr (interface t) = 0x1000),
        assert (\<lambda>t. cached_log_addrs (interface t) = [LogicalAddress_into LogicalAddress.PlaybackDevice1])]"

definition test_tx_no_log_addr :: bool where
  "test_tx_no_log_addr \<longleftrightarrow>
     passes_test (setup_default transmit_device)
       [assert (\<lambda>t. cached_log_addrs (interface t) = []),
        fails_with ''com.steampowered.CecDaemon1.Error.NoLogicalAddress'' (bus_standby E 0)]"

definition test_tx_invalid_log_addr :: bool where
  "test_tx_invalid_log_addr \<longleftrightarrow>
     passes_test (setup_default unregistered_device)
       [assert (\<lambda>t. cached_phys_addr (interface t) = 0x1000),
        assert (\<lambda>t. cached_log_addrs (interface t) = [LogicalAddress_into LogicalAddress_Unregistered]),
        fails_with ''com.steampowered.CecDaemon1.Error.InvalidData''
          (bus_standby E (LogicalAddress_into LogicalAddress.Tv))]"

section \<open>Remote handlers\<close>

definition register :: "Opcode \<Rightarrow> string \<Rightarrow> bool \<Rightarrow> test_action" where
  "register oc object expected =
     act_bind (in_system (register_message_handler (\<lambda>k. (None, k)) (Opcode_into oc) object '':1.7''))
       (\<lambda>registered. assert (\<lambda>_. registered = expected))"

definition handled_are :: "Opcode set \<Rightarrow> test_action" where
  "handled_are ocs = assert (\<lambda>t. set (list_handled_messages (system t)) = Opcode_into ` ocs)"

definition handler_answers :: "HandlerOutcome \<Rightarrow> test_action" where
  "handler_answers h = act_modify (\<lambda>t. t\<lparr>world := (world t)\<lparr>handler_outcome := h\<rparr>\<rparr>)"

definition test_no_handlers :: bool where
  "test_no_handlers \<longleftrightarrow> passes_test (setup_default basic_device) [handled_are {}]"

definition test_register_handler_drop :: bool where
  "test_register_handler_drop \<longleftrightarrow>
     passes_test (setup_default basic_device)
       [register Opcode.GetCecVersion ''/TestHandler'' True, handled_are {Opcode.GetCecVersion},
        in_system (MessageHandlerTask_run (Opcode_into Opcode.GetCecVersion) '':1.7''
          [UniqueName '':1.7'' None]),
        handled_are {}]"

definition test_register_handler_relay :: bool where
  "test_register_handler_relay \<longleftrightarrow>
     passes_test (setup_default basic_device)
       [register Opcode.GetCecVersion ''/TestHandler'' True,
        arrives_from Message.GetCecVersion LogicalAddress.Tv,
        assert (\<lambda>t. handled (world t) =
          [(\<lparr>handler_bus_name = '':1.7'', handler_object = ''/TestHandler''\<rparr>,
            LogicalAddress_into LogicalAddress.Tv, LogicalAddress_into LogicalAddress.PlaybackDevice1,
            [Opcode_into Opcode.GetCecVersion])]),
        expect_sent []]"

definition test_register_handler_timeout :: bool where
  "test_register_handler_timeout \<longleftrightarrow>
     passes_test (setup_default basic_device)
       [register Opcode.GetCecVersion ''/TestHandler'' True, handler_answers HandlerTimeout,
        arrives_from Message.GetCecVersion LogicalAddress.Tv,
        expect_sent [(Message.FeatureAbort (Opcode_into Opcode.GetCecVersion) AbortReason.Undetermined,
          LogicalAddress.Tv)]]"

definition test_register_handler_abort :: bool where
  "test_register_handler_abort \<longleftrightarrow>
     passes_test (setup_default basic_device)
       [register Opcode.GetCecVersion ''/TestHandler'' True,
        handler_answers (HandlerReply False (AbortReason_into AbortReason.Refused)),
        arrives_from Message.GetCecVersion LogicalAddress.Tv,
        expect_sent [(Message.FeatureAbort (Opcode_into Opcode.GetCecVersion) AbortReason.Refused,
          LogicalAddress.Tv)]]"

definition test_double_register_handler :: bool where
  "test_double_register_handler \<longleftrightarrow>
     passes_test (setup_default basic_device)
       [register Opcode.GetCecVersion ''/TestHandler'' True,
        register Opcode.GetCecVersion ''/TestHandler2'' False, handled_are {Opcode.GetCecVersion},
        register Opcode.CecVersion ''/TestHandler2'' True,
        handled_are {Opcode.CecVersion, Opcode.GetCecVersion}]"

lemma default_ready:
  "setup_dbus_test basic_device Config_default =
     (Done (), claimed_task False (claimed_world False 0 [] []) (test_system Config_default)
       (ready_object False Config_default) [])"
  by (rule setup_ready) (simp add: test_config_def completed_def Config_default_def)

lemma set_all_opcodes: "oc \<in> set all_opcodes"
proof -
  have "oc = word_of_nat (unat oc)" "unat oc < 256"
    using unsigned_less [of oc, where ?'a = nat] by simp_all
  then show ?thesis by (simp only: all_opcodes_def set_map set_upt image_iff) (metis atLeastLessThan_iff zero_le)
qed

lemma set_list_handled: "set (list_handled_messages s) = dom (message_handlers s)"
  by (auto simp: list_handled_messages_def set_all_opcodes dom_def)

lemma test_register:
  "message_handlers (system t) (Opcode_into oc) = None \<Longrightarrow>
   register oc object True t = (Done (), t\<lparr>system := (system t)\<lparr>message_handlers :=
     (message_handlers (system t))(Opcode_into oc \<mapsto> \<lparr>handler_bus_name = '':1.7'', handler_object = object\<rparr>)\<rparr>\<rparr>)"
  "message_handlers (system t) (Opcode_into oc) \<noteq> None \<Longrightarrow> register oc object False t = (Done (), t)"
  by (auto simp: register_def in_system_def register_message_handler_def on_world_def call_io_def
      io_outcome_def on_system_def act_bind_def assert_def)

lemmas run_handlers = handled_are_def set_list_handled test_register default_ready

lemma test_no_handlers_pass [passes]: test_no_handlers
  by (simp add: test_no_handlers_def run_daemon run_handlers)

lemma test_double_register_handler_pass [passes]: test_double_register_handler
  by (simp add: test_double_register_handler_def run_daemon run_handlers insert_commute)

lemma test_caps_log_addr_pass [passes]: test_caps_log_addr
  by (simp add: test_caps_log_addr_def run_daemon default_ready)

lemma test_unregister:
  "message_handlers (system t) oc = Some h \<Longrightarrow> handler_bus_name h = name \<Longrightarrow>
   in_system (MessageHandlerTask_run oc name [UniqueName name None]) t =
     (Done (), t\<lparr>system := (system t)\<lparr>message_handlers := (message_handlers (system t))(oc := None)\<rparr>\<rparr>)"
  by (simp add: in_system_def MessageHandlerTask_run_def unregister_message_handler_def on_system_def act_bind_def)

lemma test_register_handler_drop_pass [passes]: test_register_handler_drop
  by (simp add: test_register_handler_drop_def run_daemon run_handlers test_unregister)

text \<open>A message that a remote handler takes.\<close>

lemma GetCecVersion_bytes: "Message_to_bytes Message.GetCecVersion = Some [0x9F]"
  by simp

lemma handler_reply:
  assumes "message_handlers (system t) 0x9F = Some h"
  shows "message_reply E (envelope_of Message.GetCecVersion from LogicalAddress.PlaybackDevice1) t =
     (Done (map_option (\<lambda>reason. (Message.FeatureAbort 0x9F reason, from))
        (handler_abort (handler_outcome (world t)))),
      t\<lparr>world := (world t)\<lparr>handled := handled (world t) @
        [(h, LogicalAddress_into from, LogicalAddress_into LogicalAddress.PlaybackDevice1, [0x9F])]\<rparr>\<rparr>)"
  using assms
  by (simp add: message_reply_def default_reply_def LogicalAddress_Broadcast_def Message_opcode_variant
      get_message_handler_def unwrap_option_def GetCecVersion_bytes in_world_def call_def)

lemma handler_replies:
  "handle_reply True reason = None" "handle_reply False 4 = Some AbortReason.Refused"
  by (simp_all add: handle_reply_def try_from_primitive_def AbortReason_variants_def)

lemmas run_reply = arrives_from_def arrives_run handler_reply handler_answers_def handler_abort_def
  handler_replies may_claimed mode_bits

lemma test_register_handler_relay_pass [passes]: test_register_handler_relay
  by (simp add: test_register_handler_relay_def run_daemon run_handlers run_reply)

lemma test_register_handler_timeout_pass [passes]: test_register_handler_timeout
  by (simp add: test_register_handler_timeout_def run_daemon run_handlers run_reply)

lemma test_register_handler_abort_pass [passes]: test_register_handler_abort
  by (simp add: test_register_handler_abort_def run_daemon run_handlers run_reply)

text \<open>Devices that are set up in another way.\<close>

lemma setup_run:
  assumes "DeviceTask_new E closed_device (setup_dev mock_default) (test_system cfg) closed_object = (r, t)"
  shows "r = Done () \<Longrightarrow> setup_dbus_test setup_dev cfg = ready t"
    and "r = Fail e \<Longrightarrow> setup_dbus_test setup_dev cfg = (Fail e, t)"
proof -
  obtain s where "System_new E mock_default = (Done s, mock_default)"
      "set_config E cfg (s, mock_default) = (Done (), test_system cfg, mock_default)"
    using test_set_config by blast
  then show "r = Done () \<Longrightarrow> setup_dbus_test setup_dev cfg = ready t"
    "r = Fail e \<Longrightarrow> setup_dbus_test setup_dev cfg = (Fail e, t)"
    using assms by (simp_all add: setup_dbus_test_def test_open)
qed

lemma no_transmit:
  "mock_mode k = 0 \<Longrightarrow> \<not> contains (mock_caps k) CAP_TRANSMIT \<Longrightarrow>
   set_initiator_mode mock_kernel InitiatorMode.Enabled (d, k) = (Err InvalidData, d, k)"
  by (simp add: set_initiator_mode_def Device_get_mode_def Device_set_mode_def op_bind_def op_return_def
      syscall_def syscall_write_def mock_kernel_def CecMessageHandlingMode_with_initiator_def set_field_def
      mode_bits)

lemma test_no_caps_pass [passes]: test_no_caps
proof -
  have "\<exists>t. DeviceTask_new E closed_device mock_default (test_system Config_default) closed_object =
      (Fail (Library InvalidData), t)"
    by (simp add: DeviceTask_new_def configure_dev_def task_device_run test_caps no_transmit)
  then obtain t where "DeviceTask_new E closed_device mock_default (test_system Config_default) closed_object =
      (Fail (Library InvalidData), t)" by blast
  from setup_run(2) [where setup_dev = "\<lambda>k. k", OF this] show ?thesis
    by (simp add: test_no_caps_def)
qed

text \<open>Without the capability to claim addresses, the device stays as it was opened.\<close>

lemma transmit_new:
  "DeviceTask_new E closed_device (transmit_device mock_default) (test_system Config_default) closed_object =
     (Done (), claimed_task False ((transmit_device mock_default)\<lparr>mock_mode := 0x11\<rparr>)
       (test_system Config_default) closed_object []\<lparr>device := closed_device\<rparr>)"
  by (simp add: DeviceTask_new_def configure_dev_def task_device_run test_caps test_modes transmit_device_def
      configure_uinput_def set_interface_def claimed_task_def closed_object_def completed_def Config_default_def)

lemma transmit_ready:
  "setup_default transmit_device =
     (Done (), claimed_task False ((transmit_device mock_default)\<lparr>mock_mode := 0x11\<rparr>)
       (test_system Config_default) (closed_object\<lparr>channel := Some []\<rparr>) []\<lparr>device := closed_device\<rparr>)"
proof -
  let ?t = "\<lambda>i js. claimed_task False ((transmit_device mock_default)\<lparr>mock_mode := 0x11\<rparr>)
      (test_system Config_default) i js\<lparr>device := closed_device\<rparr>"
  have "on_device (get_logical_addresses mock_kernel) (?t i js) = (Done [], ?t i js)" for i js
    by (simp add: on_device_def mock_get_logical_addresses transmit_device_def closed_device_def claimed_task_def)
  then have "run_job E j (?t i js) = (Done (), ?t i js)" for i j js
    by (simp add: run_job_def current_log_addrs_def)
  moreover have "?t i (j # js)\<lparr>jobs := js\<rparr> = ?t i js" for i j js
    by (simp add: claimed_task_def)
  ultimately have "device_step E (Turn (JobRuns 0)) (?t i (j # js)) = (Done True, ?t i js)" for i j js
    by (simp add: DeviceTask_turn_def act_bind_def)
  then show ?thesis
    unfolding setup_run(1) [where setup_dev = transmit_device, OF transmit_new, OF refl]
    by (simp add: ready_def settle_def set_interface_def DeviceTask_start_def query_audio_system_def spawn_def request_active_source_def
        steps_def claimed_task_def transmit_device_def mock_default_def test_system_def completed_def
        Config_default_def replicate_numeral del: device_step.simps)
qed

lemma test_caps_transmit_only_pass [passes]: test_caps_transmit_only
  by (simp add: test_caps_transmit_only_def passes_test_def transmit_ready assert_def)

lemma test_tx_no_log_addr_pass [passes]: test_tx_no_log_addr
  by (simp add: test_tx_no_log_addr_def passes_test_def transmit_ready assert_def fails_with_def test_standby
      may_transmit_def transmit_device_def)

lemma unregistered_ready:
  "setup_default unregistered_device =
     (Done (), claimed_task True (claimed_world True 0 [] []) (test_system Config_default)
       (ready_object True Config_default) [])"
  by (simp add: setup_run(1) [where setup_dev = unregistered_device,
        OF test_new [where u = True, folded unregistered_device_def]] test_ready
      test_config_def completed_def Config_default_def)

lemma test_tx_invalid_log_addr_pass [passes]: test_tx_invalid_log_addr
  by (simp add: test_tx_invalid_log_addr_def passes_test_def unregistered_ready assert_def fails_with_def
      test_standby may_transmit_def LogicalAddress_Unregistered_def)


end
