(* ===== verification/Spec2Isabelle.thy ===== *)
theory Spec2Isabelle
  imports CodecProperties DeviceProperties DaemonLiveness ConfigProperties CectoolProperties
    ProcessProperties MessageTests OperandTests LibTests DaemonTests SystemTests
begin

text \<open>
  A verification library for \<^bold>\<open>linux-cec\<close>: a Rust library for HDMI CEC on Linux and the daemon
  built on it. This theory imports all others and says how they fit the code.

  \<^bold>\<open>The program.\<close> A CEC message is a sequence of at most 15 bytes between devices on an HDMI bus.
  The crate \<open>linux-cec\<close> has a codec for messages (\<open>message.rs\<close>, \<open>operand.rs\<close>, \<open>cdc.rs\<close>; much of it
  generated by the macros of \<open>linux-cec-macros\<close>), and a \<open>Device\<close> (\<open>device.rs\<close>), which drives an
  adapter through the system calls and structures of \<open>linux-cec-sys\<close>; \<open>async_support.rs\<close> gives the
  device to a thread that answers asynchronous calls. The daemon \<open>cecd\<close> runs one task per adapter
  (\<open>device.rs\<close>), which turns messages of the bus into keys, replies and signals. The tasks share a
  \<open>System\<close> (\<open>system.rs\<close>: configuration, sleep, registered handlers), and each has an object on the
  D-Bus (\<open>dbus.rs\<close>) whose methods clients call.

  \<^bold>\<open>The message codec.\<close>
  \<^item> \<open>Prelude\<close>: integer types, rendering of numbers, lemma collections. \<open>CecError\<close>: \<open>Range\<close>, \<open>Error\<close>
    (\<open>lib.rs\<close>) and the \<open>result\<close> of a Rust function, whose third case is a panic.
  \<^item> \<open>Operand\<close>, \<open>OperandBasic\<close>: the trait \<open>OperandEncodable\<close>. Its laws are locales: what \<open>to_bytes\<close>
    writes, \<open>try_from_bytes\<close> reads back in front of any rest (\<open>operand\<close> and what extends it), decoding
    does not panic, and what is accepted is well formed. Every operand interprets them on its own
    functions. The derive macros are the generic \<open>enum_\<close>, \<open>bitflags_\<close> and struct definitions.
  \<^item> \<open>OperandEnums\<close>, \<open>OperandNumbers\<close>, \<open>OperandBuffers\<close>, \<open>OperandTagged\<close>, \<open>OperandFeatures\<close>,
    \<open>OperandServices\<close>, \<open>OperandTimers\<close>, \<open>OperandSources\<close>, \<open>OperandUi\<close>, \<open>Addresses\<close>: the operands of
    \<open>operand.rs\<close>; \<open>Cdc\<close>: \<open>cdc.rs\<close>; \<open>Messages\<close>: the opcodes and messages of \<open>message.rs\<close>, with what
    \<open>message_enum!\<close> generates. An integer of the code is a word of its width; a \<open>usize\<close> that counts
    bytes is a natural number. Encoding returns an option, since it may panic.
  \<^item> \<open>TextForms\<close>: what \<open>strum\<close> and \<open>serde\<close> derive or the code implements for them: names, their parsers,
    serialized values, and the fields of a configuration file. A serialized value is what a format
    passes to a visitor. \<open>ConfigProperties\<close>: what is written is read back, and which tables of keys are
    accepted.
  \<^item> \<open>CodecProperties\<close>: round trips, soundness, freedom of panics and the errors of the codec.

  \<^bold>\<open>Devices.\<close>
  \<^item> \<open>LogicalAddresses\<close>, \<open>AddressText\<close>, \<open>Modes\<close>: the types of \<open>lib.rs\<close> and \<open>ioctls.rs\<close> that devices use,
    with their text forms. \<open>CecStructs\<close>: the structures of \<open>linux-cec-sys\<close>; arrays are lists with
    their length in a predicate. \<open>Envelope\<close>: frames of sent and received messages.
  \<^item> \<open>DeviceKernel\<close>, \<open>Device\<close>: the record \<open>Device\<close> and its methods. A method is a function from the
    device and a world to a result, the new device and the new world. The kernel is a record of one
    function per system call on the world, any world, with the calls on descriptors: open, duplicate,
    close, \<open>fcntl\<close>, \<open>poll\<close>. Theorems hold for every such record; where
    they need that the kernel fills the structures to their sizes, they say \<open>kernel_sized\<close>.
  \<^item> \<open>AsyncDevice\<close>: the threads of \<open>async_support.rs\<close>, for a device and for a poller, with their
    commands and replies. A method that panics ends its thread, and its caller gets an error.
  \<^item> \<open>DeviceFacts\<close>: Hoare triples \<open>op_safe\<close> and the runs of methods. \<open>DeviceProperties\<close>: addresses,
    frames, the invariant \<open>device_ok\<close> under every sequence of calls, and what each call leaves behind.

  \<^item> \<open>Cectool\<close>: the commands of \<open>bin/cectool.rs\<close> on an open device, with the lines they print.
    \<open>CectoolProperties\<close>: no command panics, and the monitor prints what it receives.

  \<^bold>\<open>The daemon.\<close>
  \<^item> \<open>Action\<close>: an asynchronous function is an \<open>action\<close>, from a state to an outcome (\<open>Done\<close>, \<open>Fail\<close> with an
    error, or \<open>Crash\<close> for a panic) and a state. \<open>Edid\<close>, \<open>DrmConnector\<close>: the physical address behind a
    connector. \<open>UInput\<close>: the virtual keyboard. \<open>DaemonSystem\<close>: \<open>System\<close>, with the record
    \<open>environment\<close> of everything around the daemon: the kernel, login manager, files, clients and the
    virtual keyboard, each a function on the world.
  \<^item> \<open>DeviceTask\<close>: the record \<open>DeviceTask\<close> (with the fields of the object on the bus as \<open>interface\<close>) and
    every handler of the task up to \<open>DeviceTask_turn\<close>, one turn of its loop. \<open>DeviceBus\<close>: the methods
    of the object, and the timers of repeated keys. \<open>BusObjects\<close>: the objects \<open>Daemon\<close> and
    \<open>CecConfig\<close>, and the watch of remote handlers. \<open>DaemonStart\<close>: configuration files, opening and
    registering devices, udev.
  \<^item> \<open>TaskFacts\<close>, \<open>BusFacts\<close>: the invariant \<open>task_inv\<close> of a device of the daemon: its structures are well
    formed, the object on the bus mirrors the task, no key but the active one is down, and repeated
    keys are stored under the address they go to. The locale \<open>task_invariant\<close> states what such an
    invariant needs, and every handler is shown to keep it. \<open>device_run\<close> composes turns of the task,
    calls of clients and turns of repeated keys in any order.
  \<^item> \<open>DaemonProperties\<close>: what follows for the daemon, and the behaviour of its parts.
  \<^item> \<open>Frames\<close>: what each handler leaves alone. A locale, \<open>task_view\<close>, says what a view of the task must
    not depend on to survive every handler; \<open>queue_view\<close> extends it to the queue of callbacks.
    \<open>Addressing\<close>: the logical addresses of a task as a machine of three phases (\<open>phase_step\<close>), an
    inductive set of reachable tasks, and the refinement of the machine by the steps of a device.
    \<open>DaemonLiveness\<close>: the attempts to get an address end, callbacks that wait for one run, and a
    task that has ended rests.

  \<^bold>\<open>The process.\<close>
  \<^item> \<open>DaemonMain\<close>: \<open>main.rs\<close>, with the record \<open>process_environment\<close> of the buses, signals, sockets and
    the clock: the socket of systemd, the start up to the moment when the process waits, the task
    that reloads the configuration, the tasks that follow the login manager and the events of udev,
    and the end. \<open>ProcessProperties\<close>: the process waits for the devices it has registered, its
    registry follows what udev tells of devices, and each reload is announced to systemd before and
    after, or ends the process.

  \<^bold>\<open>The tests of the repository.\<close> \<open>CodecTests\<close> has the macros \<open>message_test\<close> and \<open>opcode_test\<close> as
  functions; \<open>MessageTests\<close>, \<open>OperandTests\<close> and \<open>LibTests\<close> have the test modules of the library, and
  \<open>ConnectorTests\<close> those of the daemon on displays, each test under its name. \<open>MockDevice\<close> is the world
  of the other tests of the daemon: where \<open>cecd/src/testing\<close> replaces the device, the model keeps the
  real one and replaces the kernel below it. \<open>TestSetup\<close> is the harness, a script of calls and turns
  of tasks, with lemmas that run it; \<open>DaemonTests\<close> has the tests on a running device, \<open>ConfigTests\<close>
  those on the configuration on the bus, and \<open>SystemTests\<close> those on the setup and on remote handlers.
  The model passes every one of them: its definitions, which are translated from the code, agree
  with what the authors of the code expect of it on more than 550 concrete inputs and runs.

  \<^bold>\<open>Choices.\<close> A turn of the task, a call of a client and a turn of a repeated key are one step each;
  in the code they exclude each other by the lock of the interface and the queue of the task, so
  that a run is a sequence of steps. Waiting has no effect on the state. A spawned query or callback
  is queued in \<open>jobs\<close> or \<open>with_logical_address_queue\<close> and runs in a turn of its own. A text is the
  list of its UTF-8 bytes where the code looks at bytes (names), and a string of ASCII characters
  elsewhere (paths, numbers). Logging has no effect. Where the code bounds a loop by a constant
  (\<open>REPLY_RETRIES\<close>, \<open>LOG_ADDR_RETRIES\<close>, \<open>WAKE_TRIES\<close>), the recursion is on this number; every other
  loop runs over a buffer whose length is its measure. Fuel is used once: the monitor of
  \<open>cectool\<close> takes a number of frames, after which its result is \<open>None\<close>, and its properties hold for
  every such number.

  \<^bold>\<open>Not modelled.\<close> \<open>Debug\<close> renderings and the formats behind \<open>serde\<close> are code of other crates, as are
  the parsers of arguments. The encoding of the \<open>ioctl\<close> numbers belongs to \<open>nix\<close>. The proxies of \<open>cecd-proxy\<close> and of the login manager are generated
  by \<open>zbus\<close>; the parser of configuration files is the crate \<open>config\<close>, whose result is an argument of
  \<open>DaemonStart\<close>, and the monitors of devices belong to \<open>udev\<close>. Tests of features that are off by
  default are left out, and a remote handler is not told the path of the device.
\<close>

end
